(* ===== verification/Prelude.thy ===== *)
theory Prelude
  imports Main "HOL-Library.Char_ord" "HOL-Library.List_Lexorder"
begin

text \<open>
  Shared vocabulary of the development: the Python exceptions the modelled packages
  raise (as values), the error monad that sequences fallible code, and the generic
  lemmas on lists and options the component theories use.

  A Python \<open>str\<close> is modelled by the bytes of its UTF-8 form and a \<open>bytes\<close> object by its
  bytes, so both are \<open>string\<close>. UTF-8 is injective and keeps the code-point order, so
  equality and the order of Python strings are equality and the lexicographic order
  (\<open>List_Lexorder\<close>, \<open>Char_ord\<close>) of the model's strings.
\<close>

section \<open>Exceptions as values\<close>

datatype exn =
    ManifestValidationError string
  | RegistryValidationError string
  | ReceiptValidationError string
  | ObservationValidationError string
  | StateTransitionError string
  | ReplayBlocked string
  | StaleRevision int int
  | StorageConflict string
  | StorageNotFound string
  | WebAuthnAuthorizationError string
  | SubmissionRejected string
  | BrokerContractError string
  | BrokerProtocolError string
  | RootActionWorkerError string
  | ProjectionError string
  | PublicProjectionError string
  | UsageContractError string
  | UsageCollectionBusy string
  | UsageCostProjectionBusy string
  | UsageLedgerConflict string
  | IntegrityError string
  | OSError string
  | InvalidOperation
  | Overflow
  | DivisionByZero
  | RuntimeError string
  | MarkerBoundRecoveryError string
  | JSONDecodeError
  | UnicodeDecodeError
  | UnicodeEncodeError
  | RecursionError
  | OverflowError
  | ValueError string
  | KeyError string
  | TypeError string
  | AssertionError string
  | AttributeError string

text \<open>
  \<open>except ValueError\<close> also catches the subclasses of \<open>ValueError\<close>; \<open>StorageConflict\<close>,
  \<open>RootActionWorkerError\<close> and \<open>PublicProjectionError\<close> derive from \<open>RuntimeError\<close>,
  \<open>StorageNotFound\<close> from \<open>KeyError\<close>, \<open>RecursionError\<close> and \<open>UsageLedgerConflict\<close> from
  \<open>RuntimeError\<close>, \<open>OverflowError\<close> and the decimal module's \<open>InvalidOperation\<close>, \<open>Overflow\<close> and
  \<open>DivisionByZero\<close> from \<open>ArithmeticError\<close>; \<open>IntegrityError\<close> is the database driver's.
\<close>

fun is_value_error :: "exn \<Rightarrow> bool" where
  "is_value_error (StorageConflict _) = False"
| "is_value_error (StorageNotFound _) = False"
| "is_value_error (RootActionWorkerError _) = False"
| "is_value_error (PublicProjectionError _) = False"
| "is_value_error (UsageLedgerConflict _) = False"
| "is_value_error (IntegrityError _) = False"
| "is_value_error (OSError _) = False"
| "is_value_error InvalidOperation = False"
| "is_value_error Overflow = False"
| "is_value_error DivisionByZero = False"
| "is_value_error (RuntimeError _) = False"
| "is_value_error (MarkerBoundRecoveryError _) = False"
| "is_value_error (KeyError _) = False"
| "is_value_error (TypeError _) = False"
| "is_value_error (AssertionError _) = False"
| "is_value_error (AttributeError _) = False"
| "is_value_error RecursionError = False"
| "is_value_error OverflowError = False"
| "is_value_error _ = True"

text \<open>\<open>type(exc).__name__\<close>\<close>

fun exn_name :: "exn \<Rightarrow> string" where
  "exn_name (ManifestValidationError _) = ''ManifestValidationError''"
| "exn_name (RegistryValidationError _) = ''RegistryValidationError''"
| "exn_name (ReceiptValidationError _) = ''ReceiptValidationError''"
| "exn_name (ObservationValidationError _) = ''ObservationValidationError''"
| "exn_name (StateTransitionError _) = ''StateTransitionError''"
| "exn_name (ReplayBlocked _) = ''ReplayBlocked''"
| "exn_name (StaleRevision _ _) = ''StaleRevision''"
| "exn_name (StorageConflict _) = ''StorageConflict''"
| "exn_name (StorageNotFound _) = ''StorageNotFound''"
| "exn_name (WebAuthnAuthorizationError _) = ''WebAuthnAuthorizationError''"
| "exn_name (SubmissionRejected _) = ''SubmissionRejected''"
| "exn_name (BrokerContractError _) = ''BrokerContractError''"
| "exn_name (BrokerProtocolError _) = ''BrokerProtocolError''"
| "exn_name (RootActionWorkerError _) = ''RootActionWorkerError''"
| "exn_name (ProjectionError _) = ''ProjectionError''"
| "exn_name (PublicProjectionError _) = ''PublicProjectionError''"
| "exn_name (UsageContractError _) = ''UsageContractError''"
| "exn_name (UsageCollectionBusy _) = ''UsageCollectionBusy''"
| "exn_name (UsageCostProjectionBusy _) = ''UsageCostProjectionBusy''"
| "exn_name (UsageLedgerConflict _) = ''UsageLedgerConflict''"
| "exn_name (IntegrityError _) = ''IntegrityError''"
| "exn_name (OSError _) = ''OSError''"
| "exn_name InvalidOperation = ''InvalidOperation''"
| "exn_name Overflow = ''Overflow''"
| "exn_name DivisionByZero = ''DivisionByZero''"
| "exn_name (RuntimeError _) = ''RuntimeError''"
| "exn_name (MarkerBoundRecoveryError _) = ''MarkerBoundRecoveryError''"
| "exn_name JSONDecodeError = ''JSONDecodeError''"
| "exn_name UnicodeDecodeError = ''UnicodeDecodeError''"
| "exn_name UnicodeEncodeError = ''UnicodeEncodeError''"
| "exn_name RecursionError = ''RecursionError''"
| "exn_name OverflowError = ''OverflowError''"
| "exn_name (ValueError _) = ''ValueError''"
| "exn_name (KeyError _) = ''KeyError''"
| "exn_name (TypeError _) = ''TypeError''"
| "exn_name (AssertionError _) = ''AssertionError''"
| "exn_name (AttributeError _) = ''AttributeError''"

type_synonym 'a result = "exn + 'a"

section \<open>Sequencing fallible code\<close>

named_theorems result_simps \<open>inversion rules for code that returned normally\<close>

definition bindE :: "'a result \<Rightarrow> ('a \<Rightarrow> 'b result) \<Rightarrow> 'b result" where
  "bindE m f = (case m of Inl e \<Rightarrow> Inl e | Inr x \<Rightarrow> f x)"

text \<open>\<open>raise_if b e\<close> is the statement \<open>if b: raise e\<close>.\<close>

definition raise_if :: "bool \<Rightarrow> exn \<Rightarrow> unit result" where
  "raise_if b e = (if b then Inl e else Inr ())"

text \<open>\<open>raise_from p e\<close> is \<open>except p as exc: raise e from exc\<close> around a computation.\<close>

definition raise_from :: "(exn \<Rightarrow> bool) \<Rightarrow> exn \<Rightarrow> 'a result \<Rightarrow> 'a result" where
  "raise_from p e m = (case m of Inl x \<Rightarrow> if p x then Inl e else Inl x | Inr y \<Rightarrow> Inr y)"

fun mapE :: "('a \<Rightarrow> 'b result) \<Rightarrow> 'a list \<Rightarrow> 'b list result" where
  "mapE f [] = Inr []"
| "mapE f (x # xs) = bindE (f x) (\<lambda>y. bindE (mapE f xs) (\<lambda>ys. Inr (y # ys)))"

text \<open>A loop whose body only checks.\<close>

fun forE :: "('a \<Rightarrow> unit result) \<Rightarrow> 'a list \<Rightarrow> unit result" where
  "forE f [] = Inr ()"
| "forE f (x # xs) = bindE (f x) (\<lambda>_. forE f xs)"

lemma bindE_cong [fundef_cong]:
  assumes "m = m'" and "\<And>x. m' = Inr x \<Longrightarrow> f x = f' x"
  shows "bindE m f = bindE m' f'"
  using assms by (auto simp: bindE_def split: sum.splits)

lemma bindE_simps [simp]:
  "bindE (Inr x) f = f x"
  "bindE (Inl e) f = Inl e"
  by (simp_all add: bindE_def)

lemma bindE_Inr_iff [result_simps]:
  "bindE m f = Inr y \<longleftrightarrow> (\<exists>x. m = Inr x \<and> f x = Inr y)"
  by (auto simp: bindE_def split: sum.splits)

lemma bindE_Inl_iff:
  "bindE m f = Inl e \<longleftrightarrow> m = Inl e \<or> (\<exists>x. m = Inr x \<and> f x = Inl e)"
  by (auto simp: bindE_def split: sum.splits)

lemma raise_if_simps [simp]:
  "raise_if True e = Inl e"
  "raise_if False e = Inr ()"
  by (simp_all add: raise_if_def)

lemma raise_if_Inr_iff [result_simps]: "raise_if b e = Inr u \<longleftrightarrow> \<not> b"
  by (simp add: raise_if_def)

lemma raise_if_Inl_iff: "raise_if b e = Inl e' \<longleftrightarrow> b \<and> e' = e"
  by (auto simp: raise_if_def)

lemma raise_from_Inr_iff [result_simps]: "raise_from p e m = Inr y \<longleftrightarrow> m = Inr y"
  by (auto simp: raise_from_def split: sum.splits if_splits)

lemma raise_from_simps [simp]:
  "raise_from p e (Inr y) = Inr y"
  "raise_from p e (Inl x) = (if p x then Inl e else Inl x)"
  by (simp_all add: raise_from_def)

lemma case_option_Inr_iff [result_simps]:
  "(case x of None \<Rightarrow> Inl e | Some v \<Rightarrow> f v) = Inr y \<longleftrightarrow> (\<exists>v. x = Some v \<and> f v = Inr y)"
  by (cases x) auto

lemma mapE_Inr_iff: "mapE f xs = Inr ys \<longleftrightarrow> list_all2 (\<lambda>x y. f x = Inr y) xs ys"
  by (induction xs arbitrary: ys) (auto simp: bindE_Inr_iff list_all2_Cons1)

lemma mapE_Inr_map: "mapE f xs = Inr ys \<Longrightarrow> (\<And>x y. f x = Inr y \<Longrightarrow> y = g x) \<Longrightarrow> ys = map g xs"
  by (induction xs arbitrary: ys) (auto simp: result_simps)

lemma mapE_Inr_all:
  assumes "\<And>x. x \<in> set xs \<Longrightarrow> f x = Inr (g x)"
  shows "mapE f xs = Inr (map g xs)"
  using assms by (induction xs) auto

lemma forE_Inr_iff [result_simps]: "forE f xs = Inr u \<longleftrightarrow> (\<forall>x\<in>set xs. f x = Inr ())"
  by (induction xs) (auto simp: bindE_Inr_iff)

lemma mapE_cong: "(\<And>x. x \<in> set xs \<Longrightarrow> f x = g x) \<Longrightarrow> mapE f xs = mapE g xs"
  by (induction xs) auto

lemma forE_cong: "(\<And>x. x \<in> set xs \<Longrightarrow> f x = g x) \<Longrightarrow> forE f xs = forE g xs"
  by (induction xs) auto

lemma mapE_map: "mapE f (map g xs) = mapE (\<lambda>x. f (g x)) xs"
  by (induction xs) auto

lemma forE_map: "forE f (map g xs) = forE (\<lambda>x. f (g x)) xs"
  by (induction xs) auto

lemma enumerate_map_snd: "enumerate n (map f xs) = map (\<lambda>(i, x). (i, f x)) (enumerate n xs)"
  by (induction xs arbitrary: n) auto

lemma forE_enumerate:
  "forE (\<lambda>(i, x). g i x) (enumerate n xs) = Inr u \<longleftrightarrow> (\<forall>i<length xs. g (n + i) (xs ! i) = Inr ())"
  by (induction xs arbitrary: n) (auto simp: bindE_Inr_iff less_Suc_eq_0_disj)

lemma mapE_enumerate:
  "mapE (\<lambda>(i, x). g i x) (enumerate n xs) = Inr ys \<longleftrightarrow>
     length ys = length xs \<and> (\<forall>i<length xs. g (n + i) (xs ! i) = Inr (ys ! i))"
proof (induction xs arbitrary: n ys)
  case (Cons x xs)
  show ?case
    by (cases ys) (auto simp: bindE_Inr_iff Cons less_Suc_eq_0_disj)
qed auto

section \<open>Generic lemmas\<close>

lemma find_SomeD: "List.find P xs = Some x \<Longrightarrow> x \<in> set xs \<and> P x"
  by (induction xs) (auto split: if_splits)

lemma find_None_iff': "List.find P xs = None \<longleftrightarrow> (\<forall>x\<in>set xs. \<not> P x)"
  by (induction xs) auto

lemma find_append: "List.find P (xs @ ys) = (case List.find P xs of None \<Rightarrow> List.find P ys | Some x \<Rightarrow> Some x)"
  by (induction xs) auto

lemma distinct_map_unique:
  "distinct (map f xs) \<Longrightarrow> x \<in> set xs \<Longrightarrow> y \<in> set xs \<Longrightarrow> f x = f y \<Longrightarrow> x = y"
  by (metis distinct_map inj_on_def)

lemma find_unique:
  assumes "distinct (map f xs)" and "x \<in> set xs"
  shows "List.find (\<lambda>y. f y = f x) xs = Some x"
proof (cases "List.find (\<lambda>y. f y = f x) xs")
  case None
  with assms(2) show ?thesis by (auto simp: find_None_iff')
next
  case (Some y)
  then have "y \<in> set xs" "f y = f x" by (auto dest: find_SomeD)
  with assms have "y = x" by (blast intro: distinct_map_unique)
  with Some show ?thesis by simp
qed

end
