(* ===== verification/Text_Formats.thy ===== *)
theory Text_Formats
  imports Prelude
begin

text \<open>
  The text formats every root-action module checks: safe identifiers, SHA-256 digests,
  revisions, and the UTF-8 form of strings. The modules \<open>registry.py\<close>, \<open>contracts.py\<close>,
  \<open>state.py\<close>, \<open>receipts.py\<close> and \<open>authorization.py\<close> each compile their own copy of these
  regular expressions; the model has one definition per pattern, used for \<open>fullmatch\<close>.
\<close>

section \<open>Character classes\<close>

definition is_digit :: "char \<Rightarrow> bool" where
  "is_digit c \<longleftrightarrow> CHR ''0'' \<le> c \<and> c \<le> CHR ''9''"

definition is_lower :: "char \<Rightarrow> bool" where
  "is_lower c \<longleftrightarrow> CHR ''a'' \<le> c \<and> c \<le> CHR ''z''"

definition is_upper :: "char \<Rightarrow> bool" where
  "is_upper c \<longleftrightarrow> CHR ''A'' \<le> c \<and> c \<le> CHR ''Z''"

definition is_hex :: "char \<Rightarrow> bool" where
  "is_hex c \<longleftrightarrow> is_digit c \<or> (CHR ''a'' \<le> c \<and> c \<le> CHR ''f'')"

text \<open>Lower-case hexadecimal digits.\<close>

definition hex_char :: "nat \<Rightarrow> char" where
  "hex_char n = (if n < 10 then char_of (48 + n) else char_of (87 + n))"

lemmas char_class_defs = is_digit_def is_lower_def is_upper_def is_hex_def

section \<open>Identifiers and digests\<close>

text \<open>\<open>[a-z0-9][a-z0-9._:-]{0,127}\<close>\<close>

definition id_head :: "char \<Rightarrow> bool" where
  "id_head c \<longleftrightarrow> is_lower c \<or> is_digit c"

definition id_tail :: "char \<Rightarrow> bool" where
  "id_tail c \<longleftrightarrow> id_head c \<or> c = CHR ''.'' \<or> c = CHR ''_'' \<or> c = CHR '':'' \<or> c = CHR ''-''"

definition SAFE_ID_RE :: "string \<Rightarrow> bool" where
  "SAFE_ID_RE s = (case s of [] \<Rightarrow> False
     | c # cs \<Rightarrow> id_head c \<and> length cs \<le> 127 \<and> list_all id_tail cs)"

text \<open>\<open>sha256:[0-9a-f]{64}\<close>\<close>

definition DIGEST_RE :: "string \<Rightarrow> bool" where
  "DIGEST_RE s \<longleftrightarrow> take 7 s = ''sha256:'' \<and> length s = 71 \<and> list_all is_hex (drop 7 s)"

text \<open>\<open>[0-9a-f]{40}\<close>\<close>

definition REVISION_RE :: "string \<Rightarrow> bool" where
  "REVISION_RE s \<longleftrightarrow> length s = 40 \<and> list_all is_hex s"

lemma SAFE_ID_RE_not_empty [simp]: "\<not> SAFE_ID_RE []"
  by (simp add: SAFE_ID_RE_def)

lemma SAFE_ID_RE_length: "SAFE_ID_RE s \<Longrightarrow> 1 \<le> length s \<and> length s \<le> 128"
  by (auto simp: SAFE_ID_RE_def split: list.splits)

lemma SAFE_ID_RE_chars: "SAFE_ID_RE s \<Longrightarrow> list_all id_tail s"
  by (auto simp: SAFE_ID_RE_def id_tail_def split: list.splits)

lemma DIGEST_RE_length: "DIGEST_RE s \<Longrightarrow> length s = 71"
  by (simp add: DIGEST_RE_def)

lemma DIGEST_RE_not_empty [simp]: "\<not> DIGEST_RE []"
  by (simp add: DIGEST_RE_def)

lemma DIGEST_RE_prefix: "length h = 64 \<Longrightarrow> list_all is_hex h \<Longrightarrow> DIGEST_RE (''sha256:'' @ h)"
  by (simp add: DIGEST_RE_def)

lemma id_tail_ascii: "id_tail c \<Longrightarrow> of_char c < (128::nat)"
  by (auto simp: id_tail_def id_head_def char_class_defs less_eq_char_def)

lemma is_hex_hex_char: "n < 16 \<Longrightarrow> is_hex (hex_char n)"
  by (auto simp: is_hex_def is_digit_def hex_char_def less_eq_char_def)

section \<open>UTF-8\<close>

text \<open>
  \<open>utf8_valid\<close> is the strict decoder of CPython: well-formed sequences only, no overlong
  form, no surrogate, nothing above U+10FFFF. A Python \<open>str\<close> that holds a lone surrogate
  (\<open>json.loads\<close> makes one from an escape such as \<open>\ud800\<close>) is modelled by the
  three-byte pattern of that surrogate; \<open>str.encode("utf-8")\<close> then raises, because the
  bytes are not valid UTF-8.
\<close>

definition is_cont :: "char \<Rightarrow> bool" where
  "is_cont c \<longleftrightarrow> 128 \<le> (of_char c :: nat) \<and> (of_char c :: nat) < 192"

definition between :: "nat \<Rightarrow> nat \<Rightarrow> char \<Rightarrow> bool" where
  "between lo hi c \<longleftrightarrow> lo \<le> of_char c \<and> of_char c \<le> hi"

fun utf8_valid :: "string \<Rightarrow> bool" where
  "utf8_valid [] = True"
| "utf8_valid (a # s) =
     (if between 0 127 a then utf8_valid s
      else if between 194 223 a then
        (case s of b # s' \<Rightarrow> is_cont b \<and> utf8_valid s' | _ \<Rightarrow> False)
      else if between 224 239 a then
        (case s of b # c # s' \<Rightarrow>
             is_cont b \<and> is_cont c
             \<and> (a = CHR 0xE0 \<longrightarrow> between 160 191 b)
             \<and> (a = CHR 0xED \<longrightarrow> between 128 159 b) \<and> utf8_valid s'
         | _ \<Rightarrow> False)
      else if between 240 244 a then
        (case s of b # c # d # s' \<Rightarrow>
             is_cont b \<and> is_cont c \<and> is_cont d
             \<and> (a = CHR 0xF0 \<longrightarrow> between 144 191 b)
             \<and> (a = CHR 0xF4 \<longrightarrow> between 128 143 b) \<and> utf8_valid s'
         | _ \<Rightarrow> False)
      else False)"

definition encode_utf8 :: "string \<Rightarrow> string result" where
  "encode_utf8 s = (if utf8_valid s then Inr s else Inl UnicodeEncodeError)"

definition decode_utf8 :: "string \<Rightarrow> string result" where
  "decode_utf8 s = (if utf8_valid s then Inr s else Inl UnicodeDecodeError)"

text \<open>\<open>chr\<close> of a code point, and the code points of a string.\<close>

definition utf8_of :: "nat \<Rightarrow> string" where
  "utf8_of n =
     (if n < 128 then [char_of n]
      else if n < 2048 then [char_of (192 + n div 64), char_of (128 + n mod 64)]
      else if n < 65536 then
        [char_of (224 + n div 4096), char_of (128 + (n div 64) mod 64), char_of (128 + n mod 64)]
      else [char_of (240 + n div 262144), char_of (128 + (n div 4096) mod 64),
            char_of (128 + (n div 64) mod 64), char_of (128 + n mod 64)])"

fun codepoints :: "string \<Rightarrow> nat list" where
  "codepoints [] = []"
| "codepoints (a # s) =
     (let n = of_char a in
      if n < 128 then n # codepoints s
      else if n < 224 then
        (case s of b # s' \<Rightarrow> ((n mod 32) * 64 + of_char b mod 64) # codepoints s' | _ \<Rightarrow> [n])
      else if n < 240 then
        (case s of b # c # s' \<Rightarrow>
             ((n mod 16) * 4096 + (of_char b mod 64) * 64 + of_char c mod 64) # codepoints s'
         | _ \<Rightarrow> [n])
      else (case s of b # c # d # s' \<Rightarrow>
             ((n mod 8) * 262144 + (of_char b mod 64) * 4096 + (of_char c mod 64) * 64
               + of_char d mod 64) # codepoints s'
         | _ \<Rightarrow> [n]))"

text \<open>\<open>len\<close> of a Python string counts code points.\<close>

definition py_len :: "string \<Rightarrow> nat" where
  "py_len s = length (codepoints s)"

declare utf8_valid.simps(2) [simp del] codepoints.simps(2) [simp del]

lemma utf8_valid_ascii_Cons: "of_char a < (128::nat) \<Longrightarrow> utf8_valid (a # s) = utf8_valid s"
  by (simp add: utf8_valid.simps(2) between_def)

lemma utf8_valid_ascii: "list_all (\<lambda>c. of_char c < (128::nat)) s \<Longrightarrow> utf8_valid s"
  by (induction s) (simp_all add: utf8_valid_ascii_Cons)

lemma codepoints_ascii: "list_all (\<lambda>c. of_char c < (128::nat)) s \<Longrightarrow> codepoints s = map of_char s"
  by (induction s) (simp_all add: codepoints.simps(2) Let_def)

lemma SAFE_ID_RE_ascii: "SAFE_ID_RE s \<Longrightarrow> list_all (\<lambda>c. of_char c < (128::nat)) s"
  using SAFE_ID_RE_chars by (auto simp: list_all_iff intro: id_tail_ascii)

lemma SAFE_ID_RE_utf8: "SAFE_ID_RE s \<Longrightarrow> utf8_valid s"
  by (intro utf8_valid_ascii SAFE_ID_RE_ascii)

lemma is_hex_ascii: "is_hex c \<Longrightarrow> of_char c < (128::nat)"
  by (auto simp: char_class_defs less_eq_char_def)

lemma DIGEST_RE_ascii: "DIGEST_RE s \<Longrightarrow> list_all (\<lambda>c. of_char c < (128::nat)) s"
proof -
  assume d: "DIGEST_RE s"
  then have "s = ''sha256:'' @ drop 7 s"
    by (metis DIGEST_RE_def append_take_drop_id)
  moreover have "list_all (\<lambda>c. of_char c < (128::nat)) (drop 7 s)"
    using d by (auto simp: DIGEST_RE_def list_all_iff intro: is_hex_ascii)
  moreover have "list_all (\<lambda>c. of_char c < (128::nat)) ''sha256:''"
    by simp
  ultimately show ?thesis
    by (metis list_all_append)
qed

lemma DIGEST_RE_utf8: "DIGEST_RE s \<Longrightarrow> utf8_valid s"
  by (intro utf8_valid_ascii DIGEST_RE_ascii)

lemma encode_utf8_Inr_iff [result_simps]: "encode_utf8 s = Inr t \<longleftrightarrow> utf8_valid s \<and> t = s"
  by (auto simp: encode_utf8_def)

lemma decode_utf8_Inr_iff [result_simps]: "decode_utf8 s = Inr t \<longleftrightarrow> utf8_valid s \<and> t = s"
  by (auto simp: decode_utf8_def)

end
