(* ===== verification/Timestamps.thy ===== *)
theory Timestamps
  imports Text_Formats
begin

text \<open>
  The timestamps of the package: RFC3339 UTC second texts such as
  \<open>2026-07-01T00:00:00Z\<close>, the regular expression every module checks them with,
  \<open>datetime.strptime\<close> and \<open>strftime\<close> for the format \<open>%Y-%m-%dT%H:%M:%SZ\<close>, and the
  arithmetic of \<open>datetime\<close> and \<open>timedelta\<close> the code uses. The main results: the text order
  of two checked timestamps is the order of the instants, and shifting an instant and
  printing it gives a text that reads back as the shifted instant.
\<close>

section \<open>The proleptic Gregorian calendar\<close>

datatype civil = Civil (year: nat) (month: nat) (day: nat) (hour: nat) (minute: nat) (sec: nat)

definition is_leap :: "nat \<Rightarrow> bool" where
  "is_leap y \<longleftrightarrow> y mod 4 = 0 \<and> (y mod 100 \<noteq> 0 \<or> y mod 400 = 0)"

definition days_in_month :: "nat \<Rightarrow> nat \<Rightarrow> nat" where
  "days_in_month y m =
     (if m = 2 then (if is_leap y then 29 else 28)
      else if m = 4 \<or> m = 6 \<or> m = 9 \<or> m = 11 then 30 else 31)"

definition days_in_year :: "nat \<Rightarrow> nat" where
  "days_in_year y = (if is_leap y then 366 else 365)"

definition days_before_year :: "nat \<Rightarrow> nat" where
  "days_before_year y = (y - 1) * 365 + (y - 1) div 4 - (y - 1) div 100 + (y - 1) div 400"

definition days_before_month :: "nat \<Rightarrow> nat \<Rightarrow> nat" where
  "days_before_month y m = sum_list (map (days_in_month y) [1..<m])"

definition toordinal :: "nat \<Rightarrow> nat \<Rightarrow> nat \<Rightarrow> nat" where
  "toordinal y m d = days_before_year y + days_before_month y m + d"

definition civil_ok :: "civil \<Rightarrow> bool" where
  "civil_ok c \<longleftrightarrow> 1 \<le> year c \<and> year c \<le> 9999 \<and> 1 \<le> month c \<and> month c \<le> 12
     \<and> 1 \<le> day c \<and> day c \<le> days_in_month (year c) (month c)
     \<and> hour c < 24 \<and> minute c < 60 \<and> sec c < 60"

text \<open>Seconds since the start of day zero: what comparing and subtracting datetimes computes.\<close>

definition instant :: "civil \<Rightarrow> int" where
  "instant c = int (toordinal (year c) (month c) (day c)) * 86400
     + int (hour c * 3600 + minute c * 60 + sec c)"

function year_walk :: "nat \<Rightarrow> nat \<Rightarrow> nat \<times> nat" where
  "year_walk y r = (if r < days_in_year y then (y, r) else year_walk (Suc y) (r - days_in_year y))"
  by pat_completeness auto
termination
  by (relation "measure snd") (auto simp: days_in_year_def)

function month_walk :: "nat \<Rightarrow> nat \<Rightarrow> nat \<Rightarrow> nat \<times> nat" where
  "month_walk y m r =
     (if r < days_in_month y m \<or> 12 \<le> m then (m, r)
      else month_walk y (Suc m) (r - days_in_month y m))"
  by pat_completeness auto
termination
  by (relation "measure (\<lambda>(y, m, r). 12 - m)") auto

declare year_walk.simps [simp del] month_walk.simps [simp del]

text \<open>\<open>date.fromordinal\<close>: whole 400-year cycles first, then years and months.\<close>

definition fromordinal :: "nat \<Rightarrow> nat \<times> nat \<times> nat" where
  "fromordinal n =
     (let (y, r) = year_walk (400 * ((n - 1) div 146097) + 1) ((n - 1) mod 146097);
          (m, d) = month_walk y 1 r
      in (y, m, Suc d))"

definition from_instant :: "int \<Rightarrow> civil" where
  "from_instant t =
     (let n = nat (t div 86400); s = nat (t mod 86400); (y, m, d) = fromordinal n
      in Civil y m d (s div 3600) (s div 60 mod 60) (s mod 60))"

definition min_instant :: int where "min_instant = 86400"

definition max_instant :: int where "max_instant = 3652059 * 86400 + 86399"

section \<open>Printing and parsing\<close>

definition digit_char :: "nat \<Rightarrow> char" where
  "digit_char n = char_of (48 + n)"

definition digit_val :: "char \<Rightarrow> nat" where
  "digit_val c = of_char c - 48"

fun show_nat :: "nat \<Rightarrow> string" where
  "show_nat n = (if n < 10 then [digit_char n] else show_nat (n div 10) @ [digit_char (n mod 10)])"

declare show_nat.simps [simp del]

definition read_nat :: "string \<Rightarrow> nat" where
  "read_nat s = foldl (\<lambda>n c. 10 * n + digit_val c) 0 s"

definition pad2 :: "nat \<Rightarrow> string" where
  "pad2 n = [digit_char (n div 10), digit_char (n mod 10)]"

text \<open>\<open>strftime("%Y-%m-%dT%H:%M:%SZ")\<close>; the C library prints the year without padding.\<close>

definition strftime :: "civil \<Rightarrow> string" where
  "strftime c = show_nat (year c) @ ''-'' @ pad2 (month c) @ ''-'' @ pad2 (day c) @ ''T''
     @ pad2 (hour c) @ '':'' @ pad2 (minute c) @ '':'' @ pad2 (sec c) @ ''Z''"

text \<open>
  \<open>strptime\<close> compiles the format to a regular expression (case-insensitive) in which a
  two-digit field also matches a single digit, and then builds the datetime, which
  refuses a day outside its month and second 60. Each field is followed by a separator
  that no field contains, so the field is the text up to that separator.
\<close>

fun upto_sep :: "char \<Rightarrow> char \<Rightarrow> string \<Rightarrow> (string \<times> string) option" where
  "upto_sep a b [] = None"
| "upto_sep a b (c # s) =
     (if c = a \<or> c = b then Some ([], s)
      else (case upto_sep a b s of None \<Rightarrow> None | Some (f, r) \<Rightarrow> Some (c # f, r)))"

definition field_month :: "string \<Rightarrow> bool" where
  "field_month f = (case f of
       [b] \<Rightarrow> CHR ''1'' \<le> b \<and> b \<le> CHR ''9''
     | [a, b] \<Rightarrow> (a = CHR ''0'' \<and> CHR ''1'' \<le> b \<and> b \<le> CHR ''9'') \<or> (a = CHR ''1'' \<and> CHR ''0'' \<le> b \<and> b \<le> CHR ''2'')
     | _ \<Rightarrow> False)"

definition field_day :: "string \<Rightarrow> bool" where
  "field_day f = (case f of
       [b] \<Rightarrow> CHR ''1'' \<le> b \<and> b \<le> CHR ''9''
     | [a, b] \<Rightarrow> ((a = CHR ''0'' \<or> a = CHR '' '') \<and> CHR ''1'' \<le> b \<and> b \<le> CHR ''9'')
         \<or> ((a = CHR ''1'' \<or> a = CHR ''2'') \<and> is_digit b) \<or> (a = CHR ''3'' \<and> (b = CHR ''0'' \<or> b = CHR ''1''))
     | _ \<Rightarrow> False)"

definition field_hour :: "string \<Rightarrow> bool" where
  "field_hour f = (case f of
       [b] \<Rightarrow> is_digit b
     | [a, b] \<Rightarrow> ((a = CHR ''0'' \<or> a = CHR ''1'') \<and> is_digit b) \<or> (a = CHR ''2'' \<and> CHR ''0'' \<le> b \<and> b \<le> CHR ''3'')
     | _ \<Rightarrow> False)"

definition field_sixty :: "string \<Rightarrow> bool" where
  "field_sixty f = (case f of
       [b] \<Rightarrow> is_digit b
     | [a, b] \<Rightarrow> CHR ''0'' \<le> a \<and> a \<le> CHR ''5'' \<and> is_digit b
     | _ \<Rightarrow> False)"

text \<open>\<open>%S\<close> also matches 60 and 61, which the datetime constructor then refuses.\<close>

definition field_num :: "string \<Rightarrow> nat" where
  "field_num f = read_nat (filter is_digit f)"

definition strptime :: "string \<Rightarrow> civil option" where
  "strptime s =
     (if length s \<ge> 5 \<and> list_all is_digit (take 4 s) \<and> s ! 4 = CHR ''-'' then
        (case upto_sep CHR ''-'' CHR ''-'' (drop 5 s) of None \<Rightarrow> None | Some (fm, r1) \<Rightarrow>
        (case upto_sep CHR ''T'' CHR ''t'' r1 of None \<Rightarrow> None | Some (fd, r2) \<Rightarrow>
        (case upto_sep CHR '':'' CHR '':'' r2 of None \<Rightarrow> None | Some (fh, r3) \<Rightarrow>
        (case upto_sep CHR '':'' CHR '':'' r3 of None \<Rightarrow> None | Some (fn, r4) \<Rightarrow>
        (case upto_sep CHR ''Z'' CHR ''z'' r4 of None \<Rightarrow> None | Some (fs, r5) \<Rightarrow>
           (let c = Civil (read_nat (take 4 s)) (field_num fm) (field_num fd)
                     (field_num fh) (field_num fn) (field_num fs)
            in if field_month fm \<and> field_day fd \<and> field_hour fh \<and> field_sixty fn
                 \<and> field_sixty fs \<and> r5 = [] \<and> civil_ok c
               then Some c else None))))))
      else None)"

text \<open>
  \<open>20[0-9]{2}-(?:0[1-9]|1[0-2])-(?:0[1-9]|[12][0-9]|3[01])\<close>
  \<open>T(?:[01][0-9]|2[0-3]):[0-5][0-9]:[0-5][0-9]Z\<close>
\<close>

definition TIMESTAMP_RE :: "string \<Rightarrow> bool" where
  "TIMESTAMP_RE s \<longleftrightarrow> length s = 20 \<and> take 2 s = ''20'' \<and> is_digit (s ! 2) \<and> is_digit (s ! 3)
     \<and> s ! 4 = CHR ''-''
     \<and> ((s ! 5 = CHR ''0'' \<and> CHR ''1'' \<le> s ! 6 \<and> s ! 6 \<le> CHR ''9'')
        \<or> (s ! 5 = CHR ''1'' \<and> CHR ''0'' \<le> s ! 6 \<and> s ! 6 \<le> CHR ''2''))
     \<and> s ! 7 = CHR ''-''
     \<and> ((s ! 8 = CHR ''0'' \<and> CHR ''1'' \<le> s ! 9 \<and> s ! 9 \<le> CHR ''9'')
        \<or> ((s ! 8 = CHR ''1'' \<or> s ! 8 = CHR ''2'') \<and> is_digit (s ! 9))
        \<or> (s ! 8 = CHR ''3'' \<and> (s ! 9 = CHR ''0'' \<or> s ! 9 = CHR ''1'')))
     \<and> s ! 10 = CHR ''T''
     \<and> (((s ! 11 = CHR ''0'' \<or> s ! 11 = CHR ''1'') \<and> is_digit (s ! 12))
        \<or> (s ! 11 = CHR ''2'' \<and> CHR ''0'' \<le> s ! 12 \<and> s ! 12 \<le> CHR ''3''))
     \<and> s ! 13 = CHR '':'' \<and> CHR ''0'' \<le> s ! 14 \<and> s ! 14 \<le> CHR ''5'' \<and> is_digit (s ! 15)
     \<and> s ! 16 = CHR '':'' \<and> CHR ''0'' \<le> s ! 17 \<and> s ! 17 \<le> CHR ''5'' \<and> is_digit (s ! 18)
     \<and> s ! 19 = CHR ''Z''"

text \<open>The check every module makes: the pattern and a real calendar date.\<close>

definition timestamp_ok :: "string \<Rightarrow> bool" where
  "timestamp_ok s \<longleftrightarrow> TIMESTAMP_RE s \<and> strptime s \<noteq> None"

definition parse_instant :: "string \<Rightarrow> int result" where
  "parse_instant s = (case strptime s of
       None \<Rightarrow> Inl (ValueError ''time data does not match format'')
     | Some c \<Rightarrow> Inr (instant c))"

text \<open>\<open>datetime + timedelta(seconds=k)\<close> overflows outside years 1 to 9999.\<close>

definition shift_instant :: "int \<Rightarrow> int \<Rightarrow> int result" where
  "shift_instant t k = (if min_instant \<le> t + k \<and> t + k \<le> max_instant then Inr (t + k) else Inl OverflowError)"

definition format_instant :: "int \<Rightarrow> string" where
  "format_instant t = strftime (from_instant t)"

text \<open>The key datetimes are ordered by, and the bounds of the years the pattern admits.\<close>

definition civil_key :: "civil \<Rightarrow> nat list" where
  "civil_key c = [year c, month c, day c, hour c, minute c, sec c]"

definition instant_2000 :: int where "instant_2000 = instant (Civil 2000 1 1 0 0 0)"

definition instant_2100 :: int where "instant_2100 = instant (Civil 2100 1 1 0 0 0)"

section \<open>The calendar functions are inverse to each other\<close>

lemma digit_char_simps [simp]:
  "digit_char 0 = CHR ''0''" "digit_char (Suc 0) = CHR ''1''" "digit_char 1 = CHR ''1''"
  "digit_char 2 = CHR ''2''" "digit_char 3 = CHR ''3''" "digit_char 4 = CHR ''4''"
  "digit_char 5 = CHR ''5''" "digit_char 6 = CHR ''6''" "digit_char 7 = CHR ''7''"
  "digit_char 8 = CHR ''8''" "digit_char 9 = CHR ''9''"
  by code_simp+

lemma year_step_arith:
  fixes a b c da db dc x :: nat
  assumes "b \<le> a" and "db \<le> da"
  shows "Suc x * 365 + (a + da) - (b + db) + (c + dc) = (x * 365 + a - b + c) + (365 + da + dc - db)"
  using assms by simp

lemma days_before_year_Suc:
  "1 \<le> y \<Longrightarrow> days_before_year (Suc y) = days_before_year y + days_in_year y"
proof -
  assume "1 \<le> y"
  then obtain x where y: "y = Suc x" by (cases y) auto
  have d: "Suc x div k = x div k + (if Suc x mod k = 0 then 1 else 0)" if "0 < k" for k
    using that by (simp add: div_Suc mod_Suc)
  have l: "x div 100 \<le> x div 4" "Suc x div 100 \<le> Suc x div 4"
    by (simp_all add: div_le_mono2)
  have m: "Suc x mod 400 = 0 \<Longrightarrow> Suc x mod 100 = 0" "Suc x mod 100 = 0 \<Longrightarrow> Suc x mod 4 = 0"
    by (auto simp: mod_eq_0_iff_dvd elim: dvd_trans [rotated])
  let ?da = "if Suc x mod 4 = 0 then 1 else 0 :: nat" and ?db = "if Suc x mod 100 = 0 then 1 else 0 :: nat"
    and ?dc = "if Suc x mod 400 = 0 then 1 else 0 :: nat"
  have "?db \<le> ?da" using m(2) by simp
  from year_step_arith [OF l(1) this, of x "x div 400" ?dc]
  have "days_before_year (Suc (Suc x)) = days_before_year (Suc x) + (365 + ?da + ?dc - ?db)"
    unfolding days_before_year_def diff_Suc_1 by (simp only: d zero_less_numeral)
  moreover have "365 + ?da + ?dc - ?db = days_in_year (Suc x)"
    using m unfolding days_in_year_def is_leap_def
    by (cases "Suc x mod 400 = 0"; cases "Suc x mod 100 = 0"; cases "Suc x mod 4 = 0") simp_all
  ultimately show ?thesis by (simp only: y)
qed

lemma year_walk_inv:
  assumes "year_walk y r = (y', r')" and "1 \<le> y"
  shows "days_before_year y' + r' = days_before_year y + r \<and> r' < days_in_year y' \<and> y \<le> y'"
  using assms
proof (induction y r rule: year_walk.induct)
  case (1 y r)
  show ?case
  proof (cases "r < days_in_year y")
    case True
    with "1.prems" show ?thesis by (simp add: year_walk.simps)
  next
    case False
    with "1.prems" have "year_walk (Suc y) (r - days_in_year y) = (y', r')"
      by (simp add: year_walk.simps [of y])
    from "1.IH" [OF False this] "1.prems" False show ?thesis
      by (simp add: days_before_year_Suc)
  qed
qed

lemma days_before_month_Suc:
  "1 \<le> m \<Longrightarrow> days_before_month y (Suc m) = days_before_month y m + days_in_month y m"
  by (simp add: days_before_month_def)

lemma days_before_month_13: "days_before_month y 13 = days_in_year y"
  by (simp add: days_before_month_def days_in_month_def days_in_year_def upt_rec)

lemma month_walk_inv:
  assumes "month_walk y m r = (m', r')" and "1 \<le> m" and "m \<le> 12"
    and "days_before_month y m + r < days_before_month y 13"
  shows "days_before_month y m' + r' = days_before_month y m + r \<and> r' < days_in_month y m'
    \<and> 1 \<le> m' \<and> m' \<le> 12"
  using assms
proof (induction y m r rule: month_walk.induct)
  case (1 y m r)
  show ?case
  proof (cases "r < days_in_month y m \<or> 12 \<le> m")
    case True
    have "r < days_in_month y m"
    proof (cases "12 \<le> m")
      case True
      with "1.prems" have "m = 12" by simp
      with "1.prems"(4) show ?thesis
        using days_before_month_Suc [of 12 y] by simp
    qed (use True in simp)
    with True "1.prems" show ?thesis by (simp add: month_walk.simps [of y m])
  next
    case False
    with "1.prems" have "month_walk y (Suc m) (r - days_in_month y m) = (m', r')"
      by (simp add: month_walk.simps [of y m])
    from "1.IH" [OF False this] "1.prems" False show ?thesis
      by (simp add: days_before_month_Suc)
  qed
qed

lemma days_before_year_1 [simp]: "days_before_year (Suc 0) = 0"
  by (simp add: days_before_year_def)

lemma days_before_year_cycle: "days_before_year (400 * q + 1) = 146097 * q"
  by (simp add: days_before_year_def)

lemma days_before_year_mono: "1 \<le> y \<Longrightarrow> y < y' \<Longrightarrow> days_before_year y + days_in_year y \<le> days_before_year y'"
proof (induction y')
  case (Suc y')
  show ?case
  proof (cases "y = y'")
    case True
    with Suc.prems show ?thesis by (simp add: days_before_year_Suc)
  next
    case False
    with Suc have "days_before_year y + days_in_year y \<le> days_before_year y'" "1 \<le> y'" by auto
    then show ?thesis by (simp add: days_before_year_Suc)
  qed
qed simp

lemma days_before_month_mono:
  "1 \<le> m \<Longrightarrow> m < m' \<Longrightarrow> days_before_month y m + days_in_month y m \<le> days_before_month y m'"
proof (induction m')
  case (Suc m')
  show ?case
  proof (cases "m = m'")
    case True
    with Suc.prems show ?thesis by (simp add: days_before_month_Suc)
  next
    case False
    with Suc have "days_before_month y m + days_in_month y m \<le> days_before_month y m'" "1 \<le> m'" by auto
    then show ?thesis by (simp add: days_before_month_Suc)
  qed
qed simp

text \<open>A valid day of the year lies inside its year.\<close>

lemma day_of_year_le:
  assumes "1 \<le> m" "m \<le> 12" "d \<le> days_in_month y m"
  shows "days_before_month y m + d \<le> days_in_year y"
  using days_before_month_mono [of m 13 y] assms by (simp add: days_before_month_13)

lemma fromordinal_correct:
  assumes "fromordinal n = (y, m, d)" and "1 \<le> n"
  shows "toordinal y m d = n \<and> 1 \<le> y \<and> 1 \<le> m \<and> m \<le> 12 \<and> 1 \<le> d \<and> d \<le> days_in_month y m"
proof -
  let ?q = "(n - 1) div 146097" and ?r = "(n - 1) mod 146097"
  obtain y1 r1 where yw: "year_walk (400 * ?q + 1) ?r = (y1, r1)" by fastforce
  obtain m1 d1 where mw: "month_walk y1 1 r1 = (m1, d1)" by fastforce
  have eq: "y = y1" "m = m1" "d = Suc d1"
    using assms(1) yw mw by (auto simp: fromordinal_def Let_def)
  have Y: "days_before_year y1 + r1 = n - 1" "r1 < days_in_year y1" "1 \<le> y1"
    using year_walk_inv [OF yw] days_before_year_cycle [of ?q] by auto
  have M: "days_before_month y1 m1 + d1 = r1" "d1 < days_in_month y1 m1" "1 \<le> m1" "m1 \<le> 12"
    using month_walk_inv [OF mw] Y(2) by (auto simp: days_before_month_13) (auto simp: days_before_month_def)
  show ?thesis
    using Y M assms(2) by (simp add: eq toordinal_def)
qed

lemma toordinal_less:
  assumes "1 \<le> y" "1 \<le> m" "m \<le> 12" "d \<le> days_in_month y m" "1 \<le> m'" "1 \<le> d'"
    and "y < y' \<or> y = y' \<and> (m < m' \<or> m = m' \<and> d < d')"
  shows "toordinal y m d < toordinal y' m' d'"
proof -
  consider "y < y'" | "y = y'" "m < m'" | "y = y'" "m = m'" "d < d'" using assms(7) by blast
  then show ?thesis
  proof cases
    case 1
    with assms days_before_year_mono [of y y'] day_of_year_le [of m d y] show ?thesis
      by (simp add: toordinal_def)
  next
    case 2
    with assms days_before_month_mono [of m m' y] show ?thesis
      by (simp add: toordinal_def)
  next
    case 3
    then show ?thesis by (simp add: toordinal_def)
  qed
qed

lemma instant_less:
  assumes "civil_ok a" and "civil_ok b" and "civil_key a < civil_key b"
  shows "instant a < instant b"
proof (cases "year a = year b \<and> month a = month b \<and> day a = day b")
  case True
  with assms show ?thesis
    by (auto simp: instant_def civil_key_def civil_ok_def)
next
  case False
  with assms have "toordinal (year a) (month a) (day a) < toordinal (year b) (month b) (day b)"
    by (intro toordinal_less) (auto simp: civil_key_def civil_ok_def)
  then have "int (toordinal (year a) (month a) (day a)) + 1 \<le> int (toordinal (year b) (month b) (day b))"
    by simp
  moreover have "hour a * 3600 + minute a * 60 + sec a < 86400"
    using assms(1) by (simp add: civil_ok_def)
  ultimately show ?thesis unfolding instant_def by linarith
qed

lemma instant_less_iff:
  assumes "civil_ok a" and "civil_ok b"
  shows "instant a < instant b \<longleftrightarrow> civil_key a < civil_key b"
proof -
  have "civil_key a < civil_key b \<or> civil_key a = civil_key b \<or> civil_key b < civil_key a" by auto
  moreover have "instant a = instant b" if "civil_key a = civil_key b"
    using that by (simp add: civil_key_def instant_def)
  ultimately show ?thesis
    using instant_less [OF assms] instant_less [OF assms(2,1)] by fastforce
qed

lemma civil_key_inject: "civil_key a = civil_key b \<longleftrightarrow> a = b"
  by (cases a; cases b) (auto simp: civil_key_def)

lemma instant_inject: "civil_ok a \<Longrightarrow> civil_ok b \<Longrightarrow> instant a = instant b \<longleftrightarrow> a = b"
  using instant_less_iff [of a b] instant_less_iff [of b a] civil_key_inject [of a b] by auto

lemma days_before_year_10000: "days_before_year 10000 = 3652059"
  by (simp add: days_before_year_def)

lemma days_before_year_le_10000: "1 \<le> y \<Longrightarrow> y \<le> 9999 \<Longrightarrow> days_before_year y + days_in_year y \<le> 3652059"
  using days_before_year_mono [of y 10000] by (simp add: days_before_year_10000)

lemma instant_bounds:
  assumes "civil_ok c"
  shows "min_instant \<le> instant c \<and> instant c \<le> max_instant"
proof -
  have "toordinal (year c) (month c) (day c) \<le> 3652059" "1 \<le> toordinal (year c) (month c) (day c)"
    using assms days_before_year_le_10000 [of "year c"] day_of_year_le [of "month c" "day c" "year c"]
    by (auto simp: toordinal_def civil_ok_def)
  moreover have "hour c * 3600 + minute c * 60 + sec c \<le> 86399"
    using assms by (auto simp: civil_ok_def)
  ultimately show ?thesis
    unfolding instant_def min_instant_def max_instant_def by linarith
qed

lemma from_instant_correct:
  assumes "min_instant \<le> t" and "t \<le> max_instant"
  shows "civil_ok (from_instant t) \<and> instant (from_instant t) = t"
proof -
  obtain n k where t: "t = int n * 86400 + int k" and k: "k < 86400" and n: "1 \<le> n" "n \<le> 3652059"
  proof
    show "t = int (nat (t div 86400)) * 86400 + int (nat (t mod 86400))"
      using assms by (simp add: min_instant_def pos_imp_zdiv_nonneg_iff)
  qed (use assms in \<open>auto simp: min_instant_def max_instant_def nat_le_iff le_nat_iff\<close>)
  obtain y m d where f: "fromordinal n = (y, m, d)" by (cases "fromordinal n")
  note F = fromordinal_correct [OF f n(1)]
  have "y \<le> 9999"
  proof (rule ccontr)
    assume "\<not> y \<le> 9999"
    then have "days_before_year 10000 \<le> days_before_year y"
      using days_before_year_mono [of 10000 y] by (cases "y = 10000") auto
    then have "3652059 < n" using F by (simp add: toordinal_def days_before_year_10000)
    with n show False by simp
  qed
  moreover have "from_instant t = Civil y m d (k div 3600) (k div 60 mod 60) (k mod 60)"
    using k f by (simp add: from_instant_def t Let_def)
  moreover have "k div 3600 * 3600 + k div 60 mod 60 * 60 + k mod 60 = k"
  proof -
    have "k = (k div 60 div 60 * 60 + k div 60 mod 60) * 60 + k mod 60" by (simp only: div_mult_mod_eq)
    then show ?thesis using div_mult2_eq [of k 60 60] by (simp only: distrib_right mult.assoc) simp
  qed
  moreover have "k div 3600 < 24" using k by (simp add: div_less_iff_less_mult)
  ultimately show ?thesis
    using F by (simp add: civil_ok_def instant_def t)
qed

lemma from_instant_instant: "civil_ok c \<Longrightarrow> from_instant (instant c) = c"
  using from_instant_correct [of "instant c"] instant_bounds [of c] instant_inject by metis

section \<open>Texts and instants agree\<close>

lemma digit_char_of: "n < 10 \<Longrightarrow> of_char (digit_char n) = 48 + (n::nat)"
  by (simp add: digit_char_def)

lemma is_digit_digit_char [simp]: "n < 10 \<Longrightarrow> is_digit (digit_char n)"
  by (auto simp: is_digit_def less_eq_char_def digit_char_of)

lemma digit_val_digit_char [simp]: "n < 10 \<Longrightarrow> digit_val (digit_char n) = n"
  by (simp add: digit_val_def digit_char_of)

lemma digit_char_digit_val: "is_digit c \<Longrightarrow> digit_val c < 10 \<and> digit_char (digit_val c) = c"
  by (auto simp: is_digit_def less_eq_char_def digit_val_def digit_char_def)

lemma digit_char_less: "m < 10 \<Longrightarrow> n < 10 \<Longrightarrow> digit_char m < digit_char n \<longleftrightarrow> m < n"
  by (simp add: less_char_def digit_char_of)

lemma digit_char_eq: "m < 10 \<Longrightarrow> n < 10 \<Longrightarrow> digit_char m = digit_char n \<longleftrightarrow> m = n"
  by (metis digit_val_digit_char)

lemma pad2_length [simp]: "length (pad2 n) = 2"
  by (simp add: pad2_def)

lemma div_mod_less_iff:
  fixes m n k :: nat
  shows "m < n \<longleftrightarrow> m div k < n div k \<or> m div k = n div k \<and> m mod k < n mod k"
proof (cases "m div k = n div k")
  case True
  then show ?thesis using div_mult_mod_eq [of m k] div_mult_mod_eq [of n k] by (metis nat_add_left_cancel_less order_less_irrefl)
next
  case False
  then show ?thesis
    by (metis div_le_mono linorder_not_le linorder_le_less_linear nless_le)
qed

lemma div_mod_eq_iff:
  fixes m n k :: nat
  shows "m = n \<longleftrightarrow> m div k = n div k \<and> m mod k = n mod k"
  by (metis div_mult_mod_eq)

lemma pad2_less: "m < 100 \<Longrightarrow> n < 100 \<Longrightarrow> pad2 m < pad2 n \<longleftrightarrow> m < n"
proof -
  assume a: "m < 100" "n < 100"
  then have b: "m div 10 < 10" "n div 10 < 10" "m mod 10 < 10" "n mod 10 < 10" by auto
  with div_mod_less_iff [of m n 10] show ?thesis by (simp add: pad2_def digit_char_less digit_char_eq)
qed

lemma pad2_eq: "m < 100 \<Longrightarrow> n < 100 \<Longrightarrow> pad2 m = pad2 n \<longleftrightarrow> m = n"
  using pad2_less [of m n] pad2_less [of n m] by (metis linorder_neqE_nat order_less_irrefl)

lemma append_less_append:
  fixes u v x y :: "'a::linorder list"
  assumes "length u = length v"
  shows "u @ x < v @ y \<longleftrightarrow> u < v \<or> u = v \<and> x < y"
  using assms by (induction u v rule: list_induct2) auto

lemma show_nat_year:
  assumes "1000 \<le> y" and "y < 10000"
  shows "show_nat y = pad2 (y div 100) @ pad2 (y mod 100)"
proof -
  have d: "y div 10 div 10 = y div 100" "y div 10 mod 10 = y mod 100 div 10" "y mod 10 = y mod 100 mod 10"
    "y div 100 div 10 < 10" "10 \<le> y" "10 \<le> y div 10" "10 \<le> y div 100" "y div 100 div 10 < 10"
    using assms div_mult2_eq [of y 10 10] mod_mult2_eq [of y 10 10] div_mult2_eq [of y 100 10]
    by (simp_all add: div_less_iff_less_mult less_eq_div_iff_mult_less_eq)
  have "show_nat (y div 100) = pad2 (y div 100)"
    using d by (simp add: show_nat.simps [of "y div 100"] show_nat.simps [of "y div 100 div 10"] pad2_def)
  then have "show_nat (y div 10) = pad2 (y div 100) @ [digit_char (y mod 100 div 10)]"
    using d by (simp add: show_nat.simps [of "y div 10"])
  then show ?thesis
    using d by (simp add: show_nat.simps [of y] pad2_def)
qed

lemma strftime_less_iff:
  assumes "civil_ok a" and "civil_ok b" and "1000 \<le> year a" and "1000 \<le> year b"
  shows "strftime a < strftime b \<longleftrightarrow> instant a < instant b"
proof -
  have ya: "show_nat (year a) = pad2 (year a div 100) @ pad2 (year a mod 100)" "year a div 100 < 100"
    and yb: "show_nat (year b) = pad2 (year b div 100) @ pad2 (year b mod 100)" "year b div 100 < 100"
    using assms by (auto intro!: show_nat_year simp: civil_ok_def)
  have bounds: "month a < 100" "month b < 100" "day a < 100" "day b < 100" "hour a < 100" "hour b < 100"
    "minute a < 100" "minute b < 100" "sec a < 100" "sec b < 100"
    using assms(1,2) by (auto simp: civil_ok_def days_in_month_def split: if_splits)
  have y: "year a < year b \<longleftrightarrow> year a div 100 < year b div 100
      \<or> year a div 100 = year b div 100 \<and> year a mod 100 < year b mod 100"
    "year a = year b \<longleftrightarrow> year a div 100 = year b div 100 \<and> year a mod 100 = year b mod 100"
    by (rule div_mod_less_iff, rule div_mod_eq_iff)
  show ?thesis
    unfolding instant_less_iff [OF assms(1,2)] civil_key_def strftime_def ya yb append_assoc
    using bounds ya(2) yb(2)
    by (simp add: append_less_append pad2_less pad2_eq y) blast
qed

lemma upto_sep_digits:
  assumes "list_all is_digit f" and "\<not> is_digit a" and "\<not> is_digit b"
  shows "upto_sep a b (f @ a # r) = Some (f, r)"
  using assms by (induction f) auto

lemma list_all_is_digit_pad2 [simp]: "n < 100 \<Longrightarrow> list_all is_digit (pad2 n)"
  by (simp add: pad2_def div_less_iff_less_mult)

lemma read_nat_pad2 [simp]: "n < 100 \<Longrightarrow> read_nat (pad2 n) = n"
  by (simp add: read_nat_def pad2_def div_less_iff_less_mult)

lemma filter_list_all: "list_all P xs \<Longrightarrow> filter P xs = xs"
  by (induction xs) auto

lemma field_num_pad2 [simp]: "n < 100 \<Longrightarrow> field_num (pad2 n) = n"
  by (simp add: field_num_def filter_list_all)

lemma digit_char_lits:
  assumes "k < 10"
  shows "digit_char k = CHR ''0'' \<longleftrightarrow> k = 0" "digit_char k = CHR ''1'' \<longleftrightarrow> k = 1"
    "digit_char k = CHR ''2'' \<longleftrightarrow> k = 2" "digit_char k = CHR ''3'' \<longleftrightarrow> k = 3"
  using digit_char_eq [OF assms, of 0] digit_char_eq [OF assms, of 1]
    digit_char_eq [OF assms, of 2] digit_char_eq [OF assms, of 3] by simp_all

lemma pad2_split:
  assumes "n < 100"
  obtains q r where "n = 10 * q + r" and "q < 10" and "r < 10" and "pad2 n = [digit_char q, digit_char r]"
proof
  show "n = 10 * (n div 10) + n mod 10" by simp
qed (use assms in \<open>simp_all add: pad2_def div_less_iff_less_mult\<close>)

lemma field_month_pad2: "1 \<le> n \<Longrightarrow> n \<le> 12 \<Longrightarrow> field_month (pad2 n)"
proof -
  assume n: "1 \<le> n" "n \<le> 12"
  then have "n < 100" by simp
  then obtain q r where q: "n = 10 * q + r" "q < 10" "r < 10" "pad2 n = [digit_char q, digit_char r]"
    by (rule pad2_split)
  consider "q = 0" | "q = 1" | "2 \<le> q" by linarith
  then show ?thesis
    by cases (use n q in \<open>simp_all add: field_month_def less_eq_char_def digit_char_of\<close>)
qed

lemma field_day_pad2: "1 \<le> n \<Longrightarrow> n \<le> 31 \<Longrightarrow> field_day (pad2 n)"
proof -
  assume n: "1 \<le> n" "n \<le> 31"
  then have "n < 100" by simp
  then obtain q r where q: "n = 10 * q + r" "q < 10" "r < 10" "pad2 n = [digit_char q, digit_char r]"
    by (rule pad2_split)
  consider "q = 0" | "q = 1" | "q = 2" | "q = 3" "r = 0 \<or> r = 1" using n q by linarith
  then show ?thesis
    by cases (use n q in \<open>auto simp: field_day_def less_eq_char_def digit_char_of\<close>)
qed

lemma field_hour_pad2: "n < 24 \<Longrightarrow> field_hour (pad2 n)"
proof -
  assume n: "n < 24"
  then have "n < 100" by simp
  then obtain q r where q: "n = 10 * q + r" "q < 10" "r < 10" "pad2 n = [digit_char q, digit_char r]"
    by (rule pad2_split)
  consider "q = 0" | "q = 1" | "q = 2" "r \<le> 3" using n q by linarith
  then show ?thesis
    by cases (use n q in \<open>auto simp: field_hour_def less_eq_char_def digit_char_of\<close>)
qed

lemma field_sixty_pad2: "n < 60 \<Longrightarrow> field_sixty (pad2 n)"
proof -
  assume n: "n < 60"
  then have "n < 100" by simp
  then obtain q r where q: "n = 10 * q + r" "q < 10" "r < 10" "pad2 n = [digit_char q, digit_char r]"
    by (rule pad2_split)
  with n have "q \<le> 5" by linarith
  with q show ?thesis by (simp add: field_sixty_def less_eq_char_def digit_char_of)
qed

lemmas field_pad2 = field_month_pad2 field_day_pad2 field_hour_pad2 field_sixty_pad2

lemma read_nat_year: "1000 \<le> y \<Longrightarrow> y < 10000 \<Longrightarrow> read_nat (show_nat y) = y"
proof -
  assume y: "1000 \<le> y" "y < 10000"
  have "read_nat (pad2 a @ pad2 b) = 100 * a + b" if "a < 100" "b < 100" for a b
    using that by (elim pad2_split) (simp add: read_nat_def)
  then show ?thesis
    using y by (simp add: show_nat_year div_less_iff_less_mult)
qed

lemma strptime_strftime:
  assumes "civil_ok c" and "1000 \<le> year c"
  shows "strptime (strftime c) = Some c"
proof -
  have y: "year c < 10000" using assms(1) by (simp add: civil_ok_def)
  have len: "length (show_nat (year c)) = 4" using show_nat_year [OF assms(2) y] by simp
  have dig: "list_all is_digit (show_nat (year c))"
    using show_nat_year [OF assms(2) y] y by (simp add: div_less_iff_less_mult)
  have seps: "\<not> is_digit CHR ''-''" "\<not> is_digit CHR ''T''" "\<not> is_digit CHR ''t''" "\<not> is_digit CHR '':''"
    "\<not> is_digit CHR ''Z''" "\<not> is_digit CHR ''z''"
    by (simp_all add: is_digit_def less_eq_char_def)
  have d31: "days_in_month y m \<le> 31" for y m by (simp add: days_in_month_def)
  have bounds: "1 \<le> month c" "month c \<le> 12" "1 \<le> day c" "day c \<le> 31" "hour c < 24" "minute c < 60" "sec c < 60"
    using assms(1) d31 [of "year c" "month c"] by (auto simp: civil_ok_def)
  have [simp]: "Civil (year c) (month c) (day c) (hour c) (minute c) (sec c) = c" by (cases c) simp
  show ?thesis
    using bounds assms(1)
    by (simp add: strptime_def strftime_def len dig nth_append upto_sep_digits seps field_pad2
        read_nat_year [OF assms(2) y])
qed

lemma pad2_digits: "is_digit a \<Longrightarrow> is_digit b \<Longrightarrow> pad2 (10 * digit_val a + digit_val b) = [a, b]"
  by (simp add: pad2_def digit_char_digit_val)

lemma list20:
  assumes "length s = 20"
  obtains a0 a1 a2 a3 a4 a5 a6 a7 a8 a9 b0 b1 b2 b3 b4 b5 b6 b7 b8 b9
  where "s = [a0, a1, a2, a3, a4, a5, a6, a7, a8, a9, b0, b1, b2, b3, b4, b5, b6, b7, b8, b9]"
  using assms by (auto simp: numeral_eq_Suc length_Suc_conv)

text \<open>A text matches the pattern exactly when its fields are digits in range.\<close>

lemma TIMESTAMP_RE_fields:
  assumes "TIMESTAMP_RE s"
  obtains y1 y2 m1 m2 d1 d2 h1 h2 n1 n2 s1 s2 where
    "s = ''20'' @ [y1, y2] @ ''-'' @ [m1, m2] @ ''-'' @ [d1, d2] @ ''T'' @ [h1, h2] @ '':'' @ [n1, n2] @ '':'' @ [s1, s2] @ ''Z''"
    and "list_all is_digit [y1, y2, m1, m2, d1, d2, h1, h2, n1, n2, s1, s2]"
proof -
  from assms have "length s = 20" by (simp add: TIMESTAMP_RE_def)
  then obtain a0 a1 a2 a3 a4 a5 a6 a7 a8 a9 b0 b1 b2 b3 b4 b5 b6 b7 b8 b9
    where s: "s = [a0, a1, a2, a3, a4, a5, a6, a7, a8, a9, b0, b1, b2, b3, b4, b5, b6, b7, b8, b9]"
    by (rule list20)
  show ?thesis
  proof (rule that)
    show "s = ''20'' @ [a2, a3] @ ''-'' @ [a5, a6] @ ''-'' @ [a8, a9] @ ''T'' @ [b1, b2] @ '':'' @ [b4, b5] @ '':'' @ [b7, b8] @ ''Z''"
      using assms unfolding TIMESTAMP_RE_def s by simp
    have lits: "is_digit CHR ''0''" "is_digit CHR ''1''" "is_digit CHR ''2''" "is_digit CHR ''3''"
      by (simp_all add: is_digit_def less_eq_char_def)
    have range: "CHR ''0'' \<le> c \<Longrightarrow> c \<le> CHR ''2'' \<Longrightarrow> is_digit c" "CHR ''0'' \<le> c \<Longrightarrow> c \<le> CHR ''3'' \<Longrightarrow> is_digit c"
      "CHR ''0'' \<le> c \<Longrightarrow> c \<le> CHR ''5'' \<Longrightarrow> is_digit c" "CHR ''1'' \<le> c \<Longrightarrow> c \<le> CHR ''9'' \<Longrightarrow> is_digit c" for c
      by (simp_all add: is_digit_def less_eq_char_def)
    show "list_all is_digit [a2, a3, a5, a6, a8, a9, b1, b2, b4, b5, b7, b8]"
      using assms unfolding TIMESTAMP_RE_def s by (simp, metis lits range)
  qed
qed

lemma timestamp_ok_strftime:
  assumes "timestamp_ok s"
  obtains c where "civil_ok c" and "2000 \<le> year c" and "year c \<le> 2099" and "s = strftime c" and "strptime s = Some c"
proof -
  from assms have re: "TIMESTAMP_RE s" and sp: "strptime s \<noteq> None" by (auto simp: timestamp_ok_def)
  from re obtain y1 y2 m1 m2 d1 d2 h1 h2 n1 n2 s1 s2 where
    s: "s = ''20'' @ [y1, y2] @ ''-'' @ [m1, m2] @ ''-'' @ [d1, d2] @ ''T'' @ [h1, h2] @ '':'' @ [n1, n2] @ '':'' @ [s1, s2] @ ''Z''"
    and dig: "list_all is_digit [y1, y2, m1, m2, d1, d2, h1, h2, n1, n2, s1, s2]"
    by (rule TIMESTAMP_RE_fields)
  obtain c where c: "strptime s = Some c" using sp by blast
  have seps: "\<not> is_digit CHR ''-''" "\<not> is_digit CHR ''T''" "\<not> is_digit CHR ''t''" "\<not> is_digit CHR '':''"
    "\<not> is_digit CHR ''Z''" "\<not> is_digit CHR ''z''" "is_digit CHR ''2''" "is_digit CHR ''0''"
    "digit_val CHR ''2'' = 2" "digit_val CHR ''0'' = 0"
    by (simp_all add: is_digit_def less_eq_char_def digit_val_def)
  have u: "upto_sep a b (f # g # a # r) = Some ([f, g], r)"
    if "is_digit f" "is_digit g" "\<not> is_digit a" "\<not> is_digit b" for a b f g r
    using that upto_sep_digits [of "[f, g]" a b r] by simp
  let ?v = "\<lambda>a b. 10 * digit_val a + digit_val b"
  have cv: "c = Civil (2000 + ?v y1 y2) (?v m1 m2) (?v d1 d2) (?v h1 h2) (?v n1 n2) (?v s1 s2) \<and> civil_ok c"
    using c dig by (auto simp: strptime_def s seps u field_num_def read_nat_def Let_def split: if_splits)
  have lt: "?v y1 y2 < 100" using dig digit_char_digit_val [of y1] digit_char_digit_val [of y2] by simp
  have "(2000 + k) div 100 = 20 \<and> (2000 + k) mod 100 = k" if "k < 100" for k :: nat
    using that by (auto intro!: div_nat_eqI mod_nat_eqI)
  then have "show_nat (2000 + ?v y1 y2) = pad2 20 @ pad2 (?v y1 y2)"
    using show_nat_year [of "2000 + ?v y1 y2"] lt by simp
  then have "strftime c = s"
    using dig cv by (simp add: strftime_def s pad2_digits) (simp add: pad2_def)
  moreover have "civil_ok c" "2000 \<le> year c" "year c \<le> 2099" using cv lt by auto
  ultimately show ?thesis using that [of c] c by blast
qed

lemma timestamp_ok_parse: "timestamp_ok s \<Longrightarrow> \<exists>i. parse_instant s = Inr i"
  by (auto simp: timestamp_ok_def parse_instant_def)

lemma timestamp_ok_parse_cases:
  assumes "timestamp_ok s"
  obtains c where "civil_ok c" and "2000 \<le> year c" and "year c \<le> 2099" and "s = strftime c"
    and "parse_instant s = Inr (instant c)"
proof -
  from assms obtain c where "civil_ok c" "2000 \<le> year c" "year c \<le> 2099" "s = strftime c" "strptime s = Some c"
    by (rule timestamp_ok_strftime)
  then show ?thesis using that [of c] by (simp add: parse_instant_def)
qed

lemma timestamp_less_instant:
  assumes "timestamp_ok a" and "timestamp_ok b" and "parse_instant a = Inr i" and "parse_instant b = Inr j"
  shows "a < b \<longleftrightarrow> i < j"
proof -
  from assms(1) obtain c where c: "civil_ok c" "2000 \<le> year c" "a = strftime c" "parse_instant a = Inr (instant c)"
    by (rule timestamp_ok_parse_cases)
  from assms(2) obtain d where d: "civil_ok d" "2000 \<le> year d" "b = strftime d" "parse_instant b = Inr (instant d)"
    by (rule timestamp_ok_parse_cases)
  have "strftime c < strftime d \<longleftrightarrow> instant c < instant d"
    using c d by (intro strftime_less_iff) simp_all
  with c d assms(3,4) show ?thesis by simp
qed

lemma timestamp_inject:
  assumes "timestamp_ok a" and "timestamp_ok b" and "parse_instant a = Inr i" and "parse_instant b = Inr i"
  shows "a = b"
  using timestamp_less_instant [OF assms] timestamp_less_instant [OF assms(2,1,4,3)] by auto

lemma timestamp_le_instant:
  assumes "timestamp_ok a" and "timestamp_ok b" and "parse_instant a = Inr i" and "parse_instant b = Inr j"
  shows "a \<le> b \<longleftrightarrow> i \<le> j"
  using timestamp_less_instant [OF assms(2,1,4,3)] by (meson linorder_not_le)

lemma instant_century:
  assumes "civil_ok c"
  shows "instant_2000 \<le> instant c \<longleftrightarrow> 2000 \<le> year c" and "instant c < instant_2100 \<longleftrightarrow> year c < 2100"
proof -
  have ok: "civil_ok (Civil 2000 1 1 0 0 0)" "civil_ok (Civil 2100 1 1 0 0 0)"
    by (simp_all add: civil_ok_def days_in_month_def)
  show "instant_2000 \<le> instant c \<longleftrightarrow> 2000 \<le> year c"
    using instant_less_iff [OF assms ok(1)] assms
    by (auto simp: instant_2000_def civil_key_def civil_ok_def linorder_not_less [symmetric])
  show "instant c < instant_2100 \<longleftrightarrow> year c < 2100"
    using instant_less_iff [OF assms ok(2)] assms
    by (auto simp: instant_2100_def civil_key_def civil_ok_def)
qed

lemma parse_instant_range:
  assumes "timestamp_ok s" and "parse_instant s = Inr i"
  shows "instant_2000 \<le> i \<and> i < instant_2100"
proof -
  from assms(1) obtain c where "civil_ok c" "2000 \<le> year c" "year c \<le> 2099" "parse_instant s = Inr (instant c)"
    by (rule timestamp_ok_parse_cases)
  with instant_century [of c] assms(2) show ?thesis by auto
qed

lemma TIMESTAMP_RE_strftime:
  assumes "civil_ok c" and "2000 \<le> year c" and "year c < 2100"
  shows "TIMESTAMP_RE (strftime c)"
proof -
  have d31: "days_in_month y m \<le> 31" for y m by (simp add: days_in_month_def)
  have b: "1 \<le> month c" "month c \<le> 12" "1 \<le> day c" "day c \<le> 31" "hour c < 24" "minute c < 60" "sec c < 60"
    using assms(1) d31 [of "year c" "month c"] by (auto simp: civil_ok_def)
  have f: "field_month (pad2 (month c))" "field_day (pad2 (day c))" "field_hour (pad2 (hour c))"
    "field_sixty (pad2 (minute c))" "field_sixty (pad2 (sec c))"
    using b by (auto intro: field_pad2)
  have y: "year c div 100 = 20" "year c mod 100 < 100"
    using assms(2,3) by (auto intro: div_nat_eqI)
  have "show_nat (year c) = pad2 20 @ pad2 (year c mod 100)"
    using show_nat_year [of "year c"] assms(2,3) y by simp
  moreover have "pad2 20 = ''20''" by (simp add: pad2_def)
  moreover obtain y1 y2 where "pad2 (year c mod 100) = [digit_char y1, digit_char y2]" "y1 < 10" "y2 < 10"
    using pad2_split [OF y(2)] by metis
  moreover have "digit_char (day c div 10) \<noteq> CHR '' ''"
    using b digit_char_of [of "day c div 10"] by (auto simp: div_less_iff_less_mult)
  ultimately show ?thesis
    using f by (simp add: TIMESTAMP_RE_def strftime_def pad2_def field_month_def field_day_def field_hour_def field_sixty_def)
qed

lemma format_instant_ok:
  assumes "instant_2000 \<le> t" and "t < instant_2100"
  shows "timestamp_ok (format_instant t) \<and> parse_instant (format_instant t) = Inr t"
proof -
  have "min_instant \<le> instant_2000" "instant_2100 \<le> max_instant"
    unfolding instant_2000_def instant_2100_def
    using instant_bounds [of "Civil 2000 1 1 0 0 0"] instant_bounds [of "Civil 2100 1 1 0 0 0"]
    by (simp_all add: civil_ok_def days_in_month_def)
  with assms have c: "civil_ok (from_instant t)" "instant (from_instant t) = t"
    using from_instant_correct [of t] by auto
  moreover have "2000 \<le> year (from_instant t)" "year (from_instant t) < 2100"
    using instant_century [OF c(1)] assms c(2) by auto
  ultimately show ?thesis
    using TIMESTAMP_RE_strftime [of "from_instant t"] strptime_strftime [of "from_instant t"]
    by (simp add: timestamp_ok_def parse_instant_def format_instant_def)
qed

lemma format_parse_instant: "timestamp_ok s \<Longrightarrow> parse_instant s = Inr i \<Longrightarrow> format_instant i = s"
  using format_instant_ok parse_instant_range timestamp_inject by metis

section \<open>Properties\<close>

text \<open>
  Two timestamps that pass the package's check compare as texts exactly as the instants
  they denote compare; the stores and the state machine rely on this when they compare texts.
\<close>

theorem timestamp_text_order:
  assumes "timestamp_ok a" and "timestamp_ok b" and "parse_instant a = Inr i" and "parse_instant b = Inr j"
  shows "(a < b \<longleftrightarrow> i < j) \<and> (a \<le> b \<longleftrightarrow> i \<le> j) \<and> (a = b \<longleftrightarrow> i = j)"
  using timestamp_less_instant [OF assms] timestamp_le_instant [OF assms] timestamp_inject [OF assms(1,2,3)] assms
  by auto

lemma sample_instants:
  "parse_instant ''2026-02-28T23:59:59Z'' = Inr 63908006399" "parse_instant ''2026-03-01T00:00:00Z'' = Inr 63908006400"
proof -
  have p: "strptime ''2026-02-28T23:59:59Z'' = Some (Civil 2026 2 28 23 59 59)"
    "strptime ''2026-03-01T00:00:00Z'' = Some (Civil 2026 3 1 0 0 0)"
    by code_simp+
  have b: "days_before_month 2026 2 = 31" "days_before_month 2026 3 = 59"
    by (simp_all add: days_before_month_def upt_rec days_in_month_def is_leap_def)
  have i: "instant (Civil 2026 2 28 23 59 59) = 63908006399" "instant (Civil 2026 3 1 0 0 0) = 63908006400"
    by (simp_all add: instant_def toordinal_def days_before_year_def b)
  show "parse_instant ''2026-02-28T23:59:59Z'' = Inr 63908006399" "parse_instant ''2026-03-01T00:00:00Z'' = Inr 63908006400"
    by (simp_all only: parse_instant_def p i option.case)
qed

theorem timestamp_text_order_witness:
  "''2026-02-28T23:59:59Z'' < ''2026-03-01T00:00:00Z'' \<and> (63908006399::int) < 63908006400"
proof -
  have ok: "timestamp_ok ''2026-02-28T23:59:59Z''" "timestamp_ok ''2026-03-01T00:00:00Z''"
    by code_simp+
  from timestamp_text_order [OF ok sample_instants] show ?thesis by simp
qed

text \<open>
  Every instant of the years 2000 to 2099 prints as a text that passes the check and reads
  back as that instant, and every checked text is the print of the instant it reads as.
\<close>

theorem timestamp_round_trip:
  "(instant_2000 \<le> t \<and> t < instant_2100 \<longrightarrow> timestamp_ok (format_instant t) \<and> parse_instant (format_instant t) = Inr t)
   \<and> (timestamp_ok s \<and> parse_instant s = Inr i \<longrightarrow> format_instant i = s)"
  using format_instant_ok format_parse_instant by blast

theorem timestamp_round_trip_witness:
  "format_instant 63908006400 = ''2026-03-01T00:00:00Z''"
proof -
  have ok: "timestamp_ok ''2026-03-01T00:00:00Z''" by code_simp
  note p = sample_instants(2)
  from timestamp_round_trip [of 63908006400 "''2026-03-01T00:00:00Z''" 63908006400] ok p show ?thesis by simp
qed

end
