(* ===== verification/Json.thy ===== *)
theory Json
  imports Timestamps
begin

text \<open>
  The \<open>json\<close> module as the package uses it: \<open>json.loads\<close> with an \<open>object_pairs_hook\<close>, and
  \<open>json.dumps(ensure_ascii=False)\<close> with and without \<open>sort_keys\<close>. A JSON value is the
  Python object \<open>loads\<close> builds; a dictionary is its list of items in insertion order.
  The main result is the round trip: a value without floats that fits the decoder's
  limits is read back from its text, whatever follows it.

  Three facts of the interpreter are not in the repository and are fields of
  \<open>pyenv\<close>: how deep the C decoder may recurse before \<open>RecursionError\<close>, the text \<open>repr\<close>
  gives for a float literal, and the Unicode database (\<open>unicodedata.normalize\<close> for NFC
  and \<open>unicodedata.category\<close>). A float is modelled by its \<open>repr\<close>.
\<close>

record pyenv =
  rec_limit :: nat
  float_repr :: "string \<Rightarrow> string"
  nfc :: "string \<Rightarrow> string"
  category :: "nat \<Rightarrow> string"

datatype json =
    JNull
  | JBool bool
  | JInt int
  | JFloat string
  | JStr string
  | JList "json list"
  | JObj "(string \<times> json) list"

type_synonym dict = "(string \<times> json) list"

type_synonym hook = "dict \<Rightarrow> dict result"

lemma case_json_Inr_iff [result_simps]:
  "(case v of JStr s \<Rightarrow> f s | _ \<Rightarrow> Inl e) = Inr y \<longleftrightarrow> (\<exists>s. v = JStr s \<and> f s = Inr y)"
  "(case v of JObj kvs \<Rightarrow> g kvs | _ \<Rightarrow> Inl e) = Inr y \<longleftrightarrow> (\<exists>kvs. v = JObj kvs \<and> g kvs = Inr y)"
  "(case v of JList vs \<Rightarrow> h vs | _ \<Rightarrow> Inl e) = Inr y \<longleftrightarrow> (\<exists>vs. v = JList vs \<and> h vs = Inr y)"
  by (cases v; simp)+

section \<open>Dictionaries\<close>

definition keys :: "dict \<Rightarrow> string list" where
  "keys kvs = map fst kvs"

text \<open>\<open>value[key]\<close> and \<open>value.get(key)\<close>\<close>

definition jget :: "dict \<Rightarrow> string \<Rightarrow> json result" where
  "jget kvs k = (case map_of kvs k of None \<Rightarrow> Inl (KeyError k) | Some v \<Rightarrow> Inr v)"

definition jget_opt :: "dict \<Rightarrow> string \<Rightarrow> json" where
  "jget_opt kvs k = (case map_of kvs k of None \<Rightarrow> JNull | Some v \<Rightarrow> v)"

text \<open>The default hook: \<open>dict(pairs)\<close>, where a later pair replaces the value of an earlier one.\<close>

fun dict_set :: "dict \<Rightarrow> string \<Rightarrow> json \<Rightarrow> dict" where
  "dict_set [] k v = [(k, v)]"
| "dict_set ((k', v') # kvs) k v = (if k' = k then (k, v) # kvs else (k', v') # dict_set kvs k v)"

definition dict_hook :: hook where
  "dict_hook kvs = Inr (foldl (\<lambda>d (k, v). dict_set d k v) [] kvs)"

text \<open>\<open>_unique_object\<close>: a repeated key raises the module's own error.\<close>

definition unique_object :: "exn \<Rightarrow> hook" where
  "unique_object e kvs = (if distinct (keys kvs) then Inr kvs else Inl e)"

section \<open>Decoding\<close>

definition is_ws :: "char \<Rightarrow> bool" where
  "is_ws c \<longleftrightarrow> c = CHR '' '' \<or> c = CHR 0x09 \<or> c = CHR 0x0A \<or> c = CHR 0x0D"

definition skip_ws :: "string \<Rightarrow> string" where
  "skip_ws s = dropWhile is_ws s"

fun hex_value :: "char \<Rightarrow> nat option" where
  "hex_value c =
     (if is_digit c then Some (of_char c - 48)
      else if CHR ''a'' \<le> c \<and> c \<le> CHR ''f'' then Some (of_char c - 87)
      else if CHR ''A'' \<le> c \<and> c \<le> CHR ''F'' then Some (of_char c - 55)
      else None)"

definition hex4 :: "char \<Rightarrow> char \<Rightarrow> char \<Rightarrow> char \<Rightarrow> nat option" where
  "hex4 a b c d = (case (hex_value a, hex_value b, hex_value c, hex_value d) of
       (Some w, Some x, Some y, Some z) \<Rightarrow> Some (4096 * w + 256 * x + 16 * y + z)
     | _ \<Rightarrow> None)"

definition unescape :: "char \<Rightarrow> char option" where
  "unescape c =
     (if c = CHR 0x22 \<or> c = CHR 0x5C \<or> c = CHR 0x2F then Some c
      else if c = CHR ''b'' then Some (CHR 0x08)
      else if c = CHR ''f'' then Some (CHR 0x0C)
      else if c = CHR ''n'' then Some (CHR 0x0A)
      else if c = CHR ''r'' then Some (CHR 0x0D)
      else if c = CHR ''t'' then Some (CHR 0x09)
      else None)"

text \<open>
  \<open>uXXXX\<close> after a backslash: the code point, joined with a following low surrogate escape
  when it is a high surrogate, and the rest of the text.
\<close>

definition scan_escape_u :: "string \<Rightarrow> (nat \<times> string) option" where
  "scan_escape_u s = (case s of
       a # b # c # d # r \<Rightarrow>
         (case hex4 a b c d of
            None \<Rightarrow> None
          | Some n \<Rightarrow>
              (if 55296 \<le> n \<and> n \<le> 56319 then
                 (case r of
                    x # u # a' # b' # c' # d' # r' \<Rightarrow>
                      (if x = CHR 0x5C \<and> u = CHR ''u'' then
                         (case hex4 a' b' c' d' of
                            None \<Rightarrow> None
                          | Some m \<Rightarrow>
                              (if 56320 \<le> m \<and> m \<le> 57343
                               then Some (65536 + (n - 55296) * 1024 + (m - 56320), r')
                               else Some (n, r)))
                       else Some (n, r))
                  | _ \<Rightarrow> Some (n, r))
               else Some (n, r)))
     | _ \<Rightarrow> None)"

lemma scan_escape_u_length: "scan_escape_u s = Some (n, r) \<Longrightarrow> length r < length s"
  unfolding scan_escape_u_def by (auto split: list.splits option.splits if_splits)

text \<open>\<open>scanstring\<close>, after the opening quote.\<close>

function (sequential) scan_string :: "string \<Rightarrow> (string \<times> string) result" where
  "scan_string [] = Inl JSONDecodeError"
| "scan_string (c # s) =
     (if c = CHR 0x22 then Inr ([], s)
      else if c = CHR 0x5C then
        (case s of
           [] \<Rightarrow> Inl JSONDecodeError
         | e # s' \<Rightarrow>
             (if e = CHR ''u'' then
                (case scan_escape_u s' of
                   None \<Rightarrow> Inl JSONDecodeError
                 | Some (n, r) \<Rightarrow> bindE (scan_string r) (\<lambda>(t, q). Inr (utf8_of n @ t, q)))
              else (case unescape e of
                   None \<Rightarrow> Inl JSONDecodeError
                 | Some x \<Rightarrow> bindE (scan_string s') (\<lambda>(t, q). Inr (x # t, q)))))
      else if of_char c < (32::nat) then Inl JSONDecodeError
      else bindE (scan_string s) (\<lambda>(t, q). Inr (c # t, q)))"
  by pat_completeness auto
termination
  by (relation "measure length") (auto dest: scan_escape_u_length)

text \<open>
  A number: the lexeme, whether it has a fraction or an exponent, and the rest
  (\<open>(-?(?:0|[1-9][0-9]*))(\.[0-9]+)?([eE][-+]?[0-9]+)?\<close>).
\<close>

definition scan_int_part :: "string \<Rightarrow> (string \<times> string) option" where
  "scan_int_part s = (case s of
       [] \<Rightarrow> None
     | c # r \<Rightarrow> (if c = CHR ''0'' then Some ([c], r)
               else if is_digit c then Some (takeWhile is_digit s, dropWhile is_digit s)
               else None))"

definition scan_frac :: "string \<Rightarrow> string \<times> string" where
  "scan_frac s = (case s of
       c # d # r \<Rightarrow> (if c = CHR ''.'' \<and> is_digit d
                    then (c # takeWhile is_digit (d # r), dropWhile is_digit (d # r)) else ([], s))
     | _ \<Rightarrow> ([], s))"

definition scan_exp :: "string \<Rightarrow> string \<times> string" where
  "scan_exp s = (case s of
       e # r \<Rightarrow>
         (if e = CHR ''e'' \<or> e = CHR ''E'' then
            (let (sg, t) = (case r of x # r' \<Rightarrow> if x = CHR ''+'' \<or> x = CHR ''-'' then ([x], r') else ([], r) | [] \<Rightarrow> ([], r))
             in if t \<noteq> [] \<and> is_digit (hd t) then (e # sg @ takeWhile is_digit t, dropWhile is_digit t) else ([], s))
          else ([], s))
     | [] \<Rightarrow> ([], s))"

definition scan_number :: "string \<Rightarrow> (string \<times> string \<times> bool \<times> string) option" where
  "scan_number s =
     (let (sg, t) = (case s of c # r \<Rightarrow> if c = CHR ''-'' then ([c], r) else ([], s) | [] \<Rightarrow> ([], s))
      in case scan_int_part t of
           None \<Rightarrow> None
         | Some (ds, r) \<Rightarrow>
             (let (f, r1) = scan_frac r; (e, r2) = scan_exp r1
              in Some (sg, ds @ f @ e, f \<noteq> [] \<or> e \<noteq> [], r2)))"

text \<open>The interpreter refuses to convert more than 4300 digits to an int.\<close>

definition MAX_STR_DIGITS :: nat where "MAX_STR_DIGITS = 4300"

definition json_number :: "pyenv \<Rightarrow> string \<Rightarrow> (json \<times> string) result" where
  "json_number env s =
     (case scan_number s of
        None \<Rightarrow> Inl JSONDecodeError
      | Some (sg, ds, is_float, r) \<Rightarrow>
          (if is_float then Inr (JFloat (float_repr env (sg @ ds)), r)
           else if MAX_STR_DIGITS < length ds then Inl (ValueError ''integer string conversion'')
           else Inr (JInt (if sg = [] then int (read_nat ds) else - int (read_nat ds)), r)))"

definition strip :: "string \<Rightarrow> string \<Rightarrow> string option" where
  "strip p s = (if take (length p) s = p then Some (drop (length p) s) else None)"

text \<open>Literals and numbers: every value that does not nest.\<close>

definition scan_atom :: "pyenv \<Rightarrow> string \<Rightarrow> (json \<times> string) result" where
  "scan_atom env s =
     (case strip ''null'' s of Some r \<Rightarrow> Inr (JNull, r) | None \<Rightarrow>
     (case strip ''true'' s of Some r \<Rightarrow> Inr (JBool True, r) | None \<Rightarrow>
     (case strip ''false'' s of Some r \<Rightarrow> Inr (JBool False, r) | None \<Rightarrow>
     (case strip ''NaN'' s of Some r \<Rightarrow> Inr (JFloat ''nan'', r) | None \<Rightarrow>
     (case strip ''Infinity'' s of Some r \<Rightarrow> Inr (JFloat ''inf'', r) | None \<Rightarrow>
     (case strip ''-Infinity'' s of Some r \<Rightarrow> Inr (JFloat ''-inf'', r) | None \<Rightarrow>
        json_number env s))))))"

text \<open>
  \<open>scan_once\<close>, the items of an array and the members of an object, after white space.
  \<open>d\<close> is how many more nested containers the C recursion allows. The length tests in the
  loops always hold (lemma \<open>scan_shorter\<close>); they make the termination of the loops
  evident.
\<close>

function (sequential) scan_value :: "pyenv \<Rightarrow> hook \<Rightarrow> nat \<Rightarrow> string \<Rightarrow> (json \<times> string) result"
  and scan_items :: "pyenv \<Rightarrow> hook \<Rightarrow> nat \<Rightarrow> string \<Rightarrow> (json list \<times> string) result"
  and scan_members :: "pyenv \<Rightarrow> hook \<Rightarrow> nat \<Rightarrow> string \<Rightarrow> (dict \<times> string) result" where
  "scan_value env hk d [] = Inl JSONDecodeError"
| "scan_value env hk d (c # s) =
     (if c = CHR 0x22 then bindE (scan_string s) (\<lambda>(t, r). Inr (JStr t, r))
      else if c = CHR ''['' then
        (case d of
           0 \<Rightarrow> Inl RecursionError
         | Suc d' \<Rightarrow>
             (case skip_ws s of
                x # r \<Rightarrow> (if x = CHR '']'' then Inr (JList [], r)
                         else bindE (scan_items env hk d' (x # r)) (\<lambda>(vs, q). Inr (JList vs, q)))
              | [] \<Rightarrow> Inl JSONDecodeError))
      else if c = CHR ''{'' then
        (case d of
           0 \<Rightarrow> Inl RecursionError
         | Suc d' \<Rightarrow>
             (case skip_ws s of
                x # r \<Rightarrow> (if x = CHR ''}'' then bindE (hk []) (\<lambda>kvs. Inr (JObj kvs, r))
                         else bindE (scan_members env hk d' (x # r)) (\<lambda>(kvs, q).
                              bindE (hk kvs) (\<lambda>kvs'. Inr (JObj kvs', q))))
              | [] \<Rightarrow> Inl JSONDecodeError))
      else scan_atom env (c # s))"
| "scan_items env hk d s =
     bindE (scan_value env hk d s) (\<lambda>(v, r).
       case skip_ws r of
         x # q \<Rightarrow>
           (if x = CHR '']'' then Inr ([v], q)
            else if x = CHR '','' \<and> length (skip_ws q) < length s then
              bindE (scan_items env hk d (skip_ws q)) (\<lambda>(vs, t). Inr (v # vs, t))
            else Inl JSONDecodeError)
       | [] \<Rightarrow> Inl JSONDecodeError)"
| "scan_members env hk d s =
     (case s of
        c # s' \<Rightarrow>
          (if c = CHR 0x22 then
             bindE (scan_string s') (\<lambda>(k, r).
               case skip_ws r of
                 x # q \<Rightarrow>
                   (if x = CHR '':'' \<and> length (skip_ws q) < length s then
                      bindE (scan_value env hk d (skip_ws q)) (\<lambda>(v, t).
                        case skip_ws t of
                          y # u \<Rightarrow>
                            (if y = CHR ''}'' then Inr ([(k, v)], u)
                             else if y = CHR '','' \<and> length (skip_ws u) < length s then
                               bindE (scan_members env hk d (skip_ws u)) (\<lambda>(kvs, z). Inr ((k, v) # kvs, z))
                             else Inl JSONDecodeError)
                        | [] \<Rightarrow> Inl JSONDecodeError)
                    else Inl JSONDecodeError)
               | [] \<Rightarrow> Inl JSONDecodeError)
           else Inl JSONDecodeError)
      | [] \<Rightarrow> Inl JSONDecodeError)"
  by pat_completeness auto
termination
  by (relation "inv_image (less_than <*lex*> less_than <*lex*> less_than)
      (\<lambda>x. case x of Inl (_, _, d, s) \<Rightarrow> (d, length s, 0::nat)
                   | Inr (Inl (_, _, d, s)) \<Rightarrow> (d, length s, 1)
                   | Inr (Inr (_, _, d, s)) \<Rightarrow> (d, length s, 1))") auto

definition BOM :: string where "BOM = [CHR 0xEF, CHR 0xBB, CHR 0xBF]"

definition json_loads :: "pyenv \<Rightarrow> hook \<Rightarrow> string \<Rightarrow> json result" where
  "json_loads env hk s =
     (if take 3 s = BOM then Inl JSONDecodeError
      else bindE (scan_value env hk (rec_limit env) (skip_ws s)) (\<lambda>(v, r).
             if skip_ws r = [] then Inr v else Inl JSONDecodeError))"

section \<open>Encoding\<close>

definition escape_char :: "char \<Rightarrow> string" where
  "escape_char c =
     (if c = CHR 0x22 \<or> c = CHR 0x5C then [CHR 0x5C, c]
      else if c = CHR 0x08 then [CHR 0x5C, CHR ''b'']
      else if c = CHR 0x0C then [CHR 0x5C, CHR ''f'']
      else if c = CHR 0x0A then [CHR 0x5C, CHR ''n'']
      else if c = CHR 0x0D then [CHR 0x5C, CHR ''r'']
      else if c = CHR 0x09 then [CHR 0x5C, CHR ''t'']
      else if of_char c < (32::nat) then
        [CHR 0x5C, CHR ''u'', CHR ''0'', CHR ''0'', hex_char (of_char c div 16), hex_char (of_char c mod 16)]
      else [c])"

definition encode_string :: "string \<Rightarrow> string" where
  "encode_string s = CHR 0x22 # concat (map escape_char s) @ [CHR 0x22]"

definition show_int :: "int \<Rightarrow> string" where
  "show_int n = (if n < 0 then CHR ''-'' # show_nat (nat (- n)) else show_nat (nat n))"

fun join :: "string \<Rightarrow> string list \<Rightarrow> string" where
  "join sep [] = []"
| "join sep [x] = x"
| "join sep (x # y # xs) = x @ sep @ join sep (y # xs)"

text \<open>\<open>json.dumps(v, ensure_ascii=False, separators=(isep, ksep))\<close>\<close>

fun dumps :: "string \<Rightarrow> string \<Rightarrow> json \<Rightarrow> string" where
  "dumps isep ksep JNull = ''null''"
| "dumps isep ksep (JBool b) = (if b then ''true'' else ''false'')"
| "dumps isep ksep (JInt n) = show_int n"
| "dumps isep ksep (JFloat r) =
     (if r = ''nan'' then ''NaN'' else if r = ''inf'' then ''Infinity''
      else if r = ''-inf'' then ''-Infinity'' else r)"
| "dumps isep ksep (JStr s) = encode_string s"
| "dumps isep ksep (JList vs) = ''['' @ join isep (map (dumps isep ksep) vs) @ '']''"
| "dumps isep ksep (JObj kvs) =
     ''{'' @ join isep (map (\<lambda>kv. encode_string (fst kv) @ ksep @ dumps isep ksep (snd kv)) kvs) @ ''}''"

text \<open>\<open>sort_keys=True\<close> sorts the items of every dictionary.\<close>

fun sort_keys :: "json \<Rightarrow> json" where
  "sort_keys (JList vs) = JList (map sort_keys vs)"
| "sort_keys (JObj kvs) = JObj (sort_key fst (map (\<lambda>kv. (fst kv, sort_keys (snd kv))) kvs))"
| "sort_keys v = v"

definition default_json :: "json \<Rightarrow> string" where
  "default_json v = dumps '', '' '': '' v"

text \<open>
  \<open>(json.dumps(value, ensure_ascii=False, sort_keys=True, separators=(",", ":")) + "\n").encode("utf-8")\<close>
\<close>

definition canonical_json :: "json \<Rightarrow> string result" where
  "canonical_json v = encode_utf8 (dumps '','' '':'' (sort_keys v) @ [CHR 0x0A])"

section \<open>Round trip\<close>

lemma skip_ws_nonws: "\<not> is_ws c \<Longrightarrow> skip_ws (c # s) = c # s"
  by (simp add: skip_ws_def)

lemma skip_ws_Nil [simp]: "skip_ws [] = []"
  by (simp add: skip_ws_def)

lemma skip_ws_append: "list_all is_ws w \<Longrightarrow> skip_ws (w @ s) = skip_ws s"
  by (induction w) (auto simp: skip_ws_def)

lemma hex_value_hex_char: "k < 16 \<Longrightarrow> hex_value (hex_char k) = Some k"
  by (auto simp: hex_char_def is_digit_def less_eq_char_def)

lemma hex4_control: "n < 32 \<Longrightarrow> hex4 CHR ''0'' CHR ''0'' (hex_char (n div 16)) (hex_char (n mod 16)) = Some n"
  using hex_value_hex_char [of "n div 16"] hex_value_hex_char [of "n mod 16"] hex_value_hex_char [of 0]
  by (simp add: hex4_def div_less_iff_less_mult is_digit_def less_eq_char_def del: hex_value.simps)
    (simp add: is_digit_def less_eq_char_def)

lemma scan_string_u:
  "scan_escape_u s = Some (n, r) \<Longrightarrow> scan_string r = Inr (t, q) \<Longrightarrow>
     scan_string (CHR 0x5C # CHR ''u'' # s) = Inr (utf8_of n @ t, q)"
  by simp

lemma scan_string_escape_control:
  assumes c: "of_char c < (32::nat)" "c \<notin> {CHR 0x08, CHR 0x0C, CHR 0x0A, CHR 0x0D, CHR 0x09}"
    and r: "scan_string r = Inr (t, q)"
  shows "scan_string (escape_char c @ r) = Inr (c # t, q)"
proof -
  let ?x = "hex_char (of_char c div 16)" and ?y = "hex_char (of_char c mod 16)"
  have ne: "c \<noteq> CHR 0x22" "c \<noteq> CHR 0x5C" using c(1) by auto
  have e: "escape_char c = CHR 0x5C # CHR ''u'' # CHR ''0'' # CHR ''0'' # ?x # [?y]"
    unfolding escape_char_def using c ne by simp
  have "hex4 CHR ''0'' CHR ''0'' ?x ?y = Some (of_char c)"
    by (rule hex4_control [OF c(1)])
  then have u: "scan_escape_u (CHR ''0'' # CHR ''0'' # ?x # ?y # r) = Some (of_char c, r)"
    using c(1) unfolding scan_escape_u_def by (simp only: list.case option.case) simp
  have "utf8_of (of_char c) = [c]" using c(1) by (simp add: utf8_of_def)
  with scan_string_u [OF u r] show ?thesis
    unfolding e append_Cons append_Nil by simp
qed

lemma scan_string_escape_char:
  assumes r: "scan_string r = Inr (t, q)"
  shows "scan_string (escape_char c @ r) = Inr (c # t, q)"
proof (cases "of_char c < (32::nat) \<and> c \<notin> {CHR 0x08, CHR 0x0C, CHR 0x0A, CHR 0x0D, CHR 0x09}")
  case True
  with r show ?thesis by (intro scan_string_escape_control) auto
next
  case False
  then consider "c \<in> {CHR 0x08, CHR 0x0C, CHR 0x0A, CHR 0x0D, CHR 0x09}" | "c = CHR 0x22 \<or> c = CHR 0x5C"
    | "\<not> of_char c < (32::nat)" "c \<noteq> CHR 0x22" "c \<noteq> CHR 0x5C"
    by auto
  then show ?thesis
  proof cases
    case 1
    with r show ?thesis by (auto simp: escape_char_def unescape_def)
  next
    case 2
    with r show ?thesis by (auto simp: escape_char_def unescape_def)
  next
    case 3
    then have "escape_char c = [c]" by (auto simp: escape_char_def)
    with 3 r show ?thesis by simp
  qed
qed

lemma scan_string_escape:
  "scan_string (concat (map escape_char s) @ CHR 0x22 # r) = Inr (s, r)"
  by (induction s) (simp_all add: scan_string_escape_char)

lemma show_nat_digits: "list_all is_digit (show_nat n) \<and> show_nat n \<noteq> []"
proof (induction n rule: show_nat.induct)
  case (1 n)
  then show ?case by (cases "n < 10") (simp_all add: show_nat.simps [of n])
qed

lemma read_nat_snoc: "read_nat (s @ [c]) = 10 * read_nat s + digit_val c"
  by (simp add: read_nat_def)

lemma read_show_nat: "read_nat (show_nat n) = n"
proof (induction n rule: show_nat.induct)
  case (1 n)
  then show ?case
    by (cases "n < 10") (simp_all add: show_nat.simps [of n] read_nat_snoc, simp add: read_nat_def)
qed

lemma show_nat_hd:
  assumes "0 < n"
  shows "hd (show_nat n) \<noteq> CHR ''0''"
  using assms
proof (induction n rule: show_nat.induct)
  case (1 n)
  show ?case
  proof (cases "n < 10")
    case True
    with 1 show ?thesis by (simp add: show_nat.simps [of n] digit_char_lits)
  next
    case False
    with 1 have "hd (show_nat (n div 10)) \<noteq> CHR ''0''" by simp
    with False show ?thesis using show_nat_digits [of "n div 10"] by (simp add: show_nat.simps [of n])
  qed
qed

text \<open>What may follow a number without becoming part of it.\<close>

definition num_end :: "string \<Rightarrow> bool" where
  "num_end r = (case r of [] \<Rightarrow> True
     | c # _ \<Rightarrow> \<not> is_digit c \<and> c \<noteq> CHR ''.'' \<and> c \<noteq> CHR ''e'' \<and> c \<noteq> CHR ''E'')"

lemma takeWhile_digits: "list_all is_digit ds \<Longrightarrow> num_end r \<Longrightarrow> takeWhile is_digit (ds @ r) = ds \<and> dropWhile is_digit (ds @ r) = r"
  by (induction ds) (auto simp: num_end_def split: list.splits)

lemma scan_int_part_show:
  assumes "num_end r"
  shows "scan_int_part (show_nat n @ r) = Some (show_nat n, r)"
proof (cases "n = 0")
  case True
  then show ?thesis by (simp add: show_nat.simps scan_int_part_def)
next
  case False
  obtain c cs where c: "show_nat n = c # cs" using show_nat_digits [of n] by (cases "show_nat n") auto
  moreover have "c \<noteq> CHR ''0''" "is_digit c" "list_all is_digit (show_nat n)"
    using False show_nat_hd [of n] show_nat_digits [of n] c by auto
  ultimately show ?thesis
    using takeWhile_digits [of "show_nat n" r] assms by (simp add: scan_int_part_def)
qed

lemma scan_frac_exp_end: "num_end r \<Longrightarrow> scan_frac r = ([], r) \<and> scan_exp r = ([], r)"
  by (auto simp: num_end_def scan_frac_def scan_exp_def split: list.splits)

lemma show_nat_not_minus: "show_nat n = c # cs \<Longrightarrow> c \<noteq> CHR ''-''"
  using show_nat_digits [of n] by (auto simp: is_digit_def less_eq_char_def)

lemma scan_number_show_int:
  assumes "num_end r"
  shows "scan_number (show_int n @ r) =
    Some (if n < 0 then ''-'' else [], show_nat (nat \<bar>n\<bar>), False, r)"
proof -
  obtain c cs where c: "show_nat (nat n) = c # cs" using show_nat_digits [of "nat n"] by (cases "show_nat (nat n)") auto
  then have m: "c \<noteq> CHR ''-''" by (rule show_nat_not_minus)
  show ?thesis
  proof (cases "n < 0")
    case True
    then show ?thesis
      using scan_int_part_show [OF assms, of "nat (- n)"] scan_frac_exp_end [OF assms]
      by (simp add: scan_number_def show_int_def)
  next
    case False
    then show ?thesis
      using scan_int_part_show [OF assms, of "nat n"] scan_frac_exp_end [OF assms] m c
      by (simp add: scan_number_def show_int_def)
  qed
qed


text \<open>
  Values that survive encoding and decoding under a nesting budget: no float, integers
  within the digit limit, dictionaries without repeated keys.
\<close>

fun jwf :: "nat \<Rightarrow> json \<Rightarrow> bool" where
  "jwf d JNull = True"
| "jwf d (JBool b) = True"
| "jwf d (JInt n) = (length (show_nat (nat \<bar>n\<bar>)) \<le> MAX_STR_DIGITS)"
| "jwf d (JFloat r) = False"
| "jwf d (JStr s) = True"
| "jwf 0 (JList vs) = False"
| "jwf (Suc d) (JList vs) = list_all (jwf d) vs"
| "jwf 0 (JObj kvs) = False"
| "jwf (Suc d) (JObj kvs) = (distinct (keys kvs) \<and> list_all (\<lambda>kv. jwf d (snd kv)) kvs)"

definition good_hook :: "hook \<Rightarrow> bool" where
  "good_hook hk \<longleftrightarrow> (\<forall>kvs. distinct (keys kvs) \<longrightarrow> hk kvs = Inr kvs)"

lemma good_hook_unique_object: "good_hook (unique_object e)"
  by (simp add: good_hook_def unique_object_def)

lemma dict_set_fresh: "k \<notin> set (keys d) \<Longrightarrow> dict_set d k v = d @ [(k, v)]"
  by (induction d k v rule: dict_set.induct) (auto simp: keys_def)

lemma foldl_dict_set:
  "distinct (keys (d @ kvs)) \<Longrightarrow> foldl (\<lambda>d (k, v). dict_set d k v) d kvs = d @ kvs"
proof (induction kvs arbitrary: d)
  case (Cons kv kvs)
  then have "fst kv \<notin> set (keys d)" by (auto simp: keys_def)
  then have "dict_set d (fst kv) (snd kv) = d @ [kv]" by (simp add: dict_set_fresh)
  with Cons show ?case by (simp add: case_prod_beta keys_def)
qed simp

lemma good_hook_dict_hook: "good_hook dict_hook"
  by (simp add: good_hook_def dict_hook_def foldl_dict_set)

lemma dumps_hd:
  assumes "jwf d v"
  obtains c cs where "dumps isep ksep v = c # cs" and "\<not> is_ws c" and "c \<noteq> CHR '']''" and "c \<noteq> CHR ''}''"
proof (cases v)
  case (JInt n)
  obtain c cs where c: "show_nat (nat n) = c # cs" "is_digit c"
    using show_nat_digits [of "nat n"] by (cases "show_nat (nat n)") auto
  show ?thesis
  proof (cases "n < 0")
    case True
    with JInt that show ?thesis by (simp add: show_int_def is_ws_def)
  next
    case False
    have "\<not> is_ws c \<and> c \<noteq> CHR '']'' \<and> c \<noteq> CHR ''}''"
      using c(2) by (auto simp: is_digit_def less_eq_char_def is_ws_def)
    with JInt that c False show ?thesis by (simp add: show_int_def)
  qed
next
  case (JBool b)
  with that show ?thesis by (cases b) (simp_all add: is_ws_def)
qed (use assms that in \<open>auto simp: is_ws_def encode_string_def\<close>)

lemma strip_simps [simp]:
  "strip [] s = Some s"
  "strip (p # ps) [] = None"
  "strip (p # ps) (x # y) = (if p = x then strip ps y else None)"
  by (auto simp: strip_def)

lemma scan_atom_int:
  assumes "num_end r" and "length (show_nat (nat \<bar>n\<bar>)) \<le> MAX_STR_DIGITS"
  shows "scan_atom env (show_int n @ r) = Inr (JInt n, r)"
proof -
  obtain c cs where c: "show_nat (nat \<bar>n\<bar>) = c # cs" "is_digit c"
    using show_nat_digits [of "nat \<bar>n\<bar>"] by (cases "show_nat (nat \<bar>n\<bar>)") auto
  have ne: "c \<noteq> CHR ''n''" "c \<noteq> CHR ''t''" "c \<noteq> CHR ''f''" "c \<noteq> CHR ''N''" "c \<noteq> CHR ''I''" "c \<noteq> CHR ''-''"
    using c(2) by (auto simp: is_digit_def less_eq_char_def)
  have "json_number env (show_int n @ r) = Inr (JInt n, r)"
    using assms(2) by (simp add: json_number_def scan_number_show_int [OF assms(1)] read_show_nat)
  moreover have "show_int n @ r = (if n < 0 then CHR ''-'' # c # cs @ r else c # cs @ r)"
    using c(1) by (cases "n < 0") (simp_all add: show_int_def)
  ultimately show ?thesis
    using ne by (cases "n < 0") (simp_all add: scan_atom_def)
qed

definition ws_sep :: "char \<Rightarrow> string \<Rightarrow> bool" where
  "ws_sep c s \<longleftrightarrow> (\<exists>w. s = c # w \<and> list_all is_ws w)"

definition reads_back :: "pyenv \<Rightarrow> hook \<Rightarrow> nat \<Rightarrow> string \<Rightarrow> string \<Rightarrow> json \<Rightarrow> bool" where
  "reads_back env hk d isep ksep v \<longleftrightarrow>
     (\<forall>r. num_end r \<longrightarrow> scan_value env hk d (dumps isep ksep v @ r) = Inr (v, r))"

lemma num_end_sep: "ws_sep CHR '','' s \<Longrightarrow> num_end (s @ r)"
  by (auto simp: ws_sep_def num_end_def is_digit_def less_eq_char_def)

lemma num_end_close: "num_end (CHR '']'' # r)" "num_end (CHR ''}'' # r)" "num_end [CHR 0x0A]" "num_end []"
  by (simp_all add: num_end_def is_digit_def less_eq_char_def)

lemma skip_ws_sep:
  assumes "ws_sep c s" and "dumps isep ksep v = x # xs" and "\<not> is_ws x"
  shows "\<exists>w. s = c # w \<and> skip_ws (w @ dumps isep ksep v @ r) = dumps isep ksep v @ r"
  using assms by (auto simp: ws_sep_def skip_ws_append skip_ws_nonws)

declare scan_value.simps [simp del] scan_items.simps [simp del] scan_members.simps [simp del]

lemma scan_items_join:
  assumes sep: "ws_sep CHR '','' isep"
    and vs: "\<And>v. v \<in> set vs \<Longrightarrow> jwf d v \<and> reads_back env hk d isep ksep v" and "vs \<noteq> []"
  shows "scan_items env hk d (join isep (map (dumps isep ksep) vs) @ CHR '']'' # r) = Inr (vs, r)"
  using vs \<open>vs \<noteq> []\<close>
proof (induction vs)
  case (Cons v vs)
  have rb: "scan_value env hk d (dumps isep ksep v @ q) = Inr (v, q)" if "num_end q" for q
    using Cons.prems(1) [of v] that by (simp add: reads_back_def)
  show ?case
  proof (cases vs)
    case Nil
    then show ?thesis
      using rb [OF num_end_close(1)] by (simp add: scan_items.simps skip_ws_nonws is_ws_def)
  next
    case (Cons u us)
    let ?rest = "join isep (map (dumps isep ksep) vs) @ CHR '']'' # r"
    have IH: "scan_items env hk d ?rest = Inr (vs, r)"
      using Cons.IH Cons.prems local.Cons by simp
    have "jwf d u" using Cons.prems(1) [of u] local.Cons by simp
    then obtain x xs where x: "dumps isep ksep u = x # xs" "\<not> is_ws x"
      by (rule dumps_hd)
    then obtain y where y: "?rest = x # y" using local.Cons by (cases us) auto
    from sep obtain w where w: "isep = CHR '','' # w" "list_all is_ws w" by (auto simp: ws_sep_def)
    have sk: "skip_ws (w @ ?rest) = ?rest" using w(2) x(2) y by (simp add: skip_ws_append skip_ws_nonws)
    have "num_end (isep @ ?rest)" using sep by (rule num_end_sep)
    from rb [OF this] show ?thesis
      using IH sk local.Cons w(1)
      by (simp add: scan_items.simps [of _ _ _ "dumps _ _ v @ _"] skip_ws_nonws is_ws_def)
  qed
qed simp

lemma encode_string_scan: "scan_string (tl (encode_string s) @ r) = Inr (s, r)"
  using scan_string_escape [of s r] by (simp add: encode_string_def)

lemma scan_member:
  assumes ksep: "ws_sep CHR '':'' ksep" and v: "jwf d v" "reads_back env hk d isep ksep v" and q: "num_end q"
  shows "scan_members env hk d (encode_string k @ ksep @ dumps isep ksep v @ q) =
    (case skip_ws q of
       y # u \<Rightarrow>
         (if y = CHR ''}'' then Inr ([(k, v)], u)
          else if y = CHR '','' \<and> length (skip_ws u) < length (encode_string k @ ksep @ dumps isep ksep v @ q) then
            bindE (scan_members env hk d (skip_ws u)) (\<lambda>(kvs, z). Inr ((k, v) # kvs, z))
          else Inl JSONDecodeError)
     | [] \<Rightarrow> Inl JSONDecodeError)"
proof -
  from ksep obtain w where w: "ksep = CHR '':'' # w" "list_all is_ws w" by (auto simp: ws_sep_def)
  from v(1) obtain x xs where x: "dumps isep ksep v = x # xs" "\<not> is_ws x" by (rule dumps_hd)
  have sk: "skip_ws (w @ dumps isep ksep v @ q) = dumps isep ksep v @ q"
    using w(2) x by (simp add: skip_ws_append skip_ws_nonws)
  have e: "encode_string k = CHR 0x22 # tl (encode_string k)" by (simp add: encode_string_def)
  have colon: "skip_ws (ksep @ dumps isep ksep v @ q) = CHR '':'' # w @ dumps isep ksep v @ q"
    using w(1) by (simp add: skip_ws_nonws is_ws_def)
  have rb: "scan_value env hk d (dumps isep ksep v @ q) = Inr (v, q)"
    using v(2) q by (simp add: reads_back_def)
  define S where "S = encode_string k @ ksep @ dumps isep ksep v @ q"
  have S: "S = CHR 0x22 # tl (encode_string k) @ ksep @ dumps isep ksep v @ q"
    unfolding S_def by (subst e) simp
  have len: "length (dumps isep ksep v @ q) < length S" by (simp add: S_def encode_string_def)
  have "scan_members env hk d S =
    (case skip_ws q of
       y # u \<Rightarrow>
         (if y = CHR ''}'' then Inr ([(k, v)], u)
          else if y = CHR '','' \<and> length (skip_ws u) < length S then
            bindE (scan_members env hk d (skip_ws u)) (\<lambda>(kvs, z). Inr ((k, v) # kvs, z))
          else Inl JSONDecodeError)
     | [] \<Rightarrow> Inl JSONDecodeError)"
    unfolding scan_members.simps [of env hk d S]
    using len by (subst S) (simp add: encode_string_scan colon sk rb cong: list.case_cong)
  then show ?thesis by (simp only: S_def)
qed

lemma scan_members_join:
  assumes isep: "ws_sep CHR '','' isep" and ksep: "ws_sep CHR '':'' ksep"
    and kvs: "\<And>kv. kv \<in> set kvs \<Longrightarrow> jwf d (snd kv) \<and> reads_back env hk d isep ksep (snd kv)" and "kvs \<noteq> []"
  shows "scan_members env hk d (join isep (map (\<lambda>kv. encode_string (fst kv) @ ksep @ dumps isep ksep (snd kv)) kvs)
      @ CHR ''}'' # r) = Inr (kvs, r)"
  using kvs \<open>kvs \<noteq> []\<close>
proof (induction kvs)
  case (Cons kv kvs)
  let ?f = "\<lambda>kv. encode_string (fst kv) @ ksep @ dumps isep ksep (snd kv)"
  have v: "jwf d (snd kv)" "reads_back env hk d isep ksep (snd kv)" using Cons.prems(1) [of kv] by simp_all
  show ?case
  proof (cases kvs)
    case Nil
    then show ?thesis
      using scan_member [OF ksep v num_end_close(2), of "fst kv" r] by (simp add: skip_ws_nonws is_ws_def)
  next
    case (Cons u us)
    let ?rest = "join isep (map ?f kvs) @ CHR ''}'' # r"
    have IH: "scan_members env hk d ?rest = Inr (kvs, r)"
      using Cons.IH Cons.prems local.Cons by simp
    obtain y where y: "?rest = CHR 0x22 # y" using local.Cons by (cases us) (auto simp: encode_string_def)
    from isep obtain w where w: "isep = CHR '','' # w" "list_all is_ws w" by (auto simp: ws_sep_def)
    have sk: "skip_ws (w @ ?rest) = ?rest"
      using w(2) y by (simp add: skip_ws_append skip_ws_nonws is_ws_def)
    have comma: "skip_ws (isep @ ?rest) = CHR '','' # w @ ?rest"
      using w(1) by (simp add: skip_ws_nonws is_ws_def)
    have "num_end (isep @ ?rest)" using isep by (rule num_end_sep)
    from scan_member [OF ksep v this, of "fst kv"] have
      "scan_members env hk d (encode_string (fst kv) @ ksep @ dumps isep ksep (snd kv) @ isep @ ?rest) =
         Inr ((fst kv, snd kv) # kvs, r)"
      unfolding comma by (simp only: list.case sk IH) (simp add: encode_string_def)
    then show ?thesis using local.Cons by simp
  qed
qed simp

theorem scan_value_dumps:
  assumes "good_hook hk" and "ws_sep CHR '','' isep" and "ws_sep CHR '':'' ksep" and "jwf d v" and "num_end r"
  shows "scan_value env hk d (dumps isep ksep v @ r) = Inr (v, r)"
proof -
  have "reads_back env hk d isep ksep v" using assms(4)
  proof (induction d v rule: jwf.induct)
    case (7 d vs)
    show ?case
    proof (cases vs)
      case Nil
      then show ?thesis
        by (simp add: reads_back_def scan_value.simps skip_ws_nonws is_ws_def)
    next
      case (Cons u us)
      from 7 have all: "\<And>v. v \<in> set vs \<Longrightarrow> jwf d v \<and> reads_back env hk d isep ksep v"
        by (auto simp: list_all_iff)
      then have "jwf d u" using Cons by simp
      then obtain x xs where x: "dumps isep ksep u = x # xs" "\<not> is_ws x" "x \<noteq> CHR '']''" by (rule dumps_hd)
      then obtain y where y: "join isep (map (dumps isep ksep) vs) = x # y" using Cons by (cases us) auto
      have "vs \<noteq> []" using Cons by simp
      from scan_items_join [OF assms(2) all this] show ?thesis
        using y x by (simp add: reads_back_def scan_value.simps skip_ws_nonws)
    qed
  next
    case (9 d kvs)
    then have hk: "hk kvs = Inr kvs" using assms(1) by (simp add: good_hook_def)
    show ?case
    proof (cases kvs)
      case Nil
      with hk show ?thesis
        by (simp add: reads_back_def scan_value.simps skip_ws_nonws is_ws_def)
    next
      case (Cons u us)
      from 9 have all: "\<And>kv. kv \<in> set kvs \<Longrightarrow> jwf d (snd kv) \<and> reads_back env hk d isep ksep (snd kv)"
        by (auto simp: list_all_iff)
      obtain y where y: "join isep (map (\<lambda>kv. encode_string (fst kv) @ ksep @ dumps isep ksep (snd kv)) kvs) = CHR 0x22 # y"
        using Cons by (cases us) (auto simp: encode_string_def)
      have "kvs \<noteq> []" using Cons by simp
      from scan_members_join [OF assms(2,3) all this] show ?thesis
        using y hk by (simp add: reads_back_def scan_value.simps skip_ws_nonws is_ws_def)
    qed
  next
    case (3 d n)
    obtain c cs where c: "show_int n = c # cs" "c = CHR ''-'' \<or> is_digit c"
      using show_nat_digits [of "nat n"] by (cases "n < 0"; cases "show_nat (nat n)") (auto simp: show_int_def)
    then have "c \<noteq> CHR 0x22" "c \<noteq> CHR ''[''" "c \<noteq> CHR ''{''" by (auto simp: is_digit_def less_eq_char_def)
    then have "scan_value env hk d (show_int n @ r') = scan_atom env (show_int n @ r')" for r'
      unfolding c(1) by (simp add: scan_value.simps)
    with 3 show ?case by (simp add: reads_back_def scan_atom_int)
  qed (auto simp: reads_back_def scan_value.simps scan_atom_def encode_string_def scan_string_escape)
  with assms(5) show ?thesis by (simp add: reads_back_def)
qed

section \<open>Key order\<close>

lemma keys_map_snd [simp]: "keys (map (\<lambda>kv. (fst kv, f (snd kv))) kvs) = keys kvs"
  by (simp add: keys_def)

lemma distinct_keys_sort_key [simp]: "distinct (keys (sort_key fst kvs)) = distinct (keys kvs)"
  by (simp add: keys_def distinct_map)

lemma set_keys_sort_key [simp]: "set (keys (sort_key fst kvs)) = set (keys kvs)"
  by (simp add: keys_def)

lemma jwf_sort_keys [simp]: "jwf d (sort_keys v) = jwf d v"
  by (induction d v rule: jwf.induct) (auto simp: list_all_iff)

lemma sort_keys_idem [simp]: "sort_keys (sort_keys v) = sort_keys v"
proof (induction v rule: sort_keys.induct)
  case (2 kvs)
  let ?l = "sort_key fst (map (\<lambda>kv. (fst kv, sort_keys (snd kv))) kvs)"
  have "(fst kv, sort_keys (snd kv)) = kv" if "kv \<in> set ?l" for kv
    using that 2 by auto
  then have "map (\<lambda>kv. (fst kv, sort_keys (snd kv))) ?l = ?l"
    by (rule map_idI)
  moreover have "sort_key fst ?l = ?l" by (intro sort_key_id_if_sorted) simp
  ultimately show ?case by (simp only: sort_keys.simps)
qed simp_all

lemma map_of_sort_key: "distinct (keys kvs) \<Longrightarrow> map_of (sort_key fst kvs) = map_of kvs"
  by (subst map_of_inject_set) (auto simp: keys_def distinct_map)

lemma map_of_map_snd: "map_of (map (\<lambda>kv. (fst kv, f (snd kv))) kvs) k = map_option f (map_of kvs k)"
  by (induction kvs) auto

lemma map_of_sort_keys:
  "distinct (keys kvs) \<Longrightarrow>
     map_of (sort_key fst (map (\<lambda>kv. (fst kv, sort_keys (snd kv))) kvs)) k = map_option sort_keys (map_of kvs k)"
  by (simp add: map_of_sort_key map_of_map_snd)

section \<open>What the decoder returns\<close>

fun no_float :: "json \<Rightarrow> bool" where
  "no_float (JFloat r) = False"
| "no_float (JList vs) = list_all no_float vs"
| "no_float (JObj kvs) = list_all (\<lambda>kv. no_float (snd kv)) kvs"
| "no_float v = True"

text \<open>The shape of every decoded value, floats included.\<close>

fun jok :: "nat \<Rightarrow> json \<Rightarrow> bool" where
  "jok d (JInt n) = (length (show_nat (nat \<bar>n\<bar>)) \<le> MAX_STR_DIGITS)"
| "jok 0 (JList vs) = False"
| "jok (Suc d) (JList vs) = list_all (jok d) vs"
| "jok 0 (JObj kvs) = False"
| "jok (Suc d) (JObj kvs) = (distinct (keys kvs) \<and> list_all (\<lambda>kv. jok d (snd kv)) kvs)"
| "jok d v = True"

lemma jwf_iff: "jwf d v \<longleftrightarrow> jok d v \<and> no_float v"
  by (induction d v rule: jwf.induct) (auto simp: list_all_iff)

lemma jok_JObj: "jok d (JObj kvs) \<Longrightarrow> distinct (keys kvs)"
  by (cases d) simp_all

lemma jok_jget:
  assumes "jok d (JObj kvs)" and "jget kvs k = Inr v"
  shows "jok (d - 1) v \<and> d \<noteq> 0"
  using assms by (cases d) (auto simp: jget_def list_all_iff split: option.splits dest!: map_of_SomeD)

lemma jok_item: "jok d (JList vs) \<Longrightarrow> i < length vs \<Longrightarrow> jok (d - 1) (vs ! i)"
  by (cases d) (auto simp: list_all_length)

lemma no_float_JObj:
  assumes "distinct (keys kvs)" and "\<And>k v. jget kvs k = Inr v \<Longrightarrow> no_float v"
  shows "no_float (JObj kvs)"
proof -
  have "no_float v" if "(k, v) \<in> set kvs" for k v
    using that assms(1) by (intro assms(2) [of k]) (simp add: jget_def keys_def)
  then show ?thesis by (auto simp: list_all_iff)
qed

lemma skip_ws_length: "length (skip_ws s) \<le> length s"
  by (simp add: skip_ws_def length_dropWhile_le)

lemma scan_string_length: "scan_string s = Inr (t, r) \<Longrightarrow> length r < length s"
proof (induction s arbitrary: t r rule: scan_string.induct)
  case (2 c s)
  consider "c = CHR 0x22" | "c = CHR 0x5C" | "c \<noteq> CHR 0x22" "c \<noteq> CHR 0x5C" by blast
  then show ?case
  proof cases
    case 2
    then obtain e s' where s: "s = e # s'" using "2.prems" by (cases s) auto
    show ?thesis
    proof (cases "e = CHR ''u''")
      case True
      with 2 s "2.prems" obtain n q t' where u: "scan_escape_u s' = Some (n, q)" "scan_string q = Inr (t', r)"
        by (auto simp: result_simps split: option.splits)
      then have "length r < length q" using "2.IH"(1) [OF _ _ s True u(1) refl] 2 by simp
      with scan_escape_u_length [OF u(1)] s show ?thesis by simp
    next
      case False
      with 2 s "2.prems" obtain x t' where u: "unescape e = Some x" "scan_string s' = Inr (t', r)"
        by (auto simp: result_simps split: option.splits)
      then have "length r < length s'" using "2.IH"(2) [OF _ _ s False u(1)] 2 by simp
      with s show ?thesis by simp
    qed
  qed (use "2.prems" "2.IH"(3) in \<open>auto simp: result_simps less_Suc_eq split: if_splits\<close>)
qed simp

lemma strip_length: "strip p s = Some r \<Longrightarrow> p \<noteq> [] \<Longrightarrow> length r < length s"
  by (cases s; cases p) (auto simp: strip_def split: if_splits)

lemma scan_int_part_length: "scan_int_part s = Some (ds, r) \<Longrightarrow> length r < length s"
  by (auto simp: scan_int_part_def length_dropWhile_le le_imp_less_Suc split: list.splits if_splits)

lemma scan_frac_length: "scan_frac s = (f, r) \<Longrightarrow> length r \<le> length s"
  using length_dropWhile_le [of is_digit]
  by (auto simp: scan_frac_def split: list.splits if_splits intro: le_trans [OF length_dropWhile_le] le_SucI)

lemma scan_exp_length: "scan_exp s = (f, r) \<Longrightarrow> length r \<le> length s"
  by (auto simp: scan_exp_def Let_def split: list.splits if_splits prod.splits intro: le_trans [OF length_dropWhile_le] le_SucI)

lemma scan_number_length: "scan_number s = Some (sg, ds, b, r) \<Longrightarrow> length r < length s"
  by (auto simp: scan_number_def Let_def split: list.splits if_splits option.splits prod.splits
      dest!: scan_int_part_length scan_frac_length scan_exp_length)

lemma scan_atom_length: "scan_atom env s = Inr (v, r) \<Longrightarrow> length r < length s"
  unfolding scan_atom_def json_number_def
  by (auto split: option.splits if_splits prod.splits dest: strip_length scan_number_length simp del: strip_simps)


lemma scan_membersE:
  assumes "scan_members env hk d s = Inr (kvs, r)"
  obtains s' k q t w z y u where "s = CHR 0x22 # s'" and "scan_string s' = Inr (k, q)"
    and "skip_ws q = CHR '':'' # t" and "length (skip_ws t) < length s"
    and "scan_value env hk d (skip_ws t) = Inr (w, z)" and "skip_ws z = y # u"
    and "y = CHR ''}'' \<and> kvs = [(k, w)] \<and> r = u \<or>
      y \<noteq> CHR ''}'' \<and> y = CHR '','' \<and> length (skip_ws u) < length s \<and>
      (\<exists>us. scan_members env hk d (skip_ws u) = Inr (us, r) \<and> kvs = (k, w) # us)"
proof -
  from assms obtain s' where s: "s = CHR 0x22 # s'"
    unfolding scan_members.simps [of env hk d s] by (auto split: list.splits if_splits)
  note m = assms [unfolded scan_members.simps [of env hk d s], unfolded s, simplified]
  from m obtain k q where k: "scan_string s' = Inr (k, q)" by (auto simp: result_simps)
  note m = m [unfolded k, simplified]
  from m obtain t where t: "skip_ws q = CHR '':'' # t" "length (skip_ws t) < length s"
    unfolding s by (auto split: list.splits if_splits)
  note m = m [unfolded t(1), simplified]
  from m t obtain w z where w: "scan_value env hk d (skip_ws t) = Inr (w, z)"
    unfolding s by (auto simp: result_simps split: if_splits)
  note m = m [unfolded w, simplified]
  from m obtain y u where y: "skip_ws z = y # u" by (auto split: list.splits if_splits)
  from m y have "y = CHR ''}'' \<and> kvs = [(k, w)] \<and> r = u \<or>
      y \<noteq> CHR ''}'' \<and> y = CHR '','' \<and> length (skip_ws u) < length s \<and>
      (\<exists>us. scan_members env hk d (skip_ws u) = Inr (us, r) \<and> kvs = (k, w) # us)"
    unfolding s by (auto simp: result_simps split: if_splits)
  with that [OF s k t w y] show ?thesis .
qed

lemma scan_shorter:
  "scan_value env hk d s = Inr (v, r) \<Longrightarrow> length r < length s"
  "scan_items env hk d s = Inr (vs, r) \<Longrightarrow> length r < length s"
  "scan_members env hk d s = Inr (kvs, r) \<Longrightarrow> length r < length s"
proof (induction env hk d s and env hk d s and env hk d s arbitrary: v r and vs r and kvs r
    rule: scan_value_scan_items_scan_members.induct)
  case (2 env hk d c s)
  consider "c = CHR 0x22" | "c = CHR ''[''" | "c = CHR ''{''" | "c \<noteq> CHR 0x22" "c \<noteq> CHR ''[''" "c \<noteq> CHR ''{''"
    by blast
  then show ?case
  proof cases
    case 1
    with "2.prems" show ?thesis by (auto simp: scan_value.simps result_simps dest!: scan_string_length)
  next
    case 2
    with "2.prems" obtain d' x q where d: "d = Suc d'" and q: "skip_ws s = x # q" by (auto simp: scan_value.simps split: nat.splits list.splits)
    then have "length (x # q) \<le> length s" using skip_ws_length [of s] by simp
    moreover have "length r < length (x # q)"
    proof (cases "x = CHR '']''")
      case True
      with "2.prems" 2 d q show ?thesis by (simp add: scan_value.simps)
    next
      case False
      with "2.prems" 2 d q obtain vs where "scan_items env hk d' (x # q) = Inr (vs, r)" by (auto simp: scan_value.simps result_simps)
      from "2.IH"(1) [OF _ _ d q False this] 2 show ?thesis by simp
    qed
    ultimately show ?thesis by simp
  next
    case 3
    with "2.prems" obtain d' x q where d: "d = Suc d'" and q: "skip_ws s = x # q" by (auto simp: scan_value.simps split: nat.splits list.splits)
    then have "length (x # q) \<le> length s" using skip_ws_length [of s] by simp
    moreover have "length r < length (x # q)"
    proof (cases "x = CHR ''}''")
      case True
      with "2.prems" 3 d q show ?thesis by (auto simp: scan_value.simps result_simps)
    next
      case False
      with "2.prems" 3 d q obtain vs where "scan_members env hk d' (x # q) = Inr (vs, r)" by (auto simp: scan_value.simps result_simps)
      from "2.IH"(2) [OF _ _ _ d q False this] 3 show ?thesis by simp
    qed
    ultimately show ?thesis by simp
  next
    case 4
    with "2.prems" scan_atom_length [of env "c # s" v r] show ?thesis by (simp add: scan_value.simps)
  qed
next
  case (3 env hk d s)
  from "3.prems" obtain v q where v: "scan_value env hk d s = Inr (v, q)" by (auto simp: result_simps scan_items.simps)
  then have q: "length q < length s" by (rule "3.IH"(1))
  from "3.prems" v obtain x t where x: "skip_ws q = x # t" by (auto simp: scan_items.simps split: list.splits)
  then have t: "length t < length q" using skip_ws_length [of q] by simp
  show ?case
  proof (cases "x = CHR '']''")
    case True
    with "3.prems" v x q t show ?thesis by (simp add: scan_items.simps)
  next
    case False
    with "3.prems" v x obtain us where c: "x = CHR '','' \<and> length (skip_ws t) < length s"
      and us: "scan_items env hk d (skip_ws t) = Inr (us, r)"
      by (auto simp: scan_items.simps result_simps split: if_splits)
    from "3.IH"(2) [OF v refl x False c us] c show ?thesis by simp
  qed
next
  case (4 env hk d s)
  from "4.prems" show ?case
  proof (rule scan_membersE)
    fix s' k q t w z y u
    assume s: "s = CHR 0x22 # s'" "scan_string s' = Inr (k, q)"
      and x: "skip_ws q = CHR '':'' # t" "length (skip_ws t) < length s"
      and w: "scan_value env hk d (skip_ws t) = Inr (w, z)" and y: "skip_ws z = y # u"
      and c: "y = CHR ''}'' \<and> kvs = [(k, w)] \<and> r = u \<or>
        y \<noteq> CHR ''}'' \<and> y = CHR '','' \<and> length (skip_ws u) < length s \<and>
        (\<exists>us. scan_members env hk d (skip_ws u) = Inr (us, r) \<and> kvs = (k, w) # us)"
    have "length z < length (skip_ws t)" using "4.IH"(1) [OF s(1) refl s(2) refl x(1) _ w] x by blast
    moreover have "length u < length z" using skip_ws_length [of z] y by simp
    ultimately show "length r < length s"
      using c x(2) "4.IH"(2) [OF s(1) refl s(2) refl x(1) _ w refl y] by fastforce
  qed
qed (simp_all add: scan_value.simps)

lemma read_nat_bound:
  assumes "list_all is_digit ds"
  shows "read_nat ds < 10 ^ length ds"
  using assms
proof (induction ds rule: rev_induct)
  case (snoc c ds)
  then have "read_nat ds < 10 ^ length ds" "digit_val c < 10" using digit_char_digit_val [of c] by auto
  then show ?case by (simp add: read_nat_snoc)
qed (simp add: read_nat_def)

lemma show_nat_length: "n < 10 ^ k \<Longrightarrow> 0 < k \<Longrightarrow> length (show_nat n) \<le> k"
proof (induction k arbitrary: n)
  case (Suc k)
  show ?case
  proof (cases "n < 10")
    case False
    then have "0 < k" using Suc.prems by (cases k) auto
    moreover have "n div 10 < 10 ^ k" using Suc.prems by (simp add: div_less_iff_less_mult mult.commute)
    ultimately show ?thesis using Suc.IH False by (simp add: show_nat.simps [of n])
  qed (simp add: show_nat.simps)
qed simp

lemma list_all_takeWhile: "list_all P (takeWhile P xs)"
  by (induction xs) auto

lemma scan_number_digits:
  assumes "scan_number s = Some (sg, ds, False, r)"
  shows "list_all is_digit ds \<and> ds \<noteq> []"
proof -
  have "list_all is_digit ds' \<and> ds' \<noteq> []" if "scan_int_part t = Some (ds', r')" for t ds' r'
    using that by (auto simp: scan_int_part_def list_all_takeWhile is_digit_def split: list.splits if_splits)
  then show ?thesis using assms
    by (auto simp: scan_number_def Let_def split: option.splits prod.splits)
qed

lemma scan_atom_jok: "scan_atom env s = Inr (v, r) \<Longrightarrow> jok d v"
  unfolding scan_atom_def json_number_def
  by (auto split: option.splits if_splits prod.splits simp del: strip_simps dest!: scan_number_digits
      intro!: order_trans [OF show_nat_length [OF read_nat_bound]])

lemma scan_jok:
  "scan_value env hk d s = Inr (v, r) \<Longrightarrow> hk = unique_object e \<Longrightarrow> jok d v"
  "scan_items env hk d s = Inr (vs, r) \<Longrightarrow> hk = unique_object e \<Longrightarrow> list_all (jok d) vs"
  "scan_members env hk d s = Inr (kvs, r) \<Longrightarrow> hk = unique_object e \<Longrightarrow> list_all (\<lambda>kv. jok d (snd kv)) kvs"
proof (induction env hk d s and env hk d s and env hk d s arbitrary: v r and vs r and kvs r
    rule: scan_value_scan_items_scan_members.induct)
  case (2 env hk d c s)
  consider "c = CHR 0x22" | "c = CHR ''[''" | "c = CHR ''{''" | "c \<noteq> CHR 0x22" "c \<noteq> CHR ''[''" "c \<noteq> CHR ''{''"
    by blast
  then show ?case
  proof cases
    case 1
    with "2.prems" show ?thesis by (auto simp: scan_value.simps result_simps)
  next
    case 2
    with "2.prems" obtain d' x q where d: "d = Suc d'" and q: "skip_ws s = x # q"
      by (auto simp: scan_value.simps split: nat.splits list.splits)
    show ?thesis
    proof (cases "x = CHR '']''")
      case True
      with "2.prems" 2 d q show ?thesis by (auto simp: scan_value.simps)
    next
      case False
      with "2.prems" 2 d q obtain vs where "scan_items env hk d' (x # q) = Inr (vs, r)" "v = JList vs"
        by (auto simp: scan_value.simps result_simps)
      with "2.IH"(1) [OF _ _ d q False this(1)] 2 "2.prems" d show ?thesis by simp
    qed
  next
    case 3
    with "2.prems" obtain d' x q where d: "d = Suc d'" and q: "skip_ws s = x # q"
      by (auto simp: scan_value.simps split: nat.splits list.splits)
    show ?thesis
    proof (cases "x = CHR ''}''")
      case True
      with "2.prems" 3 d q show ?thesis by (auto simp: scan_value.simps result_simps unique_object_def keys_def)
    next
      case False
      with "2.prems" 3 d q obtain vs where "scan_members env hk d' (x # q) = Inr (vs, r)" "v = JObj vs" "distinct (keys vs)"
        by (auto simp: scan_value.simps result_simps unique_object_def split: if_splits)
      with "2.IH"(2) [OF _ _ _ d q False this(1)] 3 "2.prems" d show ?thesis by simp
    qed
  next
    case 4
    with "2.prems" scan_atom_jok [of env "c # s" v r] show ?thesis by (simp add: scan_value.simps)
  qed
next
  case (3 env hk d s)
  from "3.prems" obtain v q where v: "scan_value env hk d s = Inr (v, q)" by (auto simp: result_simps scan_items.simps)
  from "3.prems" v obtain x t where x: "skip_ws q = x # t" by (auto simp: scan_items.simps split: list.splits)
  show ?case
  proof (cases "x = CHR '']''")
    case True
    with "3.prems" v x "3.IH"(1) [OF v] show ?thesis by (auto simp: scan_items.simps)
  next
    case False
    with "3.prems"(1) v x obtain us where c: "x = CHR '','' \<and> length (skip_ws t) < length s"
      and us: "scan_items env hk d (skip_ws t) = Inr (us, r)" "vs = v # us"
      by (auto simp: scan_items.simps result_simps split: if_splits)
    with "3.IH"(2) [OF v refl x False c us(1)] "3.IH"(1) [OF v] "3.prems" show ?thesis by simp
  qed
next
  case (4 env hk d s)
  from "4.prems"(1) show ?case
  proof (rule scan_membersE)
    fix s' k q t w z y u
    assume s: "s = CHR 0x22 # s'" "scan_string s' = Inr (k, q)"
      and x: "skip_ws q = CHR '':'' # t" "length (skip_ws t) < length s"
      and w: "scan_value env hk d (skip_ws t) = Inr (w, z)" and y: "skip_ws z = y # u"
      and c: "y = CHR ''}'' \<and> kvs = [(k, w)] \<and> r = u \<or>
        y \<noteq> CHR ''}'' \<and> y = CHR '','' \<and> length (skip_ws u) < length s \<and>
        (\<exists>us. scan_members env hk d (skip_ws u) = Inr (us, r) \<and> kvs = (k, w) # us)"
    have "jok d w" using "4.IH"(1) [OF s(1) refl s(2) refl x(1) _ w] x "4.prems" by blast
    then show "list_all (\<lambda>kv. jok d (snd kv)) kvs"
      using c "4.prems" x(2) "4.IH"(2) [OF s(1) refl s(2) refl x(1) _ w refl y] by fastforce
  qed
qed (simp_all add: scan_value.simps)

lemma json_loads_jok: "json_loads env (unique_object e) s = Inr v \<Longrightarrow> jok (rec_limit env) v"
  by (auto simp: json_loads_def result_simps split: if_splits dest: scan_jok(1) [OF _ refl])

text \<open>A canonical document is UTF-8 and loading it gives the value with its keys in order.\<close>

lemma dumps_not_BOM:
  assumes "jwf d v"
  shows "take 3 (dumps isep ksep v @ r) \<noteq> BOM"
proof -
  have "hd (dumps isep ksep v) \<noteq> CHR 0xEF"
  proof (cases v)
    case (JInt n)
    have "hd (show_nat k) \<noteq> CHR 0xEF" for k
      using show_nat_digits [of k] by (cases "show_nat k") (auto simp: is_digit_def less_eq_char_def)
    with JInt show ?thesis by (simp add: show_int_def)
  qed (use assms in \<open>auto simp: encode_string_def\<close>)
  moreover from assms obtain c cs where "dumps isep ksep v = c # cs" by (rule dumps_hd)
  ultimately show ?thesis by (simp add: BOM_def)
qed

lemma ws_sep_simps [simp]: "ws_sep c [c]"
  by (simp add: ws_sep_def)

lemma canonical_json_loads:
  assumes "canonical_json v = Inr b" and v: "jwf (rec_limit env) v" and hk: "good_hook hk"
  shows "decode_utf8 b = Inr b \<and> json_loads env hk b = Inr (sort_keys v)"
proof -
  let ?t = "dumps '','' '':'' (sort_keys v)"
  from assms(1) have b: "b = ?t @ [CHR 0x0A]" "utf8_valid b" by (auto simp: canonical_json_def result_simps)
  have w: "jwf (rec_limit env) (sort_keys v)" using v by simp
  then obtain c cs where "?t = c # cs" "\<not> is_ws c" by (rule dumps_hd)
  then have "skip_ws b = b" by (simp add: b skip_ws_nonws)
  moreover have "scan_value env hk (rec_limit env) b = Inr (sort_keys v, [CHR 0x0A])"
    unfolding b(1) using hk w num_end_close(3) by (intro scan_value_dumps) simp_all
  moreover have "take 3 b \<noteq> BOM" unfolding b(1) using w by (rule dumps_not_BOM)
  ultimately show ?thesis using b by (simp add: json_loads_def decode_utf8_def skip_ws_def is_ws_def)
qed

text \<open>An interpreter for concrete runs; any depth the values need is enough.\<close>

definition sample_env :: pyenv where
  "sample_env = \<lparr>rec_limit = 20, float_repr = (\<lambda>s. s), nfc = (\<lambda>s. s), category = (\<lambda>n. ''Ll'')\<rparr>"

section \<open>Properties\<close>

text \<open>
  A value without floats that fits the decoder's limits is read back from the text
  \<open>json.dumps\<close> writes for it, whatever follows the text, with any separators made of a
  comma or a colon and white space.
\<close>

theorem json_round_trip:
  assumes "ws_sep CHR '','' isep" and "ws_sep CHR '':'' ksep" and "jwf d v" and "num_end r"
  shows "scan_value env dict_hook d (dumps isep ksep v @ r) = Inr (v, r)
    \<and> scan_value env (unique_object e) d (dumps isep ksep v @ r) = Inr (v, r)"
  using assms good_hook_dict_hook good_hook_unique_object by (blast intro: scan_value_dumps)

theorem json_round_trip_witness:
  "scan_value sample_env dict_hook 2 ''{\"a\":[1,null]}'' = Inr (JObj [(''a'', JList [JInt 1, JNull])], [])"
proof -
  let ?v = "JObj [(''a'', JList [JInt 1, JNull])]"
  have "jwf 2 ?v" by code_simp
  moreover have "dumps '','' '':'' ?v = ''{\"a\":[1,null]}''" by code_simp
  ultimately show ?thesis
    using json_round_trip [of "'',''" "'':''" 2 ?v "[]" sample_env] num_end_close(4)
    by (simp only: append_Nil2 ws_sep_simps simp_thms)
qed

end
