(* ===== verification/Safe_Text.thy ===== *)
theory Safe_Text
  imports Json
begin

text \<open>
  The checks of untrusted text that \<open>contracts.py\<close> and \<open>receipts.py\<close> make in the same words
  (\<open>_safe_text\<close>, \<open>_safe_id\<close>, \<open>_safe_timestamp\<close> and \<open>_timestamp\<close>), with the exception each
  module raises as the argument \<open>mk\<close>. The Unicode database is the environment's.
\<close>

definition refused_category :: "string \<Rightarrow> bool" where
  "refused_category cat \<longleftrightarrow> take 1 cat = ''C'' \<or> cat = ''Zl'' \<or> cat = ''Zp''"

definition checked_text :: "pyenv \<Rightarrow> (string \<Rightarrow> exn) \<Rightarrow> json \<Rightarrow> string \<Rightarrow> nat \<Rightarrow> string result" where
  "checked_text env mk value field maxbytes =
     (case value of
        JStr s \<Rightarrow>
          (if s = [] then Inl (mk (field @ '' must be a bounded non-empty string''))
           else bindE (encode_utf8 s) (\<lambda>b.
             if maxbytes < length b then Inl (mk (field @ '' must be a bounded non-empty string''))
             else if nfc env s \<noteq> s then Inl (mk (field @ '' must use NFC-normalized Unicode''))
             else if list_ex (\<lambda>c. refused_category (category env c)) (codepoints s)
             then Inl (mk (field @ '' contains a control character''))
             else Inr s))
      | _ \<Rightarrow> Inl (mk (field @ '' must be a bounded non-empty string'')))"

definition checked_id :: "pyenv \<Rightarrow> (string \<Rightarrow> exn) \<Rightarrow> json \<Rightarrow> string \<Rightarrow> string result" where
  "checked_id env mk value field =
     bindE (checked_text env mk value field 128) (\<lambda>text.
     bindE (raise_if (\<not> SAFE_ID_RE text) (mk (field @ '' must be a safe identifier''))) (\<lambda>_.
     Inr text))"

definition checked_timestamp :: "pyenv \<Rightarrow> (string \<Rightarrow> exn) \<Rightarrow> json \<Rightarrow> string \<Rightarrow> string result" where
  "checked_timestamp env mk value field =
     bindE (checked_text env mk value field 20) (\<lambda>text.
     bindE (raise_if (\<not> TIMESTAMP_RE text) (mk (field @ '' must be an RFC3339 UTC second timestamp''))) (\<lambda>_.
     bindE (raise_if (strptime text = None) (mk (field @ '' must be a real RFC3339 UTC second timestamp''))) (\<lambda>_.
     Inr text)))"

definition item_field :: "string \<Rightarrow> nat \<Rightarrow> string" where
  "item_field field index = field @ ''['' @ show_nat index @ '']''"

lemma checked_text_sort [simp]: "checked_text env mk (sort_keys v) f n = checked_text env mk v f n"
  by (cases v) (simp_all add: checked_text_def)

lemma checked_id_sort [simp]: "checked_id env mk (sort_keys v) f = checked_id env mk v f"
  by (simp add: checked_id_def)

lemma checked_timestamp_sort [simp]: "checked_timestamp env mk (sort_keys v) f = checked_timestamp env mk v f"
  by (simp add: checked_timestamp_def)

lemma checked_text_Inr:
  "checked_text env mk v f n = Inr s \<Longrightarrow> v = JStr s \<and> s \<noteq> [] \<and> utf8_valid s \<and> length s \<le> n \<and> nfc env s = s"
  by (cases v) (auto simp: checked_text_def result_simps split: if_splits)

lemma checked_id_Inr: "checked_id env mk v f = Inr s \<Longrightarrow> v = JStr s \<and> SAFE_ID_RE s"
  by (auto simp: checked_id_def result_simps dest: checked_text_Inr)

lemma checked_timestamp_Inr: "checked_timestamp env mk v f = Inr s \<Longrightarrow> v = JStr s \<and> timestamp_ok s"
  by (auto simp: checked_timestamp_def result_simps timestamp_ok_def dest: checked_text_Inr)

end
