(* ===== verification/Registry.thy ===== *)
theory Registry
  imports Safe_Text
begin

text \<open>
  The fixed registry of typed operations (\<open>root_actions/registry.py\<close>): the parameter rules,
  the operation specifications, the registry built from them and the validation of an
  operation with its parameters. Error texts keep the field and the fixed words of the
  message; lists that the code interpolates are left out.
\<close>

definition REGISTRY_VERSION :: string where
  "REGISTRY_VERSION = ''agent-runtime-root-action-registry/v1''"

record ParameterRule =
  kind :: string
  choices :: "string list"
  minimum :: "int option"
  maximum :: "int option"
  max_items :: nat

record OperationSpec =
  spec_id :: string
  spec_version :: int
  parameter_rules :: "(string \<times> ParameterRule) list"

type_synonym registry = "(string \<times> OperationSpec) list"

section \<open>Parameters\<close>

definition require_matching_string :: "json \<Rightarrow> (string \<Rightarrow> bool) \<Rightarrow> string \<Rightarrow> unit result" where
  "require_matching_string value pattern field =
     (case value of
        JStr s \<Rightarrow> raise_if (\<not> pattern s) (RegistryValidationError (field @ '' has an invalid value''))
      | _ \<Rightarrow> Inl (RegistryValidationError (field @ '' has an invalid value'')))"

definition validate_rule :: "ParameterRule \<Rightarrow> json \<Rightarrow> string \<Rightarrow> unit result" where
  "validate_rule rule value field =
     (if kind rule = ''identifier'' then require_matching_string value SAFE_ID_RE field
      else if kind rule = ''digest'' then require_matching_string value DIGEST_RE field
      else if kind rule = ''nullable_digest'' then
        (if value \<noteq> JNull then require_matching_string value DIGEST_RE field else Inr ())
      else if kind rule = ''revision'' then require_matching_string value REVISION_RE field
      else if kind rule = ''enum'' then
        (case value of
           JStr s \<Rightarrow> raise_if (s \<notin> set (choices rule)) (RegistryValidationError (field @ '' must be one of''))
         | _ \<Rightarrow> Inl (RegistryValidationError (field @ '' must be one of'')))
      else if kind rule = ''integer'' then
        (case value of
           JInt n \<Rightarrow>
             (if (case minimum rule of None \<Rightarrow> False | Some m \<Rightarrow> n < m)
              then Inl (RegistryValidationError (field @ '' is below its minimum''))
              else if (case maximum rule of None \<Rightarrow> False | Some m \<Rightarrow> m < n)
              then Inl (RegistryValidationError (field @ '' exceeds its maximum''))
              else Inr ())
         | _ \<Rightarrow> Inl (RegistryValidationError (field @ '' must be an integer'')))
      else if kind rule = ''identifier_list'' \<or> kind rule = ''digest_list'' then
        (case value of
           JList items \<Rightarrow>
             (if items = [] \<or> max_items rule < length items
              then Inl (RegistryValidationError (field @ '' must be a non-empty list with at most max_items items''))
              else
                (let pattern = (if kind rule = ''identifier_list'' then SAFE_ID_RE else DIGEST_RE) in
                 bindE (forE (\<lambda>(index, item). require_matching_string item pattern (item_field field index))
                          (enumerate 0 items)) (\<lambda>_.
                 raise_if (\<not> distinct items) (RegistryValidationError (field @ '' must not contain duplicates'')))))
         | _ \<Rightarrow> Inl (RegistryValidationError (field @ '' must be a non-empty list with at most max_items items'')))
      else Inl (AssertionError ''unsupported parameter rule''))"

definition rule_projection :: "ParameterRule \<Rightarrow> json" where
  "rule_projection rule = JObj
     ([(''kind'', JStr (kind rule))]
      @ (if choices rule \<noteq> [] then [(''choices'', JList (map JStr (choices rule)))] else [])
      @ (case minimum rule of None \<Rightarrow> [] | Some m \<Rightarrow> [(''minimum'', JInt m)])
      @ (case maximum rule of None \<Rightarrow> [] | Some m \<Rightarrow> [(''maximum'', JInt m)])
      @ (if max_items rule \<noteq> 0 then [(''max_items'', JInt (int (max_items rule)))] else []))"

section \<open>Operations\<close>

definition parameter_names :: "OperationSpec \<Rightarrow> string list" where
  "parameter_names spec = map fst (parameter_rules spec)"

definition validate_parameters :: "OperationSpec \<Rightarrow> json \<Rightarrow> unit result" where
  "validate_parameters spec value =
     (case value of
        JObj kvs \<Rightarrow>
          (if set (keys kvs) \<noteq> set (parameter_names spec)
           then Inl (RegistryValidationError ''parameters field set mismatch'')
           else forE (\<lambda>(name, rule). bindE (jget kvs name) (\<lambda>v. validate_rule rule v (''parameters.'' @ name)))
                  (parameter_rules spec))
      | _ \<Rightarrow> Inl (RegistryValidationError ''parameters must be an object''))"

definition spec_projection :: "OperationSpec \<Rightarrow> json" where
  "spec_projection spec = JObj
     [(''operation_id'', JStr (spec_id spec)),
      (''operation_version'', JInt (spec_version spec)),
      (''parameters'', JObj (map (\<lambda>(name, rule). (name, rule_projection rule)) (parameter_rules spec)))]"

section \<open>The registry\<close>

fun registry_add :: "registry \<Rightarrow> OperationSpec list \<Rightarrow> registry result" where
  "registry_add by_id [] = Inr by_id"
| "registry_add by_id (spec # specs) =
     (if \<not> SAFE_ID_RE (spec_id spec) then Inl (ValueError ''invalid operation id'')
      else if spec_id spec \<in> set (map fst by_id) then Inl (ValueError ''duplicate operation id'')
      else if spec_version spec < 1 then Inl (ValueError ''invalid operation version'')
      else if \<not> distinct (parameter_names spec) then Inl (ValueError ''duplicate parameter name'')
      else registry_add (by_id @ [(spec_id spec, spec)]) specs)"

definition OperationRegistry :: "OperationSpec list \<Rightarrow> registry result" where
  "OperationRegistry specs = registry_add [] specs"

definition operation_ids :: "registry \<Rightarrow> string list" where
  "operation_ids reg = sort (map fst reg)"

definition registry_spec :: "registry \<Rightarrow> string \<Rightarrow> OperationSpec result" where
  "registry_spec reg oid =
     (case map_of reg oid of
        None \<Rightarrow> Inl (RegistryValidationError ''operation_id is not registered'')
      | Some spec \<Rightarrow> Inr spec)"

definition registry_validate :: "registry \<Rightarrow> string \<Rightarrow> json \<Rightarrow> json \<Rightarrow> unit result" where
  "registry_validate reg oid ver parameters =
     bindE (registry_spec reg oid) (\<lambda>spec.
       case ver of
         JInt n \<Rightarrow>
           (if n \<noteq> spec_version spec then Inl (RegistryValidationError ''operation version mismatch'')
            else validate_parameters spec parameters)
       | _ \<Rightarrow> Inl (RegistryValidationError ''operation_version must be an integer''))"

definition registry_projection :: "registry \<Rightarrow> json result" where
  "registry_projection reg =
     bindE (mapE (\<lambda>key. map_sum id spec_projection (registry_spec reg key)) (operation_ids reg)) (\<lambda>ops.
       Inr (JObj [(''schema'', JStr REGISTRY_VERSION), (''operations'', JList ops)]))"

definition rule :: "string \<Rightarrow> ParameterRule" where
  "rule k = \<lparr>kind = k, choices = [], minimum = None, maximum = None, max_items = 0\<rparr>"

definition DEFAULT_SPECS :: "OperationSpec list" where
  "DEFAULT_SPECS =
     [\<lparr>spec_id = ''audit.verify'', spec_version = 1, parameter_rules =
         [(''target_identity'', rule ''identifier''),
          (''expected_schema'', rule ''identifier''),
          (''freshness_seconds'', (rule ''integer'')\<lparr>minimum := Some 1, maximum := Some 86400\<rparr>),
          (''allowlisted_fields'', (rule ''identifier_list'')\<lparr>max_items := 64\<rparr>)]\<rparr>,
      \<lparr>spec_id = ''projection.staging_selftest'', spec_version = 1, parameter_rules =
         [(''fixture_id'', rule ''identifier''),
          (''expected_contract_digest'', rule ''digest'')]\<rparr>,
      \<lparr>spec_id = ''agent_loop.campaign_run'', spec_version = 1, parameter_rules =
         [(''campaign_id'', rule ''identifier''),
          (''image_digest'', rule ''digest''),
          (''input_digest'', rule ''digest''),
          (''runtime_seconds'', (rule ''integer'')\<lparr>minimum := Some 1, maximum := Some 21600\<rparr>),
          (''memory_mib'', (rule ''integer'')\<lparr>minimum := Some 128, maximum := Some 262144\<rparr>)]\<rparr>,
      \<lparr>spec_id = ''nas.observe_groupware_runtime'', spec_version = 1, parameter_rules =
         [(''slot'', rule ''identifier'')]\<rparr>]"

definition DEFAULT_REGISTRY :: registry where
  "DEFAULT_REGISTRY = map (\<lambda>spec. (spec_id spec, spec)) DEFAULT_SPECS"

section \<open>Properties\<close>

text \<open>A registry that was built: distinct safe operation ids, each filed under its own id.\<close>

definition registry_ok :: "registry \<Rightarrow> bool" where
  "registry_ok reg \<longleftrightarrow> distinct (map fst reg) \<and>
     (\<forall>(k, spec)\<in>set reg. k = spec_id spec \<and> SAFE_ID_RE k \<and> 1 \<le> spec_version spec \<and>
        distinct (parameter_names spec))"

lemma registry_add_ok: "registry_ok reg \<Longrightarrow> registry_add reg specs = Inr reg' \<Longrightarrow> registry_ok reg'"
proof (induction reg specs rule: registry_add.induct)
  case (2 by_id spec specs)
  then have "registry_ok (by_id @ [(spec_id spec, spec)])"
    by (auto simp: registry_ok_def split: if_splits)
  with 2 show ?case by (auto split: if_splits)
qed simp

lemma OperationRegistry_ok: "OperationRegistry specs = Inr reg \<Longrightarrow> registry_ok reg"
  unfolding OperationRegistry_def by (rule registry_add_ok [where reg = "[]"]) (simp_all add: registry_ok_def)

lemma registry_add_specs:
  "registry_add reg specs = Inr reg' \<Longrightarrow> reg' = reg @ map (\<lambda>spec. (spec_id spec, spec)) specs"
  by (induction reg specs rule: registry_add.induct) (auto split: if_splits)

lemma require_matching_string_Inr_iff [result_simps]:
  "require_matching_string v p f = Inr u \<longleftrightarrow> (\<exists>s. v = JStr s \<and> p s)"
  by (cases v) (auto simp: require_matching_string_def result_simps)

lemma require_matching_string_sort [simp]:
  "require_matching_string (sort_keys v) p f = require_matching_string v p f"
  by (cases v) (simp_all add: require_matching_string_def)

lemma require_matching_string_no_float: "require_matching_string v p f = Inr u \<Longrightarrow> no_float v"
  by (auto simp: result_simps)

lemma validate_rule_no_float: "validate_rule r v f = Inr u \<Longrightarrow> no_float v"
  unfolding validate_rule_def
  by (auto simp: Let_def list_all_length bindE_Inr_iff raise_if_Inr_iff forE_enumerate
      dest: require_matching_string_no_float split: if_splits json.splits)

lemma sort_keys_JNull_iff [simp]: "sort_keys v = JNull \<longleftrightarrow> v = JNull"
  by (cases v) simp_all

lemma require_items_sort:
  "bindE (forE (\<lambda>(i, x). require_matching_string x p (g i)) (enumerate 0 (map sort_keys xs)))
     (\<lambda>_. raise_if (\<not> distinct (map sort_keys xs)) e) =
   bindE (forE (\<lambda>(i, x). require_matching_string x p (g i)) (enumerate 0 xs)) (\<lambda>_. raise_if (\<not> distinct xs) e)"
proof -
  have eq: "forE (\<lambda>(i, x). require_matching_string x p (g i)) (enumerate 0 (map sort_keys xs)) =
      forE (\<lambda>(i, x). require_matching_string x p (g i)) (enumerate 0 xs)"
    by (simp add: enumerate_map_snd forE_map case_prod_unfold)
  have "map sort_keys xs = xs" if "forE (\<lambda>(i, x). require_matching_string x p (g i)) (enumerate 0 xs) = Inr u" for u
  proof (rule nth_equalityI)
    fix i assume "i < length (map sort_keys xs)"
    with that show "map sort_keys xs ! i = xs ! i" by (fastforce simp: forE_enumerate require_matching_string_Inr_iff)
  qed simp
  with eq show ?thesis by (cases "forE (\<lambda>(i, x). require_matching_string x p (g i)) (enumerate 0 xs)") simp_all
qed

lemma validate_rule_sort [simp]: "validate_rule r (sort_keys v) f = validate_rule r v f"
proof (cases v)
  case (JList xs)
  show ?thesis unfolding JList sort_keys.simps validate_rule_def json.case Let_def require_items_sort
    by (simp add: require_matching_string_def)
qed (simp_all add: validate_rule_def require_matching_string_def)

lemma jget_sort_keys:
  "distinct (keys kvs) \<Longrightarrow> jget (sort_key fst (map (\<lambda>kv. (fst kv, sort_keys (snd kv))) kvs)) k = map_sum id sort_keys (jget kvs k)"
  by (simp add: jget_def map_of_sort_keys split: option.splits)

lemma bindE_map_sum [simp]: "bindE (map_sum id f m) g = bindE m (\<lambda>x. g (f x))"
  by (cases m) simp_all

text \<open>Validation does not depend on the order of keys.\<close>

lemma validate_parameters_sort:
  assumes "jok d v"
  shows "validate_parameters spec (sort_keys v) = validate_parameters spec v"
proof (cases v)
  case (JObj kvs)
  with assms have "distinct (keys kvs)" by (cases d) simp_all
  then show ?thesis
    by (simp add: JObj validate_parameters_def jget_sort_keys)
qed (simp_all add: validate_parameters_def)

lemma validate_parameters_no_float:
  assumes "validate_parameters spec v = Inr u" and "jok d v"
  shows "no_float v"
proof -
  from assms(1) obtain kvs where v: "v = JObj kvs" and k: "set (keys kvs) = set (parameter_names spec)"
    and r: "\<forall>(name, r)\<in>set (parameter_rules spec). \<exists>w. jget kvs name = Inr w \<and> validate_rule r w (''parameters.'' @ name) = Inr ()"
    by (auto simp: validate_parameters_def result_simps case_prod_unfold split: json.splits if_splits)
  have "no_float w" if "jget kvs name = Inr w" for name w
  proof -
    have "name \<in> set (keys kvs)" using that by (auto simp: jget_def keys_def split: option.splits dest!: map_of_SomeD intro: rev_image_eqI)
    then obtain r' where "(name, r') \<in> set (parameter_rules spec)" using k by (auto simp: parameter_names_def)
    with r that show ?thesis by (fastforce dest: validate_rule_no_float)
  qed
  with assms(2) show ?thesis unfolding v by (intro no_float_JObj jok_JObj)
qed

lemma registry_validate_sort:
  "jok d params \<Longrightarrow> registry_validate reg oid (sort_keys ver) (sort_keys params) = registry_validate reg oid ver params"
  unfolding registry_validate_def
  by (cases "registry_spec reg oid"; cases ver) (simp_all add: validate_parameters_sort)

lemma DEFAULT_REGISTRY_built: "OperationRegistry DEFAULT_SPECS = Inr DEFAULT_REGISTRY"
  by code_simp

text \<open>
  The four specifications of the module build a registry whose keys are distinct safe
  identifiers, each naming its own specification, with positive versions.
\<close>

theorem default_registry_built:
  "OperationRegistry DEFAULT_SPECS = Inr DEFAULT_REGISTRY \<and> registry_ok DEFAULT_REGISTRY"
  using DEFAULT_REGISTRY_built OperationRegistry_ok by blast

end
