(* ===== verification/Sha256.thy ===== *)
theory Sha256
  imports Text_Formats "HOL-Library.Word"
begin

text \<open>
  \<open>hashlib.sha256\<close>, as FIPS 180-4 defines it, on byte strings: every digest the package
  stores (job, receipt, credential, challenge, projection) is computed by it. The theory
  shows that a digest text always has the shape the \<open>_DIGEST_RE\<close> pattern asks for.
\<close>

unbundle bit_operations_syntax

type_synonym w32 = "32 word"

section \<open>The compression function\<close>

definition sha_k :: "w32 list" where
  "sha_k = [
   1116352408, 1899447441, 3049323471, 3921009573,
   961987163, 1508970993, 2453635748, 2870763221,
   3624381080, 310598401, 607225278, 1426881987,
   1925078388, 2162078206, 2614888103, 3248222580,
   3835390401, 4022224774, 264347078, 604807628,
   770255983, 1249150122, 1555081692, 1996064986,
   2554220882, 2821834349, 2952996808, 3210313671,
   3336571891, 3584528711, 113926993, 338241895,
   666307205, 773529912, 1294757372, 1396182291,
   1695183700, 1986661051, 2177026350, 2456956037,
   2730485921, 2820302411, 3259730800, 3345764771,
   3516065817, 3600352804, 4094571909, 275423344,
   430227734, 506948616, 659060556, 883997877,
   958139571, 1322822218, 1537002063, 1747873779,
   1955562222, 2024104815, 2227730452, 2361852424,
   2428436474, 2756734187, 3204031479, 3329325298]"

definition sha_init :: "w32 list" where
  "sha_init = [1779033703, 3144134277, 1013904242, 2773480762,
     1359893119, 2600822924, 528734635, 1541459225]"

definition sigma0 :: "w32 \<Rightarrow> w32" where
  "sigma0 x = word_rotr 7 x XOR word_rotr 18 x XOR drop_bit 3 x"

definition sigma1 :: "w32 \<Rightarrow> w32" where
  "sigma1 x = word_rotr 17 x XOR word_rotr 19 x XOR drop_bit 10 x"

definition big_sigma0 :: "w32 \<Rightarrow> w32" where
  "big_sigma0 x = word_rotr 2 x XOR word_rotr 13 x XOR word_rotr 22 x"

definition big_sigma1 :: "w32 \<Rightarrow> w32" where
  "big_sigma1 x = word_rotr 6 x XOR word_rotr 11 x XOR word_rotr 25 x"

definition ch :: "w32 \<Rightarrow> w32 \<Rightarrow> w32 \<Rightarrow> w32" where
  "ch x y z = (x AND y) XOR (NOT x AND z)"

definition maj :: "w32 \<Rightarrow> w32 \<Rightarrow> w32 \<Rightarrow> w32" where
  "maj x y z = (x AND y) XOR (x AND z) XOR (y AND z)"

text \<open>The message schedule, newest word first.\<close>

fun sha_schedule :: "nat \<Rightarrow> w32 list \<Rightarrow> w32 list" where
  "sha_schedule 0 w = w"
| "sha_schedule (Suc n) w =
     sha_schedule n ((sigma1 (w ! 1) + w ! 6 + sigma0 (w ! 14) + w ! 15) # w)"

fun sha_round :: "w32 list \<Rightarrow> w32 \<times> w32 \<Rightarrow> w32 list" where
  "sha_round [a, b, c, d, e, f, g, h] (k, w) =
     (let t1 = h + big_sigma1 e + ch e f g + k + w;
          t2 = big_sigma0 a + maj a b c
      in [t1 + t2, a, b, c, d + t1, e, f, g])"
| "sha_round s kw = s"

definition sha_block :: "w32 list \<Rightarrow> w32 list \<Rightarrow> w32 list" where
  "sha_block h m =
     map2 (+) h (foldl sha_round h (zip sha_k (rev (sha_schedule 48 (rev m)))))"

section \<open>Padding and bytes\<close>

definition be_word :: "nat list \<Rightarrow> w32" where
  "be_word bs = of_nat (foldl (\<lambda>n b. 256 * n + b) 0 bs)"

definition be_bytes :: "nat \<Rightarrow> nat \<Rightarrow> nat list" where
  "be_bytes k n = map (\<lambda>i. n div 256 ^ (k - 1 - i) mod 256) [0..<k]"

fun chunks :: "nat \<Rightarrow> nat \<Rightarrow> 'a list \<Rightarrow> 'a list list" where
  "chunks 0 k xs = []"
| "chunks (Suc n) k xs = take k xs # chunks n k (drop k xs)"

definition sha_pad :: "nat list \<Rightarrow> nat list" where
  "sha_pad bs = bs @ [128] @ replicate ((119 - length bs mod 64) mod 64) 0
     @ be_bytes 8 (8 * length bs)"

definition sha_words :: "nat list \<Rightarrow> w32 list" where
  "sha_words bs = map be_word (chunks 16 4 bs)"

definition sha256_words :: "nat list \<Rightarrow> w32 list" where
  "sha256_words bs = (let p = sha_pad bs in
     foldl (\<lambda>h b. sha_block h (sha_words b)) sha_init (chunks (length p div 64) 64 p))"

definition sha256_bytes :: "string \<Rightarrow> nat list" where
  "sha256_bytes s = concat (map (be_bytes 4 \<circ> unat) (sha256_words (map of_char s)))"

text \<open>\<open>hashlib.sha256(s).digest()\<close> and \<open>.hexdigest()\<close>\<close>

definition sha256_digest :: "string \<Rightarrow> string" where
  "sha256_digest s = map char_of (sha256_bytes s)"

definition hex_of_bytes :: "nat list \<Rightarrow> string" where
  "hex_of_bytes bs = concat (map (\<lambda>b. [hex_char (b div 16), hex_char (b mod 16)]) bs)"

definition sha256_hexdigest :: "string \<Rightarrow> string" where
  "sha256_hexdigest s = hex_of_bytes (sha256_bytes s)"

text \<open>The text \<open>"sha256:" + hashlib.sha256(s).hexdigest()\<close> all modules store.\<close>

definition sha256_tag :: "string \<Rightarrow> string" where
  "sha256_tag s = ''sha256:'' @ sha256_hexdigest s"

section \<open>Shape of digests\<close>

lemma sha_round_length: "length h = 8 \<Longrightarrow> length (sha_round h kw) = 8"
  by (induction h kw rule: sha_round.induct) (simp_all add: Let_def)

lemma foldl_sha_round_length: "length h = 8 \<Longrightarrow> length (foldl sha_round h kws) = 8"
  by (induction kws arbitrary: h) (simp_all add: sha_round_length)

lemma sha_block_length: "length h = 8 \<Longrightarrow> length (sha_block h m) = 8"
  by (simp add: sha_block_def foldl_sha_round_length)

lemma sha256_words_length: "length (sha256_words bs) = 8"
proof -
  have "length h = 8 \<Longrightarrow> length (foldl (\<lambda>h b. sha_block h (sha_words b)) h bss) = 8" for h bss
    by (induction bss arbitrary: h) (simp_all add: sha_block_length)
  then show ?thesis by (simp add: sha256_words_def Let_def sha_init_def)
qed

lemma be_bytes_length [simp]: "length (be_bytes k n) = k"
  by (simp add: be_bytes_def)

lemma be_bytes_bound: "b \<in> set (be_bytes k n) \<Longrightarrow> b < 256"
  by (auto simp: be_bytes_def)

lemma sha256_bytes_length [simp]: "length (sha256_bytes s) = 32"
proof -
  have "length (concat (map (be_bytes 4 \<circ> unat) ws)) = 4 * length ws" for ws :: "w32 list"
    by (induction ws) simp_all
  then show ?thesis by (simp add: sha256_bytes_def sha256_words_length)
qed

lemma sha256_bytes_bound: "b \<in> set (sha256_bytes s) \<Longrightarrow> b < 256"
  by (auto simp: sha256_bytes_def dest: be_bytes_bound)

lemma sha256_digest_length [simp]: "length (sha256_digest s) = 32"
  by (simp add: sha256_digest_def)

lemma hex_of_bytes_hex: "(\<And>b. b \<in> set bs \<Longrightarrow> b < 256) \<Longrightarrow> list_all is_hex (hex_of_bytes bs)"
  by (induction bs) (auto simp: hex_of_bytes_def is_hex_hex_char div_less_iff_less_mult)

lemma hex_of_bytes_length [simp]: "length (hex_of_bytes bs) = 2 * length bs"
  by (induction bs) (simp_all add: hex_of_bytes_def)

lemma sha256_tag_digest: "DIGEST_RE (sha256_tag s)"
  unfolding sha256_tag_def
  by (rule DIGEST_RE_prefix)
    (auto simp: sha256_hexdigest_def intro: hex_of_bytes_hex sha256_bytes_bound)

end
