(* ===== verification/Contracts.thy ===== *)
theory Contracts
  imports Registry Sha256
begin

text \<open>
  Typed manifests (\<open>root_actions/contracts.py\<close>): parsing the bytes of a manifest, its
  validation, the canonical bytes and the sealed job with its digest. The Unicode
  database and the recursion limit are the fields of \<open>pyenv\<close>.

  The lemmas show that validation does not look at the order of keys, that a validated
  manifest holds no float, and that sealing the canonical bytes of a sealed job gives
  the same job again.
\<close>

definition MANIFEST_SCHEMA :: string where
  "MANIFEST_SCHEMA = ''agent-runtime-root-action-manifest/v1''"

definition MAX_MANIFEST_BYTES :: nat where
  "MAX_MANIFEST_BYTES = 128 * 1024"

definition TOP_LEVEL_KEYS :: "string list" where
  "TOP_LEVEL_KEYS = [''schema'', ''registry_version'', ''job_id'', ''operation_id'', ''operation_version'',
     ''request'', ''parameters'', ''expected_pre_state'', ''review'']"

definition REQUEST_KEYS :: "string list" where
  "REQUEST_KEYS = [''request_id'', ''lineage_id'', ''reply_target'', ''submitted_at'']"

definition PRE_STATE_KEYS :: "string list" where
  "PRE_STATE_KEYS = [''kind'', ''digest'']"

definition REVIEW_KEYS :: "string list" where
  "REVIEW_KEYS = [''purpose'', ''premises'', ''targets'', ''changes'', ''recovery'', ''risk_delta'']"

definition RISK_DELTA_KEYS :: "string list" where
  "RISK_DELTA_KEYS = [''baseline'', ''added'', ''removed'', ''maximum_consequence'']"

definition PREMISE_KEYS :: "string list" where
  "PREMISE_KEYS = [''claim'', ''basis'', ''anchor'', ''falsifier'']"

definition ANCHOR_KEYS :: "string list" where
  "ANCHOR_KEYS = [''source'', ''quote'']"

definition BASIS_VALUES :: "string list" where
  "BASIS_VALUES = [''user_authority'', ''direct_observation'', ''inference'', ''unknown'']"

record SealedJob =
  job_id :: string
  job_digest :: string
  operation_id :: string
  operation_version :: int
  request_id :: string
  lineage_id :: string
  reply_target :: string
  submitted_at :: string
  canonical_manifest :: string

definition job_identity :: "SealedJob \<Rightarrow> string" where
  "job_identity job = job_id job @ ''@'' @ job_digest job"

definition manifest_copy :: "pyenv \<Rightarrow> SealedJob \<Rightarrow> json result" where
  "manifest_copy env job = bindE (decode_utf8 (canonical_manifest job)) (json_loads env dict_hook)"

section \<open>Parsing\<close>

definition DUPLICATE_KEY :: exn where
  "DUPLICATE_KEY = ManifestValidationError ''duplicate JSON key''"

definition parse_manifest :: "pyenv \<Rightarrow> string \<Rightarrow> json result" where
  "parse_manifest env raw =
     bindE (raise_if (raw = [] \<or> MAX_MANIFEST_BYTES < length raw)
              (ManifestValidationError ''manifest byte length is outside the allowed range'')) (\<lambda>_.
     bindE (raise_from (\<lambda>e. e = UnicodeDecodeError) (ManifestValidationError ''manifest must be UTF-8'')
              (decode_utf8 raw)) (\<lambda>text.
     bindE (raise_from (\<lambda>e. is_value_error e \<and> e \<noteq> DUPLICATE_KEY)
              (ManifestValidationError ''manifest is not valid JSON'')
              (json_loads env (unique_object DUPLICATE_KEY) text)) (\<lambda>v.
     (case v of JObj _ \<Rightarrow> Inr v | _ \<Rightarrow> Inl (ManifestValidationError ''manifest must be an object'')))))"

section \<open>Validation\<close>

definition exact_keys :: "json \<Rightarrow> string list \<Rightarrow> string \<Rightarrow> dict result" where
  "exact_keys value expected field =
     (case value of
        JObj kvs \<Rightarrow>
          (if set (keys kvs) \<noteq> set expected then Inl (ManifestValidationError (field @ '' field set mismatch''))
           else Inr kvs)
      | _ \<Rightarrow> Inl (ManifestValidationError (field @ '' must be an object'')))"

definition safe_text :: "pyenv \<Rightarrow> json \<Rightarrow> string \<Rightarrow> nat \<Rightarrow> string result" where
  "safe_text env = checked_text env ManifestValidationError"

definition safe_id :: "pyenv \<Rightarrow> json \<Rightarrow> string \<Rightarrow> string result" where
  "safe_id env = checked_id env ManifestValidationError"

definition safe_timestamp :: "pyenv \<Rightarrow> json \<Rightarrow> string \<Rightarrow> string result" where
  "safe_timestamp env = checked_timestamp env ManifestValidationError"

definition safe_texts :: "pyenv \<Rightarrow> json list \<Rightarrow> string \<Rightarrow> string list result" where
  "safe_texts env items field =
     bindE (mapE (\<lambda>(index, item). safe_text env item (item_field field index) 512) (enumerate 0 items)) (\<lambda>texts.
     bindE (raise_if (\<not> distinct texts) (ManifestValidationError (field @ '' must not contain duplicates''))) (\<lambda>_.
     Inr texts))"

definition text_list :: "pyenv \<Rightarrow> json \<Rightarrow> string \<Rightarrow> string list result" where
  "text_list env value field =
     (case value of
        JList items \<Rightarrow>
          (if items = [] \<or> 32 < length items then Inl (ManifestValidationError (field @ '' must contain 1 to 32 items''))
           else safe_texts env items field)
      | _ \<Rightarrow> Inl (ManifestValidationError (field @ '' must contain 1 to 32 items'')))"

definition optional_text_list :: "pyenv \<Rightarrow> json \<Rightarrow> string \<Rightarrow> string list result" where
  "optional_text_list env value field =
     (case value of
        JList items \<Rightarrow>
          (if 32 < length items then Inl (ManifestValidationError (field @ '' must contain 0 to 32 items''))
           else safe_texts env items field)
      | _ \<Rightarrow> Inl (ManifestValidationError (field @ '' must contain 0 to 32 items'')))"

definition validate_anchor :: "pyenv \<Rightarrow> json \<Rightarrow> string \<Rightarrow> unit result" where
  "validate_anchor env anchor field =
     bindE (exact_keys anchor ANCHOR_KEYS (field @ ''.anchor'')) (\<lambda>a.
     bindE (jget a ''source'') (\<lambda>source.
     bindE (safe_text env source (field @ ''.anchor.source'') 512) (\<lambda>_.
     bindE (jget a ''quote'') (\<lambda>qt.
     bindE (safe_text env qt (field @ ''.anchor.quote'') 512) (\<lambda>_. Inr ())))))"

text \<open>
  The rest of the loop body, from the test of \<open>basis\<close> on. \<open>basis not in _BASIS_VALUES\<close>
  hashes the value: a list or a dictionary raises \<open>TypeError\<close>.
\<close>

definition validate_basis :: "pyenv \<Rightarrow> string \<Rightarrow> dict \<Rightarrow> json \<Rightarrow> unit result" where
  "validate_basis env field premise basis =
     (case basis of
        JList _ \<Rightarrow> Inl (TypeError ''unhashable type'')
      | JObj _ \<Rightarrow> Inl (TypeError ''unhashable type'')
      | JStr b \<Rightarrow>
          (if b \<notin> set BASIS_VALUES then Inl (ManifestValidationError (field @ ''.basis has an invalid value''))
           else
             bindE (jget premise ''falsifier'') (\<lambda>falsifier.
             bindE (safe_text env falsifier (field @ ''.falsifier'') 512) (\<lambda>_.
             bindE (jget premise ''anchor'') (\<lambda>anchor.
             if b = ''user_authority'' \<or> b = ''direct_observation'' then validate_anchor env anchor field
             else if b = ''unknown'' then
               raise_if (anchor \<noteq> JNull)
                 (ManifestValidationError (field @ ''.anchor must be null when basis is unknown''))
             else if anchor \<noteq> JNull then validate_anchor env anchor field
             else Inr ()))))
      | _ \<Rightarrow> Inl (ManifestValidationError (field @ ''.basis has an invalid value'')))"

definition validate_premise :: "pyenv \<Rightarrow> string \<Rightarrow> json \<Rightarrow> unit result" where
  "validate_premise env field raw_premise =
     bindE (exact_keys raw_premise PREMISE_KEYS field) (\<lambda>premise.
     bindE (jget premise ''claim'') (\<lambda>claim.
     bindE (safe_text env claim (field @ ''.claim'') 512) (\<lambda>_.
     bindE (jget premise ''basis'') (\<lambda>basis.
     validate_basis env field premise basis))))"

definition validate_premises :: "pyenv \<Rightarrow> json \<Rightarrow> unit result" where
  "validate_premises env value =
     (case value of
        JList items \<Rightarrow>
          (if items = [] \<or> 8 < length items
           then Inl (ManifestValidationError ''review.premises must contain 1 to 8 items'')
           else forE (\<lambda>(index, p). validate_premise env (item_field ''review.premises'' index) p) (enumerate 0 items))
      | _ \<Rightarrow> Inl (ManifestValidationError ''review.premises must contain 1 to 8 items''))"

definition validate_expected_pre_state :: "json \<Rightarrow> unit result" where
  "validate_expected_pre_state value =
     bindE (exact_keys value PRE_STATE_KEYS ''expected_pre_state'') (\<lambda>pre_state.
     bindE (jget pre_state ''kind'') (\<lambda>k.
     bindE (jget pre_state ''digest'') (\<lambda>digest.
     if k = JStr ''required'' then
       raise_if (case digest of JStr s \<Rightarrow> \<not> DIGEST_RE s | _ \<Rightarrow> True)
         (ManifestValidationError ''expected_pre_state.digest must be a sha256 digest when kind is required'')
     else if k = JStr ''none'' then
       raise_if (digest \<noteq> JNull)
         (ManifestValidationError ''expected_pre_state.digest must be null when kind is none'')
     else Inl (ManifestValidationError ''expected_pre_state.kind has an invalid value''))))"

definition validate_request :: "pyenv \<Rightarrow> json \<Rightarrow> unit result" where
  "validate_request env value =
     bindE (exact_keys value REQUEST_KEYS ''request'') (\<lambda>request.
     bindE (jget request ''request_id'') (\<lambda>x.
     bindE (safe_id env x ''request.request_id'') (\<lambda>_.
     bindE (jget request ''lineage_id'') (\<lambda>x.
     bindE (safe_id env x ''request.lineage_id'') (\<lambda>_.
     bindE (jget request ''reply_target'') (\<lambda>x.
     bindE (safe_id env x ''request.reply_target'') (\<lambda>_.
     bindE (jget request ''submitted_at'') (\<lambda>x.
     bindE (safe_timestamp env x ''request.submitted_at'') (\<lambda>_. Inr ())))))))))"

definition validate_risk :: "pyenv \<Rightarrow> json \<Rightarrow> unit result" where
  "validate_risk env value =
     bindE (exact_keys value RISK_DELTA_KEYS ''review.risk_delta'') (\<lambda>risk.
     bindE (jget risk ''baseline'') (\<lambda>x.
     bindE (safe_text env x ''review.risk_delta.baseline'' 512) (\<lambda>_.
     bindE (jget risk ''added'') (\<lambda>x.
     bindE (optional_text_list env x ''review.risk_delta.added'') (\<lambda>_.
     bindE (jget risk ''removed'') (\<lambda>x.
     bindE (optional_text_list env x ''review.risk_delta.removed'') (\<lambda>_.
     bindE (jget risk ''maximum_consequence'') (\<lambda>x.
     bindE (safe_text env x ''review.risk_delta.maximum_consequence'' 512) (\<lambda>_. Inr ())))))))))"

definition validate_review :: "pyenv \<Rightarrow> json \<Rightarrow> unit result" where
  "validate_review env value =
     bindE (exact_keys value REVIEW_KEYS ''review'') (\<lambda>review.
     bindE (jget review ''purpose'') (\<lambda>x.
     bindE (safe_text env x ''review.purpose'' 512) (\<lambda>_.
     bindE (jget review ''premises'') (\<lambda>x.
     bindE (validate_premises env x) (\<lambda>_.
     bindE (jget review ''targets'') (\<lambda>x.
     bindE (text_list env x ''review.targets'') (\<lambda>_.
     bindE (jget review ''changes'') (\<lambda>x.
     bindE (text_list env x ''review.changes'') (\<lambda>_.
     bindE (jget review ''recovery'') (\<lambda>x.
     bindE (text_list env x ''review.recovery'') (\<lambda>_.
     bindE (jget review ''risk_delta'') (\<lambda>x. validate_risk env x))))))))))))"

definition registry_error :: "exn \<Rightarrow> exn" where
  "registry_error e = (case e of RegistryValidationError m \<Rightarrow> ManifestValidationError m | _ \<Rightarrow> e)"

definition validate_manifest :: "pyenv \<Rightarrow> registry \<Rightarrow> json \<Rightarrow> unit result" where
  "validate_manifest env reg value =
     bindE (exact_keys value TOP_LEVEL_KEYS ''manifest'') (\<lambda>manifest.
     bindE (jget manifest ''schema'') (\<lambda>x.
     bindE (raise_if (x \<noteq> JStr MANIFEST_SCHEMA) (ManifestValidationError ''manifest.schema is not supported'')) (\<lambda>_.
     bindE (jget manifest ''registry_version'') (\<lambda>x.
     bindE (raise_if (x \<noteq> JStr REGISTRY_VERSION)
              (ManifestValidationError ''manifest.registry_version is not supported'')) (\<lambda>_.
     bindE (jget manifest ''job_id'') (\<lambda>x.
     bindE (safe_id env x ''job_id'') (\<lambda>_.
     bindE (jget manifest ''operation_id'') (\<lambda>x.
     bindE (safe_id env x ''operation_id'') (\<lambda>oid.
     bindE (jget manifest ''request'') (\<lambda>x.
     bindE (validate_request env x) (\<lambda>_.
     bindE (jget manifest ''expected_pre_state'') (\<lambda>x.
     bindE (validate_expected_pre_state x) (\<lambda>_.
     bindE (jget manifest ''review'') (\<lambda>x.
     bindE (validate_review env x) (\<lambda>_.
     bindE (jget manifest ''operation_version'') (\<lambda>ver.
     bindE (jget manifest ''parameters'') (\<lambda>params.
     map_sum registry_error id (registry_validate reg oid ver params))))))))))))))))))"

section \<open>Sealing\<close>

text \<open>\<open>hashlib.sha256(b"agent-runtime-root-action-job/v1\\x00" + canonical)\<close>\<close>

definition job_digest_of :: "string \<Rightarrow> string" where
  "job_digest_of canonical = sha256_tag (''agent-runtime-root-action-job/v1'' @ [CHR 0x00] @ canonical)"

text \<open>The attributes of the dataclass hold the parsed objects; validation has checked their types.\<close>

definition jstr :: "json \<Rightarrow> string result" where
  "jstr v = (case v of JStr s \<Rightarrow> Inr s | _ \<Rightarrow> Inl (TypeError ''str expected''))"

definition jint :: "json \<Rightarrow> int result" where
  "jint v = (case v of JInt n \<Rightarrow> Inr n | _ \<Rightarrow> Inl (TypeError ''int expected''))"

definition jobj :: "json \<Rightarrow> dict result" where
  "jobj v = (case v of JObj kvs \<Rightarrow> Inr kvs | _ \<Rightarrow> Inl (TypeError ''dict expected''))"

definition get_str :: "dict \<Rightarrow> string \<Rightarrow> string result" where
  "get_str kvs k = bindE (jget kvs k) jstr"

definition seal_value :: "json \<Rightarrow> SealedJob result" where
  "seal_value value =
     bindE (canonical_json value) (\<lambda>canonical.
     bindE (jobj value) (\<lambda>m.
     bindE (bindE (jget m ''request'') jobj) (\<lambda>request.
     bindE (get_str m ''job_id'') (\<lambda>jid.
     bindE (get_str m ''operation_id'') (\<lambda>oid.
     bindE (bindE (jget m ''operation_version'') jint) (\<lambda>over.
     bindE (get_str request ''request_id'') (\<lambda>rid.
     bindE (get_str request ''lineage_id'') (\<lambda>lid.
     bindE (get_str request ''reply_target'') (\<lambda>rt.
     bindE (get_str request ''submitted_at'') (\<lambda>sub.
     Inr \<lparr>job_id = jid, job_digest = job_digest_of canonical, operation_id = oid, operation_version = over,
          request_id = rid, lineage_id = lid, reply_target = rt, submitted_at = sub,
          canonical_manifest = canonical\<rparr>))))))))))"

definition seal_typed_manifest :: "pyenv \<Rightarrow> registry \<Rightarrow> string \<Rightarrow> SealedJob result" where
  "seal_typed_manifest env reg raw =
     bindE (parse_manifest env raw) (\<lambda>value.
     bindE (validate_manifest env reg value) (\<lambda>_. seal_value value))"

section \<open>Validation does not depend on the order of keys\<close>

abbreviation sorted_dict :: "dict \<Rightarrow> dict" where
  "sorted_dict kvs \<equiv> sort_key fst (map (\<lambda>kv. (fst kv, sort_keys (snd kv))) kvs)"

lemma exact_keys_sort:
  "exact_keys (sort_keys v) ks f = map_sum id sorted_dict (exact_keys v ks f)"
  by (cases v) (simp_all add: exact_keys_def)

lemma exact_keys_Inr_iff [result_simps]:
  "exact_keys v ks f = Inr kvs \<longleftrightarrow> v = JObj kvs \<and> set (keys kvs) = set ks"
  by (cases v) (auto simp: exact_keys_def split: if_splits)

lemma safe_text_sort [simp]: "safe_text env (sort_keys v) f n = safe_text env v f n"
  by (simp add: safe_text_def)

lemma safe_id_sort [simp]: "safe_id env (sort_keys v) f = safe_id env v f"
  by (simp add: safe_id_def)

lemma safe_timestamp_sort [simp]: "safe_timestamp env (sort_keys v) f = safe_timestamp env v f"
  by (simp add: safe_timestamp_def)

lemma safe_texts_sort [simp]: "safe_texts env (map sort_keys vs) f = safe_texts env vs f"
  by (simp add: safe_texts_def enumerate_map_snd mapE_map case_prod_unfold)

lemma text_list_sort [simp]: "text_list env (sort_keys v) f = text_list env v f"
  by (cases v) (simp_all add: text_list_def)

lemma optional_text_list_sort [simp]: "optional_text_list env (sort_keys v) f = optional_text_list env v f"
  by (cases v) (simp_all add: optional_text_list_def)

lemma sort_keys_JStr_iff [simp]: "sort_keys v = JStr s \<longleftrightarrow> v = JStr s"
  by (cases v) simp_all

lemma bindE_exact_keys_sort:
  assumes "jok d v" and "\<And>kvs. jok d (JObj kvs) \<Longrightarrow> distinct (keys kvs) \<Longrightarrow> f' (sorted_dict kvs) = f kvs"
  shows "bindE (exact_keys (sort_keys v) ks n) f' = bindE (exact_keys v ks n) f"
  unfolding exact_keys_sort bindE_map_sum
  using assms by (intro bindE_cong refl) (auto simp: result_simps dest: jok_JObj)

lemma validate_anchor_sort:
  "jok d v \<Longrightarrow> validate_anchor env (sort_keys v) f = validate_anchor env v f"
  unfolding validate_anchor_def by (rule bindE_exact_keys_sort) (simp_all add: jget_sort_keys)

lemma jok_subvalues: "jok d (JObj kvs) \<Longrightarrow> jget kvs k = Inr x \<Longrightarrow> jok (d - 1) x"
  using jok_jget by blast

lemma validate_premise_sort:
  assumes "jok d v"
  shows "validate_premise env f (sort_keys v) = validate_premise env f v"
  unfolding validate_premise_def
proof (rule bindE_exact_keys_sort [OF assms], goal_cases)
  case (1 kvs)
  note anchor = validate_anchor_sort [OF jok_subvalues [OF 1(1)]] and dist = 1(2)
  show ?case
    unfolding jget_sort_keys [OF 1(2)] bindE_map_sum safe_text_sort
  proof (intro bindE_cong refl, goal_cases)
    case (1 claim x basis)
    show ?case
      by (cases basis) (auto intro!: bindE_cong simp: validate_basis_def jget_sort_keys [OF dist] anchor)
  qed
qed

lemma validate_premises_sort:
  assumes "jok d v"
  shows "validate_premises env (sort_keys v) = validate_premises env v"
proof (cases v)
  case (JList vs)
  have "forE (\<lambda>(i, p). validate_premise env (item_field ''review.premises'' i) p) (enumerate 0 (map sort_keys vs)) =
      forE (\<lambda>(i, p). validate_premise env (item_field ''review.premises'' i) p) (enumerate 0 vs)"
    unfolding enumerate_map_snd forE_map
    using assms unfolding JList
    by (intro forE_cong) (auto simp: in_set_enumerate_eq intro!: validate_premise_sort jok_item)
  then show ?thesis by (simp add: JList validate_premises_def)
qed (simp_all add: validate_premises_def)

lemma validate_expected_pre_state_sort:
  "jok d v \<Longrightarrow> validate_expected_pre_state (sort_keys v) = validate_expected_pre_state v"
  unfolding validate_expected_pre_state_def
proof (rule bindE_exact_keys_sort, assumption, goal_cases)
  case (1 kvs)
  have "(case sort_keys x of JStr s \<Rightarrow> \<not> DIGEST_RE s | _ \<Rightarrow> True) = (case x of JStr s \<Rightarrow> \<not> DIGEST_RE s | _ \<Rightarrow> True)" for x
    by (cases x) simp_all
  then show ?case
    unfolding jget_sort_keys [OF 1(3)] bindE_map_sum by (intro bindE_cong refl) simp
qed

lemma validate_request_sort: "jok d v \<Longrightarrow> validate_request env (sort_keys v) = validate_request env v"
  unfolding validate_request_def by (rule bindE_exact_keys_sort) (simp_all add: jget_sort_keys)

lemma validate_risk_sort: "jok d v \<Longrightarrow> validate_risk env (sort_keys v) = validate_risk env v"
  unfolding validate_risk_def by (rule bindE_exact_keys_sort) (simp_all add: jget_sort_keys)

lemma validate_review_sort:
  assumes "jok d v"
  shows "validate_review env (sort_keys v) = validate_review env v"
  unfolding validate_review_def
proof (rule bindE_exact_keys_sort [OF assms], goal_cases)
  case (1 kvs)
  note sub = jok_subvalues [OF 1(1)]
  show ?case
    unfolding jget_sort_keys [OF 1(2)] bindE_map_sum safe_text_sort text_list_sort
    by (intro bindE_cong refl) (simp_all add: validate_premises_sort [OF sub] validate_risk_sort [OF sub])
qed

lemma validate_manifest_sort:
  assumes "jok d v"
  shows "validate_manifest env reg (sort_keys v) = validate_manifest env reg v"
  unfolding validate_manifest_def
proof (rule bindE_exact_keys_sort [OF assms], goal_cases)
  case (1 kvs)
  note sub = jok_subvalues [OF 1(1)]
  show ?case
    unfolding jget_sort_keys [OF 1(2)] bindE_map_sum safe_id_sort sort_keys_JStr_iff
    by (intro bindE_cong refl)
      (simp_all add: validate_request_sort [OF sub] validate_expected_pre_state_sort [OF sub]
        validate_review_sort [OF sub] registry_validate_sort [OF sub])
qed

section \<open>A validated manifest holds no float\<close>

lemma safe_text_Inr:
  "safe_text env v f n = Inr s \<Longrightarrow> v = JStr s \<and> s \<noteq> [] \<and> utf8_valid s \<and> length s \<le> n \<and> nfc env s = s"
  unfolding safe_text_def by (rule checked_text_Inr)

lemma safe_id_Inr: "safe_id env v f = Inr s \<Longrightarrow> v = JStr s \<and> SAFE_ID_RE s"
  unfolding safe_id_def by (rule checked_id_Inr)

lemma safe_timestamp_Inr: "safe_timestamp env v f = Inr s \<Longrightarrow> v = JStr s \<and> timestamp_ok s"
  unfolding safe_timestamp_def by (rule checked_timestamp_Inr)

lemmas safe_Inr = safe_text_Inr safe_id_Inr safe_timestamp_Inr

lemma safe_texts_Inr: "safe_texts env vs f = Inr ts \<Longrightarrow> vs = map JStr ts \<and> distinct ts"
  by (auto simp: safe_texts_def bindE_Inr_iff raise_if_Inr_iff mapE_enumerate dest!: safe_text_Inr intro!: nth_equalityI)

lemma text_list_Inr: "text_list env v f = Inr ts \<Longrightarrow> v = JList (map JStr ts) \<and> ts \<noteq> [] \<and> distinct ts"
  by (cases v) (auto simp: text_list_def split: if_splits dest!: safe_texts_Inr)

lemma optional_text_list_Inr: "optional_text_list env v f = Inr ts \<Longrightarrow> v = JList (map JStr ts) \<and> distinct ts"
  by (cases v) (auto simp: optional_text_list_def split: if_splits dest!: safe_texts_Inr)

lemma no_float_JStrs [simp]: "list_all no_float (map JStr ts)"
  by (simp add: list_all_iff)

text \<open>A dictionary with exactly the given keys holds no float when no field does.\<close>

lemma no_float_fields:
  assumes "jok d (JObj kvs)" and "set (keys kvs) = set ks"
    and "list_all (\<lambda>k. \<exists>v. jget kvs k = Inr v \<and> no_float v) ks"
  shows "no_float (JObj kvs)"
proof (rule no_float_JObj [OF jok_JObj [OF assms(1)]])
  fix k v assume v: "jget kvs k = Inr v"
  then have "k \<in> set (keys kvs)"
    by (auto simp: jget_def keys_def split: option.splits dest!: map_of_SomeD intro: rev_image_eqI)
  with assms(2,3) v show "no_float v" by (fastforce simp: list_all_iff)
qed

lemma validate_anchor_no_float:
  assumes "validate_anchor env v f = Inr u" and "jok d v"
  shows "no_float v"
proof -
  from assms(1) obtain kvs where v: "v = JObj kvs" "set (keys kvs) = set ANCHOR_KEYS"
    and f: "\<exists>s. jget kvs ''source'' = Inr (JStr s)" "\<exists>s. jget kvs ''quote'' = Inr (JStr s)"
    unfolding validate_anchor_def by (auto simp: result_simps dest: safe_text_Inr)
  from no_float_fields [OF _ v(2)] assms(2) f show ?thesis
    unfolding v(1) ANCHOR_KEYS_def by auto
qed

lemma validate_basis_Inr:
  assumes "validate_basis env f kvs basis = Inr u"
  obtains b anchor where "basis = JStr b" and "\<exists>s. jget kvs ''falsifier'' = Inr (JStr s)"
    and "jget kvs ''anchor'' = Inr anchor" and "validate_anchor env anchor f = Inr () \<or> anchor = JNull"
proof (cases basis)
  case (JStr b)
  note u = assms [unfolded validate_basis_def JStr json.case]
  then have b: "b \<in> set BASIS_VALUES" by (auto split: if_splits)
  from u b obtain fa s anchor where fa: "jget kvs ''falsifier'' = Inr fa" "safe_text env fa (f @ ''.falsifier'') 512 = Inr s"
    and a: "jget kvs ''anchor'' = Inr anchor" by (auto simp: bindE_Inr_iff)
  from u b fa a have "validate_anchor env anchor f = Inr () \<or> anchor = JNull"
    by (auto simp: raise_if_Inr_iff split: if_splits)
  with that JStr fa a safe_text_Inr [OF fa(2)] show ?thesis by blast
qed (use assms in \<open>auto simp: validate_basis_def\<close>)

lemma validate_premise_no_float:
  assumes "validate_premise env f v = Inr u" and "jok d v"
  shows "no_float v"
proof -
  from assms(1) obtain kvs bs where v: "v = JObj kvs" "set (keys kvs) = set PREMISE_KEYS"
    and f: "\<exists>s. jget kvs ''claim'' = Inr (JStr s)" "jget kvs ''basis'' = Inr bs"
    and b: "validate_basis env f kvs bs = Inr ()"
    unfolding validate_premise_def by (auto simp: bindE_Inr_iff exact_keys_Inr_iff dest: safe_text_Inr)
  from b show ?thesis
  proof (rule validate_basis_Inr)
    fix s anchor
    assume g: "bs = JStr s" "\<exists>s. jget kvs ''falsifier'' = Inr (JStr s)" "jget kvs ''anchor'' = Inr anchor"
      and a: "validate_anchor env anchor f = Inr () \<or> anchor = JNull"
    have "no_float anchor"
      using a assms(2) g(3) v(1) by (auto intro: validate_anchor_no_float jok_subvalues)
    with no_float_fields [OF _ v(2)] assms(2) f g show ?thesis
      unfolding v(1) PREMISE_KEYS_def by auto
  qed
qed

lemma validate_premises_no_float:
  assumes "validate_premises env v = Inr u" and "jok d v"
  shows "no_float v"
  using assms
  by (cases v) (auto simp: validate_premises_def forE_enumerate list_all_length split: if_splits
      intro: validate_premise_no_float jok_item)

lemma validate_expected_pre_state_no_float:
  assumes "validate_expected_pre_state v = Inr u" and "jok d v"
  shows "no_float v"
proof -
  from assms(1) obtain kvs k dg where v: "v = JObj kvs" "set (keys kvs) = set PRE_STATE_KEYS"
    and f: "jget kvs ''kind'' = Inr k" "jget kvs ''digest'' = Inr dg"
    and c: "(if k = JStr ''required'' then
       raise_if (case dg of JStr s \<Rightarrow> \<not> DIGEST_RE s | _ \<Rightarrow> True)
         (ManifestValidationError ''expected_pre_state.digest must be a sha256 digest when kind is required'')
     else if k = JStr ''none'' then
       raise_if (dg \<noteq> JNull)
         (ManifestValidationError ''expected_pre_state.digest must be null when kind is none'')
     else Inl (ManifestValidationError ''expected_pre_state.kind has an invalid value'')) = Inr u"
    unfolding validate_expected_pre_state_def by (auto simp only: bindE_Inr_iff exact_keys_Inr_iff)
  have "no_float k" using c by (auto split: if_splits)
  moreover have "no_float dg" using c by (cases dg) (auto simp: raise_if_Inr_iff split: if_splits)
  ultimately show ?thesis
    using no_float_fields [OF _ v(2)] assms(2) f unfolding v(1) PRE_STATE_KEYS_def by auto
qed

lemma validate_request_Inr:
  assumes "validate_request env v = Inr u"
  obtains kvs rid lid rt sub where "v = JObj kvs" and "set (keys kvs) = set REQUEST_KEYS"
    and "jget kvs ''request_id'' = Inr (JStr rid)" and "SAFE_ID_RE rid"
    and "jget kvs ''lineage_id'' = Inr (JStr lid)" and "SAFE_ID_RE lid"
    and "jget kvs ''reply_target'' = Inr (JStr rt)" and "SAFE_ID_RE rt"
    and "jget kvs ''submitted_at'' = Inr (JStr sub)" and "timestamp_ok sub"
  using assms unfolding validate_request_def
  by (auto simp: result_simps dest!: safe_id_Inr safe_timestamp_Inr)

lemma validate_request_no_float:
  assumes "validate_request env v = Inr u" and "jok d v"
  shows "no_float v"
  using assms(1)
proof (rule validate_request_Inr)
  fix kvs rid lid rt sub
  assume v: "v = JObj kvs" "set (keys kvs) = set REQUEST_KEYS"
    and f: "jget kvs ''request_id'' = Inr (JStr rid)" "jget kvs ''lineage_id'' = Inr (JStr lid)"
      "jget kvs ''reply_target'' = Inr (JStr rt)" "jget kvs ''submitted_at'' = Inr (JStr sub)"
  from no_float_fields [OF _ v(2)] assms(2) f show ?thesis
    unfolding v(1) REQUEST_KEYS_def by auto
qed

lemma validate_risk_no_float:
  assumes "validate_risk env v = Inr u" and "jok d v"
  shows "no_float v"
proof -
  from assms(1) obtain kvs where v: "v = JObj kvs" "set (keys kvs) = set RISK_DELTA_KEYS"
    and f: "\<exists>s. jget kvs ''baseline'' = Inr (JStr s)" "\<exists>ts. jget kvs ''added'' = Inr (JList (map JStr ts))"
      "\<exists>ts. jget kvs ''removed'' = Inr (JList (map JStr ts))" "\<exists>s. jget kvs ''maximum_consequence'' = Inr (JStr s)"
    unfolding validate_risk_def by (auto simp: result_simps dest!: safe_text_Inr optional_text_list_Inr)
  from no_float_fields [OF _ v(2)] assms(2) f show ?thesis
    unfolding v(1) RISK_DELTA_KEYS_def by auto
qed

lemma validate_review_no_float:
  assumes "validate_review env v = Inr u" and "jok d v"
  shows "no_float v"
proof -
  from assms(1) obtain kvs pr ri where v: "v = JObj kvs" "set (keys kvs) = set REVIEW_KEYS"
    and f: "\<exists>s. jget kvs ''purpose'' = Inr (JStr s)" "jget kvs ''premises'' = Inr pr"
      "\<exists>ts. jget kvs ''targets'' = Inr (JList (map JStr ts))" "\<exists>ts. jget kvs ''changes'' = Inr (JList (map JStr ts))"
      "\<exists>ts. jget kvs ''recovery'' = Inr (JList (map JStr ts))" "jget kvs ''risk_delta'' = Inr ri"
    and c: "validate_premises env pr = Inr ()" "validate_risk env ri = Inr ()"
    unfolding validate_review_def by (auto simp: result_simps dest!: safe_text_Inr text_list_Inr)
  have "no_float pr" "no_float ri"
    using c assms(2) f v(1) by (auto intro: validate_premises_no_float validate_risk_no_float jok_subvalues)
  with no_float_fields [OF _ v(2)] assms(2) f show ?thesis
    unfolding v(1) REVIEW_KEYS_def by auto
qed

lemma validate_manifest_Inr:
  assumes "validate_manifest env reg v = Inr u"
  obtains kvs jid oid req pre rev ver params where "v = JObj kvs" and "set (keys kvs) = set TOP_LEVEL_KEYS"
    and "jget kvs ''schema'' = Inr (JStr MANIFEST_SCHEMA)" and "jget kvs ''registry_version'' = Inr (JStr REGISTRY_VERSION)"
    and "jget kvs ''job_id'' = Inr (JStr jid)" and "SAFE_ID_RE jid"
    and "jget kvs ''operation_id'' = Inr (JStr oid)" and "SAFE_ID_RE oid"
    and "jget kvs ''request'' = Inr req" and "validate_request env req = Inr ()"
    and "jget kvs ''expected_pre_state'' = Inr pre" and "validate_expected_pre_state pre = Inr ()"
    and "jget kvs ''review'' = Inr rev" and "validate_review env rev = Inr ()"
    and "jget kvs ''operation_version'' = Inr ver" and "jget kvs ''parameters'' = Inr params"
    and "registry_validate reg oid ver params = Inr ()"
proof -
  have s: "map_sum registry_error id m = Inr w \<longleftrightarrow> m = Inr w" for m :: "unit result" and w by (cases m) simp_all
  from assms show ?thesis
    unfolding validate_manifest_def
    by (auto simp only: bindE_Inr_iff exact_keys_Inr_iff raise_if_Inr_iff s not_not unit_eq
        dest!: safe_id_Inr intro!: that)
qed

lemma registry_validate_Inr:
  assumes "registry_validate reg oid ver params = Inr u"
  obtains n spec where "ver = JInt n" and "map_of reg oid = Some spec" and "n = spec_version spec"
    and "validate_parameters spec params = Inr ()"
  using assms unfolding registry_validate_def registry_spec_def
  by (auto simp: bindE_Inr_iff split: option.splits json.splits if_splits)

lemma validate_manifest_no_float:
  assumes "validate_manifest env reg v = Inr u" and "jok d v"
  shows "no_float v"
  using assms(1)
proof (rule validate_manifest_Inr, goal_cases)
  case (1 kvs jid oid req pre rev ver params)
  have sub: "jget kvs k = Inr x \<Longrightarrow> jok (d - 1) x" for k x using assms(2) 1(1) jok_subvalues by blast
  have "no_float req" "no_float pre" "no_float rev"
    using validate_request_no_float [OF 1(10) sub [OF 1(9)]] validate_expected_pre_state_no_float [OF 1(12) sub [OF 1(11)]]
      validate_review_no_float [OF 1(14) sub [OF 1(13)]] by auto
  moreover have "no_float ver" "no_float params"
    using 1(17) sub [OF 1(16)] by (auto elim!: registry_validate_Inr intro: validate_parameters_no_float)
  ultimately show ?case
    using no_float_fields [OF _ 1(2)] assms(2) 1 unfolding 1(1) TOP_LEVEL_KEYS_def by auto
qed

section \<open>Sealing\<close>

lemma jstr_sort [simp]: "jstr (sort_keys v) = jstr v"
  by (cases v) (simp_all add: jstr_def)

lemma jint_sort [simp]: "jint (sort_keys v) = jint v"
  by (cases v) (simp_all add: jint_def)

lemma jobj_sort: "jobj (sort_keys v) = map_sum id sorted_dict (jobj v)"
  by (cases v) (simp_all add: jobj_def)

lemma jobj_Inr_iff [result_simps]: "jobj v = Inr kvs \<longleftrightarrow> v = JObj kvs"
  by (cases v) (auto simp: jobj_def)

lemma jstr_Inr_iff [result_simps]: "jstr v = Inr s \<longleftrightarrow> v = JStr s"
  by (cases v) (auto simp: jstr_def)

lemma jint_Inr_iff [result_simps]: "jint v = Inr n \<longleftrightarrow> v = JInt n"
  by (cases v) (auto simp: jint_def)

lemma get_str_Inr_iff [result_simps]: "get_str kvs k = Inr s \<longleftrightarrow> jget kvs k = Inr (JStr s)"
  by (auto simp: get_str_def result_simps)

lemma get_str_sort: "distinct (keys kvs) \<Longrightarrow> get_str (sorted_dict kvs) k = get_str kvs k"
  by (simp add: get_str_def jget_sort_keys)

lemma canonical_json_sort [simp]: "canonical_json (sort_keys v) = canonical_json v"
  by (simp add: canonical_json_def)

lemma seal_value_sort:
  assumes "jok d v"
  shows "seal_value (sort_keys v) = seal_value v"
proof (cases v)
  case (JObj kvs)
  have k: "distinct (keys kvs)" using assms jok_JObj JObj by blast
  have r: "distinct (keys r)" if "bindE (jget kvs ''request'') jobj = Inr r" for r
    using that jok_subvalues [OF assms [unfolded JObj]] jok_JObj by (auto simp: result_simps)
  have m: "jobj (JObj l) = Inr l" for l by (simp add: jobj_def)
  have q: "bindE (jget (sorted_dict kvs) ''request'') jobj = map_sum id sorted_dict (bindE (jget kvs ''request'') jobj)"
    unfolding jget_sort_keys [OF k] bindE_map_sum jobj_sort by (cases "jget kvs ''request''") simp_all
  show ?thesis
    unfolding seal_value_def canonical_json_sort unfolding JObj sort_keys.simps m bindE_simps
    unfolding q unfolding bindE_map_sum get_str_sort [OF k] jget_sort_keys [OF k] jint_sort
    by (intro bindE_cong refl) (simp_all add: get_str_sort [OF r])
next
  case (JList vs)
  then show ?thesis using canonical_json_sort [of v] by (simp add: seal_value_def jobj_def)
qed (simp_all add: seal_value_def jobj_def)

lemma seal_value_canonical: "seal_value v = Inr job \<Longrightarrow> canonical_json v = Inr (canonical_manifest job)"
  by (auto simp: seal_value_def bindE_Inr_iff)

lemma parse_manifest_Inr:
  assumes "parse_manifest env raw = Inr v"
  shows "raw \<noteq> [] \<and> length raw \<le> MAX_MANIFEST_BYTES \<and> decode_utf8 raw = Inr raw
    \<and> json_loads env (unique_object DUPLICATE_KEY) raw = Inr v \<and> (\<exists>kvs. v = JObj kvs)"
proof -
  have o: "(case x of JObj _ \<Rightarrow> Inr x | _ \<Rightarrow> Inl e) = Inr y \<longleftrightarrow> x = y \<and> (\<exists>kvs. x = JObj kvs)" for x y and e :: exn
    by (cases x) auto
  from assms show ?thesis unfolding parse_manifest_def o bindE_Inr_iff raise_from_Inr_iff raise_if_Inr_iff by (auto simp: result_simps)
qed

text \<open>Sealing the canonical bytes of a sealed job gives that job again.\<close>

lemma seal_canonical_manifest:
  assumes s: "seal_typed_manifest env reg raw = Inr job"
    and len: "length (canonical_manifest job) \<le> MAX_MANIFEST_BYTES"
  shows "seal_typed_manifest env reg (canonical_manifest job) = Inr job"
proof -
  from s obtain v where p: "parse_manifest env raw = Inr v" and val: "validate_manifest env reg v = Inr ()"
    and job: "seal_value v = Inr job" by (auto simp: seal_typed_manifest_def bindE_Inr_iff)
  let ?b = "canonical_manifest job"
  have ok: "jok (rec_limit env) v" using parse_manifest_Inr [OF p] json_loads_jok by blast
  then have wf: "jwf (rec_limit env) v" using validate_manifest_no_float [OF val] by (simp add: jwf_iff)
  have c: "canonical_json v = Inr ?b" using job by (rule seal_value_canonical)
  note l = canonical_json_loads [OF c wf good_hook_unique_object]
  have "?b \<noteq> []" using c by (auto simp: canonical_json_def result_simps)
  moreover obtain kvs where "sort_keys v = JObj kvs" using parse_manifest_Inr [OF p] by auto
  ultimately have "parse_manifest env ?b = Inr (sort_keys v)"
    using l len by (simp add: parse_manifest_def)
  then show ?thesis
    using validate_manifest_sort [OF ok] seal_value_sort [OF ok] val job by (simp add: seal_typed_manifest_def)
qed

text \<open>What every sealed job satisfies.\<close>

definition job_ok :: "SealedJob \<Rightarrow> bool" where
  "job_ok job \<longleftrightarrow> SAFE_ID_RE (job_id job) \<and> job_digest job = job_digest_of (canonical_manifest job)
     \<and> SAFE_ID_RE (operation_id job) \<and> SAFE_ID_RE (request_id job) \<and> SAFE_ID_RE (lineage_id job)
     \<and> SAFE_ID_RE (reply_target job) \<and> timestamp_ok (submitted_at job)"

lemma job_digest_of_digest: "DIGEST_RE (job_digest_of c)"
  by (simp add: job_digest_of_def sha256_tag_digest)

lemma seal_job_ok:
  assumes "seal_typed_manifest env reg raw = Inr job"
  shows "job_ok job \<and> (\<exists>spec. map_of reg (operation_id job) = Some spec \<and> operation_version job = spec_version spec)"
proof -
  from assms obtain v where val: "validate_manifest env reg v = Inr ()" and job: "seal_value v = Inr job"
    by (auto simp: seal_typed_manifest_def bindE_Inr_iff)
  from val show ?thesis
  proof (rule validate_manifest_Inr, goal_cases)
    case (1 kvs jid oid req pre rev ver params)
    from 1(10) show ?case
    proof (rule validate_request_Inr, goal_cases)
      case (1 r rid lid rt sub)
      from job show ?case
        using 1 \<open>v = JObj kvs\<close> \<open>jget kvs ''job_id'' = _\<close> \<open>jget kvs ''operation_id'' = _\<close> \<open>jget kvs ''request'' = _\<close>
          \<open>jget kvs ''operation_version'' = _\<close> \<open>SAFE_ID_RE jid\<close> \<open>SAFE_ID_RE oid\<close> \<open>registry_validate reg oid ver params = _\<close>
        by (auto simp: seal_value_def bindE_Inr_iff get_str_def jobj_def jstr_def jint_def job_ok_def
            elim!: registry_validate_Inr)
    qed
  qed
qed

lemma job_ok_digest: "job_ok job \<Longrightarrow> DIGEST_RE (job_digest job)"
  by (simp add: job_ok_def job_digest_of_digest)

section \<open>A sealed manifest\<close>

definition sample_manifest :: json where
  "sample_manifest = JObj
     [(''schema'', JStr MANIFEST_SCHEMA), (''registry_version'', JStr REGISTRY_VERSION),
      (''job_id'', JStr ''job-1''), (''operation_id'', JStr ''nas.observe_groupware_runtime''),
      (''operation_version'', JInt 1),
      (''request'', JObj [(''request_id'', JStr ''req-1''), (''lineage_id'', JStr ''lin-1''),
         (''reply_target'', JStr ''ops''), (''submitted_at'', JStr ''2026-07-01T00:00:00Z'')]),
      (''parameters'', JObj [(''slot'', JStr ''a'')]),
      (''expected_pre_state'', JObj [(''kind'', JStr ''none''), (''digest'', JNull)]),
      (''review'', JObj [(''purpose'', JStr ''p''),
         (''premises'', JList [JObj [(''claim'', JStr ''c''), (''basis'', JStr ''unknown''),
            (''anchor'', JNull), (''falsifier'', JStr ''f'')]]),
         (''targets'', JList [JStr ''t'']), (''changes'', JList [JStr ''c'']), (''recovery'', JList [JStr ''r'']),
         (''risk_delta'', JObj [(''baseline'', JStr ''b''), (''added'', JList []), (''removed'', JList []),
            (''maximum_consequence'', JStr ''m'')])])]"

definition sample_bytes :: string where
  "sample_bytes = dumps '','' '':'' (sort_keys sample_manifest) @ [CHR 0x0A]"

definition sample_job :: SealedJob where
  "sample_job = \<lparr>job_id = ''job-1'', job_digest = job_digest_of sample_bytes,
     operation_id = ''nas.observe_groupware_runtime'', operation_version = 1, request_id = ''req-1'',
     lineage_id = ''lin-1'', reply_target = ''ops'', submitted_at = ''2026-07-01T00:00:00Z'',
     canonical_manifest = sample_bytes\<rparr>"

lemma sample_validates: "validate_manifest sample_env DEFAULT_REGISTRY sample_manifest = Inr ()"
  by code_simp

lemma sample_jwf: "jwf 20 sample_manifest"
  by code_simp

lemma sample_bytes_facts: "utf8_valid sample_bytes" "length sample_bytes < 1000"
  by code_simp+

lemma sample_seals: "seal_typed_manifest sample_env DEFAULT_REGISTRY sample_bytes = Inr sample_job"
proof -
  have c: "canonical_json sample_manifest = Inr sample_bytes"
    using sample_bytes_facts(1) by (simp add: canonical_json_def sample_bytes_def encode_utf8_def)
  have wf: "jwf (rec_limit sample_env) sample_manifest" using sample_jwf by (simp add: sample_env_def)
  then have ok: "jok (rec_limit sample_env) sample_manifest" by (simp add: jwf_iff)
  have "sample_bytes \<noteq> []" by (simp add: sample_bytes_def)
  moreover obtain kvs where "sort_keys sample_manifest = JObj kvs" by (simp add: sample_manifest_def)
  moreover have "length sample_bytes \<le> MAX_MANIFEST_BYTES" using sample_bytes_facts(2) by (simp add: MAX_MANIFEST_BYTES_def)
  ultimately have "parse_manifest sample_env sample_bytes = Inr (sort_keys sample_manifest)"
    using canonical_json_loads [OF c wf good_hook_unique_object] by (simp add: parse_manifest_def)
  moreover have "seal_value sample_manifest = Inr sample_job"
    unfolding seal_value_def c by (simp add: sample_manifest_def jobj_def jget_def get_str_def jstr_def jint_def sample_job_def)
  ultimately show ?thesis
    using validate_manifest_sort [OF ok] seal_value_sort [OF ok] sample_validates by (simp add: seal_typed_manifest_def)
qed

lemma sample_job_ok: "job_ok sample_job"
  using seal_job_ok [OF sample_seals] by blast

section \<open>Properties\<close>

text \<open>
  C26. Sealing is idempotent: the canonical bytes of a sealed job seal to the same job, with the
  same digest, as long as they fit the size limit (the canonical text may be one byte longer
  than the submitted one).
\<close>

theorem seal_idempotent:
  assumes "seal_typed_manifest env reg raw = Inr job"
    and "length (canonical_manifest job) \<le> MAX_MANIFEST_BYTES"
  shows "seal_typed_manifest env reg (canonical_manifest job) = Inr job"
  using assms by (rule seal_canonical_manifest)

theorem seal_idempotent_witness:
  "seal_typed_manifest sample_env DEFAULT_REGISTRY (canonical_manifest sample_job) = Inr sample_job"
  using seal_idempotent [OF sample_seals] sample_bytes_facts(2) by (simp add: sample_job_def MAX_MANIFEST_BYTES_def)

text \<open>
  C38. A manifest that seals gives a job with safe identifiers, a checked timestamp, the SHA-256
  digest of its canonical bytes, and an operation registered at exactly its version.
\<close>

theorem sealed_job_wellformed:
  assumes "seal_typed_manifest env reg raw = Inr job"
  shows "job_ok job \<and> DIGEST_RE (job_digest job)
    \<and> (\<exists>spec. map_of reg (operation_id job) = Some spec \<and> operation_version job = spec_version spec)"
  using seal_job_ok [OF assms] job_ok_digest by blast

theorem sealed_job_wellformed_witness:
  "job_ok sample_job \<and> DIGEST_RE (job_digest sample_job)
    \<and> (\<exists>spec. map_of DEFAULT_REGISTRY (operation_id sample_job) = Some spec \<and> operation_version sample_job = spec_version spec)"
  by (rule sealed_job_wellformed [OF sample_seals])

end
