(* ===== verification/Observation.thy ===== *)
theory Observation
  imports Json
begin

text \<open>
  Public execution observations (\<open>root_actions/observation.py\<close>): the bounded facts a
  handler may publish, their validation, and the observation object with its
  \<open>public_facts\<close>. The part of \<open>pathlib.PurePosixPath\<close> the module uses is modelled here.
  The main result: the facts an observation publishes always pass the validation, so
  \<open>public_facts\<close> fails only for a path outside the allowed roots.
\<close>

section \<open>Pure POSIX paths\<close>

datatype pure_path = PurePath (path_root: string) (path_parts: "string list")

fun split_slash :: "string \<Rightarrow> string list" where
  "split_slash [] = [[]]"
| "split_slash (c # s) =
     (if c = CHR ''/'' then [] # split_slash s
      else (case split_slash s of p # ps \<Rightarrow> (c # p) # ps | [] \<Rightarrow> [[c]]))"

text \<open>Exactly two leading slashes form a root of their own.\<close>

definition root_of :: "string \<Rightarrow> string" where
  "root_of s =
     (if take 1 s \<noteq> ''/'' then []
      else if take 2 s = ''//'' \<and> take 3 s \<noteq> ''///'' then ''//'' else ''/'')"

definition PurePosixPath :: "string \<Rightarrow> pure_path" where
  "PurePosixPath s = PurePath (root_of s) (filter (\<lambda>p. p \<noteq> [] \<and> p \<noteq> ''.'') (split_slash s))"

definition as_posix :: "pure_path \<Rightarrow> string" where
  "as_posix p =
     (if path_root p = [] \<and> path_parts p = [] then ''.''
      else path_root p @ join ''/'' (path_parts p))"

definition is_absolute :: "pure_path \<Rightarrow> bool" where
  "is_absolute p \<longleftrightarrow> path_root p \<noteq> []"

definition is_relative_to :: "pure_path \<Rightarrow> pure_path \<Rightarrow> bool" where
  "is_relative_to p root \<longleftrightarrow> path_root p = path_root root
     \<and> take (length (path_parts root)) (path_parts p) = path_parts root"

section \<open>Facts\<close>

definition MAX_PROVIDER_OBSERVATION_COUNT :: int where
  "MAX_PROVIDER_OBSERVATION_COUNT = 1000000"

definition MAX_PUBLIC_PATH_BYTES :: nat where
  "MAX_PUBLIC_PATH_BYTES = 1024"

definition UNAVAILABLE_FACT_VALUE :: string where
  "UNAVAILABLE_FACT_VALUE = ''unavailable''"

definition OBSERVATION_CONTRACT_SCHEMA :: string where
  "OBSERVATION_CONTRACT_SCHEMA = ''agent-runtime-root-action-observation-contract/v1''"

definition EXECUTION_OBSERVATION_FACT_ORDER :: "string list" where
  "EXECUTION_OBSERVATION_FACT_ORDER = [''dispatch_started'', ''dispatch_completed'',
     ''provider_request_count'', ''provider_reservation_count'', ''preserved_snapshot_path'', ''staging_path'']"

definition FORBIDDEN_OBSERVATION_FACT_NAMES :: "string list" where
  "FORBIDDEN_OBSERVATION_FACT_NAMES = [''terminal_outcome'', ''terminal_status'']"

definition BOOLEAN_FACT_NAMES :: "string list" where
  "BOOLEAN_FACT_NAMES = [''dispatch_started'', ''dispatch_completed'']"

definition COUNT_FACT_NAMES :: "string list" where
  "COUNT_FACT_NAMES = [''provider_request_count'', ''provider_reservation_count'']"

definition PATH_FACT_NAMES :: "string list" where
  "PATH_FACT_NAMES = [''preserved_snapshot_path'', ''staging_path'']"

text \<open>\<open>/[A-Za-z0-9._/-]+\<close>\<close>

definition PUBLIC_PATH_RE :: "string \<Rightarrow> bool" where
  "PUBLIC_PATH_RE s = (case s of
       c # cs \<Rightarrow> c = CHR ''/'' \<and> cs \<noteq> [] \<and>
         list_all (\<lambda>x. is_lower x \<or> is_upper x \<or> is_digit x \<or> x \<in> set ''._/-'') cs
     | [] \<Rightarrow> False)"

text \<open>\<open>0|[1-9][0-9]{0,6}\<close>\<close>

definition CANONICAL_COUNT_RE :: "string \<Rightarrow> bool" where
  "CANONICAL_COUNT_RE s = (case s of
       [] \<Rightarrow> False
     | c # cs \<Rightarrow> (c = CHR ''0'' \<and> cs = []) \<or>
         (CHR ''1'' \<le> c \<and> c \<le> CHR ''9'' \<and> length cs \<le> 6 \<and> list_all is_digit cs))"

definition optional_count :: "int option \<Rightarrow> string \<Rightarrow> unit result" where
  "optional_count value field =
     (case value of
        None \<Rightarrow> Inr ()
      | Some n \<Rightarrow> raise_if (n < 0 \<or> MAX_PROVIDER_OBSERVATION_COUNT < n)
                    (ObservationValidationError (field @ '' is outside the public count bound'')))"

definition canonical_public_path :: "string \<Rightarrow> string \<Rightarrow> pure_path result" where
  "canonical_public_path value field =
     (if value = [] then Inl (ObservationValidationError (field @ '' is not a bounded public path''))
      else bindE (encode_utf8 value) (\<lambda>b.
        if MAX_PUBLIC_PATH_BYTES < length b \<or> \<not> PUBLIC_PATH_RE value
        then Inl (ObservationValidationError (field @ '' is not a bounded public path''))
        else
          (let path = PurePosixPath value in
           if \<not> is_absolute path \<or> as_posix path \<noteq> value \<or> path = PurePosixPath ''/''
              \<or> list_ex (\<lambda>part. part = ''.'' \<or> part = ''..'') (path_parts path)
           then Inl (ObservationValidationError (field @ '' is not a canonical absolute path''))
           else Inr path)))"

definition public_path :: "string option \<Rightarrow> string \<Rightarrow> pure_path list \<Rightarrow> string result" where
  "public_path value field allowed_roots =
     (case value of
        None \<Rightarrow> Inr UNAVAILABLE_FACT_VALUE
      | Some v \<Rightarrow>
          bindE (canonical_public_path v field) (\<lambda>path.
          if allowed_roots = [] \<or> \<not> list_ex (\<lambda>root. path = root \<or> is_relative_to path root) allowed_roots
          then Inl (ObservationValidationError (field @ '' is outside its public path roots''))
          else Inr v))"

definition boolean_fact :: "bool option \<Rightarrow> string" where
  "boolean_fact value =
     (case value of None \<Rightarrow> UNAVAILABLE_FACT_VALUE | Some b \<Rightarrow> if b then ''true'' else ''false'')"

definition count_fact :: "int option \<Rightarrow> string" where
  "count_fact value = (case value of None \<Rightarrow> UNAVAILABLE_FACT_VALUE | Some n \<Rightarrow> show_int n)"

definition execution_observation_contract_projection :: json where
  "execution_observation_contract_projection = JObj
     [(''schema'', JStr OBSERVATION_CONTRACT_SCHEMA),
      (''fact_order'', JList (map JStr EXECUTION_OBSERVATION_FACT_ORDER)),
      (''boolean_facts'', JList (map JStr BOOLEAN_FACT_NAMES)),
      (''count_facts'', JList (map JStr COUNT_FACT_NAMES)),
      (''path_facts'', JList (map JStr PATH_FACT_NAMES)),
      (''unavailable_value'', JStr UNAVAILABLE_FACT_VALUE),
      (''maximum_provider_count'', JInt MAX_PROVIDER_OBSERVATION_COUNT),
      (''terminal_status_source'', JStr ''receipt.terminal_outcome''),
      (''forbidden_fact_names'', JList (map JStr (sort FORBIDDEN_OBSERVATION_FACT_NAMES))),
      (''partial_policy'', JStr ''reject'')]"

text \<open>\<open>dict(facts)\<close>: the last pair of a name gives its value.\<close>

type_synonym facts = "(string \<times> string) list"

definition fact_value :: "facts \<Rightarrow> string \<Rightarrow> string result" where
  "fact_value facts name =
     (case map_of (rev facts) name of None \<Rightarrow> Inl (KeyError name) | Some v \<Rightarrow> Inr v)"

definition check_boolean_fact :: "facts \<Rightarrow> string \<Rightarrow> unit result" where
  "check_boolean_fact facts name =
     bindE (fact_value facts name) (\<lambda>v.
       raise_if (v \<notin> {''true'', ''false'', UNAVAILABLE_FACT_VALUE})
         (ObservationValidationError (name @ '' is not a public boolean observation'')))"

definition check_count_fact :: "facts \<Rightarrow> string \<Rightarrow> unit result" where
  "check_count_fact facts name =
     bindE (fact_value facts name) (\<lambda>v.
       if v = UNAVAILABLE_FACT_VALUE then Inr ()
       else raise_if (\<not> CANONICAL_COUNT_RE v \<or> MAX_PROVIDER_OBSERVATION_COUNT < int (read_nat v))
              (ObservationValidationError (name @ '' is not a bounded canonical public count'')))"

definition check_path_fact :: "facts \<Rightarrow> string \<Rightarrow> unit result" where
  "check_path_fact facts name =
     bindE (fact_value facts name) (\<lambda>v.
       if v \<noteq> UNAVAILABLE_FACT_VALUE then bindE (canonical_public_path v name) (\<lambda>_. Inr ()) else Inr ())"

definition validate_public_observation_facts :: "facts \<Rightarrow> unit result" where
  "validate_public_observation_facts facts =
     (let names = map fst facts;
          observed = filter (\<lambda>name. name \<in> set EXECUTION_OBSERVATION_FACT_ORDER) names in
      if list_ex (\<lambda>name. name \<in> set FORBIDDEN_OBSERVATION_FACT_NAMES) names
      then Inl (ObservationValidationError ''terminal status must come from the receipt envelope'')
      else if observed = [] then Inr ()
      else if observed \<noteq> EXECUTION_OBSERVATION_FACT_ORDER
      then Inl (ObservationValidationError ''execution observation facts must be complete and ordered'')
      else
        bindE (forE (check_boolean_fact facts) BOOLEAN_FACT_NAMES) (\<lambda>_.
        bindE (fact_value facts ''dispatch_completed'') (\<lambda>completed.
        bindE (fact_value facts ''dispatch_started'') (\<lambda>started.
        bindE (raise_if (completed = ''true'' \<and> started \<noteq> ''true'')
                 (ObservationValidationError ''dispatch_completed=true requires dispatch_started=true'')) (\<lambda>_.
        bindE (forE (check_count_fact facts) COUNT_FACT_NAMES) (\<lambda>_.
        forE (check_path_fact facts) PATH_FACT_NAMES))))))"

section \<open>The observation\<close>

record SanitizedExecutionObservation =
  dispatch_started :: "bool option"
  dispatch_completed :: "bool option"
  provider_request_count :: "int option"
  provider_reservation_count :: "int option"
  preserved_snapshot_path :: "string option"
  staging_path :: "string option"

definition check_optional_path :: "string option \<Rightarrow> string \<Rightarrow> unit result" where
  "check_optional_path value field =
     (case value of None \<Rightarrow> Inr () | Some v \<Rightarrow> bindE (canonical_public_path v field) (\<lambda>_. Inr ()))"

text \<open>\<open>__post_init__\<close>: the constructor's checks.\<close>

definition observation_post_init :: "SanitizedExecutionObservation \<Rightarrow> unit result" where
  "observation_post_init obs =
     bindE (raise_if (dispatch_completed obs = Some True \<and> dispatch_started obs \<noteq> Some True)
              (ObservationValidationError ''dispatch_completed=true requires dispatch_started=true'')) (\<lambda>_.
     bindE (optional_count (provider_request_count obs) ''provider_request_count'') (\<lambda>_.
     bindE (optional_count (provider_reservation_count obs) ''provider_reservation_count'') (\<lambda>_.
     bindE (check_optional_path (preserved_snapshot_path obs) ''preserved_snapshot_path'') (\<lambda>_.
     check_optional_path (staging_path obs) ''staging_path''))))"

definition observation_facts :: "SanitizedExecutionObservation \<Rightarrow> string \<Rightarrow> string \<Rightarrow> facts" where
  "observation_facts obs snapshot staging =
     [(''dispatch_started'', boolean_fact (dispatch_started obs)),
      (''dispatch_completed'', boolean_fact (dispatch_completed obs)),
      (''provider_request_count'', count_fact (provider_request_count obs)),
      (''provider_reservation_count'', count_fact (provider_reservation_count obs)),
      (''preserved_snapshot_path'', snapshot),
      (''staging_path'', staging)]"

definition public_facts :: "SanitizedExecutionObservation \<Rightarrow> string list \<Rightarrow> facts result" where
  "public_facts obs allowed_path_roots =
     bindE (raise_if (16 < length allowed_path_roots)
              (ObservationValidationError ''allowed_path_roots must be a bounded tuple'')) (\<lambda>_.
     bindE (mapE (\<lambda>(index, root). canonical_public_path root (''allowed_path_roots['' @ show_nat index @ '']''))
              (enumerate 0 allowed_path_roots)) (\<lambda>roots.
     bindE (raise_if (\<not> distinct roots) (ObservationValidationError ''allowed_path_roots must be unique'')) (\<lambda>_.
     bindE (public_path (preserved_snapshot_path obs) ''preserved_snapshot_path'' roots) (\<lambda>snapshot.
     bindE (public_path (staging_path obs) ''staging_path'' roots) (\<lambda>staging.
     let facts = observation_facts obs snapshot staging in
     bindE (validate_public_observation_facts facts) (\<lambda>_. Inr facts))))))"

section \<open>Published facts are valid\<close>

lemma fact_value_observation_facts [simp]:
  "fact_value (observation_facts obs a b) ''dispatch_started'' = Inr (boolean_fact (dispatch_started obs))"
  "fact_value (observation_facts obs a b) ''dispatch_completed'' = Inr (boolean_fact (dispatch_completed obs))"
  "fact_value (observation_facts obs a b) ''provider_request_count'' = Inr (count_fact (provider_request_count obs))"
  "fact_value (observation_facts obs a b) ''provider_reservation_count'' = Inr (count_fact (provider_reservation_count obs))"
  "fact_value (observation_facts obs a b) ''preserved_snapshot_path'' = Inr a"
  "fact_value (observation_facts obs a b) ''staging_path'' = Inr b"
  by (simp_all add: fact_value_def observation_facts_def)

lemma boolean_fact_simps [simp]:
  "boolean_fact b = ''true'' \<longleftrightarrow> b = Some True"
  by (auto simp: boolean_fact_def UNAVAILABLE_FACT_VALUE_def split: option.splits)

lemma boolean_fact_valid: "boolean_fact b \<in> {''true'', ''false'', UNAVAILABLE_FACT_VALUE}"
  by (auto simp: boolean_fact_def split: option.splits)

lemma optional_count_Inr_iff [result_simps]:
  "optional_count v f = Inr u \<longleftrightarrow> (\<forall>n. v = Some n \<longrightarrow> 0 \<le> n \<and> n \<le> MAX_PROVIDER_OBSERVATION_COUNT)"
  by (auto simp: optional_count_def result_simps split: option.splits)

lemma show_nat_canonical:
  assumes "n \<le> 1000000"
  shows "CANONICAL_COUNT_RE (show_nat n)"
proof (cases "n = 0")
  case True
  then show ?thesis by (simp add: show_nat.simps CANONICAL_COUNT_RE_def)
next
  case False
  obtain c cs where c: "show_nat n = c # cs" using show_nat_digits [of n] by (cases "show_nat n") auto
  have "length (show_nat n) \<le> 7" using assms by (intro show_nat_length) simp_all
  moreover have "c \<noteq> CHR ''0''" using show_nat_hd [of n] False c by simp
  moreover have "is_digit c" "list_all is_digit cs" using show_nat_digits [of n] c by simp_all
  moreover have "CHR ''1'' \<le> c \<and> c \<le> CHR ''9''"
    using \<open>c \<noteq> CHR ''0''\<close> \<open>is_digit c\<close> digit_char_digit_val [of c]
    by (auto simp: is_digit_def less_eq_char_def le_less digit_val_def)
  ultimately show ?thesis by (simp add: CANONICAL_COUNT_RE_def c)
qed

lemma check_count_fact_ok:
  assumes "optional_count v f = Inr ()" and "fact_value facts name = Inr (count_fact v)"
  shows "check_count_fact facts name = Inr ()"
proof (cases v)
  case (Some n)
  with assms(1) have n: "0 \<le> n" "n \<le> 1000000"
    by (simp_all add: result_simps MAX_PROVIDER_OBSERVATION_COUNT_def)
  then have "CANONICAL_COUNT_RE (show_nat (nat n))" by (intro show_nat_canonical) simp
  with Some n assms(2) show ?thesis
    by (simp add: check_count_fact_def count_fact_def show_int_def read_show_nat MAX_PROVIDER_OBSERVATION_COUNT_def)
qed (use assms(2) in \<open>simp add: check_count_fact_def count_fact_def\<close>)

lemma public_path_Inr:
  assumes "public_path v f roots = Inr t" and "fact_value facts f = Inr t"
  shows "check_path_fact facts f = Inr ()"
  using assms by (auto simp: public_path_def check_path_fact_def result_simps split: option.splits if_splits)

lemma observation_names [simp]: "map fst (observation_facts obs a b) = EXECUTION_OBSERVATION_FACT_ORDER"
  by (simp add: observation_facts_def EXECUTION_OBSERVATION_FACT_ORDER_def)

lemma observation_facts_valid:
  assumes "observation_post_init obs = Inr ()"
    and "public_path (preserved_snapshot_path obs) ''preserved_snapshot_path'' roots = Inr a"
    and "public_path (staging_path obs) ''staging_path'' roots = Inr b"
  shows "validate_public_observation_facts (observation_facts obs a b) = Inr ()"
proof -
  let ?f = "observation_facts obs a b"
  from assms(1) have o: "dispatch_completed obs = Some True \<longrightarrow> dispatch_started obs = Some True"
    and c: "optional_count (provider_request_count obs) ''provider_request_count'' = Inr ()"
      "optional_count (provider_reservation_count obs) ''provider_reservation_count'' = Inr ()"
    unfolding observation_post_init_def by (auto simp: bindE_Inr_iff raise_if_Inr_iff)
  have bools: "forE (check_boolean_fact ?f) BOOLEAN_FACT_NAMES = Inr ()"
    using boolean_fact_valid by (auto simp: BOOLEAN_FACT_NAMES_def check_boolean_fact_def raise_if_def)
  have counts: "forE (check_count_fact ?f) COUNT_FACT_NAMES = Inr ()"
    using check_count_fact_ok [OF c(1), of ?f] check_count_fact_ok [OF c(2), of ?f]
    by (simp add: COUNT_FACT_NAMES_def)
  have paths: "forE (check_path_fact ?f) PATH_FACT_NAMES = Inr ()"
    using public_path_Inr [OF assms(2), of ?f] public_path_Inr [OF assms(3), of ?f] by (simp add: PATH_FACT_NAMES_def)
  have "filter (\<lambda>n. n \<in> set EXECUTION_OBSERVATION_FACT_ORDER) EXECUTION_OBSERVATION_FACT_ORDER
      = EXECUTION_OBSERVATION_FACT_ORDER" by (simp add: filter_id_conv)
  moreover have "\<not> list_ex (\<lambda>n. n \<in> set FORBIDDEN_OBSERVATION_FACT_NAMES) EXECUTION_OBSERVATION_FACT_ORDER"
    "EXECUTION_OBSERVATION_FACT_ORDER \<noteq> []"
    by (simp_all add: EXECUTION_OBSERVATION_FACT_ORDER_def FORBIDDEN_OBSERVATION_FACT_NAMES_def)
  ultimately show ?thesis
    using bools counts paths o by (auto simp: validate_public_observation_facts_def Let_def raise_if_def)
qed

section \<open>Properties\<close>

text \<open>
  A constructed observation always publishes its six facts once the roots are accepted and its
  paths lie under them: the final validation never refuses the facts the observation builds.
\<close>

theorem public_facts_complete:
  assumes "observation_post_init obs = Inr ()" and "length allowed \<le> 16"
    and "mapE (\<lambda>(index, root). canonical_public_path root (''allowed_path_roots['' @ show_nat index @ '']''))
      (enumerate 0 allowed) = Inr roots" and "distinct roots"
    and "public_path (preserved_snapshot_path obs) ''preserved_snapshot_path'' roots = Inr a"
    and "public_path (staging_path obs) ''staging_path'' roots = Inr b"
  shows "public_facts obs allowed = Inr (observation_facts obs a b)
    \<and> map fst (observation_facts obs a b) = EXECUTION_OBSERVATION_FACT_ORDER"
  using assms observation_facts_valid [OF assms(1,5,6)] by (simp add: public_facts_def)

definition sample_observation :: SanitizedExecutionObservation where
  "sample_observation = \<lparr>dispatch_started = Some True, dispatch_completed = Some True,
     provider_request_count = Some 42, provider_reservation_count = None,
     preserved_snapshot_path = Some ''/srv/a'', staging_path = None\<rparr>"

theorem public_facts_complete_witness:
  "public_facts sample_observation [''/srv''] = Inr (observation_facts sample_observation ''/srv/a'' ''unavailable'')"
proof -
  have post: "observation_post_init sample_observation = Inr ()" by code_simp
  have roots: "mapE (\<lambda>(index, root). canonical_public_path root (''allowed_path_roots['' @ show_nat index @ '']''))
      (enumerate 0 [''/srv'']) = Inr [PurePath ''/'' [''srv'']]" by code_simp
  have paths: "public_path (preserved_snapshot_path sample_observation) ''preserved_snapshot_path'' [PurePath ''/'' [''srv'']] = Inr ''/srv/a''"
    "public_path (staging_path sample_observation) ''staging_path'' [PurePath ''/'' [''srv'']] = Inr ''unavailable''"
    by code_simp+
  from public_facts_complete [OF post _ roots _ paths] show ?thesis by simp
qed

end
