(* ===== verification/Receipts.thy ===== *)
theory Receipts
  imports Contracts Observation
begin

text \<open>
  Receipts (\<open>root_actions/receipts.py\<close>): the public, quarantined, unknown and terminal-notice
  receipts with their validation and sealing, the raw receipts that stay root-only, and
  the quarantine record. The lemmas show that sealing does not look at the order of keys,
  that the canonical bytes of a sealed receipt seal to the same artifact, and what each
  kind of receipt guarantees about its terminal outcome.
\<close>

definition RECEIPT_SCHEMA :: string where
  "RECEIPT_SCHEMA = ''agent-runtime-root-action-receipt/v1''"

definition MAX_RECEIPT_BYTES :: nat where "MAX_RECEIPT_BYTES = 512 * 1024"

definition MAX_RAW_RECEIPT_BYTES :: nat where "MAX_RAW_RECEIPT_BYTES = 8 * 1024 * 1024"

definition COMMON_KEYS :: "string list" where
  "COMMON_KEYS = [''schema'', ''kind'', ''job_id'', ''job_digest'', ''operation_id'', ''request_id'',
     ''reply_target'', ''terminal_outcome'']"

definition RAW_BASE_KEYS :: "string list" where
  "RAW_BASE_KEYS = COMMON_KEYS @ [''raw_receipt_digest'']"

definition PUBLIC_KEYS :: "string list" where
  "PUBLIC_KEYS = RAW_BASE_KEYS @ [''started_at'', ''ended_at'', ''exit_code'', ''removed_lines'', ''result'']"

definition QUARANTINE_KEYS :: "string list" where
  "QUARANTINE_KEYS = RAW_BASE_KEYS @ [''quarantine_id'', ''reason_code'']"

definition UNKNOWN_KEYS :: "string list" where
  "UNKNOWN_KEYS = RAW_BASE_KEYS @ [''last_known_at'', ''reason_code'']"

definition TERMINAL_NOTICE_KEYS :: "string list" where
  "TERMINAL_NOTICE_KEYS = COMMON_KEYS @ [''reason_code'']"

definition RESULT_KEYS :: "string list" where "RESULT_KEYS = [''status'', ''facts'']"

definition FACT_KEYS :: "string list" where "FACT_KEYS = [''name'', ''value'']"

record ReceiptArtifact =
  rc_kind :: string
  rc_job_id :: string
  rc_job_digest :: string
  rc_operation_id :: string
  rc_request_id :: string
  rc_reply_target :: string
  receipt_digest :: string
  canonical_receipt :: string

record RawReceiptReference =
  ref_job_id :: string
  ref_job_digest :: string
  raw_receipt_digest :: string
  root_storage_id :: string

record RawReceiptArtifact =
  reference :: RawReceiptReference
  raw_bytes :: string

record QuarantineRecord =
  raw_reference :: RawReceiptReference
  notice :: ReceiptArtifact

section \<open>Field checks\<close>

definition receipt_exact :: "json \<Rightarrow> string list \<Rightarrow> string \<Rightarrow> dict result" where
  "receipt_exact value ks field =
     (case value of
        JObj kvs \<Rightarrow> (if set (keys kvs) \<noteq> set ks then Inl (ReceiptValidationError (field @ '' field set mismatch''))
                   else Inr kvs)
      | _ \<Rightarrow> Inl (ReceiptValidationError (field @ '' field set mismatch'')))"

definition receipt_text :: "pyenv \<Rightarrow> json \<Rightarrow> string \<Rightarrow> nat \<Rightarrow> string result" where
  "receipt_text env = checked_text env ReceiptValidationError"

definition receipt_safe_id :: "pyenv \<Rightarrow> json \<Rightarrow> string \<Rightarrow> string result" where
  "receipt_safe_id env = checked_id env ReceiptValidationError"

definition receipt_timestamp :: "pyenv \<Rightarrow> json \<Rightarrow> string \<Rightarrow> string result" where
  "receipt_timestamp env = checked_timestamp env ReceiptValidationError"

definition receipt_check_digest :: "json \<Rightarrow> string \<Rightarrow> string result" where
  "receipt_check_digest value field =
     (case value of
        JStr s \<Rightarrow> (if DIGEST_RE s then Inr s else Inl (ReceiptValidationError (field @ '' must be a sha256 digest'')))
      | _ \<Rightarrow> Inl (ReceiptValidationError (field @ '' must be a sha256 digest'')))"

text \<open>\<open>value in {...}\<close> on a set of strings: an unhashable value raises \<open>TypeError\<close>.\<close>

definition json_in :: "json \<Rightarrow> string list \<Rightarrow> bool result" where
  "json_in value names =
     (case value of
        JStr s \<Rightarrow> Inr (s \<in> set names)
      | JList _ \<Rightarrow> Inl (TypeError ''unhashable type'')
      | JObj _ \<Rightarrow> Inl (TypeError ''unhashable type'')
      | _ \<Rightarrow> Inr False)"

text \<open>\<open>value == 0\<close> in Python: also \<open>False\<close> and the floats of value zero.\<close>

definition equals_zero :: "json \<Rightarrow> bool" where
  "equals_zero value =
     (case value of JInt n \<Rightarrow> n = 0 | JBool b \<Rightarrow> \<not> b | JFloat r \<Rightarrow> r = ''0.0'' \<or> r = ''-0.0'' | _ \<Rightarrow> False)"

section \<open>Raw receipts and quarantine\<close>

text \<open>The \<open>__post_init__\<close> checks of the dataclasses.\<close>

definition raw_reference_post_init :: "pyenv \<Rightarrow> RawReceiptReference \<Rightarrow> unit result" where
  "raw_reference_post_init env ref =
     bindE (receipt_safe_id env (JStr (ref_job_id ref)) ''raw_reference.job_id'') (\<lambda>_.
     bindE (receipt_check_digest (JStr (ref_job_digest ref)) ''raw_reference.job_digest'') (\<lambda>_.
     bindE (receipt_check_digest (JStr (raw_receipt_digest ref)) ''raw_reference.raw_receipt_digest'') (\<lambda>_.
     bindE (receipt_safe_id env (JStr (root_storage_id ref)) ''raw_reference.root_storage_id'') (\<lambda>_. Inr ()))))"

definition raw_bytes_check :: "string \<Rightarrow> unit result" where
  "raw_bytes_check b = raise_if (b = [] \<or> MAX_RAW_RECEIPT_BYTES < length b)
     (ReceiptValidationError ''raw receipt byte length is outside the allowed range'')"

definition raw_artifact_post_init :: "RawReceiptArtifact \<Rightarrow> unit result" where
  "raw_artifact_post_init a =
     bindE (raw_bytes_check (raw_bytes a)) (\<lambda>_.
     raise_if (raw_receipt_digest (reference a) \<noteq> sha256_tag (raw_bytes a))
       (ReceiptValidationError ''raw receipt digest mismatch''))"

definition seal_raw_receipt :: "pyenv \<Rightarrow> string \<Rightarrow> string \<Rightarrow> string \<Rightarrow> string \<Rightarrow> RawReceiptArtifact result" where
  "seal_raw_receipt env jid jdigest storage_id b =
     bindE (raw_bytes_check b) (\<lambda>_.
     let ref = \<lparr>ref_job_id = jid, ref_job_digest = jdigest, raw_receipt_digest = sha256_tag b,
                root_storage_id = storage_id\<rparr>;
         a = \<lparr>reference = ref, raw_bytes = b\<rparr> in
     bindE (raw_reference_post_init env ref) (\<lambda>_.
     bindE (raw_artifact_post_init a) (\<lambda>_. Inr a)))"

definition receipt_copy :: "pyenv \<Rightarrow> ReceiptArtifact \<Rightarrow> dict result" where
  "receipt_copy env a =
     bindE (decode_utf8 (canonical_receipt a)) (\<lambda>t. bindE (json_loads env dict_hook t) jobj)"

definition quarantine_post_init :: "pyenv \<Rightarrow> QuarantineRecord \<Rightarrow> unit result" where
  "quarantine_post_init env q =
     bindE (raise_if (rc_kind (notice q) \<noteq> ''quarantined'')
              (ReceiptValidationError ''quarantine record requires a quarantine notice'')) (\<lambda>_.
     bindE (receipt_copy env (notice q)) (\<lambda>value.
     if ref_job_id (raw_reference q) \<noteq> rc_job_id (notice q)
        \<or> ref_job_digest (raw_reference q) \<noteq> rc_job_digest (notice q)
     then Inl (ReceiptValidationError ''quarantine raw/public identity mismatch'')
     else bindE (jget value ''raw_receipt_digest'') (\<lambda>d.
       raise_if (JStr (raw_receipt_digest (raw_reference q)) \<noteq> d)
         (ReceiptValidationError ''quarantine raw/public identity mismatch''))))"

section \<open>Validation of the kinds\<close>

definition validate_common :: "pyenv \<Rightarrow> dict \<Rightarrow> bool \<Rightarrow> unit result" where
  "validate_common env value raw_receipt =
     bindE (jget value ''schema'') (\<lambda>x.
     bindE (raise_if (x \<noteq> JStr RECEIPT_SCHEMA) (ReceiptValidationError ''receipt.schema is not supported'')) (\<lambda>_.
     bindE (jget value ''job_id'') (\<lambda>x.
     bindE (receipt_safe_id env x ''job_id'') (\<lambda>_.
     bindE (jget value ''job_digest'') (\<lambda>x.
     bindE (receipt_check_digest x ''job_digest'') (\<lambda>_.
     bindE (jget value ''operation_id'') (\<lambda>x.
     bindE (receipt_safe_id env x ''operation_id'') (\<lambda>_.
     bindE (jget value ''request_id'') (\<lambda>x.
     bindE (receipt_safe_id env x ''request_id'') (\<lambda>_.
     bindE (jget value ''reply_target'') (\<lambda>x.
     bindE (receipt_safe_id env x ''reply_target'') (\<lambda>_.
     if raw_receipt then
       bindE (jget value ''raw_receipt_digest'') (\<lambda>x.
       bindE (receipt_check_digest x ''raw_receipt_digest'') (\<lambda>_. Inr ()))
     else Inr ()))))))))))))"

definition validate_outcome :: "dict \<Rightarrow> string list \<Rightarrow> string \<Rightarrow> unit result" where
  "validate_outcome value allowed message =
     bindE (jget value ''terminal_outcome'') (\<lambda>x.
     bindE (json_in x allowed) (\<lambda>b. raise_if (\<not> b) (ReceiptValidationError message)))"

definition validate_fact :: "pyenv \<Rightarrow> nat \<Rightarrow> json \<Rightarrow> (string \<times> string) result" where
  "validate_fact env index raw_fact =
     bindE (receipt_exact raw_fact FACT_KEYS (item_field ''result.facts'' index)) (\<lambda>fact.
     bindE (jget fact ''name'') (\<lambda>x.
     bindE (receipt_safe_id env x (item_field ''result.facts'' index @ ''.name'')) (\<lambda>name.
     bindE (jget fact ''value'') (\<lambda>x.
     bindE (receipt_text env x (item_field ''result.facts'' index @ ''.value'') 4096) (\<lambda>v.
     Inr (name, v))))))"

text \<open>\<open>result\<close> of a public receipt: its status and its facts.\<close>

definition validate_result :: "pyenv \<Rightarrow> json \<Rightarrow> unit result" where
  "validate_result env value =
     bindE (receipt_exact value RESULT_KEYS ''result'') (\<lambda>res.
     bindE (jget res ''status'') (\<lambda>x.
     bindE (receipt_safe_id env x ''result.status'') (\<lambda>_.
     bindE (jget res ''facts'') (\<lambda>facts.
     case facts of
       JList items \<Rightarrow>
         (if 128 < length items then Inl (ReceiptValidationError ''result.facts must be a list with at most 128 items'')
          else
            bindE (mapE (\<lambda>(index, f). validate_fact env index f) (enumerate 0 items)) (\<lambda>pairs.
            bindE (raise_if (\<not> distinct (map fst pairs)) (ReceiptValidationError ''result.facts names must be unique'')) (\<lambda>_.
            raise_from (\<lambda>e. case e of ObservationValidationError _ \<Rightarrow> True | _ \<Rightarrow> False)
              (ReceiptValidationError ''result.facts violates the execution observation contract'')
              (validate_public_observation_facts pairs))))
     | _ \<Rightarrow> Inl (ReceiptValidationError ''result.facts must be a list with at most 128 items'')))))"

definition validate_public :: "pyenv \<Rightarrow> json \<Rightarrow> unit result" where
  "validate_public env v =
     bindE (receipt_exact v PUBLIC_KEYS ''public receipt'') (\<lambda>value.
     bindE (validate_common env value True) (\<lambda>_.
     bindE (validate_outcome value [''succeeded'', ''failed''] ''public receipt has an invalid terminal_outcome'') (\<lambda>_.
     bindE (jget value ''started_at'') (\<lambda>x.
     bindE (receipt_timestamp env x ''started_at'') (\<lambda>started_at.
     bindE (jget value ''ended_at'') (\<lambda>x.
     bindE (receipt_timestamp env x ''ended_at'') (\<lambda>ended_at.
     bindE (raise_if (ended_at < started_at) (ReceiptValidationError ''ended_at cannot precede started_at'')) (\<lambda>_.
     bindE (jget value ''exit_code'') (\<lambda>x.
     bindE (raise_if (case x of JInt _ \<Rightarrow> False | _ \<Rightarrow> True) (ReceiptValidationError ''exit_code must be an integer'')) (\<lambda>_.
     bindE (jget value ''removed_lines'') (\<lambda>x.
     bindE (raise_if (\<not> equals_zero x) (ReceiptValidationError ''public receipt cannot contain removed lines'')) (\<lambda>_.
     bindE (jget value ''result'') (\<lambda>x.
     validate_result env x)))))))))))))"

definition validate_quarantine :: "pyenv \<Rightarrow> json \<Rightarrow> unit result" where
  "validate_quarantine env v =
     bindE (receipt_exact v QUARANTINE_KEYS ''quarantine receipt'') (\<lambda>value.
     bindE (validate_common env value True) (\<lambda>_.
     bindE (validate_outcome value [''succeeded'', ''failed''] ''quarantine receipt has an invalid terminal_outcome'') (\<lambda>_.
     bindE (jget value ''quarantine_id'') (\<lambda>x.
     bindE (receipt_safe_id env x ''quarantine_id'') (\<lambda>_.
     bindE (jget value ''reason_code'') (\<lambda>x.
     bindE (receipt_safe_id env x ''reason_code'') (\<lambda>_. Inr ())))))))"

definition validate_unknown :: "pyenv \<Rightarrow> json \<Rightarrow> unit result" where
  "validate_unknown env v =
     bindE (receipt_exact v UNKNOWN_KEYS ''unknown receipt'') (\<lambda>value.
     bindE (validate_common env value True) (\<lambda>_.
     bindE (jget value ''terminal_outcome'') (\<lambda>x.
     bindE (raise_if (x \<noteq> JNull) (ReceiptValidationError ''unknown receipt cannot claim a terminal outcome'')) (\<lambda>_.
     bindE (jget value ''last_known_at'') (\<lambda>x.
     bindE (receipt_timestamp env x ''last_known_at'') (\<lambda>_.
     bindE (jget value ''reason_code'') (\<lambda>x.
     bindE (receipt_safe_id env x ''reason_code'') (\<lambda>_. Inr ()))))))))"

definition validate_terminal_notice :: "pyenv \<Rightarrow> json \<Rightarrow> unit result" where
  "validate_terminal_notice env v =
     bindE (receipt_exact v TERMINAL_NOTICE_KEYS ''terminal notice'') (\<lambda>value.
     bindE (validate_common env value False) (\<lambda>_.
     bindE (validate_outcome value [''rejected'', ''expired'', ''canceled'', ''prestart_failed'']
              ''terminal notice has an invalid terminal_outcome'') (\<lambda>_.
     bindE (jget value ''reason_code'') (\<lambda>x.
     bindE (receipt_safe_id env x ''reason_code'') (\<lambda>_. Inr ())))))"

section \<open>Sealing\<close>

definition RECEIPT_DUPLICATE_KEY :: exn where
  "RECEIPT_DUPLICATE_KEY = ReceiptValidationError ''duplicate JSON key''"

definition parse_receipt :: "pyenv \<Rightarrow> string \<Rightarrow> dict result" where
  "parse_receipt env raw =
     bindE (raise_if (raw = [] \<or> MAX_RECEIPT_BYTES < length raw)
              (ReceiptValidationError ''receipt byte length is outside the allowed range'')) (\<lambda>_.
     bindE (raise_from (\<lambda>e. is_value_error e \<and> e \<noteq> RECEIPT_DUPLICATE_KEY)
              (ReceiptValidationError ''receipt is not valid UTF-8 JSON'')
              (bindE (decode_utf8 raw) (json_loads env (unique_object RECEIPT_DUPLICATE_KEY)))) (\<lambda>v.
     (case v of JObj kvs \<Rightarrow> Inr kvs | _ \<Rightarrow> Inl (ReceiptValidationError ''receipt must be an object''))))"

definition validate_receipt :: "pyenv \<Rightarrow> dict \<Rightarrow> string result" where
  "validate_receipt env kvs =
     (let k = jget_opt kvs ''kind''; v = JObj kvs in
      if k = JStr ''public'' then bindE (validate_public env v) (\<lambda>_. Inr ''public'')
      else if k = JStr ''quarantined'' then bindE (validate_quarantine env v) (\<lambda>_. Inr ''quarantined'')
      else if k = JStr ''unknown'' then bindE (validate_unknown env v) (\<lambda>_. Inr ''unknown'')
      else if k = JStr ''terminal_notice'' then bindE (validate_terminal_notice env v) (\<lambda>_. Inr ''terminal_notice'')
      else Inl (ReceiptValidationError ''receipt.kind is not supported''))"

definition receipt_digest_of :: "string \<Rightarrow> string" where
  "receipt_digest_of canonical = sha256_tag (''agent-runtime-root-action-receipt/v1'' @ [CHR 0x00] @ canonical)"

definition receipt_artifact :: "dict \<Rightarrow> string \<Rightarrow> ReceiptArtifact result" where
  "receipt_artifact kvs k =
     bindE (canonical_json (JObj kvs)) (\<lambda>canonical.
     bindE (get_str kvs ''job_id'') (\<lambda>jid.
     bindE (get_str kvs ''job_digest'') (\<lambda>jd.
     bindE (get_str kvs ''operation_id'') (\<lambda>oid.
     bindE (get_str kvs ''request_id'') (\<lambda>rid.
     bindE (get_str kvs ''reply_target'') (\<lambda>rt.
     Inr \<lparr>rc_kind = k, rc_job_id = jid, rc_job_digest = jd, rc_operation_id = oid, rc_request_id = rid,
          rc_reply_target = rt, receipt_digest = receipt_digest_of canonical, canonical_receipt = canonical\<rparr>))))))"

definition seal_receipt :: "pyenv \<Rightarrow> string \<Rightarrow> ReceiptArtifact result" where
  "seal_receipt env raw =
     bindE (parse_receipt env raw) (\<lambda>kvs.
     bindE (validate_receipt env kvs) (\<lambda>k. receipt_artifact kvs k))"

section \<open>Validation does not depend on the order of keys\<close>

lemma receipt_exact_Inr_iff [result_simps]:
  "receipt_exact v ks f = Inr kvs \<longleftrightarrow> v = JObj kvs \<and> set (keys kvs) = set ks"
  by (cases v) (auto simp: receipt_exact_def split: if_splits)

lemma receipt_exact_sort: "receipt_exact (sort_keys v) ks f = map_sum id sorted_dict (receipt_exact v ks f)"
  by (cases v) (simp_all add: receipt_exact_def)

lemma bindE_receipt_exact_sort:
  assumes "jok d v" and "\<And>kvs. jok d (JObj kvs) \<Longrightarrow> distinct (keys kvs) \<Longrightarrow> f' (sorted_dict kvs) = f kvs"
  shows "bindE (receipt_exact (sort_keys v) ks n) f' = bindE (receipt_exact v ks n) f"
  unfolding receipt_exact_sort bindE_map_sum
  using assms by (intro bindE_cong refl) (auto simp: result_simps dest: jok_JObj)

lemma receipt_text_sort [simp]:
  "receipt_text env (sort_keys v) f n = receipt_text env v f n"
  "receipt_safe_id env (sort_keys v) f = receipt_safe_id env v f"
  "receipt_timestamp env (sort_keys v) f = receipt_timestamp env v f"
  by (simp_all add: receipt_text_def receipt_safe_id_def receipt_timestamp_def)

lemma receipt_value_sort [simp]:
  "receipt_check_digest (sort_keys v) f = receipt_check_digest v f"
  "json_in (sort_keys v) names = json_in v names"
  "equals_zero (sort_keys v) = equals_zero v"
  "(case sort_keys v of JInt _ \<Rightarrow> False | _ \<Rightarrow> True) = (case v of JInt _ \<Rightarrow> False | _ \<Rightarrow> True)"
  by (cases v; simp add: receipt_check_digest_def json_in_def equals_zero_def)+

lemmas receipt_leaf_sort = receipt_text_sort receipt_value_sort

lemma validate_common_sort: "distinct (keys kvs) \<Longrightarrow> validate_common env (sorted_dict kvs) b = validate_common env kvs b"
  by (simp add: validate_common_def jget_sort_keys)

lemma validate_outcome_sort: "distinct (keys kvs) \<Longrightarrow> validate_outcome (sorted_dict kvs) a m = validate_outcome kvs a m"
  by (simp add: validate_outcome_def jget_sort_keys)

lemma validate_fact_sort: "jok d v \<Longrightarrow> validate_fact env i (sort_keys v) = validate_fact env i v"
  unfolding validate_fact_def by (rule bindE_receipt_exact_sort) (simp_all add: jget_sort_keys)

lemma validate_result_sort:
  assumes "jok d v"
  shows "validate_result env (sort_keys v) = validate_result env v"
  unfolding validate_result_def
proof (rule bindE_receipt_exact_sort [OF assms], goal_cases)
  case (1 kvs)
  note sub = jok_subvalues [OF 1(1)]
  show ?case
    unfolding jget_sort_keys [OF 1(2)] bindE_map_sum receipt_leaf_sort
  proof (intro bindE_cong refl, goal_cases)
    case (1 st s facts)
    show ?case
    proof (cases facts)
      case (JList items)
      have "mapE (\<lambda>(i, f). validate_fact env i f) (enumerate 0 (map sort_keys items)) =
          mapE (\<lambda>(i, f). validate_fact env i f) (enumerate 0 items)"
        unfolding enumerate_map_snd mapE_map using sub [OF 1(3)] unfolding JList
        by (intro mapE_cong) (auto simp: in_set_enumerate_eq intro!: validate_fact_sort jok_item)
      then show ?thesis by (simp add: JList)
    qed simp_all
  qed
qed

lemma validate_public_sort:
  assumes "jok d v"
  shows "validate_public env (sort_keys v) = validate_public env v"
  unfolding validate_public_def
proof (rule bindE_receipt_exact_sort [OF assms], goal_cases)
  case (1 kvs)
  note sub = jok_subvalues [OF 1(1)]
  show ?case
    unfolding jget_sort_keys [OF 1(2)] bindE_map_sum receipt_leaf_sort validate_common_sort [OF 1(2)] validate_outcome_sort [OF 1(2)]
    by (intro bindE_cong refl) (simp add: validate_result_sort [OF sub])
qed

lemma validate_quarantine_sort: "jok d v \<Longrightarrow> validate_quarantine env (sort_keys v) = validate_quarantine env v"
  unfolding validate_quarantine_def
  by (rule bindE_receipt_exact_sort) (simp_all add: jget_sort_keys validate_common_sort validate_outcome_sort)

lemma validate_unknown_sort: "jok d v \<Longrightarrow> validate_unknown env (sort_keys v) = validate_unknown env v"
  unfolding validate_unknown_def
  by (rule bindE_receipt_exact_sort) (simp_all add: jget_sort_keys validate_common_sort)

lemma validate_terminal_notice_sort:
  "jok d v \<Longrightarrow> validate_terminal_notice env (sort_keys v) = validate_terminal_notice env v"
  unfolding validate_terminal_notice_def
  by (rule bindE_receipt_exact_sort) (simp_all add: jget_sort_keys validate_common_sort validate_outcome_sort)

lemma jget_opt_sort: "distinct (keys kvs) \<Longrightarrow> jget_opt (sorted_dict kvs) k = sort_keys (jget_opt kvs k)"
  by (simp add: jget_opt_def map_of_sort_keys split: option.splits)

lemma validate_receipt_sort:
  assumes "jok d (JObj kvs)"
  shows "validate_receipt env (sorted_dict kvs) = validate_receipt env kvs"
proof -
  have k: "distinct (keys kvs)" using assms by (rule jok_JObj)
  have v: "JObj (sorted_dict kvs) = sort_keys (JObj kvs)" by simp
  show ?thesis
    unfolding validate_receipt_def v jget_opt_sort [OF k] Let_def sort_keys_JStr_iff
      validate_public_sort [OF assms] validate_quarantine_sort [OF assms] validate_unknown_sort [OF assms]
      validate_terminal_notice_sort [OF assms] ..
qed

lemma receipt_artifact_sort:
  assumes "distinct (keys kvs)"
  shows "receipt_artifact (sorted_dict kvs) k = receipt_artifact kvs k"
proof -
  have v: "JObj (sorted_dict kvs) = sort_keys (JObj kvs)" by simp
  show ?thesis unfolding receipt_artifact_def v canonical_json_sort get_str_sort [OF assms] ..
qed

section \<open>Sealed receipts\<close>

lemma parse_receipt_Inr:
  assumes "parse_receipt env raw = Inr kvs"
  shows "raw \<noteq> [] \<and> length raw \<le> MAX_RECEIPT_BYTES \<and> decode_utf8 raw = Inr raw
    \<and> json_loads env (unique_object RECEIPT_DUPLICATE_KEY) raw = Inr (JObj kvs)"
proof -
  have o: "(case x of JObj k \<Rightarrow> Inr k | _ \<Rightarrow> Inl e) = Inr y \<longleftrightarrow> x = JObj y" for x y and e :: exn
    by (cases x) auto
  from assms show ?thesis
    unfolding parse_receipt_def o bindE_Inr_iff raise_from_Inr_iff raise_if_Inr_iff by (auto simp: result_simps)
qed

lemma receipt_artifact_canonical:
  "receipt_artifact kvs k = Inr a \<Longrightarrow> canonical_json (JObj kvs) = Inr (canonical_receipt a)"
  by (auto simp: receipt_artifact_def bindE_Inr_iff)

lemma seal_canonical_receipt:
  assumes s: "seal_receipt env raw = Inr a" and len: "length (canonical_receipt a) \<le> MAX_RECEIPT_BYTES"
    and nf: "\<And>kvs. parse_receipt env raw = Inr kvs \<Longrightarrow> no_float (JObj kvs)"
  shows "seal_receipt env (canonical_receipt a) = Inr a"
proof -
  from s obtain kvs k where p: "parse_receipt env raw = Inr kvs" and v: "validate_receipt env kvs = Inr k"
    and a: "receipt_artifact kvs k = Inr a" by (auto simp: seal_receipt_def bindE_Inr_iff)
  let ?b = "canonical_receipt a"
  have ok: "jok (rec_limit env) (JObj kvs)" using parse_receipt_Inr [OF p] json_loads_jok by blast
  then have wf: "jwf (rec_limit env) (JObj kvs)" using nf [OF p] by (simp add: jwf_iff)
  have c: "canonical_json (JObj kvs) = Inr ?b" using a by (rule receipt_artifact_canonical)
  note l = canonical_json_loads [OF c wf good_hook_unique_object]
  have "?b \<noteq> []" using c by (auto simp: canonical_json_def result_simps)
  then have "parse_receipt env ?b = Inr (sorted_dict kvs)"
    using l len by (simp add: parse_receipt_def)
  then show ?thesis
    using validate_receipt_sort [OF ok] receipt_artifact_sort [OF jok_JObj [OF ok]] v a by (simp add: seal_receipt_def)
qed

lemma json_in_True: "json_in v names = Inr True \<Longrightarrow> \<exists>s\<in>set names. v = JStr s"
  by (cases v) (auto simp: json_in_def)

lemma validate_outcome_Inr:
  "validate_outcome kvs allowed m = Inr u \<Longrightarrow> \<exists>s\<in>set allowed. jget kvs ''terminal_outcome'' = Inr (JStr s)"
  by (auto simp: validate_outcome_def bindE_Inr_iff raise_if_Inr_iff dest: json_in_True)

text \<open>The outcome each kind of receipt carries.\<close>

definition outcome_allowed :: "string \<Rightarrow> json \<Rightarrow> bool" where
  "outcome_allowed k out \<longleftrightarrow>
     (if k = ''public'' \<or> k = ''quarantined'' then out = JStr ''succeeded'' \<or> out = JStr ''failed''
      else if k = ''unknown'' then out = JNull
      else k = ''terminal_notice'' \<and>
        (out = JStr ''rejected'' \<or> out = JStr ''expired'' \<or> out = JStr ''canceled'' \<or> out = JStr ''prestart_failed''))"

lemma validate_receipt_outcome:
  assumes "validate_receipt env kvs = Inr k"
  shows "\<exists>out. jget kvs ''terminal_outcome'' = Inr out \<and> outcome_allowed k out"
proof -
  consider "k = ''public''" "validate_public env (JObj kvs) = Inr ()"
    | "k = ''quarantined''" "validate_quarantine env (JObj kvs) = Inr ()"
    | "k = ''unknown''" "validate_unknown env (JObj kvs) = Inr ()"
    | "k = ''terminal_notice''" "validate_terminal_notice env (JObj kvs) = Inr ()"
    using assms by (auto simp: validate_receipt_def Let_def bindE_Inr_iff split: if_splits)
  then show ?thesis
  proof cases
    case 1
    then have "\<exists>m. validate_outcome kvs [''succeeded'', ''failed''] m = Inr ()"
      by (auto simp: validate_public_def bindE_Inr_iff receipt_exact_Inr_iff)
    then show ?thesis using 1 by (auto dest!: validate_outcome_Inr simp: outcome_allowed_def)
  next
    case 2
    then have "\<exists>m. validate_outcome kvs [''succeeded'', ''failed''] m = Inr ()"
      by (auto simp: validate_quarantine_def bindE_Inr_iff receipt_exact_Inr_iff)
    then show ?thesis using 2 by (auto dest!: validate_outcome_Inr simp: outcome_allowed_def)
  next
    case 3
    then show ?thesis
      by (auto simp: validate_unknown_def bindE_Inr_iff receipt_exact_Inr_iff raise_if_Inr_iff outcome_allowed_def)
  next
    case 4
    then have "\<exists>m. validate_outcome kvs [''rejected'', ''expired'', ''canceled'', ''prestart_failed''] m = Inr ()"
      by (auto simp: validate_terminal_notice_def bindE_Inr_iff receipt_exact_Inr_iff)
    then show ?thesis using 4 by (auto dest!: validate_outcome_Inr simp: outcome_allowed_def)
  qed
qed

lemma seal_raw_receipt_Inr:
  assumes "seal_raw_receipt env jid jd sid b = Inr a"
  shows "raw_bytes a = b \<and> raw_receipt_digest (reference a) = sha256_tag b \<and> ref_job_id (reference a) = jid
    \<and> ref_job_digest (reference a) = jd \<and> SAFE_ID_RE jid \<and> DIGEST_RE jd \<and> raw_artifact_post_init a = Inr ()
    \<and> raw_reference_post_init env (reference a) = Inr ()"
  using assms
  by (auto simp: seal_raw_receipt_def Let_def bindE_Inr_iff raw_reference_post_init_def receipt_safe_id_def
      receipt_check_digest_def dest: checked_id_Inr split: if_splits)

end
