(* ===== verification/Authorization.thy ===== *)
theory Authorization
  imports Receipts
begin

text \<open>
  The records of the WebAuthn authorization (\<open>root_actions/authorization.py\<close>): credentials,
  bootstrap sessions, ceremonies, verified assertions and approvals, with the checks of their
  constructors, the challenge bytes that bind a ceremony to its job, and the strict
  adapter around the WebAuthn library. The library (\<open>py_webauthn\<close>) is not in the repository:
  its base64 decoder and its two verification functions are the fields of \<open>webauthn_lib\<close>.
  The construction of \<open>WebAuthnPolicy\<close> (environment variables and \<open>urlsplit\<close>) and the
  option builders, which only call the library, are not modelled.
\<close>

definition APPROVAL_CHALLENGE_SECONDS :: int where "APPROVAL_CHALLENGE_SECONDS = 120"

definition REGISTRATION_CHALLENGE_SECONDS :: int where "REGISTRATION_CHALLENGE_SECONDS = 300"

definition BOOTSTRAP_SECONDS :: int where "BOOTSTRAP_SECONDS = 600"

definition MAX_CREDENTIAL_BYTES :: nat where "MAX_CREDENTIAL_BYTES = 4096"

definition MAX_BROWSER_CREDENTIAL_BYTES :: nat where "MAX_BROWSER_CREDENTIAL_BYTES = 256 * 1024"

datatype CredentialRole = ROLE_APPROVAL | ROLE_RECOVERY

datatype CeremonyPurpose = PURPOSE_APPROVAL | PURPOSE_REGISTRATION | PURPOSE_RECOVERY

datatype CeremonyState = CEREMONY_ISSUED | CEREMONY_CONSUMED | CEREMONY_EXPIRED

datatype BootstrapState = BOOTSTRAP_ISSUED | BOOTSTRAP_CONSUMED | BOOTSTRAP_EXPIRED

fun role_value :: "CredentialRole \<Rightarrow> string" where
  "role_value ROLE_APPROVAL = ''approval''"
| "role_value ROLE_RECOVERY = ''recovery''"

definition LABEL_ROLES :: "(string \<times> string) list" where
  "LABEL_ROLES = [(''office_windows_hello'', ''approval''), (''remote_phone_passkey'', ''approval''),
     (''recovery_fido2'', ''recovery'')]"

definition label_role_ok :: "string \<Rightarrow> CredentialRole \<Rightarrow> bool" where
  "label_role_ok label role \<longleftrightarrow> map_of LABEL_ROLES label = Some (role_value role)"

text \<open>
  \<open>(?=.{1,253}\Z)(?:[a-z0-9](?:[a-z0-9-]{0,61}[a-z0-9])?\.)*[a-z0-9](?:[a-z0-9-]{0,61}[a-z0-9])?\<close>:
  labels of one to 63 characters, separated by dots.
\<close>

fun split_dot :: "string \<Rightarrow> string list" where
  "split_dot [] = [[]]"
| "split_dot (c # s) =
     (if c = CHR ''.'' then [] # split_dot s
      else (case split_dot s of p # ps \<Rightarrow> (c # p) # ps | [] \<Rightarrow> [[c]]))"

definition rp_label :: "string \<Rightarrow> bool" where
  "rp_label s \<longleftrightarrow> s \<noteq> [] \<and> length s \<le> 63 \<and> id_head (hd s) \<and> id_head (last s)
     \<and> list_all (\<lambda>c. id_head c \<or> c = CHR ''-'') s"

definition RP_ID_RE :: "string \<Rightarrow> bool" where
  "RP_ID_RE s \<longleftrightarrow> 1 \<le> length s \<and> length s \<le> 253 \<and> list_all rp_label (split_dot s)"

section \<open>Field checks\<close>

definition auth_timestamp :: "string \<Rightarrow> string \<Rightarrow> unit result" where
  "auth_timestamp value field =
     bindE (raise_if (\<not> TIMESTAMP_RE value)
              (WebAuthnAuthorizationError (field @ '' must be an RFC3339 UTC second timestamp''))) (\<lambda>_.
     raise_if (strptime value = None) (WebAuthnAuthorizationError (field @ '' is not a real timestamp'')))"

definition auth_safe_id :: "string \<Rightarrow> string \<Rightarrow> unit result" where
  "auth_safe_id value field =
     raise_if (\<not> SAFE_ID_RE value) (WebAuthnAuthorizationError (field @ '' must be a safe identifier''))"

definition auth_digest :: "string \<Rightarrow> string \<Rightarrow> unit result" where
  "auth_digest value field =
     raise_if (\<not> DIGEST_RE value) (WebAuthnAuthorizationError (field @ '' must be a sha256 digest''))"

definition bounded_bytes :: "string \<Rightarrow> string \<Rightarrow> nat \<Rightarrow> unit result" where
  "bounded_bytes value field maxbytes =
     raise_if (value = [] \<or> maxbytes < length value) (WebAuthnAuthorizationError (field @ '' byte length is invalid''))"

definition or_empty :: "string option \<Rightarrow> string" where
  "or_empty v = (case v of None \<Rightarrow> [] | Some s \<Rightarrow> s)"

section \<open>Digests and challenges\<close>

definition fingerprint_of :: "string \<Rightarrow> string" where
  "fingerprint_of cid = sha256_tag (''agent-runtime-root-action-credential/v1'' @ [CHR 0x00] @ cid)"

definition credential_fingerprint :: "string \<Rightarrow> string result" where
  "credential_fingerprint cid =
     bindE (bounded_bytes cid ''credential_id'' MAX_CREDENTIAL_BYTES) (\<lambda>_. Inr (fingerprint_of cid))"

definition bootstrap_token_digest :: "string \<Rightarrow> string result" where
  "bootstrap_token_digest token =
     bindE (bounded_bytes token ''bootstrap_token'' 64) (\<lambda>_.
     Inr (sha256_tag (''agent-runtime-root-action-bootstrap/v1'' @ [CHR 0x00] @ token)))"

definition action_challenge_bytes :: "string \<Rightarrow> string \<Rightarrow> string \<Rightarrow> string result" where
  "action_challenge_bytes jdigest nonce expires_at =
     bindE (auth_digest jdigest ''job_digest'') (\<lambda>_.
     bindE (raise_if (length nonce \<noteq> 32) (WebAuthnAuthorizationError ''approval nonce must contain 32 bytes'')) (\<lambda>_.
     bindE (auth_timestamp expires_at ''expires_at'') (\<lambda>_.
     Inr (sha256_digest (''agent-runtime-root-action-approval/v1'' @ [CHR 0x00] @ jdigest @ [CHR 0x00] @ nonce
       @ [CHR 0x00] @ expires_at)))))"

definition registration_challenge_bytes :: "string \<Rightarrow> CredentialRole \<Rightarrow> string \<Rightarrow> string \<Rightarrow> string \<Rightarrow> string result" where
  "registration_challenge_bytes bid role label nonce expires_at =
     bindE (auth_safe_id bid ''bootstrap_id'') (\<lambda>_.
     bindE (raise_if (\<not> label_role_ok label role) (WebAuthnAuthorizationError ''registration role or label is invalid'')) (\<lambda>_.
     bindE (raise_if (length nonce \<noteq> 32) (WebAuthnAuthorizationError ''registration nonce must contain 32 bytes'')) (\<lambda>_.
     bindE (auth_timestamp expires_at ''expires_at'') (\<lambda>_.
     Inr (sha256_digest (''agent-runtime-root-action-registration/v1'' @ [CHR 0x00] @ bid @ [CHR 0x00]
       @ role_value role @ [CHR 0x00] @ label @ [CHR 0x00] @ nonce @ [CHR 0x00] @ expires_at))))))"

section \<open>Records\<close>

record RegisteredCredential =
  credential_id :: string
  public_key :: string
  sign_count :: int
  cred_role :: CredentialRole
  cred_label :: string
  aaguid :: string
  device_type :: string
  backed_up :: bool
  registered_at :: string
  revoked_at :: "string option"

definition fingerprint :: "RegisteredCredential \<Rightarrow> string" where
  "fingerprint c = fingerprint_of (credential_id c)"

definition credential_post_init :: "RegisteredCredential \<Rightarrow> unit result" where
  "credential_post_init c =
     bindE (bounded_bytes (credential_id c) ''credential_id'' MAX_CREDENTIAL_BYTES) (\<lambda>_.
     bindE (bounded_bytes (public_key c) ''public_key'' (16 * 1024)) (\<lambda>_.
     bindE (raise_if (sign_count c < 0) (WebAuthnAuthorizationError ''sign_count must be a non-negative integer'')) (\<lambda>_.
     bindE (raise_if (\<not> label_role_ok (cred_label c) (cred_role c))
              (WebAuthnAuthorizationError ''credential label does not match its role'')) (\<lambda>_.
     bindE (auth_safe_id (aaguid c) ''aaguid'') (\<lambda>_.
     bindE (raise_if (device_type c \<notin> {''single_device'', ''multi_device''})
              (WebAuthnAuthorizationError ''credential device type is invalid'')) (\<lambda>_.
     bindE (auth_timestamp (registered_at c) ''registered_at'') (\<lambda>_.
     bindE (case revoked_at c of
              None \<Rightarrow> Inr ()
            | Some r \<Rightarrow> bindE (auth_timestamp r ''revoked_at'') (\<lambda>_.
                raise_if (r < registered_at c) (WebAuthnAuthorizationError ''revocation precedes registration''))) (\<lambda>_.
     raise_if (cred_role c = ROLE_RECOVERY \<and> (device_type c \<noteq> ''single_device'' \<or> backed_up c))
       (WebAuthnAuthorizationError ''recovery credential must be device-bound and not backed up'')))))))))"

record BootstrapSession =
  bootstrap_id :: string
  token_digest :: string
  boot_issued_at :: string
  boot_expires_at :: string
  remaining_registrations :: int
  boot_state :: BootstrapState

definition bootstrap_post_init :: "BootstrapSession \<Rightarrow> unit result" where
  "bootstrap_post_init b =
     bindE (auth_safe_id (bootstrap_id b) ''bootstrap_id'') (\<lambda>_.
     bindE (auth_digest (token_digest b) ''token_digest'') (\<lambda>_.
     bindE (auth_timestamp (boot_issued_at b) ''issued_at'') (\<lambda>_.
     bindE (auth_timestamp (boot_expires_at b) ''expires_at'') (\<lambda>_.
     bindE (raise_if (boot_expires_at b \<le> boot_issued_at b) (WebAuthnAuthorizationError ''bootstrap must expire after issue'')) (\<lambda>_.
     bindE (raise_if (\<not> (0 \<le> remaining_registrations b \<and> remaining_registrations b \<le> 3))
              (WebAuthnAuthorizationError ''bootstrap remaining registration count is invalid'')) (\<lambda>_.
     bindE (raise_if (boot_state b = BOOTSTRAP_ISSUED \<and> remaining_registrations b < 1)
              (WebAuthnAuthorizationError ''issued bootstrap must have a remaining registration'')) (\<lambda>_.
     raise_if (boot_state b = BOOTSTRAP_CONSUMED \<and> remaining_registrations b \<noteq> 0)
       (WebAuthnAuthorizationError ''consumed bootstrap cannot have remaining registrations''))))))))"

record PendingCeremony =
  ceremony_id :: string
  purpose :: CeremonyPurpose
  challenge :: string
  binding_nonce :: string
  challenge_digest :: string
  cer_issued_at :: string
  cer_expires_at :: string
  cer_job_id :: "string option"
  cer_job_digest :: "string option"
  cer_bootstrap_id :: "string option"
  cer_role :: "CredentialRole option"
  cer_label :: "string option"
  cer_state :: CeremonyState
  consumed_at :: "string option"
  cer_fingerprint :: "string option"

text \<open>The consumption fields and the binding of the challenge to what it authorizes.\<close>

definition ceremony_consumption :: "PendingCeremony \<Rightarrow> unit result" where
  "ceremony_consumption c =
     (if cer_state c = CEREMONY_ISSUED then
        raise_if (consumed_at c \<noteq> None \<or> cer_fingerprint c \<noteq> None)
          (WebAuthnAuthorizationError ''issued ceremony has consumption metadata'')
      else
        bindE (auth_timestamp (or_empty (consumed_at c)) ''consumed_at'') (\<lambda>_.
        bindE (raise_if (or_empty (consumed_at c) \<noteq> [] \<and> or_empty (consumed_at c) < cer_issued_at c)
                 (WebAuthnAuthorizationError ''ceremony consumption precedes issue'')) (\<lambda>_.
        (case cer_fingerprint c of None \<Rightarrow> Inr () | Some f \<Rightarrow> auth_digest f ''credential_fingerprint''))))"

definition ceremony_binding :: "PendingCeremony \<Rightarrow> unit result" where
  "ceremony_binding c =
     (case purpose c of
        PURPOSE_APPROVAL \<Rightarrow>
          bindE (auth_safe_id (or_empty (cer_job_id c)) ''job_id'') (\<lambda>_.
          bindE (auth_digest (or_empty (cer_job_digest c)) ''job_digest'') (\<lambda>_.
          bindE (raise_if (cer_bootstrap_id c \<noteq> None \<or> cer_role c \<noteq> None \<or> cer_label c \<noteq> None)
                   (WebAuthnAuthorizationError ''approval ceremony has registration fields'')) (\<lambda>_.
          bindE (action_challenge_bytes (or_empty (cer_job_digest c)) (binding_nonce c) (cer_expires_at c)) (\<lambda>b.
          raise_if (challenge c \<noteq> b) (WebAuthnAuthorizationError ''approval challenge binding mismatch'')))))
      | PURPOSE_REGISTRATION \<Rightarrow>
          bindE (auth_safe_id (or_empty (cer_bootstrap_id c)) ''bootstrap_id'') (\<lambda>_.
          (case cer_role c of
             None \<Rightarrow> Inl (WebAuthnAuthorizationError ''registration role or label is invalid'')
           | Some role \<Rightarrow>
               bindE (raise_if (\<not> label_role_ok (or_empty (cer_label c)) role)
                        (WebAuthnAuthorizationError ''registration role or label is invalid'')) (\<lambda>_.
               bindE (raise_if (cer_job_id c \<noteq> None \<or> cer_job_digest c \<noteq> None)
                        (WebAuthnAuthorizationError ''registration ceremony has job fields'')) (\<lambda>_.
               bindE (registration_challenge_bytes (or_empty (cer_bootstrap_id c)) role (or_empty (cer_label c))
                        (binding_nonce c) (cer_expires_at c)) (\<lambda>b.
               raise_if (challenge c \<noteq> b) (WebAuthnAuthorizationError ''registration challenge binding mismatch''))))))
      | PURPOSE_RECOVERY \<Rightarrow>
          Inl (WebAuthnAuthorizationError
            ''recovery ceremony remains fail-closed until its replacement scope is implemented''))"

definition ceremony_post_init :: "PendingCeremony \<Rightarrow> unit result" where
  "ceremony_post_init c =
     bindE (auth_safe_id (ceremony_id c) ''ceremony_id'') (\<lambda>_.
     bindE (bounded_bytes (challenge c) ''challenge'' 64) (\<lambda>_.
     bindE (raise_if (length (binding_nonce c) \<noteq> 32)
              (WebAuthnAuthorizationError ''ceremony binding nonce must contain 32 bytes'')) (\<lambda>_.
     bindE (auth_digest (challenge_digest c) ''challenge_digest'') (\<lambda>_.
     bindE (raise_if (challenge_digest c \<noteq> sha256_tag (challenge c))
              (WebAuthnAuthorizationError ''challenge digest mismatch'')) (\<lambda>_.
     bindE (auth_timestamp (cer_issued_at c) ''issued_at'') (\<lambda>_.
     bindE (auth_timestamp (cer_expires_at c) ''expires_at'') (\<lambda>_.
     bindE (raise_if (cer_expires_at c \<le> cer_issued_at c) (WebAuthnAuthorizationError ''ceremony must expire after issue'')) (\<lambda>_.
     bindE (ceremony_consumption c) (\<lambda>_.
     ceremony_binding c)))))))))"

record VerifiedAssertion =
  va_credential_id :: string
  new_sign_count :: int
  va_user_verified :: bool
  va_device_type :: string
  va_backed_up :: bool
  va_origin :: string
  va_rp_id :: string

definition assertion_post_init :: "VerifiedAssertion \<Rightarrow> unit result" where
  "assertion_post_init a =
     bindE (bounded_bytes (va_credential_id a) ''credential_id'' MAX_CREDENTIAL_BYTES) (\<lambda>_.
     bindE (raise_if (new_sign_count a < 0) (WebAuthnAuthorizationError ''assertion sign count is invalid'')) (\<lambda>_.
     bindE (raise_if (\<not> va_user_verified a) (WebAuthnAuthorizationError ''assertion did not verify the user'')) (\<lambda>_.
     bindE (raise_if (va_device_type a \<notin> {''single_device'', ''multi_device''})
              (WebAuthnAuthorizationError ''assertion device type is invalid'')) (\<lambda>_.
     bindE (raise_if (512 < py_len (va_origin a)) (WebAuthnAuthorizationError ''assertion origin is invalid'')) (\<lambda>_.
     raise_if (\<not> RP_ID_RE (va_rp_id a)) (WebAuthnAuthorizationError ''assertion RP ID is invalid''))))))"

record ApprovalRecord =
  approval_id :: string
  ap_ceremony_id :: string
  ap_job_id :: string
  ap_job_digest :: string
  ap_fingerprint :: string
  verified_at :: string
  ap_origin :: string
  ap_rp_id :: string
  ap_user_verified :: bool
  ap_sign_count :: int

definition approval_post_init :: "ApprovalRecord \<Rightarrow> unit result" where
  "approval_post_init a =
     bindE (auth_safe_id (approval_id a) ''approval_id'') (\<lambda>_.
     bindE (auth_safe_id (ap_ceremony_id a) ''ceremony_id'') (\<lambda>_.
     bindE (auth_safe_id (ap_job_id a) ''job_id'') (\<lambda>_.
     bindE (auth_digest (ap_job_digest a) ''job_digest'') (\<lambda>_.
     bindE (auth_digest (ap_fingerprint a) ''credential_fingerprint'') (\<lambda>_.
     bindE (auth_timestamp (verified_at a) ''verified_at'') (\<lambda>_.
     bindE (raise_if (512 < py_len (ap_origin a)) (WebAuthnAuthorizationError ''approval origin is invalid'')) (\<lambda>_.
     bindE (raise_if (\<not> RP_ID_RE (ap_rp_id a)) (WebAuthnAuthorizationError ''approval RP ID is invalid'')) (\<lambda>_.
     bindE (raise_if (\<not> ap_user_verified a) (WebAuthnAuthorizationError ''approval must record user verification'')) (\<lambda>_.
     raise_if (ap_sign_count a < 0) (WebAuthnAuthorizationError ''approval sign count is invalid''))))))))))"

section \<open>The strict adapter\<close>

record WebAuthnPolicy =
  rp_id :: string
  rp_name :: string
  allowed_origins :: "string list"
  user_id :: string
  user_name :: string

text \<open>What the library returns for a verified registration and a verified assertion.\<close>

record VerifiedRegistration =
  vr_credential_id :: string
  vr_public_key :: string
  vr_sign_count :: int
  vr_aaguid :: string
  vr_device_type :: string
  vr_backed_up :: bool

record VerifiedAuthentication =
  vt_credential_id :: string
  vt_new_sign_count :: int
  vt_user_verified :: bool
  vt_device_type :: string
  vt_backed_up :: bool

text \<open>
  \<open>base64url_to_bytes\<close>, \<open>verify_registration_response\<close> (credential, challenge, RP id, origins) and
  \<open>verify_authentication_response\<close> (the same with the public key and the stored counter);
  \<open>None\<close> is a \<open>WebAuthnException\<close>.
\<close>

record webauthn_lib =
  base64url_to_bytes :: "json \<Rightarrow> string result"
  verify_registration_response :: "dict \<Rightarrow> string \<Rightarrow> string \<Rightarrow> string list \<Rightarrow> VerifiedRegistration option"
  verify_authentication_response ::
    "dict \<Rightarrow> string \<Rightarrow> string \<Rightarrow> string list \<Rightarrow> string \<Rightarrow> int \<Rightarrow> VerifiedAuthentication option"

definition canonical_browser_credential :: "pyenv \<Rightarrow> json \<Rightarrow> dict result" where
  "canonical_browser_credential env value =
     (case value of
        JObj _ \<Rightarrow>
          bindE (raise_from is_value_error (WebAuthnAuthorizationError ''browser credential is not JSON'')
                   (encode_utf8 (dumps '','' '':'' (sort_keys value)))) (\<lambda>encoded.
          bindE (raise_if (encoded = [] \<or> MAX_BROWSER_CREDENTIAL_BYTES < length encoded)
                   (WebAuthnAuthorizationError ''browser credential byte length is invalid'')) (\<lambda>_.
          bindE (decode_utf8 encoded) (\<lambda>text. bindE (json_loads env dict_hook text) jobj)))
      | _ \<Rightarrow> Inl (WebAuthnAuthorizationError ''browser credential must be an object''))"

text \<open>\<open>value[key]\<close> on any JSON value: not a dictionary raises \<open>TypeError\<close>.\<close>

definition subscript :: "json \<Rightarrow> string \<Rightarrow> json result" where
  "subscript v k = (case v of JObj kvs \<Rightarrow> jget kvs k | _ \<Rightarrow> Inl (TypeError ''not subscriptable by a string''))"

definition lookup_error :: "exn \<Rightarrow> bool" where
  "lookup_error e \<longleftrightarrow> is_value_error e \<or> (case e of KeyError _ \<Rightarrow> True | TypeError _ \<Rightarrow> True | _ \<Rightarrow> False)"

definition decode_error :: "exn \<Rightarrow> bool" where
  "decode_error e \<longleftrightarrow> is_value_error e \<or> (case e of TypeError _ \<Rightarrow> True | _ \<Rightarrow> False)"

definition client_data_json :: "pyenv \<Rightarrow> webauthn_lib \<Rightarrow> dict \<Rightarrow> dict result" where
  "client_data_json env lib browser =
     bindE (raise_from lookup_error (WebAuthnAuthorizationError ''clientDataJSON is malformed'')
              (bindE (jget browser ''response'') (\<lambda>response.
               bindE (subscript response ''clientDataJSON'') (\<lambda>encoded.
               bindE (base64url_to_bytes lib encoded) (\<lambda>raw.
               bindE (decode_utf8 raw) (json_loads env dict_hook)))))) (\<lambda>value.
     case value of
       JObj kvs \<Rightarrow>
         (if jget_opt kvs ''crossOrigin'' = JBool True \<or> ''topOrigin'' \<in> set (keys kvs)
          then Inl (WebAuthnAuthorizationError ''cross-origin WebAuthn ceremonies are forbidden'')
          else Inr kvs)
     | _ \<Rightarrow> Inl (WebAuthnAuthorizationError ''clientDataJSON must be an object''))"

definition browser_credential_id :: "webauthn_lib \<Rightarrow> dict \<Rightarrow> string result" where
  "browser_credential_id lib browser =
     bindE (raise_from lookup_error (WebAuthnAuthorizationError ''credential identity is malformed'')
              (bindE (bindE (jget browser ''rawId'') (base64url_to_bytes lib)) (\<lambda>raw_id.
               bindE (bindE (jget browser ''id'') (base64url_to_bytes lib)) (\<lambda>identifier. Inr (raw_id, identifier))))) (\<lambda>(raw_id, identifier).
     bindE (raise_if (raw_id \<noteq> identifier) (WebAuthnAuthorizationError ''credential id and rawId differ'')) (\<lambda>_.
     bindE (bounded_bytes raw_id ''credential_id'' MAX_CREDENTIAL_BYTES) (\<lambda>_. Inr raw_id)))"

definition verify_user_handle :: "webauthn_lib \<Rightarrow> dict \<Rightarrow> string \<Rightarrow> unit result" where
  "verify_user_handle lib browser expected =
     (case map_of browser ''response'' of
        None \<Rightarrow> Inr ()
      | Some (JObj kvs) \<Rightarrow>
          (if jget_opt kvs ''userHandle'' = JNull then Inr ()
           else bindE (raise_from decode_error
                         (WebAuthnAuthorizationError ''userHandle is malformed'')
                         (base64url_to_bytes lib (jget_opt kvs ''userHandle''))) (\<lambda>h.
                raise_if (h \<noteq> expected) (WebAuthnAuthorizationError ''userHandle does not identify the root-action owner'')))
      | Some _ \<Rightarrow> Inl (AttributeError ''get''))"

definition verify_registration ::
  "pyenv \<Rightarrow> webauthn_lib \<Rightarrow> WebAuthnPolicy \<Rightarrow> PendingCeremony \<Rightarrow> json \<Rightarrow> string \<Rightarrow> RegisteredCredential result" where
  "verify_registration env lib policy ceremony browser_credential at =
     bindE (raise_if (purpose ceremony \<noteq> PURPOSE_REGISTRATION)
              (WebAuthnAuthorizationError ''registration verification requires a registration ceremony'')) (\<lambda>_.
     bindE (canonical_browser_credential env browser_credential) (\<lambda>cred.
     bindE (client_data_json env lib cred) (\<lambda>_.
     let expected = (if cer_role ceremony = Some ROLE_RECOVERY then ''cross-platform'' else ''platform'') in
     bindE (raise_if (jget_opt cred ''authenticatorAttachment'' \<noteq> JStr expected)
              (WebAuthnAuthorizationError ''registration authenticator attachment does not match its fixed role'')) (\<lambda>_.
     case verify_registration_response lib cred (challenge ceremony) (rp_id policy) (allowed_origins policy) of
       None \<Rightarrow> Inl (WebAuthnAuthorizationError ''registration response was not verified'')
     | Some v \<Rightarrow>
         (case cer_role ceremony of None \<Rightarrow> Inl (AssertionError ''role is not None'') | Some role \<Rightarrow>
         (case cer_label ceremony of None \<Rightarrow> Inl (AssertionError ''label is not None'') | Some label \<Rightarrow>
              bindE (auth_timestamp at ''registered_at'') (\<lambda>_.
              let c = \<lparr>credential_id = vr_credential_id v, public_key = vr_public_key v, sign_count = vr_sign_count v,
                       cred_role = role, cred_label = label, aaguid = vr_aaguid v, device_type = vr_device_type v,
                       backed_up = vr_backed_up v, registered_at = at, revoked_at = None\<rparr> in
              bindE (credential_post_init c) (\<lambda>_. Inr c))))))))"

definition verify_assertion ::
  "pyenv \<Rightarrow> webauthn_lib \<Rightarrow> WebAuthnPolicy \<Rightarrow> PendingCeremony \<Rightarrow> json \<Rightarrow> RegisteredCredential \<Rightarrow> VerifiedAssertion result" where
  "verify_assertion env lib policy ceremony browser_credential cred =
     bindE (raise_if (purpose ceremony \<noteq> PURPOSE_APPROVAL \<and> purpose ceremony \<noteq> PURPOSE_RECOVERY)
              (WebAuthnAuthorizationError ''assertion verification requires an authentication ceremony'')) (\<lambda>_.
     bindE (raise_if (revoked_at cred \<noteq> None) (WebAuthnAuthorizationError ''credential is revoked'')) (\<lambda>_.
     bindE (canonical_browser_credential env browser_credential) (\<lambda>browser.
     bindE (client_data_json env lib browser) (\<lambda>client_data.
     bindE (verify_user_handle lib browser (user_id policy)) (\<lambda>_.
     bindE (browser_credential_id lib browser) (\<lambda>cid.
     bindE (raise_if (cid \<noteq> credential_id cred)
              (WebAuthnAuthorizationError ''assertion credential does not match the stored record'')) (\<lambda>_.
     case verify_authentication_response lib browser (challenge ceremony) (rp_id policy) (allowed_origins policy)
            (public_key cred) (sign_count cred) of
       None \<Rightarrow> Inl (WebAuthnAuthorizationError ''assertion response was not verified'')
     | Some v \<Rightarrow>
         bindE (jget client_data ''origin'') (\<lambda>origin.
         case origin of
           JStr og \<Rightarrow>
             (let a = \<lparr>va_credential_id = vt_credential_id v, new_sign_count = vt_new_sign_count v,
                       va_user_verified = vt_user_verified v, va_device_type = vt_device_type v,
                       va_backed_up = vt_backed_up v, va_origin = og, va_rp_id = rp_id policy\<rparr> in
              bindE (assertion_post_init a) (\<lambda>_. Inr a))
         | _ \<Rightarrow> Inl (WebAuthnAuthorizationError ''assertion origin is invalid'')))))))))"

definition public_credential_summary :: "RegisteredCredential \<Rightarrow> json" where
  "public_credential_summary c = JObj
     [(''fingerprint'', JStr (fingerprint c)), (''role'', JStr (role_value (cred_role c))),
      (''label'', JStr (cred_label c)), (''device_type'', JStr (device_type c)),
      (''backed_up'', JBool (backed_up c)), (''registered_at'', JStr (registered_at c)),
      (''revoked_at'', (case revoked_at c of None \<Rightarrow> JNull | Some r \<Rightarrow> JStr r))]"

section \<open>What the checks establish\<close>

lemma auth_check_Inr_iff [result_simps]:
  "auth_timestamp v f = Inr u \<longleftrightarrow> timestamp_ok v"
  "auth_safe_id v f = Inr u \<longleftrightarrow> SAFE_ID_RE v"
  "auth_digest v f = Inr u \<longleftrightarrow> DIGEST_RE v"
  "bounded_bytes v f n = Inr u \<longleftrightarrow> v \<noteq> [] \<and> length v \<le> n"
  by (auto simp: auth_timestamp_def auth_safe_id_def auth_digest_def bounded_bytes_def timestamp_ok_def result_simps)

definition ceremony_ok :: "PendingCeremony \<Rightarrow> bool" where
  "ceremony_ok c \<longleftrightarrow> ceremony_post_init c = Inr ()"

definition credential_ok :: "RegisteredCredential \<Rightarrow> bool" where
  "credential_ok c \<longleftrightarrow> credential_post_init c = Inr ()"

definition bootstrap_ok :: "BootstrapSession \<Rightarrow> bool" where
  "bootstrap_ok b \<longleftrightarrow> bootstrap_post_init b = Inr ()"

lemma fingerprint_digest: "DIGEST_RE (fingerprint c)"
  by (simp add: fingerprint_def fingerprint_of_def sha256_tag_digest)

lemma bootstrap_ok_iff:
  "bootstrap_ok b \<longleftrightarrow> SAFE_ID_RE (bootstrap_id b) \<and> DIGEST_RE (token_digest b) \<and> timestamp_ok (boot_issued_at b)
     \<and> timestamp_ok (boot_expires_at b) \<and> boot_issued_at b < boot_expires_at b
     \<and> 0 \<le> remaining_registrations b \<and> remaining_registrations b \<le> 3
     \<and> (boot_state b = BOOTSTRAP_ISSUED \<longrightarrow> 1 \<le> remaining_registrations b)
     \<and> (boot_state b = BOOTSTRAP_CONSUMED \<longrightarrow> remaining_registrations b = 0)"
  unfolding bootstrap_ok_def bootstrap_post_init_def by (auto simp: result_simps)

lemma ceremony_ok_common:
  assumes "ceremony_ok c"
  shows "SAFE_ID_RE (ceremony_id c) \<and> challenge_digest c = sha256_tag (challenge c) \<and> timestamp_ok (cer_issued_at c)
    \<and> timestamp_ok (cer_expires_at c) \<and> cer_issued_at c < cer_expires_at c \<and> ceremony_binding c = Inr ()
    \<and> ceremony_consumption c = Inr ()"
  using assms unfolding ceremony_ok_def ceremony_post_init_def by (auto simp: result_simps)

text \<open>An approval ceremony is bound to one job: its challenge is the hash of the job's digest.\<close>

lemma approval_ceremony_binding:
  assumes "ceremony_ok c" and "purpose c = PURPOSE_APPROVAL"
  shows "\<exists>jid jd. cer_job_id c = Some jid \<and> cer_job_digest c = Some jd \<and> SAFE_ID_RE jid \<and> DIGEST_RE jd
    \<and> action_challenge_bytes jd (binding_nonce c) (cer_expires_at c) = Inr (challenge c)
    \<and> cer_bootstrap_id c = None \<and> cer_role c = None \<and> cer_label c = None"
  using ceremony_ok_common [OF assms(1)] assms(2)
  by (auto simp: ceremony_binding_def result_simps or_empty_def split: option.splits)

text \<open>Recovery ceremonies cannot be constructed.\<close>

lemma no_recovery_ceremony: "ceremony_ok c \<Longrightarrow> purpose c \<noteq> PURPOSE_RECOVERY"
  using ceremony_ok_common [of c] by (auto simp: ceremony_binding_def)

text \<open>The adapter accepts an assertion only from the stored credential, with the user verified.\<close>

lemma verify_assertion_Inr:
  assumes "verify_assertion env lib policy ceremony browser cred = Inr a"
  shows "revoked_at cred = None \<and> va_user_verified a \<and> va_rp_id a = rp_id policy \<and> assertion_post_init a = Inr ()
    \<and> (\<exists>b v. canonical_browser_credential env browser = Inr b \<and> browser_credential_id lib b = Inr (credential_id cred)
        \<and> verify_authentication_response lib b (challenge ceremony) (rp_id policy) (allowed_origins policy)
            (public_key cred) (sign_count cred) = Some v
        \<and> va_credential_id a = vt_credential_id v \<and> new_sign_count a = vt_new_sign_count v)"
  using assms unfolding verify_assertion_def Let_def
  by (auto simp: bindE_Inr_iff raise_if_Inr_iff case_option_Inr_iff case_json_Inr_iff assertion_post_init_def)

lemma verify_registration_Inr:
  assumes "verify_registration env lib policy ceremony browser at = Inr c"
  shows "purpose ceremony = PURPOSE_REGISTRATION \<and> credential_ok c \<and> cer_role ceremony = Some (cred_role c)
    \<and> cer_label ceremony = Some (cred_label c) \<and> registered_at c = at \<and> revoked_at c = None"
  using assms unfolding verify_registration_def credential_ok_def Let_def
  by (auto simp: bindE_Inr_iff raise_if_Inr_iff case_option_Inr_iff)

end
