(* ===== verification/Job_State.thy ===== *)
theory Job_State
  imports Contracts
begin

text \<open>
  The pure state machine of a root-action job (\<open>root_actions/state.py\<close>): the record, the
  transition events and \<open>apply_transition\<close> with every check in the order of the code.
  Python's \<open>isinstance\<close> tests of enum members, strings and integers are the types of the
  model. On top of the code's function stands the relation \<open>transitions\<close> (a sequence of
  accepted events), with the invariants of every record it reaches.
\<close>

datatype JobState = PENDING | RUNNING | TERMINAL | UNKNOWN

datatype TransitionKind = CLAIM_EXECUTION | CLOSE_PENDING | COMPLETE_EXECUTION | MARK_UNKNOWN | RECONCILE_UNKNOWN

datatype TerminalOutcome = SUCCEEDED | FAILED | REJECTED | EXPIRED | CANCELED | PRESTART_FAILED

text \<open>The string values of the enumerations.\<close>

fun state_value :: "JobState \<Rightarrow> string" where
  "state_value PENDING = ''pending''"
| "state_value RUNNING = ''running''"
| "state_value TERMINAL = ''terminal''"
| "state_value UNKNOWN = ''unknown''"

fun kind_value :: "TransitionKind \<Rightarrow> string" where
  "kind_value CLAIM_EXECUTION = ''claim_execution''"
| "kind_value CLOSE_PENDING = ''close_pending''"
| "kind_value COMPLETE_EXECUTION = ''complete_execution''"
| "kind_value MARK_UNKNOWN = ''mark_unknown''"
| "kind_value RECONCILE_UNKNOWN = ''reconcile_unknown''"

fun outcome_value :: "TerminalOutcome \<Rightarrow> string" where
  "outcome_value SUCCEEDED = ''succeeded''"
| "outcome_value FAILED = ''failed''"
| "outcome_value REJECTED = ''rejected''"
| "outcome_value EXPIRED = ''expired''"
| "outcome_value CANCELED = ''canceled''"
| "outcome_value PRESTART_FAILED = ''prestart_failed''"

record JobRecord =
  rec_job_id :: string
  rec_job_digest :: string
  state :: JobState
  revision :: int
  execution_count :: int
  terminal_outcome :: "TerminalOutcome option"
  rec_reason :: "string option"
  last_event_id :: string
  last_changed_at :: string

record TransitionEvent =
  event_id :: string
  ev_job_id :: string
  ev_job_digest :: string
  expected_revision :: int
  ev_kind :: TransitionKind
  occurred_at :: string
  ev_outcome :: "TerminalOutcome option"
  ev_reason :: "string option"

section \<open>Validation\<close>

definition validate_event_fields :: "string \<Rightarrow> string \<Rightarrow> unit result" where
  "validate_event_fields eid at =
     bindE (raise_if (\<not> SAFE_ID_RE eid) (StateTransitionError ''event_id must be a safe identifier'')) (\<lambda>_.
     bindE (raise_if (\<not> TIMESTAMP_RE at)
              (StateTransitionError ''occurred_at must be an RFC3339 UTC second timestamp'')) (\<lambda>_.
     raise_if (strptime at = None)
       (StateTransitionError ''occurred_at must be a real RFC3339 UTC second timestamp'')))"

definition require_reason :: "TransitionEvent \<Rightarrow> string result" where
  "require_reason ev =
     (case ev_reason ev of
        Some reason \<Rightarrow>
          (if SAFE_ID_RE reason then Inr reason else Inl (StateTransitionError ''transition requires a safe reason_code''))
      | None \<Rightarrow> Inl (StateTransitionError ''transition requires a safe reason_code''))"

text \<open>The test of the fields that depend on the state.\<close>

definition state_valid :: "JobRecord \<Rightarrow> bool" where
  "state_valid r =
     (case state r of
        PENDING \<Rightarrow> execution_count r = 0 \<and> terminal_outcome r = None \<and> rec_reason r = None
      | RUNNING \<Rightarrow> execution_count r = 1 \<and> terminal_outcome r = None \<and> rec_reason r = None
      | UNKNOWN \<Rightarrow> execution_count r = 1 \<and> terminal_outcome r = None \<and> rec_reason r \<noteq> None
      | TERMINAL \<Rightarrow>
          terminal_outcome r \<noteq> None \<and> rec_reason r \<noteq> None \<and>
          execution_count r = (if terminal_outcome r \<in> {Some SUCCEEDED, Some FAILED} then 1 else 0))"

definition validate_record :: "JobRecord \<Rightarrow> unit result" where
  "validate_record r =
     bindE (raise_if (\<not> SAFE_ID_RE (rec_job_id r) \<or> \<not> DIGEST_RE (rec_job_digest r))
              (StateTransitionError ''job record identity invariant failed'')) (\<lambda>_.
     bindE (raise_if (revision r < 0 \<or> \<not> (execution_count r = 0 \<or> execution_count r = 1))
              (StateTransitionError ''job record counter invariant failed'')) (\<lambda>_.
     bindE (validate_event_fields (last_event_id r) (last_changed_at r)) (\<lambda>_.
     bindE (raise_if (\<not> state_valid r) (StateTransitionError ''job record state invariant failed'')) (\<lambda>_.
     raise_if (case rec_reason r of None \<Rightarrow> False | Some reason \<Rightarrow> \<not> SAFE_ID_RE reason)
       (StateTransitionError ''job record reason_code is invalid'')))))"

section \<open>Transitions\<close>

definition initial_record :: "SealedJob \<Rightarrow> string \<Rightarrow> string \<Rightarrow> JobRecord result" where
  "initial_record job eid at =
     bindE (validate_event_fields eid at) (\<lambda>_.
       let r = \<lparr>rec_job_id = job_id job, rec_job_digest = job_digest job, state = PENDING, revision = 0,
                execution_count = 0, terminal_outcome = None, rec_reason = None,
                last_event_id = eid, last_changed_at = at\<rparr>
       in bindE (validate_record r) (\<lambda>_. Inr r))"

definition next_record ::
  "JobRecord \<Rightarrow> TransitionEvent \<Rightarrow> JobState \<Rightarrow> int \<Rightarrow> TerminalOutcome option \<Rightarrow> string option \<Rightarrow> JobRecord result" where
  "next_record r ev st count outcome reason =
     bindE (raise_if (\<not> (count = 0 \<or> count = 1)) (AssertionError ''execution_count must remain one-shot'')) (\<lambda>_.
       let updated = r\<lparr>state := st, revision := revision r + 1, execution_count := count,
                       terminal_outcome := outcome, rec_reason := reason,
                       last_event_id := event_id ev, last_changed_at := occurred_at ev\<rparr>
       in bindE (validate_record updated) (\<lambda>_. Inr updated))"

definition apply_kind :: "JobRecord \<Rightarrow> TransitionEvent \<Rightarrow> JobRecord result" where
  "apply_kind r ev =
     (case ev_kind ev of
        CLAIM_EXECUTION \<Rightarrow>
          (if state r \<noteq> PENDING \<or> execution_count r \<noteq> 0
           then Inl (ReplayBlocked ''execution has already been claimed or the job is closed'')
           else if ev_outcome ev \<noteq> None \<or> ev_reason ev \<noteq> None
           then Inl (StateTransitionError ''execution claim cannot carry an outcome or reason'')
           else next_record r ev RUNNING 1 None None)
      | CLOSE_PENDING \<Rightarrow>
          (if state r \<noteq> PENDING then Inl (StateTransitionError ''only a pending job can close without execution'')
           else if ev_outcome ev \<notin> {Some REJECTED, Some EXPIRED, Some CANCELED, Some PRESTART_FAILED}
           then Inl (StateTransitionError ''pending close has an invalid terminal outcome'')
           else bindE (require_reason ev) (\<lambda>reason. next_record r ev TERMINAL 0 (ev_outcome ev) (Some reason)))
      | COMPLETE_EXECUTION \<Rightarrow>
          (if state r \<noteq> RUNNING \<or> execution_count r \<noteq> 1
           then Inl (StateTransitionError ''only a running claimed job can complete'')
           else if ev_outcome ev \<notin> {Some SUCCEEDED, Some FAILED}
           then Inl (StateTransitionError ''execution completion has an invalid outcome'')
           else bindE (require_reason ev) (\<lambda>reason. next_record r ev TERMINAL 1 (ev_outcome ev) (Some reason)))
      | MARK_UNKNOWN \<Rightarrow>
          (if state r \<noteq> RUNNING \<or> execution_count r \<noteq> 1
           then Inl (StateTransitionError ''only a running claimed job can become unknown'')
           else if ev_outcome ev \<noteq> None
           then Inl (StateTransitionError ''unknown outcome cannot claim a terminal result'')
           else bindE (require_reason ev) (\<lambda>reason. next_record r ev UNKNOWN 1 None (Some reason)))
      | RECONCILE_UNKNOWN \<Rightarrow>
          (if state r \<noteq> UNKNOWN \<or> execution_count r \<noteq> 1
           then Inl (StateTransitionError ''only an unknown claimed job can be reconciled'')
           else if ev_outcome ev \<notin> {Some SUCCEEDED, Some FAILED}
           then Inl (StateTransitionError ''unknown reconciliation has an invalid outcome'')
           else bindE (require_reason ev) (\<lambda>reason. next_record r ev TERMINAL 1 (ev_outcome ev) (Some reason))))"

definition apply_transition :: "JobRecord \<Rightarrow> TransitionEvent \<Rightarrow> JobRecord result" where
  "apply_transition r ev =
     bindE (validate_record r) (\<lambda>_.
     bindE (validate_event_fields (event_id ev) (occurred_at ev)) (\<lambda>_.
     bindE (raise_if (expected_revision ev < 0)
              (StateTransitionError ''expected_revision must be a non-negative integer'')) (\<lambda>_.
     bindE (raise_if (ev_job_id ev \<noteq> rec_job_id r \<or> ev_job_digest ev \<noteq> rec_job_digest r)
              (StateTransitionError ''transition job identity mismatch'')) (\<lambda>_.
     bindE (raise_if (expected_revision ev \<noteq> revision r) (StaleRevision (expected_revision ev) (revision r))) (\<lambda>_.
     bindE (raise_if (occurred_at ev < last_changed_at r)
              (StateTransitionError ''transition timestamp precedes the current record'')) (\<lambda>_.
     bindE (raise_if (event_id ev = last_event_id r) (ReplayBlocked ''event replay is blocked'')) (\<lambda>_.
     apply_kind r ev)))))))"

section \<open>The record invariant\<close>

definition record_ok :: "JobRecord \<Rightarrow> bool" where
  "record_ok r \<longleftrightarrow> validate_record r = Inr ()"

definition event_ok :: "string \<Rightarrow> string \<Rightarrow> bool" where
  "event_ok eid at \<longleftrightarrow> SAFE_ID_RE eid \<and> timestamp_ok at"

text \<open>The shape a transition kind gives the record.\<close>

definition kind_result :: "TransitionKind \<Rightarrow> JobState \<times> int" where
  "kind_result k = (case k of CLAIM_EXECUTION \<Rightarrow> (RUNNING, 1) | CLOSE_PENDING \<Rightarrow> (TERMINAL, 0)
     | COMPLETE_EXECUTION \<Rightarrow> (TERMINAL, 1) | MARK_UNKNOWN \<Rightarrow> (UNKNOWN, 1) | RECONCILE_UNKNOWN \<Rightarrow> (TERMINAL, 1))"

definition kind_source :: "TransitionKind \<Rightarrow> JobState" where
  "kind_source k = (case k of CLAIM_EXECUTION \<Rightarrow> PENDING | CLOSE_PENDING \<Rightarrow> PENDING
     | COMPLETE_EXECUTION \<Rightarrow> RUNNING | MARK_UNKNOWN \<Rightarrow> RUNNING | RECONCILE_UNKNOWN \<Rightarrow> UNKNOWN)"

definition kind_outcomes :: "TransitionKind \<Rightarrow> TerminalOutcome option list" where
  "kind_outcomes k = (case k of CLAIM_EXECUTION \<Rightarrow> [None]
     | CLOSE_PENDING \<Rightarrow> [Some REJECTED, Some EXPIRED, Some CANCELED, Some PRESTART_FAILED]
     | COMPLETE_EXECUTION \<Rightarrow> [Some SUCCEEDED, Some FAILED] | MARK_UNKNOWN \<Rightarrow> [None]
     | RECONCILE_UNKNOWN \<Rightarrow> [Some SUCCEEDED, Some FAILED])"

text \<open>The abstract machine: when a valid record accepts an event, and what it becomes.\<close>

definition accepts :: "JobRecord \<Rightarrow> TransitionEvent \<Rightarrow> bool" where
  "accepts r ev \<longleftrightarrow> event_ok (event_id ev) (occurred_at ev)
     \<and> ev_job_id ev = rec_job_id r \<and> ev_job_digest ev = rec_job_digest r
     \<and> expected_revision ev = revision r \<and> last_changed_at r \<le> occurred_at ev
     \<and> event_id ev \<noteq> last_event_id r \<and> state r = kind_source (ev_kind ev)
     \<and> ev_outcome ev \<in> set (kind_outcomes (ev_kind ev))
     \<and> (if ev_kind ev = CLAIM_EXECUTION then ev_reason ev = None
        else (\<exists>s. ev_reason ev = Some s \<and> SAFE_ID_RE s))"

definition advance :: "JobRecord \<Rightarrow> TransitionEvent \<Rightarrow> JobRecord" where
  "advance r ev = r\<lparr>state := fst (kind_result (ev_kind ev)), revision := revision r + 1,
     execution_count := snd (kind_result (ev_kind ev)), terminal_outcome := ev_outcome ev,
     rec_reason := ev_reason ev, last_event_id := event_id ev, last_changed_at := occurred_at ev\<rparr>"

lemmas kind_defs = kind_result_def kind_source_def kind_outcomes_def

lemma validate_event_fields_Inr_iff [result_simps]:
  "validate_event_fields eid at = Inr u \<longleftrightarrow> event_ok eid at"
  by (auto simp: validate_event_fields_def event_ok_def timestamp_ok_def result_simps)

lemma record_ok_iff:
  "record_ok r \<longleftrightarrow> SAFE_ID_RE (rec_job_id r) \<and> DIGEST_RE (rec_job_digest r) \<and> 0 \<le> revision r
     \<and> event_ok (last_event_id r) (last_changed_at r) \<and> state_valid r
     \<and> (\<forall>s. rec_reason r = Some s \<longrightarrow> SAFE_ID_RE s)"
  by (auto simp: record_ok_def validate_record_def result_simps state_valid_def
      split: JobState.splits option.splits if_splits)

lemma validate_record_Inr_iff [result_simps]: "validate_record r = Inr u \<longleftrightarrow> record_ok r"
  by (simp add: record_ok_def)

lemma require_reason_Inr_iff [result_simps]:
  "require_reason ev = Inr s \<longleftrightarrow> ev_reason ev = Some s \<and> SAFE_ID_RE s"
  by (auto simp: require_reason_def split: option.splits)

lemma next_record_Inr_iff [result_simps]:
  "next_record r ev st n out reason = Inr r' \<longleftrightarrow>
     r' = r\<lparr>state := st, revision := revision r + 1, execution_count := n, terminal_outcome := out,
        rec_reason := reason, last_event_id := event_id ev, last_changed_at := occurred_at ev\<rparr> \<and> record_ok r'"
proof -
  define u where "u = r\<lparr>state := st, revision := revision r + 1, execution_count := n, terminal_outcome := out,
    rec_reason := reason, last_event_id := event_id ev, last_changed_at := occurred_at ev\<rparr>"
  have "n = 0 \<or> n = 1" if "record_ok u"
  proof -
    have "state_valid u" "execution_count u = n" using that by (simp_all add: record_ok_iff) (simp add: u_def)
    then show ?thesis by (auto simp: state_valid_def split: JobState.splits if_splits)
  qed
  then show ?thesis
    unfolding next_record_def u_def [symmetric] Let_def
    by (auto simp: bindE_Inr_iff raise_if_Inr_iff validate_record_Inr_iff)
qed

lemma advance_simps [simp]:
  "rec_job_id (advance r ev) = rec_job_id r"
  "rec_job_digest (advance r ev) = rec_job_digest r"
  "state (advance r ev) = fst (kind_result (ev_kind ev))"
  "revision (advance r ev) = revision r + 1"
  "execution_count (advance r ev) = snd (kind_result (ev_kind ev))"
  "terminal_outcome (advance r ev) = ev_outcome ev"
  "rec_reason (advance r ev) = ev_reason ev"
  "last_event_id (advance r ev) = event_id ev"
  "last_changed_at (advance r ev) = occurred_at ev"
  by (simp_all add: advance_def)

lemma advance_ok:
  assumes "record_ok r" and "accepts r ev"
  shows "record_ok (advance r ev)"
  using assms by (cases "ev_kind ev")
    (auto simp: record_ok_iff accepts_def advance_def kind_defs state_valid_def)

text \<open>The code implements the abstract machine, on success and on failure.\<close>

lemma apply_transition_Inr_iff [result_simps]:
  "apply_transition r ev = Inr r' \<longleftrightarrow> record_ok r \<and> accepts r ev \<and> r' = advance r ev"
proof -
  have g: "apply_transition r ev = Inr r' \<longleftrightarrow> record_ok r \<and> event_ok (event_id ev) (occurred_at ev)
      \<and> ev_job_id ev = rec_job_id r \<and> ev_job_digest ev = rec_job_digest r \<and> expected_revision ev = revision r
      \<and> last_changed_at r \<le> occurred_at ev \<and> event_id ev \<noteq> last_event_id r \<and> apply_kind r ev = Inr r'"
    unfolding apply_transition_def by (auto simp: result_simps record_ok_iff)
  have k: "apply_kind r ev = Inr r' \<longleftrightarrow> accepts r ev \<and> r' = advance r ev"
    if "record_ok r" "event_ok (event_id ev) (occurred_at ev)" "ev_job_id ev = rec_job_id r"
      "ev_job_digest ev = rec_job_digest r" "expected_revision ev = revision r"
      "last_changed_at r \<le> occurred_at ev" "event_id ev \<noteq> last_event_id r"
  proof -
    have "state_valid r" using that(1) by (simp add: record_ok_iff)
    then have count: "state r = PENDING \<Longrightarrow> execution_count r = 0" "state r = RUNNING \<Longrightarrow> execution_count r = 1"
      "state r = UNKNOWN \<Longrightarrow> execution_count r = 1"
      by (simp_all add: state_valid_def)
    have "apply_kind r ev = Inr r' \<Longrightarrow> accepts r ev \<and> r' = advance r ev"
      using that by (cases "ev_kind ev")
        (auto simp: apply_kind_def accepts_def advance_def kind_defs bindE_Inr_iff next_record_Inr_iff
          require_reason_Inr_iff split: if_splits)
    moreover have "apply_kind r ev = Inr (advance r ev)" if a: "accepts r ev"
    proof -
      have ok: "record_ok (advance r ev)" using advance_ok a \<open>record_ok r\<close> by blast
      show ?thesis
        using a ok count by (cases "ev_kind ev")
          (auto simp: apply_kind_def accepts_def advance_def kind_defs bindE_Inr_iff next_record_Inr_iff
            require_reason_Inr_iff)
    qed
    ultimately show ?thesis by auto
  qed
  show ?thesis using g k by (auto simp: accepts_def)
qed

section \<open>Histories\<close>

text \<open>A sequence of events applied one after the other, as the stores and the history projection do.\<close>

fun replay :: "JobRecord \<Rightarrow> TransitionEvent list \<Rightarrow> JobRecord result" where
  "replay r [] = Inr r"
| "replay r (ev # evs) = bindE (apply_transition r ev) (\<lambda>r'. replay r' evs)"

inductive transitions :: "JobRecord \<Rightarrow> TransitionEvent list \<Rightarrow> JobRecord \<Rightarrow> bool" where
  start: "record_ok r \<Longrightarrow> transitions r [] r"
| step: "transitions r evs r1 \<Longrightarrow> apply_transition r1 ev = Inr r2 \<Longrightarrow> transitions r (evs @ [ev]) r2"

inductive_cases transitions_NilE: "transitions r [] r'"

lemma apply_transition_ok: "apply_transition r ev = Inr r' \<Longrightarrow> record_ok r \<and> record_ok r'"
  by (auto simp: result_simps advance_ok)

lemma replay_append: "replay r (xs @ ys) = bindE (replay r xs) (\<lambda>r'. replay r' ys)"
proof (induction xs arbitrary: r)
  case (Cons x xs)
  then show ?case by (cases "apply_transition r x") simp_all
qed simp

lemma transitions_replay: "record_ok r \<Longrightarrow> transitions r evs r' \<longleftrightarrow> replay r evs = Inr r'"
proof
  show "transitions r evs r' \<Longrightarrow> replay r evs = Inr r'"
    by (induction rule: transitions.induct) (simp_all add: replay_append)
  show "record_ok r \<Longrightarrow> replay r evs = Inr r' \<Longrightarrow> transitions r evs r'"
  proof (induction evs arbitrary: r' rule: rev_induct)
    case (snoc ev evs)
    then obtain r1 where r1: "replay r evs = Inr r1" "apply_transition r1 ev = Inr r'"
      by (auto simp: replay_append bindE_Inr_iff)
    with snoc.IH [OF snoc.prems(1) r1(1)] show ?case by (blast intro: transitions.step)
  qed (auto intro: transitions.start)
qed

text \<open>What a history keeps: the identity, the revision count, the order of the timestamps.\<close>

lemma transitions_invariant:
  assumes "transitions r evs r'"
  shows "record_ok r' \<and> rec_job_id r' = rec_job_id r \<and> rec_job_digest r' = rec_job_digest r
    \<and> revision r' = revision r + int (length evs) \<and> last_changed_at r \<le> last_changed_at r'
    \<and> (evs \<noteq> [] \<longrightarrow> last_event_id r' = event_id (last evs) \<and> last_changed_at r' = occurred_at (last evs))"
  using assms
proof (induction rule: transitions.induct)
  case (step r evs r1 ev r2)
  then have "r2 = advance r1 ev" "accepts r1 ev" "record_ok r1" by (auto simp: result_simps)
  with step show ?case by (auto simp: accepts_def advance_ok intro: order_trans)
qed simp

text \<open>The kinds of the events applied since the record was created.\<close>

definition history_shape :: "JobRecord \<Rightarrow> TransitionKind list \<Rightarrow> bool" where
  "history_shape r ks =
     (case state r of
        PENDING \<Rightarrow> ks = []
      | RUNNING \<Rightarrow> ks = [CLAIM_EXECUTION]
      | UNKNOWN \<Rightarrow> ks = [CLAIM_EXECUTION, MARK_UNKNOWN]
      | TERMINAL \<Rightarrow> ks = [CLOSE_PENDING] \<or> ks = [CLAIM_EXECUTION, COMPLETE_EXECUTION]
          \<or> ks = [CLAIM_EXECUTION, MARK_UNKNOWN, RECONCILE_UNKNOWN])"

lemma transitions_shape:
  assumes "transitions r evs r'" and "state r = PENDING"
  shows "history_shape r' (map ev_kind evs)"
  using assms
proof (induction rule: transitions.induct)
  case (step r evs r1 ev r2)
  then have "r2 = advance r1 ev" "accepts r1 ev" by (auto simp: result_simps)
  with step show ?case
    by (cases "ev_kind ev") (auto simp: history_shape_def accepts_def kind_defs split: JobState.splits)
qed (simp add: history_shape_def)

lemma terminal_absorbing: "state r = TERMINAL \<Longrightarrow> \<exists>e. apply_transition r ev = Inl e"
proof -
  assume "state r = TERMINAL"
  then have "\<not> accepts r ev" by (cases "ev_kind ev") (auto simp: accepts_def kind_defs)
  then have "apply_transition r ev \<noteq> Inr r'" for r' by (simp add: apply_transition_Inr_iff)
  then show ?thesis by (cases "apply_transition r ev") auto
qed

lemma transitions_claims:
  assumes "transitions r evs r'" and "state r = PENDING"
  shows "execution_count r' = int (count_list (map ev_kind evs) CLAIM_EXECUTION)"
  using assms
proof (induction rule: transitions.induct)
  case (start r)
  then show ?case by (simp add: record_ok_iff state_valid_def)
next
  case (step r evs r1 ev r2)
  then have "r2 = advance r1 ev" "accepts r1 ev" "history_shape r1 (map ev_kind evs)"
    using transitions_shape by (auto simp: result_simps)
  with step show ?case
    by (cases "ev_kind ev") (auto simp: history_shape_def accepts_def kind_defs)
qed

section \<open>A concrete history\<close>

definition sample_record :: JobRecord where
  "sample_record = \<lparr>rec_job_id = ''job-1'', rec_job_digest = job_digest sample_job, state = PENDING, revision = 0,
     execution_count = 0, terminal_outcome = None, rec_reason = None,
     last_event_id = ''ev-0'', last_changed_at = ''2026-07-01T00:00:00Z''\<rparr>"

definition sample_claim :: TransitionEvent where
  "sample_claim = \<lparr>event_id = ''ev-1'', ev_job_id = ''job-1'', ev_job_digest = job_digest sample_job,
     expected_revision = 0, ev_kind = CLAIM_EXECUTION, occurred_at = ''2026-07-01T00:00:01Z'',
     ev_outcome = None, ev_reason = None\<rparr>"

lemma sample_event_oks:
  "event_ok ''ev-0'' ''2026-07-01T00:00:00Z''" "event_ok ''ev-1'' ''2026-07-01T00:00:01Z''"
  by code_simp+

lemma sample_initial: "initial_record sample_job ''ev-0'' ''2026-07-01T00:00:00Z'' = Inr sample_record"
  using sample_event_oks job_ok_digest [OF sample_job_ok] sample_job_ok
  by (auto simp: initial_record_def result_simps Let_def sample_record_def record_ok_iff state_valid_def job_ok_def sample_job_def)

lemma sample_record_ok: "record_ok sample_record"
  using sample_initial by (auto simp: initial_record_def result_simps Let_def)

lemma sample_claimed: "apply_transition sample_record sample_claim = Inr (advance sample_record sample_claim)"
  using sample_record_ok sample_event_oks
  by (simp add: apply_transition_Inr_iff accepts_def sample_record_def sample_claim_def kind_defs)

lemma initial_record_Inr:
  assumes "initial_record job eid at = Inr r"
  shows "record_ok r \<and> state r = PENDING \<and> revision r = 0 \<and> rec_job_id r = job_id job
    \<and> rec_job_digest r = job_digest job \<and> last_event_id r = eid \<and> last_changed_at r = at"
  using assms by (auto simp: initial_record_def result_simps Let_def)

section \<open>Properties\<close>

text \<open>
  C25. \<open>apply_transition\<close> implements the abstract machine: it returns a record exactly when the
  given record is valid and accepts the event, and the record it returns is the advanced one.
\<close>

theorem apply_transition_refines:
  "apply_transition r ev = Inr r' \<longleftrightarrow> record_ok r \<and> accepts r ev \<and> r' = advance r ev"
  by (rule apply_transition_Inr_iff)

text \<open>
  A transition keeps the record invariant \<open>validate_record\<close> checks, the job identity and the
  order of time, and raises the revision by one.
\<close>

theorem apply_transition_invariant:
  assumes "apply_transition r ev = Inr r'"
  shows "validate_record r' = Inr () \<and> rec_job_id r' = rec_job_id r \<and> rec_job_digest r' = rec_job_digest r
    \<and> revision r' = revision r + 1 \<and> last_changed_at r \<le> last_changed_at r'"
  using assms apply_transition_ok [OF assms] by (auto simp: apply_transition_Inr_iff accepts_def record_ok_def)

theorem apply_transition_invariant_witness:
  "revision (advance sample_record sample_claim) = revision sample_record + 1"
  using apply_transition_invariant [OF sample_claimed] by simp

text \<open>
  C1. One-shot execution: whatever events are applied to a fresh record, at most one of them
  claims the execution, the record counts exactly the claims, and the kinds of the events form
  one of the six life cycles; so a job takes at most three transitions.
\<close>

theorem one_shot_execution:
  assumes "initial_record job eid at = Inr r" and "replay r evs = Inr r'"
  shows "count_list (map ev_kind evs) CLAIM_EXECUTION \<le> 1
    \<and> execution_count r' = int (count_list (map ev_kind evs) CLAIM_EXECUTION)
    \<and> history_shape r' (map ev_kind evs) \<and> length evs \<le> 3 \<and> revision r' = int (length evs)"
proof -
  from initial_record_Inr [OF assms(1)] have r: "record_ok r" "state r = PENDING" "revision r = 0" by auto
  then have t: "transitions r evs r'" using assms(2) by (simp add: transitions_replay)
  have sh: "history_shape r' (map ev_kind evs)" using transitions_shape [OF t r(2)] .
  then have "count_list (map ev_kind evs) CLAIM_EXECUTION \<le> 1 \<and> length (map ev_kind evs) \<le> 3"
    unfolding history_shape_def by (cases "state r'") auto
  with sh transitions_claims [OF t r(2)] transitions_invariant [OF t] r show ?thesis by simp
qed

theorem one_shot_execution_witness:
  "execution_count (advance sample_record sample_claim) = 1 \<and> history_shape (advance sample_record sample_claim) [CLAIM_EXECUTION]"
proof -
  have "replay sample_record [sample_claim] = Inr (advance sample_record sample_claim)" using sample_claimed by simp
  from one_shot_execution [OF sample_initial this] show ?thesis by (simp add: sample_claim_def)
qed

text \<open>
  A terminal record is final: every event is refused.
\<close>

theorem terminal_is_final:
  assumes "state r = TERMINAL"
  shows "\<exists>e. apply_transition r ev = Inl e"
  using assms by (rule terminal_absorbing)

theorem terminal_is_final_witness:
  "\<exists>e. apply_transition (sample_record\<lparr>state := TERMINAL\<rparr>) sample_claim = Inl e"
  by (rule terminal_is_final) simp

text \<open>
  A well-formed event for the job of a valid record that names another revision is refused
  with \<open>StaleRevision\<close>, and one that repeats the last event is refused as a replay.
\<close>

theorem stale_or_replayed_event:
  assumes "record_ok r" and "event_ok (event_id ev) (occurred_at ev)" and "0 \<le> expected_revision ev"
    and "ev_job_id ev = rec_job_id r" and "ev_job_digest ev = rec_job_digest r"
  shows "(expected_revision ev \<noteq> revision r \<longrightarrow>
      apply_transition r ev = Inl (StaleRevision (expected_revision ev) (revision r)))
    \<and> (expected_revision ev = revision r \<and> last_changed_at r \<le> occurred_at ev \<and> event_id ev = last_event_id r \<longrightarrow>
      apply_transition r ev = Inl (ReplayBlocked ''event replay is blocked''))"
proof -
  have "validate_record r = Inr ()" "validate_event_fields (event_id ev) (occurred_at ev) = Inr ()"
    using assms by (simp_all add: result_simps)
  with assms show ?thesis by (auto simp: apply_transition_def raise_if_def dest: leD)
qed

theorem stale_or_replayed_event_witness:
  "apply_transition sample_record (sample_claim\<lparr>expected_revision := 5\<rparr>) = Inl (StaleRevision 5 0)"
  using stale_or_replayed_event [of sample_record "sample_claim\<lparr>expected_revision := 5\<rparr>"] sample_record_ok sample_event_oks
  by (simp add: sample_record_def sample_claim_def)

end
