(* ===== verification/Policies.thy ===== *)
theory Policies
  imports Job_State
begin

text \<open>
  Admission and execution policies (\<open>root_actions/admission.py\<close>, \<open>root_actions/execution.py\<close>
  and the submission records of \<open>root_actions/storage.py\<close>): the technical-failure policy of a
  lineage, its summary, the decision on a submission, the availability of each
  operation and the registry of handlers. A handler is known by its operation, its
  version and its \<open>run\<close> function, which is code of another component and stays a parameter.
\<close>

section \<open>Lineage failure policy\<close>

definition TECHNICAL_FAILURE_REASON_CODES :: "string list" where
  "TECHNICAL_FAILURE_REASON_CODES = [''handler_contract_failed'', ''handler_failed'', ''precondition_mismatch'',
     ''receipt_publish_failed'', ''reconcile_failed'', ''worker_crashed'', ''worker_lost'']"

definition CIRCUIT_BREAKER_REASON_CODE :: string where
  "CIRCUIT_BREAKER_REASON_CODE = ''technical_failure_circuit_open''"

record LineageFailurePolicy =
  window_seconds :: int
  maximum_technical_failures :: int
  technical_reason_codes :: "string list"
  circuit_reason_code :: string

definition DEFAULT_FAILURE_POLICY :: LineageFailurePolicy where
  "DEFAULT_FAILURE_POLICY = \<lparr>window_seconds = 24 * 60 * 60, maximum_technical_failures = 2,
     technical_reason_codes = TECHNICAL_FAILURE_REASON_CODES, circuit_reason_code = CIRCUIT_BREAKER_REASON_CODE\<rparr>"

definition failure_policy_post_init :: "LineageFailurePolicy \<Rightarrow> unit result" where
  "failure_policy_post_init p =
     bindE (raise_if (window_seconds p < 1) (ValueError ''lineage failure window must be a positive integer'')) (\<lambda>_.
     bindE (raise_if (maximum_technical_failures p < 1) (ValueError ''lineage failure limit must be a positive integer'')) (\<lambda>_.
     raise_if (technical_reason_codes p = []) (ValueError ''technical reason allowlist must not be empty'')))"

record LineageSummary =
  sum_lineage_id :: string
  measured_at :: string
  sum_window_seconds :: int
  submission_count :: int
  terminal_counts :: "(string \<times> int) list"
  technical_failure_count :: int
  sum_source :: string

text \<open>The constructor checks the fields and sorts the counts by name.\<close>

definition lineage_summary_post_init :: "LineageSummary \<Rightarrow> LineageSummary result" where
  "lineage_summary_post_init s =
     bindE (parse_instant (measured_at s)) (\<lambda>_.
     bindE (raise_if (sum_source s \<noteq> ''root_owned_ledger'') (ValueError ''lineage summary source must be root_owned_ledger'')) (\<lambda>_.
     bindE (raise_if (list_ex (\<lambda>n. n < 0)
                       ([sum_window_seconds s, submission_count s, technical_failure_count s] @ map snd (terminal_counts s)))
              (ValueError ''lineage summary counter is invalid'')) (\<lambda>_.
     Inr (s\<lparr>terminal_counts := sort_key fst (terminal_counts s)\<rparr>))))"

definition lineage_summary_projection :: "LineageSummary \<Rightarrow> json" where
  "lineage_summary_projection s = JObj
     [(''lineage_id'', JStr (sum_lineage_id s)),
      (''measured_at'', JStr (measured_at s)),
      (''measurement_semantics'', JStr ''immutable_root_ledger_window_ending_at_measured_at''),
      (''snapshot_basis'', JStr ''state_last_changed_at''),
      (''window_seconds'', JInt (sum_window_seconds s)),
      (''source'', JStr (sum_source s)),
      (''submission_count'', JInt (submission_count s)),
      (''terminal_counts'', JObj (map (\<lambda>(k, n). (k, JInt n)) (terminal_counts s))),
      (''technical_failure_count'', JInt (technical_failure_count s)),
      (''approval_count'', JObj [(''availability'', JStr ''unavailable''), (''reason'', JStr ''approval_design_not_ratified'')])]"

record SubmissionAdmission =
  allowed :: bool
  adm_reason :: "string option"
  adm_summary :: LineageSummary

definition submission_admission_post_init :: "SubmissionAdmission \<Rightarrow> unit result" where
  "submission_admission_post_init a =
     raise_if (allowed a \<noteq> (adm_reason a = None)) (ValueError ''submission admission reason invariant failed'')"

section \<open>Submissions\<close>

record SubmissionMetadata =
  peer_uid :: int
  peer_gid :: int
  peer_pid :: int
  broker_received_at :: string

record SubmissionLimits =
  max_open_per_uid :: int
  max_open_per_lineage :: int
  max_jobs_per_uid_window :: int
  limit_window_seconds :: int

definition DEFAULT_LIMITS :: SubmissionLimits where
  "DEFAULT_LIMITS = \<lparr>max_open_per_uid = 8, max_open_per_lineage = 1, max_jobs_per_uid_window = 32,
     limit_window_seconds = 3600\<rparr>"

section \<open>Execution policies\<close>

datatype OperationAvailability = ENABLED | DISABLED_UNVERIFIED_AUTHORITY

record ExecutionPolicy =
  pol_operation_id :: string
  pol_operation_version :: int
  availability :: OperationAvailability
  pol_reason :: "string option"
  auto_dispatch :: bool

type_synonym policies = "(string \<times> ExecutionPolicy) list"

text \<open>\<open>not policy.reason_code\<close>: missing or empty.\<close>

definition check_policy :: "policies \<Rightarrow> ExecutionPolicy \<Rightarrow> unit result" where
  "check_policy by_id p =
     bindE (raise_if (pol_operation_id p \<in> set (map fst by_id)) (ValueError ''duplicate execution policy'')) (\<lambda>_.
     bindE (raise_if (pol_operation_id p \<notin> set (operation_ids DEFAULT_REGISTRY))
              (ValueError ''execution policy has no manifest contract'')) (\<lambda>_.
     bindE (registry_spec DEFAULT_REGISTRY (pol_operation_id p)) (\<lambda>spec.
     bindE (raise_if (pol_operation_version p \<noteq> spec_version spec)
              (ValueError ''execution policy version does not match manifest contract'')) (\<lambda>_.
     bindE (if availability p = ENABLED
            then raise_if (pol_reason p \<noteq> None) (ValueError ''enabled execution policy cannot have a denial reason'')
            else raise_if (pol_reason p = None \<or> pol_reason p = Some [])
                   (ValueError ''disabled execution policy requires a reason code'')) (\<lambda>_.
     raise_if (availability p \<noteq> ENABLED \<and> auto_dispatch p) (ValueError ''disabled operation cannot auto-dispatch''))))))"

fun policies_add :: "policies \<Rightarrow> ExecutionPolicy list \<Rightarrow> policies result" where
  "policies_add by_id [] = Inr by_id"
| "policies_add by_id (p # ps) =
     bindE (check_policy by_id p) (\<lambda>_. policies_add (by_id @ [(pol_operation_id p, p)]) ps)"

definition ExecutionPolicyRegistry :: "ExecutionPolicy list \<Rightarrow> policies result" where
  "ExecutionPolicyRegistry ps =
     bindE (policies_add [] ps) (\<lambda>by_id.
     bindE (raise_if (set (map fst by_id) \<noteq> set (operation_ids DEFAULT_REGISTRY))
              (ValueError ''execution policy must cover every manifest operation'')) (\<lambda>_. Inr by_id))"

definition enabled_operation_ids :: "policies \<Rightarrow> string list" where
  "enabled_operation_ids ps = sort (map fst (filter (\<lambda>kv. availability (snd kv) = ENABLED) ps))"

definition disabled_operation_ids :: "policies \<Rightarrow> string list" where
  "disabled_operation_ids ps = sort (map fst (filter (\<lambda>kv. availability (snd kv) \<noteq> ENABLED) ps))"

definition policy_of :: "policies \<Rightarrow> string \<Rightarrow> ExecutionPolicy result" where
  "policy_of ps oid = (case map_of ps oid of None \<Rightarrow> Inl (KeyError oid) | Some p \<Rightarrow> Inr p)"

definition disabled_policy :: "string \<Rightarrow> ExecutionPolicy" where
  "disabled_policy oid = \<lparr>pol_operation_id = oid, pol_operation_version = 1,
     availability = DISABLED_UNVERIFIED_AUTHORITY, pol_reason = Some ''disabled_unverified_authority'',
     auto_dispatch = False\<rparr>"

definition DEFAULT_POLICY_LIST :: "ExecutionPolicy list" where
  "DEFAULT_POLICY_LIST =
     [disabled_policy ''audit.verify'', disabled_policy ''projection.staging_selftest'',
      disabled_policy ''agent_loop.campaign_run'',
      \<lparr>pol_operation_id = ''nas.observe_groupware_runtime'', pol_operation_version = 1, availability = ENABLED,
       pol_reason = None, auto_dispatch = True\<rparr>]"

definition DEFAULT_EXECUTION_POLICIES :: policies where
  "DEFAULT_EXECUTION_POLICIES = map (\<lambda>p. (pol_operation_id p, p)) DEFAULT_POLICY_LIST"

section \<open>Handlers\<close>

record HandlerResult =
  res_raw_bytes :: string
  public_status :: string
  res_public_facts :: "(string \<times> string) list"
  res_outcome :: string
  res_reason :: string
  exit_code :: int

definition handler_result_post_init :: "HandlerResult \<Rightarrow> unit result" where
  "handler_result_post_init r =
     bindE (raise_if (res_raw_bytes r = []) (ValueError ''handler raw receipt must be non-empty bytes'')) (\<lambda>_.
     bindE (raise_if (res_outcome r \<notin> {''succeeded'', ''failed''}) (ValueError ''handler terminal outcome is invalid'')) (\<lambda>_.
     bindE (raise_if (res_reason r = []) (ValueError ''handler reason code is invalid'')) (\<lambda>_.
     raise_if (res_outcome r = ''succeeded'' \<and> exit_code r \<noteq> 0)
       (ValueError ''successful handler result requires exit code zero''))))"

record handler =
  h_operation_id :: string
  h_operation_version :: int
  h_run :: "SealedJob \<Rightarrow> HandlerResult result"

type_synonym handlers = "(string \<times> handler) list"

fun handlers_add :: "policies \<Rightarrow> handlers \<Rightarrow> handler list \<Rightarrow> handlers result" where
  "handlers_add ps by_id [] = Inr by_id"
| "handlers_add ps by_id (h # hs) =
     bindE (raise_if (h_operation_id h \<in> set (map fst by_id)) (ValueError ''duplicate operation handler'')) (\<lambda>_.
     bindE (policy_of ps (h_operation_id h)) (\<lambda>p.
     bindE (raise_if (availability p \<noteq> ENABLED)
              (ValueError ''disabled operation must not have an executable handler'')) (\<lambda>_.
     bindE (raise_if (h_operation_version h \<noteq> pol_operation_version p)
              (ValueError ''operation handler version does not match its policy'')) (\<lambda>_.
     handlers_add ps (by_id @ [(h_operation_id h, h)]) hs))))"

definition OperationHandlerRegistry :: "policies \<Rightarrow> handler list \<Rightarrow> handlers result" where
  "OperationHandlerRegistry ps hs =
     bindE (handlers_add ps [] hs) (\<lambda>by_id.
     bindE (raise_if (set (map fst by_id) \<noteq> set (enabled_operation_ids ps))
              (ValueError ''every enabled operation must have exactly one handler'')) (\<lambda>_. Inr by_id))"

definition handler_of :: "handlers \<Rightarrow> string \<Rightarrow> handler result" where
  "handler_of hs oid = (case map_of hs oid of None \<Rightarrow> Inl (KeyError oid) | Some h \<Rightarrow> Inr h)"

section \<open>What the registries guarantee\<close>

definition policies_ok :: "policies \<Rightarrow> bool" where
  "policies_ok ps \<longleftrightarrow> distinct (map fst ps) \<and>
     (\<forall>(k, p)\<in>set ps. k = pol_operation_id p \<and>
        (\<exists>spec. map_of DEFAULT_REGISTRY k = Some spec \<and> pol_operation_version p = spec_version spec) \<and>
        (if availability p = ENABLED then pol_reason p = None
         else \<not> auto_dispatch p \<and> (\<exists>r. pol_reason p = Some r \<and> r \<noteq> [])))"

lemma policies_add_ok: "policies_ok by_id \<Longrightarrow> policies_add by_id ps = Inr by_id' \<Longrightarrow> policies_ok by_id'"
proof (induction by_id ps rule: policies_add.induct)
  case (2 by_id p ps)
  then have c: "check_policy by_id p = Inr ()" and r: "policies_add (by_id @ [(pol_operation_id p, p)]) ps = Inr by_id'"
    by (auto simp: bindE_Inr_iff)
  from c have "policies_ok (by_id @ [(pol_operation_id p, p)])"
    using 2(2) by (auto simp: check_policy_def bindE_Inr_iff raise_if_Inr_iff policies_ok_def registry_spec_def
        split: option.splits if_splits)
  with 2(1) c r show ?case by blast
qed simp

lemma ExecutionPolicyRegistry_ok:
  assumes "ExecutionPolicyRegistry ps = Inr pols"
  shows "policies_ok pols"
proof -
  have "policies_ok []" by (simp add: policies_ok_def)
  moreover have "policies_add [] ps = Inr pols" using assms by (auto simp: ExecutionPolicyRegistry_def bindE_Inr_iff)
  ultimately show ?thesis by (rule policies_add_ok)
qed

definition handlers_ok :: "policies \<Rightarrow> handlers \<Rightarrow> bool" where
  "handlers_ok ps hs \<longleftrightarrow> distinct (map fst hs) \<and>
     (\<forall>(k, h)\<in>set hs. k = h_operation_id h \<and>
        (\<exists>p. map_of ps k = Some p \<and> availability p = ENABLED \<and> h_operation_version h = pol_operation_version p))"

lemma handlers_add_ok: "handlers_ok ps by_id \<Longrightarrow> handlers_add ps by_id hs = Inr by_id' \<Longrightarrow> handlers_ok ps by_id'"
proof (induction ps by_id hs rule: handlers_add.induct)
  case (2 ps by_id h hs)
  then have "handlers_ok ps (by_id @ [(h_operation_id h, h)])"
    by (auto simp: bindE_Inr_iff raise_if_Inr_iff handlers_ok_def policy_of_def split: option.splits)
  with 2 show ?case by (auto simp: bindE_Inr_iff)
qed simp

lemma OperationHandlerRegistry_ok:
  assumes "OperationHandlerRegistry ps hs = Inr by_id"
  shows "handlers_ok ps by_id \<and> set (map fst by_id) = set (enabled_operation_ids ps)"
  using assms handlers_add_ok [of ps "[]" hs]
  by (auto simp: OperationHandlerRegistry_def bindE_Inr_iff raise_if_Inr_iff handlers_ok_def)

lemma DEFAULT_EXECUTION_POLICIES_built:
  "ExecutionPolicyRegistry DEFAULT_POLICY_LIST = Inr DEFAULT_EXECUTION_POLICIES"
  by code_simp

section \<open>Properties\<close>

text \<open>
  A handler registry that was built has exactly the enabled operations, and each handler is
  filed under an operation whose policy is enabled at the handler's version.
\<close>

theorem handlers_only_for_enabled:
  assumes "OperationHandlerRegistry ps hs = Inr by_id"
  shows "handlers_ok ps by_id \<and> set (map fst by_id) = set (enabled_operation_ids ps)"
  using assms by (rule OperationHandlerRegistry_ok)

definition sample_result :: HandlerResult where
  "sample_result = \<lparr>res_raw_bytes = ''raw'', public_status = ''observed'', res_public_facts = [(''slot'', ''a'')],
     res_outcome = ''succeeded'', res_reason = ''handler_succeeded'', exit_code = 0\<rparr>"

definition sample_handler :: handler where
  "sample_handler = \<lparr>h_operation_id = ''nas.observe_groupware_runtime'', h_operation_version = 1,
     h_run = (\<lambda>job. Inr sample_result)\<rparr>"

lemma sample_handlers_built:
  "OperationHandlerRegistry DEFAULT_EXECUTION_POLICIES [sample_handler] = Inr [(''nas.observe_groupware_runtime'', sample_handler)]"
  by (simp add: OperationHandlerRegistry_def DEFAULT_EXECUTION_POLICIES_def DEFAULT_POLICY_LIST_def sample_handler_def
      disabled_policy_def policy_of_def enabled_operation_ids_def)

theorem handlers_only_for_enabled_witness:
  "handlers_ok DEFAULT_EXECUTION_POLICIES [(''nas.observe_groupware_runtime'', sample_handler)]"
  using handlers_only_for_enabled [OF sample_handlers_built] by blast

text \<open>
  The default policies are a valid registry: they cover every registered operation, only
  \<open>nas.observe_groupware_runtime\<close> is enabled, and no disabled operation dispatches by itself.
\<close>

theorem default_policies_valid:
  "ExecutionPolicyRegistry DEFAULT_POLICY_LIST = Inr DEFAULT_EXECUTION_POLICIES
   \<and> policies_ok DEFAULT_EXECUTION_POLICIES
   \<and> enabled_operation_ids DEFAULT_EXECUTION_POLICIES = [''nas.observe_groupware_runtime'']"
proof (intro conjI)
  show "policies_ok DEFAULT_EXECUTION_POLICIES"
    using DEFAULT_EXECUTION_POLICIES_built by (rule ExecutionPolicyRegistry_ok)
  show "enabled_operation_ids DEFAULT_EXECUTION_POLICIES = [''nas.observe_groupware_runtime'']" by code_simp
qed (rule DEFAULT_EXECUTION_POLICIES_built)

end
