(* ===== verification/Store.thy ===== *)
theory Store
  imports Authorization Policies
begin

text \<open>
  The root-owned SQLite store (\<open>root_actions/posix_store.py\<close>): jobs, records, ledger, receipts and
  quarantine. A table is the list of its rows in insertion order, with typed columns; the
  keys, unique indexes and foreign keys of the schema are the tests of the insert
  functions, whose failure is the \<open>StorageConflict\<close> that \<open>_execute_insert\<close> makes of an
  \<open>IntegrityError\<close>. The code inside \<open>with self._transaction()\<close> maps a store to a new store or to
  an exception; \<open>transaction\<close> commits the one and rolls back on the other. A write
  transaction holds the database lock (\<open>BEGIN IMMEDIATE\<close>), so transactions run one after
  another. The checks of file ownership and modes, and the schema migration, are not modelled.
\<close>

record stored_job =
  row_job :: SealedJob
  row_submission :: SubmissionMetadata

record LedgerEntry =
  sequence :: int
  action :: string
  prior_state :: "string option"
  next_state :: string
  record_revision :: int
  led_event_id :: string
  led_occurred_at :: string
  led_job_id :: string
  led_job_digest :: string
  led_outcome :: "string option"
  led_reason :: "string option"

record receipt_row =
  row_digest :: string
  row_job_id :: string
  row_job_digest :: string
  row_operation_id :: string
  row_kind :: string
  row_canonical :: string

record quarantine_row =
  q_job_id :: string
  q_digest :: string
  q_storage_id :: string

record credential_row =
  row_credential :: RegisteredCredential
  row_fingerprint :: string

record store =
  jobs :: "stored_job list"
  records :: "JobRecord list"
  ledger :: "LedgerEntry list"
  ledger_seq :: int
  raw_receipts :: "RawReceiptArtifact list"
  receipts :: "receipt_row list"
  receipt_current :: "(string \<times> string) list"
  quarantine :: "quarantine_row list"
  bootstraps :: "BootstrapSession list"
  credentials :: "credential_row list"
  ceremonies :: "PendingCeremony list"
  approvals :: "ApprovalRecord list"

definition empty_store :: store where
  "empty_store = \<lparr>jobs = [], records = [], ledger = [], ledger_seq = 0, raw_receipts = [], receipts = [],
     receipt_current = [], quarantine = [], bootstraps = [], credentials = [], ceremonies = [], approvals = []\<rparr>"

definition transaction :: "store \<Rightarrow> ('a \<times> store) result \<Rightarrow> 'a result \<times> store" where
  "transaction s m = (case m of Inl e \<Rightarrow> (Inl e, s) | Inr (x, s') \<Rightarrow> (Inr x, s'))"

definition opt_str :: "string option \<Rightarrow> json" where
  "opt_str v = (case v of None \<Rightarrow> JNull | Some s \<Rightarrow> JStr s)"

section \<open>Jobs and records\<close>

definition is_manifest_error :: "exn \<Rightarrow> bool" where
  "is_manifest_error e = (case e of ManifestValidationError _ \<Rightarrow> True | _ \<Rightarrow> False)"

definition is_receipt_error :: "exn \<Rightarrow> bool" where
  "is_receipt_error e = (case e of ReceiptValidationError _ \<Rightarrow> True | _ \<Rightarrow> False)"

definition verify_job :: "pyenv \<Rightarrow> SealedJob \<Rightarrow> unit result" where
  "verify_job env job =
     bindE (raise_from is_manifest_error (StorageConflict ''sealed job bytes are invalid'')
              (seal_typed_manifest env DEFAULT_REGISTRY (canonical_manifest job))) (\<lambda>verified.
     raise_if (verified \<noteq> job) (StorageConflict ''sealed job metadata does not match canonical bytes''))"

definition verify_receipt :: "pyenv \<Rightarrow> ReceiptArtifact \<Rightarrow> unit result" where
  "verify_receipt env a =
     bindE (raise_from is_receipt_error (StorageConflict ''receipt bytes are invalid'')
              (seal_receipt env (canonical_receipt a))) (\<lambda>verified.
     raise_if (verified \<noteq> a) (StorageConflict ''receipt metadata does not match canonical bytes''))"

definition job_ids :: "store \<Rightarrow> string list" where
  "job_ids s = map (\<lambda>j. job_id (row_job j)) (jobs s)"

definition insert_job :: "store \<Rightarrow> SealedJob \<Rightarrow> SubmissionMetadata \<Rightarrow> store result" where
  "insert_job s job sub =
     (if job_id job \<in> set (job_ids s) \<or> job_digest job \<in> set (map (\<lambda>j. job_digest (row_job j)) (jobs s))
      then Inl (StorageConflict ''job_id is already sealed'')
      else Inr (s\<lparr>jobs := jobs s @ [\<lparr>row_job = job, row_submission = sub\<rparr>]\<rparr>))"

definition find_job :: "store \<Rightarrow> string \<Rightarrow> stored_job option" where
  "find_job s jid = List.find (\<lambda>j. job_id (row_job j) = jid) (jobs s)"

definition read_job :: "pyenv \<Rightarrow> store \<Rightarrow> string \<Rightarrow> SealedJob result" where
  "read_job env s jid =
     (case find_job s jid of
        None \<Rightarrow> Inl (StorageNotFound jid)
      | Some j \<Rightarrow> bindE (verify_job env (row_job j)) (\<lambda>_. Inr (row_job j)))"

definition find_record :: "store \<Rightarrow> string \<Rightarrow> JobRecord option" where
  "find_record s jid = List.find (\<lambda>r. rec_job_id r = jid) (records s)"

definition read_record :: "store \<Rightarrow> string \<Rightarrow> JobRecord result" where
  "read_record s jid =
     (case find_record s jid of
        None \<Rightarrow> Inl (StorageNotFound jid)
      | Some r \<Rightarrow> bindE (validate_record r) (\<lambda>_. Inr r))"

text \<open>\<open>INSERT INTO root_action_ledger\<close>: the next sequence number, one row per job and event.\<close>

definition insert_ledger_row :: "store \<Rightarrow> LedgerEntry \<Rightarrow> exn \<Rightarrow> store result" where
  "insert_ledger_row s e conflict =
     (if led_job_id e \<notin> set (job_ids s)
         \<or> (led_job_id e, led_event_id e) \<in> set (map (\<lambda>x. (led_job_id x, led_event_id x)) (ledger s))
      then Inl conflict
      else Inr (s\<lparr>ledger := ledger s @ [e\<lparr>sequence := ledger_seq s + 1\<rparr>], ledger_seq := ledger_seq s + 1\<rparr>))"

definition initial_entry :: "JobRecord \<Rightarrow> LedgerEntry" where
  "initial_entry r = \<lparr>sequence = 0, action = ''sealed_pending'', prior_state = None, next_state = ''pending'',
     record_revision = 0, led_event_id = last_event_id r, led_occurred_at = last_changed_at r,
     led_job_id = rec_job_id r, led_job_digest = rec_job_digest r, led_outcome = None, led_reason = None\<rparr>"

definition insert_record_and_initial_ledger :: "store \<Rightarrow> JobRecord \<Rightarrow> store result" where
  "insert_record_and_initial_ledger s r =
     (if rec_job_id r \<in> set (map rec_job_id (records s)) \<or> rec_job_id r \<notin> set (job_ids s)
      then Inl (StorageConflict ''pending record already exists'')
      else insert_ledger_row (s\<lparr>records := records s @ [r\<lparr>terminal_outcome := None, rec_reason := None\<rparr>]\<rparr>)
             (initial_entry r) (StorageConflict ''initial ledger event already exists''))"

definition transition_entry :: "JobRecord \<Rightarrow> JobRecord \<Rightarrow> TransitionEvent \<Rightarrow> LedgerEntry" where
  "transition_entry prior updated ev = \<lparr>sequence = 0, action = kind_value (ev_kind ev),
     prior_state = Some (state_value (state prior)), next_state = state_value (state updated),
     record_revision = revision updated, led_event_id = event_id ev, led_occurred_at = occurred_at ev,
     led_job_id = rec_job_id updated, led_job_digest = rec_job_digest updated,
     led_outcome = map_option outcome_value (terminal_outcome updated), led_reason = rec_reason updated\<rparr>"

definition insert_ledger :: "store \<Rightarrow> JobRecord \<Rightarrow> JobRecord \<Rightarrow> TransitionEvent \<Rightarrow> store result" where
  "insert_ledger s prior updated ev =
     insert_ledger_row s (transition_entry prior updated ev) (StorageConflict ''ledger event insert failed'')"

definition compare_and_append_tx :: "store \<Rightarrow> TransitionEvent \<Rightarrow> (JobRecord \<times> store) result" where
  "compare_and_append_tx s ev =
     bindE (read_record s (ev_job_id ev)) (\<lambda>current.
     bindE (raise_if ((ev_job_id ev, event_id ev) \<in> set (map (\<lambda>x. (led_job_id x, led_event_id x)) (ledger s)))
              (StorageConflict ''ledger event_id replay is blocked'')) (\<lambda>_.
     bindE (apply_transition current ev) (\<lambda>updated.
     let hit = (\<lambda>r. rec_job_id r = rec_job_id updated \<and> rec_job_digest r = rec_job_digest updated
                  \<and> revision r = revision current) in
     bindE (raise_if (length (filter hit (records s)) \<noteq> 1)
              (StorageConflict ''state compare-and-swap lost a concurrent race'')) (\<lambda>_.
     bindE (insert_ledger
              (s\<lparr>records := map (\<lambda>r. if hit r then r\<lparr>state := state updated, revision := revision updated,
                  execution_count := execution_count updated, terminal_outcome := terminal_outcome updated,
                  rec_reason := rec_reason updated, last_event_id := last_event_id updated,
                  last_changed_at := last_changed_at updated\<rparr> else r) (records s)\<rparr>)
              current updated ev) (\<lambda>s'.
     Inr (updated, s'))))))"

definition compare_and_append :: "store \<Rightarrow> TransitionEvent \<Rightarrow> JobRecord result \<times> store" where
  "compare_and_append s ev = transaction s (compare_and_append_tx s ev)"

section \<open>Submission\<close>

definition validate_submission :: "SubmissionMetadata \<Rightarrow> SubmissionLimits \<Rightarrow> unit result" where
  "validate_submission sub limits =
     bindE (raise_if (list_ex (\<lambda>v. v < 0) [peer_uid sub, peer_gid sub, peer_pid sub])
              (StorageConflict ''submission peer identity is invalid'')) (\<lambda>_.
     bindE (raise_if (strptime (broker_received_at sub) = None)
              (StorageConflict ''submission broker timestamp is invalid'')) (\<lambda>_.
     raise_if (list_ex (\<lambda>v. v < 1) [max_open_per_uid limits, max_open_per_lineage limits,
                 max_jobs_per_uid_window limits, limit_window_seconds limits])
       (StorageConflict ''submission limit is invalid'')))"

text \<open>\<open>root_action_jobs j JOIN root_action_records r ON r.job_id=j.job_id\<close>\<close>

definition joined :: "store \<Rightarrow> (stored_job \<times> JobRecord) list" where
  "joined s = concat (map (\<lambda>j. map (\<lambda>r. (j, r)) (filter (\<lambda>r. rec_job_id r = job_id (row_job j)) (records s))) (jobs s))"

definition is_open :: "JobRecord \<Rightarrow> bool" where
  "is_open r \<longleftrightarrow> state r \<in> {PENDING, RUNNING, UNKNOWN}"

definition open_for_uid :: "store \<Rightarrow> int \<Rightarrow> nat" where
  "open_for_uid s uid = length (filter (\<lambda>(j, r). peer_uid (row_submission j) = uid \<and> is_open r) (joined s))"

definition open_for_lineage :: "store \<Rightarrow> string \<Rightarrow> nat" where
  "open_for_lineage s lid = length (filter (\<lambda>(j, r). lineage_id (row_job j) = lid \<and> is_open r) (joined s))"

definition recent_for_uid :: "store \<Rightarrow> int \<Rightarrow> string \<Rightarrow> nat" where
  "recent_for_uid s uid cutoff =
     length (filter (\<lambda>j. peer_uid (row_submission j) = uid \<and> cutoff \<le> broker_received_at (row_submission j)) (jobs s))"

definition window_start :: "string \<Rightarrow> int \<Rightarrow> string result" where
  "window_start at seconds =
     bindE (parse_instant at) (\<lambda>now. bindE (shift_instant now (- seconds)) (\<lambda>t. Inr (format_instant t)))"

definition enforce_submission_limits :: "store \<Rightarrow> SealedJob \<Rightarrow> SubmissionMetadata \<Rightarrow> SubmissionLimits \<Rightarrow> unit result" where
  "enforce_submission_limits s job sub limits =
     bindE (raise_if (max_open_per_uid limits \<le> int (open_for_uid s (peer_uid sub)))
              (StorageConflict ''submission uid open-job circuit breaker'')) (\<lambda>_.
     bindE (raise_if (max_open_per_lineage limits \<le> int (open_for_lineage s (lineage_id job)))
              (StorageConflict ''submission lineage circuit breaker'')) (\<lambda>_.
     bindE (window_start (broker_received_at sub) (limit_window_seconds limits)) (\<lambda>cutoff.
     raise_if (max_jobs_per_uid_window limits \<le> int (recent_for_uid s (peer_uid sub) cutoff))
       (StorageConflict ''submission uid rate circuit breaker''))))"

definition not_sealed :: "store \<Rightarrow> SealedJob \<Rightarrow> unit result" where
  "not_sealed s job = raise_if (job_id job \<in> set (job_ids s)) (StorageConflict ''job_id is already sealed'')"

definition put_if_absent :: "pyenv \<Rightarrow> store \<Rightarrow> SealedJob \<Rightarrow> unit result \<times> store" where
  "put_if_absent env s job = transaction s
     (bindE (verify_job env job) (\<lambda>_.
      bindE (insert_job s job \<lparr>peer_uid = 0, peer_gid = 0, peer_pid = 0, broker_received_at = submitted_at job\<rparr>) (\<lambda>s'.
      Inr ((), s'))))"

definition create_pending :: "pyenv \<Rightarrow> store \<Rightarrow> JobRecord \<Rightarrow> unit result \<times> store" where
  "create_pending env s r = transaction s
     (bindE (validate_record r) (\<lambda>_.
      bindE (raise_if (state r \<noteq> PENDING \<or> revision r \<noteq> 0)
               (StorageConflict ''create_pending requires an initial pending record'')) (\<lambda>_.
      bindE (read_job env s (rec_job_id r)) (\<lambda>job.
      bindE (raise_if (job_digest job \<noteq> rec_job_digest r)
               (StorageConflict ''pending record has no matching sealed job'')) (\<lambda>_.
      bindE (insert_record_and_initial_ledger s r) (\<lambda>s'. Inr ((), s')))))))"

definition seal_pending ::
  "pyenv \<Rightarrow> store \<Rightarrow> SealedJob \<Rightarrow> string \<Rightarrow> string \<Rightarrow> SubmissionMetadata option \<Rightarrow> SubmissionLimits \<Rightarrow> JobRecord result \<times> store" where
  "seal_pending env s job eid at submission limits = transaction s
     (bindE (verify_job env job) (\<lambda>_.
      bindE (initial_record job eid at) (\<lambda>r.
      let sub = (case submission of Some m \<Rightarrow> m
                 | None \<Rightarrow> \<lparr>peer_uid = 0, peer_gid = 0, peer_pid = 0, broker_received_at = at\<rparr>) in
      bindE (validate_submission sub limits) (\<lambda>_.
      bindE (not_sealed s job) (\<lambda>_.
      bindE (enforce_submission_limits s job sub limits) (\<lambda>_.
      bindE (insert_job s job sub) (\<lambda>s1.
      bindE (insert_record_and_initial_ledger s1 r) (\<lambda>s2.
      Inr (r, s2)))))))))"

section \<open>Receipts\<close>

definition insert_raw :: "store \<Rightarrow> RawReceiptArtifact \<Rightarrow> store result" where
  "insert_raw s raw =
     (if ref_job_id (reference raw) \<in> set (map (\<lambda>a. ref_job_id (reference a)) (raw_receipts s))
         \<or> root_storage_id (reference raw) \<in> set (map (\<lambda>a. root_storage_id (reference a)) (raw_receipts s))
         \<or> ref_job_id (reference raw) \<notin> set (job_ids s)
      then Inl (StorageConflict ''raw receipt already exists'')
      else Inr (s\<lparr>raw_receipts := raw_receipts s @ [raw]\<rparr>))"

definition find_raw :: "store \<Rightarrow> string \<Rightarrow> RawReceiptArtifact option" where
  "find_raw s jid = List.find (\<lambda>a. ref_job_id (reference a) = jid) (raw_receipts s)"

definition find_receipt :: "store \<Rightarrow> string \<Rightarrow> receipt_row option" where
  "find_receipt s d = List.find (\<lambda>r. row_digest r = d) (receipts s)"

text \<open>The receipt the pointer of a job names.\<close>

definition current_receipt :: "store \<Rightarrow> string \<Rightarrow> receipt_row option" where
  "current_receipt s jid =
     (case map_of (receipt_current s) jid of None \<Rightarrow> None | Some d \<Rightarrow> find_receipt s d)"

definition check_raw_link :: "store \<Rightarrow> ReceiptArtifact \<Rightarrow> dict \<Rightarrow> unit result" where
  "check_raw_link s a value =
     (if rc_kind a \<noteq> ''terminal_notice'' then
        (case find_raw s (rc_job_id a) of
           None \<Rightarrow> Inl (StorageConflict ''receipt has no matching root-only raw receipt'')
         | Some raw \<Rightarrow> bindE (jget value ''raw_receipt_digest'') (\<lambda>d.
             raise_if (JStr (raw_receipt_digest (reference raw)) \<noteq> d)
               (StorageConflict ''receipt has no matching root-only raw receipt'')))
      else Inr ())"

definition check_outcome_link :: "JobRecord \<Rightarrow> ReceiptArtifact \<Rightarrow> dict \<Rightarrow> unit result" where
  "check_outcome_link r a value =
     (if state r = UNKNOWN then
        (if rc_kind a \<noteq> ''unknown'' then Inl (StorageConflict ''unknown state requires an unknown receipt'')
         else bindE (jget value ''terminal_outcome'') (\<lambda>out.
           raise_if (out \<noteq> JNull) (StorageConflict ''unknown state requires an unknown receipt'')))
      else if rc_kind a = ''unknown'' then Inl (StorageConflict ''terminal state cannot publish an unknown receipt'')
      else
        bindE (jget value ''terminal_outcome'') (\<lambda>out.
        bindE (raise_if (out \<noteq> opt_str (map_option outcome_value (terminal_outcome r)))
                 (StorageConflict ''receipt terminal outcome mismatch'')) (\<lambda>_.
        raise_if (rc_kind a \<in> {''unknown'', ''terminal_notice''} \<and> jget_opt value ''reason_code'' \<noteq> opt_str (rec_reason r))
          (StorageConflict ''receipt reason_code mismatch''))))"

definition validate_receipt_publication :: "pyenv \<Rightarrow> store \<Rightarrow> ReceiptArtifact \<Rightarrow> unit result" where
  "validate_receipt_publication env s a =
     bindE (read_job env s (rc_job_id a)) (\<lambda>job.
     bindE (read_record s (rc_job_id a)) (\<lambda>r.
     bindE (raise_if (job_digest job \<noteq> rc_job_digest a \<or> operation_id job \<noteq> rc_operation_id a
                      \<or> request_id job \<noteq> rc_request_id a \<or> reply_target job \<noteq> rc_reply_target a)
              (StorageConflict ''receipt job identity mismatch'')) (\<lambda>_.
     bindE (raise_if (state r \<notin> {TERMINAL, UNKNOWN})
              (StorageConflict ''receipt cannot publish before a final or unknown state'')) (\<lambda>_.
     bindE (receipt_copy env a) (\<lambda>value.
     bindE (check_raw_link s a value) (\<lambda>_.
     check_outcome_link r a value))))))"

definition insert_receipt :: "store \<Rightarrow> ReceiptArtifact \<Rightarrow> store result" where
  "insert_receipt s a =
     (let current = current_receipt s (rc_job_id a);
          row = \<lparr>row_digest = receipt_digest a, row_job_id = rc_job_id a, row_job_digest = rc_job_digest a,
                 row_operation_id = rc_operation_id a, row_kind = rc_kind a, row_canonical = canonical_receipt a\<rparr> in
      if (case current of None \<Rightarrow> False | Some c \<Rightarrow> \<not> (row_kind c = ''unknown'' \<and> rc_kind a \<noteq> ''unknown''))
      then Inl (StorageConflict ''public receipt or notice already exists'')
      else if receipt_digest a \<in> set (map row_digest (receipts s)) \<or> rc_job_id a \<notin> set (job_ids s)
      then Inl (StorageConflict ''receipt digest already exists'')
      else
        (let s' = s\<lparr>receipts := receipts s @ [row]\<rparr> in
         if current = None then
           (if rc_job_id a \<in> set (map fst (receipt_current s))
            then Inl (StorageConflict ''public receipt pointer already exists'')
            else Inr (s'\<lparr>receipt_current := receipt_current s @ [(rc_job_id a, receipt_digest a)]\<rparr>))
         else
           (if length (filter (\<lambda>c. fst c = rc_job_id a) (receipt_current s)) \<noteq> 1
            then Inl (StorageConflict ''public receipt pointer update failed'')
            else Inr (s'\<lparr>receipt_current :=
                   map (\<lambda>c. if fst c = rc_job_id a then (fst c, receipt_digest a) else c) (receipt_current s)\<rparr>))))"

definition publish_tx :: "pyenv \<Rightarrow> store \<Rightarrow> ReceiptArtifact \<Rightarrow> store result" where
  "publish_tx env s a = bindE (validate_receipt_publication env s a) (\<lambda>_. insert_receipt s a)"

definition publish_if_absent :: "pyenv \<Rightarrow> store \<Rightarrow> ReceiptArtifact \<Rightarrow> unit result \<times> store" where
  "publish_if_absent env s a = transaction s
     (bindE (verify_receipt env a) (\<lambda>_. bindE (publish_tx env s a) (\<lambda>s'. Inr ((), s'))))"

definition put_raw_if_absent :: "pyenv \<Rightarrow> store \<Rightarrow> RawReceiptArtifact \<Rightarrow> unit result \<times> store" where
  "put_raw_if_absent env s raw = transaction s
     (bindE (read_job env s (ref_job_id (reference raw))) (\<lambda>job.
      bindE (raise_if (job_digest job \<noteq> ref_job_digest (reference raw))
               (StorageConflict ''raw receipt job identity mismatch'')) (\<lambda>_.
      bindE (insert_raw s raw) (\<lambda>s'. Inr ((), s')))))"

definition finalize_claimed_execution ::
  "pyenv \<Rightarrow> store \<Rightarrow> TransitionEvent \<Rightarrow> RawReceiptArtifact \<Rightarrow> ReceiptArtifact \<Rightarrow> (JobRecord \<times> store) result" where
  "finalize_claimed_execution env s ev raw a =
     bindE (verify_receipt env a) (\<lambda>_.
     bindE (receipt_copy env a) (\<lambda>value.
     let ref = reference raw in
     bindE (raise_if (ev_job_id ev \<noteq> ref_job_id ref \<or> ev_job_digest ev \<noteq> ref_job_digest ref
                      \<or> rc_job_id a \<noteq> ref_job_id ref \<or> rc_job_digest a \<noteq> ref_job_digest ref
                      \<or> jget_opt value ''raw_receipt_digest'' \<noteq> JStr (raw_receipt_digest ref))
              (StorageConflict ''execution receipt identity mismatch'')) (\<lambda>_.
     bindE (read_job env s (ev_job_id ev)) (\<lambda>job.
     bindE (raise_if (job_digest job \<noteq> ev_job_digest ev)
              (StorageConflict ''execution event job identity mismatch'')) (\<lambda>_.
     bindE (insert_raw s raw) (\<lambda>s1.
     bindE (compare_and_append_tx s1 ev) (\<lambda>(r, s2).
     bindE (publish_tx env s2 a) (\<lambda>s3. Inr (r, s3)))))))))"

definition complete_claimed_execution ::
  "pyenv \<Rightarrow> store \<Rightarrow> TransitionEvent \<Rightarrow> RawReceiptArtifact \<Rightarrow> ReceiptArtifact \<Rightarrow> JobRecord result \<times> store" where
  "complete_claimed_execution env s ev raw a = transaction s
     (bindE (raise_if (ev_kind ev \<noteq> COMPLETE_EXECUTION)
               (StorageConflict ''execution completion requires a complete event'')) (\<lambda>_.
      finalize_claimed_execution env s ev raw a))"

definition mark_claimed_execution_unknown ::
  "pyenv \<Rightarrow> store \<Rightarrow> TransitionEvent \<Rightarrow> RawReceiptArtifact \<Rightarrow> ReceiptArtifact \<Rightarrow> JobRecord result \<times> store" where
  "mark_claimed_execution_unknown env s ev raw a = transaction s
     (bindE (raise_if (ev_kind ev \<noteq> MARK_UNKNOWN)
               (StorageConflict ''unknown completion requires a mark-unknown event'')) (\<lambda>_.
      finalize_claimed_execution env s ev raw a))"

definition quarantine_if_absent :: "pyenv \<Rightarrow> store \<Rightarrow> QuarantineRecord \<Rightarrow> unit result \<times> store" where
  "quarantine_if_absent env s q = transaction s
     (let a = notice q in
      bindE (verify_receipt env a) (\<lambda>_.
      bindE (case find_raw s (ref_job_id (raw_reference q)) of
               None \<Rightarrow> Inl (StorageConflict ''quarantine raw receipt reference mismatch'')
             | Some raw \<Rightarrow> bindE (raw_reference_post_init env (reference raw)) (\<lambda>_.
                 raise_if (reference raw \<noteq> raw_reference q)
                   (StorageConflict ''quarantine raw receipt reference mismatch''))) (\<lambda>_.
      bindE (publish_tx env s a) (\<lambda>s'.
      (if rc_job_id a \<in> set (map q_job_id (quarantine s'))
       then Inl (StorageConflict ''quarantine entry already exists'')
       else Inr ((), s'\<lparr>quarantine := quarantine s' @
              [\<lparr>q_job_id = rc_job_id a, q_digest = receipt_digest a, q_storage_id = root_storage_id (raw_reference q)\<rparr>]\<rparr>))))))"

section \<open>Rejected and admitted submissions\<close>

definition seal_rejected ::
  "pyenv \<Rightarrow> store \<Rightarrow> SealedJob \<Rightarrow> string \<Rightarrow> string \<Rightarrow> TransitionEvent \<Rightarrow> ReceiptArtifact \<Rightarrow> SubmissionMetadata
     \<Rightarrow> SubmissionLimits \<Rightarrow> JobRecord result \<times> store" where
  "seal_rejected env s job eid at close_event a sub limits = transaction s
     (bindE (verify_job env job) (\<lambda>_.
      bindE (verify_receipt env a) (\<lambda>_.
      bindE (initial_record job eid at) (\<lambda>pending.
      bindE (validate_submission sub limits) (\<lambda>_.
      bindE (raise_if (ev_job_id close_event \<noteq> job_id job \<or> ev_job_digest close_event \<noteq> job_digest job
                       \<or> expected_revision close_event \<noteq> 0 \<or> ev_kind close_event \<noteq> CLOSE_PENDING
                       \<or> ev_outcome close_event \<noteq> Some REJECTED)
               (StorageConflict ''atomic rejected submission transition is invalid'')) (\<lambda>_.
      bindE (apply_transition pending close_event) (\<lambda>rejected.
      bindE (receipt_copy env a) (\<lambda>receipt.
      bindE (raise_if (rc_job_id a \<noteq> job_id job \<or> rc_job_digest a \<noteq> job_digest job
                       \<or> rc_operation_id a \<noteq> operation_id job \<or> rc_kind a \<noteq> ''terminal_notice'')
               (StorageConflict ''atomic rejected submission notice is invalid'')) (\<lambda>_.
      bindE (jget receipt ''terminal_outcome'') (\<lambda>out.
      bindE (raise_if (out \<noteq> JStr ''rejected'' \<or> jget_opt receipt ''reason_code'' \<noteq> opt_str (rec_reason rejected))
               (StorageConflict ''atomic rejected submission notice is invalid'')) (\<lambda>_.
      bindE (not_sealed s job) (\<lambda>_.
      bindE (enforce_submission_limits s job sub limits) (\<lambda>_.
      bindE (insert_job s job sub) (\<lambda>s1.
      bindE (insert_record_and_initial_ledger s1 pending) (\<lambda>s2.
      bindE (compare_and_append_tx s2 close_event) (\<lambda>(_, s3).
      bindE (publish_tx env s3 a) (\<lambda>s4.
      Inr (rejected, s4))))))))))))))))))"

definition terminal_count :: "(stored_job \<times> JobRecord) list \<Rightarrow> TerminalOutcome \<Rightarrow> int" where
  "terminal_count rows out = int (length (filter (\<lambda>(j, r). terminal_outcome r = Some out) rows))"

definition is_technical_failure :: "LineageFailurePolicy \<Rightarrow> JobRecord \<Rightarrow> bool" where
  "is_technical_failure policy r \<longleftrightarrow> terminal_outcome r \<in> {Some FAILED, Some PRESTART_FAILED}
     \<and> (\<exists>code\<in>set (technical_reason_codes policy). rec_reason r = Some code)"

definition lineage_summary :: "store \<Rightarrow> string \<Rightarrow> string \<Rightarrow> LineageFailurePolicy \<Rightarrow> LineageSummary result" where
  "lineage_summary s lid at policy =
     bindE (window_start at (window_seconds policy)) (\<lambda>cutoff.
     let rows = filter (\<lambda>(j, r). lineage_id (row_job j) = lid \<and> cutoff \<le> broker_received_at (row_submission j)
                  \<and> broker_received_at (row_submission j) \<le> at) (joined s) in
     lineage_summary_post_init
       \<lparr>sum_lineage_id = lid, measured_at = at, sum_window_seconds = window_seconds policy,
        submission_count = int (length rows),
        terminal_counts = map (\<lambda>out. (outcome_value out, terminal_count rows out))
          [SUCCEEDED, FAILED, REJECTED, EXPIRED, CANCELED, PRESTART_FAILED],
        technical_failure_count = int (length (filter (\<lambda>(j, r). is_technical_failure policy r) rows)),
        sum_source = ''root_owned_ledger''\<rparr>)"

definition check_circuit_notice ::
  "pyenv \<Rightarrow> SealedJob \<Rightarrow> TransitionEvent \<Rightarrow> ReceiptArtifact \<Rightarrow> LineageFailurePolicy \<Rightarrow> unit result" where
  "check_circuit_notice env job ev a policy =
     bindE (receipt_copy env a) (\<lambda>value.
     bindE (raise_if (ev_job_id ev \<noteq> job_id job \<or> ev_job_digest ev \<noteq> job_digest job \<or> expected_revision ev \<noteq> 0
                      \<or> ev_kind ev \<noteq> CLOSE_PENDING \<or> ev_outcome ev \<noteq> Some PRESTART_FAILED
                      \<or> ev_reason ev \<noteq> Some (circuit_reason_code policy)
                      \<or> rc_job_id a \<noteq> job_id job \<or> rc_job_digest a \<noteq> job_digest job
                      \<or> rc_operation_id a \<noteq> operation_id job \<or> rc_request_id a \<noteq> request_id job
                      \<or> rc_reply_target a \<noteq> reply_target job \<or> rc_kind a \<noteq> ''terminal_notice'')
              (StorageConflict ''lineage circuit notice is invalid'')) (\<lambda>_.
     bindE (jget value ''terminal_outcome'') (\<lambda>out.
     bindE (jget value ''reason_code'') (\<lambda>reason.
     raise_if (out \<noteq> JStr ''prestart_failed'' \<or> reason \<noteq> JStr (circuit_reason_code policy))
       (StorageConflict ''lineage circuit notice is invalid'')))))"

definition seal_with_lineage_admission ::
  "pyenv \<Rightarrow> store \<Rightarrow> SealedJob \<Rightarrow> string \<Rightarrow> string \<Rightarrow> TransitionEvent \<Rightarrow> ReceiptArtifact \<Rightarrow> SubmissionMetadata
     \<Rightarrow> SubmissionLimits \<Rightarrow> LineageFailurePolicy \<Rightarrow> (JobRecord \<times> SubmissionAdmission) result \<times> store" where
  "seal_with_lineage_admission env s job eid at circuit_event circuit_notice sub limits policy = transaction s
     (bindE (verify_job env job) (\<lambda>_.
      bindE (verify_receipt env circuit_notice) (\<lambda>_.
      bindE (initial_record job eid at) (\<lambda>pending.
      bindE (validate_submission sub limits) (\<lambda>_.
      bindE (not_sealed s job) (\<lambda>_.
      bindE (enforce_submission_limits s job sub limits) (\<lambda>_.
      bindE (lineage_summary s (lineage_id job) (broker_received_at sub) policy) (\<lambda>summary.
      let blocked = (maximum_technical_failures policy \<le> technical_failure_count summary) in
      bindE (if blocked then check_circuit_notice env job circuit_event circuit_notice policy else Inr ()) (\<lambda>_.
      bindE (insert_job s job sub) (\<lambda>s1.
      bindE (insert_record_and_initial_ledger s1 pending) (\<lambda>s2.
      if blocked then
        bindE (compare_and_append_tx s2 circuit_event) (\<lambda>(r, s3).
        bindE (publish_tx env s3 circuit_notice) (\<lambda>s4.
        Inr ((r, \<lparr>allowed = False, adm_reason = Some (circuit_reason_code policy), adm_summary = summary\<rparr>), s4)))
      else Inr ((pending, \<lparr>allowed = True, adm_reason = None, adm_summary = summary\<rparr>), s2))))))))))))"

section \<open>Reads\<close>

definition read_sealed :: "pyenv \<Rightarrow> store \<Rightarrow> string \<Rightarrow> SealedJob result" where
  "read_sealed env s jid = read_job env s jid"

definition list_job_ids :: "store \<Rightarrow> string list" where
  "list_job_ids s = sort (job_ids s)"

text \<open>\<open>ORDER BY last_changed_at DESC, job_id DESC LIMIT limit\<close>\<close>

definition catalog_job_ids :: "store \<Rightarrow> int \<Rightarrow> (string list \<times> int) result" where
  "catalog_job_ids s limit =
     (if limit < 1 then Inl (ValueError ''catalog job limit must be a positive integer'')
      else Inr (take (nat limit) (map rec_job_id (rev (sort_key (\<lambda>r. [last_changed_at r, rec_job_id r]) (records s)))),
                int (length (records s))))"

definition submission_metadata :: "store \<Rightarrow> string \<Rightarrow> SubmissionMetadata result" where
  "submission_metadata s jid =
     (case find_job s jid of None \<Rightarrow> Inl (StorageNotFound jid) | Some j \<Rightarrow> Inr (row_submission j))"

definition running_job_ids :: "store \<Rightarrow> string list" where
  "running_job_ids s =
     map rec_job_id (sort_key (\<lambda>r. [last_changed_at r, rec_job_id r]) (filter (\<lambda>r. state r = RUNNING) (records s)))"

definition ledger_of :: "store \<Rightarrow> string \<Rightarrow> LedgerEntry list" where
  "ledger_of s jid = filter (\<lambda>e. led_job_id e = jid) (ledger s)"

definition read_ledger :: "store \<Rightarrow> string \<Rightarrow> LedgerEntry list result" where
  "read_ledger s jid =
     (let rows = sort_key sequence (ledger_of s jid) in
      if rows = [] then Inl (StorageNotFound jid) else Inr rows)"

definition read_raw_root_only :: "pyenv \<Rightarrow> store \<Rightarrow> string \<Rightarrow> RawReceiptArtifact result" where
  "read_raw_root_only env s jid =
     (case find_raw s jid of
        None \<Rightarrow> Inl (StorageNotFound jid)
      | Some a \<Rightarrow> bindE (raw_reference_post_init env (reference a)) (\<lambda>_.
          bindE (raw_artifact_post_init a) (\<lambda>_. Inr a)))"

definition row_matches :: "receipt_row \<Rightarrow> ReceiptArtifact \<Rightarrow> bool" where
  "row_matches row a \<longleftrightarrow> row_kind row = rc_kind a \<and> row_job_id row = rc_job_id a \<and> row_job_digest row = rc_job_digest a
     \<and> row_operation_id row = rc_operation_id a \<and> row_digest row = receipt_digest a"

definition retrieve :: "pyenv \<Rightarrow> store \<Rightarrow> string \<Rightarrow> string \<Rightarrow> ReceiptArtifact result" where
  "retrieve env s jid jd =
     (case (case current_receipt s jid of None \<Rightarrow> None | Some row \<Rightarrow> if row_job_digest row = jd then Some row else None) of
        None \<Rightarrow> Inl (StorageNotFound jid)
      | Some row \<Rightarrow>
          bindE (seal_receipt env (row_canonical row)) (\<lambda>a.
          bindE (raise_if (\<not> row_matches row a) (StorageConflict ''receipt index metadata mismatch'')) (\<lambda>_.
          bindE (verify_receipt env a) (\<lambda>_. Inr a))))"

definition read_quarantine_notice :: "pyenv \<Rightarrow> store \<Rightarrow> string \<Rightarrow> ReceiptArtifact result" where
  "read_quarantine_notice env s jid =
     (case List.find (\<lambda>q. q_job_id q = jid) (quarantine s) of
        None \<Rightarrow> Inl (StorageNotFound jid)
      | Some q \<Rightarrow>
          (case find_receipt s (q_digest q) of
             None \<Rightarrow> Inl (StorageConflict ''quarantine notice points to a missing receipt'')
           | Some row \<Rightarrow>
               bindE (seal_receipt env (row_canonical row)) (\<lambda>a.
               bindE (raise_if (\<not> row_matches row a) (StorageConflict ''quarantine receipt index metadata mismatch'')) (\<lambda>_.
               bindE (verify_receipt env a) (\<lambda>_. Inr a)))))"

end
