(* ===== verification/Store_Invariant.thy ===== *)
theory Store_Invariant
  imports Store
begin

text \<open>
  The ledger invariant of the store: jobs and records have distinct keys, every record is
  valid, belongs to a sealed job with its digest, and is exactly what its ledger rows
  replay to; sequence numbers increase. Every operation of the store keeps it. The
  interface \<open>store_preorder\<close> lists the primitive steps every operation is made of; what
  holds of them holds of every operation, and each invariant of the store interprets it.
\<close>

section \<open>Histories in the ledger\<close>

definition unseq :: "LedgerEntry \<Rightarrow> LedgerEntry" where
  "unseq e = e\<lparr>sequence := 0\<rparr>"

fun trace :: "JobRecord \<Rightarrow> TransitionEvent list \<Rightarrow> LedgerEntry list" where
  "trace r [] = []"
| "trace r (ev # evs) = transition_entry r (advance r ev) ev # trace (advance r ev) evs"

definition is_initial :: "JobRecord \<Rightarrow> bool" where
  "is_initial r \<longleftrightarrow> record_ok r \<and> state r = PENDING \<and> revision r = 0"

definition history_of :: "LedgerEntry list \<Rightarrow> JobRecord \<Rightarrow> bool" where
  "history_of es r \<longleftrightarrow> (\<exists>r0 evs. is_initial r0 \<and> replay r0 evs = Inr r \<and> map unseq es = initial_entry r0 # trace r0 evs)"

definition ledger_inv :: "store \<Rightarrow> bool" where
  "ledger_inv s \<longleftrightarrow>
     distinct (job_ids s) \<and> distinct (map (\<lambda>j. job_digest (row_job j)) (jobs s))
     \<and> distinct (map rec_job_id (records s))
     \<and> (\<forall>r\<in>set (records s). record_ok r \<and>
          (\<exists>j\<in>set (jobs s). job_id (row_job j) = rec_job_id r \<and> job_digest (row_job j) = rec_job_digest r)
          \<and> history_of (ledger_of s (rec_job_id r)) r)
     \<and> (\<forall>e\<in>set (ledger s). led_job_id e \<in> set (map rec_job_id (records s)))
     \<and> sorted_wrt (<) (map sequence (ledger s)) \<and> (\<forall>e\<in>set (ledger s). sequence e \<le> ledger_seq s)"

lemma ledger_inv_empty: "ledger_inv empty_store"
  by (simp add: ledger_inv_def empty_store_def job_ids_def)

lemma unseq_simps [simp]:
  "unseq (e\<lparr>sequence := n\<rparr>) = unseq e"
  "unseq (initial_entry r) = initial_entry r"
  "unseq (transition_entry r r' ev) = transition_entry r r' ev"
  by (simp_all add: unseq_def initial_entry_def transition_entry_def)

lemma trace_append: "replay r xs = Inr r' \<Longrightarrow> trace r (xs @ ys) = trace r xs @ trace r' ys"
  by (induction xs arbitrary: r) (auto simp: bindE_Inr_iff apply_transition_Inr_iff)

lemma history_of_initial: "is_initial r \<Longrightarrow> map unseq es = [initial_entry r] \<Longrightarrow> history_of es r"
  unfolding history_of_def by (intro exI [of _ r] exI [of _ "[]"]) simp

lemma history_of_step:
  assumes "history_of es r" and "apply_transition r ev = Inr r'" and "unseq e = transition_entry r r' ev"
  shows "history_of (es @ [e]) r'"
proof -
  from assms(1) obtain r0 evs where h: "is_initial r0" "replay r0 evs = Inr r" "map unseq es = initial_entry r0 # trace r0 evs"
    by (auto simp: history_of_def)
  have "trace r0 (evs @ [ev]) = trace r0 evs @ [transition_entry r r' ev]"
    using assms(2) by (simp add: trace_append [OF h(2)] apply_transition_Inr_iff)
  moreover have "replay r0 (evs @ [ev]) = Inr r'" using h(2) assms(2) by (simp add: replay_append)
  ultimately show ?thesis
    unfolding history_of_def using h assms(3) by (intro exI [of _ r0] exI [of _ "evs @ [ev]"]) simp
qed

section \<open>Effects of the primitive operations\<close>

lemma ledger_inv_record:
  "ledger_inv s \<Longrightarrow> r \<in> set (records s) \<Longrightarrow> record_ok r \<and> history_of (ledger_of s (rec_job_id r)) r"
  by (simp add: ledger_inv_def)

lemma ledger_inv_job:
  "ledger_inv s \<Longrightarrow> r \<in> set (records s) \<Longrightarrow>
     \<exists>j\<in>set (jobs s). job_id (row_job j) = rec_job_id r \<and> job_digest (row_job j) = rec_job_digest r"
  by (simp add: ledger_inv_def)

lemma ledger_inv_ledger: "ledger_inv s \<Longrightarrow> e \<in> set (ledger s) \<Longrightarrow> led_job_id e \<in> rec_job_id ` set (records s)"
  by (simp add: ledger_inv_def)

lemma ledger_inv_find_record:
  assumes "ledger_inv s" and "find_record s jid = Some r"
  shows "r \<in> set (records s) \<and> rec_job_id r = jid \<and> record_ok r"
  using assms by (auto simp: find_record_def ledger_inv_def dest: find_SomeD)

lemma find_record_in:
  assumes "ledger_inv s" and "r \<in> set (records s)"
  shows "find_record s (rec_job_id r) = Some r"
  unfolding find_record_def using assms by (intro find_unique) (auto simp: ledger_inv_def)

lemma read_record_Inr_iff: "ledger_inv s \<Longrightarrow> read_record s jid = Inr r \<longleftrightarrow> find_record s jid = Some r"
  by (auto simp: read_record_def result_simps dest: ledger_inv_find_record split: option.splits)

lemma insert_ledger_row_Inr:
  "insert_ledger_row s e c = Inr s' \<longleftrightarrow>
     led_job_id e \<in> set (job_ids s) \<and> (led_job_id e, led_event_id e) \<notin> set (map (\<lambda>x. (led_job_id x, led_event_id x)) (ledger s))
     \<and> s' = s\<lparr>ledger := ledger s @ [e\<lparr>sequence := ledger_seq s + 1\<rparr>], ledger_seq := ledger_seq s + 1\<rparr>"
  by (auto simp: insert_ledger_row_def)

text \<open>The store after an accepted transition.\<close>

definition cas_result :: "store \<Rightarrow> JobRecord \<Rightarrow> JobRecord \<Rightarrow> TransitionEvent \<Rightarrow> store" where
  "cas_result s r r' ev = s\<lparr>records := map (\<lambda>x. if rec_job_id x = rec_job_id r then r' else x) (records s),
     ledger := ledger s @ [(transition_entry r r' ev)\<lparr>sequence := ledger_seq s + 1\<rparr>], ledger_seq := ledger_seq s + 1\<rparr>"

lemma filter_unique:
  assumes "distinct (map f xs)" and "x \<in> set xs"
  shows "filter (\<lambda>y. f y = f x) xs = [x]"
  using assms by (induction xs) (auto simp: filter_empty_conv image_iff)

text \<open>Under the invariant the compare-and-swap never loses: it does exactly what \<open>apply_transition\<close> says.\<close>

lemma compare_and_append_tx_eq:
  assumes inv: "ledger_inv s"
  shows "compare_and_append_tx s ev =
    (case find_record s (ev_job_id ev) of
       None \<Rightarrow> Inl (StorageNotFound (ev_job_id ev))
     | Some r \<Rightarrow>
         if (ev_job_id ev, event_id ev) \<in> set (map (\<lambda>x. (led_job_id x, led_event_id x)) (ledger s))
         then Inl (StorageConflict ''ledger event_id replay is blocked'')
         else bindE (apply_transition r ev) (\<lambda>r'. Inr (r', cas_result s r r' ev)))"
proof (cases "find_record s (ev_job_id ev)")
  case None
  then show ?thesis by (simp add: compare_and_append_tx_def read_record_def)
next
  case (Some r)
  have r: "r \<in> set (records s)" "rec_job_id r = ev_job_id ev" "record_ok r"
    using ledger_inv_find_record [OF inv Some] by auto
  have rd: "read_record s (ev_job_id ev) = Inr r" using read_record_Inr_iff [OF inv] Some by simp
  have dist: "distinct (map rec_job_id (records s))" using inv by (simp add: ledger_inv_def)
  have job: "rec_job_id r \<in> set (job_ids s)" using inv r(1) by (force simp: ledger_inv_def job_ids_def)
  show ?thesis
  proof (cases "apply_transition r ev")
    case (Inl e)
    with Some rd show ?thesis by (simp add: compare_and_append_tx_def)
  next
    case (Inr r')
    then have r': "r' = advance r ev" by (simp add: apply_transition_Inr_iff)
    let ?hit = "\<lambda>x. rec_job_id x = rec_job_id r' \<and> rec_job_digest x = rec_job_digest r' \<and> revision x = revision r"
    have hit: "?hit x \<longleftrightarrow> rec_job_id x = rec_job_id r" if "x \<in> set (records s)" for x
      using that r(1) dist r' by (auto dest: distinct_map_unique)
    have one: "filter ?hit (records s) = [r]"
    proof -
      have "filter ?hit (records s) = filter (\<lambda>x. rec_job_id x = rec_job_id r) (records s)"
        by (rule filter_cong [OF refl]) (rule hit)
      with filter_unique [OF dist r(1)] show ?thesis by simp
    qed
    have upd: "map (\<lambda>x. if ?hit x then x\<lparr>state := state r', revision := revision r', execution_count := execution_count r',
        terminal_outcome := terminal_outcome r', rec_reason := rec_reason r', last_event_id := last_event_id r',
        last_changed_at := last_changed_at r'\<rparr> else x) (records s)
      = map (\<lambda>x. if rec_job_id x = rec_job_id r then r' else x) (records s)"
    proof (rule map_cong [OF refl])
      fix x assume x: "x \<in> set (records s)"
      show "(if ?hit x then x\<lparr>state := state r', revision := revision r', execution_count := execution_count r',
        terminal_outcome := terminal_outcome r', rec_reason := rec_reason r', last_event_id := last_event_id r',
        last_changed_at := last_changed_at r'\<rparr> else x) = (if rec_job_id x = rec_job_id r then r' else x)"
      proof (cases "rec_job_id x = rec_job_id r")
        case True
        then have "x = r" using x r(1) dist by (blast intro: distinct_map_unique)
        then show ?thesis by (simp add: r' advance_def)
      qed (use hit [OF x] in auto)
    qed
    have ids: "led_job_id (transition_entry r r' ev) = ev_job_id ev" "led_event_id (transition_entry r r' ev) = event_id ev"
      using r(2) by (simp_all add: transition_entry_def r')
    have ji: "job_ids (s\<lparr>records := z\<rparr>) = job_ids s" for z by (simp add: job_ids_def)
    show ?thesis
      unfolding compare_and_append_tx_def rd Some option.case bindE_simps Inr Let_def one upd insert_ledger_def insert_ledger_row_def ids ji
      using job r(2) by (simp add: cas_result_def)
  qed
qed


section \<open>Every operation keeps the invariant\<close>

lemma ledger_inv_cong:
  assumes "ledger_inv s" and "jobs s' = jobs s" and "records s' = records s" and "ledger s' = ledger s"
    and "ledger_seq s' = ledger_seq s"
  shows "ledger_inv s'"
  using assms by (simp add: ledger_inv_def job_ids_def ledger_of_def)

lemma cas_result_inv:
  assumes inv: "ledger_inv s" and r: "find_record s (ev_job_id ev) = Some r" and step: "apply_transition r ev = Inr r'"
  shows "ledger_inv (cas_result s r r' ev)"
proof -
  have r': "r' = advance r ev" using step by (simp add: apply_transition_Inr_iff)
  have ok: "record_ok r'" using apply_transition_ok [OF step] by simp
  have mem: "r \<in> set (records s)" using ledger_inv_find_record [OF inv r] by simp
  let ?s = "cas_result s r r' ev"
  let ?e = "(transition_entry r r' ev)\<lparr>sequence := ledger_seq s + 1\<rparr>"
  have e: "led_job_id ?e = rec_job_id r" by (simp add: transition_entry_def r')
  have keys: "map rec_job_id (records ?s) = map rec_job_id (records s)"
    unfolding cas_result_def by (simp add: r')
  have each: "record_ok x \<and> (\<exists>j\<in>set (jobs ?s). job_id (row_job j) = rec_job_id x \<and> job_digest (row_job j) = rec_job_digest x)
      \<and> history_of (ledger_of ?s (rec_job_id x)) x" if x: "x \<in> set (records ?s)" for x
  proof (cases "rec_job_id x = rec_job_id r")
    case True
    with x have xr: "x = r'" using r' by (auto simp: cas_result_def split: if_splits)
    have "history_of (ledger_of s (rec_job_id r) @ [?e]) r'"
      using ledger_inv_record [OF inv mem] step by (auto intro: history_of_step)
    moreover have "ledger_of ?s (rec_job_id x) = ledger_of s (rec_job_id r) @ [?e]"
      using True e by (simp add: ledger_of_def cas_result_def)
    moreover have "jobs ?s = jobs s" by (simp add: cas_result_def)
    ultimately show ?thesis using xr ok r' ledger_inv_job [OF inv mem] by simp
  next
    case False
    with x have "x \<in> set (records s)" using r' by (auto simp: cas_result_def split: if_splits)
    moreover have "ledger_of ?s (rec_job_id x) = ledger_of s (rec_job_id x)"
      using False e by (simp add: ledger_of_def cas_result_def)
    moreover have "jobs ?s = jobs s" by (simp add: cas_result_def)
    ultimately show ?thesis using ledger_inv_record [OF inv] ledger_inv_job [OF inv] by simp
  qed
  have led: "\<forall>y\<in>set (ledger ?s). led_job_id y \<in> set (map rec_job_id (records ?s))"
    unfolding keys using ledger_inv_ledger [OF inv] e mem by (auto simp: cas_result_def)
  have "sorted_wrt (<) (map sequence (ledger ?s)) \<and> (\<forall>y\<in>set (ledger ?s). sequence y \<le> ledger_seq ?s)"
    using inv by (auto simp: ledger_inv_def cas_result_def sorted_wrt_append)
  with each led show ?thesis
    unfolding ledger_inv_def [of ?s] keys using inv by (simp add: ledger_inv_def) (simp add: cas_result_def job_ids_def)
qed

lemma compare_and_append_tx_Inr:
  assumes "ledger_inv s"
  shows "compare_and_append_tx s ev = Inr (r', s') \<longleftrightarrow>
    (\<exists>r. find_record s (ev_job_id ev) = Some r
       \<and> (ev_job_id ev, event_id ev) \<notin> set (map (\<lambda>x. (led_job_id x, led_event_id x)) (ledger s))
       \<and> apply_transition r ev = Inr r' \<and> s' = cas_result s r r' ev)"
  unfolding compare_and_append_tx_eq [OF assms] by (cases "find_record s (ev_job_id ev)") (auto simp: bindE_Inr_iff)

lemma compare_and_append_tx_inv: "ledger_inv s \<Longrightarrow> compare_and_append_tx s ev = Inr (r', s') \<Longrightarrow> ledger_inv s'"
  by (auto simp: compare_and_append_tx_Inr intro: cas_result_inv)

lemma insert_job_inv: "ledger_inv s \<Longrightarrow> insert_job s job sub = Inr s' \<Longrightarrow> ledger_inv s'"
  by (auto simp: insert_job_def ledger_inv_def job_ids_def ledger_of_def split: if_splits)

lemma initial_plain: "is_initial r \<Longrightarrow> r\<lparr>terminal_outcome := None, rec_reason := None\<rparr> = r"
  by (auto simp: is_initial_def record_ok_iff state_valid_def)

lemma insert_record_Inr:
  "is_initial r \<Longrightarrow> insert_record_and_initial_ledger s r = Inr s' \<longleftrightarrow>
     rec_job_id r \<notin> set (map rec_job_id (records s)) \<and> rec_job_id r \<in> set (job_ids s)
     \<and> (rec_job_id r, last_event_id r) \<notin> set (map (\<lambda>x. (led_job_id x, led_event_id x)) (ledger s))
     \<and> s' = s\<lparr>records := records s @ [r], ledger := ledger s @ [(initial_entry r)\<lparr>sequence := ledger_seq s + 1\<rparr>],
              ledger_seq := ledger_seq s + 1\<rparr>"
  by (auto simp: insert_record_and_initial_ledger_def initial_plain insert_ledger_row_Inr job_ids_def initial_entry_def)

lemma insert_record_inv:
  assumes inv: "ledger_inv s" and ini: "is_initial r" and ins: "insert_record_and_initial_ledger s r = Inr s'"
    and job: "j \<in> set (jobs s)" "job_id (row_job j) = rec_job_id r" "job_digest (row_job j) = rec_job_digest r"
  shows "ledger_inv s'"
proof -
  let ?e = "(initial_entry r)\<lparr>sequence := ledger_seq s + 1\<rparr>"
  from ins have new: "rec_job_id r \<notin> set (map rec_job_id (records s))"
    and s': "jobs s' = jobs s" "records s' = records s @ [r]" "ledger s' = ledger s @ [?e]" "ledger_seq s' = ledger_seq s + 1"
    by (auto simp: insert_record_Inr [OF ini])
  have e: "led_job_id ?e = rec_job_id r" by (simp add: initial_entry_def)
  have "ledger_of s (rec_job_id r) = []"
  proof -
    have "led_job_id x \<noteq> rec_job_id r" if "x \<in> set (ledger s)" for x
      using ledger_inv_ledger [OF inv that] new by (metis image_set)
    then show ?thesis by (simp add: ledger_of_def filter_empty_conv)
  qed
  then have "ledger_of s' (rec_job_id r) = [?e]" using e by (simp add: ledger_of_def s')
  then have "history_of (ledger_of s' (rec_job_id r)) r" using ini by (auto intro: history_of_initial)
  moreover have "ledger_of s' (rec_job_id x) = ledger_of s (rec_job_id x)" if "x \<in> set (records s)" for x
    using that new e by (auto simp: ledger_of_def s')
  moreover have "sorted_wrt (<) (map sequence (ledger s')) \<and> (\<forall>y\<in>set (ledger s'). sequence y \<le> ledger_seq s')"
    using inv by (auto simp: ledger_inv_def s' sorted_wrt_append)
  ultimately show ?thesis
    using inv new ini job e by (auto simp: ledger_inv_def s' job_ids_def is_initial_def)
qed


lemma initial_record_is_initial: "initial_record job eid at = Inr r \<Longrightarrow> is_initial r"
  using initial_record_Inr by (simp add: is_initial_def)

lemma insert_receipt_core:
  "insert_receipt s a = Inr s' \<Longrightarrow> jobs s' = jobs s \<and> records s' = records s \<and> ledger s' = ledger s
     \<and> ledger_seq s' = ledger_seq s \<and> raw_receipts s' = raw_receipts s \<and> quarantine s' = quarantine s"
  by (auto simp: insert_receipt_def Let_def split: if_splits)

lemma publish_tx_core:
  "publish_tx env s a = Inr s' \<Longrightarrow> jobs s' = jobs s \<and> records s' = records s \<and> ledger s' = ledger s
     \<and> ledger_seq s' = ledger_seq s \<and> raw_receipts s' = raw_receipts s \<and> quarantine s' = quarantine s"
  by (auto simp: publish_tx_def result_simps dest: insert_receipt_core)

lemma publish_tx_inv: "ledger_inv s \<Longrightarrow> publish_tx env s a = Inr s' \<Longrightarrow> ledger_inv s'"
  by (drule publish_tx_core) (auto intro: ledger_inv_cong)

lemma insert_raw_inv: "ledger_inv s \<Longrightarrow> insert_raw s raw = Inr s' \<Longrightarrow> ledger_inv s'"
  by (auto simp: insert_raw_def split: if_splits intro: ledger_inv_cong)

text \<open>A transaction keeps what its body keeps, and leaves the store alone when the body raises.\<close>

lemma transaction_keeps:
  "P s \<Longrightarrow> (\<And>x s'. m = Inr (x, s') \<Longrightarrow> P s') \<Longrightarrow> P (snd (transaction s m))"
  by (auto simp: transaction_def split: sum.splits)

lemma transaction_Inl: "fst (transaction s m) = Inl e \<Longrightarrow> snd (transaction s m) = s"
  by (auto simp: transaction_def split: sum.splits)

lemma transaction_Inr: "transaction s m = (Inr x, s') \<longleftrightarrow> m = Inr (x, s')"
  by (auto simp: transaction_def split: sum.splits)

lemma transaction_keeps_value:
  "P s \<Longrightarrow> (\<And>x s'. transaction s m = (Inr x, s') \<Longrightarrow> P s') \<Longrightarrow> P (snd (transaction s m))"
  by (auto simp: transaction_def split: sum.splits)

lemma read_job_Inr:
  "read_job env s jid = Inr job \<Longrightarrow> \<exists>j\<in>set (jobs s). row_job j = job \<and> job_id job = jid \<and> verify_job env job = Inr ()"
  by (auto simp: read_job_def find_job_def result_simps dest!: find_SomeD)

text \<open>What an admitted and a blocked submission leave behind.\<close>

lemma seal_with_lineage_admission_Inr:
  assumes "seal_with_lineage_admission env s job eid at ev a sub limits policy = (Inr (r, adm), s')"
  obtains pending summary s1 s2 where "verify_job env job = Inr ()" "verify_receipt env a = Inr ()"
    "initial_record job eid at = Inr pending"
    "validate_submission sub limits = Inr ()" "enforce_submission_limits s job sub limits = Inr ()"
    "lineage_summary s (lineage_id job) (broker_received_at sub) policy = Inr summary"
    "insert_job s job sub = Inr s1" "insert_record_and_initial_ledger s1 pending = Inr s2"
    "(if maximum_technical_failures policy \<le> technical_failure_count summary
      then check_circuit_notice env job ev a policy = Inr ()
        \<and> (\<exists>s3. compare_and_append_tx s2 ev = Inr (r, s3) \<and> publish_tx env s3 a = Inr s')
        \<and> adm = \<lparr>allowed = False, adm_reason = Some (circuit_reason_code policy), adm_summary = summary\<rparr>
      else r = pending \<and> s' = s2 \<and> adm = \<lparr>allowed = True, adm_reason = None, adm_summary = summary\<rparr>)"
proof -
  from assms show thesis
    unfolding seal_with_lineage_admission_def transaction_Inr Let_def bindE_Inr_iff [where 'b = unit] bindE_Inr_iff
    apply (elim exE conjE)
    subgoal for u v pending w x y summary z s1 s2
      by (rule that [of pending summary s1 s2])
        (cases "maximum_technical_failures policy \<le> technical_failure_count summary"; clarsimp simp: bindE_Inr_iff)+
    done
qed


text \<open>The result of an accepted creation of a record.\<close>

definition matching_job :: "store \<Rightarrow> JobRecord \<Rightarrow> bool" where
  "matching_job s r \<longleftrightarrow> (\<exists>j\<in>set (jobs s). job_id (row_job j) = rec_job_id r \<and> job_digest (row_job j) = rec_job_digest r)"

lemma create_pending_Inr:
  assumes "create_pending env s r = (Inr u, s')"
  shows "is_initial r \<and> matching_job s r \<and> insert_record_and_initial_ledger s r = Inr s'"
  using assms unfolding create_pending_def transaction_Inr matching_job_def
  by (auto simp: result_simps is_initial_def dest!: read_job_Inr)

section \<open>The operations as sequences of primitive steps\<close>

text \<open>
  Every operation on the job tables runs the six primitive steps, in some order, inside one
  transaction. A preorder on stores that contains the primitive steps therefore contains
  every operation; each invariant of the store is an instance.
\<close>

locale store_preorder =
  fixes env :: pyenv and R :: "store \<Rightarrow> store \<Rightarrow> bool"
  assumes R_refl: "R s s"
    and R_trans: "R s s1 \<Longrightarrow> R s1 s2 \<Longrightarrow> R s s2"
    and R_job: "verify_job env job = Inr () \<Longrightarrow> insert_job s job sub = Inr s' \<Longrightarrow> R s s'"
    and R_record: "is_initial r \<Longrightarrow> matching_job s r \<Longrightarrow> insert_record_and_initial_ledger s r = Inr s' \<Longrightarrow> R s s'"
    and R_cas: "compare_and_append_tx s ev = Inr (r', s') \<Longrightarrow> R s s'"
    and R_raw: "insert_raw s raw = Inr s' \<Longrightarrow> R s s'"
    and R_publish: "verify_receipt env a = Inr () \<Longrightarrow> publish_tx env s a = Inr s' \<Longrightarrow> R s s'"
    and R_quarantine: "R s (s\<lparr>quarantine := quarantine s @ [q]\<rparr>)"
begin

lemma R_seal:
  assumes "verify_job env job = Inr ()" and "initial_record job eid at = Inr r" and "insert_job s job sub = Inr s1"
    and "insert_record_and_initial_ledger s1 r = Inr s2"
  shows "R s s2"
proof -
  have "matching_job s1 r"
    using assms(3) initial_record_Inr [OF assms(2)] by (auto simp: insert_job_def matching_job_def split: if_splits)
  with assms show ?thesis by (blast intro: R_trans R_job R_record initial_record_is_initial)
qed

lemma put_if_absent_R: "R s (snd (put_if_absent env s job))"
  unfolding put_if_absent_def
  by (rule transaction_keeps) (auto simp: result_simps R_refl intro: R_job)

lemma create_pending_R: "R s (snd (create_pending env s r))"
  unfolding create_pending_def
  by (rule transaction_keeps_value [where P = "R s", OF R_refl], fold create_pending_def)
    (auto dest!: create_pending_Inr intro: R_record)

lemma seal_pending_R: "R s (snd (seal_pending env s job eid at submission limits))"
  unfolding seal_pending_def Let_def
  by (rule transaction_keeps) (auto simp: bindE_Inr_iff R_refl elim: R_seal)

lemma seal_rejected_R: "R s (snd (seal_rejected env s job eid at ev a sub limits))"
  unfolding seal_rejected_def
proof (rule transaction_keeps [where P = "R s", OF R_refl], clarsimp simp: bindE_Inr_iff)
  fix pending s1 s2 r s3 s4
  assume *: "verify_job env job = Inr ()" "verify_receipt env a = Inr ()" "initial_record job eid at = Inr pending"
    "insert_job s job sub = Inr s1" "insert_record_and_initial_ledger s1 pending = Inr s2"
    "compare_and_append_tx s2 ev = Inr (r, s3)" "publish_tx env s3 a = Inr s4"
  have "R s s2" using R_seal * by blast
  moreover have "R s2 s3" using R_cas * by blast
  moreover have "R s3 s4" using R_publish * by blast
  ultimately show "R s s4" by (blast intro: R_trans)
qed

lemma seal_with_lineage_admission_R:
  "R s (snd (seal_with_lineage_admission env s job eid at ev a sub limits policy))"
proof -
  have "R s s'" if r: "seal_with_lineage_admission env s job eid at ev a sub limits policy = (Inr x, s')" for x s'
  proof -
    obtain r adm where x: "x = (r, adm)" by (cases x)
    show ?thesis
    proof (rule seal_with_lineage_admission_Inr [OF r [unfolded x]])
      fix pending summary s1 s2
      assume st: "verify_job env job = Inr ()" "initial_record job eid at = Inr pending" "insert_job s job sub = Inr s1"
        "insert_record_and_initial_ledger s1 pending = Inr s2" and ver: "verify_receipt env a = Inr ()"
        and last: "if maximum_technical_failures policy \<le> technical_failure_count summary
          then check_circuit_notice env job ev a policy = Inr ()
            \<and> (\<exists>s3. compare_and_append_tx s2 ev = Inr (r, s3) \<and> publish_tx env s3 a = Inr s')
            \<and> adm = \<lparr>allowed = False, adm_reason = Some (circuit_reason_code policy), adm_summary = summary\<rparr>
          else r = pending \<and> s' = s2 \<and> adm = \<lparr>allowed = True, adm_reason = None, adm_summary = summary\<rparr>"
      have s2: "R s s2" using R_seal [OF st] .
      show ?thesis
      proof (cases "maximum_technical_failures policy \<le> technical_failure_count summary")
        case True
        with last obtain s3 where "compare_and_append_tx s2 ev = Inr (r, s3)" "publish_tx env s3 a = Inr s'" by auto
        then have "R s2 s3" "R s3 s'" using R_cas R_publish ver by blast+
        with s2 show ?thesis by (blast intro: R_trans)
      qed (use last s2 in simp)
    qed
  qed
  then show ?thesis
    unfolding seal_with_lineage_admission_def by (rule transaction_keeps_value [where P = "R s", OF R_refl])
qed

lemma compare_and_append_R: "R s (snd (compare_and_append s ev))"
  unfolding compare_and_append_def
  by (rule transaction_keeps) (auto simp: R_refl intro: R_cas)

lemma put_raw_if_absent_R: "R s (snd (put_raw_if_absent env s raw))"
  unfolding put_raw_if_absent_def
  by (rule transaction_keeps) (auto simp: bindE_Inr_iff R_refl intro: R_raw)

lemma publish_if_absent_R: "R s (snd (publish_if_absent env s a))"
  unfolding publish_if_absent_def
  by (rule transaction_keeps) (auto simp: bindE_Inr_iff R_refl intro: R_publish)

lemma finalize_R: "finalize_claimed_execution env s ev raw a = Inr (r, s') \<Longrightarrow> R s s'"
  unfolding finalize_claimed_execution_def Let_def
proof (clarsimp simp: bindE_Inr_iff)
  fix s1 s2
  assume "verify_receipt env a = Inr ()" "insert_raw s raw = Inr s1" "compare_and_append_tx s1 ev = Inr (r, s2)"
    "publish_tx env s2 a = Inr s'"
  then have "R s s1" "R s1 s2" "R s2 s'" using R_raw R_cas R_publish by blast+
  then show "R s s'" by (blast intro: R_trans)
qed

lemma complete_claimed_execution_R: "R s (snd (complete_claimed_execution env s ev raw a))"
  unfolding complete_claimed_execution_def
  by (rule transaction_keeps) (auto simp: bindE_Inr_iff R_refl intro: finalize_R)

lemma mark_claimed_execution_unknown_R: "R s (snd (mark_claimed_execution_unknown env s ev raw a))"
  unfolding mark_claimed_execution_unknown_def
  by (rule transaction_keeps) (auto simp: bindE_Inr_iff R_refl intro: finalize_R)

lemma quarantine_if_absent_R: "R s (snd (quarantine_if_absent env s q))"
  unfolding quarantine_if_absent_def Let_def
proof (rule transaction_keeps [where P = "R s", OF R_refl], clarsimp simp: bindE_Inr_iff split: if_split_asm)
  fix s1 assume "verify_receipt env (notice q) = Inr ()" "publish_tx env s (notice q) = Inr s1"
  then have "R s s1" by (rule R_publish)
  then show "R s (s1\<lparr>quarantine := quarantine s1 @ [\<lparr>q_job_id = rc_job_id (notice q), q_digest = receipt_digest (notice q),
      q_storage_id = root_storage_id (raw_reference q)\<rparr>]\<rparr>)"
    by (blast intro: R_trans R_quarantine)
qed

end

section \<open>The store only grows\<close>

text \<open>Jobs and ledger rows are appended, never changed; a record keeps its identity and only moves forward.\<close>

definition record_le :: "JobRecord \<Rightarrow> JobRecord \<Rightarrow> bool" where
  "record_le r r' \<longleftrightarrow> rec_job_id r' = rec_job_id r \<and> rec_job_digest r' = rec_job_digest r \<and> revision r \<le> revision r'
     \<and> execution_count r \<le> execution_count r' \<and> last_changed_at r \<le> last_changed_at r'
     \<and> (state r \<noteq> PENDING \<longrightarrow> state r' \<noteq> PENDING)
     \<and> (state r = UNKNOWN \<longrightarrow> state r' = UNKNOWN \<or> state r' = TERMINAL) \<and> (state r = TERMINAL \<longrightarrow> r' = r)"

definition grows :: "store \<Rightarrow> store \<Rightarrow> bool" where
  "grows s s' \<longleftrightarrow> (\<exists>js. jobs s' = jobs s @ js) \<and> (\<exists>es. ledger s' = ledger s @ es) \<and> ledger_seq s \<le> ledger_seq s'
     \<and> (\<forall>r\<in>set (records s). \<exists>r'\<in>set (records s'). record_le r r')"

definition evolves :: "store \<Rightarrow> store \<Rightarrow> bool" where
  "evolves s s' \<longleftrightarrow> (ledger_inv s \<longrightarrow> ledger_inv s' \<and> grows s s')"

lemma record_le_refl [simp, intro]: "record_le r r"
  by (simp add: record_le_def)

lemma record_le_trans: "record_le r r1 \<Longrightarrow> record_le r1 r2 \<Longrightarrow> record_le r r2"
  by (auto simp: record_le_def)

lemma apply_transition_le:
  assumes "apply_transition r ev = Inr r'"
  shows "record_le r r'"
proof -
  from assms have r: "record_ok r" "accepts r ev" "r' = advance r ev" by (auto simp: apply_transition_Inr_iff)
  from r(1) have "state_valid r" by (simp add: record_ok_iff)
  with r show ?thesis
    by (cases "ev_kind ev") (auto simp: record_le_def accepts_def kind_defs state_valid_def split: if_splits)
qed

lemma grows_intro:
  "jobs s' = jobs s @ js \<Longrightarrow> ledger s' = ledger s @ es \<Longrightarrow> ledger_seq s \<le> ledger_seq s' \<Longrightarrow> set (records s) \<subseteq> set (records s') \<Longrightarrow> grows s s'"
  unfolding grows_def using record_le_refl by blast

lemma grows_refl: "grows s s"
  by (rule grows_intro [where js = "[]" and es = "[]"]) auto

lemma grows_trans: "grows s s1 \<Longrightarrow> grows s1 s2 \<Longrightarrow> grows s s2"
  unfolding grows_def
  by (elim conjE exE, intro conjI)
    (simp, simp, simp, meson record_le_trans)

lemma grows_same: "jobs s' = jobs s \<Longrightarrow> ledger s' = ledger s \<Longrightarrow> records s' = records s \<Longrightarrow> ledger_seq s' = ledger_seq s \<Longrightarrow> grows s s'"
  by (rule grows_intro [where js = "[]" and es = "[]"]) auto

lemma cas_grows:
  assumes inv: "ledger_inv s" and cas: "compare_and_append_tx s ev = Inr (r', s')"
  shows "grows s s'"
proof -
  from cas obtain r where r: "find_record s (ev_job_id ev) = Some r" "apply_transition r ev = Inr r'" "s' = cas_result s r r' ev"
    by (auto simp: compare_and_append_tx_Inr [OF inv])
  have mem: "r \<in> set (records s)" using ledger_inv_find_record [OF inv r(1)] by simp
  have dist: "distinct (map rec_job_id (records s))" using inv by (simp add: ledger_inv_def)
  have "\<exists>y\<in>set (records s'). record_le x y" if x: "x \<in> set (records s)" for x
  proof (cases "rec_job_id x = rec_job_id r")
    case True
    then have "x = r" using distinct_map_unique [OF dist x mem] by simp
    then show ?thesis using apply_transition_le [OF r(2)] x r(3) by (force simp: cas_result_def)
  next
    case False
    then have "x \<in> set (records s')" using x r(3) by (force simp: cas_result_def)
    then show ?thesis by (blast intro: record_le_refl)
  qed
  then show ?thesis by (simp add: grows_def r(3)) (simp add: cas_result_def)
qed

interpretation ev: store_preorder env evolves
proof
  fix s show "evolves s s" by (simp add: evolves_def grows_refl)
  fix s1 s2 show "evolves s s1 \<Longrightarrow> evolves s1 s2 \<Longrightarrow> evolves s s2" by (auto simp: evolves_def intro: grows_trans)
  fix s' job sub show "insert_job s job sub = Inr s' \<Longrightarrow> evolves s s'"
    by (auto simp: evolves_def insert_job_inv) (auto simp: insert_job_def split: if_splits intro: grows_intro [where es = "[]"])
  fix r show "is_initial r \<Longrightarrow> matching_job s r \<Longrightarrow> insert_record_and_initial_ledger s r = Inr s' \<Longrightarrow> evolves s s'"
    by (auto simp: evolves_def matching_job_def insert_record_inv)
      (auto simp: insert_record_Inr intro: grows_intro [where js = "[]"])
  fix r' ev show "compare_and_append_tx s ev = Inr (r', s') \<Longrightarrow> evolves s s'"
    by (simp add: evolves_def compare_and_append_tx_inv cas_grows)
  fix raw show "insert_raw s raw = Inr s' \<Longrightarrow> evolves s s'"
    by (auto simp: evolves_def insert_raw_inv) (auto simp: insert_raw_def split: if_splits intro: grows_same)
  fix a show "publish_tx env s a = Inr s' \<Longrightarrow> evolves s s'"
    by (auto simp: evolves_def publish_tx_inv) (drule publish_tx_core, auto intro: grows_same)
  fix q show "evolves s (s\<lparr>quarantine := quarantine s @ [q]\<rparr>)"
    by (auto simp: evolves_def intro: ledger_inv_cong grows_same)
qed

end
