(* ===== verification/Auth_Store.thy ===== *)
theory Auth_Store
  imports Store_Invariant
begin

text \<open>
  The authorization tables of the store (\<open>root_actions/posix_store.py\<close>): bootstrap sessions,
  credentials, WebAuthn ceremonies and approvals. A row is read back through the constructor of
  its class, so reading runs the checks of \<open>Authorization\<close> again. The arguments of the operations
  are objects that passed those checks when they were built. The update that sets the
  credential fingerprint of a ceremony satisfies its foreign key, because the credential was
  inserted or read in the same transaction.
\<close>

section \<open>Rows\<close>

definition bootstrap_from_row :: "BootstrapSession \<Rightarrow> BootstrapSession result" where
  "bootstrap_from_row b = bindE (bootstrap_post_init b) (\<lambda>_. Inr b)"

definition bootstrap_by_token :: "store \<Rightarrow> string \<Rightarrow> BootstrapSession result" where
  "bootstrap_by_token s digest =
     (case List.find (\<lambda>b. token_digest b = digest) (bootstraps s) of
        None \<Rightarrow> Inl (StorageNotFound ''bootstrap'')
      | Some b \<Rightarrow> bootstrap_from_row b)"

definition read_auth_bootstrap :: "store \<Rightarrow> string \<Rightarrow> BootstrapSession result" where
  "read_auth_bootstrap s bid =
     (case List.find (\<lambda>b. bootstrap_id b = bid) (bootstraps s) of
        None \<Rightarrow> Inl (StorageNotFound bid)
      | Some b \<Rightarrow> bootstrap_from_row b)"

definition read_auth_bootstrap_by_token :: "store \<Rightarrow> string \<Rightarrow> BootstrapSession result" where
  "read_auth_bootstrap_by_token s digest = bootstrap_by_token s digest"

definition credential_from_row :: "credential_row \<Rightarrow> RegisteredCredential result" where
  "credential_from_row row =
     bindE (credential_post_init (row_credential row)) (\<lambda>_.
     bindE (raise_if (fingerprint (row_credential row) \<noteq> row_fingerprint row)
              (StorageConflict ''credential fingerprint metadata mismatch'')) (\<lambda>_.
     Inr (row_credential row)))"

definition read_credential :: "store \<Rightarrow> string \<Rightarrow> RegisteredCredential result" where
  "read_credential s cid =
     (case List.find (\<lambda>row. credential_id (row_credential row) = cid) (credentials s) of
        None \<Rightarrow> Inl (StorageNotFound ''credential'')
      | Some row \<Rightarrow> credential_from_row row)"

definition is_active :: "credential_row \<Rightarrow> bool" where
  "is_active row \<longleftrightarrow> revoked_at (row_credential row) = None"

text \<open>Primary key, unique fingerprint, one active credential per label.\<close>

definition insert_credential :: "store \<Rightarrow> RegisteredCredential \<Rightarrow> store result" where
  "insert_credential s c =
     (if credential_id c \<in> set (map (\<lambda>row. credential_id (row_credential row)) (credentials s))
         \<or> fingerprint c \<in> set (map row_fingerprint (credentials s))
         \<or> (revoked_at c = None \<and> cred_label c \<in> set (map (\<lambda>row. cred_label (row_credential row)) (filter is_active (credentials s))))
      then Inl (StorageConflict ''credential or active label already exists'')
      else Inr (s\<lparr>credentials := credentials s @ [\<lparr>row_credential = c, row_fingerprint = fingerprint c\<rparr>]\<rparr>))"

definition active_credentials :: "store \<Rightarrow> CredentialRole \<Rightarrow> RegisteredCredential list result" where
  "active_credentials s role =
     mapE credential_from_row
       (sort_key (\<lambda>row. [registered_at (row_credential row), row_fingerprint row])
          (filter (\<lambda>row. cred_role (row_credential row) = role \<and> is_active row) (credentials s)))"

definition read_ceremony :: "store \<Rightarrow> string \<Rightarrow> PendingCeremony result" where
  "read_ceremony s cid =
     (case List.find (\<lambda>c. ceremony_id c = cid) (ceremonies s) of
        None \<Rightarrow> Inl (StorageNotFound cid)
      | Some c \<Rightarrow> bindE (ceremony_post_init c) (\<lambda>_. Inr c))"

text \<open>A nullable foreign key: null or the key of a row.\<close>

definition refers :: "'a option \<Rightarrow> 'a list \<Rightarrow> bool" where
  "refers k ks = (case k of None \<Rightarrow> True | Some x \<Rightarrow> x \<in> set ks)"

definition insert_ceremony :: "store \<Rightarrow> PendingCeremony \<Rightarrow> store result" where
  "insert_ceremony s c =
     (if ceremony_id c \<in> set (map ceremony_id (ceremonies s))
         \<or> challenge_digest c \<in> set (map challenge_digest (ceremonies s))
         \<or> \<not> refers (cer_job_id c) (job_ids s)
         \<or> \<not> refers (cer_bootstrap_id c) (map bootstrap_id (bootstraps s))
         \<or> \<not> refers (cer_fingerprint c) (map row_fingerprint (credentials s))
      then Inl (StorageConflict ''ceremony identity already exists'')
      else Inr (s\<lparr>ceremonies := ceremonies s @ [c]\<rparr>))"

section \<open>Bootstrap and registration\<close>

definition insert_bootstrap :: "store \<Rightarrow> BootstrapSession \<Rightarrow> store result" where
  "insert_bootstrap s b =
     (if bootstrap_id b \<in> set (map bootstrap_id (bootstraps s)) \<or> token_digest b \<in> set (map token_digest (bootstraps s))
      then Inl (StorageConflict ''bootstrap identity already exists'')
      else Inr (s\<lparr>bootstraps := bootstraps s @ [b]\<rparr>))"

definition create_auth_bootstrap :: "store \<Rightarrow> BootstrapSession \<Rightarrow> unit result \<times> store" where
  "create_auth_bootstrap s session = transaction s
     (bindE (raise_if (boot_state session \<noteq> BOOTSTRAP_ISSUED) (StorageConflict ''new bootstrap session must be issued'')) (\<lambda>_.
      let existing = sort_key (\<lambda>b. [boot_issued_at b, bootstrap_id b]) (bootstraps s) in
      bindE (if existing \<noteq> [] then
               (if length existing \<noteq> 1 \<or> credentials s \<noteq> [] \<or> ceremonies s \<noteq> []
                   \<or> boot_state (hd existing) = BOOTSTRAP_CONSUMED
                then Inl (StorageConflict ''initial bootstrap has already been created'')
                else Inr (s\<lparr>bootstraps := map (\<lambda>b. if bootstrap_id b = bootstrap_id (hd existing)
                       \<and> boot_state b \<in> {BOOTSTRAP_ISSUED, BOOTSTRAP_EXPIRED} then b\<lparr>boot_state := BOOTSTRAP_EXPIRED\<rparr> else b)
                     (bootstraps s)\<rparr>))
             else Inr s) (\<lambda>s1.
      bindE (insert_bootstrap s1 session) (\<lambda>s2. Inr ((), s2)))))"

definition issue_registration_ceremony :: "store \<Rightarrow> string \<Rightarrow> PendingCeremony \<Rightarrow> unit result \<times> store" where
  "issue_registration_ceremony s digest ceremony = transaction s
     (bindE (raise_if (purpose ceremony \<noteq> PURPOSE_REGISTRATION \<or> cer_state ceremony \<noteq> CEREMONY_ISSUED)
               (StorageConflict ''registration ceremony is invalid'')) (\<lambda>_.
      bindE (bootstrap_by_token s digest) (\<lambda>b.
      bindE (raise_if (Some (bootstrap_id b) \<noteq> cer_bootstrap_id ceremony \<or> boot_state b \<noteq> BOOTSTRAP_ISSUED
                       \<or> remaining_registrations b < 1 \<or> boot_expires_at b \<le> cer_issued_at ceremony
                       \<or> boot_expires_at b < cer_expires_at ceremony)
               (StorageConflict ''bootstrap does not authorize this registration'')) (\<lambda>_.
      bindE (raise_if (list_ex (\<lambda>c. cer_bootstrap_id c = Some (bootstrap_id b) \<and> cer_state c = CEREMONY_ISSUED
                         \<and> cer_issued_at ceremony \<le> cer_expires_at c) (ceremonies s))
               (StorageConflict ''bootstrap already has an issued ceremony'')) (\<lambda>_.
      bindE (insert_ceremony s ceremony) (\<lambda>s'. Inr ((), s')))))))"

text \<open>\<open>UPDATE root_action_auth_ceremonies SET state='consumed' \<dots> WHERE ceremony_id=? AND state='issued'\<close>\<close>

definition consume_ceremony :: "store \<Rightarrow> string \<Rightarrow> string \<Rightarrow> string \<Rightarrow> exn \<Rightarrow> store result" where
  "consume_ceremony s cid at fp race =
     (let hit = (\<lambda>c. ceremony_id c = cid \<and> cer_state c = CEREMONY_ISSUED) in
      if length (filter hit (ceremonies s)) \<noteq> 1 then Inl race
      else Inr (s\<lparr>ceremonies := map (\<lambda>c. if hit c
             then c\<lparr>cer_state := CEREMONY_CONSUMED, consumed_at := Some at, cer_fingerprint := Some fp\<rparr> else c) (ceremonies s)\<rparr>))"

text \<open>\<open>UPDATE root_action_auth_bootstrap SET remaining_registrations=?, state=? \<dots>\<close>\<close>

definition count_registration :: "store \<Rightarrow> BootstrapSession \<Rightarrow> store result" where
  "count_registration s b =
     (let remaining = remaining_registrations b - 1;
          st = (if remaining = 0 then BOOTSTRAP_CONSUMED else BOOTSTRAP_ISSUED);
          hit = (\<lambda>x. bootstrap_id x = bootstrap_id b \<and> boot_state x = BOOTSTRAP_ISSUED
                   \<and> remaining_registrations x = remaining_registrations b) in
      if length (filter hit (bootstraps s)) \<noteq> 1 then Inl (StorageConflict ''bootstrap registration counter race'')
      else Inr (s\<lparr>bootstraps := map (\<lambda>x. if hit x
             then x\<lparr>remaining_registrations := remaining, boot_state := st\<rparr> else x) (bootstraps s)\<rparr>))"

definition complete_registration ::
  "store \<Rightarrow> string \<Rightarrow> string \<Rightarrow> RegisteredCredential \<Rightarrow> string \<Rightarrow> RegisteredCredential result \<times> store" where
  "complete_registration s digest cid cred at = transaction s
     (bindE (read_ceremony s cid) (\<lambda>c.
      bindE (raise_if (purpose c \<noteq> PURPOSE_REGISTRATION \<or> cer_state c \<noteq> CEREMONY_ISSUED \<or> cer_expires_at c \<le> at
                       \<or> cer_bootstrap_id c = None \<or> cer_role c \<noteq> Some (cred_role cred) \<or> cer_label c \<noteq> Some (cred_label cred))
               (StorageConflict ''registration ceremony cannot be consumed'')) (\<lambda>_.
      bindE (bootstrap_by_token s digest) (\<lambda>b.
      bindE (raise_if (Some (bootstrap_id b) \<noteq> cer_bootstrap_id c \<or> boot_state b \<noteq> BOOTSTRAP_ISSUED
                       \<or> remaining_registrations b < 1 \<or> boot_expires_at b \<le> at)
               (StorageConflict ''bootstrap is not active for registration'')) (\<lambda>_.
      bindE (insert_credential s cred) (\<lambda>s1.
      bindE (consume_ceremony s1 (ceremony_id c) at (fingerprint cred)
               (StorageConflict ''registration ceremony consumption race'')) (\<lambda>s2.
      bindE (count_registration s2 b) (\<lambda>s3.
      Inr (cred, s3)))))))))"

section \<open>Approval\<close>

definition issue_approval_ceremony :: "store \<Rightarrow> PendingCeremony \<Rightarrow> unit result \<times> store" where
  "issue_approval_ceremony s ceremony = transaction s
     (case (cer_job_id ceremony, cer_job_digest ceremony) of
        (Some jid, Some jd) \<Rightarrow>
          bindE (raise_if (purpose ceremony \<noteq> PURPOSE_APPROVAL \<or> cer_state ceremony \<noteq> CEREMONY_ISSUED)
                   (StorageConflict ''approval ceremony is invalid'')) (\<lambda>_.
          bindE (read_record s jid) (\<lambda>r.
          bindE (raise_if (rec_job_digest r \<noteq> jd \<or> state r \<noteq> PENDING \<or> execution_count r \<noteq> 0)
                   (StorageConflict ''only the exact pending job can request approval'')) (\<lambda>_.
          bindE (raise_if (\<not> list_ex (\<lambda>row. cred_role (row_credential row) = ROLE_APPROVAL \<and> is_active row) (credentials s))
                   (StorageConflict ''no active approval credential is enrolled'')) (\<lambda>_.
          let s1 = s\<lparr>ceremonies := map (\<lambda>c. if purpose c = PURPOSE_APPROVAL \<and> cer_state c = CEREMONY_ISSUED
                        \<and> cer_expires_at c \<le> cer_issued_at ceremony
                      then c\<lparr>cer_state := CEREMONY_EXPIRED, consumed_at := Some (cer_issued_at ceremony)\<rparr> else c) (ceremonies s)\<rparr> in
          bindE (insert_ceremony s1 ceremony) (\<lambda>s2. Inr ((), s2))))))
      | _ \<Rightarrow> Inl (StorageConflict ''approval ceremony is invalid''))"

definition insert_approval :: "store \<Rightarrow> ApprovalRecord \<Rightarrow> store result" where
  "insert_approval s a =
     (if approval_id a \<in> set (map approval_id (approvals s)) \<or> ap_ceremony_id a \<in> set (map ap_ceremony_id (approvals s))
         \<or> ap_ceremony_id a \<notin> set (map ceremony_id (ceremonies s)) \<or> ap_job_id a \<notin> set (job_ids s)
         \<or> ap_fingerprint a \<notin> set (map row_fingerprint (credentials s))
      then Inl (StorageConflict ''approval identity already exists'')
      else Inr (s\<lparr>approvals := approvals s @ [a\<lparr>ap_user_verified := True\<rparr>]\<rparr>))"

text \<open>The contract tested before the transaction opens.\<close>

definition approval_contract ::
  "PendingCeremony \<Rightarrow> RegisteredCredential \<Rightarrow> VerifiedAssertion \<Rightarrow> ApprovalRecord \<Rightarrow> TransitionEvent \<Rightarrow> bool" where
  "approval_contract c cred v a ev \<longleftrightarrow>
     purpose c = PURPOSE_APPROVAL \<and> cer_state c = CEREMONY_ISSUED
     \<and> cred_role cred = ROLE_APPROVAL \<and> revoked_at cred = None
     \<and> va_credential_id v = credential_id cred \<and> va_user_verified v \<and> va_device_type v = device_type cred
     \<and> ap_origin a = va_origin v \<and> ap_rp_id a = va_rp_id v
     \<and> ap_ceremony_id a = ceremony_id c \<and> Some (ap_job_id a) = cer_job_id c \<and> Some (ap_job_digest a) = cer_job_digest c
     \<and> ap_fingerprint a = fingerprint cred \<and> ap_sign_count a = new_sign_count v \<and> ap_user_verified a
     \<and> kind_value (ev_kind ev) = ''claim_execution''
     \<and> Some (ev_job_id ev) = cer_job_id c \<and> Some (ev_job_digest ev) = cer_job_digest c"

definition update_counter :: "store \<Rightarrow> RegisteredCredential \<Rightarrow> VerifiedAssertion \<Rightarrow> store result" where
  "update_counter s cred v =
     (let hit = (\<lambda>row. credential_id (row_credential row) = credential_id cred
                  \<and> sign_count (row_credential row) = sign_count cred \<and> is_active row) in
      if length (filter hit (credentials s)) \<noteq> 1
      then Inl (StorageConflict ''credential counter compare-and-swap failed'')
      else Inr (s\<lparr>credentials := map (\<lambda>row. if hit row then row\<lparr>row_credential :=
             (row_credential row)\<lparr>sign_count := new_sign_count v, backed_up := va_backed_up v\<rparr>\<rparr> else row) (credentials s)\<rparr>))"

definition claim_with_approval ::
  "store \<Rightarrow> PendingCeremony \<Rightarrow> RegisteredCredential \<Rightarrow> VerifiedAssertion \<Rightarrow> ApprovalRecord \<Rightarrow> TransitionEvent
     \<Rightarrow> JobRecord result \<times> store" where
  "claim_with_approval s ceremony cred v a ev = transaction s
     (bindE (raise_if (\<not> approval_contract ceremony cred v a ev) (StorageConflict ''approval claim contract is invalid'')) (\<lambda>_.
      bindE (read_ceremony s (ceremony_id ceremony)) (\<lambda>stored.
      bindE (raise_if (stored \<noteq> ceremony \<or> cer_expires_at ceremony \<le> verified_at a)
               (StorageConflict ''approval ceremony is stale, consumed, or expired'')) (\<lambda>_.
      bindE (read_credential s (credential_id cred)) (\<lambda>stored_credential.
      bindE (raise_if (stored_credential \<noteq> cred)
               (StorageConflict ''approval credential changed during verification'')) (\<lambda>_.
      bindE (update_counter s cred v) (\<lambda>s1.
      bindE (consume_ceremony s1 (ceremony_id ceremony) (verified_at a) (fingerprint cred)
               (StorageConflict ''approval ceremony consumption race'')) (\<lambda>s2.
      bindE (insert_approval s2 a) (\<lambda>s3.
      compare_and_append_tx s3 ev)))))))))"

definition approvals_of :: "store \<Rightarrow> string \<Rightarrow> ApprovalRecord list result" where
  "approvals_of s jid =
     mapE (\<lambda>a. bindE (approval_post_init a) (\<lambda>_. Inr a))
       (sort_key (\<lambda>a. [verified_at a, approval_id a]) (filter (\<lambda>a. ap_job_id a = jid) (approvals s)))"


section \<open>The job operations leave the authorization tables alone\<close>

definition same_auth :: "store \<Rightarrow> store \<Rightarrow> bool" where
  "same_auth s s' \<longleftrightarrow> bootstraps s' = bootstraps s \<and> credentials s' = credentials s \<and> ceremonies s' = ceremonies s
     \<and> approvals s' = approvals s"

definition same_jobs :: "store \<Rightarrow> store \<Rightarrow> bool" where
  "same_jobs s s' \<longleftrightarrow> jobs s' = jobs s \<and> records s' = records s \<and> ledger s' = ledger s \<and> ledger_seq s' = ledger_seq s
     \<and> raw_receipts s' = raw_receipts s \<and> receipts s' = receipts s \<and> receipt_current s' = receipt_current s
     \<and> quarantine s' = quarantine s"

lemma insert_record_same_auth: "insert_record_and_initial_ledger s r = Inr s' \<Longrightarrow> same_auth s s'"
  by (auto simp: insert_record_and_initial_ledger_def insert_ledger_row_def same_auth_def split: if_splits)

lemma cas_same_auth: "compare_and_append_tx s ev = Inr (r, s') \<Longrightarrow> same_auth s s'"
  unfolding compare_and_append_tx_def Let_def
  by (auto simp: bindE_Inr_iff insert_ledger_def insert_ledger_row_def same_auth_def split: if_splits)

lemma publish_same_auth: "publish_tx env s a = Inr s' \<Longrightarrow> same_auth s s'"
  by (auto simp: publish_tx_def insert_receipt_def Let_def bindE_Inr_iff same_auth_def split: if_splits)

interpretation au: store_preorder env same_auth
proof
  fix s show "same_auth s s" by (simp add: same_auth_def)
  fix s1 s2 show "same_auth s s1 \<Longrightarrow> same_auth s1 s2 \<Longrightarrow> same_auth s s2" by (simp add: same_auth_def)
  fix s' job sub show "insert_job s job sub = Inr s' \<Longrightarrow> same_auth s s'"
    by (auto simp: insert_job_def same_auth_def split: if_splits)
  fix raw show "insert_raw s raw = Inr s' \<Longrightarrow> same_auth s s'"
    by (auto simp: insert_raw_def same_auth_def split: if_splits)
  fix q show "same_auth s (s\<lparr>quarantine := quarantine s @ [q]\<rparr>)" by (simp add: same_auth_def)
qed (auto intro: insert_record_same_auth cas_same_auth publish_same_auth)

section \<open>The authorization invariant\<close>

text \<open>
  At most two bootstrap sessions, only the last of them usable; the credentials and the
  registrations still open never exceed three.
\<close>

definition enrollment_ok :: "store \<Rightarrow> bool" where
  "enrollment_ok s =
     (case rev (bootstraps s) of
        [] \<Rightarrow> credentials s = []
      | b # old \<Rightarrow> length old \<le> 1 \<and> (\<forall>x\<in>set old. boot_state x = BOOTSTRAP_EXPIRED) \<and> length (credentials s) \<le> 3
          \<and> (boot_state b = BOOTSTRAP_ISSUED \<longrightarrow> int (length (credentials s)) + remaining_registrations b \<le> 3))"

definition approved_by :: "PendingCeremony \<Rightarrow> ApprovalRecord \<Rightarrow> bool" where
  "approved_by c a \<longleftrightarrow> ceremony_id c = ap_ceremony_id a \<and> purpose c = PURPOSE_APPROVAL \<and> cer_state c = CEREMONY_CONSUMED
     \<and> cer_job_id c = Some (ap_job_id a) \<and> cer_job_digest c = Some (ap_job_digest a)
     \<and> cer_fingerprint c = Some (ap_fingerprint a) \<and> verified_at a < cer_expires_at c"

text \<open>Every approval names a consumed ceremony for its job, and its job was claimed; no job has two.\<close>

definition approvals_ok :: "store \<Rightarrow> bool" where
  "approvals_ok s \<longleftrightarrow> distinct (map ap_job_id (approvals s)) \<and> distinct (map ceremony_id (ceremonies s))
     \<and> (\<forall>a\<in>set (approvals s). (\<exists>c\<in>set (ceremonies s). approved_by c a)
         \<and> (\<exists>r\<in>set (records s). rec_job_id r = ap_job_id a \<and> rec_job_digest r = ap_job_digest a
              \<and> state r \<noteq> PENDING \<and> 1 \<le> execution_count r))"

definition auth_inv :: "store \<Rightarrow> bool" where
  "auth_inv s \<longleftrightarrow> enrollment_ok s \<and> approvals_ok s"

lemma auth_inv_empty: "auth_inv empty_store"
  by (simp add: auth_inv_def enrollment_ok_def approvals_ok_def empty_store_def)

lemma approvals_ok_grows:
  assumes ok: "approvals_ok s" and g: "grows s s'" and same: "approvals s' = approvals s" "ceremonies s' = ceremonies s"
  shows "approvals_ok s'"
proof -
  have "\<exists>r'\<in>set (records s'). rec_job_id r' = ap_job_id a \<and> rec_job_digest r' = ap_job_digest a \<and> state r' \<noteq> PENDING
      \<and> 1 \<le> execution_count r'" if "a \<in> set (approvals s)" for a
  proof -
    from ok that obtain r where r: "r \<in> set (records s)" "rec_job_id r = ap_job_id a" "rec_job_digest r = ap_job_digest a"
      "state r \<noteq> PENDING" "1 \<le> execution_count r" by (auto simp: approvals_ok_def)
    from g r(1) obtain r' where "r' \<in> set (records s')" "record_le r r'" by (auto simp: grows_def)
    with r show ?thesis by (auto simp: record_le_def)
  qed
  with ok show ?thesis by (auto simp: approvals_ok_def same)
qed

lemma enrollment_ok_cong:
  "enrollment_ok s \<Longrightarrow> bootstraps s' = bootstraps s \<Longrightarrow> length (credentials s') = length (credentials s) \<Longrightarrow> enrollment_ok s'"
  by (cases "rev (bootstraps s)") (auto simp: enrollment_ok_def)

lemma auth_inv_job_step: "auth_inv s \<Longrightarrow> same_auth s s' \<Longrightarrow> grows s s' \<Longrightarrow> auth_inv s'"
  by (auto simp: auth_inv_def same_auth_def intro: approvals_ok_grows enrollment_ok_cong)

lemma evolves_same_jobs: "same_jobs s s' \<Longrightarrow> evolves s s'"
  by (auto simp: evolves_def same_jobs_def intro: ledger_inv_cong grows_same)

text \<open>The effect of the primitive steps on the authorization tables.\<close>

lemma insert_ceremony_Inr:
  "insert_ceremony s c = Inr s' \<Longrightarrow> s' = s\<lparr>ceremonies := ceremonies s @ [c]\<rparr> \<and> ceremony_id c \<notin> ceremony_id ` set (ceremonies s)"
  by (auto simp: insert_ceremony_def split: if_splits)

lemma consume_ceremony_Inr:
  "consume_ceremony s cid at fp e = Inr s' \<Longrightarrow>
     s' = s\<lparr>ceremonies := map (\<lambda>c. if ceremony_id c = cid \<and> cer_state c = CEREMONY_ISSUED
        then c\<lparr>cer_state := CEREMONY_CONSUMED, consumed_at := Some at, cer_fingerprint := Some fp\<rparr> else c) (ceremonies s)\<rparr>"
  by (simp add: consume_ceremony_def Let_def split: if_splits)

lemma insert_credential_Inr:
  "insert_credential s c = Inr s' \<Longrightarrow> s' = s\<lparr>credentials := credentials s @ [\<lparr>row_credential = c, row_fingerprint = fingerprint c\<rparr>]\<rparr>"
  by (auto simp: insert_credential_def split: if_splits)

text \<open>Ceremonies may be appended, or changed while they are issued, without touching an approval.\<close>

lemma approvals_ok_ceremonies:
  assumes ok: "approvals_ok s" and same: "records s' = records s" "approvals s' = approvals s"
    and cer: "ceremonies s' = map (\<lambda>c. if p c then f c else c) (ceremonies s) @ cs"
    and p: "\<And>c. p c \<Longrightarrow> cer_state c = CEREMONY_ISSUED \<and> ceremony_id (f c) = ceremony_id c"
    and new: "distinct (map ceremony_id (ceremonies s) @ map ceremony_id cs)"
  shows "approvals_ok s'"
proof -
  have ids: "map ceremony_id (map (\<lambda>c. if p c then f c else c) (ceremonies s)) = map ceremony_id (ceremonies s)"
    using p by simp
  have "\<exists>c\<in>set (ceremonies s'). approved_by c a" if "a \<in> set (approvals s)" for a
  proof -
    from ok that obtain c where c: "c \<in> set (ceremonies s)" "approved_by c a" by (auto simp: approvals_ok_def)
    then have "\<not> p c" using p by (auto simp: approved_by_def)
    with c show ?thesis by (force simp: cer)
  qed
  moreover have "distinct (map ceremony_id (ceremonies s'))" unfolding cer map_append ids by (rule new)
  ultimately show ?thesis using ok by (simp add: approvals_ok_def same)
qed


lemma create_auth_bootstrap_inv:
  assumes ok: "bootstrap_ok session" and inv: "auth_inv s" and r: "create_auth_bootstrap s session = (Inr u, s')"
  shows "auth_inv s' \<and> same_jobs s s'"
proof -
  have "\<exists>old. s' = s\<lparr>bootstraps := old @ [session]\<rparr> \<and> length old \<le> 1 \<and> (\<forall>x\<in>set old. boot_state x = BOOTSTRAP_EXPIRED)
      \<and> (old = [] \<longrightarrow> bootstraps s = []) \<and> (old \<noteq> [] \<longrightarrow> credentials s = [])"
  proof (cases "bootstraps s")
    case Nil
    with r show ?thesis
      unfolding create_auth_bootstrap_def transaction_Inr Let_def
      by (intro exI [of _ "[]"]) (auto simp: bindE_Inr_iff insert_bootstrap_def split: if_splits)
  next
    case (Cons b bs)
    with r show ?thesis
      unfolding create_auth_bootstrap_def transaction_Inr Let_def
      by (intro exI [of _ "[b\<lparr>boot_state := BOOTSTRAP_EXPIRED\<rparr>]"], cases "boot_state b"; cases bs)
        (auto simp: bindE_Inr_iff insert_bootstrap_def split: if_splits)
  qed
  then obtain old where s': "s' = s\<lparr>bootstraps := old @ [session]\<rparr>" "length old \<le> 1"
    "\<forall>x\<in>set old. boot_state x = BOOTSTRAP_EXPIRED" "old = [] \<longrightarrow> bootstraps s = []" "old \<noteq> [] \<longrightarrow> credentials s = []"
    by blast
  then have "credentials s = []" using inv by (auto simp: auth_inv_def enrollment_ok_def)
  then have "enrollment_ok s'" using s' ok by (auto simp: enrollment_ok_def bootstrap_ok_iff)
  then show ?thesis using inv by (simp add: auth_inv_def approvals_ok_def same_jobs_def s'(1))
qed

lemma issue_registration_inv:
  assumes inv: "auth_inv s" and r: "issue_registration_ceremony s d c = (Inr u, s')"
  shows "auth_inv s' \<and> same_jobs s s'"
proof -
  from r have s': "s' = s\<lparr>ceremonies := ceremonies s @ [c]\<rparr>" and new: "ceremony_id c \<notin> ceremony_id ` set (ceremonies s)"
    unfolding issue_registration_ceremony_def transaction_Inr
    by (auto simp: bindE_Inr_iff dest!: insert_ceremony_Inr)
  have "approvals_ok s'"
    by (rule approvals_ok_ceremonies [where s = s and p = "\<lambda>_. False" and f = id and cs = "[c]"])
      (use inv new in \<open>auto simp: auth_inv_def s' approvals_ok_def\<close>)
  then show ?thesis using inv by (auto simp: auth_inv_def s' same_jobs_def intro: enrollment_ok_cong)
qed

lemma issue_approval_inv:
  assumes inv: "auth_inv s" and r: "issue_approval_ceremony s c = (Inr u, s')"
  shows "auth_inv s' \<and> same_jobs s s'"
proof -
  let ?p = "\<lambda>x. purpose x = PURPOSE_APPROVAL \<and> cer_state x = CEREMONY_ISSUED \<and> cer_expires_at x \<le> cer_issued_at c"
  let ?f = "\<lambda>x. x\<lparr>cer_state := CEREMONY_EXPIRED, consumed_at := Some (cer_issued_at c)\<rparr>"
  from r have s': "s' = s\<lparr>ceremonies := map (\<lambda>x. if ?p x then ?f x else x) (ceremonies s) @ [c]\<rparr>"
    and new: "ceremony_id c \<notin> ceremony_id ` set (map (\<lambda>x. if ?p x then ?f x else x) (ceremonies s))"
    unfolding issue_approval_ceremony_def transaction_Inr Let_def
    by (auto simp: bindE_Inr_iff split: option.splits dest!: insert_ceremony_Inr)
  have "map ceremony_id (map (\<lambda>x. if ?p x then ?f x else x) (ceremonies s)) = map ceremony_id (ceremonies s)" by simp
  with new have new': "ceremony_id c \<notin> ceremony_id ` set (ceremonies s)" by (metis list.set_map)
  have "approvals_ok s'"
    by (rule approvals_ok_ceremonies [where s = s and p = ?p and f = ?f and cs = "[c]"])
      (use inv new' in \<open>auto simp: auth_inv_def s' approvals_ok_def\<close>)
  then show ?thesis using inv by (auto simp: auth_inv_def s' same_jobs_def intro: enrollment_ok_cong)
qed

lemma complete_registration_inv:
  assumes inv: "auth_inv s" and r: "complete_registration s d cid cred at = (Inr c', s')"
  shows "auth_inv s' \<and> same_jobs s s'"
proof -
  let ?h = "\<lambda>b x. bootstrap_id x = bootstrap_id b \<and> boot_state x = BOOTSTRAP_ISSUED
      \<and> remaining_registrations x = remaining_registrations b"
  let ?u = "\<lambda>b x. x\<lparr>remaining_registrations := remaining_registrations b - 1,
      boot_state := (if remaining_registrations b - 1 = 0 then BOOTSTRAP_CONSUMED else BOOTSTRAP_ISSUED)\<rparr>"
  from r obtain c :: PendingCeremony and b s1 s2 where b: "boot_state b = BOOTSTRAP_ISSUED" "1 \<le> remaining_registrations b"
    and s1: "insert_credential s cred = Inr s1"
    and s2: "consume_ceremony s1 (ceremony_id c) at (fingerprint cred) (StorageConflict ''registration ceremony consumption race'') = Inr s2"
    and s3: "count_registration s2 b = Inr s'"
    unfolding complete_registration_def transaction_Inr
    by (auto simp: bindE_Inr_iff raise_if_Inr_iff not_less)
  from s3 have one: "length (filter (?h b) (bootstraps s2)) = 1"
    and s': "s' = s2\<lparr>bootstraps := map (\<lambda>x. if ?h b x then ?u b x else x) (bootstraps s2)\<rparr>"
    unfolding count_registration_def Let_def by (simp_all split: if_split_asm)
  note eff = insert_credential_Inr [OF s1] consume_ceremony_Inr [OF s2]
  have cred: "length (credentials s') = length (credentials s) + 1" using eff s' by simp
  have bs: "bootstraps s2 = bootstraps s" using eff by simp
  have "enrollment_ok s'"
  proof (cases "rev (bootstraps s)")
    case Nil
    with one bs show ?thesis by simp
  next
    case (Cons y old)
    then have bl: "bootstraps s = rev old @ [y]" by (metis rev.simps(2) rev_rev_ident)
    from inv Cons have old: "length old \<le> 1" "\<And>x. x \<in> set old \<Longrightarrow> boot_state x = BOOTSTRAP_EXPIRED"
      and cnt: "boot_state y = BOOTSTRAP_ISSUED \<Longrightarrow> int (length (credentials s)) + remaining_registrations y \<le> 3"
      by (auto simp: auth_inv_def enrollment_ok_def)
    have none: "filter (?h b) (rev old) = []" using old by (auto simp: filter_empty_conv)
    have y: "?h b y" using one bs none by (auto simp: bl split: if_splits)
    have same: "map (\<lambda>x. if ?h b x then ?u b x else x) (rev old) = rev old"
      using old by (intro map_idI) auto
    have "bootstraps s' = rev old @ [?u b y]" using y same by (simp add: s' bs bl)
    then have "rev (bootstraps s') = ?u b y # old" by simp
    then show ?thesis
      unfolding enrollment_ok_def using old cnt y b cred by auto
  qed
  moreover have "approvals_ok s'"
    by (rule approvals_ok_ceremonies [where s = s and cs = "[]"
          and p = "\<lambda>x. ceremony_id x = ceremony_id c \<and> cer_state x = CEREMONY_ISSUED"
          and f = "\<lambda>x. x\<lparr>cer_state := CEREMONY_CONSUMED, consumed_at := Some at, cer_fingerprint := Some (fingerprint cred)\<rparr>"])
      (use inv eff s' in \<open>auto simp: auth_inv_def approvals_ok_def\<close>)
  ultimately show ?thesis using eff s' by (simp add: auth_inv_def same_jobs_def)
qed


section \<open>Claiming with an approval\<close>

lemma claim_with_approval_Inr:
  assumes "claim_with_approval s c cred v a ev = (Inr r, s')"
  obtains s3 where "approval_contract c cred v a ev" "read_ceremony s (ceremony_id c) = Inr c"
    "verified_at a < cer_expires_at c" "read_credential s (credential_id cred) = Inr cred"
    "same_jobs s s3" "bootstraps s3 = bootstraps s" "length (credentials s3) = length (credentials s)"
    "ceremonies s3 = map (\<lambda>x. if ceremony_id x = ceremony_id c \<and> cer_state x = CEREMONY_ISSUED
        then x\<lparr>cer_state := CEREMONY_CONSUMED, consumed_at := Some (verified_at a), cer_fingerprint := Some (fingerprint cred)\<rparr>
        else x) (ceremonies s)"
    "approvals s3 = approvals s @ [a]" "compare_and_append_tx s3 ev = Inr (r, s')"
proof -
  from assms obtain s1 s2 s3 where *: "approval_contract c cred v a ev" "read_ceremony s (ceremony_id c) = Inr c"
    "verified_at a < cer_expires_at c" "read_credential s (credential_id cred) = Inr cred" "update_counter s cred v = Inr s1"
    "consume_ceremony s1 (ceremony_id c) (verified_at a) (fingerprint cred)
       (StorageConflict ''approval ceremony consumption race'') = Inr s2"
    "insert_approval s2 a = Inr s3" "compare_and_append_tx s3 ev = Inr (r, s')"
    unfolding claim_with_approval_def transaction_Inr by (auto simp: bindE_Inr_iff raise_if_Inr_iff not_le)
  have "ap_user_verified a" using *(1) by (simp add: approval_contract_def)
  then have a: "a\<lparr>ap_user_verified := True\<rparr> = a" by simp
  from * show thesis
    by (intro that [of s3])
      (auto simp: update_counter_def insert_approval_def Let_def same_jobs_def a split: if_split_asm dest!: consume_ceremony_Inr)
qed


text \<open>A successful claim moves exactly its pending record to running.\<close>

lemma claim_with_approval_record:
  assumes inv: "ledger_inv s" and r: "claim_with_approval s c cred v a ev = (Inr r, s')"
  shows "\<exists>r0\<in>set (records s). find_record s (ev_job_id ev) = Some r0 \<and> state r0 = PENDING \<and> apply_transition r0 ev = Inr r
    \<and> ev_kind ev = CLAIM_EXECUTION \<and> ap_job_id a = ev_job_id ev \<and> ap_job_digest a = ev_job_digest ev
    \<and> rec_job_id r0 = ev_job_id ev \<and> rec_job_digest r0 = ev_job_digest ev \<and> state r = RUNNING \<and> execution_count r = 1"
  using r
proof (rule claim_with_approval_Inr)
  fix s3 assume con: "approval_contract c cred v a ev" and same: "same_jobs s s3"
    and cas: "compare_and_append_tx s3 ev = Inr (r, s')"
  have inv3: "ledger_inv s3" using evolves_same_jobs [OF same] inv by (simp add: evolves_def)
  from cas obtain r0 where r0: "find_record s3 (ev_job_id ev) = Some r0" "apply_transition r0 ev = Inr r"
    by (auto simp: compare_and_append_tx_Inr [OF inv3])
  have f: "find_record s (ev_job_id ev) = Some r0" using r0(1) same by (simp add: find_record_def same_jobs_def)
  have kind: "ev_kind ev = CLAIM_EXECUTION"
    using con by (cases "ev_kind ev") (auto simp: approval_contract_def)
  have acc: "accepts r0 ev" "r = advance r0 ev" using r0(2) by (simp_all add: apply_transition_Inr_iff)
  then have "state r0 = PENDING" "state r = RUNNING" "execution_count r = 1" "ev_job_id ev = rec_job_id r0" "ev_job_digest ev = rec_job_digest r0"
    using kind by (auto simp: accepts_def kind_defs)
  moreover have "Some (ap_job_id a) = Some (ev_job_id ev)" "Some (ap_job_digest a) = Some (ev_job_digest ev)"
    using con unfolding approval_contract_def by simp_all
  ultimately show ?thesis
    using kind r0(2) f ledger_inv_find_record [OF inv f] by auto
qed

lemma claim_with_approval_inv:
  assumes inv: "ledger_inv s" and auth: "auth_inv s" and r: "claim_with_approval s c cred v a ev = (Inr r, s')"
  shows "ledger_inv s' \<and> grows s s' \<and> auth_inv s'"
  using r
proof (rule claim_with_approval_Inr)
  fix s3 assume con: "approval_contract c cred v a ev" and rc: "read_ceremony s (ceremony_id c) = Inr c"
    and live: "verified_at a < cer_expires_at c" and same: "same_jobs s s3" "bootstraps s3 = bootstraps s"
      "length (credentials s3) = length (credentials s)"
    and cer: "ceremonies s3 = map (\<lambda>x. if ceremony_id x = ceremony_id c \<and> cer_state x = CEREMONY_ISSUED
        then x\<lparr>cer_state := CEREMONY_CONSUMED, consumed_at := Some (verified_at a), cer_fingerprint := Some (fingerprint cred)\<rparr>
        else x) (ceremonies s)"
    and app: "approvals s3 = approvals s @ [a]" and cas: "compare_and_append_tx s3 ev = Inr (r, s')"
  have e3: "ledger_inv s3" "grows s s3" using evolves_same_jobs [OF same(1)] inv by (simp_all add: evolves_def)
  have e: "ledger_inv s'" "grows s3 s'" using e3 cas compare_and_append_tx_inv cas_grows by blast+
  have au: "same_auth s3 s'" using cas by (rule cas_same_auth)
  obtain r0 where r0: "r0 \<in> set (records s)" "state r0 = PENDING" "rec_job_id r0 = ap_job_id a" "apply_transition r0 ev = Inr r"
      "rec_job_digest r0 = ap_job_digest a" "state r = RUNNING" "execution_count r = 1"
    using claim_with_approval_record [OF inv r] by auto
  define t where "t = s3\<lparr>approvals := approvals s\<rparr>"
  have "approvals_ok t"
    by (rule approvals_ok_ceremonies [where s = s and cs = "[]"
          and p = "\<lambda>x. ceremony_id x = ceremony_id c \<and> cer_state x = CEREMONY_ISSUED"
          and f = "\<lambda>x. x\<lparr>cer_state := CEREMONY_CONSUMED, consumed_at := Some (verified_at a), cer_fingerprint := Some (fingerprint cred)\<rparr>"])
      (use auth cer same in \<open>auto simp: t_def auth_inv_def approvals_ok_def same_jobs_def\<close>)
  then have t': "approvals_ok (s'\<lparr>approvals := approvals s\<rparr>)"
    by (rule approvals_ok_grows) (use e(2) au in \<open>auto simp: t_def grows_def same_auth_def\<close>)
  have fresh: "ap_job_id a \<notin> ap_job_id ` set (approvals s)"
  proof
    assume "ap_job_id a \<in> ap_job_id ` set (approvals s)"
    then obtain r1 where r1: "r1 \<in> set (records s)" "rec_job_id r1 = ap_job_id a" "state r1 \<noteq> PENDING"
      using auth by (force simp: auth_inv_def approvals_ok_def)
    have "r1 = r0" using inv r0 r1 by (auto simp: ledger_inv_def intro: distinct_map_unique)
    with r0 r1 show False by simp
  qed
  have "c \<in> set (ceremonies s)" using rc by (auto simp: read_ceremony_def result_simps dest!: find_SomeD)
  then have "c\<lparr>cer_state := CEREMONY_CONSUMED, consumed_at := Some (verified_at a), cer_fingerprint := Some (fingerprint cred)\<rparr> \<in> set (ceremonies s')"
    using con au cer by (force simp: approval_contract_def same_auth_def)
  then have new_cer: "\<exists>x\<in>set (ceremonies s'). approved_by x a"
    using con live by (intro bexI) (auto simp: approved_by_def approval_contract_def)
  have "find_record s' (rec_job_id r0) = Some r"
  proof -
    have "find_record s3 (ev_job_id ev) = Some r0"
      using claim_with_approval_record [OF inv r] find_record_in [OF inv r0(1)] same r0 by (auto simp: same_jobs_def find_record_def)
    with cas r0(4) have "s' = cas_result s3 r0 r ev" by (auto simp: compare_and_append_tx_Inr [OF e3(1)])
    then have "r \<in> set (records s')" using r0(1) same by (force simp: cas_result_def same_jobs_def)
    moreover have "rec_job_id r = rec_job_id r0" using r0(4) by (simp add: apply_transition_Inr_iff)
    ultimately show ?thesis using find_record_in [OF e(1)] by metis
  qed
  then have new_rec: "\<exists>x\<in>set (records s'). rec_job_id x = ap_job_id a \<and> rec_job_digest x = ap_job_digest a \<and> state x \<noteq> PENDING \<and> 1 \<le> execution_count x"
    using ledger_inv_find_record [OF e(1)] r0 by (intro bexI [of _ r]) (auto simp: apply_transition_Inr_iff)
  have "approvals s' = approvals s @ [a]" using au app by (simp add: same_auth_def)
  with t' fresh new_cer new_rec have "approvals_ok s'" by (auto simp: approvals_ok_def)
  moreover have "enrollment_ok s'" using auth au same by (auto simp: auth_inv_def same_auth_def intro: enrollment_ok_cong)
  ultimately show ?thesis using e e3 by (auto simp: auth_inv_def intro: grows_trans)
qed

text \<open>A consumed ceremony is never accepted again.\<close>

lemma consumed_ceremony_refused:
  assumes f: "List.find (\<lambda>x. ceremony_id x = ceremony_id c) (ceremonies s) = Some x" and x: "cer_state x \<noteq> CEREMONY_ISSUED"
  shows "\<exists>e. claim_with_approval s c cred v a ev = (Inl e, s)"
proof (cases "claim_with_approval s c cred v a ev")
  case (Pair res s')
  show ?thesis
  proof (cases res)
    case (Inl e)
    then show ?thesis using Pair transaction_Inl [of s] unfolding claim_with_approval_def by (metis fst_conv snd_conv)
  next
    case (Inr r)
    have "read_ceremony s (ceremony_id c) = Inr c \<and> cer_state c = CEREMONY_ISSUED"
      using Pair unfolding Inr by (rule claim_with_approval_Inr) (simp add: approval_contract_def)
    with f x show ?thesis by (auto simp: read_ceremony_def bindE_Inr_iff)
  qed
qed

end
