(* ===== verification/Notices.thy ===== *)
theory Notices
  imports Receipts
begin

text \<open>
  The receipts the broker and the worker write themselves: the terminal notice of a job that never
  started (\<open>broker.py\<close>, \<open>submit\<close>) and the unknown notice of a claimed job whose outcome is lost
  (\<open>worker.py\<close>, \<open>_mark_unknown\<close>). Both are dictionaries of identifiers, digests and timestamps
  that go through \<open>json.dumps\<close> and back through \<open>seal_receipt\<close>. The lemmas show that this never
  fails for a sealed job: the text is read back as it was, is accepted, and its canonical form
  is sealed to the same artifact.
\<close>

section \<open>Plain text\<close>

definition plain_char :: "char \<Rightarrow> bool" where
  "plain_char c \<longleftrightarrow> (33::nat) \<le> of_char c \<and> of_char c < (127::nat) \<and> c \<noteq> CHR 0x22 \<and> c \<noteq> CHR 0x5C"

abbreviation plain :: "string \<Rightarrow> bool" where
  "plain s \<equiv> list_all plain_char s"

text \<open>What Unicode says of printable ASCII: it is normalized, and no control or separator.\<close>

definition env_ok :: "pyenv \<Rightarrow> bool" where
  "env_ok env \<longleftrightarrow> 3 \<le> rec_limit env \<and> (\<forall>s. plain s \<longrightarrow> nfc env s = s)
     \<and> (\<forall>n. 33 \<le> n \<and> n < 127 \<longrightarrow> \<not> refused_category (category env n))"

lemma sample_env_ok: "env_ok sample_env"
  unfolding env_ok_def sample_env_def by (simp add: refused_category_def)

lemma plain_ascii: "plain s \<Longrightarrow> list_all (\<lambda>c. of_char c < (128::nat)) s"
  by (erule list.pred_mono_strong) (simp add: plain_char_def)

lemma plain_utf8: "plain s \<Longrightarrow> utf8_valid s"
  by (simp add: plain_ascii utf8_valid_ascii)

lemma id_tail_plain: "id_tail c \<Longrightarrow> plain_char c"
  by (auto simp: id_tail_def id_head_def is_lower_def is_digit_def plain_char_def less_eq_char_def)

lemma SAFE_ID_RE_plain: "SAFE_ID_RE s \<Longrightarrow> plain s"
  using SAFE_ID_RE_chars by (auto simp: list_all_iff id_tail_plain)

lemma is_hex_plain: "is_hex c \<Longrightarrow> plain_char c"
  by (auto simp: is_hex_def is_digit_def plain_char_def less_eq_char_def)

lemma DIGEST_RE_plain:
  assumes "DIGEST_RE s"
  shows "plain s"
proof -
  have "plain (take 7 s)" using assms by (simp add: DIGEST_RE_def plain_char_def)
  moreover have "plain (drop 7 s)" using assms by (auto simp: DIGEST_RE_def list_all_iff is_hex_plain)
  ultimately show ?thesis by (metis append_take_drop_id list_all_append)
qed

lemma is_digit_plain: "is_digit c \<Longrightarrow> plain_char c"
  by (simp add: is_hex_def is_hex_plain)

lemma timestamp_plain: "timestamp_ok s \<Longrightarrow> plain s \<and> length s = 20"
  unfolding timestamp_ok_def
  by (elim conjE TIMESTAMP_RE_fields) (simp add: is_digit_plain, simp add: plain_char_def)

lemma checked_text_plain:
  assumes "env_ok env" and "plain s" and "s \<noteq> []" and "length s \<le> n"
  shows "checked_text env mk (JStr s) f n = Inr s"
proof -
  have "encode_utf8 s = Inr s" using assms(2) by (simp add: encode_utf8_Inr_iff plain_utf8)
  moreover have "codepoints s = map of_char s" using assms(2) by (simp add: codepoints_ascii plain_ascii)
  moreover have "\<not> list_ex (\<lambda>c. refused_category (category env c)) (map of_char s)"
    using assms(1,2) by (auto simp: list_ex_iff env_ok_def list_all_iff plain_char_def)
  moreover have "nfc env s = s" using assms(1,2) by (simp add: env_ok_def)
  ultimately show ?thesis using assms(3,4) by (simp add: checked_text_def)
qed

lemma checked_id_plain: "env_ok env \<Longrightarrow> SAFE_ID_RE s \<Longrightarrow> checked_id env mk (JStr s) f = Inr s"
  using SAFE_ID_RE_length [of s] by (cases "s = []") (auto simp: checked_id_def checked_text_plain SAFE_ID_RE_plain)

lemma checked_timestamp_plain: "env_ok env \<Longrightarrow> timestamp_ok s \<Longrightarrow> checked_timestamp env mk (JStr s) f = Inr s"
  using timestamp_plain [of s] by (cases "s = []") (auto simp: checked_timestamp_def checked_text_plain timestamp_ok_def)

section \<open>Flat dictionaries\<close>

definition flat_value :: "json \<Rightarrow> bool" where
  "flat_value v = (case v of JNull \<Rightarrow> True | JStr s \<Rightarrow> plain s \<and> length s \<le> 128 | _ \<Rightarrow> False)"

definition flat_dict :: "dict \<Rightarrow> bool" where
  "flat_dict kvs \<longleftrightarrow> distinct (keys kvs) \<and> length kvs \<le> 100 \<and> (\<forall>kv\<in>set kvs. plain (fst kv) \<and> length (fst kv) \<le> 32 \<and> flat_value (snd kv))"

lemma encode_string_plain: "plain s \<Longrightarrow> encode_string s = [CHR 0x22] @ s @ [CHR 0x22]"
proof -
  assume "plain s"
  then have "concat (map escape_char s) = s" by (induction s) (auto simp: escape_char_def plain_char_def)
  then show ?thesis by (simp add: encode_string_def)
qed

lemma sort_keys_flat: "flat_value v \<Longrightarrow> sort_keys v = v"
  by (cases v) (auto simp: flat_value_def)

lemma flat_value_dumps: "flat_value v \<Longrightarrow> list_all (\<lambda>c. of_char c < (128::nat)) (dumps isep ksep v) \<and> length (dumps isep ksep v) \<le> 130"
  by (cases v) (auto simp: flat_value_def encode_string_plain dest: plain_ascii)

lemma flat_join:
  assumes "\<forall>x\<in>set xs. list_all (\<lambda>c. of_char c < (128::nat)) x \<and> length x \<le> n"
    and "list_all (\<lambda>c. of_char c < (128::nat)) sep" and "length sep \<le> 2"
  shows "list_all (\<lambda>c. of_char c < (128::nat)) (join sep xs) \<and> length (join sep xs) \<le> length xs * (n + 2)"
  using assms by (induction sep xs rule: join.induct) auto

text \<open>The text of a flat dictionary is short ASCII, with either set of separators.\<close>

lemma flat_dumps:
  assumes flat: "flat_dict kvs" and sep: "sep = ([CHR '',''], [CHR '':'']) \<or> sep = ('', '', '': '')"
  shows "list_all (\<lambda>c. of_char c < (128::nat)) (dumps (fst sep) (snd sep) (JObj kvs)) \<and> length (dumps (fst sep) (snd sep) (JObj kvs)) \<le> 20000"
proof -
  let ?f = "\<lambda>kv. encode_string (fst kv) @ snd sep @ dumps (fst sep) (snd sep) (snd kv)"
  have each: "list_all (\<lambda>c. of_char c < (128::nat)) (?f kv) \<and> length (?f kv) \<le> 166" if "kv \<in> set kvs" for kv
  proof -
    have kv: "plain (fst kv)" "length (fst kv) \<le> 32" "flat_value (snd kv)" using flat that by (auto simp: flat_dict_def)
    show ?thesis using flat_value_dumps [OF kv(3), of "fst sep" "snd sep"] plain_ascii [OF kv(1)] kv sep
      by (auto simp: encode_string_plain)
  qed
  have "list_all (\<lambda>c. of_char c < (128::nat)) (join (fst sep) (map ?f kvs)) \<and> length (join (fst sep) (map ?f kvs)) \<le> length (map ?f kvs) * (166 + 2)"
    by (rule flat_join) (use each sep in auto)
  moreover have "length kvs \<le> 100" using flat by (simp add: flat_dict_def)
  ultimately show ?thesis by auto
qed

lemma flat_jwf: "flat_dict kvs \<Longrightarrow> 1 \<le> d \<Longrightarrow> jwf d (JObj kvs)"
proof -
  assume f: "flat_dict kvs" and "1 \<le> d"
  then obtain e where d: "d = Suc e" by (cases d) auto
  have "jwf e v" if "flat_value v" for v using that by (cases v) (auto simp: flat_value_def)
  with f show ?thesis by (auto simp: d flat_dict_def list_all_iff)
qed

lemma flat_sorted: "flat_dict kvs \<Longrightarrow> sorted_dict kvs = sort_key fst kvs \<and> flat_dict (sort_key fst kvs)"
proof -
  assume f: "flat_dict kvs"
  then have "map (\<lambda>kv. (fst kv, sort_keys (snd kv))) kvs = kvs" by (intro map_idI) (auto simp: flat_dict_def sort_keys_flat)
  with f show ?thesis by (simp add: flat_dict_def)
qed


text \<open>So it is sealed as it stands, and its canonical form again.\<close>

lemma flat_parse:
  assumes env: "env_ok env" and flat: "flat_dict kvs"
  shows "parse_receipt env (default_json (JObj kvs)) = Inr kvs"
proof -
  let ?b = "default_json (JObj kvs)"
  have wf: "jwf (rec_limit env) (JObj kvs)" using env by (intro flat_jwf [OF flat]) (simp add: env_ok_def)
  have ascii: "list_all (\<lambda>c. of_char c < (128::nat)) ?b" and len: "length ?b \<le> 20000"
    using flat_dumps [OF flat, of "('', '', '': '')"] by (simp_all only: default_json_def fst_conv snd_conv simp_thms)
  have "decode_utf8 ?b = Inr ?b" using ascii by (simp add: decode_utf8_def utf8_valid_ascii)
  moreover have "json_loads env (unique_object RECEIPT_DUPLICATE_KEY) ?b = Inr (JObj kvs)"
  proof -
    from wf obtain c cs where c: "?b = c # cs" "\<not> is_ws c" unfolding default_json_def by (rule dumps_hd)
    then have "skip_ws ?b = ?b" by (simp add: skip_ws_nonws)
    moreover have "take 3 ?b \<noteq> BOM" using dumps_not_BOM [OF wf, of "'', ''" "'': ''" "[]"] by (simp only: default_json_def append_Nil2 not_False_eq_True)
    moreover have "scan_value env (unique_object RECEIPT_DUPLICATE_KEY) (rec_limit env) ?b = Inr (JObj kvs, [])"
      using scan_value_dumps [OF good_hook_unique_object _ _ wf num_end_close(4), of "'', ''" "'': ''"]
      by (simp only: default_json_def append_Nil2) (simp add: ws_sep_def is_ws_def)
    ultimately show ?thesis by (simp add: json_loads_def)
  qed
  moreover have "?b \<noteq> []" by (simp add: default_json_def)
  ultimately show ?thesis using len by (simp add: parse_receipt_def MAX_RECEIPT_BYTES_def)
qed

lemma flat_seal:
  assumes "env_ok env" and "flat_dict kvs"
  shows "seal_receipt env (default_json (JObj kvs)) = bindE (validate_receipt env kvs) (receipt_artifact kvs)"
  by (simp add: seal_receipt_def flat_parse [OF assms])

lemma flat_encode: "flat_dict kvs \<Longrightarrow> encode_utf8 (default_json (JObj kvs)) = Inr (default_json (JObj kvs))"
  using flat_dumps [of kvs "('', '', '': '')"]
  by (simp only: default_json_def fst_conv snd_conv simp_thms encode_utf8_Inr_iff) (simp add: utf8_valid_ascii)

lemma flat_canonical:
  assumes flat: "flat_dict kvs"
  shows "\<exists>b. canonical_json (JObj kvs) = Inr b \<and> length b \<le> 20001"
proof -
  have f: "flat_dict (sort_key fst kvs)" and s: "sort_keys (JObj kvs) = JObj (sort_key fst kvs)" using flat_sorted [OF flat] by simp_all
  let ?t = "dumps '','' '':'' (JObj (sort_key fst kvs))"
  have "list_all (\<lambda>c. of_char c < (128::nat)) ?t \<and> length ?t \<le> 20000"
    using flat_dumps [OF f, of "('','', '':'')"] by (simp only: fst_conv snd_conv simp_thms)
  then have "utf8_valid (?t @ [CHR 0x0A])" and "length (?t @ [CHR 0x0A]) \<le> 20001"
    by (auto intro: utf8_valid_ascii)
  then show ?thesis unfolding canonical_json_def s by (auto simp: encode_utf8_Inr_iff)
qed

lemma flat_reseal:
  assumes env: "env_ok env" and flat: "flat_dict kvs" and s: "seal_receipt env (default_json (JObj kvs)) = Inr a"
  shows "seal_receipt env (canonical_receipt a) = Inr a \<and> receipt_copy env a = Inr (sort_key fst kvs)"
proof -
  from s obtain k where k: "validate_receipt env kvs = Inr k" "receipt_artifact kvs k = Inr a"
    by (auto simp: flat_seal [OF env flat] bindE_Inr_iff)
  have c: "canonical_json (JObj kvs) = Inr (canonical_receipt a)" using k(2) by (rule receipt_artifact_canonical)
  have wf: "jwf (rec_limit env) (JObj kvs)" using env by (intro flat_jwf [OF flat]) (simp add: env_ok_def)
  have "length (canonical_receipt a) \<le> 20001" using flat_canonical [OF flat] c by auto
  then have "length (canonical_receipt a) \<le> MAX_RECEIPT_BYTES" by (simp add: MAX_RECEIPT_BYTES_def)
  moreover have "no_float (JObj x)" if "parse_receipt env (default_json (JObj kvs)) = Inr x" for x
    using that wf by (simp add: flat_parse [OF env flat] jwf_iff)
  ultimately have "seal_receipt env (canonical_receipt a) = Inr a" by (rule seal_canonical_receipt [OF s])
  moreover have "receipt_copy env a = Inr (sort_key fst kvs)"
    using canonical_json_loads [OF c wf good_hook_dict_hook] flat_sorted [OF flat] by (simp add: receipt_copy_def jobj_def)
  ultimately show ?thesis ..
qed

section \<open>The notices\<close>

definition terminal_notice_dict :: "SealedJob \<Rightarrow> string \<Rightarrow> string \<Rightarrow> dict" where
  "terminal_notice_dict job outcome reason =
     [(''schema'', JStr RECEIPT_SCHEMA), (''kind'', JStr ''terminal_notice''), (''job_id'', JStr (job_id job)),
      (''job_digest'', JStr (job_digest job)), (''operation_id'', JStr (operation_id job)),
      (''request_id'', JStr (request_id job)), (''reply_target'', JStr (reply_target job)),
      (''terminal_outcome'', JStr outcome), (''reason_code'', JStr reason)]"

definition terminal_notice :: "pyenv \<Rightarrow> SealedJob \<Rightarrow> string \<Rightarrow> string \<Rightarrow> ReceiptArtifact result" where
  "terminal_notice env job outcome reason =
     bindE (encode_utf8 (default_json (JObj (terminal_notice_dict job outcome reason)))) (seal_receipt env)"

definition unknown_notice_dict :: "SealedJob \<Rightarrow> string \<Rightarrow> string \<Rightarrow> string \<Rightarrow> dict" where
  "unknown_notice_dict job raw_digest at reason =
     [(''schema'', JStr RECEIPT_SCHEMA), (''kind'', JStr ''unknown''), (''job_id'', JStr (job_id job)),
      (''job_digest'', JStr (job_digest job)), (''operation_id'', JStr (operation_id job)),
      (''request_id'', JStr (request_id job)), (''reply_target'', JStr (reply_target job)),
      (''terminal_outcome'', JNull), (''raw_receipt_digest'', JStr raw_digest), (''last_known_at'', JStr at),
      (''reason_code'', JStr reason)]"

definition unknown_notice :: "pyenv \<Rightarrow> SealedJob \<Rightarrow> string \<Rightarrow> string \<Rightarrow> string \<Rightarrow> ReceiptArtifact result" where
  "unknown_notice env job raw_digest at reason =
     seal_receipt env (default_json (JObj (unknown_notice_dict job raw_digest at reason)))"

lemma terminal_notice_eq:
  assumes "flat_dict (terminal_notice_dict job outcome reason)"
  shows "terminal_notice env job outcome reason = seal_receipt env (default_json (JObj (terminal_notice_dict job outcome reason)))"
  using flat_encode [OF assms] by (simp add: terminal_notice_def)

lemma job_ok_flat:
  assumes "job_ok job"
  shows "flat_value (JStr (job_id job))" "flat_value (JStr (job_digest job))" "flat_value (JStr (operation_id job))"
    "flat_value (JStr (request_id job))" "flat_value (JStr (reply_target job))"
  using assms job_ok_digest [OF assms] DIGEST_RE_length SAFE_ID_RE_length
  by (auto simp: flat_value_def job_ok_def SAFE_ID_RE_plain DIGEST_RE_plain)

lemma terminal_notice_flat:
  assumes "job_ok job" and "SAFE_ID_RE reason" and "SAFE_ID_RE outcome"
  shows "flat_dict (terminal_notice_dict job outcome reason)"
proof -
  have "flat_value (JStr reason)" "flat_value (JStr outcome)" using assms SAFE_ID_RE_length by (auto simp: flat_value_def SAFE_ID_RE_plain)
  with job_ok_flat [OF assms(1)] show ?thesis
    by (simp add: flat_dict_def terminal_notice_dict_def keys_def) (simp add: plain_char_def flat_value_def RECEIPT_SCHEMA_def)
qed

lemma unknown_notice_flat:
  assumes "job_ok job" and "SAFE_ID_RE reason" and "DIGEST_RE d" and "timestamp_ok at"
  shows "flat_dict (unknown_notice_dict job d at reason)"
proof -
  have "flat_value (JStr reason)" "flat_value (JStr d)" "flat_value (JStr at)"
    using assms SAFE_ID_RE_length DIGEST_RE_length timestamp_plain
    by (auto simp: flat_value_def SAFE_ID_RE_plain DIGEST_RE_plain)
  with job_ok_flat [OF assms(1)] show ?thesis
    by (simp add: flat_dict_def unknown_notice_dict_def keys_def) (simp add: plain_char_def flat_value_def RECEIPT_SCHEMA_def)
qed


lemma receipt_checks_plain:
  assumes "env_ok env"
  shows "SAFE_ID_RE s \<Longrightarrow> receipt_safe_id env (JStr s) f = Inr s"
    "timestamp_ok s \<Longrightarrow> receipt_timestamp env (JStr s) f = Inr s"
    "DIGEST_RE s \<Longrightarrow> receipt_check_digest (JStr s) f = Inr s"
  using assms by (simp_all add: receipt_safe_id_def receipt_timestamp_def receipt_check_digest_def checked_id_plain checked_timestamp_plain)

definition NOTICE_OUTCOMES :: "string list" where
  "NOTICE_OUTCOMES = [''rejected'', ''expired'', ''canceled'', ''prestart_failed'']"

lemma notice_outcome_safe: "outcome \<in> set NOTICE_OUTCOMES \<Longrightarrow> SAFE_ID_RE outcome"
  by (auto simp: NOTICE_OUTCOMES_def SAFE_ID_RE_def id_head_def id_tail_def is_lower_def is_digit_def less_eq_char_def)

lemma terminal_notice_valid:
  assumes env: "env_ok env" and job: "job_ok job" and reason: "SAFE_ID_RE reason" and out: "outcome \<in> set NOTICE_OUTCOMES"
  shows "validate_receipt env (terminal_notice_dict job outcome reason) = Inr ''terminal_notice''"
proof -
  have ids: "SAFE_ID_RE (job_id job)" "SAFE_ID_RE (operation_id job)" "SAFE_ID_RE (request_id job)" "SAFE_ID_RE (reply_target job)"
    "DIGEST_RE (job_digest job)"
    using job job_ok_digest [OF job] by (simp_all add: job_ok_def)
  have "receipt_exact (JObj (terminal_notice_dict job outcome reason)) TERMINAL_NOTICE_KEYS n = Inr (terminal_notice_dict job outcome reason)" for n
    by (simp add: receipt_exact_def terminal_notice_dict_def TERMINAL_NOTICE_KEYS_def COMMON_KEYS_def keys_def)
  moreover have "validate_common env (terminal_notice_dict job outcome reason) False = Inr ()"
    using ids by (simp add: validate_common_def terminal_notice_dict_def jget_def receipt_checks_plain [OF env])
  moreover have "validate_outcome (terminal_notice_dict job outcome reason) [''rejected'', ''expired'', ''canceled'', ''prestart_failed''] m = Inr ()" for m
    using out by (simp add: validate_outcome_def terminal_notice_dict_def jget_def json_in_def NOTICE_OUTCOMES_def)
  moreover have "jget (terminal_notice_dict job outcome reason) ''reason_code'' = Inr (JStr reason)"
    by (simp add: terminal_notice_dict_def jget_def)
  moreover have "jget_opt (terminal_notice_dict job outcome reason) ''kind'' = JStr ''terminal_notice''"
    by (simp add: terminal_notice_dict_def jget_opt_def)
  ultimately show ?thesis
    using reason by (simp add: validate_receipt_def validate_terminal_notice_def receipt_checks_plain [OF env])
qed

lemma unknown_notice_valid:
  assumes env: "env_ok env" and job: "job_ok job" and reason: "SAFE_ID_RE reason" and d: "DIGEST_RE d" and at: "timestamp_ok at"
  shows "validate_receipt env (unknown_notice_dict job d at reason) = Inr ''unknown''"
proof -
  have ids: "SAFE_ID_RE (job_id job)" "SAFE_ID_RE (operation_id job)" "SAFE_ID_RE (request_id job)" "SAFE_ID_RE (reply_target job)"
    "DIGEST_RE (job_digest job)"
    using job job_ok_digest [OF job] by (simp_all add: job_ok_def)
  have "receipt_exact (JObj (unknown_notice_dict job d at reason)) UNKNOWN_KEYS n = Inr (unknown_notice_dict job d at reason)" for n
    by (simp add: receipt_exact_def unknown_notice_dict_def UNKNOWN_KEYS_def RAW_BASE_KEYS_def COMMON_KEYS_def keys_def)
  moreover have "validate_common env (unknown_notice_dict job d at reason) True = Inr ()"
    using ids d by (simp add: validate_common_def unknown_notice_dict_def jget_def receipt_checks_plain [OF env])
  moreover have "jget (unknown_notice_dict job d at reason) ''terminal_outcome'' = Inr JNull"
    "jget (unknown_notice_dict job d at reason) ''last_known_at'' = Inr (JStr at)"
    "jget (unknown_notice_dict job d at reason) ''reason_code'' = Inr (JStr reason)"
    by (simp_all add: unknown_notice_dict_def jget_def)
  moreover have "jget_opt (unknown_notice_dict job d at reason) ''kind'' = JStr ''unknown''"
    by (simp add: unknown_notice_dict_def jget_opt_def)
  ultimately show ?thesis
    using reason at by (simp add: validate_receipt_def validate_unknown_def receipt_checks_plain [OF env])
qed

text \<open>The artifact a notice becomes.\<close>

definition artifact_of :: "SealedJob \<Rightarrow> string \<Rightarrow> string \<Rightarrow> ReceiptArtifact" where
  "artifact_of job knd canonical = \<lparr>rc_kind = knd, rc_job_id = job_id job, rc_job_digest = job_digest job,
     rc_operation_id = operation_id job, rc_request_id = request_id job, rc_reply_target = reply_target job,
     receipt_digest = receipt_digest_of canonical, canonical_receipt = canonical\<rparr>"

lemma jget_sort_flat:
  "flat_dict kvs \<Longrightarrow> jget (sort_key fst kvs) k = jget kvs k \<and> jget_opt (sort_key fst kvs) k = jget_opt kvs k"
  by (simp add: jget_def jget_opt_def flat_dict_def map_of_sort_key)

lemma terminal_notice_Inr:
  assumes env: "env_ok env" and job: "job_ok job" and reason: "SAFE_ID_RE reason" and out: "outcome \<in> set NOTICE_OUTCOMES"
  obtains b v where "terminal_notice env job outcome reason = Inr (artifact_of job ''terminal_notice'' b)"
    "seal_receipt env b = Inr (artifact_of job ''terminal_notice'' b)"
    "receipt_copy env (artifact_of job ''terminal_notice'' b) = Inr v"
    "jget v ''terminal_outcome'' = Inr (JStr outcome)" "jget v ''reason_code'' = Inr (JStr reason)"
    "jget_opt v ''reason_code'' = JStr reason"
proof -
  let ?d = "terminal_notice_dict job outcome reason"
  have flat: "flat_dict ?d" using terminal_notice_flat [OF job reason notice_outcome_safe [OF out]] .
  obtain b where b: "canonical_json (JObj ?d) = Inr b" using flat_canonical [OF flat] by blast
  let ?a = "artifact_of job ''terminal_notice'' b"
  have "receipt_artifact ?d ''terminal_notice'' = Inr ?a"
    unfolding receipt_artifact_def b by (simp add: get_str_def terminal_notice_dict_def jget_def jstr_def artifact_of_def)
  then have t: "terminal_notice env job outcome reason = Inr ?a"
    unfolding terminal_notice_eq [OF flat] flat_seal [OF env flat] terminal_notice_valid [OF assms] by simp
  have r: "seal_receipt env (canonical_receipt ?a) = Inr ?a \<and> receipt_copy env ?a = Inr (sort_key fst ?d)"
    using flat_reseal [OF env flat] t by (simp add: terminal_notice_eq [OF flat])
  moreover have "jget (sort_key fst ?d) ''terminal_outcome'' = Inr (JStr outcome)" "jget (sort_key fst ?d) ''reason_code'' = Inr (JStr reason)"
    "jget_opt (sort_key fst ?d) ''reason_code'' = JStr reason"
    using jget_sort_flat [OF flat] by (simp_all add: terminal_notice_dict_def jget_def jget_opt_def)
  ultimately show thesis using t by (intro that [of b "sort_key fst ?d"]) (simp_all add: artifact_of_def)
qed

lemma unknown_notice_Inr:
  assumes env: "env_ok env" and job: "job_ok job" and reason: "SAFE_ID_RE reason" and d: "DIGEST_RE d" and at: "timestamp_ok at"
  obtains b v where "unknown_notice env job d at reason = Inr (artifact_of job ''unknown'' b)"
    "seal_receipt env b = Inr (artifact_of job ''unknown'' b)"
    "receipt_copy env (artifact_of job ''unknown'' b) = Inr v"
    "jget v ''terminal_outcome'' = Inr JNull" "jget v ''raw_receipt_digest'' = Inr (JStr d)"
    "jget_opt v ''raw_receipt_digest'' = JStr d"
proof -
  let ?d = "unknown_notice_dict job d at reason"
  have flat: "flat_dict ?d" using unknown_notice_flat [OF job reason d at] .
  obtain b where b: "canonical_json (JObj ?d) = Inr b" using flat_canonical [OF flat] by blast
  let ?a = "artifact_of job ''unknown'' b"
  have "receipt_artifact ?d ''unknown'' = Inr ?a"
    unfolding receipt_artifact_def b by (simp add: get_str_def unknown_notice_dict_def jget_def jstr_def artifact_of_def)
  then have t: "unknown_notice env job d at reason = Inr ?a"
    unfolding unknown_notice_def flat_seal [OF env flat] unknown_notice_valid [OF assms] by simp
  have r: "seal_receipt env (canonical_receipt ?a) = Inr ?a \<and> receipt_copy env ?a = Inr (sort_key fst ?d)"
    using flat_reseal [OF env flat] t by (simp add: unknown_notice_def)
  moreover have "jget (sort_key fst ?d) ''terminal_outcome'' = Inr JNull" "jget (sort_key fst ?d) ''raw_receipt_digest'' = Inr (JStr d)"
    "jget_opt (sort_key fst ?d) ''raw_receipt_digest'' = JStr d"
    using jget_sort_flat [OF flat] by (simp_all add: unknown_notice_dict_def jget_def jget_opt_def)
  ultimately show thesis using t by (intro that [of b "sort_key fst ?d"]) (simp_all add: artifact_of_def)
qed


section \<open>Properties\<close>

lemma sample_reason: "SAFE_ID_RE ''disabled_unverified_authority''" "''rejected'' \<in> set NOTICE_OUTCOMES"
  by (simp_all add: NOTICE_OUTCOMES_def SAFE_ID_RE_def id_head_def id_tail_def is_lower_def is_digit_def less_eq_char_def)

text \<open>
  Sealing a receipt is idempotent: the canonical bytes of a sealed receipt without floats are
  sealed to the same artifact, with the same digest, as long as they fit the size limit.
\<close>

theorem receipt_seal_idempotent:
  assumes "seal_receipt env raw = Inr a" and "parse_receipt env raw = Inr kvs" and "no_float (JObj kvs)"
    and "length (canonical_receipt a) \<le> MAX_RECEIPT_BYTES"
  shows "seal_receipt env (canonical_receipt a) = Inr a"
  using assms by (intro seal_canonical_receipt) auto

theorem receipt_seal_idempotent_witness:
  "\<exists>a. seal_receipt sample_env (canonical_receipt a) = Inr a \<and> rc_kind a = ''terminal_notice''"
proof -
  let ?d = "terminal_notice_dict sample_job ''rejected'' ''disabled_unverified_authority''"
  have flat: "flat_dict ?d"
    using terminal_notice_flat [OF sample_job_ok sample_reason(1) notice_outcome_safe [OF sample_reason(2)]] .
  have n: "no_float (JObj ?d)" by (simp add: terminal_notice_dict_def)
  from terminal_notice_Inr [OF sample_env_ok sample_job_ok sample_reason] obtain b
    where b: "seal_receipt sample_env (default_json (JObj ?d)) = Inr (artifact_of sample_job ''terminal_notice'' b)"
    by (auto simp: terminal_notice_eq [OF flat])
  have "validate_receipt sample_env ?d = Inr ''terminal_notice''"
    by (rule terminal_notice_valid [OF sample_env_ok sample_job_ok sample_reason])
  then have "canonical_json (JObj ?d) = Inr b"
    using b receipt_artifact_canonical by (fastforce simp: flat_seal [OF sample_env_ok flat] artifact_of_def)
  with flat_canonical [OF flat] have "length b \<le> MAX_RECEIPT_BYTES" by (simp add: MAX_RECEIPT_BYTES_def)
  with receipt_seal_idempotent [OF b flat_parse [OF sample_env_ok flat] n] show ?thesis
    by (intro exI [of _ "artifact_of sample_job ''terminal_notice'' b"]) (simp add: artifact_of_def)
qed

text \<open>
  A sealed receipt says about the outcome what its kind allows: a public or quarantined
  receipt a success or a failure, an unknown receipt nothing, a terminal notice one of the
  four outcomes of a job that never started.
\<close>

theorem receipt_outcome_by_kind:
  assumes "seal_receipt env raw = Inr a"
  shows "\<exists>kvs out. parse_receipt env raw = Inr kvs \<and> jget kvs ''terminal_outcome'' = Inr out \<and> outcome_allowed (rc_kind a) out"
proof -
  from assms obtain kvs k where p: "parse_receipt env raw = Inr kvs" "validate_receipt env kvs = Inr k" "receipt_artifact kvs k = Inr a"
    by (auto simp: seal_receipt_def bindE_Inr_iff)
  then have "rc_kind a = k" by (auto simp: receipt_artifact_def bindE_Inr_iff)
  with p validate_receipt_outcome [OF p(2)] show ?thesis by auto
qed

theorem receipt_outcome_by_kind_witness:
  "\<exists>raw kvs out. parse_receipt sample_env raw = Inr kvs \<and> jget kvs ''terminal_outcome'' = Inr out
     \<and> outcome_allowed ''terminal_notice'' out"
proof -
  from terminal_notice_Inr [OF sample_env_ok sample_job_ok sample_reason] obtain b
    where "seal_receipt sample_env b = Inr (artifact_of sample_job ''terminal_notice'' b)" by auto
  from receipt_outcome_by_kind [OF this] show ?thesis by (auto simp: artifact_of_def)
qed

text \<open>
  The terminal notice the broker writes for a sealed job always seals: for every job that
  passed \<open>seal_typed_manifest\<close>, every reason code that is a safe identifier and every outcome of
  a job that never started, \<open>seal_receipt\<close> returns an artifact that carries the job's identity
  and is sealed again from its canonical bytes.
\<close>

theorem terminal_notice_seals:
  assumes "env_ok env" and "seal_typed_manifest env reg raw = Inr job" and "SAFE_ID_RE reason"
    and "outcome \<in> set NOTICE_OUTCOMES"
  shows "\<exists>a. terminal_notice env job outcome reason = Inr a \<and> seal_receipt env (canonical_receipt a) = Inr a
    \<and> rc_kind a = ''terminal_notice'' \<and> rc_job_id a = job_id job \<and> rc_job_digest a = job_digest job
    \<and> rc_operation_id a = operation_id job \<and> rc_request_id a = request_id job \<and> rc_reply_target a = reply_target job"
proof -
  have "job_ok job" using seal_job_ok [OF assms(2)] by simp
  from terminal_notice_Inr [OF assms(1) this assms(3,4)] obtain b
    where "terminal_notice env job outcome reason = Inr (artifact_of job ''terminal_notice'' b)"
      "seal_receipt env b = Inr (artifact_of job ''terminal_notice'' b)" by auto
  then show ?thesis by (intro exI [of _ "artifact_of job ''terminal_notice'' b"]) (simp add: artifact_of_def)
qed

theorem terminal_notice_seals_witness:
  "\<exists>a. terminal_notice sample_env sample_job ''rejected'' ''disabled_unverified_authority'' = Inr a \<and> rc_job_id a = ''job-1''"
  using terminal_notice_seals [OF sample_env_ok sample_seals sample_reason] by (auto simp: sample_job_def)

end
