(* ===== verification/Store_Receipts.thy ===== *)
theory Store_Receipts
  imports Auth_Store Notices
begin

text \<open>
  The receipts in the store: what is published is exactly what is retrieved, every stored receipt
  is still sealed, agrees with the record of its job, and only an unknown receipt is ever
  replaced. The invariant is one more preorder over the primitive steps of the store.
\<close>

section \<open>The receipt invariant\<close>

definition receipt_outcome :: "pyenv \<Rightarrow> ReceiptArtifact \<Rightarrow> json result" where
  "receipt_outcome env a = bindE (receipt_copy env a) (\<lambda>v. jget v ''terminal_outcome'')"

text \<open>The receipt of a job agrees with its record.\<close>

definition agrees :: "pyenv \<Rightarrow> ReceiptArtifact \<Rightarrow> JobRecord \<Rightarrow> bool" where
  "agrees env a r \<longleftrightarrow> rec_job_id r = rc_job_id a \<and> rec_job_digest r = rc_job_digest a
     \<and> (if rc_kind a = ''unknown'' then state r = UNKNOWN \<or> state r = TERMINAL
        else state r = TERMINAL \<and> receipt_outcome env a = Inr (opt_str (map_option outcome_value (terminal_outcome r))))"

definition row_ok :: "pyenv \<Rightarrow> store \<Rightarrow> receipt_row \<Rightarrow> bool" where
  "row_ok env s row \<longleftrightarrow> (\<exists>a. seal_receipt env (row_canonical row) = Inr a \<and> canonical_receipt a = row_canonical row
     \<and> row_matches row a \<and> (\<exists>r\<in>set (records s). agrees env a r))"

definition receipt_inv :: "pyenv \<Rightarrow> store \<Rightarrow> bool" where
  "receipt_inv env s \<longleftrightarrow> distinct (map row_digest (receipts s)) \<and> distinct (map fst (receipt_current s))
     \<and> (\<forall>row\<in>set (receipts s). row_ok env s row)
     \<and> (\<forall>c\<in>set (receipt_current s). \<exists>row\<in>set (receipts s). row_digest row = snd c \<and> row_job_id row = fst c)"

lemma receipt_inv_empty: "receipt_inv env empty_store"
  by (simp add: receipt_inv_def empty_store_def)

lemma agrees_le: "agrees env a r \<Longrightarrow> record_le r r' \<Longrightarrow> agrees env a r'"
  by (auto simp: agrees_def record_le_def split: if_splits)

lemma row_ok_grows:
  assumes "row_ok env s row" and "grows s s'"
  shows "row_ok env s' row"
proof -
  from assms(1) obtain a r where a: "seal_receipt env (row_canonical row) = Inr a" "canonical_receipt a = row_canonical row"
    "row_matches row a" and r: "r \<in> set (records s)" "agrees env a r" by (auto simp: row_ok_def)
  from assms(2) r obtain r' where "r' \<in> set (records s')" "agrees env a r'" by (auto simp: grows_def intro: agrees_le)
  with a show ?thesis by (auto simp: row_ok_def)
qed

lemma receipt_inv_grows:
  "receipt_inv env s \<Longrightarrow> grows s s' \<Longrightarrow> receipts s' = receipts s \<Longrightarrow> receipt_current s' = receipt_current s \<Longrightarrow> receipt_inv env s'"
  by (auto simp: receipt_inv_def intro: row_ok_grows)

section \<open>Publication\<close>

definition row_of :: "ReceiptArtifact \<Rightarrow> receipt_row" where
  "row_of a = \<lparr>row_digest = receipt_digest a, row_job_id = rc_job_id a, row_job_digest = rc_job_digest a,
     row_operation_id = rc_operation_id a, row_kind = rc_kind a, row_canonical = canonical_receipt a\<rparr>"

lemma row_of_matches [simp]: "row_matches (row_of a) a"
  by (simp add: row_matches_def row_of_def)

lemma row_of_simps [simp]:
  "row_digest (row_of a) = receipt_digest a" "row_job_id (row_of a) = rc_job_id a" "row_job_digest (row_of a) = rc_job_digest a"
  "row_kind (row_of a) = rc_kind a" "row_canonical (row_of a) = canonical_receipt a"
  by (simp_all add: row_of_def)

lemma verify_receipt_Inr: "verify_receipt env a = Inr () \<longleftrightarrow> seal_receipt env (canonical_receipt a) = Inr a"
  by (auto simp: verify_receipt_def result_simps)

text \<open>An accepted receipt agrees with the record of its job.\<close>

lemma publication_agrees:
  assumes inv: "ledger_inv s" and v: "validate_receipt_publication env s a = Inr ()"
  shows "\<exists>r\<in>set (records s). agrees env a r"
proof -
  from v obtain job r val where j: "read_job env s (rc_job_id a) = Inr job" "read_record s (rc_job_id a) = Inr r"
    "job_digest job = rc_job_digest a" "state r = TERMINAL \<or> state r = UNKNOWN" "receipt_copy env a = Inr val"
    "check_outcome_link r a val = Inr ()"
    by (auto simp: validate_receipt_publication_def bindE_Inr_iff raise_if_Inr_iff)
  have r: "r \<in> set (records s)" "rec_job_id r = rc_job_id a" "record_ok r"
    using j(2) ledger_inv_find_record [OF inv] by (auto simp: read_record_Inr_iff [OF inv])
  from j(1) obtain x where x: "x \<in> set (jobs s)" "row_job x = job" "job_id job = rc_job_id a" using read_job_Inr by blast
  from ledger_inv_job [OF inv r(1)] obtain y where y: "y \<in> set (jobs s)" "job_id (row_job y) = rec_job_id r"
    "job_digest (row_job y) = rec_job_digest r" by auto
  have "x = y" using inv x y r by (auto simp: ledger_inv_def job_ids_def intro: distinct_map_unique)
  then have d: "rec_job_digest r = rc_job_digest a" using x y j(3) by simp
  have "agrees env a r"
    using j r d by (auto simp: agrees_def check_outcome_link_def receipt_outcome_def bindE_Inr_iff raise_if_Inr_iff split: if_splits)
  with r show ?thesis by blast
qed

lemma insert_receipt_Inr:
  assumes "insert_receipt s a = Inr s'"
  shows "receipts s' = receipts s @ [row_of a] \<and> receipt_digest a \<notin> row_digest ` set (receipts s)
    \<and> (case current_receipt s (rc_job_id a) of
         None \<Rightarrow> rc_job_id a \<notin> fst ` set (receipt_current s)
           \<and> receipt_current s' = receipt_current s @ [(rc_job_id a, receipt_digest a)]
       | Some c \<Rightarrow> row_kind c = ''unknown'' \<and> rc_kind a \<noteq> ''unknown''
           \<and> receipt_current s' = map (\<lambda>c. if fst c = rc_job_id a then (fst c, receipt_digest a) else c) (receipt_current s))"
  using assms
  by (cases "current_receipt s (rc_job_id a)") (auto simp: insert_receipt_def Let_def row_of_def split: if_split_asm)

lemma publish_receipt_inv:
  assumes inv: "ledger_inv s" and rinv: "receipt_inv env s" and ver: "verify_receipt env a = Inr ()"
    and p: "publish_tx env s a = Inr s'"
  shows "receipt_inv env s'"
proof -
  from p have v: "validate_receipt_publication env s a = Inr ()" and i: "insert_receipt s a = Inr s'"
    by (auto simp: publish_tx_def bindE_Inr_iff)
  note eff = insert_receipt_Inr [OF i]
  have "records s' = records s" using insert_receipt_core [OF i] by simp
  moreover have "row_ok env s (row_of a)"
    using publication_agrees [OF inv v] ver by (auto simp: row_ok_def verify_receipt_Inr)
  ultimately have rows: "\<forall>row\<in>set (receipts s'). row_ok env s' row"
    using rinv eff by (auto simp: receipt_inv_def row_ok_def)
  have dist: "distinct (map row_digest (receipts s'))" using rinv eff by (auto simp: receipt_inv_def)
  have cur: "distinct (map fst (receipt_current s')) \<and>
      (\<forall>c\<in>set (receipt_current s'). \<exists>row\<in>set (receipts s'). row_digest row = snd c \<and> row_job_id row = fst c)"
  proof (cases "current_receipt s (rc_job_id a)")
    case None
    with rinv eff show ?thesis by (auto simp: receipt_inv_def)
  next
    case (Some c)
    then have c: "receipt_current s' = map (\<lambda>c. if fst c = rc_job_id a then (fst c, receipt_digest a) else c) (receipt_current s)"
      using eff by simp
    have "map fst (receipt_current s') = map fst (receipt_current s)" unfolding c by simp
    moreover have "\<exists>row\<in>set (receipts s'). row_digest row = snd x \<and> row_job_id row = fst x" if "x \<in> set (receipt_current s')" for x
    proof -
      from that obtain y where y: "y \<in> set (receipt_current s)" "x = (if fst y = rc_job_id a then (fst y, receipt_digest a) else y)"
        unfolding c set_map by blast
      with rinv eff show ?thesis by (cases "fst y = rc_job_id a") (auto simp: receipt_inv_def)
    qed
    ultimately show ?thesis using rinv by (auto simp: receipt_inv_def)
  qed
  show ?thesis unfolding receipt_inv_def using rows dist cur by simp
qed

text \<open>A receipt that is not unknown is final: the pointer of its job never moves again.\<close>

definition final_kept :: "store \<Rightarrow> store \<Rightarrow> bool" where
  "final_kept s s' \<longleftrightarrow> (\<forall>jid row. current_receipt s jid = Some row \<and> row_kind row \<noteq> ''unknown'' \<longrightarrow> current_receipt s' jid = Some row)"

lemma find_append_Some: "List.find P xs = Some x \<Longrightarrow> List.find P (xs @ ys) = Some x"
  by (simp add: find_append)

lemma publish_final_kept:
  assumes i: "insert_receipt s a = Inr s'"
  shows "final_kept s s'"
  unfolding final_kept_def
proof (intro allI impI, elim conjE)
  fix jid row assume cur: "current_receipt s jid = Some row" and fin: "row_kind row \<noteq> ''unknown''"
  note eff = insert_receipt_Inr [OF i]
  from cur obtain d where d: "map_of (receipt_current s) jid = Some d" "find_receipt s d = Some row"
    by (auto simp: current_receipt_def split: option.splits)
  have f: "find_receipt s' d = Some row" using d(2) eff by (simp add: find_receipt_def find_append)
  have "map_of (receipt_current s') jid = Some d"
  proof (cases "current_receipt s (rc_job_id a)")
    case None
    then show ?thesis using eff d(1) by (simp add: map_add_Some_iff)
  next
    case (Some c)
    with eff cur fin have ne: "rc_job_id a \<noteq> jid" by auto
    have "map_of (map (\<lambda>c. if fst c = rc_job_id a then (fst c, receipt_digest a) else c) xs) jid = map_of xs jid"
      for xs :: "(string \<times> string) list"
      using ne by (induction xs) auto
    with Some eff d(1) show ?thesis by simp
  qed
  with f show "current_receipt s' jid = Some row" by (simp add: current_receipt_def)
qed

lemma final_kept_same: "receipts s' = receipts s \<Longrightarrow> receipt_current s' = receipt_current s \<Longrightarrow> final_kept s s'"
  by (simp add: final_kept_def current_receipt_def find_receipt_def cong: option.case_cong)

lemma final_kept_trans: "final_kept s s1 \<Longrightarrow> final_kept s1 s2 \<Longrightarrow> final_kept s s2"
  by (simp add: final_kept_def)

definition keeps_receipts :: "pyenv \<Rightarrow> store \<Rightarrow> store \<Rightarrow> bool" where
  "keeps_receipts env s s' \<longleftrightarrow>
     final_kept s s' \<and> (ledger_inv s \<and> receipt_inv env s \<longrightarrow> ledger_inv s' \<and> grows s s' \<and> receipt_inv env s')"

lemma keeps_receipts_evolves:
  "evolves s s' \<Longrightarrow> receipts s' = receipts s \<Longrightarrow> receipt_current s' = receipt_current s \<Longrightarrow> keeps_receipts env s s'"
  by (auto simp: keeps_receipts_def evolves_def intro: receipt_inv_grows final_kept_same)

lemma cas_same_receipts: "compare_and_append_tx s ev = Inr (r, s') \<Longrightarrow> receipts s' = receipts s \<and> receipt_current s' = receipt_current s"
  unfolding compare_and_append_tx_def Let_def
  by (auto simp: bindE_Inr_iff insert_ledger_def insert_ledger_row_def split: if_splits)

interpretation rc: store_preorder env "keeps_receipts env"
proof
  fix s show "keeps_receipts env s s" by (simp add: keeps_receipts_def grows_refl final_kept_same)
  fix s1 s2 show "keeps_receipts env s s1 \<Longrightarrow> keeps_receipts env s1 s2 \<Longrightarrow> keeps_receipts env s s2"
    by (auto simp: keeps_receipts_def intro: grows_trans final_kept_trans)
  fix s' job sub show "verify_job env job = Inr () \<Longrightarrow> insert_job s job sub = Inr s' \<Longrightarrow> keeps_receipts env s s'"
    by (rule keeps_receipts_evolves [OF ev.R_job]) (auto simp: insert_job_def split: if_splits)
  fix r show "is_initial r \<Longrightarrow> matching_job s r \<Longrightarrow> insert_record_and_initial_ledger s r = Inr s' \<Longrightarrow> keeps_receipts env s s'"
    by (rule keeps_receipts_evolves [OF ev.R_record]) (auto simp: insert_record_Inr)
  fix r' ev show "compare_and_append_tx s ev = Inr (r', s') \<Longrightarrow> keeps_receipts env s s'"
    by (rule keeps_receipts_evolves [OF ev.R_cas]) (auto dest: cas_same_receipts)
  fix raw show "insert_raw s raw = Inr s' \<Longrightarrow> keeps_receipts env s s'"
    by (rule keeps_receipts_evolves [OF ev.R_raw]) (auto simp: insert_raw_def split: if_splits)
  fix a show "verify_receipt env a = Inr () \<Longrightarrow> publish_tx env s a = Inr s' \<Longrightarrow> keeps_receipts env s s'"
    using ev.R_publish [of env a s s']
    by (auto simp: keeps_receipts_def evolves_def publish_tx_def bindE_Inr_iff
        intro: publish_receipt_inv [unfolded publish_tx_def] publish_final_kept)
  fix q show "keeps_receipts env s (s\<lparr>quarantine := quarantine s @ [q]\<rparr>)"
    by (rule keeps_receipts_evolves [OF ev.R_quarantine]) auto
qed

section \<open>Retrieval\<close>

lemma find_receipt_in: "receipt_inv env s \<Longrightarrow> row \<in> set (receipts s) \<Longrightarrow> find_receipt s (row_digest row) = Some row"
  unfolding find_receipt_def by (intro find_unique) (simp_all add: receipt_inv_def)

lemma map_of_current: "receipt_inv env s \<Longrightarrow> (jid, d) \<in> set (receipt_current s) \<Longrightarrow> map_of (receipt_current s) jid = Some d"
  by (simp add: receipt_inv_def map_of_is_SomeI)

text \<open>The receipt the pointer of a job names is always there, sealed, and about that job.\<close>

lemma retrieve_row:
  assumes rinv: "receipt_inv env s" and cur: "current_receipt s jid = Some row"
  shows "\<exists>a. retrieve env s jid (row_job_digest row) = Inr a \<and> row_matches row a \<and> canonical_receipt a = row_canonical row
    \<and> rc_job_id a = jid \<and> (\<exists>r\<in>set (records s). agrees env a r)"
proof -
  from cur obtain d where d: "map_of (receipt_current s) jid = Some d" "find_receipt s d = Some row"
    by (auto simp: current_receipt_def split: option.splits)
  have row: "row \<in> set (receipts s)" "row_digest row = d" using d(2) by (auto simp: find_receipt_def dest: find_SomeD)
  from rinv map_of_SomeD [OF d(1)] obtain row' where row': "row' \<in> set (receipts s)" "row_digest row' = d" "row_job_id row' = jid"
    by (fastforce simp: receipt_inv_def)
  have "row' = row" using rinv row row' by (auto simp: receipt_inv_def intro: distinct_map_unique)
  have "row_ok env s row" using rinv row(1) by (simp add: receipt_inv_def)
  then obtain a where a: "seal_receipt env (row_canonical row) = Inr a" "canonical_receipt a = row_canonical row"
    "row_matches row a" "\<exists>r\<in>set (records s). agrees env a r" unfolding row_ok_def by blast
  have "rc_job_id a = jid" using a(3) row'(3) \<open>row' = row\<close> by (simp add: row_matches_def)
  moreover have "retrieve env s jid (row_job_digest row) = Inr a"
    using a cur by (simp add: retrieve_def verify_receipt_def)
  ultimately show ?thesis using a by auto
qed

lemma publish_current:
  assumes rinv: "receipt_inv env s'" and i: "insert_receipt s a = Inr s'"
  shows "current_receipt s' (rc_job_id a) = Some (row_of a)"
proof -
  note eff = insert_receipt_Inr [OF i]
  have "(rc_job_id a, receipt_digest a) \<in> set (receipt_current s')"
  proof (cases "current_receipt s (rc_job_id a)")
    case None
    with eff show ?thesis by simp
  next
    case (Some c)
    then obtain d where "(rc_job_id a, d) \<in> set (receipt_current s)"
      by (auto simp: current_receipt_def split: option.splits dest: map_of_SomeD)
    with Some eff show ?thesis by force
  qed
  then have "map_of (receipt_current s') (rc_job_id a) = Some (receipt_digest a)" by (rule map_of_current [OF rinv])
  moreover have "find_receipt s' (receipt_digest a) = Some (row_of a)"
    using find_receipt_in [OF rinv, of "row_of a"] eff by simp
  ultimately show ?thesis by (simp add: current_receipt_def)
qed

lemma publish_retrieve:
  assumes inv: "ledger_inv s" and rinv: "receipt_inv env s" and ver: "verify_receipt env a = Inr ()"
    and pt: "publish_tx env s a = Inr s'"
  shows "retrieve env s' (rc_job_id a) (rc_job_digest a) = Inr a"
proof -
  have rinv': "receipt_inv env s'" by (rule publish_receipt_inv [OF inv rinv ver pt])
  have "current_receipt s' (rc_job_id a) = Some (row_of a)"
    using pt by (intro publish_current [OF rinv', of s]) (auto simp: publish_tx_def bindE_Inr_iff)
  moreover have "seal_receipt env (canonical_receipt a) = Inr a" using ver by (simp add: verify_receipt_Inr)
  ultimately show ?thesis using ver by (simp add: retrieve_def)
qed

end
