(* ===== verification/Store_Runs.thy ===== *)
theory Store_Runs
  imports Store_Receipts
begin

text \<open>
  The store as a transition system: one step for each operation of \<open>PosixRootActionStore\<close> that may
  write, the states it reaches from the empty database, and the properties of those states.
  Write transactions hold the database lock, so every run of concurrent clients is a
  sequence of these steps, whichever way the operations interleave.
\<close>

section \<open>Steps and reachable states\<close>

inductive store_step :: "pyenv \<Rightarrow> store \<Rightarrow> store \<Rightarrow> bool" for env where
  put_if_absent: "store_step env s (snd (put_if_absent env s job))"
| create_pending: "store_step env s (snd (create_pending env s r))"
| seal_pending: "store_step env s (snd (seal_pending env s job eid at submission limits))"
| seal_rejected: "store_step env s (snd (seal_rejected env s job eid at ev a sub limits))"
| seal_with_lineage_admission:
    "store_step env s (snd (seal_with_lineage_admission env s job eid at ev a sub limits policy))"
| compare_and_append: "store_step env s (snd (compare_and_append s ev))"
| put_raw_if_absent: "store_step env s (snd (put_raw_if_absent env s raw))"
| complete_claimed_execution: "store_step env s (snd (complete_claimed_execution env s ev raw a))"
| mark_claimed_execution_unknown: "store_step env s (snd (mark_claimed_execution_unknown env s ev raw a))"
| publish_if_absent: "store_step env s (snd (publish_if_absent env s a))"
| quarantine_if_absent: "store_step env s (snd (quarantine_if_absent env s q))"
| create_auth_bootstrap: "bootstrap_ok session \<Longrightarrow> store_step env s (snd (create_auth_bootstrap s session))"
| issue_registration_ceremony: "store_step env s (snd (issue_registration_ceremony s d c))"
| complete_registration: "store_step env s (snd (complete_registration s d cid cred at))"
| issue_approval_ceremony: "store_step env s (snd (issue_approval_ceremony s c))"
| claim_with_approval: "store_step env s (snd (claim_with_approval s c cred v ap ev))"

inductive reachable :: "pyenv \<Rightarrow> store \<Rightarrow> bool" for env where
  start: "reachable env empty_store"
| step: "reachable env s \<Longrightarrow> store_step env s s' \<Longrightarrow> reachable env s'"

text \<open>What a step never takes back.\<close>

definition forward :: "store \<Rightarrow> store \<Rightarrow> bool" where
  "forward s s' \<longleftrightarrow> grows s s' \<and> final_kept s s'"

lemma forward_refl: "forward s s"
  by (simp add: forward_def grows_refl final_kept_same)

lemma forward_trans: "forward s s1 \<Longrightarrow> forward s1 s2 \<Longrightarrow> forward s s2"
  by (auto simp: forward_def intro: grows_trans final_kept_trans)

definition store_inv :: "pyenv \<Rightarrow> store \<Rightarrow> bool" where
  "store_inv env s \<longleftrightarrow> ledger_inv s \<and> auth_inv s \<and> receipt_inv env s"

text \<open>A step of the job tables keeps the invariant and only grows the store.\<close>

lemma job_step_inv:
  "store_inv env s \<Longrightarrow> keeps_receipts env s s' \<Longrightarrow> same_auth s s' \<Longrightarrow> store_inv env s' \<and> forward s s'"
  by (auto simp: store_inv_def keeps_receipts_def forward_def intro: auth_inv_job_step)

text \<open>So does a step of the authorization tables.\<close>

lemma auth_step_inv:
  assumes "store_inv env s" and "auth_inv s' \<and> same_jobs s s'"
  shows "store_inv env s' \<and> forward s s'"
proof -
  have e: "ledger_inv s'" "grows s s'" using assms evolves_same_jobs [of s s'] by (auto simp: evolves_def store_inv_def)
  then have "receipt_inv env s'" using assms by (auto simp: store_inv_def same_jobs_def intro: receipt_inv_grows)
  with e assms show ?thesis by (simp add: store_inv_def forward_def same_jobs_def final_kept_same)
qed

lemma transaction_step:
  assumes "store_inv env s" and "\<And>x s'. transaction s m = (Inr x, s') \<Longrightarrow> auth_inv s' \<and> same_jobs s s'"
  shows "store_inv env (snd (transaction s m)) \<and> forward s (snd (transaction s m))"
  using assms auth_step_inv [OF assms(1)] forward_refl
  by (intro transaction_keeps_value [where P = "\<lambda>s'. store_inv env s' \<and> forward s s'"]) auto

lemma claim_step_inv:
  assumes inv: "store_inv env s"
  shows "store_inv env (snd (claim_with_approval s c cred v a ev)) \<and> forward s (snd (claim_with_approval s c cred v a ev))"
proof -
  have "store_inv env s' \<and> forward s s'" if r: "claim_with_approval s c cred v a ev = (Inr r, s')" for r s'
  proof -
    have l: "ledger_inv s' \<and> grows s s' \<and> auth_inv s'"
      using claim_with_approval_inv [OF _ _ r] inv by (simp add: store_inv_def)
    have same: "receipts s' = receipts s \<and> receipt_current s' = receipt_current s"
      using r by (rule claim_with_approval_Inr) (auto simp: same_jobs_def dest: cas_same_receipts)
    then have "receipt_inv env s'" using l inv by (auto simp: store_inv_def intro: receipt_inv_grows)
    with l same show ?thesis by (simp add: store_inv_def forward_def final_kept_same)
  qed
  with inv show ?thesis
    unfolding claim_with_approval_def
    by (intro transaction_keeps_value [where P = "\<lambda>s'. store_inv env s' \<and> forward s s'"]) (auto simp: forward_refl)
qed

lemma store_step_inv:
  assumes "store_step env s s'" and "store_inv env s"
  shows "store_inv env s' \<and> forward s s'"
  using assms
proof (induction rule: store_step.induct)
  case (create_auth_bootstrap session s)
  then show ?case
    unfolding create_auth_bootstrap_def [of s session]
    by (intro transaction_step, simp, fold create_auth_bootstrap_def)
      (rule create_auth_bootstrap_inv, auto simp: store_inv_def)
next
  case (issue_registration_ceremony s d c)
  then show ?case
    unfolding issue_registration_ceremony_def [of s d c]
    by (intro transaction_step, simp, fold issue_registration_ceremony_def)
      (rule issue_registration_inv, auto simp: store_inv_def)
next
  case (complete_registration s d cid cred at)
  then show ?case
    unfolding complete_registration_def [of s d cid cred at]
    by (intro transaction_step, simp, fold complete_registration_def)
      (rule complete_registration_inv, auto simp: store_inv_def)
next
  case (issue_approval_ceremony s c)
  then show ?case
    unfolding issue_approval_ceremony_def [of s c]
    by (intro transaction_step, simp, fold issue_approval_ceremony_def)
      (rule issue_approval_inv, auto simp: store_inv_def)
next
  case (claim_with_approval s c cred v ap ev)
  then show ?case by (rule claim_step_inv)
qed (erule job_step_inv; rule rc.put_if_absent_R rc.create_pending_R rc.seal_pending_R rc.seal_rejected_R
    rc.seal_with_lineage_admission_R rc.compare_and_append_R rc.put_raw_if_absent_R rc.complete_claimed_execution_R
    rc.mark_claimed_execution_unknown_R rc.publish_if_absent_R rc.quarantine_if_absent_R
    au.put_if_absent_R au.create_pending_R au.seal_pending_R au.seal_rejected_R
    au.seal_with_lineage_admission_R au.compare_and_append_R au.put_raw_if_absent_R au.complete_claimed_execution_R
    au.mark_claimed_execution_unknown_R au.publish_if_absent_R au.quarantine_if_absent_R)+

lemma reachable_inv: "reachable env s \<Longrightarrow> store_inv env s"
proof (induction rule: reachable.induct)
  case start
  show ?case by (simp add: store_inv_def ledger_inv_empty auth_inv_empty receipt_inv_empty)
next
  case (step s s')
  then show ?case using store_step_inv by blast
qed

lemma steps_grow: "(store_step env)\<^sup>*\<^sup>* s s' \<Longrightarrow> store_inv env s \<Longrightarrow> store_inv env s' \<and> forward s s'"
  by (induction rule: rtranclp_induct) (auto simp: forward_refl intro: forward_trans dest: store_step_inv)


section \<open>What the ledger of a job says\<close>

lemma trace_actions: "map action (trace r evs) = map (\<lambda>ev. kind_value (ev_kind ev)) evs"
  by (induction evs arbitrary: r) (simp_all add: transition_entry_def)

lemma action_unseq: "map action es = map action (map unseq es)"
  by (simp add: unseq_def)

lemma claims_counted: "length (filter (\<lambda>a. a = ''claim_execution'') (map (\<lambda>ev. kind_value (ev_kind ev)) evs)) =
    count_list (map ev_kind evs) CLAIM_EXECUTION"
proof (induction evs)
  case (Cons ev evs)
  then show ?case by (cases "ev_kind ev") simp_all
qed simp

definition claim_rows :: "LedgerEntry list \<Rightarrow> nat" where
  "claim_rows es = length (filter (\<lambda>e. action e = ''claim_execution'') es)"

lemma history_claims:
  assumes "history_of es r"
  shows "execution_count r = int (claim_rows es) \<and> claim_rows es \<le> 1"
proof -
  from assms obtain r0 evs where h: "is_initial r0" "replay r0 evs = Inr r" "map unseq es = initial_entry r0 # trace r0 evs"
    by (auto simp: history_of_def)
  have t: "transitions r0 evs r" using h transitions_replay by (simp add: is_initial_def)
  have p: "state r0 = PENDING" using h(1) by (simp add: is_initial_def)
  have "map action es = ''sealed_pending'' # map (\<lambda>ev. kind_value (ev_kind ev)) evs"
    by (subst action_unseq) (simp add: h(3) trace_actions initial_entry_def)
  then have "claim_rows es = count_list (map ev_kind evs) CLAIM_EXECUTION"
    using claims_counted [of evs] length_filter_map [of "\<lambda>a. a = ''claim_execution''" action es]
    by (simp add: claim_rows_def comp_def)
  with transitions_claims [OF t p] have c: "execution_count r = int (claim_rows es)" by simp
  have "record_ok r" using transitions_invariant [OF t] by simp
  then have "execution_count r \<le> 1" by (auto simp: record_ok_iff state_valid_def split: JobState.splits if_splits)
  with c show ?thesis by simp
qed

lemma read_ledger_of:
  assumes inv: "ledger_inv s" and r: "r \<in> set (records s)"
  shows "read_ledger s (rec_job_id r) = Inr (ledger_of s (rec_job_id r))"
proof -
  let ?l = "ledger_of s (rec_job_id r)"
  have "sorted_wrt (<) (map sequence (ledger s))" using inv by (simp add: ledger_inv_def)
  then have "sorted_wrt (\<lambda>x y. sequence x < sequence y) (ledger s)" by (simp add: sorted_wrt_map)
  then have "sorted_wrt (\<lambda>x y. sequence x < sequence y) ?l" unfolding ledger_of_def by (rule sorted_wrt_filter)
  then have "sorted (map sequence ?l)" by (auto simp: sorted_wrt_map intro: sorted_wrt_mono_rel [rotated])
  then have "sort_key sequence ?l = ?l" by (rule sort_key_id_if_sorted)
  moreover have "?l \<noteq> []" using ledger_inv_record [OF inv r] by (auto simp: history_of_def)
  ultimately show ?thesis by (simp add: read_ledger_def Let_def)
qed

section \<open>A concrete run\<close>

definition sample_submission :: SubmissionMetadata where
  "sample_submission = \<lparr>peer_uid = 0, peer_gid = 0, peer_pid = 0, broker_received_at = ''2026-07-01T00:00:00Z''\<rparr>"

definition sample_sealed :: store where
  "sample_sealed = empty_store\<lparr>jobs := [\<lparr>row_job = sample_job, row_submission = sample_submission\<rparr>]\<rparr>"

definition sample_store :: store where
  "sample_store = sample_sealed\<lparr>records := [sample_record], ledger := [(initial_entry sample_record)\<lparr>sequence := 1\<rparr>], ledger_seq := 1\<rparr>"

lemma sample_verify: "verify_job sample_env sample_job = Inr ()"
proof -
  have "seal_typed_manifest sample_env DEFAULT_REGISTRY (canonical_manifest sample_job) = Inr sample_job"
    using seal_canonical_manifest [OF sample_seals] sample_bytes_facts(2) by (simp add: sample_job_def MAX_MANIFEST_BYTES_def)
  then show ?thesis by (simp add: verify_job_def)
qed

lemma sample_put: "put_if_absent sample_env empty_store sample_job = (Inr (), sample_sealed)"
proof -
  have "submitted_at sample_job = ''2026-07-01T00:00:00Z''" by (simp add: sample_job_def)
  then show ?thesis
    by (simp add: put_if_absent_def transaction_def sample_verify insert_job_def empty_store_def job_ids_def sample_sealed_def
        sample_submission_def)
qed

lemma sample_is_initial: "is_initial sample_record"
  using sample_record_ok by (simp add: is_initial_def sample_record_def)

lemma sample_ids: "rec_job_id sample_record = job_id sample_job" "rec_job_digest sample_record = job_digest sample_job"
  by (simp_all add: sample_record_def sample_job_def)

lemma sample_create: "create_pending sample_env sample_sealed sample_record = (Inr (), sample_store)"
proof -
  have "read_job sample_env sample_sealed (rec_job_id sample_record) = Inr sample_job"
    by (simp add: read_job_def find_job_def sample_sealed_def sample_verify sample_ids)
  moreover have "insert_record_and_initial_ledger sample_sealed sample_record = Inr sample_store"
    by (subst insert_record_Inr [OF sample_is_initial])
      (simp add: sample_sealed_def sample_store_def empty_store_def job_ids_def sample_ids)
  moreover have "validate_record sample_record = Inr ()" using sample_record_ok by (simp add: record_ok_def)
  ultimately show ?thesis
    using sample_is_initial by (simp add: create_pending_def transaction_def sample_ids is_initial_def)
qed

lemma sample_reachable: "reachable sample_env sample_store"
proof -
  have "reachable sample_env sample_sealed"
    using reachable.step [OF reachable.start store_step.put_if_absent [of sample_env _ sample_job]] by (simp add: sample_put)
  then show ?thesis
    using reachable.step [OF _ store_step.create_pending [of sample_env sample_sealed sample_record]] by (simp add: sample_create)
qed

lemma sample_find: "find_record sample_store (job_id sample_job) = Some sample_record"
  by (simp add: find_record_def sample_store_def sample_ids)

lemma sample_read: "read_record sample_store ''job-1'' = Inr sample_record"
  using reachable_inv [OF sample_reachable] sample_find
  by (simp add: read_record_Inr_iff store_inv_def sample_job_def)

end
