(* ===== verification/Store_Properties.thy ===== *)
theory Store_Properties
  imports Store_Runs
begin

text \<open>
  The properties of the store that a client relies on, over every reachable state: one execution per
  job, an append-only history, submissions within their limits, the lineage circuit breaker,
  receipts that are retrieved as they were published, single-use approvals.
\<close>

section \<open>Submissions\<close>

lemma joined_append:
  assumes inv: "ledger_inv s" and new: "job_id (row_job j) \<notin> set (job_ids s)" and r: "rec_job_id r = job_id (row_job j)"
    and s': "jobs s' = jobs s @ [j]" "records s' = records s @ [r]"
  shows "joined s' = joined s @ [(j, r)]"
proof -
  have none: "filter (\<lambda>x. rec_job_id x = job_id (row_job j)) (records s) = []"
  proof -
    have "rec_job_id x \<noteq> job_id (row_job j)" if "x \<in> set (records s)" for x
      using ledger_inv_job [OF inv that] new by (auto simp: job_ids_def image_iff)
    then show ?thesis by (simp add: filter_empty_conv)
  qed
  have "concat (map (\<lambda>k. map (\<lambda>x. (k, x)) (filter (\<lambda>x. rec_job_id x = job_id (row_job k)) (records s @ [r]))) (jobs s)) = joined s"
    unfolding joined_def using new r by (intro arg_cong [where f = concat] map_cong refl) (auto simp: job_ids_def)
  with none r show ?thesis by (simp add: joined_def s')
qed

text \<open>The state right after a job was sealed with its first record.\<close>

lemma sealed_store:
  assumes inv: "ledger_inv s" and r: "initial_record job eid at = Inr r" and j: "insert_job s job sub = Inr s1"
    and s2: "insert_record_and_initial_ledger s1 r = Inr s2" and ver: "verify_job env job = Inr ()"
  shows "ledger_inv s2 \<and> joined s2 = joined s @ [(\<lparr>row_job = job, row_submission = sub\<rparr>, r)]
    \<and> find_record s2 (job_id job) = Some r \<and> find_job s2 (job_id job) = Some \<lparr>row_job = job, row_submission = sub\<rparr>"
proof -
  have ini: "is_initial r" using r by (rule initial_record_is_initial)
  have inv2: "ledger_inv s2" using ev.R_seal [OF ver r j s2] inv by (simp add: evolves_def)
  have ids: "rec_job_id r = job_id job" using initial_record_Inr [OF r] by simp
  from j have s1: "s1 = s\<lparr>jobs := jobs s @ [\<lparr>row_job = job, row_submission = sub\<rparr>]\<rparr>" and new: "job_id job \<notin> set (job_ids s)"
    by (auto simp: insert_job_def split: if_splits)
  from s2 have eff: "jobs s2 = jobs s @ [\<lparr>row_job = job, row_submission = sub\<rparr>]" "records s2 = records s @ [r]"
    by (auto simp: insert_record_Inr [OF ini] s1)
  have "joined s2 = joined s @ [(\<lparr>row_job = job, row_submission = sub\<rparr>, r)]"
    by (rule joined_append [OF inv _ _ eff]) (use new ids in auto)
  moreover have "find_record s2 (job_id job) = Some r" using find_record_in [OF inv2, of r] eff ids by simp
  moreover have "find_job s2 (job_id job) = Some \<lparr>row_job = job, row_submission = sub\<rparr>"
  proof -
    have "List.find (\<lambda>k. job_id (row_job k) = job_id job) (jobs s) = None"
      using new by (auto simp: find_None_iff' job_ids_def image_iff)
    then show ?thesis by (simp add: find_job_def eff find_append)
  qed
  ultimately show ?thesis using inv2 by simp
qed

lemma seal_pending_Inr:
  assumes "seal_pending env s job eid at (Some sub) limits = (Inr r, s')"
  obtains s1 where "verify_job env job = Inr ()" "initial_record job eid at = Inr r"
    "enforce_submission_limits s job sub limits = Inr ()" "insert_job s job sub = Inr s1"
    "insert_record_and_initial_ledger s1 r = Inr s'"
  using assms unfolding seal_pending_def transaction_Inr Let_def
  by (auto simp: bindE_Inr_iff)

lemma enforce_limits_Inr:
  "enforce_submission_limits s job sub limits = Inr () \<Longrightarrow>
     int (open_for_uid s (peer_uid sub)) < max_open_per_uid limits
     \<and> int (open_for_lineage s (lineage_id job)) < max_open_per_lineage limits"
  by (auto simp: enforce_submission_limits_def bindE_Inr_iff raise_if_Inr_iff)

lemma limits_after:
  assumes "enforce_submission_limits s job sub limits = Inr ()"
    and "joined s2 = joined s @ [(\<lparr>row_job = job, row_submission = sub\<rparr>, r)]"
  shows "int (open_for_uid s2 (peer_uid sub)) \<le> max_open_per_uid limits
    \<and> int (open_for_lineage s2 (lineage_id job)) \<le> max_open_per_lineage limits"
  using enforce_limits_Inr [OF assms(1)] by (simp add: open_for_uid_def open_for_lineage_def assms(2))

lemma check_circuit_notice_Inr:
  assumes "check_circuit_notice env job ev a policy = Inr ()"
  shows "ev_job_id ev = job_id job \<and> ev_kind ev = CLOSE_PENDING \<and> ev_outcome ev = Some PRESTART_FAILED
    \<and> ev_reason ev = Some (circuit_reason_code policy) \<and> rc_job_id a = job_id job \<and> rc_job_digest a = job_digest job"
  using assms by (auto simp: check_circuit_notice_def bindE_Inr_iff raise_if_Inr_iff)

text \<open>A transition applied right after the job was sealed.\<close>

lemma cas_after_seal:
  assumes inv: "ledger_inv s" and f: "find_record s jid = Some r" and ev: "ev_job_id ev = jid"
    and cas: "compare_and_append_tx s ev = Inr (r', s')"
  shows "ledger_inv s' \<and> apply_transition r ev = Inr r' \<and> find_record s' jid = Some r'"
proof -
  have inv': "ledger_inv s'" using compare_and_append_tx_inv [OF inv cas] .
  from cas f ev have a: "apply_transition r ev = Inr r'" "s' = cas_result s r r' ev"
    by (auto simp: compare_and_append_tx_Inr [OF inv])
  have r: "r \<in> set (records s)" "rec_job_id r = jid" using ledger_inv_find_record [OF inv f] by auto
  then have "r' \<in> set (records s')" using a(2) by (force simp: cas_result_def)
  moreover have "rec_job_id r' = jid" using a(1) r(2) by (simp add: apply_transition_Inr_iff)
  ultimately show ?thesis using find_record_in [OF inv'] a(1) inv' by auto
qed

text \<open>The start of a window of up to thirty years before a checked timestamp is always a date.\<close>

lemma window_start_ok:
  assumes "timestamp_ok at" and "0 \<le> k" and "k \<le> 1000000000"
  shows "\<exists>c. window_start at k = Inr c"
proof -
  obtain i where i: "parse_instant at = Inr i" using timestamp_ok_parse [OF assms(1)] by blast
  have b: "days_before_month y (Suc 0) = 0" for y by (simp add: days_before_month_def)
  have "instant_2000 = 63082368000" "instant_2100 = 66238128000"
    by (simp_all add: instant_2000_def instant_2100_def instant_def toordinal_def days_before_year_def b)
  then have "63082368000 \<le> i" "i < 66238128000" using parse_instant_range [OF assms(1) i] by simp_all
  then have "shift_instant i (- k) = Inr (i - k)"
    using assms(2,3) by (simp add: shift_instant_def min_instant_def max_instant_def)
  then show ?thesis using i by (simp add: window_start_def)
qed

section \<open>Properties\<close>

text \<open>
  C2. In every state the store can reach, the record of a job is exactly what its ledger rows say:
  they start with the sealing of the job, each further row is one accepted transition, replaying
  them gives the record, and at most one of them claims the execution.
\<close>

theorem record_is_ledger_replay:
  assumes "reachable env s" and "read_record s jid = Inr r"
  shows "\<exists>es r0 evs. read_ledger s jid = Inr es \<and> is_initial r0 \<and> replay r0 evs = Inr r
    \<and> map unseq es = initial_entry r0 # trace r0 evs
    \<and> claim_rows es \<le> 1 \<and> execution_count r = int (claim_rows es)"
proof -
  have inv: "ledger_inv s" using reachable_inv [OF assms(1)] by (simp add: store_inv_def)
  have r: "r \<in> set (records s)" "rec_job_id r = jid"
    using assms(2) ledger_inv_find_record [OF inv] by (auto simp: read_record_Inr_iff [OF inv])
  have h: "history_of (ledger_of s jid) r" using ledger_inv_record [OF inv r(1)] r(2) by simp
  then show ?thesis
    using read_ledger_of [OF inv r(1)] history_claims [OF h] r(2) unfolding history_of_def by auto
qed

theorem record_is_ledger_replay_witness:
  "\<exists>es. read_ledger sample_store ''job-1'' = Inr es \<and> claim_rows es \<le> 1 \<and> execution_count sample_record = int (claim_rows es)"
  using record_is_ledger_replay [OF sample_reachable sample_read] by blast

text \<open>
  C17. Under every reachable state, compare-and-append is exactly the state machine: an unknown job
  and a repeated event are refused, otherwise the answer is that of \<open>apply_transition\<close>, and on
  success one record is replaced and one ledger row with the next sequence number is added.
\<close>

theorem compare_and_append_refines:
  assumes "reachable env s"
  shows "compare_and_append s ev =
    (case find_record s (ev_job_id ev) of
       None \<Rightarrow> (Inl (StorageNotFound (ev_job_id ev)), s)
     | Some r \<Rightarrow>
         if (ev_job_id ev, event_id ev) \<in> set (map (\<lambda>x. (led_job_id x, led_event_id x)) (ledger s))
         then (Inl (StorageConflict ''ledger event_id replay is blocked''), s)
         else (case apply_transition r ev of
                 Inl e \<Rightarrow> (Inl e, s)
               | Inr r' \<Rightarrow> (Inr r', s\<lparr>records := map (\<lambda>x. if rec_job_id x = rec_job_id r then r' else x) (records s),
                   ledger := ledger s @ [(transition_entry r r' ev)\<lparr>sequence := ledger_seq s + 1\<rparr>],
                   ledger_seq := ledger_seq s + 1\<rparr>)))"
proof -
  have inv: "ledger_inv s" using reachable_inv [OF assms] by (simp add: store_inv_def)
  show ?thesis
    unfolding compare_and_append_def compare_and_append_tx_eq [OF inv]
    by (simp add: transaction_def cas_result_def bindE_def split: option.splits sum.splits)
qed

theorem compare_and_append_refines_witness:
  "fst (compare_and_append sample_store sample_claim) = Inr (advance sample_record sample_claim)"
proof -
  have "find_record sample_store (ev_job_id sample_claim) = Some sample_record"
    using sample_find by (simp add: sample_claim_def sample_job_def)
  moreover have "(ev_job_id sample_claim, event_id sample_claim) \<notin> set (map (\<lambda>x. (led_job_id x, led_event_id x)) (ledger sample_store))"
    by (simp add: sample_store_def initial_entry_def sample_record_def sample_claim_def)
  ultimately show ?thesis
    unfolding compare_and_append_refines [OF sample_reachable, of sample_claim] by (simp add: sample_claimed)
qed

text \<open>
  C18. The store never takes anything back: along every run a sealed job keeps its bytes, the ledger
  only gets longer, a record keeps its identity and moves forward (a terminal one not at all),
  and the receipt of a job is final unless it is an unknown one.
\<close>

theorem store_append_only:
  assumes "reachable env s" and "(store_step env)\<^sup>*\<^sup>* s s'"
  shows "(\<forall>jid j. find_job s jid = Some j \<longrightarrow> find_job s' jid = Some j)
    \<and> (\<exists>es. ledger s' = ledger s @ es)
    \<and> (\<forall>jid r. find_record s jid = Some r \<longrightarrow> (\<exists>r'. find_record s' jid = Some r' \<and> record_le r r'))
    \<and> (\<forall>jid row. current_receipt s jid = Some row \<and> row_kind row \<noteq> ''unknown'' \<longrightarrow> current_receipt s' jid = Some row)"
proof -
  have inv: "store_inv env s'" and g: "grows s s'" and k: "final_kept s s'"
    using steps_grow [OF assms(2) reachable_inv [OF assms(1)]] by (auto simp: forward_def)
  have l: "ledger_inv s" "ledger_inv s'" using inv reachable_inv [OF assms(1)] by (simp_all add: store_inv_def)
  have "find_job s' jid = Some j" if "find_job s jid = Some j" for jid j
    using g that by (auto simp: grows_def find_job_def find_append)
  moreover have "\<exists>r'. find_record s' jid = Some r' \<and> record_le r r'" if f: "find_record s jid = Some r" for jid r
  proof -
    from g ledger_inv_find_record [OF l(1) f] obtain r' where "r' \<in> set (records s')" "record_le r r'" "rec_job_id r = jid"
      by (auto simp: grows_def)
    then show ?thesis using find_record_in [OF l(2)] by (metis record_le_def)
  qed
  ultimately show ?thesis using g k by (simp add: grows_def final_kept_def)
qed

theorem store_append_only_witness:
  "\<exists>r'. find_record (snd (compare_and_append sample_store sample_claim)) ''job-1'' = Some r' \<and> record_le sample_record r'"
proof -
  have "(store_step sample_env)\<^sup>*\<^sup>* sample_store (snd (compare_and_append sample_store sample_claim))"
    by (rule r_into_rtranclp) (rule store_step.compare_and_append)
  from store_append_only [OF sample_reachable this] sample_find show ?thesis by (simp add: sample_job_def)
qed


text \<open>
  C30. A submission is sealed within its limits: afterwards the peer has at most \<open>max_open_per_uid\<close>
  open jobs and the lineage at most \<open>max_open_per_lineage\<close>, the new job is stored as it was
  given, and its record is pending.
\<close>

theorem seal_pending_within_limits:
  assumes "reachable env s" and "seal_pending env s job eid at (Some sub) limits = (Inr r, s')"
  shows "int (open_for_uid s' (peer_uid sub)) \<le> max_open_per_uid limits
    \<and> int (open_for_lineage s' (lineage_id job)) \<le> max_open_per_lineage limits
    \<and> read_job env s' (job_id job) = Inr job \<and> read_record s' (job_id job) = Inr r \<and> state r = PENDING"
proof -
  have inv: "ledger_inv s" using reachable_inv [OF assms(1)] by (simp add: store_inv_def)
  from assms(2) obtain s1 where st: "verify_job env job = Inr ()" "initial_record job eid at = Inr r"
    "enforce_submission_limits s job sub limits = Inr ()" "insert_job s job sub = Inr s1"
    "insert_record_and_initial_ledger s1 r = Inr s'" by (rule seal_pending_Inr)
  note sealed = sealed_store [OF inv st(2,4,5,1)]
  then have "read_record s' (job_id job) = Inr r" by (simp add: read_record_Inr_iff)
  moreover have "read_job env s' (job_id job) = Inr job" using sealed st(1) by (simp add: read_job_def)
  ultimately show ?thesis
    using limits_after [OF st(3)] sealed initial_record_Inr [OF st(2)] by simp
qed

lemma sample_window: "\<exists>c. window_start ''2026-07-01T00:00:00Z'' 3600 = Inr c"
  using sample_event_oks(1) by (intro window_start_ok) (simp_all add: event_ok_def timestamp_ok_def)

lemma sample_submission_ok: "validate_submission sample_submission DEFAULT_LIMITS = Inr ()"
  by (simp add: validate_submission_def sample_submission_def DEFAULT_LIMITS_def) code_simp

lemma sample_enforce: "enforce_submission_limits empty_store sample_job sample_submission DEFAULT_LIMITS = Inr ()"
  using sample_window by (auto simp: enforce_submission_limits_def open_for_uid_def open_for_lineage_def recent_for_uid_def joined_def
        empty_store_def sample_submission_def DEFAULT_LIMITS_def)

lemma sample_seal_pending:
  "\<exists>s'. seal_pending sample_env empty_store sample_job ''ev-0'' ''2026-07-01T00:00:00Z'' (Some sample_submission) DEFAULT_LIMITS
     = (Inr sample_record, s')"
proof -
  have "insert_job empty_store sample_job sample_submission = Inr sample_sealed"
    by (simp add: insert_job_def empty_store_def job_ids_def sample_sealed_def)
  moreover have "not_sealed empty_store sample_job = Inr ()" by (simp add: not_sealed_def empty_store_def job_ids_def)
  moreover have "insert_record_and_initial_ledger sample_sealed sample_record = Inr sample_store"
    by (subst insert_record_Inr [OF sample_is_initial])
      (simp add: sample_sealed_def sample_store_def empty_store_def job_ids_def sample_ids)
  ultimately show ?thesis
    by (simp add: seal_pending_def transaction_def sample_verify sample_initial sample_submission_ok sample_enforce)
qed

theorem seal_pending_within_limits_witness:
  "\<exists>s'. int (open_for_lineage s' ''lin-1'') \<le> 1 \<and> read_record s' ''job-1'' = Inr sample_record"
proof -
  obtain s' where "seal_pending sample_env empty_store sample_job ''ev-0'' ''2026-07-01T00:00:00Z'' (Some sample_submission)
      DEFAULT_LIMITS = (Inr sample_record, s')" using sample_seal_pending by blast
  from seal_pending_within_limits [OF reachable.start this] show ?thesis
    by (intro exI [of _ s']) (simp add: sample_job_def DEFAULT_LIMITS_def)
qed


text \<open>
  C16. The lineage circuit breaker: a submission is refused exactly when the lineage has
  reached the limit of technical failures in the window. Refused, the job is sealed and closed in the same
  transaction as failed before start, with the circuit reason and without an execution, and its
  notice is what a client retrieves; admitted, its record is pending.
\<close>

theorem lineage_circuit_breaker:
  assumes reach: "reachable env s"
    and res: "seal_with_lineage_admission env s job eid at ev a sub limits policy = (Inr (r, adm), s')"
  shows "\<exists>summary. lineage_summary s (lineage_id job) (broker_received_at sub) policy = Inr summary
    \<and> find_record s' (job_id job) = Some r
    \<and> (if maximum_technical_failures policy \<le> technical_failure_count summary
       then \<not> allowed adm \<and> adm_reason adm = Some (circuit_reason_code policy) \<and> state r = TERMINAL
         \<and> terminal_outcome r = Some PRESTART_FAILED \<and> rec_reason r = Some (circuit_reason_code policy)
         \<and> execution_count r = 0 \<and> retrieve env s' (job_id job) (job_digest job) = Inr a
       else allowed adm \<and> adm_reason adm = None \<and> state r = PENDING \<and> execution_count r = 0)"
  using res
proof (rule seal_with_lineage_admission_Inr)
  fix pending summary s1 s2
  assume ver: "verify_job env job = Inr ()" and vr: "verify_receipt env a = Inr ()" and p: "initial_record job eid at = Inr pending"
    and sum: "lineage_summary s (lineage_id job) (broker_received_at sub) policy = Inr summary"
    and st: "insert_job s job sub = Inr s1" "insert_record_and_initial_ledger s1 pending = Inr s2"
    and last: "if maximum_technical_failures policy \<le> technical_failure_count summary
      then check_circuit_notice env job ev a policy = Inr ()
        \<and> (\<exists>s3. compare_and_append_tx s2 ev = Inr (r, s3) \<and> publish_tx env s3 a = Inr s')
        \<and> adm = \<lparr>allowed = False, adm_reason = Some (circuit_reason_code policy), adm_summary = summary\<rparr>
      else r = pending \<and> s' = s2 \<and> adm = \<lparr>allowed = True, adm_reason = None, adm_summary = summary\<rparr>"
  have inv: "ledger_inv s" "receipt_inv env s" using reachable_inv [OF reach] by (simp_all add: store_inv_def)
  have s2: "ledger_inv s2" "find_record s2 (job_id job) = Some pending" using sealed_store [OF inv(1) p st ver] by auto
  have r2: "receipt_inv env s2" using rc.R_seal [OF ver p st] inv by (simp add: keeps_receipts_def)
  have pend: "record_ok pending" "state pending = PENDING" using initial_record_Inr [OF p] by auto
  show ?thesis
  proof (cases "maximum_technical_failures policy \<le> technical_failure_count summary")
    case True
    with last obtain s3 where chk: "check_circuit_notice env job ev a policy = Inr ()"
      and cas: "compare_and_append_tx s2 ev = Inr (r, s3)" and pub: "publish_tx env s3 a = Inr s'"
      and adm: "adm = \<lparr>allowed = False, adm_reason = Some (circuit_reason_code policy), adm_summary = summary\<rparr>" by auto
    note c = check_circuit_notice_Inr [OF chk]
    note s3 = cas_after_seal [OF s2 conjunct1 [OF c] cas]
    have "receipt_inv env s3" using rc.R_cas [OF cas] s2(1) r2 by (simp add: keeps_receipts_def)
    then have "retrieve env s' (job_id job) (job_digest job) = Inr a"
      using publish_retrieve [OF _ _ vr pub] s3 c by simp
    moreover have "find_record s' (job_id job) = Some r" using s3 publish_tx_core [OF pub] by (simp add: find_record_def)
    moreover have "r = advance pending ev" using s3 by (simp add: apply_transition_Inr_iff)
    ultimately show ?thesis using True sum adm c by (auto simp: kind_defs)
  next
    case False
    with last sum s2 pend show ?thesis by (auto simp: record_ok_iff state_valid_def)
  qed
qed


lemma sample_notice: "\<exists>a. verify_receipt sample_env a = Inr () \<and> terminal_notice sample_env sample_job ''rejected'' ''disabled_unverified_authority'' = Inr a"
proof -
  from terminal_notice_Inr [OF sample_env_ok sample_job_ok sample_reason] obtain b
    where b: "terminal_notice sample_env sample_job ''rejected'' ''disabled_unverified_authority'' = Inr (artifact_of sample_job ''terminal_notice'' b)"
      "seal_receipt sample_env b = Inr (artifact_of sample_job ''terminal_notice'' b)" by auto
  then have "verify_receipt sample_env (artifact_of sample_job ''terminal_notice'' b) = Inr ()"
    by (simp add: verify_receipt_Inr artifact_of_def)
  with b(1) show ?thesis by blast
qed

lemma sample_summary:
  "\<exists>summary. lineage_summary empty_store (lineage_id sample_job) (broker_received_at sample_submission) DEFAULT_FAILURE_POLICY = Inr summary
     \<and> technical_failure_count summary = 0"
proof -
  have at: "timestamp_ok ''2026-07-01T00:00:00Z''" using sample_event_oks(1) by (simp add: event_ok_def)
  obtain c i where "window_start ''2026-07-01T00:00:00Z'' 86400 = Inr c" "parse_instant ''2026-07-01T00:00:00Z'' = Inr i"
    using window_start_ok [OF at, of 86400] timestamp_ok_parse [OF at] by auto
  then show ?thesis
    by (simp add: lineage_summary_def sample_submission_def DEFAULT_FAILURE_POLICY_def joined_def empty_store_def Let_def
        lineage_summary_post_init_def terminal_count_def)
qed

lemma sample_admission:
  "\<exists>a adm s'. seal_with_lineage_admission sample_env empty_store sample_job ''ev-0'' ''2026-07-01T00:00:00Z'' sample_claim a
     sample_submission DEFAULT_LIMITS DEFAULT_FAILURE_POLICY = (Inr (sample_record, adm), s')"
proof -
  obtain a where a: "verify_receipt sample_env a = Inr ()" using sample_notice by blast
  obtain summary where sum: "lineage_summary empty_store (lineage_id sample_job) (broker_received_at sample_submission) DEFAULT_FAILURE_POLICY = Inr summary"
    "technical_failure_count summary = 0" using sample_summary by blast
  have "\<not> maximum_technical_failures DEFAULT_FAILURE_POLICY \<le> technical_failure_count summary"
    by (simp add: sum(2) DEFAULT_FAILURE_POLICY_def)
  moreover have "insert_job empty_store sample_job sample_submission = Inr sample_sealed"
    by (simp add: insert_job_def empty_store_def job_ids_def sample_sealed_def)
  moreover have "not_sealed empty_store sample_job = Inr ()" by (simp add: not_sealed_def empty_store_def job_ids_def)
  moreover have "insert_record_and_initial_ledger sample_sealed sample_record = Inr sample_store"
    by (subst insert_record_Inr [OF sample_is_initial])
      (simp add: sample_sealed_def sample_store_def empty_store_def job_ids_def sample_ids)
  ultimately show ?thesis
    using a sum(1) by (intro exI [of _ a]) (simp add: seal_with_lineage_admission_def Let_def transaction_def sample_verify sample_initial
        sample_submission_ok sample_enforce)
qed

theorem lineage_circuit_breaker_witness:
  "\<exists>a adm s'. seal_with_lineage_admission sample_env empty_store sample_job ''ev-0'' ''2026-07-01T00:00:00Z'' sample_claim a
     sample_submission DEFAULT_LIMITS DEFAULT_FAILURE_POLICY = (Inr (sample_record, adm), s') \<and> allowed adm \<and> adm_reason adm = None"
proof -
  obtain a adm s' where r: "seal_with_lineage_admission sample_env empty_store sample_job ''ev-0'' ''2026-07-01T00:00:00Z'' sample_claim a
     sample_submission DEFAULT_LIMITS DEFAULT_FAILURE_POLICY = (Inr (sample_record, adm), s')" using sample_admission by blast
  have "state sample_record \<noteq> TERMINAL" by (simp add: sample_record_def)
  with lineage_circuit_breaker [OF reachable.start r] r show ?thesis by (auto split: if_splits)
qed

text \<open>
  C24. What is published is what is retrieved: after \<open>publish_if_absent\<close> returned, \<open>retrieve\<close> gives
  exactly that receipt, and the receipt agrees with the record of its job: a final receipt is about a
  terminal record with that outcome, an unknown receipt about an unknown one or one
  that was reconciled later.
\<close>

theorem publish_then_retrieve:
  assumes "reachable env s" and "publish_if_absent env s a = (Inr u, s')"
  shows "retrieve env s' (rc_job_id a) (rc_job_digest a) = Inr a
    \<and> (\<exists>r. find_record s' (rc_job_id a) = Some r \<and> agrees env a r)"
proof -
  have inv: "ledger_inv s" "receipt_inv env s" using reachable_inv [OF assms(1)] by (simp_all add: store_inv_def)
  from assms(2) have ver: "verify_receipt env a = Inr ()" and pt: "publish_tx env s a = Inr s'"
    by (auto simp: publish_if_absent_def transaction_Inr bindE_Inr_iff)
  have "validate_receipt_publication env s a = Inr ()" using pt by (auto simp: publish_tx_def bindE_Inr_iff)
  from publication_agrees [OF inv(1) this] obtain r where r: "r \<in> set (records s)" "agrees env a r" by blast
  have "find_record s (rec_job_id r) = Some r" by (rule find_record_in [OF inv(1) r(1)])
  then have "find_record s' (rc_job_id a) = Some r" using r(2) publish_tx_core [OF pt] by (simp add: find_record_def agrees_def)
  with r(2) publish_retrieve [OF inv ver pt] show ?thesis by blast
qed

text \<open>The sample job, closed as rejected.\<close>

definition sample_close :: TransitionEvent where
  "sample_close = \<lparr>event_id = ''ev-1'', ev_job_id = ''job-1'', ev_job_digest = job_digest sample_job,
     expected_revision = 0, ev_kind = CLOSE_PENDING, occurred_at = ''2026-07-01T00:00:01Z'',
     ev_outcome = Some REJECTED, ev_reason = Some ''disabled_unverified_authority''\<rparr>"

lemma sample_closed: "apply_transition sample_record sample_close = Inr (advance sample_record sample_close)"
  using sample_record_ok sample_event_oks sample_reason
  by (simp add: apply_transition_Inr_iff accepts_def sample_record_def sample_close_def kind_defs)

definition sample_closed_store :: store where
  "sample_closed_store = cas_result sample_store sample_record (advance sample_record sample_close) sample_close"

lemma sample_close_tx: "compare_and_append_tx sample_store sample_close = Inr (advance sample_record sample_close, sample_closed_store)"
proof -
  have "find_record sample_store (ev_job_id sample_close) = Some sample_record"
    using sample_find by (simp add: sample_close_def sample_job_def)
  moreover have "(ev_job_id sample_close, event_id sample_close) \<notin> set (map (\<lambda>x. (led_job_id x, led_event_id x)) (ledger sample_store))"
    by (simp add: sample_store_def initial_entry_def sample_record_def sample_close_def)
  moreover have "ledger_inv sample_store" using reachable_inv [OF sample_reachable] by (simp add: store_inv_def)
  ultimately show ?thesis
    by (simp add: compare_and_append_tx_Inr sample_closed sample_closed_store_def)
qed

lemma sample_closed_reachable: "reachable sample_env sample_closed_store"
  using reachable.step [OF sample_reachable store_step.compare_and_append [of sample_env sample_store sample_close]]
  by (simp add: compare_and_append_def transaction_def sample_close_tx)

lemma sample_publish:
  assumes "terminal_notice sample_env sample_job ''rejected'' ''disabled_unverified_authority'' = Inr a"
  shows "\<exists>s'. publish_if_absent sample_env sample_closed_store a = (Inr (), s')"
proof -
  from terminal_notice_Inr [OF sample_env_ok sample_job_ok sample_reason] obtain b v
    where t: "terminal_notice sample_env sample_job ''rejected'' ''disabled_unverified_authority'' = Inr (artifact_of sample_job ''terminal_notice'' b)"
      "seal_receipt sample_env b = Inr (artifact_of sample_job ''terminal_notice'' b)"
      "receipt_copy sample_env (artifact_of sample_job ''terminal_notice'' b) = Inr v"
      "jget v ''terminal_outcome'' = Inr (JStr ''rejected'')" "jget_opt v ''reason_code'' = JStr ''disabled_unverified_authority''"
    by metis
  then have a: "a = artifact_of sample_job ''terminal_notice'' b" using assms by simp
  have ids: "rc_job_id a = job_id sample_job" "rc_job_digest a = job_digest sample_job" "rc_operation_id a = operation_id sample_job"
    "rc_request_id a = request_id sample_job" "rc_reply_target a = reply_target sample_job" "rc_kind a = ''terminal_notice''"
    by (simp_all add: a artifact_of_def)
  have ver: "verify_receipt sample_env a = Inr ()" using t by (simp add: verify_receipt_Inr a artifact_of_def)
  have inv: "ledger_inv sample_closed_store" using reachable_inv [OF sample_closed_reachable] by (simp add: store_inv_def)
  have "read_job sample_env sample_closed_store (job_id sample_job) = Inr sample_job"
    by (simp add: read_job_def find_job_def sample_closed_store_def cas_result_def sample_store_def sample_sealed_def sample_verify)
  moreover have "read_record sample_closed_store (job_id sample_job) = Inr (advance sample_record sample_close)"
    unfolding read_record_Inr_iff [OF inv]
    by (simp add: find_record_def sample_closed_store_def cas_result_def sample_store_def sample_ids)
  ultimately have "validate_receipt_publication sample_env sample_closed_store a = Inr ()"
    unfolding validate_receipt_publication_def ids using t
    by (simp add: a [symmetric] check_raw_link_def check_outcome_link_def ids kind_defs sample_close_def opt_str_def)
  moreover have "\<exists>s'. insert_receipt sample_closed_store a = Inr s'"
    by (simp add: insert_receipt_def Let_def ids current_receipt_def job_ids_def sample_closed_store_def cas_result_def sample_store_def
        sample_sealed_def empty_store_def)
  ultimately show ?thesis using ver by (auto simp: publish_if_absent_def publish_tx_def transaction_def)
qed

theorem publish_then_retrieve_witness:
  "\<exists>a s'. retrieve sample_env s' ''job-1'' (job_digest sample_job) = Inr a \<and> rc_kind a = ''terminal_notice''"
proof -
  from terminal_notice_Inr [OF sample_env_ok sample_job_ok sample_reason] obtain b
    where t: "terminal_notice sample_env sample_job ''rejected'' ''disabled_unverified_authority'' = Inr (artifact_of sample_job ''terminal_notice'' b)"
    by metis
  from sample_publish [OF t] obtain s' where
    p: "publish_if_absent sample_env sample_closed_store (artifact_of sample_job ''terminal_notice'' b) = (Inr (), s')" by blast
  from publish_then_retrieve [OF sample_closed_reachable p]
  have "retrieve sample_env s' ''job-1'' (job_digest sample_job) = Inr (artifact_of sample_job ''terminal_notice'' b)"
    by (simp add: artifact_of_def sample_job_def)
  then show ?thesis by (intro exI [of _ "artifact_of sample_job ''terminal_notice'' b"] exI [of _ s']) (simp add: artifact_of_def)
qed

end
