(* ===== verification/Auth_Properties.thy ===== *)
theory Auth_Properties
  imports Store_Properties
begin

text \<open>
  The properties of enrollment and approval over the store: how many credentials there can
  be, what a claim with an approval needs and does, and that an approval is used once.
\<close>

section \<open>After a claim\<close>

lemma find_map_same:
  "(\<And>x. f (g x) = f x) \<Longrightarrow> List.find (\<lambda>x. f x = k) (map (\<lambda>x. if p x then g x else x) xs)
     = map_option (\<lambda>x. if p x then g x else x) (List.find (\<lambda>x. f x = k) xs)"
  by (induction xs) auto

text \<open>The ceremony of a successful claim is consumed, and no later claim can use it.\<close>

lemma claim_consumes:
  assumes "claim_with_approval s c cred v a ev = (Inr r, s')"
  shows "\<exists>x. List.find (\<lambda>x. ceremony_id x = ceremony_id c) (ceremonies s') = Some x \<and> cer_state x = CEREMONY_CONSUMED"
  using assms
proof (rule claim_with_approval_Inr)
  fix s3 assume con: "approval_contract c cred v a ev" and rc: "read_ceremony s (ceremony_id c) = Inr c"
    and cer: "ceremonies s3 = map (\<lambda>x. if ceremony_id x = ceremony_id c \<and> cer_state x = CEREMONY_ISSUED
        then x\<lparr>cer_state := CEREMONY_CONSUMED, consumed_at := Some (verified_at a), cer_fingerprint := Some (fingerprint cred)\<rparr>
        else x) (ceremonies s)"
    and cas: "compare_and_append_tx s3 ev = Inr (r, s')"
  have f: "List.find (\<lambda>x. ceremony_id x = ceremony_id c) (ceremonies s) = Some c"
    using rc by (auto simp: read_ceremony_def bindE_Inr_iff split: option.splits)
  have "ceremonies s' = ceremonies s3" using cas_same_auth [OF cas] by (simp add: same_auth_def)
  with f con show ?thesis by (simp add: cer find_map_same approval_contract_def)
qed

section \<open>Properties\<close>

text \<open>
  C34. Enrollment is bounded: in every reachable state there are at most three credentials and at most
  two bootstrap sessions, of which at most one can still register a credential.
\<close>

theorem enrollment_bounded:
  assumes "reachable env s"
  shows "length (credentials s) \<le> 3 \<and> length (bootstraps s) \<le> 2
    \<and> length (filter (\<lambda>b. boot_state b = BOOTSTRAP_ISSUED) (bootstraps s)) \<le> 1"
proof -
  have ok: "enrollment_ok s" using reachable_inv [OF assms] by (simp add: store_inv_def auth_inv_def)
  show ?thesis
  proof (cases "rev (bootstraps s)")
    case Nil
    with ok show ?thesis by (simp add: enrollment_ok_def)
  next
    case (Cons b old)
    then have bs: "bootstraps s = rev old @ [b]" by (metis rev.simps(2) rev_rev_ident)
    from ok Cons have o: "length old \<le> 1" "\<forall>x\<in>set old. boot_state x = BOOTSTRAP_EXPIRED" "length (credentials s) \<le> 3"
      by (simp_all add: enrollment_ok_def)
    then have "filter (\<lambda>b. boot_state b = BOOTSTRAP_ISSUED) (rev old) = []" by (auto simp: filter_empty_conv)
    with o bs show ?thesis by auto
  qed
qed

definition sample_bootstrap :: BootstrapSession where
  "sample_bootstrap = \<lparr>bootstrap_id = ''boot-1'', token_digest = sha256_tag ''token'', boot_issued_at = ''2026-07-01T00:00:00Z'',
     boot_expires_at = ''2026-07-01T00:10:00Z'', remaining_registrations = 3, boot_state = BOOTSTRAP_ISSUED\<rparr>"

lemma sample_auth_times: "timestamp_ok ''2026-07-01T00:10:00Z''" "timestamp_ok ''2026-07-01T00:02:00Z''"
    "timestamp_ok ''2026-07-01T00:00:00Z''" "timestamp_ok ''2026-07-01T00:00:01Z''"
  by code_simp+

lemma sample_bootstrap_ok: "bootstrap_ok sample_bootstrap"
  using sample_auth_times by (simp add: bootstrap_ok_iff sample_bootstrap_def sha256_tag_digest) code_simp

lemma sample_bootstrap_reachable:
  "reachable sample_env (sample_store\<lparr>bootstraps := [sample_bootstrap]\<rparr>)"
proof -
  have "create_auth_bootstrap sample_store sample_bootstrap = (Inr (), sample_store\<lparr>bootstraps := [sample_bootstrap]\<rparr>)"
    by (simp add: create_auth_bootstrap_def transaction_def insert_bootstrap_def sample_store_def sample_sealed_def empty_store_def)
      (simp add: sample_bootstrap_def)
  then show ?thesis
    using reachable.step [OF sample_reachable store_step.create_auth_bootstrap [OF sample_bootstrap_ok, of sample_env sample_store]] by simp
qed

theorem enrollment_bounded_witness:
  "length (filter (\<lambda>b. boot_state b = BOOTSTRAP_ISSUED) (bootstraps (sample_store\<lparr>bootstraps := [sample_bootstrap]\<rparr>))) \<le> 1
   \<and> reachable sample_env (sample_store\<lparr>bootstraps := [sample_bootstrap]\<rparr>)"
  using enrollment_bounded [OF sample_bootstrap_reachable] sample_bootstrap_reachable by blast

text \<open>
  C33. Approvals are single-use: in every reachable state no job has two approvals, and each approval
  names a consumed approval ceremony of exactly that job and digest, verified before it expired,
  and a record of that job that was claimed.
\<close>

theorem approvals_single_use:
  assumes "reachable env s"
  shows "distinct (map ap_job_id (approvals s))
    \<and> (\<forall>a\<in>set (approvals s). (\<exists>c\<in>set (ceremonies s). approved_by c a)
        \<and> (\<exists>r. find_record s (ap_job_id a) = Some r \<and> rec_job_digest r = ap_job_digest a \<and> execution_count r = 1))"
proof -
  have inv: "ledger_inv s" and ok: "approvals_ok s" using reachable_inv [OF assms] by (simp_all add: store_inv_def auth_inv_def)
  have "\<exists>r. find_record s (ap_job_id a) = Some r \<and> rec_job_digest r = ap_job_digest a \<and> execution_count r = 1"
    if "a \<in> set (approvals s)" for a
  proof -
    from ok that obtain r where r: "r \<in> set (records s)" "rec_job_id r = ap_job_id a" "rec_job_digest r = ap_job_digest a"
      "1 \<le> execution_count r" by (auto simp: approvals_ok_def)
    have "record_ok r" using ledger_inv_record [OF inv r(1)] by simp
    then have "execution_count r = 1" using r(4) by (auto simp: record_ok_iff state_valid_def split: JobState.splits if_splits)
    with r find_record_in [OF inv r(1)] show ?thesis by auto
  qed
  with ok show ?thesis by (simp add: approvals_ok_def)
qed

text \<open>
  C5. A claim with an approval succeeds only for an issued, unexpired ceremony whose challenge is the
  hash of the claimed job's digest, with an active approval credential and a verified user; it
  moves that pending job to running, and afterwards every claim with the same ceremony is refused
  without effect.
\<close>

theorem claim_needs_live_approval:
  assumes inv: "ledger_inv s" and res: "claim_with_approval s c cred v a ev = (Inr r, s')"
  shows "cer_state c = CEREMONY_ISSUED \<and> verified_at a < cer_expires_at c
    \<and> action_challenge_bytes (rec_job_digest r) (binding_nonce c) (cer_expires_at c) = Inr (challenge c)
    \<and> read_credential s (credential_id cred) = Inr cred \<and> cred_role cred = ROLE_APPROVAL \<and> revoked_at cred = None
    \<and> va_user_verified v \<and> (\<exists>r0. find_record s (rec_job_id r) = Some r0 \<and> state r0 = PENDING)
    \<and> state r = RUNNING \<and> execution_count r = 1 \<and> find_record s' (rec_job_id r) = Some r
    \<and> (\<forall>cred' v' a' ev'. \<exists>e. claim_with_approval s' c cred' v' a' ev' = (Inl e, s'))"
  using res
proof (rule claim_with_approval_Inr)
  fix s3 assume con: "approval_contract c cred v a ev" and rc: "read_ceremony s (ceremony_id c) = Inr c"
    and live: "verified_at a < cer_expires_at c" and cr: "read_credential s (credential_id cred) = Inr cred"
    and same: "same_jobs s s3" and cas: "compare_and_append_tx s3 ev = Inr (r, s')"
  obtain r0 where r0: "find_record s (ev_job_id ev) = Some r0" "state r0 = PENDING" "apply_transition r0 ev = Inr r"
    "rec_job_id r0 = ev_job_id ev" "rec_job_digest r0 = ev_job_digest ev" "state r = RUNNING" "execution_count r = 1"
    using claim_with_approval_record [OF inv res] by auto
  have ids: "rec_job_id r = ev_job_id ev" "rec_job_digest r = ev_job_digest ev" using r0 by (auto simp: apply_transition_Inr_iff)
  have inv3: "ledger_inv s3" using evolves_same_jobs [OF same] inv by (simp add: evolves_def)
  have f3: "find_record s3 (ev_job_id ev) = Some r0" using r0(1) same by (simp add: find_record_def same_jobs_def)
  have f': "find_record s' (ev_job_id ev) = Some r" using cas_after_seal [OF inv3 f3 refl cas] by simp
  have "ceremony_ok c" using rc by (auto simp: read_ceremony_def bindE_Inr_iff ceremony_ok_def split: option.splits)
  moreover have "cer_job_digest c = Some (ev_job_digest ev)" using con by (simp add: approval_contract_def)
  ultimately have "action_challenge_bytes (ev_job_digest ev) (binding_nonce c) (cer_expires_at c) = Inr (challenge c)"
    using approval_ceremony_binding [of c] con by (auto simp: approval_contract_def)
  moreover have "\<exists>e. claim_with_approval s' c cred' v' a' ev' = (Inl e, s')" for cred' v' a' ev'
    using claim_consumes [OF res] consumed_ceremony_refused by fastforce
  ultimately show ?thesis using con live cr r0 ids f' by (auto simp: approval_contract_def)
qed


text \<open>A concrete approval of the sample job.\<close>

definition sample_credential :: RegisteredCredential where
  "sample_credential = \<lparr>credential_id = ''cred'', public_key = ''key'', sign_count = 0, cred_role = ROLE_APPROVAL,
     cred_label = ''office_windows_hello'', aaguid = ''aaguid-1'', device_type = ''single_device'', backed_up = False,
     registered_at = ''2026-07-01T00:00:00Z'', revoked_at = None\<rparr>"

definition sample_nonce :: string where
  "sample_nonce = replicate 32 CHR ''n''"

definition sample_challenge :: string where
  "sample_challenge = sha256_digest (''agent-runtime-root-action-approval/v1'' @ [CHR 0x00] @ job_digest sample_job @ [CHR 0x00]
     @ sample_nonce @ [CHR 0x00] @ ''2026-07-01T00:02:00Z'')"

definition sample_ceremony :: PendingCeremony where
  "sample_ceremony = \<lparr>ceremony_id = ''cer-1'', purpose = PURPOSE_APPROVAL, challenge = sample_challenge,
     binding_nonce = sample_nonce, challenge_digest = sha256_tag sample_challenge, cer_issued_at = ''2026-07-01T00:00:00Z'',
     cer_expires_at = ''2026-07-01T00:02:00Z'', cer_job_id = Some ''job-1'', cer_job_digest = Some (job_digest sample_job),
     cer_bootstrap_id = None, cer_role = None, cer_label = None, cer_state = CEREMONY_ISSUED, consumed_at = None,
     cer_fingerprint = None\<rparr>"

definition sample_assertion :: VerifiedAssertion where
  "sample_assertion = \<lparr>va_credential_id = ''cred'', new_sign_count = 1, va_user_verified = True, va_device_type = ''single_device'',
     va_backed_up = False, va_origin = ''https://ops'', va_rp_id = ''ops''\<rparr>"

definition sample_approval :: ApprovalRecord where
  "sample_approval = \<lparr>approval_id = ''approval-1'', ap_ceremony_id = ''cer-1'', ap_job_id = ''job-1'',
     ap_job_digest = job_digest sample_job, ap_fingerprint = fingerprint sample_credential,
     verified_at = ''2026-07-01T00:00:01Z'', ap_origin = ''https://ops'', ap_rp_id = ''ops'', ap_user_verified = True,
     ap_sign_count = 1\<rparr>"

definition sample_auth_store :: store where
  "sample_auth_store = sample_store\<lparr>
     credentials := [\<lparr>row_credential = sample_credential, row_fingerprint = fingerprint sample_credential\<rparr>],
     ceremonies := [sample_ceremony], bootstraps := [sample_bootstrap\<lparr>remaining_registrations := 2\<rparr>]\<rparr>"

lemma sample_credential_ok: "credential_post_init sample_credential = Inr ()"
  by code_simp

lemma sample_ceremony_ok: "ceremony_post_init sample_ceremony = Inr ()"
proof -
  have n: "length sample_nonce = 32" by (simp add: sample_nonce_def)
  have ch: "sample_challenge \<noteq> []" "length sample_challenge \<le> 64"
  proof -
    have "length sample_challenge = 32" unfolding sample_challenge_def by (rule sha256_digest_length)
    then show "sample_challenge \<noteq> []" "length sample_challenge \<le> 64" by auto
  qed
  have d: "DIGEST_RE (job_digest sample_job)" using job_ok_digest [OF sample_job_ok] .
  have "action_challenge_bytes (job_digest sample_job) sample_nonce ''2026-07-01T00:02:00Z'' = Inr sample_challenge"
  proof -
    have "auth_digest (job_digest sample_job) f = Inr ()" "auth_timestamp ''2026-07-01T00:02:00Z'' f = Inr ()" for f
      using d sample_auth_times(2) by (simp_all only: auth_check_Inr_iff)
    then show ?thesis
      unfolding action_challenge_bytes_def sample_challenge_def by (simp only: n bindE_simps raise_if_simps simp_thms not_True_eq_False)
  qed
  moreover have "auth_safe_id ''cer-1'' ''ceremony_id'' = Inr ()" "auth_safe_id ''job-1'' ''job_id'' = Inr ()" by code_simp+
  moreover have "\<not> ''2026-07-01T00:02:00Z'' \<le> ''2026-07-01T00:00:00Z''" by code_simp
  moreover have "auth_timestamp ''2026-07-01T00:02:00Z'' f = Inr ()" "auth_timestamp ''2026-07-01T00:00:00Z'' f = Inr ()" for f
    using sample_auth_times by (simp_all add: auth_check_Inr_iff)
  ultimately show ?thesis
    using ch d n by (simp add: ceremony_post_init_def ceremony_consumption_def ceremony_binding_def sample_ceremony_def or_empty_def
        auth_digest_def bounded_bytes_def sha256_tag_digest)
qed

lemma sample_claim_applies:
  assumes jobs: "same_jobs sample_store s"
  shows "\<exists>s'. compare_and_append_tx s sample_claim = Inr (advance sample_record sample_claim, s')"
proof -
  have "ledger_inv s"
    by (rule ledger_inv_cong [of sample_store]) (use reachable_inv [OF sample_reachable] jobs in \<open>auto simp: store_inv_def same_jobs_def\<close>)
  moreover have "find_record s (ev_job_id sample_claim) = Some sample_record"
    using jobs by (simp add: find_record_def same_jobs_def sample_store_def sample_record_def sample_claim_def)
  moreover have "(ev_job_id sample_claim, event_id sample_claim) \<notin> set (map (\<lambda>x. (led_job_id x, led_event_id x)) (ledger s))"
    using jobs by (simp add: same_jobs_def sample_store_def initial_entry_def sample_record_def sample_claim_def)
  ultimately show ?thesis by (simp add: compare_and_append_tx_Inr sample_claimed)
qed

text \<open>The claim succeeds in every store that has the sample job, credential and ceremony.\<close>

lemma claim_succeeds:
  assumes jobs: "same_jobs sample_store s"
    and creds: "credentials s = [\<lparr>row_credential = sample_credential, row_fingerprint = fingerprint sample_credential\<rparr>]"
    and cers: "ceremonies s = old @ [sample_ceremony]" "''cer-1'' \<notin> set (map ceremony_id old)" and none: "approvals s = []"
  shows "\<exists>s'. claim_with_approval s sample_ceremony sample_credential sample_assertion sample_approval sample_claim
    = (Inr (advance sample_record sample_claim), s') \<and> approvals s' = [sample_approval]"
proof -
  have cid: "ceremony_id sample_ceremony = ''cer-1''" "cer_state sample_ceremony = CEREMONY_ISSUED" by (simp_all add: sample_ceremony_def)
  have con: "approval_contract sample_ceremony sample_credential sample_assertion sample_approval sample_claim"
    by (simp add: approval_contract_def sample_ceremony_def sample_credential_def sample_assertion_def sample_approval_def sample_claim_def)
  have "List.find (\<lambda>c. ceremony_id c = ''cer-1'') (old @ [sample_ceremony]) = Some sample_ceremony"
    using cers(2) cid by (induction old) auto
  then have rc: "read_ceremony s (ceremony_id sample_ceremony) = Inr sample_ceremony"
    by (simp add: read_ceremony_def cers cid sample_ceremony_ok)
  have cr: "read_credential s (credential_id sample_credential) = Inr sample_credential"
    by (simp add: read_credential_def creds credential_from_row_def sample_credential_ok)
  have live: "\<not> cer_expires_at sample_ceremony \<le> verified_at sample_approval"
    by (simp add: sample_ceremony_def sample_approval_def)
  obtain s1 where s1: "update_counter s sample_credential sample_assertion = Inr s1"
    "same_jobs s s1" "ceremonies s1 = old @ [sample_ceremony]" "approvals s1 = []"
    "map row_fingerprint (credentials s1) = [fingerprint sample_credential]"
    using cers none creds by (simp add: update_counter_def Let_def is_active_def same_jobs_def) (simp add: sample_credential_def)
  have "filter (\<lambda>c. ceremony_id c = ''cer-1'' \<and> cer_state c = CEREMONY_ISSUED) (old @ [sample_ceremony]) = [sample_ceremony]"
    using cers(2) cid by (auto simp: filter_empty_conv image_iff)
  then obtain s2 where s2: "consume_ceremony s1 (ceremony_id sample_ceremony) (verified_at sample_approval) (fingerprint sample_credential)
      (StorageConflict ''approval ceremony consumption race'') = Inr s2"
    "same_jobs s s2" "''cer-1'' \<in> set (map ceremony_id (ceremonies s2))" "approvals s2 = []"
    "map row_fingerprint (credentials s2) = [fingerprint sample_credential]"
    using s1 cid by (simp add: consume_ceremony_def Let_def same_jobs_def)
  have jobs2: "job_ids s2 = [''job-1'']" "same_jobs sample_store s2"
    using s2(2) jobs by (simp_all add: job_ids_def same_jobs_def sample_store_def sample_sealed_def sample_job_def)
  have ins: "insert_approval s2 sample_approval = Inr (s2\<lparr>approvals := [sample_approval]\<rparr>)"
    using s2 jobs2 by (simp add: insert_approval_def) (simp add: sample_approval_def)
  obtain s' where s': "compare_and_append_tx (s2\<lparr>approvals := [sample_approval]\<rparr>) sample_claim = Inr (advance sample_record sample_claim, s')"
    using sample_claim_applies [of "s2\<lparr>approvals := [sample_approval]\<rparr>"] jobs2(2) by (auto simp: same_jobs_def)
  moreover have "approvals s' = [sample_approval]" using cas_same_auth [OF s'] by (simp add: same_auth_def)
  ultimately show ?thesis
    using con rc cr live s1(1) s2(1) ins by (auto simp: claim_with_approval_def transaction_def)
qed

lemma sample_claims: "\<exists>s'. claim_with_approval sample_auth_store sample_ceremony sample_credential sample_assertion sample_approval sample_claim
    = (Inr (advance sample_record sample_claim), s')"
  using claim_succeeds [of sample_auth_store "[]"]
  by (auto simp: sample_auth_store_def same_jobs_def sample_store_def sample_sealed_def empty_store_def)

theorem claim_needs_live_approval_witness:
  "\<exists>s'. claim_with_approval sample_auth_store sample_ceremony sample_credential sample_assertion sample_approval sample_claim
      = (Inr (advance sample_record sample_claim), s')
    \<and> state (advance sample_record sample_claim) = RUNNING
    \<and> (\<forall>cred' v' a' ev'. \<exists>e. claim_with_approval s' sample_ceremony cred' v' a' ev' = (Inl e, s'))"
proof -
  obtain s' where r: "claim_with_approval sample_auth_store sample_ceremony sample_credential sample_assertion sample_approval sample_claim
      = (Inr (advance sample_record sample_claim), s')" using sample_claims by blast
  have inv: "ledger_inv sample_auth_store"
    by (rule ledger_inv_cong [of sample_store]) (use reachable_inv [OF sample_reachable] in \<open>auto simp: store_inv_def sample_auth_store_def\<close>)
  from claim_needs_live_approval [OF inv r] r show ?thesis by blast
qed

end
