(* ===== verification/Protocol.thy ===== *)
theory Protocol
  imports Notices
begin

text \<open>
  The wire formats of the broker: the length-prefixed frames (\<open>root_actions/protocol.py\<close> and
  \<open>root_actions/submission.py\<close>), the request messages a client builds and the parser the broker
  runs on every frame of a local client, and the responses.
\<close>

section \<open>Frames\<close>

text \<open>\<open>struct.pack("!I", n)\<close> and \<open>struct.unpack("!I", b)\<close>\<close>

definition pack_u32 :: "nat \<Rightarrow> string" where
  "pack_u32 n = map char_of (be_bytes 4 n)"

definition unpack_u32 :: "string \<Rightarrow> nat" where
  "unpack_u32 b = foldl (\<lambda>n c. 256 * n + of_char c) 0 b"

definition MAX_BROKER_REQUEST_BYTES :: nat where "MAX_BROKER_REQUEST_BYTES = 512 * 1024"

definition MAX_BROKER_RESPONSE_BYTES :: nat where "MAX_BROKER_RESPONSE_BYTES = 4 * 1024 * 1024"

definition encode_frame :: "string \<Rightarrow> nat \<Rightarrow> string result" where
  "encode_frame payload max_len =
     (if payload = [] \<or> max_len < length payload then Inl (BrokerProtocolError ''frame payload byte length is invalid'')
      else Inr (pack_u32 (length payload) @ payload))"

definition decode_frame :: "string \<Rightarrow> nat \<Rightarrow> string result" where
  "decode_frame frame max_len =
     bindE (raise_if (length frame < 4) (BrokerProtocolError ''frame is truncated'')) (\<lambda>_.
     let n = unpack_u32 (take 4 frame) in
     bindE (raise_if (n < 1 \<or> max_len < n \<or> length frame \<noteq> n + 4)
              (BrokerProtocolError ''frame length does not match one bounded payload'')) (\<lambda>_.
     Inr (drop 4 frame)))"

definition encode_submission_frame :: "string \<Rightarrow> string result" where
  "encode_submission_frame manifest =
     (if manifest = [] \<or> MAX_MANIFEST_BYTES < length manifest
      then Inl (SubmissionRejected ''submission manifest byte length is invalid'')
      else Inr (pack_u32 (length manifest) @ manifest))"

definition decode_submission_frame :: "string \<Rightarrow> string result" where
  "decode_submission_frame frame =
     bindE (raise_if (length frame < 4) (SubmissionRejected ''submission frame is truncated'')) (\<lambda>_.
     let n = unpack_u32 (take 4 frame) in
     bindE (raise_if (n < 1 \<or> MAX_MANIFEST_BYTES < n) (SubmissionRejected ''submission frame length is invalid'')) (\<lambda>_.
     bindE (raise_if (length frame \<noteq> 4 + n) (SubmissionRejected ''submission frame length does not match its bytes'')) (\<lambda>_.
     Inr (drop 4 frame))))"

section \<open>Messages\<close>

definition BROKER_REQUEST_SCHEMA :: string where
  "BROKER_REQUEST_SCHEMA = ''agent-runtime-root-action-broker-request/v1''"

definition BROKER_RESPONSE_SCHEMA :: string where
  "BROKER_RESPONSE_SCHEMA = ''agent-runtime-root-action-broker-response/v1''"

definition token_char :: "char \<Rightarrow> bool" where
  "token_char c \<longleftrightarrow> is_upper c \<or> is_lower c \<or> is_digit c \<or> c = CHR ''_'' \<or> c = CHR ''-''"

definition BOOTSTRAP_TOKEN_RE :: "string \<Rightarrow> bool" where
  "BOOTSTRAP_TOKEN_RE s \<longleftrightarrow> length s = 43 \<and> list_all token_char s"

definition CREDENTIAL_ROLES :: "string list" where
  "CREDENTIAL_ROLES = [''approval'', ''recovery'']"

definition CREDENTIAL_LABELS :: "string list" where
  "CREDENTIAL_LABELS = [''office_windows_hello'', ''remote_phone_passkey'', ''recovery_fido2'']"

text \<open>The parsed requests: a method with its checked arguments.\<close>

datatype request =
    Submit string
  | Retrieve string string string string
  | AuthStatus
  | AuthBootstrapCreate
  | AuthRegistrationBegin string string string
  | AuthRegistrationFinish string string dict
  | AuthApprovalBegin string string
  | AuthApprovalFinish string dict

definition submit_request :: "pyenv \<Rightarrow> string \<Rightarrow> string result" where
  "submit_request env raw =
     bindE (seal_typed_manifest env DEFAULT_REGISTRY raw) (\<lambda>job.
     bindE (manifest_copy env job) (\<lambda>manifest.
     bindE (canonical_json (JObj [(''schema'', JStr BROKER_REQUEST_SCHEMA), (''method'', JStr ''submit''), (''manifest'', manifest)])) (\<lambda>b.
     encode_frame b MAX_BROKER_REQUEST_BYTES)))"

definition retrieve_dict :: "string \<Rightarrow> string \<Rightarrow> string \<Rightarrow> string \<Rightarrow> dict" where
  "retrieve_dict jid jd rid target =
     [(''schema'', JStr BROKER_REQUEST_SCHEMA), (''method'', JStr ''retrieve''), (''job_id'', JStr jid),
      (''job_digest'', JStr jd), (''request_id'', JStr rid), (''reply_target'', JStr target)]"

definition retrieve_request :: "string \<Rightarrow> string \<Rightarrow> string \<Rightarrow> string \<Rightarrow> string result" where
  "retrieve_request jid jd rid target =
     bindE (canonical_json (JObj (retrieve_dict jid jd rid target))) (\<lambda>b. encode_frame b MAX_BROKER_REQUEST_BYTES)"

text \<open>\<open>{"schema": ..., "method": method, **values}\<close>: a value given under one of the two names replaces it.\<close>

definition auth_request :: "string \<Rightarrow> dict \<Rightarrow> string result" where
  "auth_request m values =
     bindE (raise_if (take 5 m \<noteq> ''auth_'') (BrokerProtocolError ''authorization method is invalid'')) (\<lambda>_.
     bindE (canonical_json (JObj (foldl (\<lambda>d (k, v). dict_set d k v)
              [(''schema'', JStr BROKER_REQUEST_SCHEMA), (''method'', JStr m)] values))) (\<lambda>b.
     encode_frame b MAX_BROKER_REQUEST_BYTES))"

definition PROTOCOL_DUPLICATE_KEY :: exn where
  "PROTOCOL_DUPLICATE_KEY = BrokerProtocolError ''duplicate JSON key''"

definition is_protocol_error :: "exn \<Rightarrow> bool" where
  "is_protocol_error e = (case e of BrokerProtocolError _ \<Rightarrow> True | _ \<Rightarrow> False)"

definition load_message :: "pyenv \<Rightarrow> string \<Rightarrow> string \<Rightarrow> json result" where
  "load_message env payload what =
     raise_from (\<lambda>e. is_value_error e \<and> \<not> is_protocol_error e) (BrokerProtocolError what)
       (bindE (decode_utf8 payload) (json_loads env (unique_object PROTOCOL_DUPLICATE_KEY)))"

definition str_ok :: "(string \<Rightarrow> bool) \<Rightarrow> json \<Rightarrow> bool" where
  "str_ok p v = (case v of JStr s \<Rightarrow> p s | _ \<Rightarrow> False)"

definition is_dict :: "json \<Rightarrow> bool" where
  "is_dict v = (case v of JObj _ \<Rightarrow> True | _ \<Rightarrow> False)"

definition field_set :: "dict \<Rightarrow> string list \<Rightarrow> string \<Rightarrow> unit result" where
  "field_set kvs expected msg = raise_if (set (keys kvs) \<noteq> set ([''schema'', ''method''] @ expected)) (BrokerProtocolError msg)"

definition arg :: "dict \<Rightarrow> string \<Rightarrow> json" where
  "arg kvs k = the (map_of kvs k)"

definition str_arg :: "dict \<Rightarrow> string \<Rightarrow> string" where
  "str_arg kvs k = (case arg kvs k of JStr s \<Rightarrow> s | _ \<Rightarrow> [])"

definition obj_arg :: "dict \<Rightarrow> string \<Rightarrow> dict" where
  "obj_arg kvs k = (case arg kvs k of JObj d \<Rightarrow> d | _ \<Rightarrow> [])"

definition parse_submit :: "pyenv \<Rightarrow> dict \<Rightarrow> request result" where
  "parse_submit env kvs =
     bindE (field_set kvs [''manifest''] ''submit request field set is invalid'') (\<lambda>_.
     bindE (raise_if (\<not> is_dict (arg kvs ''manifest'')) (BrokerProtocolError ''submit manifest must be an object'')) (\<lambda>_.
     bindE (canonical_json (arg kvs ''manifest'')) (\<lambda>c.
     bindE (seal_typed_manifest env DEFAULT_REGISTRY c) (\<lambda>_. Inr (Submit c)))))"

definition parse_retrieve :: "dict \<Rightarrow> request result" where
  "parse_retrieve kvs =
     bindE (field_set kvs [''job_id'', ''job_digest'', ''request_id'', ''reply_target''] ''retrieve request field set is invalid'') (\<lambda>_.
     bindE (raise_if (list_ex (\<lambda>f. \<not> str_ok SAFE_ID_RE (arg kvs f)) [''job_id'', ''request_id'', ''reply_target'']
                      \<or> \<not> str_ok DIGEST_RE (arg kvs ''job_digest''))
              (BrokerProtocolError ''retrieve request identity is invalid'')) (\<lambda>_.
     Inr (Retrieve (str_arg kvs ''job_id'') (str_arg kvs ''job_digest'') (str_arg kvs ''request_id'') (str_arg kvs ''reply_target''))))"

definition parse_registration_begin :: "dict \<Rightarrow> request result" where
  "parse_registration_begin kvs =
     bindE (field_set kvs [''bootstrap_token'', ''role'', ''label''] ''registration begin field set is invalid'') (\<lambda>_.
     bindE (raise_if (\<not> str_ok BOOTSTRAP_TOKEN_RE (arg kvs ''bootstrap_token'')
                      \<or> \<not> str_ok (\<lambda>s. s \<in> set CREDENTIAL_ROLES) (arg kvs ''role'')
                      \<or> \<not> str_ok (\<lambda>s. s \<in> set CREDENTIAL_LABELS) (arg kvs ''label''))
              (BrokerProtocolError ''registration begin fields are invalid'')) (\<lambda>_.
     Inr (AuthRegistrationBegin (str_arg kvs ''bootstrap_token'') (str_arg kvs ''role'') (str_arg kvs ''label''))))"

definition parse_registration_finish :: "dict \<Rightarrow> request result" where
  "parse_registration_finish kvs =
     bindE (field_set kvs [''bootstrap_token'', ''ceremony_id'', ''credential''] ''registration finish field set is invalid'') (\<lambda>_.
     bindE (raise_if (\<not> str_ok BOOTSTRAP_TOKEN_RE (arg kvs ''bootstrap_token'')
                      \<or> \<not> str_ok SAFE_ID_RE (arg kvs ''ceremony_id'') \<or> \<not> is_dict (arg kvs ''credential''))
              (BrokerProtocolError ''registration finish fields are invalid'')) (\<lambda>_.
     Inr (AuthRegistrationFinish (str_arg kvs ''bootstrap_token'') (str_arg kvs ''ceremony_id'') (obj_arg kvs ''credential''))))"

definition parse_approval_begin :: "dict \<Rightarrow> request result" where
  "parse_approval_begin kvs =
     bindE (field_set kvs [''job_id'', ''job_digest''] ''approval begin field set is invalid'') (\<lambda>_.
     bindE (raise_if (\<not> str_ok SAFE_ID_RE (arg kvs ''job_id'') \<or> \<not> str_ok DIGEST_RE (arg kvs ''job_digest''))
              (BrokerProtocolError ''approval begin identity is invalid'')) (\<lambda>_.
     Inr (AuthApprovalBegin (str_arg kvs ''job_id'') (str_arg kvs ''job_digest''))))"

definition parse_approval_finish :: "dict \<Rightarrow> request result" where
  "parse_approval_finish kvs =
     bindE (field_set kvs [''ceremony_id'', ''credential''] ''approval finish field set is invalid'') (\<lambda>_.
     bindE (raise_if (\<not> str_ok SAFE_ID_RE (arg kvs ''ceremony_id'') \<or> \<not> is_dict (arg kvs ''credential''))
              (BrokerProtocolError ''approval finish fields are invalid'')) (\<lambda>_.
     Inr (AuthApprovalFinish (str_arg kvs ''ceremony_id'') (obj_arg kvs ''credential''))))"

text \<open>The test \<open>method in {...}\<close> hashes its operand: a list or a dictionary is a \<open>TypeError\<close>.\<close>

definition parse_method :: "pyenv \<Rightarrow> dict \<Rightarrow> request result" where
  "parse_method env kvs =
     (case jget_opt kvs ''method'' of
        JStr m \<Rightarrow>
          if m = ''submit'' then parse_submit env kvs
          else if m = ''retrieve'' then parse_retrieve kvs
          else if m = ''auth_status'' \<or> m = ''auth_bootstrap_create'' then
            bindE (field_set kvs [] ''authorization request field set is invalid'') (\<lambda>_.
            Inr (if m = ''auth_status'' then AuthStatus else AuthBootstrapCreate))
          else if m = ''auth_registration_begin'' then parse_registration_begin kvs
          else if m = ''auth_registration_finish'' then parse_registration_finish kvs
          else if m = ''auth_approval_begin'' then parse_approval_begin kvs
          else if m = ''auth_approval_finish'' then parse_approval_finish kvs
          else Inl (BrokerProtocolError ''broker request method is unsupported'')
      | JList _ \<Rightarrow> Inl (TypeError ''unhashable type'')
      | JObj _ \<Rightarrow> Inl (TypeError ''unhashable type'')
      | _ \<Rightarrow> Inl (BrokerProtocolError ''broker request method is unsupported''))"

definition parse_request_frame :: "pyenv \<Rightarrow> string \<Rightarrow> request result" where
  "parse_request_frame env frame =
     bindE (decode_frame frame MAX_BROKER_REQUEST_BYTES) (\<lambda>payload.
     bindE (load_message env payload ''broker request is not UTF-8 JSON'') (\<lambda>v.
     (case v of
        JObj kvs \<Rightarrow>
          bindE (canonical_json v) (\<lambda>c.
          bindE (raise_if (payload \<noteq> c) (BrokerProtocolError ''broker request must be canonical JSON'')) (\<lambda>_.
          bindE (raise_if (jget_opt kvs ''schema'' \<noteq> JStr BROKER_REQUEST_SCHEMA)
                   (BrokerProtocolError ''broker request schema is unsupported'')) (\<lambda>_.
          parse_method env kvs)))
      | _ \<Rightarrow> Inl (BrokerProtocolError ''broker request must be canonical JSON''))))"

definition encode_response :: "dict \<Rightarrow> string result" where
  "encode_response value =
     bindE (raise_if (jget_opt value ''schema'' \<noteq> JStr BROKER_RESPONSE_SCHEMA)
              (BrokerProtocolError ''broker response schema is invalid'')) (\<lambda>_.
     bindE (canonical_json (JObj value)) (\<lambda>b. encode_frame b MAX_BROKER_RESPONSE_BYTES))"

definition parse_response_frame :: "pyenv \<Rightarrow> string \<Rightarrow> dict result" where
  "parse_response_frame env frame =
     bindE (decode_frame frame MAX_BROKER_RESPONSE_BYTES) (\<lambda>payload.
     bindE (load_message env payload ''broker response is not UTF-8 JSON'') (\<lambda>v.
     (case v of
        JObj kvs \<Rightarrow>
          bindE (canonical_json v) (\<lambda>c.
          bindE (raise_if (payload \<noteq> c \<or> jget_opt kvs ''schema'' \<noteq> JStr BROKER_RESPONSE_SCHEMA)
                   (BrokerProtocolError ''broker response is not canonical or supported'')) (\<lambda>_.
          Inr kvs))
      | _ \<Rightarrow> Inl (BrokerProtocolError ''broker response is not canonical or supported''))))"

text \<open>The exceptions \<open>serve_forever\<close> of \<open>listener.py\<close> survives: it closes the connection and goes on.\<close>

definition serve_catches :: "exn \<Rightarrow> bool" where
  "serve_catches e \<longleftrightarrow> is_value_error e
     \<or> (case e of KeyError _ \<Rightarrow> True | StorageNotFound _ \<Rightarrow> True | StorageConflict _ \<Rightarrow> True | RootActionWorkerError _ \<Rightarrow> True | _ \<Rightarrow> False)"

section \<open>Frames are unambiguous\<close>

lemma be_bytes_4: "be_bytes 4 n = [n div 16777216 mod 256, n div 65536 mod 256, n div 256 mod 256, n mod 256]"
proof -
  have "[0..<4] = [0, 1, 2, 3::nat]" by (simp add: upt_rec)
  then show ?thesis by (simp add: be_bytes_def)
qed

lemma pack_u32_length [simp]: "length (pack_u32 n) = 4"
  by (simp add: pack_u32_def)

lemma unpack_pack_u32: "n < 2 ^ 32 \<Longrightarrow> unpack_u32 (pack_u32 n) = n"
proof -
  assume n: "n < 2 ^ 32"
  have d: "n div 65536 = n div 256 div 256" "n div 16777216 = n div 256 div 256 div 256" by (simp_all flip: div_mult2_eq)
  have "n div 256 div 256 div 256 < 256" using n by (simp add: d(2) [symmetric] less_mult_imp_div_less)
  moreover have "256 * (m div 256) + m mod 256 = m" for m :: nat by simp
  ultimately show ?thesis by (simp add: unpack_u32_def pack_u32_def be_bytes_4 d)
qed

lemma pack_unpack_u32: "length b = 4 \<Longrightarrow> pack_u32 (unpack_u32 b) = b"
proof -
  assume "length b = 4"
  then obtain c0 c1 c2 c3 where b: "b = [c0, c1, c2, c3]" by (auto simp: numeral_eq_Suc length_Suc_conv)
  have d: "(256 * x + of_char c) div 256 = x" "(256 * x + of_char c) mod 256 = of_char c" for x :: nat and c :: char
    by simp_all
  define n where "n = unpack_u32 b"
  have "n = 256 * (256 * (256 * of_char c0 + of_char c1) + of_char c2) + of_char c3" by (simp add: n_def b unpack_u32_def)
  then have "n div 256 = 256 * (256 * of_char c0 + of_char c1) + of_char c2" "n mod 256 = of_char c3" by (simp_all only: d)
  then have "n div 256 div 256 = 256 * of_char c0 + of_char c1" "n div 256 mod 256 = of_char c2" by (simp_all only: d)
  then have "n div 256 div 256 div 256 = of_char c0" "n div 256 div 256 mod 256 = of_char c1" by (simp_all only: d)
  moreover have "n div 65536 = n div 256 div 256" "n div 16777216 = n div 256 div 256 div 256" by (simp_all flip: div_mult2_eq)
  ultimately show ?thesis
    unfolding n_def [symmetric] pack_u32_def be_bytes_4 using \<open>n mod 256 = of_char c3\<close> \<open>n div 256 mod 256 = of_char c2\<close>
    by (simp add: b)
qed

locale length_framed =
  fixes limit :: nat and enc dec :: "string \<Rightarrow> string result"
  assumes limit_u32: "limit < 2 ^ 32"
    and enc_law: "enc p = Inr f \<longleftrightarrow> p \<noteq> [] \<and> length p \<le> limit \<and> f = pack_u32 (length p) @ p"
    and dec_law: "dec f = Inr p \<longleftrightarrow> 4 \<le> length f \<and> 1 \<le> unpack_u32 (take 4 f) \<and> unpack_u32 (take 4 f) \<le> limit
      \<and> length f = 4 + unpack_u32 (take 4 f) \<and> p = drop 4 f"
begin

text \<open>Decoding is exactly the inverse of encoding.\<close>

lemma dec_iff_enc: "dec f = Inr p \<longleftrightarrow> enc p = Inr f"
proof
  assume d: "dec f = Inr p"
  let ?n = "unpack_u32 (take 4 f)"
  have p: "p = drop 4 f" "length p = ?n" "1 \<le> ?n" "?n \<le> limit" "4 \<le> length f" using d by (auto simp: dec_law)
  have "pack_u32 ?n = take 4 f" using p(5) by (intro pack_unpack_u32) simp
  then have f: "f = pack_u32 (length p) @ p" unfolding p(2) unfolding p(1) by simp
  have ne: "p \<noteq> []" using p(2,3) by (metis list.size(3) not_one_le_zero)
  show "enc p = Inr f" unfolding enc_law by (intro conjI ne f) (simp only: p(2,4))
next
  assume e: "enc p = Inr f"
  then have p: "p \<noteq> []" "length p \<le> limit" "f = pack_u32 (length p) @ p" by (auto simp: enc_law)
  then have "unpack_u32 (take 4 f) = length p" using limit_u32 by (simp add: unpack_pack_u32)
  with p show "dec f = Inr p" by (simp add: dec_law Suc_le_eq)
qed

text \<open>A frame is never the beginning of another one.\<close>

lemma prefix_free:
  assumes "enc p = Inr f" and "enc q = Inr (f @ rest)"
  shows "rest = [] \<and> p = q"
proof -
  have f: "f = pack_u32 (length p) @ p" "length p \<le> limit" using assms(1) by (auto simp: enc_law)
  have g: "f @ rest = pack_u32 (length q) @ q" "length q \<le> limit" using assms(2) by (auto simp: enc_law)
  have "pack_u32 (length p) = pack_u32 (length q)" using f(1) g(1) by simp
  then have "length p = length q" using f(2) g(2) limit_u32 unpack_pack_u32 by (metis le_less_trans)
  moreover have "p @ rest = q" using f(1) g(1) by simp
  ultimately show ?thesis by auto
qed

end

lemma encode_frame_law:
  "encode_frame p m = Inr f \<longleftrightarrow> p \<noteq> [] \<and> length p \<le> m \<and> f = pack_u32 (length p) @ p"
  by (auto simp: encode_frame_def)

lemma decode_frame_law:
  "decode_frame f m = Inr p \<longleftrightarrow> 4 \<le> length f \<and> 1 \<le> unpack_u32 (take 4 f) \<and> unpack_u32 (take 4 f) \<le> m
      \<and> length f = 4 + unpack_u32 (take 4 f) \<and> p = drop 4 f"
  by (auto simp: decode_frame_def Let_def result_simps)

interpretation rq: length_framed MAX_BROKER_REQUEST_BYTES
  "\<lambda>p. encode_frame p MAX_BROKER_REQUEST_BYTES" "\<lambda>f. decode_frame f MAX_BROKER_REQUEST_BYTES"
  by unfold_locales (simp add: MAX_BROKER_REQUEST_BYTES_def, rule encode_frame_law, rule decode_frame_law)

interpretation rs: length_framed MAX_BROKER_RESPONSE_BYTES
  "\<lambda>p. encode_frame p MAX_BROKER_RESPONSE_BYTES" "\<lambda>f. decode_frame f MAX_BROKER_RESPONSE_BYTES"
  by unfold_locales (simp add: MAX_BROKER_RESPONSE_BYTES_def, rule encode_frame_law, rule decode_frame_law)

interpretation sf: length_framed MAX_MANIFEST_BYTES encode_submission_frame decode_submission_frame
  by unfold_locales (auto simp: MAX_MANIFEST_BYTES_def encode_submission_frame_def decode_submission_frame_def Let_def result_simps)

section \<open>Messages are read back\<close>

lemma load_canonical:
  assumes "canonical_json v = Inr b" and "jwf (rec_limit env) v"
  shows "load_message env b what = Inr (sort_keys v)"
  using canonical_json_loads [OF assms good_hook_unique_object] by (simp add: load_message_def)

lemma parse_request_canonical:
  assumes c: "canonical_json (JObj kvs) = Inr b" and wf: "jwf (rec_limit env) (JObj kvs)"
    and schema: "map_of kvs ''schema'' = Some (JStr BROKER_REQUEST_SCHEMA)" and f: "encode_frame b MAX_BROKER_REQUEST_BYTES = Inr f"
  shows "parse_request_frame env f = parse_method env (sorted_dict kvs)"
proof -
  have d: "distinct (keys kvs)" using wf by (cases "rec_limit env") auto
  have "decode_frame f MAX_BROKER_REQUEST_BYTES = Inr b" using f by (simp add: rq.dec_iff_enc)
  moreover have "canonical_json (JObj (sorted_dict kvs)) = Inr b" using canonical_json_sort [of "JObj kvs"] c by simp
  moreover have "jget_opt (sorted_dict kvs) ''schema'' = JStr BROKER_REQUEST_SCHEMA"
    using schema d by (simp add: jget_opt_def map_of_sort_keys)
  ultimately show ?thesis
    using load_canonical [OF c wf] by (simp add: parse_request_frame_def)
qed

lemma arg_sorted: "distinct (keys kvs) \<Longrightarrow> map_of kvs k = Some v \<Longrightarrow> arg (sorted_dict kvs) k = sort_keys v"
  by (simp add: arg_def map_of_sort_keys)

lemma keys_sorted: "set (keys (sorted_dict kvs)) = set (keys kvs)"
  by simp

lemma method_sorted: "distinct (keys kvs) \<Longrightarrow> map_of kvs ''method'' = Some (JStr m) \<Longrightarrow> jget_opt (sorted_dict kvs) ''method'' = JStr m"
  by (simp add: jget_opt_def map_of_sort_keys)

lemma parse_submit_sorted:
  assumes d: "distinct (keys kvs)" and k: "set (keys kvs) = {''schema'', ''method'', ''manifest''}"
    and v: "map_of kvs ''manifest'' = Some v" "sort_keys v = JObj m" "canonical_json v = Inr c"
    and s: "seal_typed_manifest env DEFAULT_REGISTRY c = Inr job"
  shows "parse_submit env (sorted_dict kvs) = Inr (Submit c)"
proof -
  have "arg (sorted_dict kvs) ''manifest'' = sort_keys v" by (rule arg_sorted [OF d v(1)])
  then have "is_dict (arg (sorted_dict kvs) ''manifest'')" "canonical_json (arg (sorted_dict kvs) ''manifest'') = Inr c"
    using v(2,3) canonical_json_sort [of v] by (simp_all add: is_dict_def)
  moreover have "field_set (sorted_dict kvs) [''manifest''] msg = Inr ()" for msg
    using k by (simp only: field_set_def keys_sorted) auto
  ultimately show ?thesis using s by (simp add: parse_submit_def)
qed

lemma parse_retrieve_sorted:
  assumes "SAFE_ID_RE jid" and "DIGEST_RE jd" and "SAFE_ID_RE rid" and "SAFE_ID_RE target"
  shows "parse_retrieve (sorted_dict (retrieve_dict jid jd rid target)) = Inr (Retrieve jid jd rid target)"
proof -
  let ?d = "retrieve_dict jid jd rid target"
  have "arg (sorted_dict ?d) ''job_id'' = JStr jid" "arg (sorted_dict ?d) ''job_digest'' = JStr jd"
    "arg (sorted_dict ?d) ''request_id'' = JStr rid" "arg (sorted_dict ?d) ''reply_target'' = JStr target"
    by (simp_all add: retrieve_dict_def arg_def)
  moreover have "field_set (sorted_dict ?d) [''job_id'', ''job_digest'', ''request_id'', ''reply_target''] msg = Inr ()" for msg
    by (simp only: field_set_def keys_sorted) (simp add: retrieve_dict_def keys_def)
  ultimately show ?thesis using assms by (simp add: parse_retrieve_def str_ok_def str_arg_def)
qed

section \<open>Properties\<close>

text \<open>
  C36. The frames are an exact code: for requests, responses and submissions, decoding a frame returns a payload if and
  only if encoding that payload returns the frame, so nothing else is accepted and nothing is lost.
\<close>

theorem frame_codec:
  "(decode_frame f MAX_BROKER_REQUEST_BYTES = Inr p \<longleftrightarrow> encode_frame p MAX_BROKER_REQUEST_BYTES = Inr f)
   \<and> (decode_frame f MAX_BROKER_RESPONSE_BYTES = Inr p \<longleftrightarrow> encode_frame p MAX_BROKER_RESPONSE_BYTES = Inr f)
   \<and> (decode_submission_frame f = Inr p \<longleftrightarrow> encode_submission_frame p = Inr f)"
  by (intro conjI rq.dec_iff_enc rs.dec_iff_enc sf.dec_iff_enc)

text \<open>
  C35. The broker understands its own client. The frame \<open>submit_request\<close> builds from a manifest is parsed to a
  submission of the canonical bytes of the job the manifest seals to, when these bytes fit \<open>MAX_MANIFEST_BYTES\<close> and
  the interpreter allows one more level of nesting than the manifest has; and the frame \<open>retrieve_request\<close>
  builds from safe identifiers is always built and parsed to those identifiers. Without the first
  condition the claim is false: a manifest without a final line feed can seal to one byte more than the limit.
\<close>

theorem request_round_trip:
  assumes "seal_typed_manifest env DEFAULT_REGISTRY raw = Inr job" and "length (canonical_manifest job) \<le> MAX_MANIFEST_BYTES"
    and "parse_manifest env raw = Inr v" and "jok (rec_limit env - 1) v" and "submit_request env raw = Inr f"
    and "SAFE_ID_RE jid" and "DIGEST_RE jd" and "SAFE_ID_RE rid" and "SAFE_ID_RE target"
  shows "parse_request_frame env f = Inr (Submit (canonical_manifest job))
    \<and> (\<exists>g. retrieve_request jid jd rid target = Inr g \<and> parse_request_frame env g = Inr (Retrieve jid jd rid target))"
proof
  let ?c = "canonical_manifest job"
  have val: "validate_manifest env DEFAULT_REGISTRY v = Inr ()" and sv: "seal_value v = Inr job"
    using assms(1,3) by (auto simp: seal_typed_manifest_def bindE_Inr_iff)
  have c: "canonical_json v = Inr ?c" using sv by (rule seal_value_canonical)
  obtain m where m: "v = JObj m" using parse_manifest_Inr [OF assms(3)] by auto
  have nf: "no_float v" using validate_manifest_no_float [OF val assms(4)] .
  have ok: "jok (rec_limit env) v" using parse_manifest_Inr [OF assms(3)] json_loads_jok by blast
  then obtain d where d: "rec_limit env = Suc d" by (cases "rec_limit env") (auto simp: m)
  have wf: "jwf (rec_limit env) v" using ok nf by (simp add: jwf_iff)
  have wd: "jwf d v" using assms(4) nf by (simp add: d jwf_iff)
  let ?d = "[(''schema'', JStr BROKER_REQUEST_SCHEMA), (''method'', JStr ''submit''), (''manifest'', sort_keys v)]"
  have "manifest_copy env job = Inr (sort_keys v)"
    using canonical_json_loads [OF c wf good_hook_dict_hook] by (simp add: manifest_copy_def)
  then obtain b where b: "canonical_json (JObj ?d) = Inr b" "encode_frame b MAX_BROKER_REQUEST_BYTES = Inr f"
    using assms(1,5) by (auto simp: submit_request_def bindE_Inr_iff)
  have dist: "distinct (keys ?d)" by (simp add: keys_def)
  have idem: "sort_keys (sort_keys v) = JObj (sorted_dict m)" unfolding sort_keys_idem by (simp add: m)
  have "jwf (rec_limit env) (JObj ?d)" using wd by (simp add: d keys_def)
  then have "parse_request_frame env f = parse_method env (sorted_dict ?d)"
    using parse_request_canonical [OF b(1) _ _ b(2)] by simp
  also have "\<dots> = parse_submit env (sorted_dict ?d)" using method_sorted [OF dist, of "''submit''"] by (simp add: parse_method_def)
  also have "\<dots> = Inr (Submit ?c)"
    using seal_canonical_manifest [OF assms(1,2)] canonical_json_sort [of v] c
    by (intro parse_submit_sorted [OF dist _ _ idem]) (simp_all add: keys_def insert_commute)
  finally show "parse_request_frame env f = Inr (Submit ?c)" .
  let ?r = "retrieve_dict jid jd rid target"
  have flat: "flat_dict ?r"
    using assms(6-9) SAFE_ID_RE_length DIGEST_RE_length
    by (simp add: flat_dict_def retrieve_dict_def keys_def flat_value_def SAFE_ID_RE_plain DIGEST_RE_plain)
      (simp add: plain_char_def BROKER_REQUEST_SCHEMA_def)
  from flat_canonical [OF flat] obtain x where x: "canonical_json (JObj ?r) = Inr x" "length x \<le> 20001" by auto
  have "x \<noteq> []" using x(1) by (auto simp: canonical_json_def encode_utf8_Inr_iff)
  then obtain g where g: "encode_frame x MAX_BROKER_REQUEST_BYTES = Inr g"
    using x(2) by (simp add: encode_frame_def MAX_BROKER_REQUEST_BYTES_def)
  have dist: "distinct (keys ?r)" by (simp add: retrieve_dict_def keys_def)
  have "parse_request_frame env g = parse_method env (sorted_dict ?r)"
    using flat_jwf [OF flat, of "rec_limit env"] d g x(1) by (intro parse_request_canonical) (simp_all add: retrieve_dict_def)
  also have "\<dots> = parse_retrieve (sorted_dict ?r)"
    using method_sorted [OF dist, of "''retrieve''"] by (simp add: parse_method_def retrieve_dict_def)
  also have "\<dots> = Inr (Retrieve jid jd rid target)" using assms(6-9) by (rule parse_retrieve_sorted)
  finally show "\<exists>g. retrieve_request jid jd rid target = Inr g \<and> parse_request_frame env g = Inr (Retrieve jid jd rid target)"
    using x(1) g by (auto simp: retrieve_request_def)
qed

lemma sample_canonical: "canonical_json sample_manifest = Inr sample_bytes" "jwf (rec_limit sample_env) sample_manifest"
  using sample_bytes_facts(1) sample_jwf by (simp_all add: canonical_json_def sample_bytes_def encode_utf8_def sample_env_def)

lemma sample_parse: "parse_manifest sample_env sample_bytes = Inr (sort_keys sample_manifest)"
proof -
  obtain kvs where "sort_keys sample_manifest = JObj kvs" by (simp add: sample_manifest_def)
  moreover have "sample_bytes \<noteq> []" by (simp add: sample_bytes_def)
  ultimately show ?thesis
    using canonical_json_loads [OF sample_canonical good_hook_unique_object] sample_bytes_facts(2)
    by (simp add: parse_manifest_def MAX_MANIFEST_BYTES_def)
qed

lemma sample_submit: "\<exists>f. submit_request sample_env sample_bytes = Inr f"
proof -
  let ?d = "JObj [(''schema'', JStr BROKER_REQUEST_SCHEMA), (''method'', JStr ''submit''), (''manifest'', sort_keys sample_manifest)]"
  have "manifest_copy sample_env sample_job = Inr (sort_keys sample_manifest)"
    using canonical_json_loads [OF sample_canonical good_hook_dict_hook] by (simp add: manifest_copy_def sample_job_def)
  moreover have "case canonical_json ?d of Inr b \<Rightarrow> b \<noteq> [] \<and> length b \<le> 2000 | Inl _ \<Rightarrow> False" by code_simp
  then obtain b where "canonical_json ?d = Inr b" "b \<noteq> []" "length b \<le> 2000" by (cases "canonical_json ?d") auto
  ultimately show ?thesis
    using sample_seals by (simp add: submit_request_def encode_frame_def MAX_BROKER_REQUEST_BYTES_def)
qed

theorem request_round_trip_witness:
  "\<exists>f. submit_request sample_env sample_bytes = Inr f \<and> parse_request_frame sample_env f = Inr (Submit sample_bytes)"
proof -
  from sample_submit obtain f where f: "submit_request sample_env sample_bytes = Inr f" by blast
  have len: "length (canonical_manifest sample_job) \<le> MAX_MANIFEST_BYTES"
    using sample_bytes_facts(2) by (simp add: sample_job_def MAX_MANIFEST_BYTES_def)
  have "jwf 19 sample_manifest" by code_simp
  then have "jwf 19 (sort_keys sample_manifest)" by (simp only: jwf_sort_keys)
  then have "jok 19 (sort_keys sample_manifest)" by (simp only: jwf_iff)
  moreover have "rec_limit sample_env - 1 = 19" by (simp add: sample_env_def)
  ultimately have ok: "jok (rec_limit sample_env - 1) (sort_keys sample_manifest)" by (simp only:)
  have "SAFE_ID_RE ''job-1''" by code_simp
  from request_round_trip [OF sample_seals len sample_parse ok f this job_ok_digest [OF sample_job_ok] this this] f
  show ?thesis by (auto simp: sample_job_def)
qed

end
