(* ===== verification/Submission.thy ===== *)
theory Submission
  imports Store Protocol
begin

text \<open>
  Who may submit and when (\<open>root_actions/submission.py\<close>): the identity of the connected peer, the policy
  that accepts a peer and a submission time, and the metadata the store keeps with the job. The
  frames of this module are in \<^theory_text>\<open>Protocol\<close>.
\<close>

section \<open>Operations\<close>

record BrokerPeerIdentity =
  uid :: int
  gid :: int
  pid :: int

definition peer_post_init :: "BrokerPeerIdentity \<Rightarrow> unit result" where
  "peer_post_init p = raise_if (list_ex (\<lambda>v. v < 0) [uid p, gid p, pid p]) (SubmissionRejected ''broker peer identity is invalid'')"

record SubmissionPolicy =
  allowed_uids :: "int set"
  allowed_gids :: "int set"
  maximum_age_seconds :: int
  maximum_future_skew_seconds :: int
  limits :: SubmissionLimits

definition submission_policy_post_init :: "SubmissionPolicy \<Rightarrow> unit result" where
  "submission_policy_post_init p =
     bindE (raise_if (allowed_uids p = {} \<and> allowed_gids p = {})
              (SubmissionRejected ''submission policy requires an explicit peer allowlist'')) (\<lambda>_.
     bindE (raise_if (\<exists>v\<in>allowed_uids p \<union> allowed_gids p. v < 0)
              (SubmissionRejected ''submission policy peer allowlist is invalid'')) (\<lambda>_.
     raise_if (list_ex (\<lambda>v. v < 0) [maximum_age_seconds p, maximum_future_skew_seconds p])
       (SubmissionRejected ''submission policy time bound is invalid'')))"

text \<open>\<open>(received - submitted).total_seconds()\<close>: the instants are whole seconds.\<close>

definition authorize :: "SubmissionPolicy \<Rightarrow> SealedJob \<Rightarrow> BrokerPeerIdentity \<Rightarrow> string \<Rightarrow> SubmissionMetadata result" where
  "authorize p job peer received_at =
     bindE (raise_if (uid peer \<notin> allowed_uids p \<and> gid peer \<notin> allowed_gids p)
              (SubmissionRejected ''submission peer is not allowlisted'')) (\<lambda>_.
     bindE (raise_from is_value_error (SubmissionRejected ''submission timestamp is invalid'')
              (bindE (parse_instant (submitted_at job)) (\<lambda>submitted.
               bindE (parse_instant received_at) (\<lambda>received. Inr (received - submitted))))) (\<lambda>age.
     bindE (raise_if (maximum_age_seconds p < age) (SubmissionRejected ''submission manifest is stale'')) (\<lambda>_.
     bindE (raise_if (age < - maximum_future_skew_seconds p) (SubmissionRejected ''submission manifest is from the future'')) (\<lambda>_.
     Inr \<lparr>peer_uid = uid peer, peer_gid = gid peer, peer_pid = pid peer, broker_received_at = received_at\<rparr>))))"

section \<open>Lemmas\<close>

lemma authorize_Inr_iff:
  "authorize p job peer at = Inr m \<longleftrightarrow> (uid peer \<in> allowed_uids p \<or> gid peer \<in> allowed_gids p)
     \<and> (\<exists>t u. parse_instant (submitted_at job) = Inr t \<and> parse_instant at = Inr u
         \<and> u - t \<le> maximum_age_seconds p \<and> t - u \<le> maximum_future_skew_seconds p)
     \<and> m = \<lparr>peer_uid = uid peer, peer_gid = gid peer, peer_pid = pid peer, broker_received_at = at\<rparr>"
  by (auto simp: authorize_def result_simps)

end
