(* ===== verification/Actions.thy ===== *)
theory Actions
  imports Store_Runs
begin

text \<open>
  The clients of the store (worker, broker, authorization service) as actions: they read the store,
  run its transactions one after the other, ask the broker's event source for an event id and a
  time, and raise exceptions that do not undo what was already committed. The theory has the
  combinators, the event source and the invariant that everything a client does to the store
  is a sequence of the store's own steps.
\<close>

section \<open>The state of a client and its actions\<close>

text \<open>
  The state of the broker process: the database, the number of events asked of the event source so far,
  and what the broker remembers of its publications (\<open>_published_projection_digests\<close> and
  \<open>_published_projection_revisions\<close>, two dictionaries with the same keys in the same order, and
  \<open>_last_publication_error\<close>).
\<close>

record world =
  w_store :: store
  w_tick :: nat
  w_published :: "(string \<times> string \<times> int) list"
  w_publication_error :: "string option"

type_synonym 'a action = "world \<Rightarrow> 'a result \<times> world"

definition returnA :: "'a \<Rightarrow> 'a action" where
  "returnA x w = (Inr x, w)"

definition liftA :: "'a result \<Rightarrow> 'a action" where
  "liftA r w = (r, w)"

definition bindA :: "'a action \<Rightarrow> ('a \<Rightarrow> 'b action) \<Rightarrow> 'b action" where
  "bindA m f w = (case m w of (Inl e, w') \<Rightarrow> (Inl e, w') | (Inr x, w') \<Rightarrow> f x w')"

text \<open>\<open>try: m except Exception as e: h e\<close>\<close>

definition tryA :: "'a action \<Rightarrow> (exn \<Rightarrow> 'a action) \<Rightarrow> 'a action" where
  "tryA m h w = (case m w of (Inl e, w') \<Rightarrow> h e w' | (Inr x, w') \<Rightarrow> (Inr x, w'))"

text \<open>A read of the store, and a transaction.\<close>

definition queryA :: "(store \<Rightarrow> 'a result) \<Rightarrow> 'a action" where
  "queryA f w = (f (w_store w), w)"

definition storeA :: "(store \<Rightarrow> 'a result \<times> store) \<Rightarrow> 'a action" where
  "storeA f w = (fst (f (w_store w)), w\<lparr>w_store := snd (f (w_store w))\<rparr>)"

lemma bindA_simps:
  "m w = (Inr x, w') \<Longrightarrow> bindA m f w = f x w'"
  "m w = (Inl e, w') \<Longrightarrow> bindA m f w = (Inl e, w')"
  by (simp_all add: bindA_def)

lemma tryA_simps:
  "m w = (Inr x, w') \<Longrightarrow> tryA m h w = (Inr x, w')"
  "m w = (Inl e, w') \<Longrightarrow> tryA m h w = h e w'"
  by (simp_all add: tryA_def)

lemma bindA_Inr_iff: "bindA m f w = (Inr y, w') \<longleftrightarrow> (\<exists>x w1. m w = (Inr x, w1) \<and> f x w1 = (Inr y, w'))"
  by (auto simp: bindA_def split: prod.splits sum.splits)

lemma primA_simps [simp]:
  "bindA (returnA x) f w = f x w"
  "bindA (liftA (Inr x)) f w = f x w"
  "bindA (liftA (Inl e)) f w = (Inl e, w)"
  "returnA x w = (Inr x, w)"
  "liftA r w = (r, w)"
  "queryA q w = (q (w_store w), w)"
  by (simp_all add: bindA_def returnA_def liftA_def queryA_def)

lemma bindA_queryA: "q (w_store w) = Inr x \<Longrightarrow> bindA (queryA q) f w = f x w"
  "q (w_store w) = Inl e \<Longrightarrow> bindA (queryA q) f w = (Inl e, w)"
  by (simp_all add: bindA_def queryA_def)

lemma bindA_storeA: "g (w_store w) = (Inr x, s') \<Longrightarrow> bindA (storeA g) f w = f x (w\<lparr>w_store := s'\<rparr>)"
  "g (w_store w) = (Inl e, s') \<Longrightarrow> bindA (storeA g) f w = (Inl e, w\<lparr>w_store := s'\<rparr>)"
  by (simp_all add: bindA_def storeA_def)

section \<open>The event source\<close>

text \<open>
  \<open>BrokerEventSource.next_event\<close> is a protocol: the n-th call returns the n-th event of a sequence.
  \<open>system_event\<close> is what \<open>SystemBrokerEventSource\<close> makes of 16 random bytes and the clock.
\<close>

type_synonym event_source = "nat \<Rightarrow> string \<times> string"

definition next_event :: "event_source \<Rightarrow> (string \<times> string) action" where
  "next_event events w = (Inr (events (w_tick w)), w\<lparr>w_tick := Suc (w_tick w)\<rparr>)"

definition system_event :: "nat list \<Rightarrow> int \<Rightarrow> string \<times> string" where
  "system_event token_bytes now = (''event-'' @ hex_of_bytes token_bytes, format_instant now)"

lemma bindA_next_event [simp]:
  "bindA (next_event events) f w = f (events (w_tick w)) (w\<lparr>w_tick := Suc (w_tick w)\<rparr>)"
  by (simp add: bindA_def next_event_def)

lemma is_hex_id_tail: "is_hex c \<Longrightarrow> id_tail c"
  by (auto simp: is_hex_def is_digit_def id_tail_def id_head_def is_lower_def less_eq_char_def)

lemma system_event_ok:
  assumes "length bs = 16" and "\<And>b. b \<in> set bs \<Longrightarrow> b < 256" and "instant_2000 \<le> now" and "now < instant_2100"
  shows "event_ok (fst (system_event bs now)) (snd (system_event bs now))"
proof -
  have "list_all id_tail (hex_of_bytes bs)"
    using hex_of_bytes_hex [OF assms(2)] by (auto simp: list_all_iff is_hex_id_tail)
  then have "SAFE_ID_RE (''event-'' @ hex_of_bytes bs)"
    using assms(1) by (simp add: SAFE_ID_RE_def) (simp add: id_head_def id_tail_def is_lower_def is_digit_def less_eq_char_def)
  with format_instant_ok [OF assms(3,4)] show ?thesis by (simp add: event_ok_def system_event_def)
qed

section \<open>Enumeration members by value\<close>

text \<open>\<open>TransitionKind(value)\<close> and \<open>TerminalOutcome(value)\<close>\<close>

definition kind_of :: "string \<Rightarrow> TransitionKind result" where
  "kind_of v = (case List.find (\<lambda>k. kind_value k = v)
       [CLAIM_EXECUTION, CLOSE_PENDING, COMPLETE_EXECUTION, MARK_UNKNOWN, RECONCILE_UNKNOWN] of
     None \<Rightarrow> Inl (ValueError ''not a valid TransitionKind'') | Some k \<Rightarrow> Inr k)"

definition outcome_of :: "string \<Rightarrow> TerminalOutcome result" where
  "outcome_of v = (case List.find (\<lambda>x. outcome_value x = v) [SUCCEEDED, FAILED, REJECTED, EXPIRED, CANCELED, PRESTART_FAILED] of
     None \<Rightarrow> Inl (ValueError ''not a valid TerminalOutcome'') | Some x \<Rightarrow> Inr x)"

lemma outcome_of_value: "outcome_of v = Inr x \<Longrightarrow> outcome_value x = v"
  by (auto simp: outcome_of_def split: if_splits)

lemma kind_of_value [simp]: "kind_of (kind_value k) = Inr k"
  by (cases k) (simp_all add: kind_of_def)

lemma outcome_of_outcome_value [simp]: "outcome_of (outcome_value x) = Inr x"
  by (cases x) (simp_all add: outcome_of_def)

section \<open>Clients only take steps of the store\<close>

named_theorems client_intros \<open>actions made of store steps\<close>

definition client :: "pyenv \<Rightarrow> 'a action \<Rightarrow> bool" where
  "client env m \<longleftrightarrow> (\<forall>w. (store_step env)\<^sup>*\<^sup>* (w_store w) (w_store (snd (m w))))"

definition read_only :: "'a action \<Rightarrow> bool" where
  "read_only m \<longleftrightarrow> (\<forall>w. w_store (snd (m w)) = w_store w)"

lemma read_only_client: "read_only m \<Longrightarrow> client env m"
  by (simp add: read_only_def client_def)

lemma client_bind [client_intros]: "client env m \<Longrightarrow> (\<And>x. client env (f x)) \<Longrightarrow> client env (bindA m f)"
  unfolding client_def bindA_def by (auto split: prod.splits sum.splits) (metis rtranclp_trans snd_conv)+

lemma client_try [client_intros]: "client env m \<Longrightarrow> (\<And>e. client env (h e)) \<Longrightarrow> client env (tryA m h)"
  unfolding client_def tryA_def by (auto split: prod.splits sum.splits) (metis rtranclp_trans snd_conv)+

lemma client_prims [client_intros]:
  "client env (returnA x)" "client env (liftA r)" "client env (queryA q)" "client env (next_event events)"
  by (simp_all add: client_def next_event_def)

lemma client_steps [client_intros]: "(\<And>s. (store_step env)\<^sup>*\<^sup>* s (snd (g s))) \<Longrightarrow> client env (storeA g)"
  by (simp add: client_def storeA_def)

lemma client_cases [client_intros]:
  "(b \<Longrightarrow> client env m) \<Longrightarrow> (\<not> b \<Longrightarrow> client env m') \<Longrightarrow> client env (if b then m else m')"
  "(\<And>x y. p = (x, y) \<Longrightarrow> client env (f x y)) \<Longrightarrow> client env (case p of (x, y) \<Rightarrow> f x y)"
  "(v = None \<Longrightarrow> client env m) \<Longrightarrow> (\<And>x. v = Some x \<Longrightarrow> client env (g x)) \<Longrightarrow> client env (case v of None \<Rightarrow> m | Some x \<Rightarrow> g x)"
  by (auto split: prod.splits option.splits)

lemma client_reachable: "client env m \<Longrightarrow> reachable env (w_store w) \<Longrightarrow> reachable env (w_store (snd (m w)))"
proof -
  assume c: "client env m" and r: "reachable env (w_store w)"
  have "(store_step env)\<^sup>*\<^sup>* s s' \<Longrightarrow> reachable env s \<Longrightarrow> reachable env s'" for s s'
    by (induction rule: rtranclp_induct) (auto intro: reachable.step)
  with c r show ?thesis by (auto simp: client_def)
qed

lemma client_forward: "client env m \<Longrightarrow> reachable env (w_store w) \<Longrightarrow> forward (w_store w) (w_store (snd (m w)))"
  using steps_grow [of env "w_store w" "w_store (snd (m w))"] reachable_inv [of env "w_store w"] by (simp add: client_def)

section \<open>Preorders over every step of the store\<close>

text \<open>
  A preorder of the primitive steps that the authorization tables respect contains every step of the
  store: what it preserves holds in every reachable state.
\<close>

locale step_preorder = store_preorder +
  assumes R_auth: "same_jobs s s' \<Longrightarrow> R s s'"
begin

lemma auth_op_R:
  assumes "\<And>x s'. transaction s m = (Inr x, s') \<Longrightarrow> auth_inv s' \<and> same_jobs s s'"
  shows "R s (snd (transaction s m))"
  using assms by (intro transaction_keeps_value [where P = "R s"]) (auto intro: R_refl R_auth)

lemma claim_with_approval_R: "R s (snd (claim_with_approval s c cred v a ev))"
proof -
  have "R s s'" if "claim_with_approval s c cred v a ev = (Inr r, s')" for r s'
    using that by (rule claim_with_approval_Inr) (blast intro: R_trans R_auth R_cas)
  then show ?thesis
    unfolding claim_with_approval_def by (intro transaction_keeps_value [where P = "R s"]) (auto intro: R_refl)
qed

lemma store_step_R:
  assumes "store_step env s s'" and "store_inv env s"
  shows "R s s'"
  using assms
proof (induction rule: store_step.induct)
  case (create_auth_bootstrap session s)
  then show ?case
    unfolding create_auth_bootstrap_def [of s session]
    by (intro auth_op_R, fold create_auth_bootstrap_def) (rule create_auth_bootstrap_inv, auto simp: store_inv_def)
next
  case (issue_registration_ceremony s d c)
  then show ?case
    unfolding issue_registration_ceremony_def [of s d c]
    by (intro auth_op_R, fold issue_registration_ceremony_def) (rule issue_registration_inv, auto simp: store_inv_def)
next
  case (complete_registration s d cid cred at)
  then show ?case
    unfolding complete_registration_def [of s d cid cred at]
    by (intro auth_op_R, fold complete_registration_def) (rule complete_registration_inv, auto simp: store_inv_def)
next
  case (issue_approval_ceremony s c)
  then show ?case
    unfolding issue_approval_ceremony_def [of s c]
    by (intro auth_op_R, fold issue_approval_ceremony_def) (rule issue_approval_inv, auto simp: store_inv_def)
qed (rule claim_with_approval_R put_if_absent_R create_pending_R seal_pending_R seal_rejected_R
    seal_with_lineage_admission_R compare_and_append_R put_raw_if_absent_R complete_claimed_execution_R
    mark_claimed_execution_unknown_R publish_if_absent_R quarantine_if_absent_R)+

end

section \<open>Every stored job is sealed\<close>

definition jobs_verified :: "pyenv \<Rightarrow> store \<Rightarrow> bool" where
  "jobs_verified env s \<longleftrightarrow> (\<forall>j\<in>set (jobs s). verify_job env (row_job j) = Inr ())"

definition keeps_verified :: "pyenv \<Rightarrow> store \<Rightarrow> store \<Rightarrow> bool" where
  "keeps_verified env s s' \<longleftrightarrow> (jobs_verified env s \<longrightarrow> jobs_verified env s')"

lemma keeps_verified_same: "jobs s' = jobs s \<Longrightarrow> keeps_verified env s s'"
  by (simp add: keeps_verified_def jobs_verified_def)

lemma cas_same_jobs: "compare_and_append_tx s ev = Inr (r, s') \<Longrightarrow> jobs s' = jobs s"
  unfolding compare_and_append_tx_def Let_def
  by (auto simp: bindE_Inr_iff insert_ledger_def insert_ledger_row_def split: if_splits)

interpretation vj: step_preorder env "keeps_verified env"
proof
  fix s show "keeps_verified env s s" by (simp add: keeps_verified_def)
  fix s1 s2 show "keeps_verified env s s1 \<Longrightarrow> keeps_verified env s1 s2 \<Longrightarrow> keeps_verified env s s2"
    by (simp add: keeps_verified_def)
  fix s' job sub show "verify_job env job = Inr () \<Longrightarrow> insert_job s job sub = Inr s' \<Longrightarrow> keeps_verified env s s'"
    by (auto simp: insert_job_def keeps_verified_def jobs_verified_def split: if_splits)
  fix r show "is_initial r \<Longrightarrow> matching_job s r \<Longrightarrow> insert_record_and_initial_ledger s r = Inr s' \<Longrightarrow> keeps_verified env s s'"
    by (rule keeps_verified_same) (auto simp: insert_record_Inr)
  fix r' ev show "compare_and_append_tx s ev = Inr (r', s') \<Longrightarrow> keeps_verified env s s'"
    by (rule keeps_verified_same) (rule cas_same_jobs)
  fix raw show "insert_raw s raw = Inr s' \<Longrightarrow> keeps_verified env s s'"
    by (rule keeps_verified_same) (auto simp: insert_raw_def split: if_splits)
  fix a show "verify_receipt env a = Inr () \<Longrightarrow> publish_tx env s a = Inr s' \<Longrightarrow> keeps_verified env s s'"
    by (rule keeps_verified_same) (auto dest: publish_tx_core)
  fix q show "keeps_verified env s (s\<lparr>quarantine := quarantine s @ [q]\<rparr>)"
    by (rule keeps_verified_same) simp
  show "same_jobs s s' \<Longrightarrow> keeps_verified env s s'" by (rule keeps_verified_same) (simp add: same_jobs_def)
qed

lemma reachable_verified: "reachable env s \<Longrightarrow> jobs_verified env s"
proof (induction rule: reachable.induct)
  case start
  show ?case by (simp add: jobs_verified_def empty_store_def)
next
  case (step s s')
  then show ?case using vj.store_step_R [OF step(2) reachable_inv [OF step(1)]] by (simp add: keeps_verified_def)
qed

text \<open>So a job with a record can be read back, and is well formed.\<close>

lemma verify_job_ok: "verify_job env job = Inr () \<Longrightarrow> job_ok job"
  by (auto simp: verify_job_def result_simps dest: seal_job_ok)

lemma find_job_in: "ledger_inv s \<Longrightarrow> j \<in> set (jobs s) \<Longrightarrow> find_job s (job_id (row_job j)) = Some j"
  unfolding find_job_def by (rule find_unique) (auto simp: ledger_inv_def job_ids_def)

lemma record_job:
  assumes inv: "ledger_inv s" and ver: "jobs_verified env s" and r: "find_record s jid = Some r"
  obtains j where "find_job s jid = Some j" "read_sealed env s jid = Inr (row_job j)" "job_id (row_job j) = jid"
    "job_digest (row_job j) = rec_job_digest r" "job_ok (row_job j)" "j \<in> set (jobs s)" "verify_job env (row_job j) = Inr ()"
proof -
  have m: "r \<in> set (records s)" "rec_job_id r = jid" using ledger_inv_find_record [OF inv r] by auto
  from ledger_inv_job [OF inv m(1)] obtain j where j: "j \<in> set (jobs s)" "job_id (row_job j) = jid"
    "job_digest (row_job j) = rec_job_digest r" using m(2) by auto
  have "find_job s jid = Some j" using find_job_in [OF inv j(1)] j(2) by simp
  moreover have v: "verify_job env (row_job j) = Inr ()" using ver j(1) by (simp add: jobs_verified_def)
  ultimately show thesis using j verify_job_ok [OF v] by (intro that) (auto simp: read_sealed_def read_job_def)
qed

end
