(* ===== verification/Projection.thy ===== *)
theory Projection
  imports Actions Store_Properties Protocol
begin

text \<open>
  The read-only views (\<open>root_actions/projection.py\<close>): the status of a job with its record, its
  receipt and the summary of its lineage, and the history, which replays the ledger rows through
  the state machine before it shows them. The theorems say that a history the store serves is
  always accepted and re-derives the stored record, and that a status never pairs a record with a
  receipt that contradicts it.
\<close>

definition STATUS_SCHEMA :: string where "STATUS_SCHEMA = ''agent-runtime-root-action-status/v1''"

definition HISTORY_SCHEMA :: string where "HISTORY_SCHEMA = ''agent-runtime-root-action-history/v1''"

section \<open>Status\<close>

definition check_receipt_view :: "pyenv \<Rightarrow> SealedJob \<Rightarrow> JobRecord \<Rightarrow> ReceiptArtifact \<Rightarrow> unit result" where
  "check_receipt_view env job r a =
     bindE (raise_from is_receipt_error (ProjectionError ''receipt bytes are invalid'')
              (seal_receipt env (canonical_receipt a))) (\<lambda>verified.
     bindE (raise_if (verified \<noteq> a) (ProjectionError ''receipt metadata does not match canonical bytes'')) (\<lambda>_.
     bindE (raise_if (rc_job_id a \<noteq> job_id job \<or> rc_job_digest a \<noteq> job_digest job \<or> rc_operation_id a \<noteq> operation_id job
                      \<or> rc_request_id a \<noteq> request_id job \<or> rc_reply_target a \<noteq> reply_target job)
              (ProjectionError ''receipt job identity mismatch'')) (\<lambda>_.
     bindE (raise_if (state r \<notin> {TERMINAL, UNKNOWN}) (ProjectionError ''non-final state cannot expose a receipt'')) (\<lambda>_.
     bindE (raise_if (state r = UNKNOWN \<and> rc_kind a \<noteq> ''unknown'')
              (ProjectionError ''unknown state requires an unknown receipt'')) (\<lambda>_.
     bindE (raise_if (state r = TERMINAL \<and> rc_kind a = ''unknown'')
              (ProjectionError ''terminal state cannot expose an unknown receipt'')) (\<lambda>_.
     bindE (receipt_copy env a) (\<lambda>value.
     bindE (jget value ''terminal_outcome'') (\<lambda>out.
     bindE (raise_if (out \<noteq> opt_str (map_option outcome_value (terminal_outcome r)))
              (ProjectionError ''receipt terminal outcome mismatch'')) (\<lambda>_.
     if rc_kind a \<in> {''unknown'', ''terminal_notice''} then
       bindE (jget value ''reason_code'') (\<lambda>reason.
       raise_if (reason \<noteq> opt_str (rec_reason r)) (ProjectionError ''receipt reason_code mismatch''))
     else Inr ())))))))))"

definition job_view :: "SealedJob \<Rightarrow> json \<Rightarrow> json \<Rightarrow> json \<Rightarrow> json" where
  "job_view job parameters pre_state review = JObj
     [(''job_id'', JStr (job_id job)), (''job_digest'', JStr (job_digest job)), (''operation_id'', JStr (operation_id job)),
      (''operation_version'', JInt (operation_version job)), (''request_id'', JStr (request_id job)),
      (''lineage_id'', JStr (lineage_id job)), (''reply_target'', JStr (reply_target job)), (''submitted_at'', JStr (submitted_at job)),
      (''parameters'', parameters), (''expected_pre_state'', pre_state), (''review'', review)]"

definition state_view :: "JobRecord \<Rightarrow> json" where
  "state_view r = JObj
     [(''name'', JStr (state_value (state r))), (''revision'', JInt (revision r)), (''execution_count'', JInt (execution_count r)),
      (''terminal_outcome'', opt_str (map_option outcome_value (terminal_outcome r))), (''reason_code'', opt_str (rec_reason r)),
      (''last_changed_at'', JStr (last_changed_at r))]"

definition lineage_view :: "LineageSummary option \<Rightarrow> json" where
  "lineage_view summary = JObj (case summary of
     Some s \<Rightarrow> (''availability'', JStr ''measured'') # (case lineage_summary_projection s of JObj d \<Rightarrow> d | _ \<Rightarrow> [])
   | None \<Rightarrow> [(''availability'', JStr ''unavailable''), (''reason'', JStr ''root_owned_ledger_summary_not_supplied'')])"

definition receipt_view :: "ReceiptArtifact option \<Rightarrow> json" where
  "receipt_view receipt = (case receipt of
     None \<Rightarrow> JNull | Some a \<Rightarrow> JObj [(''kind'', JStr (rc_kind a)), (''receipt_digest'', JStr (receipt_digest a))])"

definition status_projection ::
  "pyenv \<Rightarrow> SealedJob \<Rightarrow> JobRecord \<Rightarrow> ReceiptArtifact option \<Rightarrow> LineageSummary option \<Rightarrow> dict result" where
  "status_projection env job r receipt summary =
     bindE (validate_record r) (\<lambda>_.
     bindE (raise_if (rec_job_id r \<noteq> job_id job \<or> rec_job_digest r \<noteq> job_digest job)
              (ProjectionError ''ledger record job identity mismatch'')) (\<lambda>_.
     bindE (case receipt of None \<Rightarrow> Inr () | Some a \<Rightarrow> check_receipt_view env job r a) (\<lambda>_.
     bindE (bindE (manifest_copy env job) jobj) (\<lambda>manifest.
     bindE (jget manifest ''parameters'') (\<lambda>parameters.
     bindE (jget manifest ''expected_pre_state'') (\<lambda>pre_state.
     bindE (jget manifest ''review'') (\<lambda>review.
     Inr [(''schema'', JStr STATUS_SCHEMA), (''job'', job_view job parameters pre_state review), (''state'', state_view r),
          (''lineage_24h'', lineage_view summary), (''receipt'', receipt_view receipt)])))))))"

definition canonical_status_bytes :: "dict \<Rightarrow> string result" where
  "canonical_status_bytes value =
     bindE (raise_if (jget_opt value ''schema'' \<noteq> JStr STATUS_SCHEMA) (ProjectionError ''status projection schema mismatch'')) (\<lambda>_.
     canonical_json (JObj value))"

section \<open>History\<close>

definition canonical_history_bytes :: "dict \<Rightarrow> string result" where
  "canonical_history_bytes value =
     bindE (raise_if (jget_opt value ''schema'' \<noteq> JStr HISTORY_SCHEMA) (ProjectionError ''history projection schema mismatch'')) (\<lambda>_.
     canonical_json (JObj value))"

definition is_lookup_error :: "exn \<Rightarrow> bool" where
  "is_lookup_error e = (is_value_error e \<or> (case e of KeyError _ \<Rightarrow> True | StorageNotFound _ \<Rightarrow> True | _ \<Rightarrow> False))"

definition history_first :: "SealedJob \<Rightarrow> LedgerEntry \<Rightarrow> JobRecord result" where
  "history_first job e =
     bindE (raise_if (action e \<noteq> ''sealed_pending'' \<or> prior_state e \<noteq> None \<or> next_state e \<noteq> ''pending'' \<or> record_revision e \<noteq> 0
                      \<or> led_outcome e \<noteq> None \<or> led_reason e \<noteq> None)
              (ProjectionError ''history does not begin with sealed pending state'')) (\<lambda>_.
     raise_from is_value_error (ProjectionError ''history initial event is invalid'')
       (initial_record job (led_event_id e) (led_occurred_at e)))"

definition entry_event :: "JobRecord \<Rightarrow> LedgerEntry \<Rightarrow> TransitionEvent result" where
  "entry_event prior e =
     bindE (kind_of (action e)) (\<lambda>k.
     bindE (case led_outcome e of None \<Rightarrow> Inr None | Some v \<Rightarrow> bindE (outcome_of v) (\<lambda>x. Inr (Some x))) (\<lambda>out.
     Inr \<lparr>event_id = led_event_id e, ev_job_id = led_job_id e, ev_job_digest = led_job_digest e, expected_revision = revision prior,
          ev_kind = k, occurred_at = led_occurred_at e, ev_outcome = out, ev_reason = led_reason e\<rparr>))"

definition history_next :: "JobRecord \<Rightarrow> LedgerEntry \<Rightarrow> JobRecord result" where
  "history_next prior e =
     bindE (raise_from is_lookup_error (ProjectionError ''history transition is invalid'')
              (bindE (entry_event prior e) (apply_transition prior))) (\<lambda>r.
     bindE (raise_if (prior_state e \<noteq> Some (state_value (state prior)) \<or> next_state e \<noteq> state_value (state r)
                      \<or> record_revision e \<noteq> revision r \<or> led_outcome e \<noteq> map_option outcome_value (terminal_outcome r)
                      \<or> led_reason e \<noteq> rec_reason r)
              (ProjectionError ''history transition projection mismatch'')) (\<lambda>_. Inr r))"

definition entry_view :: "LedgerEntry \<Rightarrow> json" where
  "entry_view e = JObj
     [(''sequence'', JInt (sequence e)), (''action'', JStr (action e)), (''prior_state'', opt_str (prior_state e)),
      (''next_state'', JStr (next_state e)), (''record_revision'', JInt (record_revision e)), (''event_id'', JStr (led_event_id e)),
      (''occurred_at'', JStr (led_occurred_at e)), (''terminal_outcome'', opt_str (led_outcome e)), (''reason_code'', opt_str (led_reason e))]"

text \<open>The loop over the entries: the sequence number and the record it has reached so far.\<close>

fun history_walk :: "SealedJob \<Rightarrow> int \<Rightarrow> JobRecord option \<Rightarrow> LedgerEntry list \<Rightarrow> (json list \<times> JobRecord option) result" where
  "history_walk job seq prior [] = Inr ([], prior)"
| "history_walk job seq prior (e # es) =
     bindE (raise_if (led_job_id e \<noteq> job_id job \<or> led_job_digest e \<noteq> job_digest job)
              (ProjectionError ''history job identity mismatch'')) (\<lambda>_.
     bindE (raise_if (sequence e \<le> seq) (ProjectionError ''history sequence is not increasing'')) (\<lambda>_.
     bindE (case prior of None \<Rightarrow> history_first job e | Some r \<Rightarrow> history_next r e) (\<lambda>r.
     bindE (history_walk job (sequence e) (Some r) es) (\<lambda>(views, last).
     Inr (entry_view e # views, last)))))"

definition history_projection :: "SealedJob \<Rightarrow> LedgerEntry list \<Rightarrow> dict result" where
  "history_projection job entries =
     bindE (raise_if (entries = []) (ProjectionError ''history cannot be empty'')) (\<lambda>_.
     bindE (history_walk job 0 None entries) (\<lambda>(views, _).
     Inr [(''schema'', JStr HISTORY_SCHEMA), (''job_id'', JStr (job_id job)), (''job_digest'', JStr (job_digest job)),
          (''events'', JList views)]))"

section \<open>Sequence numbers are positive\<close>

definition seq_positive :: "store \<Rightarrow> bool" where
  "seq_positive s \<longleftrightarrow> 0 \<le> ledger_seq s \<and> (\<forall>e\<in>set (ledger s). 0 < sequence e)"

definition keeps_positive :: "store \<Rightarrow> store \<Rightarrow> bool" where
  "keeps_positive s s' \<longleftrightarrow> (seq_positive s \<longrightarrow> seq_positive s')"

lemma keeps_positive_same: "ledger s' = ledger s \<Longrightarrow> ledger_seq s' = ledger_seq s \<Longrightarrow> keeps_positive s s'"
  by (simp add: keeps_positive_def seq_positive_def)

interpretation sq: step_preorder env keeps_positive
proof
  fix s show "keeps_positive s s" by (simp add: keeps_positive_def)
  fix s1 s2 show "keeps_positive s s1 \<Longrightarrow> keeps_positive s1 s2 \<Longrightarrow> keeps_positive s s2" by (simp add: keeps_positive_def)
  fix s' job sub show "insert_job s job sub = Inr s' \<Longrightarrow> keeps_positive s s'"
    by (rule keeps_positive_same) (auto simp: insert_job_def split: if_splits)
  fix r show "is_initial r \<Longrightarrow> insert_record_and_initial_ledger s r = Inr s' \<Longrightarrow> keeps_positive s s'"
    by (auto simp: insert_record_Inr keeps_positive_def seq_positive_def)
  fix r' ev show "compare_and_append_tx s ev = Inr (r', s') \<Longrightarrow> keeps_positive s s'"
    unfolding compare_and_append_tx_def Let_def
    by (auto simp: bindE_Inr_iff insert_ledger_def insert_ledger_row_Inr keeps_positive_def seq_positive_def)
  fix raw show "insert_raw s raw = Inr s' \<Longrightarrow> keeps_positive s s'"
    by (rule keeps_positive_same) (auto simp: insert_raw_def split: if_splits)
  fix a show "publish_tx env s a = Inr s' \<Longrightarrow> keeps_positive s s'"
    by (rule keeps_positive_same) (auto dest: publish_tx_core)
  fix q show "keeps_positive s (s\<lparr>quarantine := quarantine s @ [q]\<rparr>)" by (rule keeps_positive_same) simp_all
  show "same_jobs s s' \<Longrightarrow> keeps_positive s s'" by (rule keeps_positive_same) (simp_all add: same_jobs_def)
qed

lemma reachable_positive: "reachable env s \<Longrightarrow> seq_positive s"
proof (induction rule: reachable.induct)
  case start
  show ?case by (simp add: seq_positive_def empty_store_def)
next
  case (step s s')
  then show ?case using sq.store_step_R [OF step(2) reachable_inv [OF step(1)]] by (simp add: keeps_positive_def)
qed

section \<open>The history the store serves\<close>

lemma unseq_fields:
  assumes "unseq e = x"
  shows "action e = action x" "prior_state e = prior_state x" "next_state e = next_state x" "record_revision e = record_revision x"
    "led_event_id e = led_event_id x" "led_occurred_at e = led_occurred_at x" "led_job_id e = led_job_id x"
    "led_job_digest e = led_job_digest x" "led_outcome e = led_outcome x" "led_reason e = led_reason x"
  using assms by (auto simp: unseq_def)

lemma entry_event_of:
  assumes "unseq e = transition_entry r (advance r ev) ev" and acc: "accepts r ev"
  shows "entry_event r e = Inr ev"
proof -
  have "(case led_outcome e of None \<Rightarrow> Inr None | Some v \<Rightarrow> bindE (outcome_of v) (\<lambda>x. Inr (Some x))) = Inr (ev_outcome ev)"
    by (simp add: unseq_fields [OF assms(1)] transition_entry_def split: option.splits)
  then show ?thesis
    using acc by (simp add: entry_event_def unseq_fields [OF assms(1)] transition_entry_def accepts_def)
qed

lemma history_next_trace:
  assumes "unseq e = transition_entry r (advance r ev) ev" and "record_ok r" and "accepts r ev"
  shows "history_next r e = Inr (advance r ev)"
proof -
  have "apply_transition r ev = Inr (advance r ev)" using assms(2,3) by (simp add: apply_transition_Inr_iff)
  then show ?thesis
    by (simp add: history_next_def entry_event_of [OF assms(1,3)] unseq_fields [OF assms(1)] transition_entry_def)
qed

lemma history_first_initial:
  assumes "unseq e = initial_entry r" and ini: "is_initial r" and "rec_job_id r = job_id job" and "rec_job_digest r = job_digest job"
  shows "history_first job e = Inr r"
proof -
  have ok: "record_ok r" "event_ok (last_event_id r) (last_changed_at r)" using ini by (auto simp: is_initial_def record_ok_iff)
  have r: "\<lparr>rec_job_id = job_id job, rec_job_digest = job_digest job, state = PENDING, revision = 0, execution_count = 0,
      terminal_outcome = None, rec_reason = None, last_event_id = last_event_id r, last_changed_at = last_changed_at r\<rparr> = r"
    using ini assms(3,4) by (cases r) (auto simp: is_initial_def record_ok_iff state_valid_def)
  have "validate_event_fields (last_event_id r) (last_changed_at r) = Inr ()" "validate_record r = Inr ()"
    using ok by (simp_all add: validate_event_fields_Inr_iff validate_record_Inr_iff)
  then have "initial_record job (last_event_id r) (last_changed_at r) = Inr r"
    unfolding initial_record_def Let_def r by simp
  then show ?thesis by (simp add: history_first_def unseq_fields [OF assms(1)] initial_entry_def)
qed

lemma history_walk_trace:
  assumes "replay r evs = Inr r'" and "map unseq es = trace r evs" and "record_ok r"
    and "rec_job_id r = job_id job" and "rec_job_digest r = job_digest job"
    and "sorted_wrt (<) (map sequence es)" and "\<forall>e\<in>set es. q < sequence e"
  shows "history_walk job q (Some r) es = Inr (map entry_view es, Some r')"
  using assms
proof (induction evs arbitrary: r es q)
  case (Cons ev evs)
  then obtain e es' where es: "es = e # es'" "unseq e = transition_entry r (advance r ev) ev" "map unseq es' = trace (advance r ev) evs"
    by (cases es) auto
  have acc: "accepts r ev" "replay (advance r ev) evs = Inr r'" using Cons.prems(1) by (auto simp: bindE_Inr_iff apply_transition_Inr_iff)
  have "history_walk job (sequence e) (Some (advance r ev)) es' = Inr (map entry_view es', Some r')"
    using Cons.prems es acc by (intro Cons.IH) (auto simp: advance_ok)
  moreover have "led_job_id e = job_id job" "led_job_digest e = job_digest job"
    using Cons.prems(4,5) by (simp_all add: unseq_fields [OF es(2)] transition_entry_def)
  ultimately show ?case
    using Cons.prems(3,7) history_next_trace [OF es(2) _ acc(1)] by (simp add: es(1))
qed simp

lemma history_walk_of:
  assumes h: "history_of es r" and "rec_job_id r = job_id job" and "rec_job_digest r = job_digest job"
    and "sorted_wrt (<) (map sequence es)" and "\<forall>e\<in>set es. 0 < sequence e"
  shows "es \<noteq> [] \<and> history_walk job 0 None es = Inr (map entry_view es, Some r)"
proof -
  from h obtain r0 evs where r0: "is_initial r0" "replay r0 evs = Inr r" "map unseq es = initial_entry r0 # trace r0 evs"
    by (auto simp: history_of_def)
  then obtain e es' where es: "es = e # es'" "unseq e = initial_entry r0" "map unseq es' = trace r0 evs" by (cases es) auto
  have ok: "record_ok r0" using r0(1) by (simp add: is_initial_def)
  have t: "transitions r0 evs r" using r0(2) ok by (simp add: transitions_replay)
  have ids: "rec_job_id r0 = job_id job" "rec_job_digest r0 = job_digest job"
    using transitions_invariant [OF t] assms(2,3) by simp_all
  have "history_walk job (sequence e) (Some r0) es' = Inr (map entry_view es', Some r)"
    using assms(4) r0(2) es ok ids by (intro history_walk_trace) auto
  moreover have "led_job_id e = job_id job" "led_job_digest e = job_digest job"
    using ids by (simp_all add: unseq_fields [OF es(2)] initial_entry_def)
  ultimately show ?thesis
    using assms(5) history_first_initial [OF es(2) r0(1) ids] by (simp add: es(1))
qed

text \<open>Conversely, whatever the loop accepts is a genuine history.\<close>

lemma kind_of_Inr: "kind_of v = Inr k \<Longrightarrow> kind_value k = v"
  by (auto simp: kind_of_def split: if_splits)

lemma history_next_Inr:
  assumes "history_next r e = Inr r'"
  shows "\<exists>ev. apply_transition r ev = Inr r' \<and> unseq e = transition_entry r r' ev"
proof -
  from assms obtain ev where ev: "entry_event r e = Inr ev" "apply_transition r ev = Inr r'"
    and m: "prior_state e = Some (state_value (state r))" "next_state e = state_value (state r')" "record_revision e = revision r'"
      "led_outcome e = map_option outcome_value (terminal_outcome r')" "led_reason e = rec_reason r'"
    by (auto simp: history_next_def result_simps)
  have a: "accepts r ev" "r' = advance r ev" using ev(2) by (auto simp: apply_transition_Inr_iff)
  from ev(1) have f: "event_id ev = led_event_id e" "ev_job_id ev = led_job_id e" "ev_job_digest ev = led_job_digest e"
    "occurred_at ev = led_occurred_at e" "kind_value (ev_kind ev) = action e"
    by (auto simp: entry_event_def result_simps dest: kind_of_Inr)
  have "led_job_id e = rec_job_id r'" "led_job_digest e = rec_job_digest r'" using a f by (auto simp: accepts_def)
  then have "unseq e = transition_entry r r' ev"
    using m f by (cases e) (simp add: unseq_def transition_entry_def)
  with ev(2) show ?thesis by blast
qed

lemma history_walk_Some:
  assumes "history_walk job q (Some r) es = Inr (views, fin)"
  shows "\<exists>evs r'. fin = Some r' \<and> replay r evs = Inr r' \<and> map unseq es = trace r evs"
  using assms
proof (induction es arbitrary: q r views)
  case Nil
  then show ?case by (intro exI [of _ "[]"]) simp
next
  case (Cons e es)
  from Cons.prems obtain r1 vs where n: "history_next r e = Inr r1" "history_walk job (sequence e) (Some r1) es = Inr (vs, fin)"
    by (auto simp: result_simps)
  from Cons.IH [OF n(2)] obtain evs r' where i: "fin = Some r'" "replay r1 evs = Inr r'" "map unseq es = trace r1 evs" by auto
  from history_next_Inr [OF n(1)] obtain ev where ev: "apply_transition r ev = Inr r1" "unseq e = transition_entry r r1 ev" by auto
  then have "r1 = advance r ev" by (simp add: apply_transition_Inr_iff)
  with i ev show ?case by (intro exI [of _ "ev # evs"] exI [of _ r']) simp
qed

lemma history_first_Inr:
  assumes "history_first job e = Inr r" and "led_job_id e = job_id job" and "led_job_digest e = job_digest job"
  shows "is_initial r \<and> unseq e = initial_entry r"
proof -
  from assms(1) have i: "initial_record job (led_event_id e) (led_occurred_at e) = Inr r"
    and c: "action e = ''sealed_pending''" "prior_state e = None" "next_state e = ''pending''" "record_revision e = 0"
      "led_outcome e = None" "led_reason e = None"
    by (auto simp: history_first_def result_simps)
  have "unseq e = initial_entry r"
    using initial_record_Inr [OF i] c assms(2,3) by (cases e) (simp add: unseq_def initial_entry_def)
  with initial_record_is_initial [OF i] show ?thesis by simp
qed

lemma history_walk_sound:
  assumes "history_walk job 0 None es = Inr (views, Some r)"
  shows "history_of es r \<and> rec_job_id r = job_id job \<and> rec_job_digest r = job_digest job"
proof (cases es)
  case (Cons e es')
  with assms obtain r0 vs where e: "led_job_id e = job_id job" "led_job_digest e = job_digest job" "history_first job e = Inr r0"
    "history_walk job (sequence e) (Some r0) es' = Inr (vs, Some r)"
    by (auto simp: result_simps)
  have r0: "is_initial r0" "unseq e = initial_entry r0" using history_first_Inr [OF e(3,1,2)] by auto
  from history_walk_Some [OF e(4)] obtain evs where evs: "replay r0 evs = Inr r" "map unseq es' = trace r0 evs" by auto
  have "record_ok r0" using r0(1) by (simp add: is_initial_def)
  then have "transitions r0 evs r" using evs(1) by (simp add: transitions_replay)
  then have "rec_job_id r = rec_job_id r0" "rec_job_digest r = rec_job_digest r0" using transitions_invariant by auto
  moreover have "rec_job_id r0 = led_job_id e" "rec_job_digest r0 = led_job_digest e"
    using r0(2) by (auto simp: unseq_def initial_entry_def dest: arg_cong [of _ _ led_job_id] arg_cong [of _ _ led_job_digest])
  ultimately show ?thesis
    using e evs r0 by (auto simp: history_of_def Cons)
qed (use assms in simp)

section \<open>Properties\<close>

text \<open>
  C19. The public history shows exactly what happened. \<open>history_projection\<close> accepts a list of ledger entries for a job if and
  only if they have increasing positive sequence numbers, are about that job and are the trace of a record that
  began as sealed and pending and went through accepted transitions; it then lists every entry in order.
\<close>

theorem history_projection_exact:
  "(\<exists>h. history_projection job es = Inr h) \<longleftrightarrow>
     (\<exists>r. history_of es r \<and> rec_job_id r = job_id job \<and> rec_job_digest r = job_digest job)
     \<and> sorted_wrt (<) (0 # map sequence es)"
proof
  assume "\<exists>h. history_projection job es = Inr h"
  then obtain views fin where w: "es \<noteq> []" "history_walk job 0 None es = Inr (views, fin)"
    by (auto simp: history_projection_def result_simps)
  have s: "sorted_wrt (<) (q # map sequence es)" if "history_walk job q prior es = Inr (views, fin)" for q prior views
    using that
  proof (induction es arbitrary: q prior views)
    case (Cons e es)
    from Cons.prems obtain r vs where "q < sequence e" "history_walk job (sequence e) (Some r) es = Inr (vs, fin)"
      by (auto simp: result_simps)
    with Cons.IH show ?case by fastforce
  qed simp
  obtain e es' where e: "es = e # es'" using w(1) by (cases es) auto
  from w(2) obtain r0 vs where "history_walk job (sequence e) (Some r0) es' = Inr (vs, fin)" unfolding e by (auto simp: result_simps)
  then obtain r where "fin = Some r" using history_walk_Some by blast
  then show "(\<exists>r. history_of es r \<and> rec_job_id r = job_id job \<and> rec_job_digest r = job_digest job)
     \<and> sorted_wrt (<) (0 # map sequence es)"
    using history_walk_sound w(2) s by blast
next
  assume "(\<exists>r. history_of es r \<and> rec_job_id r = job_id job \<and> rec_job_digest r = job_digest job)
     \<and> sorted_wrt (<) (0 # map sequence es)"
  then obtain r where r: "history_of es r" "rec_job_id r = job_id job" "rec_job_digest r = job_digest job"
    "sorted_wrt (<) (map sequence es)" "\<forall>e\<in>set es. 0 < sequence e" by auto
  from history_walk_of [OF r] show "\<exists>h. history_projection job es = Inr h" by (simp add: history_projection_def)
qed

text \<open>
  C31. The history of every job in the store is served: in every reachable state, for every record, the sealed job and its
  ledger can be read, \<open>history_projection\<close> accepts them, the events are all the ledger rows of the job, and the
  record the projection re-derives from them is the stored one.
\<close>

theorem history_rederives_record:
  assumes "reachable env s" and "find_record s jid = Some r"
  shows "\<exists>job es h. read_sealed env s jid = Inr job \<and> read_ledger s jid = Inr es \<and> history_projection job es = Inr h
    \<and> jget h ''events'' = Inr (JList (map entry_view es)) \<and> history_walk job 0 None es = Inr (map entry_view es, Some r)"
proof -
  have inv: "ledger_inv s" using reachable_inv [OF assms(1)] by (simp add: store_inv_def)
  from record_job [OF inv reachable_verified [OF assms(1)] assms(2)] obtain j :: stored_job where
    j: "read_sealed env s jid = Inr (row_job j)" "job_id (row_job j) = jid" "job_digest (row_job j) = rec_job_digest r" by blast
  have r: "r \<in> set (records s)" "rec_job_id r = jid" using ledger_inv_find_record [OF inv assms(2)] by auto
  let ?es = "ledger_of s jid"
  have l: "read_ledger s jid = Inr ?es" using read_ledger_of [OF inv r(1)] r(2) by simp
  have h: "history_of ?es r" using ledger_inv_record [OF inv r(1)] r(2) by simp
  have "sorted_wrt (\<lambda>x y. sequence x < sequence y) ?es"
    unfolding ledger_of_def using inv by (intro sorted_wrt_filter) (simp add: ledger_inv_def sorted_wrt_map)
  then have "sorted_wrt (<) (map sequence ?es)" by (simp add: sorted_wrt_map)
  moreover have "\<forall>e\<in>set ?es. 0 < sequence e" using reachable_positive [OF assms(1)] by (simp add: seq_positive_def ledger_of_def)
  ultimately have w: "?es \<noteq> [] \<and> history_walk (row_job j) 0 None ?es = Inr (map entry_view ?es, Some r)"
    using history_walk_of [OF h, of "row_job j"] j(2,3) r(2) by simp
  then show ?thesis
    using j(1) l by (intro exI [of _ "row_job j"] exI [of _ ?es]) (simp add: history_projection_def jget_def)
qed

theorem history_rederives_record_witness:
  "\<exists>job es h. read_ledger sample_store ''job-1'' = Inr es \<and> history_projection job es = Inr h
    \<and> history_walk job 0 None es = Inr (map entry_view es, Some sample_record)"
  using history_rederives_record [OF sample_reachable, of "''job-1''" sample_record] sample_find by (auto simp: sample_job_def)

text \<open>
  C32. A status never contradicts its receipt: when \<open>status_projection\<close> returns a view with a receipt, the receipt is
  sealed and about exactly this job, an unknown receipt is shown if and only if the state is unknown, the
  outcome it states is the outcome of the record, and the view names this state, outcome, reason and receipt.
\<close>

theorem status_agrees_with_receipt:
  assumes "status_projection env job r (Some a) summary = Inr d"
  shows "seal_receipt env (canonical_receipt a) = Inr a
    \<and> (rc_job_id a, rc_job_digest a, rc_operation_id a, rc_request_id a, rc_reply_target a)
        = (job_id job, job_digest job, operation_id job, request_id job, reply_target job)
    \<and> state r \<in> {TERMINAL, UNKNOWN} \<and> (rc_kind a = ''unknown'' \<longleftrightarrow> state r = UNKNOWN)
    \<and> receipt_outcome env a = Inr (opt_str (map_option outcome_value (terminal_outcome r)))
    \<and> jget d ''state'' = Inr (state_view r) \<and> jget d ''receipt'' = Inr (receipt_view (Some a))
    \<and> (rc_kind a \<in> {''unknown'', ''terminal_notice''} \<longrightarrow>
        (\<exists>v. receipt_copy env a = Inr v \<and> jget v ''reason_code'' = Inr (opt_str (rec_reason r))))"
proof -
  from assms have c: "check_receipt_view env job r a = Inr ()"
    and d: "jget d ''state'' = Inr (state_view r)" "jget d ''receipt'' = Inr (receipt_view (Some a))"
    by (auto simp: status_projection_def bindE_Inr_iff jget_def)
  from c d show ?thesis
    by (auto simp: check_receipt_view_def result_simps receipt_outcome_def split: if_splits)
qed

lemma sample_copy: "manifest_copy sample_env sample_job = Inr (sort_keys sample_manifest)"
  using canonical_json_loads [OF sample_canonical good_hook_dict_hook] by (simp add: manifest_copy_def sample_job_def)

lemma sample_manifest_fields:
  "\<exists>m p x v. jobj (sort_keys sample_manifest) = Inr m \<and> jget m ''parameters'' = Inr p \<and> jget m ''expected_pre_state'' = Inr x
     \<and> jget m ''review'' = Inr v"
proof -
  obtain kvs where k: "sample_manifest = JObj kvs" by (simp add: sample_manifest_def)
  have "distinct (keys kvs)" using sample_canonical(2) jok_JObj by (auto simp: k jwf_iff)
  moreover have "\<exists>p x v. jget kvs ''parameters'' = Inr p \<and> jget kvs ''expected_pre_state'' = Inr x \<and> jget kvs ''review'' = Inr v"
    using k by (auto simp: sample_manifest_def jget_def)
  ultimately show ?thesis by (auto simp: k jobj_def jget_sort_keys)
qed

theorem status_agrees_with_receipt_witness:
  "\<exists>a d. status_projection sample_env sample_job (advance sample_record sample_close) (Some a) None = Inr d
    \<and> receipt_outcome sample_env a = Inr (JStr ''rejected'') \<and> jget d ''receipt'' = Inr (receipt_view (Some a))"
proof -
  let ?r = "advance sample_record sample_close"
  from terminal_notice_Inr [OF sample_env_ok sample_job_ok sample_reason] obtain b v
    where t: "seal_receipt sample_env b = Inr (artifact_of sample_job ''terminal_notice'' b)"
      "receipt_copy sample_env (artifact_of sample_job ''terminal_notice'' b) = Inr v"
      "jget v ''terminal_outcome'' = Inr (JStr ''rejected'')" "jget v ''reason_code'' = Inr (JStr ''disabled_unverified_authority'')"
    by metis
  let ?a = "artifact_of sample_job ''terminal_notice'' b"
  have r: "state ?r = TERMINAL" "terminal_outcome ?r = Some REJECTED" "rec_reason ?r = Some ''disabled_unverified_authority''"
    by (simp_all add: sample_close_def kind_defs)
  have "canonical_receipt ?a = b" by (simp add: artifact_of_def)
  then have c: "check_receipt_view sample_env sample_job ?r ?a = Inr ()"
    unfolding check_receipt_view_def using t by (simp only: r) (simp add: artifact_of_def opt_str_def)
  have "validate_record ?r = Inr ()" using apply_transition_ok [OF sample_closed] by (simp add: validate_record_Inr_iff)
  moreover have "rec_job_id ?r = job_id sample_job" "rec_job_digest ?r = job_digest sample_job" using sample_ids by simp_all
  ultimately obtain d where d: "status_projection sample_env sample_job ?r (Some ?a) None = Inr d"
    using sample_manifest_fields c by (auto simp: status_projection_def sample_copy)
  from status_agrees_with_receipt [OF d] d show ?thesis
    by (intro exI [of _ ?a] exI [of _ d]) (simp add: r opt_str_def sample_close_def)
qed

end
