(* ===== verification/Public_Projection.thy ===== *)
theory Public_Projection
  imports Projection "HOL-Library.Multiset"
begin

text \<open>
  The public projection of a job (\<open>root_actions/public_projection.py\<close>): one canonical document with the
  status, the history and the receipt, sealed by a digest, and the validation every reader runs
  on it. The file publisher around it is not modelled.
\<close>

definition PUBLIC_PROJECTION_SCHEMA :: string where
  "PUBLIC_PROJECTION_SCHEMA = ''agent-runtime-root-action-public-projection/v1''"

definition PUBLIC_PROJECTION_MAX_BYTES :: nat where "PUBLIC_PROJECTION_MAX_BYTES = 3 * 1024 * 1024"

record PublicProjectionArtifact =
  pa_job_id :: string
  pa_job_digest :: string
  projection_digest :: string
  canonical_bytes :: string

definition load_canonical :: "pyenv \<Rightarrow> string \<Rightarrow> string \<Rightarrow> dict result" where
  "load_canonical env raw f =
     bindE (raise_from (\<lambda>e. e = UnicodeDecodeError \<or> e = JSONDecodeError) (PublicProjectionError (f @ '' is not UTF-8 JSON''))
              (bindE (decode_utf8 raw) (json_loads env dict_hook))) (\<lambda>v.
     (case v of
        JObj kvs \<Rightarrow>
          bindE (canonical_json v) (\<lambda>c.
          bindE (raise_if (raw \<noteq> c) (PublicProjectionError (f @ '' is not canonical JSON''))) (\<lambda>_. Inr kvs))
      | _ \<Rightarrow> Inl (PublicProjectionError (f @ '' is not canonical JSON''))))"

text \<open>\<open>d.get("job", {})\<close>, and \<open>.get(k)\<close> on it: only a dictionary has this method.\<close>

definition job_of_status :: "dict \<Rightarrow> dict result" where
  "job_of_status status =
     (case map_of status ''job'' of None \<Rightarrow> Inr [] | Some (JObj d) \<Rightarrow> Inr d | Some _ \<Rightarrow> Inl (AttributeError ''get''))"

definition projection_digest_of :: "string \<Rightarrow> string" where
  "projection_digest_of payload = sha256_tag (''agent-runtime-root-action-public-projection/v1'' @ [CHR 0x00] @ payload)"

definition load_receipt :: "pyenv \<Rightarrow> string \<Rightarrow> string \<Rightarrow> dict \<Rightarrow> ReceiptArtifact option \<Rightarrow> json result" where
  "load_receipt env jid jd status_job receipt =
     (case receipt of
        None \<Rightarrow> Inr JNull
      | Some a \<Rightarrow>
          bindE (seal_receipt env (canonical_receipt a)) (\<lambda>verified.
          bindE (raise_if (verified \<noteq> a) (PublicProjectionError ''public receipt metadata mismatch'')) (\<lambda>_.
          bindE (raise_if (rc_job_id a \<noteq> jid \<or> rc_job_digest a \<noteq> jd \<or> JStr (rc_request_id a) \<noteq> jget_opt status_job ''request_id''
                           \<or> JStr (rc_reply_target a) \<noteq> jget_opt status_job ''reply_target'')
                   (PublicProjectionError ''public receipt identity mismatch'')) (\<lambda>_.
          bindE (load_canonical env (canonical_receipt a) ''receipt'') (\<lambda>d. Inr (JObj d))))))"

definition projection_payload :: "string \<Rightarrow> string \<Rightarrow> dict \<Rightarrow> dict \<Rightarrow> json \<Rightarrow> dict" where
  "projection_payload jid jd status history receipt =
     [(''schema'', JStr PUBLIC_PROJECTION_SCHEMA), (''job_id'', JStr jid), (''job_digest'', JStr jd),
      (''status'', JObj status), (''history'', JObj history), (''receipt'', receipt)]"

definition build_public_projection ::
  "pyenv \<Rightarrow> string \<Rightarrow> string \<Rightarrow> string \<Rightarrow> string \<Rightarrow> ReceiptArtifact option \<Rightarrow> PublicProjectionArtifact result" where
  "build_public_projection env jid jd status_bytes history_bytes receipt =
     bindE (load_canonical env status_bytes ''status'') (\<lambda>status.
     bindE (load_canonical env history_bytes ''history'') (\<lambda>history.
     bindE (job_of_status status) (\<lambda>status_job.
     bindE (raise_if (jget_opt status_job ''job_id'' \<noteq> JStr jid \<or> jget_opt status_job ''job_digest'' \<noteq> JStr jd
                      \<or> jget_opt history ''job_id'' \<noteq> JStr jid \<or> jget_opt history ''job_digest'' \<noteq> JStr jd)
              (PublicProjectionError ''public projection identity mismatch'')) (\<lambda>_.
     bindE (load_receipt env jid jd status_job receipt) (\<lambda>receipt_value.
     let payload = projection_payload jid jd status history receipt_value in
     bindE (canonical_json (JObj payload)) (\<lambda>payload_bytes.
     let digest = projection_digest_of payload_bytes in
     bindE (canonical_json (JObj (payload @ [(''projection_digest'', JStr digest)]))) (\<lambda>canonical.
     bindE (raise_if (PUBLIC_PROJECTION_MAX_BYTES < length canonical)
              (PublicProjectionError ''public projection exceeds its byte limit'')) (\<lambda>_.
     Inr \<lparr>pa_job_id = jid, pa_job_digest = jd, projection_digest = digest, canonical_bytes = canonical\<rparr>))))))))"

definition PROJECTION_KEYS :: "string list" where
  "PROJECTION_KEYS = [''schema'', ''job_id'', ''job_digest'', ''projection_digest'', ''status'', ''history'', ''receipt'']"

definition nested_identity :: "dict \<Rightarrow> dict result" where
  "nested_identity value =
     (case (the (map_of value ''status''), the (map_of value ''history'')) of
        (JObj status, JObj history) \<Rightarrow>
          bindE (job_of_status status) (\<lambda>status_job.
          bindE (raise_if (jget_opt status_job ''job_id'' \<noteq> jget_opt value ''job_id''
                           \<or> jget_opt status_job ''job_digest'' \<noteq> jget_opt value ''job_digest''
                           \<or> jget_opt history ''job_id'' \<noteq> jget_opt value ''job_id''
                           \<or> jget_opt history ''job_digest'' \<noteq> jget_opt value ''job_digest'')
                   (PublicProjectionError ''public projection nested identity mismatch'')) (\<lambda>_. Inr status_job))
      | _ \<Rightarrow> Inl (PublicProjectionError ''public projection nested identity mismatch''))"

definition validate_nested_receipt :: "pyenv \<Rightarrow> dict \<Rightarrow> dict \<Rightarrow> unit result" where
  "validate_nested_receipt env value status_job =
     (case the (map_of value ''receipt'') of
        JNull \<Rightarrow> Inr ()
      | v \<Rightarrow>
          bindE (canonical_json v) (\<lambda>b.
          bindE (seal_receipt env b) (\<lambda>a.
          raise_if (JStr (rc_job_id a) \<noteq> jget_opt value ''job_id'' \<or> JStr (rc_job_digest a) \<noteq> jget_opt value ''job_digest''
                    \<or> JStr (rc_request_id a) \<noteq> jget_opt status_job ''request_id''
                    \<or> JStr (rc_reply_target a) \<noteq> jget_opt status_job ''reply_target'')
            (PublicProjectionError ''public projection receipt identity mismatch''))))"

definition validate_public_projection :: "pyenv \<Rightarrow> string \<Rightarrow> PublicProjectionArtifact result" where
  "validate_public_projection env raw =
     bindE (raise_if (raw = [] \<or> PUBLIC_PROJECTION_MAX_BYTES < length raw)
              (PublicProjectionError ''public projection byte length is invalid'')) (\<lambda>_.
     bindE (load_canonical env raw ''public projection'') (\<lambda>value.
     bindE (raise_if (set (keys value) \<noteq> set PROJECTION_KEYS \<or> jget_opt value ''schema'' \<noteq> JStr PUBLIC_PROJECTION_SCHEMA)
              (PublicProjectionError ''public projection field set or schema is invalid'')) (\<lambda>_.
     bindE (raise_if (\<not> str_ok SAFE_ID_RE (jget_opt value ''job_id'') \<or> \<not> str_ok DIGEST_RE (jget_opt value ''job_digest''))
              (PublicProjectionError ''public projection job identity is invalid'')) (\<lambda>_.
     bindE (canonical_json (JObj (filter (\<lambda>kv. fst kv \<noteq> ''projection_digest'') value))) (\<lambda>payload_bytes.
     let digest = projection_digest_of payload_bytes in
     bindE (raise_if (jget_opt value ''projection_digest'' \<noteq> JStr digest) (PublicProjectionError ''public projection digest mismatch'')) (\<lambda>_.
     bindE (nested_identity value) (\<lambda>status_job.
     bindE (validate_nested_receipt env value status_job) (\<lambda>_.
     Inr \<lparr>pa_job_id = str_arg value ''job_id'', pa_job_digest = str_arg value ''job_digest'', projection_digest = digest,
          canonical_bytes = raw\<rparr>))))))))"

section \<open>Canonical documents are read back\<close>

lemma load_canonical_Inr:
  assumes "load_canonical env raw f = Inr kvs"
  shows "canonical_json (JObj kvs) = Inr raw" and "json_loads env dict_hook raw = Inr (JObj kvs)"
  using assms by (auto simp: load_canonical_def result_simps split: json.splits)

lemma load_canonical_sorted:
  assumes "canonical_json (JObj kvs) = Inr b" and "jwf (rec_limit env) (JObj kvs)"
  shows "load_canonical env b f = Inr (sorted_dict kvs)"
  using canonical_json_loads [OF assms good_hook_dict_hook] canonical_json_sort [of "JObj kvs"] assms(1)
  by (simp add: load_canonical_def)

lemma jwf_mono: "jwf d v \<Longrightarrow> d \<le> d' \<Longrightarrow> jwf d' v"
proof (induction d v arbitrary: d' rule: jwf.induct)
  case (7 d vs)
  then show ?case by (cases d') (auto simp: list_all_iff)
next
  case (9 d kvs)
  then show ?case by (cases d') (auto simp: list_all_iff)
qed simp_all

lemma load_canonical_fixed:
  assumes "load_canonical env raw f = Inr kvs" and "jwf d (JObj kvs)" and "d \<le> rec_limit env"
  shows "sort_keys (JObj kvs) = JObj kvs"
  using canonical_json_loads [OF load_canonical_Inr(1) [OF assms(1)] jwf_mono [OF assms(2,3)] good_hook_dict_hook]
    load_canonical_Inr(2) [OF assms(1)] by simp

lemma canonical_json_filter:
  "canonical_json (JObj (filter (\<lambda>kv. p (fst kv)) (sorted_dict kvs))) = canonical_json (JObj (filter (\<lambda>kv. p (fst kv)) kvs))"
proof -
  have "filter (\<lambda>kv. p (fst kv)) (sorted_dict kvs) = sorted_dict (filter (\<lambda>kv. p (fst kv)) kvs)"
    by (simp add: filter_sort filter_map comp_def)
  then show ?thesis using canonical_json_sort [of "JObj (filter (\<lambda>kv. p (fst kv)) kvs)"] by simp
qed

text \<open>A canonical document that nests one level less than the interpreter allows and has no float.\<close>

definition embeddable :: "pyenv \<Rightarrow> string \<Rightarrow> dict \<Rightarrow> bool" where
  "embeddable env raw d \<longleftrightarrow> load_canonical env raw [] = Inr d \<and> jwf (rec_limit env - 1) (JObj d)"

lemma load_canonical_label: "load_canonical env raw f = Inr d \<longleftrightarrow> load_canonical env raw g = Inr d"
  by (auto simp: load_canonical_def result_simps split: json.splits)

lemma embeddable_load: "embeddable env raw d \<Longrightarrow> load_canonical env raw f = Inr d"
  using load_canonical_label [of env raw "[]" d f] by (simp add: embeddable_def)

lemma embeddable_fixed: "embeddable env raw d \<Longrightarrow> sort_keys (JObj d) = JObj d"
  unfolding embeddable_def by (rule load_canonical_fixed) auto

lemma embeddable_jwf: "embeddable env raw d \<Longrightarrow> jwf (rec_limit env - 1) (JObj d)"
  by (simp add: embeddable_def)

definition embeddable_receipt :: "pyenv \<Rightarrow> ReceiptArtifact option \<Rightarrow> bool" where
  "embeddable_receipt env receipt = (case receipt of None \<Rightarrow> True | Some a \<Rightarrow> (\<exists>d. embeddable env (canonical_receipt a) d))"

lemma load_receipt_Inr:
  assumes "load_receipt env jid jd sj receipt = Inr v" and "embeddable_receipt env receipt"
  shows "sort_keys v = v" and "jwf (rec_limit env - 1) v"
    and "validate_nested_receipt env [(''job_id'', JStr jid), (''job_digest'', JStr jd), (''receipt'', v)] sj = Inr ()"
proof -
  have "sort_keys v = v \<and> jwf (rec_limit env - 1) v
    \<and> validate_nested_receipt env [(''job_id'', JStr jid), (''job_digest'', JStr jd), (''receipt'', v)] sj = Inr ()"
  proof (cases receipt)
    case None
    then show ?thesis using assms(1) by (simp add: load_receipt_def validate_nested_receipt_def)
  next
    case (Some a)
    with assms(2) obtain d where d: "embeddable env (canonical_receipt a) d" by (auto simp: embeddable_receipt_def)
    from embeddable_load [OF d] have l: "load_canonical env (canonical_receipt a) ''receipt'' = Inr d" .
    have c: "canonical_json (JObj d) = Inr (canonical_receipt a)" using load_canonical_Inr(1) [OF l] .
    have v: "v = JObj d" and "seal_receipt env (canonical_receipt a) = Inr a" "rc_job_id a = jid" "rc_job_digest a = jd"
      "JStr (rc_request_id a) = jget_opt sj ''request_id''" "JStr (rc_reply_target a) = jget_opt sj ''reply_target''"
      using assms(1) l by (auto simp: load_receipt_def Some result_simps)
    then show ?thesis using embeddable_fixed [OF d] embeddable_jwf [OF d] c
      by (simp only: v) (simp add: validate_nested_receipt_def jget_opt_def)
  qed
  then show "sort_keys v = v" and "jwf (rec_limit env - 1) v"
    and "validate_nested_receipt env [(''job_id'', JStr jid), (''job_digest'', JStr jd), (''receipt'', v)] sj = Inr ()" by auto
qed

lemma validate_nested_receipt_cong:
  assumes "map_of value ''receipt'' = map_of value' ''receipt''" and "jget_opt value ''job_id'' = jget_opt value' ''job_id''"
    and "jget_opt value ''job_digest'' = jget_opt value' ''job_digest''"
  shows "validate_nested_receipt env value sj = validate_nested_receipt env value' sj"
  by (simp only: validate_nested_receipt_def assms)

lemma canonical_json_ne: "canonical_json v = Inr b \<Longrightarrow> b \<noteq> []"
  by (auto simp: canonical_json_def result_simps)

section \<open>Documents of plain text\<close>

fun plain_json :: "json \<Rightarrow> bool" where
  "plain_json (JStr s) = plain s"
| "plain_json (JList vs) = list_all plain_json vs"
| "plain_json (JObj kvs) = (distinct (keys kvs) \<and> list_all (\<lambda>kv. plain (fst kv) \<and> plain_json (snd kv)) kvs)"
| "plain_json (JFloat r) = False"
| "plain_json v = True"

text \<open>A bound on the length of the compact text\<close>

fun text_size :: "json \<Rightarrow> nat" where
  "text_size (JStr s) = length s + 2"
| "text_size (JInt n) = length (show_int n)"
| "text_size (JList vs) = 2 + sum_list (map (\<lambda>v. text_size v + 1) vs)"
| "text_size (JObj kvs) = 2 + sum_list (map (\<lambda>kv. length (fst kv) + text_size (snd kv) + 4) kvs)"
| "text_size v = 5"

lemma join_bound:
  "length (join [c] xs) \<le> sum_list (map (\<lambda>x. length x + 1) xs)"
  by (induction "[c]" xs rule: join.induct) auto

lemma join_ascii:
  "list_all (\<lambda>c. of_char c < (128::nat)) sep \<Longrightarrow> list_all (list_all (\<lambda>c. of_char c < (128::nat))) xs \<Longrightarrow>
    list_all (\<lambda>c. of_char c < (128::nat)) (join sep xs)"
  by (induction sep xs rule: join.induct) auto

lemma show_int_ascii: "list_all (\<lambda>c. of_char c < (128::nat)) (show_int n)"
proof -
  have "plain (show_nat m)" for m using show_nat_digits [of m] by (auto simp: list_all_iff is_digit_plain)
  then show ?thesis by (auto simp: show_int_def dest: plain_ascii)
qed

lemma plain_json_dumps:
  "plain_json v \<Longrightarrow> list_all (\<lambda>c. of_char c < (128::nat)) (dumps '','' '':'' v) \<and> length (dumps '','' '':'' v) \<le> text_size v"
proof (induction v rule: plain_json.induct)
  case (1 s)
  then show ?case using plain_ascii by (simp add: encode_string_plain)
next
  case (2 vs)
  have "sum_list (map (\<lambda>v. length (dumps '','' '':'' v) + 1) vs) \<le> sum_list (map (\<lambda>v. text_size v + 1) vs)"
    using 2 by (intro sum_list_mono) (auto simp: list_all_iff)
  moreover have "list_all (\<lambda>c. of_char c < (128::nat)) (join '','' (map (dumps '','' '':'') vs))"
    using 2 by (intro join_ascii) (auto simp: list_all_iff)
  ultimately show ?case using join_bound [of "CHR '',''" "map (dumps '','' '':'') vs"] by (simp add: comp_def)
next
  case (3 kvs)
  let ?f = "\<lambda>kv. encode_string (fst kv) @ '':'' @ dumps '','' '':'' (snd kv)"
  have each: "list_all (\<lambda>c. of_char c < (128::nat)) (?f kv) \<and> length (?f kv) \<le> length (fst kv) + text_size (snd kv) + 3" if "kv \<in> set kvs" for kv
  proof -
    have kv: "plain (fst kv)" "plain_json (snd kv)" using that 3(2) by (auto simp: list_all_iff)
    show ?thesis using 3(1) [OF that kv(2)] plain_ascii [OF kv(1)] by (simp add: encode_string_plain [OF kv(1)])
  qed
  have "sum_list (map (\<lambda>kv. length (?f kv) + 1) kvs) \<le> sum_list (map (\<lambda>kv. length (fst kv) + text_size (snd kv) + 4) kvs)"
    using each by (intro sum_list_mono) auto
  moreover have "list_all (\<lambda>c. of_char c < (128::nat)) (join '','' (map ?f kvs))"
    using each by (intro join_ascii) (auto simp: list_all_iff)
  ultimately show ?case using join_bound [of "CHR '',''" "map ?f kvs"] by (simp add: comp_def)
qed (auto simp: show_int_ascii)

lemma plain_json_sort: "plain_json v \<Longrightarrow> plain_json (sort_keys v) \<and> text_size (sort_keys v) = text_size v"
proof (induction v rule: plain_json.induct)
  case (2 vs)
  then have "map (\<lambda>v. Suc (text_size (sort_keys v))) vs = map (\<lambda>v. Suc (text_size v)) vs" by (auto simp: list_all_iff)
  then have "sum_list (map (\<lambda>v. Suc (text_size (sort_keys v))) vs) = sum_list (map (\<lambda>v. Suc (text_size v)) vs)" by (rule arg_cong)
  with 2 show ?case by (simp add: list_all_iff comp_def)
next
  case (3 kvs)
  let ?l = "map (\<lambda>kv. (fst kv, sort_keys (snd kv))) kvs" and ?g = "\<lambda>kv. length (fst kv) + text_size (snd kv) + 4"
  have "sum_list (map ?g (sort_key fst ?l)) = sum_list (map ?g ?l)" 
    by (simp only: mset_map mset_sort flip: sum_mset_sum_list)
  moreover have "map ?g ?l = map ?g kvs" using 3 by (auto simp: list_all_iff)
  ultimately have "text_size (sort_keys (JObj kvs)) = text_size (JObj kvs)" by (simp only: sort_keys.simps text_size.simps)
  moreover have "plain_json (sort_keys (JObj kvs))" using 3 by (auto simp: list_all_iff)
  ultimately show ?case by simp
qed simp_all

text \<open>Such a document has canonical bytes of bounded length.\<close>

lemma plain_json_canonical:
  assumes "plain_json v" and "text_size v < n"
  shows "\<exists>b. canonical_json v = Inr b \<and> length b \<le> n"
proof -
  have s: "plain_json (sort_keys v)" "text_size (sort_keys v) = text_size v" using plain_json_sort [OF assms(1)] by auto
  have "canonical_json v = Inr (dumps '','' '':'' (sort_keys v) @ [CHR 0x0A])"
    using plain_json_dumps [OF s(1)] by (simp add: canonical_json_def encode_utf8_Inr_iff utf8_valid_ascii)
  moreover have "length (dumps '','' '':'' (sort_keys v) @ [CHR 0x0A]) \<le> n" using plain_json_dumps [OF s(1)] s(2) assms(2) by simp
  ultimately show ?thesis by blast
qed

section \<open>Properties\<close>

text \<open>
  C27. Readers accept what the broker publishes. An artifact \<open>build_public_projection\<close> returns for a status and a
  history document passes \<open>validate_public_projection\<close>, which returns the same artifact, and the reader finds exactly those two
  documents in it. The documents have to leave one level of nesting for the envelope and hold no float.
\<close>

theorem public_projection_round_trip:
  assumes built: "build_public_projection env jid jd status_bytes history_bytes receipt = Inr art"
    and docs: "embeddable env status_bytes st" "embeddable env history_bytes hi" "embeddable_receipt env receipt"
    and ids: "SAFE_ID_RE jid" "DIGEST_RE jd"
  shows "validate_public_projection env (canonical_bytes art) = Inr art
    \<and> (\<exists>v. load_canonical env (canonical_bytes art) ''public projection'' = Inr v
        \<and> jget v ''status'' = Inr (JObj st) \<and> jget v ''history'' = Inr (JObj hi))"
proof -
  note l = embeddable_load [OF docs(1)] embeddable_load [OF docs(2)]
  from built l obtain sj rv pb cb where b: "job_of_status st = Inr sj"
    "jget_opt sj ''job_id'' = JStr jid" "jget_opt sj ''job_digest'' = JStr jd" "jget_opt hi ''job_id'' = JStr jid" "jget_opt hi ''job_digest'' = JStr jd"
    "load_receipt env jid jd sj receipt = Inr rv" "canonical_json (JObj (projection_payload jid jd st hi rv)) = Inr pb"
    "canonical_json (JObj (projection_payload jid jd st hi rv @ [(''projection_digest'', JStr (projection_digest_of pb))])) = Inr cb"
    "length cb \<le> PUBLIC_PROJECTION_MAX_BYTES"
    "art = \<lparr>pa_job_id = jid, pa_job_digest = jd, projection_digest = projection_digest_of pb, canonical_bytes = cb\<rparr>"
    by (auto simp: build_public_projection_def result_simps Let_def)
  let ?kvs = "projection_payload jid jd st hi rv @ [(''projection_digest'', JStr (projection_digest_of pb))]"
  note r = load_receipt_Inr [OF b(6) docs(3)]
  have d: "distinct (keys ?kvs)" by (simp add: projection_payload_def keys_def)
  have "jwf (Suc (rec_limit env - 1)) (JObj ?kvs)"
    using d embeddable_jwf [OF docs(1)] embeddable_jwf [OF docs(2)] r(2) by (simp add: projection_payload_def)
  moreover have "Suc (rec_limit env - 1) = rec_limit env" using embeddable_jwf [OF docs(1)] by (cases "rec_limit env") auto
  ultimately have load0: "load_canonical env cb f = Inr (sorted_dict ?kvs)" for f
    using load_canonical_sorted [OF b(8)] by simp
  obtain val where val: "val = sorted_dict ?kvs" by blast
  note load = load0 [folded val]
  have mo: "map_of val k = map_of ?kvs k" for k
    using map_of_sort_keys [OF d, folded val] embeddable_fixed [OF docs(1)] embeddable_fixed [OF docs(2)] r(1)
    by (simp add: projection_payload_def)
  have only: "filter (\<lambda>kv. fst kv \<noteq> ''projection_digest'') ?kvs = projection_payload jid jd st hi rv" by (simp add: projection_payload_def)
  have payload: "canonical_json (JObj (filter (\<lambda>kv. fst kv \<noteq> ''projection_digest'') val)) = Inr pb"
    by (simp only: val canonical_json_filter [of "\<lambda>k. k \<noteq> ''projection_digest''"] only b(7))
  have fields: "jget_opt val ''schema'' = JStr PUBLIC_PROJECTION_SCHEMA" "jget_opt val ''job_id'' = JStr jid"
    "jget_opt val ''job_digest'' = JStr jd" "jget_opt val ''projection_digest'' = JStr (projection_digest_of pb)"
    "str_arg val ''job_id'' = jid" "str_arg val ''job_digest'' = jd"
    by (simp_all add: mo jget_opt_def str_arg_def arg_def, simp_all add: projection_payload_def)
  have nested: "nested_identity val = Inr sj"
    unfolding nested_identity_def fields by (simp add: mo) (simp add: projection_payload_def b(1-5))
  have rec: "validate_nested_receipt env val sj = Inr ()"
    using r(3) by (subst validate_nested_receipt_cong [of _ "[(''job_id'', JStr jid), (''job_digest'', JStr jd), (''receipt'', rv)]"])
      (simp_all add: mo jget_opt_def, simp_all add: projection_payload_def)
  have ks: "set (keys val) = set PROJECTION_KEYS" by (auto simp: val projection_payload_def PROJECTION_KEYS_def keys_def)
  have "validate_public_projection env cb = Inr art"
    unfolding validate_public_projection_def load
    using canonical_json_ne [OF b(8)] b(9,10) ks payload nested rec ids by (simp add: fields str_ok_def Let_def)
  moreover have "jget val ''status'' = Inr (JObj st)" "jget val ''history'' = Inr (JObj hi)"
    by (simp_all add: jget_def mo, simp_all add: projection_payload_def)
  ultimately show ?thesis using load b(10) by simp
qed

lemma plain_build:
  assumes st: "plain_json (JObj st)" "text_size (JObj st) \<le> 100000" "jwf (rec_limit env - 1) (JObj st)"
    and hi: "plain_json (JObj hi)" "text_size (JObj hi) \<le> 100000" "jwf (rec_limit env - 1) (JObj hi)"
    and ids: "SAFE_ID_RE jid" "DIGEST_RE jd"
    and job: "map_of st ''job'' = Some (JObj sj)" "jget_opt sj ''job_id'' = JStr jid" "jget_opt sj ''job_digest'' = JStr jd"
      "jget_opt hi ''job_id'' = JStr jid" "jget_opt hi ''job_digest'' = JStr jd"
  obtains sb hb art where "canonical_json (JObj st) = Inr sb" "canonical_json (JObj hi) = Inr hb"
    "embeddable env sb (sorted_dict st)" "embeddable env hb (sorted_dict hi)" "build_public_projection env jid jd sb hb None = Inr art"
proof -
  obtain sb hb where c: "canonical_json (JObj st) = Inr sb" "canonical_json (JObj hi) = Inr hb"
    using plain_json_canonical [OF st(1)] plain_json_canonical [OF hi(1)] by blast
  have e: "embeddable env sb (sorted_dict st)" "embeddable env hb (sorted_dict hi)"
    using load_canonical_sorted [OF c(1) jwf_mono [OF st(3)]] load_canonical_sorted [OF c(2) jwf_mono [OF hi(3)]]
      st(3) hi(3) jwf_sort_keys [of _ "JObj st"] jwf_sort_keys [of _ "JObj hi"] by (simp_all add: embeddable_def)
  have d: "distinct (keys st)" "distinct (keys hi)" using st(1) hi(1) by auto
  have dj: "distinct (keys sj)" using st(1) job(1) by (auto simp: list_all_iff dest!: map_of_SomeD)
  have j: "job_of_status (sorted_dict st) = Inr (sorted_dict sj)" using d job(1) by (simp add: job_of_status_def map_of_sort_keys)
  have i: "jget_opt (sorted_dict sj) ''job_id'' = JStr jid" "jget_opt (sorted_dict sj) ''job_digest'' = JStr jd"
      "jget_opt (sorted_dict hi) ''job_id'' = JStr jid" "jget_opt (sorted_dict hi) ''job_digest'' = JStr jd"
    using job d dj by (simp_all add: jget_opt_sort)
  let ?p = "projection_payload jid jd (sorted_dict st) (sorted_dict hi) JNull"
  have s: "plain_json (JObj (sorted_dict st))" "text_size (JObj (sorted_dict st)) \<le> 100000"
      "plain_json (JObj (sorted_dict hi))" "text_size (JObj (sorted_dict hi)) \<le> 100000"
    using plain_json_sort [OF st(1)] plain_json_sort [OF hi(1)] st(2) hi(2) by simp_all
  have k: "plain ''schema'' \<and> plain ''job_id'' \<and> plain ''job_digest'' \<and> plain ''status'' \<and> plain ''history'' \<and> plain ''receipt''
      \<and> plain ''projection_digest'' \<and> plain PUBLIC_PROJECTION_SCHEMA
      \<and> length PUBLIC_PROJECTION_SCHEMA \<le> 128" by code_simp
  have len: "length jid \<le> 128" "length jd \<le> 128" using ids SAFE_ID_RE_length [of jid] by (auto simp: DIGEST_RE_def)
  have "DIGEST_RE (projection_digest_of x)" for x unfolding projection_digest_of_def by (rule sha256_tag_digest)
  then have tag: "length (projection_digest_of x) \<le> 128" "plain (projection_digest_of x)" for x
    using DIGEST_RE_plain by (simp_all add: DIGEST_RE_def)
  have p: "plain_json (JObj ?p)" "text_size (JObj ?p) < 300000"
    using k s ids len by (auto simp: projection_payload_def SAFE_ID_RE_plain DIGEST_RE_plain keys_def)
  then obtain pb where pb: "canonical_json (JObj ?p) = Inr pb" using plain_json_canonical by blast
  let ?q = "?p @ [(''projection_digest'', JStr (projection_digest_of pb))]"
  have "plain_json (JObj ?q)" "text_size (JObj ?q) < 400000"
    using k s ids len tag [of pb] by (auto simp: projection_payload_def SAFE_ID_RE_plain DIGEST_RE_plain keys_def)
  then obtain cb where cb: "canonical_json (JObj ?q) = Inr cb" "length cb \<le> 400000" using plain_json_canonical by blast
  have "build_public_projection env jid jd sb hb None
      = Inr \<lparr>pa_job_id = jid, pa_job_digest = jd, projection_digest = projection_digest_of pb, canonical_bytes = cb\<rparr>"
    using embeddable_load [OF e(1)] embeddable_load [OF e(2)] j i pb cb
    by (simp add: build_public_projection_def load_receipt_def PUBLIC_PROJECTION_MAX_BYTES_def)
  with c e that show thesis by blast
qed

theorem public_projection_round_trip_witness:
  "\<exists>sb hb art. build_public_projection sample_env ''job-1'' (job_digest sample_job) sb hb None = Inr art
    \<and> validate_public_projection sample_env (canonical_bytes art) = Inr art"
proof -
  let ?j = "[(''job_id'', JStr ''job-1''), (''job_digest'', JStr (job_digest sample_job))]"
  have jd: "DIGEST_RE (job_digest sample_job)" by (rule job_ok_digest [OF sample_job_ok])
  have id: "SAFE_ID_RE ''job-1''" by code_simp
  have k: "plain ''job'' \<and> plain ''job_id'' \<and> plain ''job_digest'' \<and> plain ''job-1''" by code_simp
  have len: "length (job_digest sample_job) \<le> 128" using jd by (simp add: DIGEST_RE_def)
  have wf: "jwf (rec_limit sample_env - 1) (JObj [(''job'', JObj ?j)])" "jwf (rec_limit sample_env - 1) (JObj ?j)"
    by (simp_all add: sample_env_def keys_def eval_nat_numeral)
  obtain sb hb art where b: "embeddable sample_env sb (sorted_dict [(''job'', JObj ?j)])" "embeddable sample_env hb (sorted_dict ?j)"
    "build_public_projection sample_env ''job-1'' (job_digest sample_job) sb hb None = Inr art"
    by (rule plain_build [of "[(''job'', JObj ?j)]" sample_env ?j "''job-1''" "job_digest sample_job" ?j])
      (use k len jd id wf in \<open>simp_all add: DIGEST_RE_plain keys_def jget_opt_def\<close>)
  from public_projection_round_trip [OF b(3) b(1) b(2) _ id jd] b(3) show ?thesis by (auto simp: embeddable_receipt_def)
qed

end
