(* ===== verification/Worker.thy ===== *)
theory Worker
  imports Actions
begin

text \<open>
  The execution worker (\<open>root_actions/worker.py\<close>): the queue of claimed jobs, the execution of one
  claim, the unknown notice of a claim whose outcome is lost and the recovery of claims that a
  restart left running. The public-file repair is a parameter, as in the code. While a handler runs,
  other clients of the store may commit; \<open>meanwhile\<close> is what they do to it.
\<close>

section \<open>Operations\<close>

definition encode_ascii :: "string \<Rightarrow> string result" where
  "encode_ascii s = (if list_all (\<lambda>c. of_char c < (128::nat)) s then Inr s else Inl UnicodeEncodeError)"

definition raw_storage_id :: "string \<Rightarrow> string \<Rightarrow> string result" where
  "raw_storage_id jid eid =
     bindE (encode_ascii jid) (\<lambda>j. bindE (encode_ascii eid) (\<lambda>e.
     Inr (''raw-'' @ take 48 (sha256_hexdigest
       (''agent-runtime-root-action-raw-storage/v1'' @ [CHR 0x00] @ j @ [CHR 0x00] @ e)))))"

definition raw_of :: "pyenv \<Rightarrow> SealedJob \<Rightarrow> string \<Rightarrow> string \<Rightarrow> RawReceiptArtifact result" where
  "raw_of env job eid b =
     bindE (raw_storage_id (job_id job) eid) (\<lambda>sid. seal_raw_receipt env (job_id job) (job_digest job) sid b)"

definition failure_dict :: "string \<Rightarrow> string \<Rightarrow> dict" where
  "failure_dict failure reason =
     [(''failure_type'', JStr failure), (''phase'', JStr ''claimed_execution''), (''reason_code'', JStr reason)]"

definition unknown_event :: "SealedJob \<Rightarrow> JobRecord \<Rightarrow> string \<Rightarrow> string \<Rightarrow> string \<Rightarrow> TransitionEvent" where
  "unknown_event job r eid at reason = \<lparr>event_id = eid, ev_job_id = job_id job, ev_job_digest = job_digest job,
     expected_revision = revision r, ev_kind = MARK_UNKNOWN, occurred_at = at, ev_outcome = None, ev_reason = Some reason\<rparr>"

definition mark_unknown :: "pyenv \<Rightarrow> event_source \<Rightarrow> string \<Rightarrow> string \<Rightarrow> string \<Rightarrow> string \<Rightarrow> unit action" where
  "mark_unknown env events jid jd reason failure =
     bindA (queryA (\<lambda>s. read_sealed env s jid)) (\<lambda>job.
     bindA (queryA (\<lambda>s. read_record s jid)) (\<lambda>r.
     bindA (liftA (raise_if (job_digest job \<noteq> jd \<or> rec_job_digest r \<noteq> jd \<or> state r \<noteq> RUNNING)
              (RootActionWorkerError ''only a running exact claim can become unknown''))) (\<lambda>_.
     bindA (next_event events) (\<lambda>(eid, at).
     bindA (liftA (canonical_json (JObj (failure_dict failure reason)))) (\<lambda>b.
     bindA (liftA (raw_of env job eid b)) (\<lambda>raw.
     bindA (liftA (unknown_notice env job (raw_receipt_digest (reference raw)) at reason)) (\<lambda>n.
     bindA (storeA (\<lambda>s. mark_claimed_execution_unknown env s (unknown_event job r eid at reason) raw n)) (\<lambda>_.
     returnA ()))))))))"

text \<open>\<open>_repair\<close>: whatever the callback raises is dropped.\<close>

type_synonym repair = "(string \<Rightarrow> unit action) option"

definition repair_job :: "repair \<Rightarrow> string \<Rightarrow> unit action" where
  "repair_job repair jid = (case repair of None \<Rightarrow> returnA () | Some f \<Rightarrow> tryA (f jid) (\<lambda>_. returnA ()))"

fun recover_claims :: "pyenv \<Rightarrow> event_source \<Rightarrow> repair \<Rightarrow> string list \<Rightarrow> string list action" where
  "recover_claims env events repair [] = returnA []"
| "recover_claims env events repair (jid # jids) =
     bindA (queryA (\<lambda>s. read_record s jid)) (\<lambda>r.
     bindA (mark_unknown env events jid (rec_job_digest r) ''broker_restarted_with_running_job'' ''BrokerRestart'') (\<lambda>_.
     bindA (repair_job repair jid) (\<lambda>_.
     bindA (recover_claims env events repair jids) (\<lambda>recovered. returnA (jid # recovered)))))"

definition recover_orphaned_claims :: "pyenv \<Rightarrow> event_source \<Rightarrow> repair \<Rightarrow> string list action" where
  "recover_orphaned_claims env events repair =
     bindA (queryA (\<lambda>s. Inr (running_job_ids s))) (recover_claims env events repair)"

text \<open>The public receipt of a finished execution.\<close>

definition public_receipt_dict :: "SealedJob \<Rightarrow> JobRecord \<Rightarrow> HandlerResult \<Rightarrow> string \<Rightarrow> string \<Rightarrow> dict" where
  "public_receipt_dict job r res raw_digest ended_at =
     [(''schema'', JStr RECEIPT_SCHEMA), (''kind'', JStr ''public''), (''job_id'', JStr (job_id job)),
      (''job_digest'', JStr (job_digest job)), (''operation_id'', JStr (operation_id job)),
      (''request_id'', JStr (request_id job)), (''reply_target'', JStr (reply_target job)),
      (''terminal_outcome'', JStr (res_outcome res)), (''raw_receipt_digest'', JStr raw_digest),
      (''started_at'', JStr (last_changed_at r)), (''ended_at'', JStr ended_at), (''exit_code'', JInt (exit_code res)),
      (''removed_lines'', JInt 0),
      (''result'', JObj [(''status'', JStr (public_status res)),
         (''facts'', JList (map (\<lambda>(n, v). JObj [(''name'', JStr n), (''value'', JStr v)]) (res_public_facts res)))])]"

definition complete_event :: "SealedJob \<Rightarrow> JobRecord \<Rightarrow> string \<Rightarrow> string \<Rightarrow> TerminalOutcome \<Rightarrow> string \<Rightarrow> TransitionEvent" where
  "complete_event job r eid at out reason = \<lparr>event_id = eid, ev_job_id = job_id job, ev_job_digest = job_digest job,
     expected_revision = revision r, ev_kind = COMPLETE_EXECUTION, occurred_at = at, ev_outcome = Some out, ev_reason = Some reason\<rparr>"

text \<open>What \<open>_execute\<close> does with the result of the handler.\<close>

definition report_result :: "pyenv \<Rightarrow> event_source \<Rightarrow> SealedJob \<Rightarrow> JobRecord \<Rightarrow> HandlerResult \<Rightarrow> unit action" where
  "report_result env events job r res =
     bindA (next_event events) (\<lambda>(eid, ended_at).
     bindA (liftA (raw_of env job eid (res_raw_bytes res))) (\<lambda>raw.
     bindA (liftA (bindE (encode_utf8 (default_json (JObj
              (public_receipt_dict job r res (raw_receipt_digest (reference raw)) ended_at)))) (seal_receipt env))) (\<lambda>receipt.
     bindA (liftA (outcome_of (res_outcome res))) (\<lambda>out.
     bindA (storeA (\<lambda>s. complete_claimed_execution env s (complete_event job r eid ended_at out (res_reason res)) raw receipt)) (\<lambda>_.
     returnA ())))))"

text \<open>The body of the \<open>try\<close> statement of \<open>_execute\<close>.\<close>

definition execute_claim ::
  "pyenv \<Rightarrow> handlers \<Rightarrow> event_source \<Rightarrow> (store \<Rightarrow> store) \<Rightarrow> string \<Rightarrow> string \<Rightarrow> unit action" where
  "execute_claim env hs events meanwhile jid jd =
     bindA (queryA (\<lambda>s. read_sealed env s jid)) (\<lambda>job.
     bindA (queryA (\<lambda>s. read_record s jid)) (\<lambda>r.
     bindA (liftA (raise_if (job_digest job \<noteq> jd \<or> rec_job_digest r \<noteq> jd \<or> state r \<noteq> RUNNING \<or> execution_count r \<noteq> 1)
              (RootActionWorkerError ''queued job is not the exact running claim''))) (\<lambda>_.
     bindA (liftA (handler_of hs (operation_id job))) (\<lambda>h.
     bindA (storeA (\<lambda>s. (h_run h job, meanwhile s))) (\<lambda>res.
     report_result env events job r res)))))"

definition execute ::
  "pyenv \<Rightarrow> handlers \<Rightarrow> event_source \<Rightarrow> repair \<Rightarrow> (store \<Rightarrow> store) \<Rightarrow> string \<Rightarrow> string \<Rightarrow> unit action" where
  "execute env hs events repair meanwhile jid jd =
     bindA (tryA (execute_claim env hs events meanwhile jid jd) (\<lambda>e.
       tryA (bindA (queryA (\<lambda>s. read_record s jid)) (\<lambda>current.
              if state current = RUNNING
              then mark_unknown env events jid jd ''worker_outcome_uncertain'' (exn_name e) else returnA ()))
         (\<lambda>_. returnA ()))) (\<lambda>_.
     repair_job repair jid)"

section \<open>The queue\<close>

text \<open>
  \<open>wk_thread\<close> says whether \<open>_thread\<close> is set, \<open>wk_live\<close> whether a worker thread is running; \<open>None\<close> in the
  queue is the item \<open>close\<close> puts there to stop it. The wait of \<open>close\<close> for the thread to end is a number of
  turns of the loop, taken or not within the timeout.
\<close>

record worker =
  wk_world :: world
  wk_queue :: "(string \<times> string) option list"
  wk_capacity :: nat
  wk_thread :: bool
  wk_live :: bool
  wk_stop :: bool

definition on_world :: "'a action \<Rightarrow> worker \<Rightarrow> 'a result \<times> worker" where
  "on_world m k = (fst (m (wk_world k)), k\<lparr>wk_world := snd (m (wk_world k))\<rparr>)"

definition new_worker :: "world \<Rightarrow> int \<Rightarrow> worker result" where
  "new_worker w capacity =
     bindE (raise_if (capacity < 1 \<or> 1024 < capacity) (ValueError ''worker queue capacity is invalid'')) (\<lambda>_.
     Inr \<lparr>wk_world = w, wk_queue = [], wk_capacity = nat capacity, wk_thread = False, wk_live = False, wk_stop = False\<rparr>)"

definition start_worker :: "worker \<Rightarrow> unit result \<times> worker" where
  "start_worker k =
     (if wk_thread k then (Inl (RootActionWorkerError ''root-action worker is already started''), k)
      else (Inr (), k\<lparr>wk_stop := False, wk_thread := True, wk_live := True\<rparr>))"

definition close_worker :: "worker \<Rightarrow> worker" where
  "close_worker k =
     (if \<not> wk_thread k then k
      else (let k' = k\<lparr>wk_thread := False, wk_stop := True\<rparr> in
            if length (wk_queue k') < wk_capacity k' then k'\<lparr>wk_queue := wk_queue k' @ [None]\<rparr> else k'))"

definition give_up :: "pyenv \<Rightarrow> event_source \<Rightarrow> repair \<Rightarrow> string \<Rightarrow> string \<Rightarrow> string \<Rightarrow> string \<Rightarrow> string \<Rightarrow> unit action" where
  "give_up env events repair jid jd reason failure msg =
     bindA (mark_unknown env events jid jd reason failure) (\<lambda>_.
     bindA (repair_job repair jid) (\<lambda>_. liftA (Inl (RootActionWorkerError msg))))"

definition enqueue :: "pyenv \<Rightarrow> event_source \<Rightarrow> repair \<Rightarrow> string \<Rightarrow> string \<Rightarrow> worker \<Rightarrow> unit result \<times> worker" where
  "enqueue env events repair jid jd k =
     (if \<not> (wk_thread k \<and> wk_live k) then
        on_world (give_up env events repair jid jd ''worker_unavailable_after_claim'' ''WorkerUnavailable''
          ''root-action worker is unavailable'') k
      else
        (case read_record (w_store (wk_world k)) jid of
           Inl e \<Rightarrow> (Inl e, k)
         | Inr r \<Rightarrow>
             if rec_job_digest r \<noteq> jd \<or> state r \<noteq> RUNNING \<or> execution_count r \<noteq> 1
             then (Inl (RootActionWorkerError ''only the exact claimed job can be enqueued''), k)
             else if length (wk_queue k) < wk_capacity k then (Inr (), k\<lparr>wk_queue := wk_queue k @ [Some (jid, jd)]\<rparr>)
             else on_world (give_up env events repair jid jd ''worker_queue_unavailable'' ''WorkerQueueFull''
               ''root-action worker queue is full'') k))"

text \<open>One turn of the loop of \<open>_run\<close>.\<close>

definition run_turn :: "pyenv \<Rightarrow> handlers \<Rightarrow> event_source \<Rightarrow> repair \<Rightarrow> (store \<Rightarrow> store) \<Rightarrow> worker \<Rightarrow> worker" where
  "run_turn env hs events repair meanwhile k =
     (if \<not> wk_live k then k
      else if wk_stop k then k\<lparr>wk_live := False\<rparr>
      else (case wk_queue k of
              [] \<Rightarrow> k
            | None # q \<Rightarrow> k\<lparr>wk_queue := q, wk_live := False\<rparr>
            | Some (jid, jd) # q \<Rightarrow> snd (on_world (execute env hs events repair meanwhile jid jd) (k\<lparr>wk_queue := q\<rparr>))))"

section \<open>The worker only takes steps of the store\<close>

definition repair_ok :: "repair \<Rightarrow> bool" where
  "repair_ok repair \<longleftrightarrow> (\<forall>f jid. repair = Some f \<longrightarrow> read_only (f jid))"

lemma repair_read_only: "repair_ok repair \<Longrightarrow> read_only (repair_job repair jid)"
  by (cases repair) (auto simp: repair_job_def repair_ok_def read_only_def tryA_def split: prod.splits sum.splits, (metis snd_conv)+)

lemma repair_client [client_intros]: "repair_ok repair \<Longrightarrow> client env (repair_job repair jid)"
  by (rule read_only_client [OF repair_read_only])

lemma mark_unknown_client: "client env (mark_unknown env events jid jd reason failure)"
  unfolding mark_unknown_def by (intro client_intros r_into_rtranclp store_step.mark_claimed_execution_unknown)

lemma recover_claims_client: "repair_ok repair \<Longrightarrow> client env (recover_claims env events repair jids)"
  by (induction jids) (simp_all add: client_intros mark_unknown_client)

lemma recover_client: "repair_ok repair \<Longrightarrow> client env (recover_orphaned_claims env events repair)"
  unfolding recover_orphaned_claims_def by (intro client_intros recover_claims_client)

lemma report_result_client: "client env (report_result env events job r res)"
  unfolding report_result_def by (intro client_intros r_into_rtranclp store_step.complete_claimed_execution)

lemma execute_claim_client:
  assumes "\<And>s. (store_step env)\<^sup>*\<^sup>* s (meanwhile s)"
  shows "client env (execute_claim env hs events meanwhile jid jd)"
  unfolding execute_claim_def
  by (intro client_intros report_result_client) (simp add: assms)

lemma execute_client:
  assumes "\<And>s. (store_step env)\<^sup>*\<^sup>* s (meanwhile s)" and "repair_ok repair"
  shows "client env (execute env hs events repair meanwhile jid jd)"
  unfolding execute_def using assms
  by (intro client_intros execute_claim_client mark_unknown_client)

section \<open>Finishing a claimed execution\<close>

lemma no_receipt_while_running:
  assumes inv: "ledger_inv s" and rinv: "receipt_inv env s" and r: "find_record s jid = Some r" and run: "state r = RUNNING"
  shows "current_receipt s jid = None \<and> jid \<notin> fst ` set (receipt_current s)"
proof -
  have none: "current_receipt s jid = None"
  proof (rule ccontr)
    assume "current_receipt s jid \<noteq> None"
    then obtain row where "current_receipt s jid = Some row" by auto
    from retrieve_row [OF rinv this] obtain a x where a: "rc_job_id a = jid" "x \<in> set (records s)" "agrees env a x" by auto
    then have "rec_job_id x = jid" by (simp add: agrees_def)
    then have "x = r" using find_record_in [OF inv a(2)] r by simp
    with a(3) run show False by (auto simp: agrees_def split: if_splits)
  qed
  have "current_receipt s jid \<noteq> None" if c: "(jid, d) \<in> set (receipt_current s)" for d
  proof -
    obtain row where "row \<in> set (receipts s)" "row_digest row = d" using rinv c by (fastforce simp: receipt_inv_def)
    then have "find_receipt s d = Some row" using find_receipt_in [OF rinv] by blast
    with map_of_current [OF rinv c] show ?thesis by (simp add: current_receipt_def)
  qed
  with none show ?thesis by force
qed

text \<open>
  What finishes a running claim: an accepted event, a sealed receipt about the job that agrees with the
  new record, and no id or digest the store already holds.
\<close>

lemma finalize_succeeds:
  assumes inv: "ledger_inv s" and rinv: "receipt_inv env s" and r: "find_record s jid = Some r" and run: "state r = RUNNING"
    and job: "read_job env s jid = Inr job" and acc: "accepts r ev" and fin: "state (advance r ev) \<in> {TERMINAL, UNKNOWN}"
    and ids: "ref_job_id (reference raw) = jid" "ref_job_digest (reference raw) = job_digest job" "rc_job_id a = jid"
      "rc_job_digest a = job_digest job" "rc_operation_id a = operation_id job" "rc_request_id a = request_id job"
      "rc_reply_target a = reply_target job" "rec_job_digest r = job_digest job"
    and ver: "verify_receipt env a = Inr ()" and copy: "receipt_copy env a = Inr v"
    and rawd: "jget v ''raw_receipt_digest'' = Inr (JStr (raw_receipt_digest (reference raw)))"
      "jget_opt v ''raw_receipt_digest'' = JStr (raw_receipt_digest (reference raw))"
    and link: "check_outcome_link (advance r ev) a v = Inr ()"
    and new: "(jid, event_id ev) \<notin> set (map (\<lambda>x. (led_job_id x, led_event_id x)) (ledger s))" "find_raw s jid = None"
      "root_storage_id (reference raw) \<notin> set (map (\<lambda>x. root_storage_id (reference x)) (raw_receipts s))"
      "receipt_digest a \<notin> set (map row_digest (receipts s))"
  shows "\<exists>s'. finalize_claimed_execution env s ev raw a = Inr (advance r ev, s')
    \<and> records s' = map (\<lambda>x. if rec_job_id x = jid then advance r ev else x) (records s)
    \<and> retrieve env s' jid (job_digest job) = Inr a \<and> find_raw s' jid = Some raw"
proof -
  have rm: "r \<in> set (records s)" "rec_job_id r = jid" "record_ok r" using ledger_inv_find_record [OF inv r] by auto
  have ev: "ev_job_id ev = jid" "ev_job_digest ev = job_digest job" using acc rm ids(8) by (simp_all add: accepts_def)
  have jid: "jid \<in> set (job_ids s)" using ledger_inv_job [OF inv rm(1)] rm(2) by (force simp: job_ids_def)
  let ?s1 = "s\<lparr>raw_receipts := raw_receipts s @ [raw]\<rparr>"
  have raw: "insert_raw s raw = Inr ?s1"
    using new(2,3) jid ids(1) by (auto simp: insert_raw_def find_raw_def find_None_iff')
  have inv1: "ledger_inv ?s1" using insert_raw_inv [OF inv raw] .
  let ?r' = "advance r ev"
  let ?s2 = "cas_result ?s1 r ?r' ev"
  have step: "apply_transition r ev = Inr ?r'" using rm(3) acc by (simp add: apply_transition_Inr_iff)
  have f1: "find_record ?s1 (ev_job_id ev) = Some r" using r ev(1) by (simp add: find_record_def)
  have cas: "compare_and_append_tx ?s1 ev = Inr (?r', ?s2)"
    using f1 step new(1) ev(1) by (subst compare_and_append_tx_Inr [OF inv1]) auto
  have inv2: "ledger_inv ?s2" using cas_result_inv [OF inv1 f1 step] .
  have "keeps_receipts env s ?s1" "keeps_receipts env ?s1 ?s2"
    using rc.R_raw [OF raw] rc.R_cas [OF cas] by blast+
  then have rinv2: "receipt_inv env ?s2" using inv rinv by (simp add: keeps_receipts_def)
  have "?r' \<in> set (records ?s2)" using rm(1) by (force simp: cas_result_def)
  then have f2: "find_record ?s2 jid = Some ?r'" using find_record_in [OF inv2] rm(2) by force
  have pub: "publish_tx env ?s2 a = insert_receipt ?s2 a"
  proof -
    have "read_job env ?s2 jid = Inr job" using job by (simp add: read_job_def find_job_def cas_result_def cong: option.case_cong)
    moreover have "read_record ?s2 jid = Inr ?r'" using f2 by (simp add: read_record_Inr_iff [OF inv2])
    moreover have "find_raw ?s2 jid = Some raw"
      using new(2) ids(1) by (simp add: find_raw_def cas_result_def find_append)
    then have "check_raw_link ?s2 a v = Inr ()" using rawd(1) ids(3) by (simp add: check_raw_link_def)
    ultimately show ?thesis
      using copy link ids fin by (auto simp: publish_tx_def validate_receipt_publication_def)
  qed
  have cur: "current_receipt ?s2 jid = None" "jid \<notin> fst ` set (receipt_current s)"
    using no_receipt_while_running [OF inv rinv r run] by (simp_all add: current_receipt_def find_receipt_def cas_result_def cong: option.case_cong)
  obtain s3 where ins: "insert_receipt ?s2 a = Inr s3"
    using cur new(4) jid ids(3) by (auto simp: insert_receipt_def Let_def job_ids_def cas_result_def)
  have fz: "finalize_claimed_execution env s ev raw a = Inr (?r', s3)"
    unfolding finalize_claimed_execution_def Let_def
    using ver copy job ev ids rawd raw cas pub ins by simp
  have "retrieve env s3 jid (job_digest job) = Inr a"
    using publish_retrieve [OF inv2 rinv2 ver] pub ins ids(3,4) by simp
  moreover have "records s3 = records ?s2" "raw_receipts s3 = raw_receipts ?s2" using insert_receipt_core [OF ins] by auto
  moreover have "find_raw ?s2 jid = Some raw" using new(2) ids(1) by (simp add: find_raw_def cas_result_def find_append)
  ultimately show ?thesis using fz rm(2) by (intro exI [of _ s3]) (auto simp: cas_result_def find_raw_def)
qed

section \<open>The unknown notice of a lost claim\<close>

lemma plain_encode_ascii: "plain s \<Longrightarrow> encode_ascii s = Inr s"
  by (simp add: encode_ascii_def plain_ascii)

lemma raw_storage_id_Inr:
  assumes "SAFE_ID_RE jid" and "SAFE_ID_RE eid"
  shows "\<exists>sid. raw_storage_id jid eid = Inr sid \<and> SAFE_ID_RE sid"
proof -
  let ?h = "take 48 (sha256_hexdigest (''agent-runtime-root-action-raw-storage/v1'' @ [CHR 0x00] @ jid @ [CHR 0x00] @ eid))"
  have "list_all is_hex (sha256_hexdigest x)" for x by (auto simp: sha256_hexdigest_def intro: hex_of_bytes_hex sha256_bytes_bound)
  then have "list_all id_tail ?h" by (auto simp: list_all_iff is_hex_id_tail dest!: in_set_takeD)
  then have "SAFE_ID_RE (''raw-'' @ ?h)"
    by (simp add: SAFE_ID_RE_def) (simp add: id_head_def id_tail_def is_lower_def is_digit_def less_eq_char_def)
  then show ?thesis using assms by (simp add: raw_storage_id_def plain_encode_ascii SAFE_ID_RE_plain)
qed

lemma raw_of_Inr:
  assumes env: "env_ok env" and job: "job_ok job" and eid: "SAFE_ID_RE eid" and b: "b \<noteq> []" "length b \<le> MAX_RAW_RECEIPT_BYTES"
  shows "\<exists>raw. raw_of env job eid b = Inr raw \<and> ref_job_id (reference raw) = job_id job
    \<and> ref_job_digest (reference raw) = job_digest job \<and> raw_receipt_digest (reference raw) = sha256_tag b \<and> raw_bytes raw = b"
proof -
  have ids: "SAFE_ID_RE (job_id job)" "DIGEST_RE (job_digest job)" using job job_ok_digest [OF job] by (simp_all add: job_ok_def)
  from raw_storage_id_Inr [OF ids(1) eid] obtain sid where sid: "raw_storage_id (job_id job) eid = Inr sid" "SAFE_ID_RE sid" by auto
  show ?thesis
    using sid ids b by (auto simp: raw_of_def seal_raw_receipt_def raw_bytes_check_def raw_reference_post_init_def
        raw_artifact_post_init_def receipt_checks_plain [OF env] sha256_tag_digest Let_def not_less)
qed

text \<open>The event source gives a valid new event, and the store holds none of the ids and digests made of it.\<close>

definition unknown_ready :: "pyenv \<Rightarrow> event_source \<Rightarrow> world \<Rightarrow> string \<Rightarrow> string \<Rightarrow> string \<Rightarrow> bool" where
  "unknown_ready env events w jid reason failure =
     (case (find_record (w_store w) jid, find_job (w_store w) jid, events (w_tick w)) of
        (Some r, Some j, (eid, at)) \<Rightarrow>
          event_ok eid at \<and> last_changed_at r \<le> at \<and> find_raw (w_store w) jid = None
          \<and> (jid, eid) \<notin> set (map (\<lambda>x. (led_job_id x, led_event_id x)) (ledger (w_store w)))
          \<and> (case bindE (canonical_json (JObj (failure_dict failure reason))) (raw_of env (row_job j) eid) of
               Inl _ \<Rightarrow> True
             | Inr raw \<Rightarrow> root_storage_id (reference raw) \<notin> set (map (\<lambda>x. root_storage_id (reference x)) (raw_receipts (w_store w)))
                 \<and> (case unknown_notice env (row_job j) (raw_receipt_digest (reference raw)) at reason of
                      Inl _ \<Rightarrow> True | Inr n \<Rightarrow> receipt_digest n \<notin> set (map row_digest (receipts (w_store w)))))
      | _ \<Rightarrow> False)"

lemma history_last_event: "history_of es r \<Longrightarrow> last_event_id r \<in> led_event_id ` set es"
proof -
  assume "history_of es r"
  then obtain r0 evs where h: "replay r0 evs = Inr r" "map unseq es = initial_entry r0 # trace r0 evs"
    by (auto simp: history_of_def)
  have "last_event_id r \<in> led_event_id ` set (initial_entry r0 # trace r0 evs)"
  proof (cases evs rule: rev_cases)
    case Nil
    with h(1) show ?thesis by (simp add: initial_entry_def)
  next
    case (snoc xs ev)
    with h(1) obtain r1 where "replay r0 xs = Inr r1" "r = advance r1 ev"
      by (auto simp: replay_append bindE_Inr_iff apply_transition_Inr_iff)
    then show ?thesis by (simp add: snoc trace_append transition_entry_def)
  qed
  then have "last_event_id r \<in> led_event_id ` set (map unseq es)" using h(2) by simp
  then show ?thesis by (auto simp: unseq_def image_image)
qed

lemma new_event_id:
  assumes inv: "ledger_inv s" and r: "find_record s jid = Some r"
    and "(jid, eid) \<notin> set (map (\<lambda>x. (led_job_id x, led_event_id x)) (ledger s))"
  shows "eid \<noteq> last_event_id r"
proof -
  have m: "r \<in> set (records s)" "rec_job_id r = jid" using ledger_inv_find_record [OF inv r] by auto
  have "history_of (ledger_of s jid) r" using ledger_inv_record [OF inv m(1)] m(2) by simp
  from history_last_event [OF this] assms(3) show ?thesis by (force simp: ledger_of_def)
qed

lemma failure_dict_flat:
  assumes "plain failure" and "length failure \<le> 128" and "SAFE_ID_RE reason"
  shows "flat_dict (failure_dict failure reason)"
  using assms SAFE_ID_RE_length [of reason]
  by (simp add: flat_dict_def failure_dict_def keys_def flat_value_def SAFE_ID_RE_plain) (simp add: plain_char_def)

lemma failure_bytes:
  assumes "flat_dict kvs"
  shows "\<exists>b. canonical_json (JObj kvs) = Inr b \<and> b \<noteq> [] \<and> length b \<le> MAX_RAW_RECEIPT_BYTES"
proof -
  from flat_canonical [OF assms] obtain b where b: "canonical_json (JObj kvs) = Inr b" "length b \<le> 20001" by auto
  moreover have "b \<noteq> []" using b(1) by (auto simp: canonical_json_def encode_utf8_Inr_iff)
  ultimately show ?thesis by (auto simp: MAX_RAW_RECEIPT_BYTES_def)
qed

text \<open>The record a lost claim becomes.\<close>

definition lost_record :: "JobRecord \<Rightarrow> string \<times> string \<Rightarrow> string \<Rightarrow> JobRecord" where
  "lost_record r ev reason = r\<lparr>state := UNKNOWN, revision := revision r + 1, execution_count := 1, terminal_outcome := None,
     rec_reason := Some reason, last_event_id := fst ev, last_changed_at := snd ev\<rparr>"

lemma mark_unknown_succeeds:
  assumes env: "env_ok env" and reach: "reachable env (w_store w)"
    and r: "find_record (w_store w) jid = Some r" and run: "state r = RUNNING"
    and reason: "SAFE_ID_RE reason" and failure: "plain failure" "length failure \<le> 128"
    and ready: "unknown_ready env events w jid reason failure"
  shows "\<exists>s' n. mark_unknown env events jid (rec_job_digest r) reason failure w = (Inr (), w\<lparr>w_store := s', w_tick := Suc (w_tick w)\<rparr>)
    \<and> records s' = map (\<lambda>x. if rec_job_id x = jid then lost_record r (events (w_tick w)) reason else x) (records (w_store w))
    \<and> retrieve env s' jid (rec_job_digest r) = Inr n \<and> rc_kind n = ''unknown''"
proof -
  let ?s = "w_store w"
  have inv: "ledger_inv ?s" and rinv: "receipt_inv env ?s" using reachable_inv [OF reach] by (simp_all add: store_inv_def)
  from record_job [OF inv reachable_verified [OF reach] r] obtain j where j: "find_job ?s jid = Some j"
    "read_sealed env ?s jid = Inr (row_job j)" "job_id (row_job j) = jid" "job_digest (row_job j) = rec_job_digest r"
    "job_ok (row_job j)" by blast
  define job where "job = row_job j"
  obtain eid at where e: "events (w_tick w) = (eid, at)" by (cases "events (w_tick w)")
  from failure_bytes [OF failure_dict_flat [OF failure reason]] obtain b where
    b: "canonical_json (JObj (failure_dict failure reason)) = Inr b" "b \<noteq> []" "length b \<le> MAX_RAW_RECEIPT_BYTES" by auto
  have eok: "event_ok eid at" "last_changed_at r \<le> at" "find_raw ?s jid = None"
    "(jid, eid) \<notin> set (map (\<lambda>x. (led_job_id x, led_event_id x)) (ledger ?s))"
    using ready by (simp_all add: unknown_ready_def r j(1) e)
  have jok: "job_ok job" "job_id job = jid" "job_digest job = rec_job_digest r" using j by (simp_all add: job_def)
  from raw_of_Inr [OF env jok(1) _ b(2,3), of eid] eok(1) obtain raw where raw: "raw_of env job eid b = Inr raw"
    "ref_job_id (reference raw) = jid" "ref_job_digest (reference raw) = job_digest job" "raw_receipt_digest (reference raw) = sha256_tag b"
    using jok(2) by (auto simp: event_ok_def)
  let ?d = "raw_receipt_digest (reference raw)"
  have "DIGEST_RE ?d" "timestamp_ok at" using raw(4) eok(1) by (simp_all add: sha256_tag_digest event_ok_def)
  from unknown_notice_Inr [OF env jok(1) reason this] obtain c v where
    n: "unknown_notice env job ?d at reason = Inr (artifact_of job ''unknown'' c)"
      "seal_receipt env c = Inr (artifact_of job ''unknown'' c)" "receipt_copy env (artifact_of job ''unknown'' c) = Inr v"
      "jget v ''terminal_outcome'' = Inr JNull" "jget v ''raw_receipt_digest'' = Inr (JStr ?d)" "jget_opt v ''raw_receipt_digest'' = JStr ?d"
    by blast
  let ?n = "artifact_of job ''unknown'' c"
  let ?ev = "unknown_event job r eid at reason"
  have new: "root_storage_id (reference raw) \<notin> set (map (\<lambda>x. root_storage_id (reference x)) (raw_receipts ?s))"
    "receipt_digest ?n \<notin> set (map row_digest (receipts ?s))"
    using ready raw(1) n(1) b(1) by (simp_all add: unknown_ready_def r j(1) e job_def)
  have rid: "rec_job_id r = jid" using ledger_inv_find_record [OF inv r] by simp
  have acc: "accepts r ?ev"
    using eok new_event_id [OF inv r eok(4)] rid jok(2,3) run reason by (simp add: accepts_def unknown_event_def kind_defs)
  have adv: "advance r ?ev = lost_record r (eid, at) reason"
    by (simp add: advance_def unknown_event_def lost_record_def kind_defs)
  have "\<exists>s'. finalize_claimed_execution env ?s ?ev raw ?n = Inr (advance r ?ev, s')
    \<and> records s' = map (\<lambda>x. if rec_job_id x = jid then advance r ?ev else x) (records ?s)
    \<and> retrieve env s' jid (job_digest job) = Inr ?n \<and> find_raw s' jid = Some raw"
  proof (rule finalize_succeeds [OF inv rinv r run])
    show "read_job env ?s jid = Inr job" using j(2) by (simp add: read_sealed_def job_def)
    show "verify_receipt env ?n = Inr ()" using n(2) by (simp add: verify_receipt_Inr artifact_of_def)
    show "check_outcome_link (advance r ?ev) ?n v = Inr ()"
      using n(4) by (simp add: check_outcome_link_def adv lost_record_def artifact_of_def)
  qed (use acc raw jok n new eok in \<open>simp_all add: unknown_event_def kind_defs artifact_of_def\<close>)
  then obtain s' where s': "mark_claimed_execution_unknown env ?s ?ev raw ?n = (Inr (advance r ?ev), s')"
    "records s' = map (\<lambda>x. if rec_job_id x = jid then advance r ?ev else x) (records ?s)"
    "retrieve env s' jid (job_digest job) = Inr ?n"
    by (auto simp: mark_claimed_execution_unknown_def transaction_Inr unknown_event_def)
  have "read_record ?s jid = Inr r" using r by (simp add: read_record_Inr_iff [OF inv])
  then have "mark_unknown env events jid (rec_job_digest r) reason failure w
      = (Inr (), w\<lparr>w_store := s', w_tick := Suc (w_tick w)\<rparr>)"
    unfolding mark_unknown_def
    using j(2) run jok b(1) raw(1) n(1) s'(1) by (simp add: bindA_queryA e job_def [symmetric] bindA_storeA)
  with s' jok(3) adv e show ?thesis
    by (intro exI [of _ s'] exI [of _ ?n]) (simp add: artifact_of_def)
qed

section \<open>Recovery after a restart\<close>

text \<open>At each turn of the loop the event source gives a new event for the claim at hand.\<close>

fun recoverable :: "pyenv \<Rightarrow> event_source \<Rightarrow> repair \<Rightarrow> world \<Rightarrow> string list \<Rightarrow> bool" where
  "recoverable env events repair w [] = True"
| "recoverable env events repair w (jid # jids) =
     (unknown_ready env events w jid ''broker_restarted_with_running_job'' ''BrokerRestart''
      \<and> recoverable env events repair (snd (recover_claims env events repair [jid] w)) jids)"

lemma find_record_map:
  assumes "records s' = map (\<lambda>x. if rec_job_id x = jid then r' else x) (records s)" and "rec_job_id r' = jid"
    and "find_record s jid = Some r"
  shows "find_record s' jid = Some r'" "i \<noteq> jid \<Longrightarrow> find_record s' i = find_record s i"
proof -
  have "List.find (\<lambda>x. rec_job_id x = jid) (map (\<lambda>x. if rec_job_id x = jid then r' else x) xs) = Some r'"
    if "List.find (\<lambda>x. rec_job_id x = jid) xs = Some r" for xs
    using that assms(2) by (induction xs) (auto split: if_splits)
  with assms(1,3) show "find_record s' jid = Some r'" by (simp add: find_record_def)
  have "List.find (\<lambda>x. rec_job_id x = i) (map (\<lambda>x. if rec_job_id x = jid then r' else x) xs) = List.find (\<lambda>x. rec_job_id x = i) xs"
    if "i \<noteq> jid" for xs
    using that assms(2) by (induction xs) auto
  with assms(1) show "i \<noteq> jid \<Longrightarrow> find_record s' i = find_record s i" by (simp add: find_record_def)
qed

lemma restart_reason: "SAFE_ID_RE ''broker_restarted_with_running_job''" "plain ''BrokerRestart''" "length ''BrokerRestart'' \<le> 128"
  by (simp_all add: SAFE_ID_RE_def id_head_def id_tail_def is_lower_def is_digit_def less_eq_char_def plain_char_def)

definition lost_by_restart :: "store \<Rightarrow> string \<Rightarrow> bool" where
  "lost_by_restart s jid \<longleftrightarrow> (\<exists>r. find_record s jid = Some r \<and> state r = UNKNOWN \<and> rec_reason r = Some ''broker_restarted_with_running_job'')"

lemma recover_one:
  assumes env: "env_ok env" and rep: "repair_ok repair" and reach: "reachable env (w_store w)"
    and r: "find_record (w_store w) jid = Some r" and run: "state r = RUNNING"
    and ready: "unknown_ready env events w jid ''broker_restarted_with_running_job'' ''BrokerRestart''"
  shows "\<exists>w'. recover_claims env events repair (jid # jids) w
      = bindA (recover_claims env events repair jids) (\<lambda>rest. returnA (jid # rest)) w'
    \<and> recover_claims env events repair [jid] w = (Inr [jid], w') \<and> lost_by_restart (w_store w') jid
    \<and> (\<forall>i. i \<noteq> jid \<longrightarrow> find_record (w_store w') i = find_record (w_store w) i)"
proof -
  have inv: "ledger_inv (w_store w)" using reachable_inv [OF reach] by (simp add: store_inv_def)
  have rd: "read_record (w_store w) jid = Inr r" and rid: "rec_job_id r = jid"
    using r ledger_inv_find_record [OF inv r] by (simp_all add: read_record_Inr_iff [OF inv])
  from mark_unknown_succeeds [OF env reach r run restart_reason ready] obtain s' where
    m: "mark_unknown env events jid (rec_job_digest r) ''broker_restarted_with_running_job'' ''BrokerRestart'' w
      = (Inr (), w\<lparr>w_store := s', w_tick := Suc (w_tick w)\<rparr>)"
    and recs: "records s' = map (\<lambda>x. if rec_job_id x = jid
      then lost_record r (events (w_tick w)) ''broker_restarted_with_running_job'' else x) (records (w_store w))" by blast
  have lost: "rec_job_id (lost_record r (events (w_tick w)) x) = jid" for x using rid by (simp add: lost_record_def)
  obtain w' where rp: "repair_job repair jid (w\<lparr>w_store := s', w_tick := Suc (w_tick w)\<rparr>) = (Inr (), w')" "w_store w' = s'"
  proof -
    let ?w = "w\<lparr>w_store := s', w_tick := Suc (w_tick w)\<rparr>"
    have "fst (repair_job repair jid ?w) = Inr ()"
      by (cases repair) (auto simp: repair_job_def tryA_def split: prod.splits sum.splits)
    moreover have "w_store (snd (repair_job repair jid ?w)) = s'"
      using repair_read_only [OF rep, of jid] by (simp add: read_only_def)
    ultimately show thesis by (intro that [of "snd (repair_job repair jid ?w)"]) (auto simp: prod_eq_iff)
  qed
  have one: "recover_claims env events repair (jid # js) w
      = bindA (recover_claims env events repair js) (\<lambda>rest. returnA (jid # rest)) w'" for js
    using m rp(1) by (simp add: bindA_queryA rd bindA_simps)
  note f = find_record_map [OF recs lost r]
  show ?thesis
    using f one [of jids] one [of "[]"] rp(2)
    by (intro exI [of _ w']) (auto simp: lost_by_restart_def lost_record_def bindA_simps)
qed

lemma recover_claims_succeed:
  assumes env: "env_ok env" and rep: "repair_ok repair"
  shows "reachable env (w_store w) \<Longrightarrow> distinct jids \<Longrightarrow> recoverable env events repair w jids
    \<Longrightarrow> (\<And>jid. jid \<in> set jids \<Longrightarrow> \<exists>r. find_record (w_store w) jid = Some r \<and> state r = RUNNING)
    \<Longrightarrow> \<exists>w'. recover_claims env events repair jids w = (Inr jids, w') \<and> (\<forall>jid\<in>set jids. lost_by_restart (w_store w') jid)
      \<and> (\<forall>i. i \<notin> set jids \<longrightarrow> find_record (w_store w') i = find_record (w_store w) i)"
proof (induction jids arbitrary: w)
  case (Cons jid jids)
  from Cons.prems(4) [of jid] obtain r where r: "find_record (w_store w) jid = Some r" "state r = RUNNING" by auto
  from recover_one [OF env rep Cons.prems(1) r, of events jids] Cons.prems(3) obtain w1 where
    w1: "recover_claims env events repair (jid # jids) w = bindA (recover_claims env events repair jids) (\<lambda>rest. returnA (jid # rest)) w1"
      "recover_claims env events repair [jid] w = (Inr [jid], w1)" "lost_by_restart (w_store w1) jid"
      "\<forall>i. i \<noteq> jid \<longrightarrow> find_record (w_store w1) i = find_record (w_store w) i" by auto
  have "reachable env (w_store w1)"
    using client_reachable [OF recover_claims_client [OF rep] Cons.prems(1), of events "[jid]"] w1(2) by simp
  moreover have "recoverable env events repair w1 jids" using Cons.prems(3) w1(2) by (simp del: recover_claims.simps)
  moreover have "\<exists>r. find_record (w_store w1) i = Some r \<and> state r = RUNNING" if "i \<in> set jids" for i
    using that Cons.prems(2,4) w1(4) by (metis distinct.simps(2) list.set_intros(2))
  ultimately obtain w' where w': "recover_claims env events repair jids w1 = (Inr jids, w')"
    "\<forall>jid\<in>set jids. lost_by_restart (w_store w') jid"
    "\<forall>i. i \<notin> set jids \<longrightarrow> find_record (w_store w') i = find_record (w_store w1) i"
    using Cons.IH [of w1] Cons.prems(2) by auto
  have "lost_by_restart (w_store w') jid" using w1(3) w'(3) Cons.prems(2) by (auto simp: lost_by_restart_def)
  with w' w1 show ?case by (intro exI [of _ w']) (simp add: bindA_simps del: recover_claims.simps)
qed simp

text \<open>The running jobs the store lists are exactly the records in the state running.\<close>

lemma running_job_ids_iff:
  assumes "ledger_inv s"
  shows "jid \<in> set (running_job_ids s) \<longleftrightarrow> (\<exists>r. find_record s jid = Some r \<and> state r = RUNNING)"
  using find_record_in [OF assms] ledger_inv_find_record [OF assms] by (auto simp: running_job_ids_def)

lemma running_job_ids_distinct: "ledger_inv s \<Longrightarrow> distinct (running_job_ids s)"
  by (simp add: running_job_ids_def ledger_inv_def distinct_map inj_on_def)

end
