(* ===== verification/Broker.thy ===== *)
theory Broker
  imports Submission Public_Projection Worker
begin

text \<open>
  The broker (\<open>root_actions/broker.py\<close>) and the framed submission endpoint of \<open>submission.py\<close>: submission
  with its idempotent retry, the claim and dispatch of an automatic operation, the public views, and
  the publication of derived files with its bounded memory. The public sink is a parameter that
  answers or raises; it holds no reference to the store. \<open>meanwhile\<close> is what other clients commit
  between the first look-up of a submission and its transaction. The reads of one view see one
  state of the store, as the publication lock and the single listener thread make it.
\<close>

section \<open>Views\<close>

definition PUBLIC_CATALOG_JOB_LIMIT :: nat where "PUBLIC_CATALOG_JOB_LIMIT = 2048"

record SubmittedJob =
  sub_job_id :: string
  sub_job_digest :: string
  sub_status :: dict

record PublicProjectionBundle =
  pb_job_id :: string
  pb_job_digest :: string
  status_bytes :: string
  history_bytes :: string
  pb_digest :: string
  projection_bytes :: string

record sink =
  sk_publish :: "PublicProjectionBundle \<Rightarrow> world \<Rightarrow> unit result"
  sk_catalog :: "(PublicProjectionBundle list \<Rightarrow> int \<Rightarrow> world \<Rightarrow> unit result) option"

record broker =
  bk_events :: event_source
  bk_sink :: "sink option"
  bk_policies :: policies
  bk_submission_policy :: SubmissionPolicy
  bk_failure_policy :: LineageFailurePolicy
  bk_dispatch :: "(string \<Rightarrow> string \<Rightarrow> unit action) option"

definition is_not_found :: "exn \<Rightarrow> bool" where
  "is_not_found e = (case e of StorageNotFound _ \<Rightarrow> True | _ \<Rightarrow> False)"

definition is_conflict :: "exn \<Rightarrow> bool" where
  "is_conflict e = (case e of StorageConflict _ \<Rightarrow> True | _ \<Rightarrow> False)"

definition read_optional_receipt :: "pyenv \<Rightarrow> store \<Rightarrow> SealedJob \<Rightarrow> ReceiptArtifact option result" where
  "read_optional_receipt env s job =
     (case retrieve env s (job_id job) (job_digest job) of
        Inr a \<Rightarrow> Inr (Some a) | Inl e \<Rightarrow> if is_not_found e then Inr None else Inl e)"

definition broker_status :: "pyenv \<Rightarrow> broker \<Rightarrow> store \<Rightarrow> SealedJob \<Rightarrow> JobRecord \<Rightarrow> ReceiptArtifact option \<Rightarrow> dict result" where
  "broker_status env b s job r receipt =
     bindE (lineage_summary s (lineage_id job) (last_changed_at r) (bk_failure_policy b)) (\<lambda>summary.
     status_projection env job r receipt (Some summary))"

definition status_of :: "pyenv \<Rightarrow> broker \<Rightarrow> store \<Rightarrow> string \<Rightarrow> dict result" where
  "status_of env b s jid =
     bindE (read_sealed env s jid) (\<lambda>job.
     bindE (read_record s jid) (\<lambda>r.
     bindE (read_optional_receipt env s job) (\<lambda>receipt.
     broker_status env b s job r receipt)))"

definition history_of_job :: "pyenv \<Rightarrow> store \<Rightarrow> string \<Rightarrow> dict result" where
  "history_of_job env s jid =
     bindE (read_sealed env s jid) (\<lambda>job.
     bindE (read_ledger s jid) (\<lambda>es.
     history_projection job es))"

definition public_projection :: "pyenv \<Rightarrow> broker \<Rightarrow> store \<Rightarrow> string \<Rightarrow> PublicProjectionBundle result" where
  "public_projection env b s jid =
     bindE (read_sealed env s jid) (\<lambda>job.
     bindE (read_optional_receipt env s job) (\<lambda>receipt.
     bindE (read_record s jid) (\<lambda>r.
     bindE (broker_status env b s job r receipt) (\<lambda>status.
     bindE (canonical_status_bytes status) (\<lambda>sb.
     bindE (read_ledger s jid) (\<lambda>es.
     bindE (history_projection job es) (\<lambda>history.
     bindE (canonical_history_bytes history) (\<lambda>hb.
     bindE (build_public_projection env (job_id job) (job_digest job) sb hb receipt) (\<lambda>artifact.
     Inr \<lparr>pb_job_id = job_id job, pb_job_digest = job_digest job, status_bytes = sb, history_bytes = hb,
          pb_digest = projection_digest artifact, projection_bytes = canonical_bytes artifact\<rparr>)))))))))"

definition broker_receipt :: "pyenv \<Rightarrow> store \<Rightarrow> string \<Rightarrow> string \<Rightarrow> ReceiptArtifact result" where
  "broker_receipt env s jid jd =
     bindE (read_sealed env s jid) (\<lambda>job.
     bindE (raise_if (job_digest job \<noteq> jd) (StorageNotFound jid)) (\<lambda>_.
     retrieve env s jid jd))"

section \<open>Publication\<close>

text \<open>\<open>value[key]\<close> on a decoded document.\<close>

definition index :: "json \<Rightarrow> string \<Rightarrow> json result" where
  "index v k = (case v of JObj kvs \<Rightarrow> jget kvs k | _ \<Rightarrow> Inl (TypeError ''indices''))"

definition bundle_revision :: "pyenv \<Rightarrow> PublicProjectionBundle \<Rightarrow> int result" where
  "bundle_revision env bundle =
     bindE (raise_from (\<lambda>e. (case e of KeyError _ \<Rightarrow> True | TypeError _ \<Rightarrow> True | JSONDecodeError \<Rightarrow> True | _ \<Rightarrow> False))
              (BrokerContractError ''public projection revision is invalid'')
              (bindE (decode_utf8 (status_bytes bundle)) (\<lambda>t.
               bindE (json_loads env dict_hook t) (\<lambda>v.
               bindE (index v ''state'') (\<lambda>st. index st ''revision''))))) (\<lambda>revision.
     (case revision of
        JInt n \<Rightarrow> if n < 0 then Inl (BrokerContractError ''public projection revision is invalid'') else Inr n
      | _ \<Rightarrow> Inl (BrokerContractError ''public projection revision is invalid'')))"

text \<open>\<open>while len(d) > limit: del d[next(iter(d))]\<close>\<close>

fun prune :: "nat \<Rightarrow> 'a list \<Rightarrow> 'a list" where
  "prune n [] = []"
| "prune n (x # xs) = (if n < length (x # xs) then prune n xs else x # xs)"

definition remember_publication :: "pyenv \<Rightarrow> PublicProjectionBundle \<Rightarrow> unit action" where
  "remember_publication env bundle =
     bindA (liftA (bundle_revision env bundle)) (\<lambda>revision w.
     (Inr (), w\<lparr>w_published := prune PUBLIC_CATALOG_JOB_LIMIT
        (filter (\<lambda>p. fst p \<noteq> pb_job_id bundle) (w_published w) @ [(pb_job_id bundle, pb_digest bundle, revision)])\<rparr>))"

definition sink_publish :: "broker \<Rightarrow> PublicProjectionBundle \<Rightarrow> unit action" where
  "sink_publish b bundle w = (case bk_sink b of None \<Rightarrow> (Inr (), w) | Some sk \<Rightarrow> (sk_publish sk bundle w, w))"

definition publish_catalog :: "pyenv \<Rightarrow> broker \<Rightarrow> unit action" where
  "publish_catalog env b w =
     (case bk_sink b of None \<Rightarrow> (Inr (), w) | Some sk \<Rightarrow>
     (case sk_catalog sk of None \<Rightarrow> (Inr (), w) | Some publish \<Rightarrow>
        (bindE (catalog_job_ids (w_store w) (int PUBLIC_CATALOG_JOB_LIMIT)) (\<lambda>(jids, authority_count).
         bindE (mapE (public_projection env b (w_store w)) jids) (\<lambda>bundles.
         publish bundles authority_count w)), w)))"

definition publish_public :: "pyenv \<Rightarrow> broker \<Rightarrow> string \<Rightarrow> PublicProjectionBundle action" where
  "publish_public env b jid =
     bindA (queryA (\<lambda>s. public_projection env b s jid)) (\<lambda>bundle.
     bindA (sink_publish b bundle) (\<lambda>_.
     bindA (remember_publication env bundle) (\<lambda>_. returnA bundle)))"

text \<open>The \<open>try\<close> statement of \<open>_repair_public_best_effort\<close>: a failure is only recorded.\<close>

definition publish_best_effort :: "pyenv \<Rightarrow> broker \<Rightarrow> PublicProjectionBundle \<Rightarrow> PublicProjectionBundle action" where
  "publish_best_effort env b bundle w =
     (case bindA (sink_publish b bundle) (\<lambda>_. publish_catalog env b) w of
        (Inl e, w') \<Rightarrow> (Inr bundle, w'\<lparr>w_publication_error := Some (exn_name e)\<rparr>)
      | (Inr _, w') \<Rightarrow> bindA (remember_publication env bundle) (\<lambda>_. returnA bundle) (w'\<lparr>w_publication_error := None\<rparr>))"

definition current_bundle :: "pyenv \<Rightarrow> broker \<Rightarrow> string \<Rightarrow> PublicProjectionBundle option \<Rightarrow> store \<Rightarrow> PublicProjectionBundle result" where
  "current_bundle env b jid given s =
     bindE (read_record s jid) (\<lambda>r.
     (case given of
        None \<Rightarrow> public_projection env b s jid
      | Some bundle \<Rightarrow> bindE (bundle_revision env bundle) (\<lambda>n.
          if n \<noteq> revision r then public_projection env b s jid else Inr bundle)))"

definition repair_public :: "pyenv \<Rightarrow> broker \<Rightarrow> string \<Rightarrow> PublicProjectionBundle option \<Rightarrow> PublicProjectionBundle action" where
  "repair_public env b jid given =
     bindA (queryA (current_bundle env b jid given)) (\<lambda>bundle.
     bindA (liftA (bundle_revision env bundle)) (\<lambda>n w.
     let published = (case map_of (w_published w) jid of None \<Rightarrow> - 1 | Some (_, m) \<Rightarrow> m) in
     if n < published then queryA (\<lambda>s. public_projection env b s jid) w
     else if n = published \<and> map_option fst (map_of (w_published w) jid) = Some (pb_digest bundle) then (Inr bundle, w)
     else publish_best_effort env b bundle w))"

definition repair_public_best_effort :: "pyenv \<Rightarrow> broker \<Rightarrow> string \<Rightarrow> PublicProjectionBundle action" where
  "repair_public_best_effort env b jid =
     bindA (queryA (\<lambda>s. public_projection env b s jid)) (\<lambda>bundle. repair_public env b jid (Some bundle))"

text \<open>Start-up: every derived file again.\<close>

fun each :: "('a \<Rightarrow> unit action) \<Rightarrow> 'a list \<Rightarrow> unit action" where
  "each f [] = returnA ()"
| "each f (x # xs) = bindA (f x) (\<lambda>_. each f xs)"

definition reconcile_public :: "pyenv \<Rightarrow> broker \<Rightarrow> PublicProjectionBundle list action" where
  "reconcile_public env b =
     bindA (queryA (\<lambda>s. mapE (public_projection env b s) (list_job_ids s))) (\<lambda>bundles.
     bindA (each (sink_publish b) bundles) (\<lambda>_.
     bindA (publish_catalog env b) (\<lambda>_.
     bindA (each (remember_publication env) bundles) (\<lambda>_. returnA bundles))))"

definition requester_projection ::
  "pyenv \<Rightarrow> broker \<Rightarrow> BrokerPeerIdentity \<Rightarrow> string \<Rightarrow> string \<Rightarrow> string \<Rightarrow> string \<Rightarrow> PublicProjectionBundle action" where
  "requester_projection env b peer jid jd rid target =
     bindA (queryA (\<lambda>s. submission_metadata s jid)) (\<lambda>m.
     bindA (liftA (raise_if (peer_uid m \<noteq> uid peer \<or> peer_gid m \<noteq> gid peer) (StorageNotFound jid))) (\<lambda>_.
     bindA (queryA (\<lambda>s. read_sealed env s jid)) (\<lambda>job.
     bindA (liftA (raise_if (job_digest job \<noteq> jd \<or> request_id job \<noteq> rid \<or> reply_target job \<noteq> target) (StorageNotFound jid))) (\<lambda>_.
     bindA (queryA (\<lambda>s. public_projection env b s jid)) (\<lambda>bundle.
     repair_public env b jid (Some bundle))))))"

section \<open>Submission\<close>

definition recover_idempotent :: "pyenv \<Rightarrow> broker \<Rightarrow> SealedJob \<Rightarrow> BrokerPeerIdentity \<Rightarrow> SubmittedJob action" where
  "recover_idempotent env b job peer =
     bindA (queryA (\<lambda>s. read_sealed env s (job_id job))) (\<lambda>existing.
     bindA (queryA (\<lambda>s. submission_metadata s (job_id job))) (\<lambda>m.
     bindA (liftA (raise_if (existing \<noteq> job \<or> peer_uid m \<noteq> uid peer \<or> peer_gid m \<noteq> gid peer)
              (BrokerContractError ''conflicting job retry is blocked''))) (\<lambda>_.
     bindA (queryA (\<lambda>s. read_record s (job_id job))) (\<lambda>r.
     bindA (queryA (\<lambda>s. bindE (read_optional_receipt env s job) (broker_status env b s job r))) (\<lambda>status.
     bindA (repair_public env b (job_id job) None) (\<lambda>_.
     returnA \<lparr>sub_job_id = job_id job, sub_job_digest = job_digest job, sub_status = status\<rparr>))))))"

text \<open>A notice whose reason may be missing, as the policy has it.\<close>

definition close_notice :: "pyenv \<Rightarrow> SealedJob \<Rightarrow> string \<Rightarrow> string option \<Rightarrow> ReceiptArtifact result" where
  "close_notice env job outcome reason =
     (case reason of
        Some r \<Rightarrow> terminal_notice env job outcome r
      | None \<Rightarrow> bindE (encode_utf8 (default_json (JObj (dict_set (terminal_notice_dict job outcome []) ''reason_code'' JNull)))) (seal_receipt env))"

definition close_event :: "SealedJob \<Rightarrow> string \<Rightarrow> string \<Rightarrow> TerminalOutcome \<Rightarrow> string option \<Rightarrow> TransitionEvent" where
  "close_event job eid at out reason = \<lparr>event_id = eid, ev_job_id = job_id job, ev_job_digest = job_digest job,
     expected_revision = 0, ev_kind = CLOSE_PENDING, occurred_at = at, ev_outcome = Some out, ev_reason = reason\<rparr>"

definition claim_event :: "SealedJob \<Rightarrow> JobRecord \<Rightarrow> string \<Rightarrow> string \<Rightarrow> TransitionEvent" where
  "claim_event job r eid at = \<lparr>event_id = eid, ev_job_id = job_id job, ev_job_digest = job_digest job,
     expected_revision = revision r, ev_kind = CLAIM_EXECUTION, occurred_at = at, ev_outcome = None, ev_reason = None\<rparr>"

definition auto_claim_and_dispatch :: "broker \<Rightarrow> SealedJob \<Rightarrow> JobRecord \<Rightarrow> JobRecord action" where
  "auto_claim_and_dispatch b job r =
     (case bk_dispatch b of
        None \<Rightarrow> liftA (Inl (BrokerContractError ''automatic read-only dispatch is unavailable''))
      | Some dispatch \<Rightarrow>
          bindA (next_event (bk_events b)) (\<lambda>(eid, at).
          bindA (storeA (\<lambda>s. compare_and_append s (claim_event job r eid at))) (\<lambda>claimed.
          tryA (bindA (dispatch (rec_job_id claimed) (rec_job_digest claimed)) (\<lambda>_. returnA claimed))
            (\<lambda>_. tryA (queryA (\<lambda>s. read_record s (job_id job))) (\<lambda>_. returnA claimed)))))"

definition set_dispatch :: "broker \<Rightarrow> (string \<Rightarrow> string \<Rightarrow> unit action) \<Rightarrow> broker" where
  "set_dispatch b dispatch = b\<lparr>bk_dispatch := Some dispatch\<rparr>"

text \<open>What the transaction of a submission gives: a sealed job, or the answer to a retry that lost the race.\<close>

datatype sealing = Recovered SubmittedJob | Sealed JobRecord "SubmissionAdmission option"

definition or_recover :: "pyenv \<Rightarrow> broker \<Rightarrow> SealedJob \<Rightarrow> BrokerPeerIdentity \<Rightarrow> sealing action \<Rightarrow> sealing action" where
  "or_recover env b job peer m =
     tryA m (\<lambda>exc.
       if is_conflict exc then
         tryA (bindA (recover_idempotent env b job peer) (\<lambda>x. returnA (Recovered x)))
           (\<lambda>e. liftA (Inl (if is_not_found e then exc else e)))
       else liftA (Inl exc))"

definition seal_disabled ::
  "pyenv \<Rightarrow> broker \<Rightarrow> (store \<Rightarrow> store) \<Rightarrow> SealedJob \<Rightarrow> BrokerPeerIdentity \<Rightarrow> string \<times> string \<Rightarrow> SubmissionMetadata \<Rightarrow> string option \<Rightarrow> sealing action" where
  "seal_disabled env b meanwhile job peer pending sub reason =
     bindA (next_event (bk_events b)) (\<lambda>(eid, at).
     bindA (liftA (close_notice env job ''rejected'' reason)) (\<lambda>notice.
     or_recover env b job peer
       (bindA (storeA (\<lambda>s. seal_rejected env (meanwhile s) job (fst pending) (snd pending) (close_event job eid at REJECTED reason) notice sub
                 (limits (bk_submission_policy b)))) (\<lambda>r.
        returnA (Sealed r None)))))"

definition seal_enabled ::
  "pyenv \<Rightarrow> broker \<Rightarrow> (store \<Rightarrow> store) \<Rightarrow> SealedJob \<Rightarrow> BrokerPeerIdentity \<Rightarrow> string \<times> string \<Rightarrow> SubmissionMetadata \<Rightarrow> sealing action" where
  "seal_enabled env b meanwhile job peer pending sub =
     (let reason = circuit_reason_code (bk_failure_policy b) in
     bindA (next_event (bk_events b)) (\<lambda>(eid, at).
     bindA (liftA (terminal_notice env job ''prestart_failed'' reason)) (\<lambda>notice.
     or_recover env b job peer
       (bindA (storeA (\<lambda>s. seal_with_lineage_admission env (meanwhile s) job (fst pending) (snd pending)
                 (close_event job eid at PRESTART_FAILED (Some reason)) notice sub
                 (limits (bk_submission_policy b)) (bk_failure_policy b))) (\<lambda>(r, admission).
        returnA (Sealed r (Some admission)))))))"

definition answer_submission :: "pyenv \<Rightarrow> broker \<Rightarrow> SealedJob \<Rightarrow> ExecutionPolicy \<Rightarrow> sealing \<Rightarrow> SubmittedJob action" where
  "answer_submission env b job policy x =
     (case x of
        Recovered submitted \<Rightarrow> returnA submitted
      | Sealed r admission \<Rightarrow>
          bindA (if auto_dispatch policy \<and> (case admission of None \<Rightarrow> False | Some a \<Rightarrow> allowed a)
                 then auto_claim_and_dispatch b job r else returnA r) (\<lambda>r.
          bindA (queryA (\<lambda>s. bindE (read_optional_receipt env s job) (broker_status env b s job r))) (\<lambda>status.
          bindA (repair_public env b (job_id job) None) (\<lambda>_.
          returnA \<lparr>sub_job_id = job_id job, sub_job_digest = job_digest job, sub_status = status\<rparr>))))"

definition submit_new :: "pyenv \<Rightarrow> broker \<Rightarrow> (store \<Rightarrow> store) \<Rightarrow> SealedJob \<Rightarrow> BrokerPeerIdentity \<Rightarrow> SubmittedJob action" where
  "submit_new env b meanwhile job peer =
     bindA (next_event (bk_events b)) (\<lambda>pending.
     bindA (liftA (authorize (bk_submission_policy b) job peer (snd pending))) (\<lambda>sub.
     bindA (liftA (policy_of (bk_policies b) (operation_id job))) (\<lambda>policy.
     bindA (liftA (raise_if (pol_operation_version policy \<noteq> operation_version job)
              (BrokerContractError ''execution policy version mismatch''))) (\<lambda>_.
     bindA (if availability policy \<noteq> ENABLED
            then seal_disabled env b meanwhile job peer pending sub (pol_reason policy)
            else seal_enabled env b meanwhile job peer pending sub)
       (answer_submission env b job policy)))))"

definition submit :: "pyenv \<Rightarrow> broker \<Rightarrow> (store \<Rightarrow> store) \<Rightarrow> string \<Rightarrow> BrokerPeerIdentity \<Rightarrow> SubmittedJob action" where
  "submit env b meanwhile raw peer =
     bindA (liftA (seal_typed_manifest env DEFAULT_REGISTRY raw)) (\<lambda>job.
     bindA (queryA (\<lambda>s. case read_sealed env s (job_id job) of
              Inr x \<Rightarrow> Inr (Some x) | Inl e \<Rightarrow> if is_not_found e then Inr None else Inl e)) (\<lambda>existing.
     if existing \<noteq> None then recover_idempotent env b job peer else submit_new env b meanwhile job peer))"

section \<open>The framed submission endpoint\<close>

definition SUBMISSION_RESPONSE_SCHEMA :: string where
  "SUBMISSION_RESPONSE_SCHEMA = ''agent-runtime-root-action-submission-response/v1''"

definition MAX_SUBMISSION_RESPONSE_BYTES :: nat where "MAX_SUBMISSION_RESPONSE_BYTES = 4096"

definition handle_submission :: "pyenv \<Rightarrow> broker \<Rightarrow> (store \<Rightarrow> store) \<Rightarrow> string \<Rightarrow> BrokerPeerIdentity \<Rightarrow> string action" where
  "handle_submission env b meanwhile frame peer =
     bindA (liftA (decode_submission_frame frame)) (\<lambda>manifest.
     bindA (submit env b meanwhile manifest peer) (\<lambda>submitted.
     bindA (queryA (\<lambda>s. public_projection env b s (sub_job_id submitted))) (\<lambda>projection.
     liftA
      (bindE (jget (sub_status submitted) ''state'') (\<lambda>st.
       bindE (index st ''name'') (\<lambda>name.
       bindE (index st ''terminal_outcome'') (\<lambda>out.
       bindE (index st ''reason_code'') (\<lambda>reason.
       bindE (canonical_json (JObj
         [(''schema'', JStr SUBMISSION_RESPONSE_SCHEMA), (''job_id'', JStr (sub_job_id submitted)),
          (''job_digest'', JStr (sub_job_digest submitted)), (''state'', name), (''terminal_outcome'', out),
          (''reason_code'', reason), (''projection_digest'', JStr (pb_digest projection))])) (\<lambda>encoded.
       bindE (raise_if (MAX_SUBMISSION_RESPONSE_BYTES < length encoded)
                (SubmissionRejected ''submission response exceeds its byte limit'')) (\<lambda>_.
       Inr encoded))))))))))"

section \<open>What a call may change\<close>

text \<open>
  An action keeps a relation when the state after every run is related to the state before it. A relation
  that allows the bookkeeping of publications is kept by every read and repair; one that also allows events
  and steps of the store is kept by every submission.
\<close>

definition keeps :: "(world \<Rightarrow> world \<Rightarrow> bool) \<Rightarrow> 'a action \<Rightarrow> bool" where
  "keeps R m \<longleftrightarrow> (\<forall>w. R w (snd (m w)))"

locale publication =
  fixes R :: "world \<Rightarrow> world \<Rightarrow> bool"
  assumes R_refl: "R w w" and R_trans: "R w w1 \<Longrightarrow> R w1 w2 \<Longrightarrow> R w w2"
    and R_error: "R w (w\<lparr>w_publication_error := e\<rparr>)"
    and R_remember: "R w (w\<lparr>w_published := prune PUBLIC_CATALOG_JOB_LIMIT
      (filter (\<lambda>p. fst p \<noteq> jid) (w_published w) @ [(jid, d, n)])\<rparr>)"
begin

lemma keeps_bind: "keeps R m \<Longrightarrow> (\<And>x. keeps R (f x)) \<Longrightarrow> keeps R (bindA m f)"
  unfolding keeps_def bindA_def by (auto split: prod.splits sum.splits) (metis R_trans snd_conv)+

lemma keeps_try: "keeps R m \<Longrightarrow> (\<And>e. keeps R (h e)) \<Longrightarrow> keeps R (tryA m h)"
  unfolding keeps_def tryA_def by (auto split: prod.splits sum.splits) (metis R_trans snd_conv)+

lemma keeps_prims: "keeps R (returnA x)" "keeps R (liftA r)" "keeps R (queryA q)"
  by (simp_all add: keeps_def R_refl)

lemma keeps_cases:
  "keeps R m \<Longrightarrow> keeps R m' \<Longrightarrow> keeps R (if b then m else m')"
  "(\<And>x y. keeps R (f x y)) \<Longrightarrow> keeps R (case p of (x, y) \<Rightarrow> f x y)"
  "keeps R m \<Longrightarrow> (\<And>x. v = Some x \<Longrightarrow> keeps R (g x)) \<Longrightarrow> keeps R (case v of None \<Rightarrow> m | Some x \<Rightarrow> g x)"
  by (auto split: prod.splits option.splits)

lemmas keeps_intros = keeps_bind keeps_try keeps_prims keeps_cases

lemma remember_keeps: "keeps R (remember_publication env bundle)"
  unfolding remember_publication_def by (rule keeps_bind) (simp_all add: keeps_prims, simp add: keeps_def R_remember)

lemma sink_publish_keeps: "keeps R (sink_publish b bundle)"
  by (auto simp: keeps_def sink_publish_def R_refl split: option.splits)

lemma publish_catalog_keeps: "keeps R (publish_catalog env b)"
  by (auto simp: keeps_def publish_catalog_def R_refl split: option.splits)

lemma publish_best_effort_keeps: "keeps R (publish_best_effort env b bundle)"
proof -
  have m: "keeps R (bindA (sink_publish b bundle) (\<lambda>_. publish_catalog env b))"
    by (intro keeps_bind sink_publish_keeps publish_catalog_keeps)
  have r: "keeps R (bindA (remember_publication env bundle) (\<lambda>_. returnA bundle))" by (intro keeps_bind remember_keeps keeps_prims)
  show ?thesis unfolding keeps_def
  proof
    fix w
    obtain x w' where x: "bindA (sink_publish b bundle) (\<lambda>_. publish_catalog env b) w = (x, w')" by fastforce
    have "R w w'" using m x by (auto simp: keeps_def dest: spec [of _ w])
    moreover have "R w' (snd (bindA (remember_publication env bundle) (\<lambda>_. returnA bundle) (w'\<lparr>w_publication_error := None\<rparr>)))"
      using r R_error R_trans by (meson keeps_def)
    ultimately show "R w (snd (publish_best_effort env b bundle w))"
      using R_error R_trans by (auto simp: publish_best_effort_def x split: sum.splits)
  qed
qed

lemma repair_public_keeps: "keeps R (repair_public env b jid given)"
proof -
  have "keeps R (\<lambda>w. let published = (case map_of (w_published w) jid of None \<Rightarrow> - 1 | Some (_, m) \<Rightarrow> m) in
     if n < published then queryA (\<lambda>s. public_projection env b s jid) w
     else if n = published \<and> map_option fst (map_of (w_published w) jid) = Some (pb_digest x) then (Inr x, w)
     else publish_best_effort env b x w)" for n x
    using publish_best_effort_keeps by (auto simp: keeps_def Let_def R_refl)
  then show ?thesis unfolding repair_public_def by (intro keeps_bind keeps_prims)
qed

lemma requester_projection_keeps: "keeps R (requester_projection env b peer jid jd rid target)"
  unfolding requester_projection_def by (intro keeps_intros repair_public_keeps)

lemma recover_idempotent_keeps: "keeps R (recover_idempotent env b job peer)"
  unfolding recover_idempotent_def by (intro keeps_intros repair_public_keeps)

lemma publish_public_keeps: "keeps R (publish_public env b jid)"
  unfolding publish_public_def by (intro keeps_intros sink_publish_keeps remember_keeps)

lemma repair_public_best_effort_keeps: "keeps R (repair_public_best_effort env b jid)"
  unfolding repair_public_best_effort_def by (intro keeps_intros repair_public_keeps)

lemma each_keeps: "(\<And>x. keeps R (f x)) \<Longrightarrow> keeps R (each f xs)"
  by (induction xs) (simp_all add: keeps_prims keeps_bind)

lemma reconcile_public_keeps: "keeps R (reconcile_public env b)"
  unfolding reconcile_public_def
  by (intro keeps_intros each_keeps sink_publish_keeps publish_catalog_keeps remember_keeps)

end

text \<open>Submissions also ask for events and run transactions.\<close>

locale store_publication = publication +
  fixes env :: pyenv
  assumes R_event: "R w (w\<lparr>w_tick := Suc (w_tick w)\<rparr>)"
    and R_step: "(store_step env)\<^sup>*\<^sup>* (w_store w) s \<Longrightarrow> R w (w\<lparr>w_store := s\<rparr>)"
begin

lemma next_event_keeps: "keeps R (next_event events)"
  by (simp add: keeps_def next_event_def R_event)

lemma storeA_keeps: "(\<And>s. (store_step env)\<^sup>*\<^sup>* s (snd (g s))) \<Longrightarrow> keeps R (storeA g)"
  by (simp add: keeps_def storeA_def R_step)

lemma dispatch_keeps:
  assumes "\<And>d jid jd. bk_dispatch b = Some d \<Longrightarrow> keeps R (d jid jd)"
  shows "keeps R (auto_claim_and_dispatch b job r)"
  unfolding auto_claim_and_dispatch_def
  by (intro keeps_intros next_event_keeps storeA_keeps r_into_rtranclp store_step.compare_and_append assms)

lemma or_recover_keeps: "keeps R m \<Longrightarrow> keeps R (or_recover env' b job peer m)"
  unfolding or_recover_def by (intro keeps_intros recover_idempotent_keeps)

lemma seal_disabled_keeps:
  assumes "\<And>s. (store_step env)\<^sup>*\<^sup>* s (meanwhile s)"
  shows "keeps R (seal_disabled env b meanwhile job peer pending sub reason)"
  unfolding seal_disabled_def
  by (intro keeps_intros next_event_keeps or_recover_keeps storeA_keeps)
    (rule rtranclp.rtrancl_into_rtrancl [OF assms store_step.seal_rejected])

lemma seal_enabled_keeps:
  assumes "\<And>s. (store_step env)\<^sup>*\<^sup>* s (meanwhile s)"
  shows "keeps R (seal_enabled env b meanwhile job peer pending sub)"
  unfolding seal_enabled_def Let_def
  by (intro keeps_intros next_event_keeps or_recover_keeps storeA_keeps)
    (rule rtranclp.rtrancl_into_rtrancl [OF assms store_step.seal_with_lineage_admission])

lemma submit_keeps:
  assumes "\<And>s. (store_step env)\<^sup>*\<^sup>* s (meanwhile s)" and "\<And>d jid jd. bk_dispatch b = Some d \<Longrightarrow> keeps R (d jid jd)"
  shows "keeps R (submit env b meanwhile raw peer)"
proof -
  have "keeps R (answer_submission env b job policy x)" for job policy x
    using assms(2) by (cases x) (auto simp: answer_submission_def intro!: keeps_intros dispatch_keeps repair_public_keeps)
  then have "keeps R (submit_new env b meanwhile job peer)" for job
    unfolding submit_new_def by (intro keeps_intros next_event_keeps seal_disabled_keeps seal_enabled_keeps assms(1))
  then show ?thesis unfolding submit_def by (intro keeps_intros recover_idempotent_keeps)
qed

lemma handle_submission_keeps:
  assumes "\<And>s. (store_step env)\<^sup>*\<^sup>* s (meanwhile s)" and "\<And>d jid jd. bk_dispatch b = Some d \<Longrightarrow> keeps R (d jid jd)"
  shows "keeps R (handle_submission env b meanwhile frame peer)"
  unfolding handle_submission_def by (intro keeps_intros submit_keeps assms)

end

end
