(* ===== verification/Worker_Properties.thy ===== *)
theory Worker_Properties
  imports Worker
begin

text \<open>
  What the worker guarantees: a queued claim is settled by one execution, with the result of the
  handler or as unknown; a claim that cannot be queued is not lost; and after the recovery at
  start-up no job is left running.
\<close>

section \<open>One execution\<close>

lemma bindA_Inl_iff: "bindA m f w = (Inl e, w') \<longleftrightarrow> m w = (Inl e, w') \<or> (\<exists>x w1. m w = (Inr x, w1) \<and> f x w1 = (Inl e, w'))"
  by (auto simp: bindA_def split: prod.splits sum.splits)

lemma bindA_liftA: "bindA (liftA x) f w = (case x of Inl e \<Rightarrow> (Inl e, w) | Inr y \<Rightarrow> f y w)"
  by (simp add: bindA_def liftA_def split: sum.splits)

lemma bindA_queryA_case: "bindA (queryA q) f w = (case q (w_store w) of Inl e \<Rightarrow> (Inl e, w) | Inr y \<Rightarrow> f y w)"
  by (simp add: bindA_def queryA_def split: sum.splits)

lemma report_result_Inl:
  assumes "report_result env events job r res w = (Inl e, w')"
  shows "w' = w\<lparr>w_tick := Suc (w_tick w)\<rparr>"
proof -
  have t: "snd (complete_claimed_execution env s ev raw a) = s" if "fst (complete_claimed_execution env s ev raw a) = Inl e" for s ev raw a
    using that unfolding complete_claimed_execution_def by (rule transaction_Inl)
  have "w1 = w0" if "bindA (storeA (\<lambda>s. complete_claimed_execution env s ev raw a)) (\<lambda>_. returnA ()) w0 = (Inl e, w1)" for w0 w1 ev raw a
    using that t by (auto simp: bindA_Inl_iff storeA_def)
  with assms show ?thesis
    unfolding report_result_def by (auto simp: bindA_liftA split: sum.splits prod.splits)
qed

text \<open>An execution that raises leaves the store as it was before or as other clients made it meanwhile.\<close>

lemma execute_claim_Inl:
  assumes "execute_claim env hs events meanwhile jid jd w = (Inl e, w')"
  shows "w' \<in> {w, w\<lparr>w_store := meanwhile (w_store w)\<rparr>, w\<lparr>w_store := meanwhile (w_store w), w_tick := Suc (w_tick w)\<rparr>}"
  using assms unfolding execute_claim_def bindA_liftA bindA_queryA_case
  by (auto simp: bindA_Inl_iff bindA_liftA storeA_def dest!: report_result_Inl split: sum.splits prod.splits)

lemma finalize_record:
  assumes inv: "ledger_inv s" and f: "finalize_claimed_execution env s ev raw a = Inr (r', s')"
  shows "\<exists>r. find_record s (ev_job_id ev) = Some r \<and> apply_transition r ev = Inr r' \<and> find_record s' (ev_job_id ev) = Some r'"
proof -
  from f obtain s1 s2 where s: "insert_raw s raw = Inr s1" "compare_and_append_tx s1 ev = Inr (r', s2)" "publish_tx env s2 a = Inr s'"
    unfolding finalize_claimed_execution_def Let_def by (auto simp: bindE_Inr_iff)
  have inv1: "ledger_inv s1" using insert_raw_inv [OF inv s(1)] .
  have rec1: "records s1 = records s" using s(1) by (auto simp: insert_raw_def split: if_splits)
  from s(2) obtain r where r: "find_record s1 (ev_job_id ev) = Some r" "apply_transition r ev = Inr r'" "s2 = cas_result s1 r r' ev"
    by (auto simp: compare_and_append_tx_Inr [OF inv1])
  have "rec_job_id r = ev_job_id ev" "r' = advance r ev"
    using ledger_inv_find_record [OF inv1 r(1)] r(2) by (auto simp: apply_transition_Inr_iff)
  then have "find_record s2 (ev_job_id ev) = Some r'"
    using find_record_map(1) [of s2 "ev_job_id ev" r' s1 r] r(1) by (simp add: r(3) cas_result_def)
  moreover have "records s' = records s2" using publish_tx_core [OF s(3)] by simp
  ultimately show ?thesis using r rec1 by (auto simp: find_record_def)
qed

lemma finalize_retrieve:
  assumes inv: "ledger_inv s" and rinv: "receipt_inv env s" and f: "finalize_claimed_execution env s ev raw a = Inr (r', s')"
  shows "retrieve env s' (rc_job_id a) (rc_job_digest a) = Inr a"
proof -
  from f obtain s1 s2 where s: "insert_raw s raw = Inr s1" "compare_and_append_tx s1 ev = Inr (r', s2)" "publish_tx env s2 a = Inr s'"
    and ver: "verify_receipt env a = Inr ()"
    unfolding finalize_claimed_execution_def Let_def by (auto simp: bindE_Inr_iff)
  have "keeps_receipts env s s2" using rc.R_trans [OF rc.R_raw [OF s(1)] rc.R_cas [OF s(2)]] .
  then have "ledger_inv s2" "receipt_inv env s2" using inv rinv by (auto simp: keeps_receipts_def)
  then show ?thesis using publish_retrieve ver s(3) by blast
qed

text \<open>The claim as one execution leaves it: finished with the result of the handler, or unknown.\<close>

definition finished_by :: "pyenv \<Rightarrow> handlers \<Rightarrow> store \<Rightarrow> SealedJob \<Rightarrow> bool" where
  "finished_by env hs s job \<longleftrightarrow> (\<exists>h res r a. handler_of hs (operation_id job) = Inr h \<and> h_run h job = Inr res
     \<and> find_record s (job_id job) = Some r \<and> state r = TERMINAL \<and> rec_reason r = Some (res_reason res)
     \<and> map_option outcome_value (terminal_outcome r) = Some (res_outcome res)
     \<and> retrieve env s (job_id job) (job_digest job) = Inr a \<and> rc_kind a \<noteq> ''unknown'' \<and> agrees env a r)"

definition lost_by_worker :: "store \<Rightarrow> string \<Rightarrow> bool" where
  "lost_by_worker s jid \<longleftrightarrow> (\<exists>r. find_record s jid = Some r \<and> state r = UNKNOWN \<and> rec_reason r = Some ''worker_outcome_uncertain'')"

lemma execute_claim_Inr:
  assumes inv: "ledger_inv (meanwhile (w_store w))" and rinv: "receipt_inv env (meanwhile (w_store w))"
    and job: "read_sealed env (w_store w) jid = Inr job" "job_id job = jid" "job_digest job = jd"
    and run: "execute_claim env hs events meanwhile jid jd w = (Inr (), w')"
  shows "finished_by env hs (w_store w') job"
proof -
  let ?s = "meanwhile (w_store w)"
  from run job obtain r h res where h: "handler_of hs (operation_id job) = Inr h" "h_run h job = Inr res"
    and rep: "report_result env events job r res (w\<lparr>w_store := ?s\<rparr>) = (Inr (), w')"
    unfolding execute_claim_def
    by (auto simp: bindA_Inr_iff bindA_liftA bindA_queryA_case storeA_def split: sum.splits)
  from rep obtain eid at raw a out where out: "outcome_of (res_outcome res) = Inr out"
    and c: "\<exists>r'. complete_claimed_execution env ?s (complete_event job r eid at out (res_reason res)) raw a = (Inr r', w_store w')"
    unfolding report_result_def
    by (auto simp: bindA_Inr_iff storeA_def split: prod.splits sum.splits) (metis prod.collapse)
  define s' where "s' = w_store w'"
  let ?ev = "complete_event job r eid at out (res_reason res)"
  from c [folded s'_def] obtain r' where f: "finalize_claimed_execution env ?s ?ev raw a = Inr (r', s')"
    by (auto simp: complete_claimed_execution_def transaction_Inr complete_event_def)
  from finalize_record [OF inv f] obtain r0 where r0: "apply_transition r0 ?ev = Inr r'" "find_record s' (job_id job) = Some r'"
    by (auto simp: complete_event_def)
  then have r': "state r' = TERMINAL" "terminal_outcome r' = Some out" "rec_reason r' = Some (res_reason res)"
    by (auto simp: apply_transition_Inr_iff complete_event_def kind_defs)
  from f have ids: "rc_job_id a = job_id job" "rc_job_digest a = job_digest job"
    by (auto simp: finalize_claimed_execution_def bindE_Inr_iff raise_if_Inr_iff complete_event_def Let_def)
  with finalize_retrieve [OF inv rinv f] have ret: "retrieve env s' (job_id job) (job_digest job) = Inr a" by simp
  from f obtain s1 s2 where p: "compare_and_append_tx s1 ?ev = Inr (r', s2)" "publish_tx env s2 a = Inr s'" "insert_raw ?s raw = Inr s1"
    unfolding finalize_claimed_execution_def Let_def by (auto simp: bindE_Inr_iff)
  have i2: "ledger_inv s2" using compare_and_append_tx_inv insert_raw_inv [OF inv p(3)] p(1) by blast
  from p(2) have v: "validate_receipt_publication env s2 a = Inr ()" by (auto simp: publish_tx_def bindE_Inr_iff)
  have f2: "find_record s2 (job_id job) = Some r'"
    using r0(2) publish_tx_core [OF p(2)] by (simp add: find_record_def)
  from publication_agrees [OF i2 v] obtain x where x: "x \<in> set (records s2)" "agrees env a x" by auto
  then have "x = r'" using find_record_in [OF i2 x(1)] f2 ids(1) by (simp add: agrees_def)
  moreover have "rc_kind a \<noteq> ''unknown''"
    using v f2 r'(1) ids(1) by (auto simp: validate_receipt_publication_def bindE_Inr_iff read_record_Inr_iff [OF i2] check_outcome_link_def)
  ultimately show ?thesis
    using h r0(2) r' ret x(2) outcome_of_value [OF out] by (fastforce simp: finished_by_def s'_def)
qed

section \<open>A result that can be reported\<close>

text \<open>The public receipt of the result can be written down: it nests no deeper than the parser allows and both forms fit the size limit.\<close>

definition fits_receipt :: "pyenv \<Rightarrow> dict \<Rightarrow> bool" where
  "fits_receipt env d \<longleftrightarrow> jwf (rec_limit env) (JObj d) \<and> utf8_valid (default_json (JObj d)) \<and> length (default_json (JObj d)) \<le> MAX_RECEIPT_BYTES
     \<and> (case canonical_json (JObj d) of Inl _ \<Rightarrow> False | Inr c \<Rightarrow> length c \<le> MAX_RECEIPT_BYTES)"

definition result_value :: "HandlerResult \<Rightarrow> json" where
  "result_value res = JObj [(''status'', JStr (public_status res)),
     (''facts'', JList (map (\<lambda>(n, v). JObj [(''name'', JStr n), (''value'', JStr v)]) (res_public_facts res)))]"

text \<open>
  A result the contracts of the receipts admit, reported with the event \<open>ev\<close>: raw bytes within the limit, an
  outcome, a reason code and facts that the receipt validation accepts, and a storage id and a digest the store does not hold.
\<close>

definition reportable :: "pyenv \<Rightarrow> HandlerResult \<Rightarrow> string \<times> string \<Rightarrow> store \<Rightarrow> SealedJob \<Rightarrow> JobRecord \<Rightarrow> bool" where
  "reportable env res ev s job r \<longleftrightarrow>
     (let d = public_receipt_dict job r res (sha256_tag (res_raw_bytes res)) (snd ev) in
      res_raw_bytes res \<noteq> [] \<and> length (res_raw_bytes res) \<le> MAX_RAW_RECEIPT_BYTES
      \<and> res_outcome res \<in> {''succeeded'', ''failed''} \<and> SAFE_ID_RE (res_reason res)
      \<and> validate_result env (result_value res) = Inr () \<and> fits_receipt env d
      \<and> (case raw_of env job (fst ev) (res_raw_bytes res) of Inl _ \<Rightarrow> True
         | Inr raw \<Rightarrow> root_storage_id (reference raw) \<notin> set (map (\<lambda>x. root_storage_id (reference x)) (raw_receipts s)))
      \<and> (case canonical_json (JObj d) of Inl _ \<Rightarrow> True | Inr c \<Rightarrow> receipt_digest_of c \<notin> set (map row_digest (receipts s))))"

lemma default_json_loads:
  assumes "jwf (rec_limit env) v"
  shows "json_loads env (unique_object e) (default_json v) = Inr v"
proof -
  let ?b = "default_json v"
  from assms obtain c cs where c: "?b = c # cs" "\<not> is_ws c" unfolding default_json_def by (rule dumps_hd)
  then have "skip_ws ?b = ?b" by (simp add: skip_ws_nonws)
  moreover have "take 3 ?b \<noteq> BOM" using dumps_not_BOM [OF assms, of "'', ''" "'': ''" "[]"] by (simp only: default_json_def append_Nil2 not_False_eq_True)
  moreover have "scan_value env (unique_object e) (rec_limit env) ?b = Inr (v, [])"
    using scan_value_dumps [OF good_hook_unique_object _ _ assms num_end_close(4), of "'', ''" "'': ''"]
    by (simp only: default_json_def append_Nil2) (simp add: ws_sep_def is_ws_def)
  ultimately show ?thesis by (simp add: json_loads_def)
qed

lemma public_receipt_valid:
  assumes env: "env_ok env" and job: "job_ok job" and d: "DIGEST_RE d" and ts: "timestamp_ok (last_changed_at r)" "timestamp_ok at"
    and order: "last_changed_at r \<le> at" and res: "res_outcome res \<in> {''succeeded'', ''failed''}" "validate_result env (result_value res) = Inr ()"
  shows "validate_receipt env (public_receipt_dict job r res d at) = Inr ''public''"
proof -
  let ?d = "public_receipt_dict job r res d at"
  have ids: "SAFE_ID_RE (job_id job)" "SAFE_ID_RE (operation_id job)" "SAFE_ID_RE (request_id job)" "SAFE_ID_RE (reply_target job)"
    "DIGEST_RE (job_digest job)"
    using job job_ok_digest [OF job] by (simp_all add: job_ok_def)
  have "receipt_exact (JObj ?d) PUBLIC_KEYS n = Inr ?d" for n
    by (simp add: receipt_exact_def public_receipt_dict_def PUBLIC_KEYS_def RAW_BASE_KEYS_def COMMON_KEYS_def keys_def)
  moreover have "validate_common env ?d True = Inr ()"
    using ids d by (simp add: validate_common_def public_receipt_dict_def jget_def receipt_checks_plain [OF env])
  moreover have "validate_outcome ?d [''succeeded'', ''failed''] m = Inr ()" for m
    using res(1) by (auto simp: validate_outcome_def public_receipt_dict_def jget_def json_in_def)
  moreover have "jget ?d ''started_at'' = Inr (JStr (last_changed_at r))" "jget ?d ''ended_at'' = Inr (JStr at)"
      "jget ?d ''exit_code'' = Inr (JInt (exit_code res))" "jget ?d ''removed_lines'' = Inr (JInt 0)" "jget ?d ''result'' = Inr (result_value res)"
      "jget_opt ?d ''kind'' = JStr ''public''"
    by (simp_all add: public_receipt_dict_def jget_def jget_opt_def result_value_def)
  ultimately show ?thesis
    using ts leD [OF order] res(2) by (simp add: validate_receipt_def validate_public_def receipt_checks_plain [OF env] equals_zero_def)
qed

lemma public_receipt_sealed:
  assumes env: "env_ok env" and job: "job_ok job" and d: "DIGEST_RE d" and ts: "timestamp_ok (last_changed_at r)" "timestamp_ok at"
    and order: "last_changed_at r \<le> at" and res: "res_outcome res \<in> {''succeeded'', ''failed''}" "validate_result env (result_value res) = Inr ()"
    and fits: "fits_receipt env (public_receipt_dict job r res d at)"
  obtains c where "canonical_json (JObj (public_receipt_dict job r res d at)) = Inr c"
    "bindE (encode_utf8 (default_json (JObj (public_receipt_dict job r res d at)))) (seal_receipt env) = Inr (artifact_of job ''public'' c)"
    "seal_receipt env c = Inr (artifact_of job ''public'' c)"
    "receipt_copy env (artifact_of job ''public'' c) = Inr (sorted_dict (public_receipt_dict job r res d at))"
proof -
  let ?d = "public_receipt_dict job r res d at" and ?b = "default_json (JObj (public_receipt_dict job r res d at))"
  from fits obtain c where wf: "jwf (rec_limit env) (JObj ?d)" and u: "utf8_valid ?b" and len: "length ?b \<le> MAX_RECEIPT_BYTES"
    and c: "canonical_json (JObj ?d) = Inr c" "length c \<le> MAX_RECEIPT_BYTES"
    by (auto simp: fits_receipt_def split: sum.splits)
  let ?a = "artifact_of job ''public'' c"
  have "?b \<noteq> []" by (simp add: default_json_def)
  then have p: "parse_receipt env ?b = Inr ?d"
    using u len default_json_loads [OF wf] by (simp add: parse_receipt_def decode_utf8_def)
  have "receipt_artifact ?d ''public'' = Inr ?a"
    unfolding receipt_artifact_def c(1) by (simp add: get_str_def public_receipt_dict_def jget_def jstr_def artifact_of_def)
  then have s: "seal_receipt env ?b = Inr ?a"
    using p public_receipt_valid [OF env job d ts order res] by (simp add: seal_receipt_def)
  have "seal_receipt env (canonical_receipt ?a) = Inr ?a"
    using c(2) p wf by (intro seal_canonical_receipt [OF s]) (simp_all add: artifact_of_def jwf_iff)
  moreover have "receipt_copy env ?a = Inr (sorted_dict ?d)"
    using canonical_json_loads [OF c(1) wf good_hook_dict_hook] by (simp add: receipt_copy_def artifact_of_def jobj_def)
  ultimately show thesis using s u by (intro that [OF c(1)]) (simp_all add: artifact_of_def encode_utf8_def)
qed

text \<open>A reportable result finishes the claim.\<close>

lemma report_result_succeeds:
  assumes env: "env_ok env" and inv: "ledger_inv (w_store w)" "receipt_inv env (w_store w)"
    and r: "find_record (w_store w) jid = Some r" and run: "state r = RUNNING"
    and job: "read_job env (w_store w) jid = Inr job" "job_ok job" "job_id job = jid" "job_digest job = rec_job_digest r"
    and ready: "unknown_ready env events w jid reason failure" and rep: "reportable env res (events (w_tick w)) (w_store w) job r"
  shows "\<exists>w'. report_result env events job r res w = (Inr (), w')"
proof -
  let ?s = "w_store w"
  obtain eid at where e: "events (w_tick w) = (eid, at)" by (cases "events (w_tick w)")
  have eok: "event_ok eid at" "last_changed_at r \<le> at" "find_raw ?s jid = None"
      "(jid, eid) \<notin> set (map (\<lambda>x. (led_job_id x, led_event_id x)) (ledger ?s))"
    using ready r e by (auto simp: unknown_ready_def split: option.splits)
  have rm: "rec_job_id r = jid" "timestamp_ok (last_changed_at r)"
    using ledger_inv_find_record [OF inv(1) r] by (simp_all add: record_ok_iff event_ok_def)
  let ?b = "res_raw_bytes res"
  from rep have v: "?b \<noteq> []" "length ?b \<le> MAX_RAW_RECEIPT_BYTES" "res_outcome res \<in> {''succeeded'', ''failed''}" "SAFE_ID_RE (res_reason res)"
      "validate_result env (result_value res) = Inr ()" "fits_receipt env (public_receipt_dict job r res (sha256_tag ?b) at)"
    by (simp_all add: reportable_def Let_def e)
  from raw_of_Inr [OF env job(2) _ v(1,2), of eid] eok(1) obtain raw where raw: "raw_of env job eid ?b = Inr raw"
      "ref_job_id (reference raw) = jid" "ref_job_digest (reference raw) = job_digest job" "raw_receipt_digest (reference raw) = sha256_tag ?b"
    using job(3) by (auto simp: event_ok_def)
  let ?d = "public_receipt_dict job r res (sha256_tag ?b) at"
  from public_receipt_sealed [OF env job(2) sha256_tag_digest rm(2) _ eok(2) v(3,5,6)] eok(1) obtain c where
    c: "canonical_json (JObj ?d) = Inr c" "bindE (encode_utf8 (default_json (JObj ?d))) (seal_receipt env) = Inr (artifact_of job ''public'' c)"
      "seal_receipt env c = Inr (artifact_of job ''public'' c)" "receipt_copy env (artifact_of job ''public'' c) = Inr (sorted_dict ?d)"
    by (auto simp: event_ok_def)
  let ?a = "artifact_of job ''public'' c"
  obtain out where out: "outcome_of (res_outcome res) = Inr out" "out \<in> {SUCCEEDED, FAILED}" "outcome_value out = res_outcome res"
    using v(3) by (auto simp: outcome_of_def)
  let ?ev = "complete_event job r eid at out (res_reason res)"
  have acc: "accepts r ?ev"
    using eok new_event_id [OF inv(1) r eok(4)] rm(1) job(3,4) run v(4) out(2) by (auto simp: accepts_def complete_event_def kind_defs)
  have dist: "distinct (keys ?d)" by (simp add: public_receipt_dict_def keys_def)
  have fields: "jget (sorted_dict ?d) ''raw_receipt_digest'' = Inr (JStr (sha256_tag ?b))"
      "jget_opt (sorted_dict ?d) ''raw_receipt_digest'' = JStr (sha256_tag ?b)" "jget (sorted_dict ?d) ''terminal_outcome'' = Inr (JStr (res_outcome res))"
    using map_of_sort_keys [OF dist] by (simp_all add: jget_def jget_opt_def) (simp_all add: public_receipt_dict_def)
  have "\<exists>s'. finalize_claimed_execution env ?s ?ev raw ?a = Inr (advance r ?ev, s')
    \<and> records s' = map (\<lambda>x. if rec_job_id x = jid then advance r ?ev else x) (records ?s)
    \<and> retrieve env s' jid (job_digest job) = Inr ?a \<and> find_raw s' jid = Some raw"
  proof (rule finalize_succeeds [OF inv r run job(1) acc])
    show "verify_receipt env ?a = Inr ()" using c(3) by (simp add: verify_receipt_Inr artifact_of_def)
    show "check_outcome_link (advance r ?ev) ?a (sorted_dict ?d) = Inr ()"
      using fields(3) out(3) by (simp add: check_outcome_link_def artifact_of_def advance_def complete_event_def kind_defs opt_str_def)
    show "root_storage_id (reference raw) \<notin> set (map (\<lambda>x. root_storage_id (reference x)) (raw_receipts ?s))"
        "receipt_digest ?a \<notin> set (map row_digest (receipts ?s))"
      using rep raw(1) c(1) by (simp_all add: reportable_def Let_def e artifact_of_def)
  qed (use raw job c(4) fields eok in \<open>simp_all add: artifact_of_def complete_event_def kind_defs\<close>)
  then obtain s' where "complete_claimed_execution env ?s ?ev raw ?a = (Inr (advance r ?ev), s')"
    by (auto simp: complete_claimed_execution_def transaction_Inr complete_event_def)
  then show ?thesis
    using raw(1,4) c(2) out(1) e by (simp add: report_result_def next_event_def bindA_def liftA_def storeA_def returnA_def)
qed

lemma read_job_later:
  assumes "store_inv env s" and "(store_step env)\<^sup>*\<^sup>* s s'" and "read_job env s jid = Inr job"
  shows "read_job env s' jid = Inr job"
proof -
  have g: "grows s s'" using steps_grow [OF assms(2,1)] by (auto simp: forward_def)
  have "find_job s' jid = Some j" if "find_job s jid = Some j" for j
    using g that by (auto simp: grows_def find_job_def find_append)
  with assms(3) show ?thesis by (auto simp: read_job_def split: option.splits)
qed

lemma execute_claim_reports:
  assumes env: "env_ok env" and reach: "reachable env (w_store w)" "reachable env (meanwhile (w_store w))"
    and other: "(store_step env)\<^sup>*\<^sup>* (w_store w) (meanwhile (w_store w))"
    and r: "find_record (w_store w) jid = Some r" "find_record (meanwhile (w_store w)) jid = Some r" and run: "state r = RUNNING"
    and job: "read_sealed env (w_store w) jid = Inr job" "job_ok job" "job_id job = jid" "job_digest job = rec_job_digest r"
    and ready: "unknown_ready env events (w\<lparr>w_store := meanwhile (w_store w)\<rparr>) jid reason failure"
    and h: "handler_of hs (operation_id job) = Inr h" "h_run h job = Inr res"
    and rep: "reportable env res (events (w_tick w)) (meanwhile (w_store w)) job r"
  shows "\<exists>w'. execute_claim env hs events meanwhile jid (rec_job_digest r) w = (Inr (), w')"
proof -
  have inv: "ledger_inv (w_store w)" "ledger_inv (meanwhile (w_store w))" "receipt_inv env (meanwhile (w_store w))"
    using reachable_inv [OF reach(1)] reachable_inv [OF reach(2)] by (simp_all add: store_inv_def)
  have rd: "read_record (w_store w) jid = Inr r" using r(1) by (simp add: read_record_Inr_iff [OF inv(1)])
  have cnt: "execution_count r = 1"
    using ledger_inv_find_record [OF inv(1) r(1)] run by (simp add: record_ok_iff state_valid_def)
  have "read_job env (meanwhile (w_store w)) jid = Inr job"
    using read_job_later [OF reachable_inv [OF reach(1)] other] job(1) by (simp add: read_sealed_def)
  then obtain w' where "report_result env events job r res (w\<lparr>w_store := meanwhile (w_store w)\<rparr>) = (Inr (), w')"
    using report_result_succeeds [OF env, of "w\<lparr>w_store := meanwhile (w_store w)\<rparr>" jid r job events reason failure res]
      inv r(2) run job(2-4) ready rep by auto
  then show ?thesis
    using job rd cnt run h by (simp add: execute_claim_def bindA_queryA_case bindA_liftA) (simp add: bindA_def storeA_def)
qed

section \<open>Properties\<close>

lemma exn_name_plain: "plain (exn_name e) \<and> length (exn_name e) \<le> 128"
  by (cases e) (simp_all add: plain_char_def)

lemma worker_reasons: "SAFE_ID_RE ''worker_outcome_uncertain''" "SAFE_ID_RE ''worker_unavailable_after_claim''"
  "SAFE_ID_RE ''worker_queue_unavailable''" "plain ''WorkerUnavailable''" "plain ''WorkerQueueFull''"
  by (simp_all add: SAFE_ID_RE_def id_head_def id_tail_def is_lower_def is_digit_def less_eq_char_def plain_char_def)

text \<open>Whatever an execution raises, the store can record it.\<close>

definition settle_ready :: "pyenv \<Rightarrow> event_source \<Rightarrow> world list \<Rightarrow> string \<Rightarrow> bool" where
  "settle_ready env events ws jid \<longleftrightarrow> (\<forall>w\<in>set ws. \<forall>e. unknown_ready env events w jid ''worker_outcome_uncertain'' (exn_name e))"

lemma repair_job_Inr: "\<exists>w'. repair_job repair jid w = (Inr (), w')"
  by (cases repair) (auto simp: repair_job_def tryA_def split: prod.splits sum.splits)

lemma mark_lost:
  assumes env: "env_ok env" and reach: "reachable env (w_store w)" and r: "find_record (w_store w) jid = Some r" "state r = RUNNING"
    and reason: "SAFE_ID_RE reason" "plain failure" "length failure \<le> 128" and ready: "unknown_ready env events w jid reason failure"
  shows "\<exists>w' r'. mark_unknown env events jid (rec_job_digest r) reason failure w = (Inr (), w')
    \<and> find_record (w_store w') jid = Some r' \<and> state r' = UNKNOWN \<and> rec_reason r' = Some reason"
proof -
  from mark_unknown_succeeds [OF env reach r reason ready] obtain s' where
    m: "mark_unknown env events jid (rec_job_digest r) reason failure w = (Inr (), w\<lparr>w_store := s', w_tick := Suc (w_tick w)\<rparr>)"
    "records s' = map (\<lambda>x. if rec_job_id x = jid then lost_record r (events (w_tick w)) reason else x) (records (w_store w))" by blast
  have "ledger_inv (w_store w)" using reachable_inv [OF reach] by (simp add: store_inv_def)
  then have "rec_job_id (lost_record r (events (w_tick w)) reason) = jid"
    using ledger_inv_find_record r(1) by (simp add: lost_record_def)
  from find_record_map(1) [OF m(2) this r(1)] m(1) show ?thesis by (auto simp: lost_record_def)
qed

text \<open>The \<open>except\<close> clause of \<open>_execute\<close>.\<close>

lemma except_clause_marks:
  assumes env: "env_ok env" and reach: "reachable env (w_store w)" and r: "find_record (w_store w) jid = Some r" "state r = RUNNING"
    and ready: "unknown_ready env events w jid ''worker_outcome_uncertain'' (exn_name e)"
  shows "\<exists>w'. tryA (bindA (queryA (\<lambda>s. read_record s jid)) (\<lambda>current. if state current = RUNNING
      then mark_unknown env events jid (rec_job_digest r) ''worker_outcome_uncertain'' (exn_name e) else returnA ())) (\<lambda>_. returnA ()) w = (Inr (), w')
    \<and> lost_by_worker (w_store w') jid"
proof -
  obtain w' r' where m: "mark_unknown env events jid (rec_job_digest r) ''worker_outcome_uncertain'' (exn_name e) w = (Inr (), w')"
      "find_record (w_store w') jid = Some r'" "state r' = UNKNOWN" "rec_reason r' = Some ''worker_outcome_uncertain''"
    using mark_lost [OF env reach r worker_reasons(1) _ _ ready] exn_name_plain by blast
  have "ledger_inv (w_store w)" using reachable_inv [OF reach] by (simp add: store_inv_def)
  then have "read_record (w_store w) jid = Inr r" using r(1) by (simp add: read_record_Inr_iff)
  with m r(2) show ?thesis by (intro exI [of _ w']) (simp add: tryA_def bindA_queryA lost_by_worker_def)
qed

text \<open>
  C9. One execution settles its claim. Take a running job whose record no other client changes while the handler
  runs, and an event source whose next events are new and not earlier than the claim, in a store that holds no raw receipt of the
  job yet; the repair callback only reads the store. Then \<open>_execute\<close> never raises. If the handler returns a result that the receipt contracts admit, the job is terminal
  with the outcome and the reason the handler returned and a receipt that agrees. Otherwise, whatever the handler, the sealing of
  receipts or the store raised, it is so, or it is unknown with the reason \<open>worker_outcome_uncertain\<close>. It is not left running.
\<close>

theorem execution_settles:
  assumes env: "env_ok env" and rep: "repair_ok repair" and reach: "reachable env (w_store w)"
    and other: "(store_step env)\<^sup>*\<^sup>* (w_store w) (meanwhile (w_store w))"
    and r: "find_record (w_store w) jid = Some r" "find_record (meanwhile (w_store w)) jid = Some r" and run: "state r = RUNNING"
    and ready: "settle_ready env events [w, w\<lparr>w_store := meanwhile (w_store w)\<rparr>,
      w\<lparr>w_store := meanwhile (w_store w), w_tick := Suc (w_tick w)\<rparr>] jid"
  shows "\<exists>w' job. execute env hs events repair meanwhile jid (rec_job_digest r) w = (Inr (), w')
    \<and> read_sealed env (w_store w) jid = Inr job
    \<and> (finished_by env hs (w_store w') job \<or> lost_by_worker (w_store w') jid)
    \<and> (\<forall>h res. handler_of hs (operation_id job) = Inr h \<and> h_run h job = Inr res
          \<and> reportable env res (events (w_tick w)) (meanwhile (w_store w)) job r \<longrightarrow> finished_by env hs (w_store w') job)"
proof -
  let ?s = "meanwhile (w_store w)"
  have reach1: "reachable env ?s" using other reach by (induction rule: rtranclp_induct) (auto intro: reachable.step)
  have inv: "ledger_inv (w_store w)" "ledger_inv ?s" "receipt_inv env ?s"
    using reachable_inv [OF reach] reachable_inv [OF reach1] by (simp_all add: store_inv_def)
  from record_job [OF inv(1) reachable_verified [OF reach] r(1)] obtain j :: stored_job where j: "read_sealed env (w_store w) jid = Inr (row_job j)"
    "job_id (row_job j) = jid" "job_digest (row_job j) = rec_job_digest r" "job_ok (row_job j)" by blast
  have ready1: "unknown_ready env events (w\<lparr>w_store := ?s\<rparr>) jid ''worker_outcome_uncertain'' (exn_name e)" for e
    using ready by (simp add: settle_ready_def)
  let ?rep = "\<exists>h res. handler_of hs (operation_id (row_job j)) = Inr h \<and> h_run h (row_job j) = Inr res
      \<and> reportable env res (events (w_tick w)) ?s (row_job j) r"
  let ?m = "\<lambda>e. tryA (bindA (queryA (\<lambda>s. read_record s jid)) (\<lambda>current. if state current = RUNNING
      then mark_unknown env events jid (rec_job_digest r) ''worker_outcome_uncertain'' (exn_name e) else returnA ())) (\<lambda>_. returnA ())"
  have "\<exists>w1. tryA (execute_claim env hs events meanwhile jid (rec_job_digest r)) ?m w = (Inr (), w1)
      \<and> (finished_by env hs (w_store w1) (row_job j) \<or> lost_by_worker (w_store w1) jid) \<and> (?rep \<longrightarrow> finished_by env hs (w_store w1) (row_job j))"
  proof (cases "execute_claim env hs events meanwhile jid (rec_job_digest r) w")
    case (Pair res w1)
    show ?thesis
    proof (cases res)
      case (Inr u)
      with Pair execute_claim_Inr [where meanwhile = meanwhile and w = w, OF inv(2,3) j(1-3)] show ?thesis by (simp add: tryA_def)
    next
      case (Inl e)
      have no: "\<not> ?rep"
        using execute_claim_reports [where meanwhile = meanwhile and w = w, OF env reach reach1 other r run j(1,4,2,3) ready1] Pair Inl by fastforce
      have w1: "w1 \<in> set [w, w\<lparr>w_store := ?s\<rparr>, w\<lparr>w_store := ?s, w_tick := Suc (w_tick w)\<rparr>]"
        using execute_claim_Inl Pair Inl by fastforce
      then have "unknown_ready env events w1 jid ''worker_outcome_uncertain'' (exn_name e)"
        using ready by (simp only: settle_ready_def)
      moreover have "reachable env (w_store w1)" "find_record (w_store w1) jid = Some r" using w1 reach reach1 r by auto
      ultimately obtain w2 where "?m e w1 = (Inr (), w2)" "lost_by_worker (w_store w2) jid" using except_clause_marks [OF env] run by blast
      with Pair Inl no show ?thesis by (intro exI [of _ w2]) (auto simp: tryA_def)
    qed
  qed
  then obtain w1 where w1: "tryA (execute_claim env hs events meanwhile jid (rec_job_digest r)) ?m w = (Inr (), w1)"
    "finished_by env hs (w_store w1) (row_job j) \<or> lost_by_worker (w_store w1) jid" "?rep \<longrightarrow> finished_by env hs (w_store w1) (row_job j)" by blast
  obtain w' where w': "repair_job repair jid w1 = (Inr (), w')" using repair_job_Inr by blast
  have "w_store w' = w_store w1" using repair_read_only [OF rep, of jid] w' by (metis read_only_def snd_conv)
  with w1 w' j(1) show ?thesis
    by (intro exI [of _ w'] exI [of _ "row_job j"]) (auto simp: execute_def bindA_simps)
qed

definition running_record :: JobRecord where
  "running_record = advance sample_record sample_claim"

definition running_store :: store where
  "running_store = cas_result sample_store sample_record running_record sample_claim"

definition sample_events :: event_source where
  "sample_events n = (''ev-9'', ''2026-07-01T00:05:00Z'')"

abbreviation running_world :: world where
  "running_world \<equiv> \<lparr>w_store = running_store, w_tick = 0, w_published = [], w_publication_error = None\<rparr>"

lemma running_reachable: "reachable sample_env running_store"
proof -
  have inv: "ledger_inv sample_store" using reachable_inv [OF sample_reachable] by (simp add: store_inv_def)
  have "compare_and_append_tx sample_store sample_claim = Inr (running_record, running_store)"
    using sample_find sample_claimed
    by (subst compare_and_append_tx_Inr [OF inv])
      (auto simp: running_record_def running_store_def sample_claim_def sample_job_def sample_store_def initial_entry_def sample_record_def)
  then have "compare_and_append sample_store sample_claim = (Inr running_record, running_store)"
    by (simp add: compare_and_append_def transaction_Inr)
  with reachable.step [OF sample_reachable store_step.compare_and_append [of sample_env _ sample_claim]] show ?thesis by simp
qed

lemma running_find: "find_record running_store ''job-1'' = Some running_record" "state running_record = RUNNING"
  "running_job_ids running_store = [''job-1'']"
  by (simp_all add: find_record_def running_store_def cas_result_def sample_store_def running_record_def running_job_ids_def
      sample_record_def sample_claim_def kind_defs advance_def)

lemma sample_event_9: "event_ok ''ev-9'' ''2026-07-01T00:05:00Z''" "''2026-07-01T00:00:01Z'' \<le> ''2026-07-01T00:05:00Z''"
  by code_simp+

lemma running_ready: "unknown_ready sample_env sample_events \<lparr>w_store = running_store, w_tick = n, w_published = [], w_publication_error = None\<rparr> ''job-1'' reason failure"
proof -
  have j: "find_job running_store ''job-1'' = Some \<lparr>row_job = sample_job, row_submission = sample_submission\<rparr>"
    by (simp add: find_job_def running_store_def cas_result_def sample_store_def sample_sealed_def empty_store_def) (simp add: sample_job_def)
  have e: "raw_receipts running_store = []" "receipts running_store = []"
    "map (\<lambda>x. (led_job_id x, led_event_id x)) (ledger running_store) = [(''job-1'', ''ev-0''), (''job-1'', ''ev-1'')]"
    by (simp_all add: running_store_def cas_result_def sample_store_def sample_sealed_def empty_store_def initial_entry_def
        transition_entry_def sample_record_def running_record_def sample_claim_def)
  have "last_changed_at running_record = ''2026-07-01T00:00:01Z''" by (simp add: running_record_def sample_claim_def)
  then show ?thesis
    using sample_event_9 running_find(1)
    by (simp add: unknown_ready_def j e sample_events_def find_raw_def split: sum.splits)
qed

abbreviation sample_handlers :: handlers where
  "sample_handlers \<equiv> [(''nas.observe_groupware_runtime'', sample_handler)]"

lemma sample_fits:
  assumes "DIGEST_RE d"
  shows "fits_receipt sample_env (public_receipt_dict sample_job running_record sample_result d ''2026-07-01T00:05:00Z'')"
proof -
  obtain jd where jd: "job_digest sample_job = jd" "DIGEST_RE jd" using job_ok_digest [OF sample_job_ok] by blast
  let ?p = "public_receipt_dict sample_job running_record sample_result d ''2026-07-01T00:05:00Z''"
  have "last_changed_at running_record = ''2026-07-01T00:00:01Z''" by (simp add: running_record_def sample_claim_def)
  moreover have "job_id sample_job = ''job-1''" "operation_id sample_job = ''nas.observe_groupware_runtime''"
      "request_id sample_job = ''req-1''" "reply_target sample_job = ''ops''" by (simp_all add: sample_job_def)
  ultimately have p: "?p = [(''schema'', JStr RECEIPT_SCHEMA), (''kind'', JStr ''public''), (''job_id'', JStr ''job-1''), (''job_digest'', JStr jd),
      (''operation_id'', JStr ''nas.observe_groupware_runtime''), (''request_id'', JStr ''req-1''), (''reply_target'', JStr ''ops''),
      (''terminal_outcome'', JStr ''succeeded''), (''raw_receipt_digest'', JStr d), (''started_at'', JStr ''2026-07-01T00:00:01Z''),
      (''ended_at'', JStr ''2026-07-01T00:05:00Z''), (''exit_code'', JInt 0), (''removed_lines'', JInt 0),
      (''result'', JObj [(''status'', JStr ''observed''), (''facts'', JList [JObj [(''name'', JStr ''slot''), (''value'', JStr ''a'')]])])]"
    using jd(1) by (simp add: public_receipt_dict_def sample_result_def)
  have e: "encode_string jd = [CHR 0x22] @ jd @ [CHR 0x22]" "encode_string d = [CHR 0x22] @ d @ [CHR 0x22]"
    using encode_string_plain DIGEST_RE_plain jd(2) assms by blast+
  have l: "length jd = 71" "length d = 71" using jd(2) assms by (simp_all add: DIGEST_RE_def)
  have asc: "list_all (\<lambda>c. of_char c < (128::nat)) jd" "list_all (\<lambda>c. of_char c < (128::nat)) d"
    using DIGEST_RE_ascii jd(2) assms by blast+
  have q: "encode_string (c # x) = CHR 0x22 # escape_char c @ tl (encode_string x)" "encode_string [] = [CHR 0x22, CHR 0x22]" for c x
    by (simp_all add: encode_string_def)
  have z: "show_int 0 = ''0''" by code_simp
  have j: "jwf (rec_limit sample_env) (JObj ?p)" unfolding p by (simp add: sample_env_def keys_def numeral_eq_Suc, code_simp)
  have k: "sort_keys (JObj ?p) = JObj [(''ended_at'', JStr ''2026-07-01T00:05:00Z''), (''exit_code'', JInt 0), (''job_digest'', JStr jd), (''job_id'', JStr ''job-1''),
      (''kind'', JStr ''public''), (''operation_id'', JStr ''nas.observe_groupware_runtime''), (''raw_receipt_digest'', JStr d),
      (''removed_lines'', JInt 0), (''reply_target'', JStr ''ops''), (''request_id'', JStr ''req-1''),
      (''result'', JObj [(''facts'', JList [JObj [(''name'', JStr ''slot''), (''value'', JStr ''a'')]]), (''status'', JStr ''observed'')]),
      (''schema'', JStr RECEIPT_SCHEMA), (''started_at'', JStr ''2026-07-01T00:00:01Z''), (''terminal_outcome'', JStr ''succeeded'')]"
    unfolding p by simp
  have t: "list_all (\<lambda>c. of_char c < (128::nat)) (default_json (JObj ?p))" "length (default_json (JObj ?p)) \<le> MAX_RECEIPT_BYTES"
    unfolding p default_json_def
    by (simp_all add: e asc z RECEIPT_SCHEMA_def, simp_all add: encode_string_def escape_char_def l MAX_RECEIPT_BYTES_def)
  have u: "list_all (\<lambda>c. of_char c < (128::nat)) (dumps '','' '':'' (sort_keys (JObj ?p)))" "length (dumps '','' '':'' (sort_keys (JObj ?p))) < MAX_RECEIPT_BYTES"
    unfolding k by (simp_all add: e asc z RECEIPT_SCHEMA_def, simp_all add: encode_string_def escape_char_def l MAX_RECEIPT_BYTES_def)
  have v: "utf8_valid (dumps '','' '':'' (sort_keys (JObj ?p)) @ [CHR 0x0A])" using u(1) by (intro utf8_valid_ascii) simp
  show ?thesis
    unfolding fits_receipt_def canonical_json_def using j t utf8_valid_ascii [OF t(1)] u(2) v by (simp add: encode_utf8_def)
qed

lemma sample_reportable: "reportable sample_env sample_result (''ev-9'', ''2026-07-01T00:05:00Z'') running_store sample_job running_record"
proof -
  have "validate_result sample_env (result_value sample_result) = Inr ()" "SAFE_ID_RE ''handler_succeeded''" by code_simp+
  moreover have "raw_receipts running_store = []" "receipts running_store = []"
    by (simp_all add: running_store_def cas_result_def sample_store_def sample_sealed_def empty_store_def)
  ultimately show ?thesis
    using sample_fits [OF sha256_tag_digest [of "''raw''"]]
    by (simp add: reportable_def Let_def split: sum.splits) (simp add: sample_result_def MAX_RAW_RECEIPT_BYTES_def)
qed

theorem execution_settles_witness:
  "(\<exists>w'. execute sample_env [] sample_events None (\<lambda>s. s) ''job-1'' (rec_job_digest running_record) running_world = (Inr (), w')
      \<and> lost_by_worker (w_store w') ''job-1'')
   \<and> (\<exists>w'. execute sample_env sample_handlers sample_events None (\<lambda>s. s) ''job-1'' (rec_job_digest running_record) running_world = (Inr (), w')
      \<and> finished_by sample_env sample_handlers (w_store w') sample_job)"
proof -
  have "find_job running_store ''job-1'' = Some \<lparr>row_job = sample_job, row_submission = sample_submission\<rparr>"
    by (simp add: find_job_def running_store_def cas_result_def sample_store_def sample_sealed_def empty_store_def) (simp add: sample_job_def)
  then have j: "read_sealed sample_env running_store ''job-1'' = Inr sample_job" using sample_verify by (simp add: read_sealed_def read_job_def)
  have s: "\<exists>w' job. execute sample_env hs sample_events None (\<lambda>s. s) ''job-1'' (rec_job_digest running_record) running_world = (Inr (), w')
      \<and> read_sealed sample_env running_store ''job-1'' = Inr job
      \<and> (finished_by sample_env hs (w_store w') job \<or> lost_by_worker (w_store w') ''job-1'')
      \<and> (\<forall>h res. handler_of hs (operation_id job) = Inr h \<and> h_run h job = Inr res
            \<and> reportable sample_env res (sample_events 0) running_store job running_record \<longrightarrow> finished_by sample_env hs (w_store w') job)" for hs
    using execution_settles [of sample_env None running_world "\<lambda>s. s" "''job-1''" running_record sample_events hs]
      sample_env_ok running_reachable running_find
    by (simp add: repair_ok_def settle_ready_def running_ready)
  have "\<not> finished_by sample_env [] s sample_job" for s by (simp add: finished_by_def handler_of_def)
  with s [of "[]"] j have "\<exists>w'. execute sample_env [] sample_events None (\<lambda>s. s) ''job-1'' (rec_job_digest running_record) running_world = (Inr (), w')
      \<and> lost_by_worker (w_store w') ''job-1''" by auto
  moreover have "handler_of sample_handlers (operation_id sample_job) = Inr sample_handler" "h_run sample_handler sample_job = Inr sample_result"
    by (simp_all add: handler_of_def sample_job_def sample_handler_def)
  with s [of sample_handlers] j sample_reportable have "\<exists>w'. execute sample_env sample_handlers sample_events None (\<lambda>s. s) ''job-1'' (rec_job_digest running_record) running_world = (Inr (), w')
      \<and> finished_by sample_env sample_handlers (w_store w') sample_job" by (auto simp: sample_events_def)
  ultimately show ?thesis ..
qed

text \<open>
  A claim that was made is not dropped on the way to the worker. For a running job and an event source that
  gives a new event, \<open>enqueue\<close> either appends the claim to the queue, which then holds at
  most its capacity, or raises and leaves the job unknown with the reason why it was not executed.
\<close>

theorem enqueue_never_drops:
  assumes "env_ok env" and "repair_ok repair" and "reachable env (w_store (wk_world k))"
    and "find_record (w_store (wk_world k)) jid = Some r" and "state r = RUNNING"
    and "unknown_ready env events (wk_world k) jid ''worker_unavailable_after_claim'' ''WorkerUnavailable''"
    and "unknown_ready env events (wk_world k) jid ''worker_queue_unavailable'' ''WorkerQueueFull''"
  shows "(case enqueue env events repair jid (rec_job_digest r) k of
      (Inr u, k') \<Rightarrow> wk_thread k \<and> wk_live k \<and> k' = k\<lparr>wk_queue := wk_queue k @ [Some (jid, rec_job_digest r)]\<rparr> \<and> length (wk_queue k') \<le> wk_capacity k
    | (Inl e, k') \<Rightarrow> (\<exists>m. e = RootActionWorkerError m) \<and> wk_queue k' = wk_queue k \<and>
        (\<exists>r'. find_record (w_store (wk_world k')) jid = Some r' \<and> state r' = UNKNOWN
          \<and> rec_reason r' \<in> {Some ''worker_unavailable_after_claim'', Some ''worker_queue_unavailable''}))"
proof -
  have up: "\<exists>w' r'. give_up env events repair jid (rec_job_digest r) reason failure msg (wk_world k) = (Inl (RootActionWorkerError msg), w')
      \<and> find_record (w_store w') jid = Some r' \<and> state r' = UNKNOWN \<and> rec_reason r' = Some reason"
    if n: "SAFE_ID_RE reason" "plain failure" "length failure \<le> 128" "unknown_ready env events (wk_world k) jid reason failure"
    for reason failure msg
  proof -
    from mark_lost [OF assms(1,3,4,5) n] obtain w1 r' where
      m: "mark_unknown env events jid (rec_job_digest r) reason failure (wk_world k) = (Inr (), w1)"
        "find_record (w_store w1) jid = Some r'" "state r' = UNKNOWN" "rec_reason r' = Some reason" by auto
    obtain w2 where w2: "repair_job repair jid w1 = (Inr (), w2)" using repair_job_Inr by blast
    then have "w_store w2 = w_store w1" using repair_read_only [OF assms(2), of jid] by (metis read_only_def snd_conv)
    with m w2 show ?thesis by (intro exI [of _ w2] exI [of _ r']) (simp add: give_up_def bindA_simps)
  qed
  have inv: "ledger_inv (w_store (wk_world k))" using reachable_inv [OF assms(3)] by (simp add: store_inv_def)
  then have rd: "read_record (w_store (wk_world k)) jid = Inr r" using assms(4) by (simp add: read_record_Inr_iff)
  have cnt: "execution_count r = 1"
    using ledger_inv_find_record [OF inv assms(4)] assms(5) by (simp add: record_ok_iff state_valid_def)
  show ?thesis
    using up [OF worker_reasons(2,4) _ assms(6), of "''root-action worker is unavailable''"]
      up [OF worker_reasons(3,5) _ assms(7), of "''root-action worker queue is full''"] assms(5) cnt
    by (auto simp: enqueue_def on_world_def rd split: prod.splits sum.splits)
qed

theorem enqueue_never_drops_witness:
  "\<exists>k'. enqueue sample_env sample_events None ''job-1'' (rec_job_digest running_record)
      \<lparr>wk_world = running_world, wk_queue = [], wk_capacity = 32, wk_thread = True, wk_live = True, wk_stop = False\<rparr> = (Inr (), k')
    \<and> length (wk_queue k') \<le> 32"
proof -
  let ?k = "\<lparr>wk_world = running_world, wk_queue = [], wk_capacity = 32, wk_thread = True, wk_live = True, wk_stop = False\<rparr>"
  have "ledger_inv running_store" using reachable_inv [OF running_reachable] by (simp add: store_inv_def)
  then have "read_record running_store ''job-1'' = Inr running_record" using running_find by (simp add: read_record_Inr_iff)
  moreover have "execution_count running_record = 1" by (simp add: running_record_def sample_claim_def kind_defs)
  ultimately have "fst (enqueue sample_env sample_events None ''job-1'' (rec_job_digest running_record) ?k) = Inr ()"
    using running_find by (simp add: enqueue_def)
  with enqueue_never_drops [of sample_env None ?k "''job-1''" running_record sample_events] sample_env_ok running_reachable running_find
  show ?thesis by (simp add: repair_ok_def running_ready split: prod.splits sum.splits)
qed

text \<open>
  C10. After the recovery at start-up no job is left running: \<open>recover_orphaned_claims\<close> returns exactly the
  jobs that were running, each is unknown with the reason \<open>broker_restarted_with_running_job\<close>, every
  other record is untouched, and the store then lists no running job. The event source
  has to give a new event at each turn.
\<close>

theorem recovery_leaves_nothing_running:
  assumes "env_ok env" and "repair_ok repair" and "reachable env (w_store w)"
    and "recoverable env events repair w (running_job_ids (w_store w))"
  shows "\<exists>w'. recover_orphaned_claims env events repair w = (Inr (running_job_ids (w_store w)), w')
    \<and> running_job_ids (w_store w') = [] \<and> (\<forall>jid\<in>set (running_job_ids (w_store w)). lost_by_restart (w_store w') jid)
    \<and> (\<forall>jid. jid \<notin> set (running_job_ids (w_store w)) \<longrightarrow> find_record (w_store w') jid = find_record (w_store w) jid)"
proof -
  let ?ids = "running_job_ids (w_store w)"
  have inv: "ledger_inv (w_store w)" using reachable_inv [OF assms(3)] by (simp add: store_inv_def)
  from recover_claims_succeed [OF assms(1,2,3) running_job_ids_distinct [OF inv] assms(4)] obtain w' where
    w': "recover_claims env events repair ?ids w = (Inr ?ids, w')" "\<forall>jid\<in>set ?ids. lost_by_restart (w_store w') jid"
      "\<forall>i. i \<notin> set ?ids \<longrightarrow> find_record (w_store w') i = find_record (w_store w) i"
    using running_job_ids_iff [OF inv] by blast
  have "reachable env (w_store w')"
    using client_reachable [OF recover_claims_client [OF assms(2)] assms(3), of events ?ids] w'(1) by simp
  then have inv': "ledger_inv (w_store w')" using reachable_inv by (simp add: store_inv_def)
  have "jid \<notin> set (running_job_ids (w_store w'))" for jid
  proof (cases "jid \<in> set ?ids")
    case True
    with w'(2) have "lost_by_restart (w_store w') jid" by blast
    then show ?thesis by (auto simp: running_job_ids_iff [OF inv'] lost_by_restart_def)
  next
    case False
    with w'(3) show ?thesis by (simp add: running_job_ids_iff [OF inv'] running_job_ids_iff [OF inv])
  qed
  then have "running_job_ids (w_store w') = []" by (metis list.set_intros(1) neq_Nil_conv)
  with w' show ?thesis by (intro exI [of _ w']) (simp add: recover_orphaned_claims_def bindA_queryA)
qed

theorem recovery_leaves_nothing_running_witness:
  "\<exists>w'. recover_orphaned_claims sample_env sample_events None running_world = (Inr [''job-1''], w')
    \<and> running_job_ids (w_store w') = []"
  using recovery_leaves_nothing_running [of sample_env None running_world sample_events] sample_env_ok running_reachable running_find
  by (auto simp: repair_ok_def running_ready)

end
