(* ===== verification/Broker_Properties.thy ===== *)
theory Broker_Properties
  imports Broker Worker_Properties
begin

text \<open>
  Properties of the broker: a retry of a submission changes nothing and gets the stored answer, a result is
  shown only to the peer that submitted the job, and a disabled operation is closed as rejected.
\<close>

section \<open>The relations the operations keep\<close>

text \<open>Neither the store nor the event source is touched.\<close>

definition quiet :: "world \<Rightarrow> world \<Rightarrow> bool" where
  "quiet w w' \<longleftrightarrow> w_store w' = w_store w \<and> w_tick w' = w_tick w"

interpretation qt: publication quiet
  by unfold_locales (auto simp: quiet_def)

text \<open>The memory of publications stays within its limit, with one entry per job.\<close>

definition memory_ok :: "world \<Rightarrow> bool" where
  "memory_ok w \<longleftrightarrow> distinct (map fst (w_published w)) \<and> length (w_published w) \<le> PUBLIC_CATALOG_JOB_LIMIT"

definition keeps_memory :: "world \<Rightarrow> world \<Rightarrow> bool" where
  "keeps_memory w w' \<longleftrightarrow> (memory_ok w \<longrightarrow> memory_ok w')"

lemma prune_drop: "prune n xs = drop (length xs - n) xs"
  by (induction xs) (auto simp: Suc_diff_le)

lemma prune_ok: "distinct (map fst xs) \<Longrightarrow> distinct (map fst (prune n xs)) \<and> length (prune n xs) \<le> n"
  by (induction xs) auto

lemma remember_memory:
  "memory_ok w \<Longrightarrow> memory_ok (w\<lparr>w_published := prune PUBLIC_CATALOG_JOB_LIMIT
     (filter (\<lambda>p. fst p \<noteq> jid) (w_published w) @ [(jid, d, n)])\<rparr>)"
proof -
  assume "memory_ok w"
  then have "distinct (map fst (filter (\<lambda>p. fst p \<noteq> jid) (w_published w) @ [(jid, d, n)]))"
    by (auto simp: memory_ok_def distinct_map_filter)
  from prune_ok [OF this] show ?thesis by (simp add: memory_ok_def)
qed

interpretation me: store_publication keeps_memory env
  by unfold_locales (auto simp: keeps_memory_def remember_memory, auto simp: memory_ok_def)

text \<open>The store moves by its own steps only.\<close>

definition by_steps :: "pyenv \<Rightarrow> world \<Rightarrow> world \<Rightarrow> bool" where
  "by_steps env w w' \<longleftrightarrow> (store_step env)\<^sup>*\<^sup>* (w_store w) (w_store w')"

interpretation st: store_publication "by_steps env" env
  by unfold_locales (auto simp: by_steps_def)

lemma client_by_steps: "client env m \<longleftrightarrow> keeps (by_steps env) m"
  by (simp add: client_def keeps_def by_steps_def)

lemma quiet_store: "keeps quiet m \<Longrightarrow> w_store (snd (m w)) = w_store w \<and> w_tick (snd (m w)) = w_tick w"
  by (simp add: keeps_def quiet_def)

section \<open>Retries\<close>

lemma read_sealed_iff: "read_sealed env s jid = Inr job \<Longrightarrow> \<exists>j. find_job s jid = Some j \<and> row_job j = job"
  by (auto simp: read_sealed_def read_job_def result_simps split: option.splits)

lemma submit_existing:
  assumes "seal_typed_manifest env DEFAULT_REGISTRY raw = Inr job" and "read_sealed env (w_store w) (job_id job) = Inr existing"
  shows "submit env b meanwhile raw peer w = recover_idempotent env b job peer w"
  using assms by (simp add: submit_def bindA_queryA)

text \<open>The public projection of the job can be built, and it shows its revision.\<close>

definition publishable :: "pyenv \<Rightarrow> broker \<Rightarrow> store \<Rightarrow> string \<Rightarrow> bool" where
  "publishable env b s jid \<longleftrightarrow>
     (case public_projection env b s jid of Inl _ \<Rightarrow> False | Inr pub \<Rightarrow> \<not> isl (bundle_revision env pub))"

lemma publishable_iff:
  "publishable env b s jid \<longleftrightarrow> (\<exists>pub n. public_projection env b s jid = Inr pub \<and> bundle_revision env pub = Inr n)"
  by (auto simp: publishable_def isl_def split: sum.splits) (metis sum.exhaust)

text \<open>Then repairing the public files answers, whatever the sink does.\<close>

lemma repair_public_answers:
  assumes "publishable env b (w_store w) jid"
  shows "\<exists>pub w'. repair_public env b jid None w = (Inr pub, w')"
proof -
  obtain pub n where p: "public_projection env b (w_store w) jid = Inr pub" "bundle_revision env pub = Inr n"
    using assms by (auto simp: publishable_iff)
  then obtain r where "read_record (w_store w) jid = Inr r" by (auto simp: public_projection_def bindE_Inr_iff)
  then have c: "current_bundle env b jid None (w_store w) = Inr pub" using p(1) by (simp add: current_bundle_def)
  have r: "\<exists>w'. bindA (remember_publication env pub) (\<lambda>_. returnA pub) w0 = (Inr pub, w')" for w0
    using p(2) by (simp add: remember_publication_def bindA_def liftA_def returnA_def)
  have "\<exists>y w'. publish_best_effort env b pub w = (Inr y, w')"
    using r by (auto simp: publish_best_effort_def split: prod.splits sum.splits) blast
  then show ?thesis
    using p c by (auto simp: repair_public_def bindA_queryA bindA_liftA Let_def queryA_def)
qed

lemma recover_idempotent_answers:
  assumes "publishable env b (w_store w) (job_id job)" and "read_sealed env (w_store w) (job_id job) = Inr job"
    and "submission_metadata (w_store w) (job_id job) = Inr m" and "peer_uid m = uid peer" and "peer_gid m = gid peer"
  shows "\<exists>x w'. recover_idempotent env b job peer w = (Inr x, w')"
proof -
  obtain pub where "public_projection env b (w_store w) (job_id job) = Inr pub"
    using assms(1) by (auto simp: publishable_iff)
  then obtain r receipt status where "read_record (w_store w) (job_id job) = Inr r" "read_optional_receipt env (w_store w) job = Inr receipt"
      "broker_status env b (w_store w) job r receipt = Inr status"
    using assms(2) by (auto simp: public_projection_def bindE_Inr_iff)
  moreover obtain pub w' where "repair_public env b (job_id job) None w = (Inr pub, w')"
    using repair_public_answers [OF assms(1)] by blast
  ultimately show ?thesis
    using assms(2-5) by (simp add: recover_idempotent_def bindA_queryA bindA_liftA bindA_simps returnA_def)
qed

text \<open>
  C11. A retry is idempotent. When the job id of a submission is already stored, \<open>submit\<close> changes neither the store
  nor the event source, whatever it returns. The same manifest from the same user and group gets the job and
  its current status, provided that the public projection of the job can be built; no failure of the sink prevents it. Any
  other manifest or peer is refused as a conflicting retry.
\<close>

theorem submit_retry_idempotent:
  assumes "seal_typed_manifest env DEFAULT_REGISTRY raw = Inr job" and "read_sealed env (w_store w) (job_id job) = Inr existing"
    and "submission_metadata (w_store w) (job_id job) = Inr m" and "submit env b meanwhile raw peer w = (res, w')"
  shows "w_store w' = w_store w \<and> w_tick w' = w_tick w
    \<and> (if existing = job \<and> peer_uid m = uid peer \<and> peer_gid m = gid peer
       then (\<forall>x. res = Inr x \<longrightarrow> sub_job_id x = job_id job \<and> sub_job_digest x = job_digest job
                \<and> status_of env b (w_store w) (job_id job) = Inr (sub_status x))
            \<and> (publishable env b (w_store w) (job_id job) \<longrightarrow> (\<exists>x. res = Inr x))
       else res = Inl (BrokerContractError ''conflicting job retry is blocked'') \<and> w' = w)"
proof -
  have r: "recover_idempotent env b job peer w = (res, w')" using submit_existing [OF assms(1,2)] assms(4) by simp
  have "w_store w' = w_store w" "w_tick w' = w_tick w"
    using quiet_store [OF qt.recover_idempotent_keeps, of env b job peer w] r by auto
  moreover have "sub_job_id x = job_id job \<and> sub_job_digest x = job_digest job \<and> status_of env b (w_store w) (job_id job) = Inr (sub_status x)"
    if "res = Inr x" "existing = job" for x
    using r that assms(2,3) by (auto simp: recover_idempotent_def bindA_Inr_iff status_of_def result_simps)
  moreover have "\<exists>x. res = Inr x"
    if "existing = job" "peer_uid m = uid peer" "peer_gid m = gid peer" "publishable env b (w_store w) (job_id job)"
    using recover_idempotent_answers [OF that(4) assms(2) [unfolded that(1)] assms(3) that(2,3)] r by auto
  moreover have "res = Inl (BrokerContractError ''conflicting job retry is blocked'') \<and> w' = w"
    if "\<not> (existing = job \<and> peer_uid m = uid peer \<and> peer_gid m = gid peer)"
    using r that assms(2,3) by (auto simp: recover_idempotent_def bindA_queryA raise_if_def split: if_splits)
  ultimately show ?thesis by auto
qed

section \<open>A broker to try the properties on\<close>

definition sample_broker :: broker where
  "sample_broker = \<lparr>bk_events = sample_events, bk_sink = None, bk_policies = DEFAULT_EXECUTION_POLICIES,
     bk_submission_policy = \<lparr>allowed_uids = {0}, allowed_gids = {}, maximum_age_seconds = 900, maximum_future_skew_seconds = 30,
       limits = DEFAULT_LIMITS\<rparr>,
     bk_failure_policy = DEFAULT_FAILURE_POLICY, bk_dispatch = None\<rparr>"

definition sample_world :: world where
  "sample_world = \<lparr>w_store = sample_store, w_tick = 0, w_published = [], w_publication_error = None\<rparr>"

definition stranger :: BrokerPeerIdentity where
  "stranger = \<lparr>uid = 4242, gid = 4242, pid = 7\<rparr>"

lemma sample_stored: "read_sealed sample_env sample_store (job_id sample_job) = Inr sample_job"
  "submission_metadata sample_store (job_id sample_job) = Inr sample_submission"
  using sample_verify
  by (simp_all add: read_sealed_def read_job_def submission_metadata_def find_job_def sample_store_def sample_sealed_def)

text \<open>The public projection of the sample job.\<close>

lemma sample_manifest_read:
  "bindE (manifest_copy sample_env sample_job) jobj = Inr (case sort_keys sample_manifest of JObj kvs \<Rightarrow> kvs | _ \<Rightarrow> [])"
proof -
  have "jwf (rec_limit sample_env) sample_manifest" using sample_jwf by (simp add: sample_env_def)
  moreover have c: "canonical_json sample_manifest = Inr sample_bytes"
    using sample_bytes_facts(1) by (simp add: canonical_json_def sample_bytes_def encode_utf8_def)
  ultimately have "json_loads sample_env dict_hook sample_bytes = Inr (sort_keys sample_manifest)" "decode_utf8 sample_bytes = Inr sample_bytes"
    using canonical_json_loads [OF c _ good_hook_dict_hook] by auto
  then show ?thesis by (simp add: manifest_copy_def sample_job_def jobj_def) (simp add: sample_manifest_def)
qed

lemma sample_lineage:
  "\<exists>n. lineage_summary sample_store ''lin-1'' ''2026-07-01T00:00:00Z'' DEFAULT_FAILURE_POLICY = Inr
     \<lparr>sum_lineage_id = ''lin-1'', measured_at = ''2026-07-01T00:00:00Z'', sum_window_seconds = 86400, submission_count = n,
      terminal_counts = [(''canceled'', 0), (''expired'', 0), (''failed'', 0), (''prestart_failed'', 0), (''rejected'', 0), (''succeeded'', 0)],
      technical_failure_count = 0, sum_source = ''root_owned_ledger''\<rparr> \<and> n \<in> {0, 1}"
proof -
  have at: "timestamp_ok ''2026-07-01T00:00:00Z''" using sample_event_oks(1) by (simp add: event_ok_def)
  obtain c i where "window_start ''2026-07-01T00:00:00Z'' 86400 = Inr c" "parse_instant ''2026-07-01T00:00:00Z'' = Inr i"
    using window_start_ok [OF at, of 86400] timestamp_ok_parse [OF at] by auto
  then show ?thesis
    by (auto simp: lineage_summary_def DEFAULT_FAILURE_POLICY_def joined_def sample_store_def sample_sealed_def empty_store_def Let_def
        lineage_summary_post_init_def terminal_count_def is_technical_failure_def sample_record_def)
qed

abbreviation sample_fields :: dict where
  "sample_fields \<equiv> (case sort_keys sample_manifest of JObj kvs \<Rightarrow> kvs | _ \<Rightarrow> [])"

lemma sample_field:
  assumes "k \<in> {''parameters'', ''expected_pre_state'', ''review''}"
  obtains v where "jget sample_fields k = Inr v" "plain_json v" "text_size v \<le> 2000" "jwf 12 v"
proof -
  have "list_all (\<lambda>k. case jget sample_fields k of Inr v \<Rightarrow> plain_json v \<and> text_size v \<le> 2000 \<and> jwf 12 v | Inl _ \<Rightarrow> False)
      [''parameters'', ''expected_pre_state'', ''review'']" by code_simp
  then show thesis using assms that by (auto split: sum.splits)
qed

lemma sample_history:
  obtains views where "read_ledger sample_store ''job-1'' = Inr [(initial_entry sample_record)\<lparr>sequence := 1\<rparr>]"
    "history_projection sample_job [(initial_entry sample_record)\<lparr>sequence := 1\<rparr>] = Inr
       [(''schema'', JStr HISTORY_SCHEMA), (''job_id'', JStr ''job-1''), (''job_digest'', JStr (job_digest sample_job)), (''events'', JList views)]"
    "list_all plain_json views" "text_size (JList views) \<le> 1000" "list_all (jwf 12) views"
proof -
  let ?e = "(initial_entry sample_record)\<lparr>sequence := 1\<rparr>"
  have l: "read_ledger sample_store ''job-1'' = Inr [?e]"
    by (simp add: read_ledger_def ledger_of_def sample_store_def sample_sealed_def empty_store_def initial_entry_def sample_record_def)
  have f: "history_first sample_job ?e = Inr sample_record"
    using sample_initial by (simp add: history_first_def initial_entry_def sample_record_def)
  have h: "history_projection sample_job [?e] = Inr
      [(''schema'', JStr HISTORY_SCHEMA), (''job_id'', JStr ''job-1''), (''job_digest'', JStr (job_digest sample_job)), (''events'', JList [entry_view ?e])]"
    using f by (simp add: history_projection_def) (simp add: initial_entry_def sample_record_def sample_job_def)
  have "list_all plain_json [entry_view ?e]" "text_size (JList [entry_view ?e]) \<le> 1000" "list_all (jwf 12) [entry_view ?e]"
    by (simp_all add: entry_view_def initial_entry_def sample_record_def opt_str_def keys_def numeral_eq_Suc) (code_simp)+
  with l h show thesis by (rule that)
qed

lemma sample_digits: "show_nat 86400 = ''86400''" "show_nat 0 = ''0''" "show_nat 1 = ''1''"
  by (simp_all add: show_nat.simps)

lemma sample_job_fields: "job_id sample_job = ''job-1''" "operation_id sample_job = ''nas.observe_groupware_runtime''" "operation_version sample_job = 1"
    "request_id sample_job = ''req-1''" "lineage_id sample_job = ''lin-1''" "reply_target sample_job = ''ops''" "submitted_at sample_job = ''2026-07-01T00:00:00Z''"
  by (simp_all add: sample_job_def)

abbreviation sample_counts :: "int \<Rightarrow> LineageSummary" where
  "sample_counts n \<equiv> \<lparr>sum_lineage_id = ''lin-1'', measured_at = ''2026-07-01T00:00:00Z'', sum_window_seconds = 86400, submission_count = n,
      terminal_counts = [(''canceled'', 0), (''expired'', 0), (''failed'', 0), (''prestart_failed'', 0), (''rejected'', 0), (''succeeded'', 0)],
      technical_failure_count = 0, sum_source = ''root_owned_ledger''\<rparr>"

lemma sample_lineage_view:
  assumes "n \<in> {0, 1}"
  shows "jwf (Suc (Suc (Suc d))) (lineage_view (Some (sample_counts n)))" and "plain_json (lineage_view (Some (sample_counts n)))"
    and "text_size (lineage_view (Some (sample_counts n))) \<le> 2000"
  using assms sample_digits
  by (auto simp: lineage_view_def lineage_summary_projection_def keys_def show_int_def MAX_STR_DIGITS_def plain_char_def)

lemma sample_job_view:
  assumes "plain_json pr" "text_size pr \<le> 2000" "jwf 12 pr" and "plain_json ps" "text_size ps \<le> 2000" "jwf 12 ps"
    and "plain_json rv" "text_size rv \<le> 2000" "jwf 12 rv"
  shows "plain_json (job_view sample_job pr ps rv)" and "text_size (job_view sample_job pr ps rv) \<le> 20000" and "jwf 18 (job_view sample_job pr ps rv)"
proof -
  have "length (job_digest sample_job) = 71" "plain (job_digest sample_job)"
    using job_ok_digest [OF sample_job_ok] DIGEST_RE_plain by (auto simp: DIGEST_RE_def)
  then show "plain_json (job_view sample_job pr ps rv)" "text_size (job_view sample_job pr ps rv) \<le> 20000"
    using assms sample_digits by (simp_all add: job_view_def sample_job_fields keys_def show_int_def plain_char_def)
  have j0: "jwf d pr \<Longrightarrow> jwf d ps \<Longrightarrow> jwf d rv \<Longrightarrow> jwf (Suc d) (job_view sample_job pr ps rv)" for d
    using sample_digits by (simp add: job_view_def sample_job_fields keys_def MAX_STR_DIGITS_def)
  have "jwf 17 pr" "jwf 17 ps" "jwf 17 rv" using assms by (auto intro: jwf_mono)
  from j0 [OF this] show "jwf 18 (job_view sample_job pr ps rv)" by simp
qed

lemma sample_publishable: "publishable sample_env sample_broker sample_store ''job-1''"
proof -
  have jd: "DIGEST_RE (job_digest sample_job)" using job_ok_digest [OF sample_job_ok] .
  have len: "length (job_digest sample_job) = 71" "plain (job_digest sample_job)" using jd DIGEST_RE_plain by (auto simp: DIGEST_RE_def)
  obtain n where sum: "lineage_summary sample_store ''lin-1'' ''2026-07-01T00:00:00Z'' DEFAULT_FAILURE_POLICY = Inr (sample_counts n)" "n \<in> {0, 1}"
    using sample_lineage by blast
  note lv = sample_lineage_view [OF sum(2)]
  obtain pr where pr: "jget sample_fields ''parameters'' = Inr pr" "plain_json pr" "text_size pr \<le> 2000" "jwf 12 pr" using sample_field [of "''parameters''"] by auto
  obtain ps where ps: "jget sample_fields ''expected_pre_state'' = Inr ps" "plain_json ps" "text_size ps \<le> 2000" "jwf 12 ps" using sample_field [of "''expected_pre_state''"] by auto
  obtain rv where rv: "jget sample_fields ''review'' = Inr rv" "plain_json rv" "text_size rv \<le> 2000" "jwf 12 rv" using sample_field [of "''review''"] by auto
  obtain views where hi: "read_ledger sample_store ''job-1'' = Inr [(initial_entry sample_record)\<lparr>sequence := 1\<rparr>]"
    "history_projection sample_job [(initial_entry sample_record)\<lparr>sequence := 1\<rparr>] = Inr
       [(''schema'', JStr HISTORY_SCHEMA), (''job_id'', JStr ''job-1''), (''job_digest'', JStr (job_digest sample_job)), (''events'', JList views)]"
    "list_all plain_json views" "text_size (JList views) \<le> 1000" "list_all (jwf 12) views" by (rule sample_history)
  let ?hi = "[(''schema'', JStr HISTORY_SCHEMA), (''job_id'', JStr ''job-1''), (''job_digest'', JStr (job_digest sample_job)), (''events'', JList views)]"
  let ?st = "[(''schema'', JStr STATUS_SCHEMA), (''job'', job_view sample_job pr ps rv), (''state'', state_view sample_record),
          (''lineage_24h'', lineage_view (Some (sample_counts n))), (''receipt'', JNull)]"
  have rec: "read_optional_receipt sample_env sample_store sample_job = Inr None"
    by (simp add: read_optional_receipt_def retrieve_def current_receipt_def sample_store_def sample_sealed_def empty_store_def is_not_found_def)
  have "validate_record sample_record = Inr ()" using sample_record_ok by (simp add: record_ok_def)
  then have "status_projection sample_env sample_job sample_record None (Some (sample_counts n)) = Inr ?st"
    by (simp add: status_projection_def sample_ids sample_manifest_read pr(1) ps(1) rv(1) receipt_view_def)
  then have st: "broker_status sample_env sample_broker sample_store sample_job sample_record None = Inr ?st"
    using sum(1) by (simp add: broker_status_def sample_broker_def sample_job_def sample_record_def)
  have strs: "plain ''schema'' \<and> plain ''job'' \<and> plain ''state'' \<and> plain ''lineage_24h'' \<and> plain ''receipt'' \<and> plain ''events''
      \<and> plain ''job_id'' \<and> plain ''job_digest'' \<and> plain ''job-1'' \<and> plain STATUS_SCHEMA \<and> plain HISTORY_SCHEMA
      \<and> length STATUS_SCHEMA \<le> 128 \<and> length HISTORY_SCHEMA \<le> 128" by code_simp
  have sv: "plain_json (state_view sample_record) \<and> text_size (state_view sample_record) \<le> 2000 \<and> jwf 12 (state_view sample_record)"
    by (simp add: state_view_def sample_record_def opt_str_def keys_def numeral_eq_Suc) code_simp
  note jv = sample_job_view [OF pr(2-4) ps(2-4) rv(2-4)]
  obtain sj where sj: "job_view sample_job pr ps rv = JObj sj" "jget_opt sj ''job_id'' = JStr ''job-1''" "jget_opt sj ''job_digest'' = JStr (job_digest sample_job)"
    by (simp add: job_view_def jget_opt_def) (simp add: sample_job_def)
  have id: "SAFE_ID_RE ''job-1''" by code_simp
  have j1: "list_all (jwf d) views \<Longrightarrow> jwf (Suc (Suc d)) (JObj ?hi)" for d by (simp add: keys_def)
  have "list_all (jwf 17) views" using hi(5) by (auto simp: list_all_iff intro: jwf_mono)
  from j1 [OF this] have jh: "jwf (rec_limit sample_env - 1) (JObj ?hi)" by (simp add: sample_env_def)
  have j2: "jwf d (job_view sample_job pr ps rv) \<Longrightarrow> jwf d (state_view sample_record) \<Longrightarrow> jwf d (lineage_view (Some (sample_counts n)))
      \<Longrightarrow> jwf (Suc d) (JObj ?st)" for d by (simp add: keys_def)
  have "jwf 18 (state_view sample_record)" "jwf 18 (lineage_view (Some (sample_counts n)))" using lv(1) [of 15] sv by (auto intro: jwf_mono)
  from j2 [OF jv(3) this] have js: "jwf (rec_limit sample_env - 1) (JObj ?st)" by (simp add: sample_env_def)
  obtain sb hb art where b: "canonical_json (JObj ?st) = Inr sb" "canonical_json (JObj ?hi) = Inr hb" "embeddable sample_env sb (sorted_dict ?st)"
      "build_public_projection sample_env ''job-1'' (job_digest sample_job) sb hb None = Inr art"
  proof (rule plain_build [of ?st sample_env ?hi "''job-1''" "job_digest sample_job" sj])
    show "jwf (rec_limit sample_env - 1) (JObj ?st)" by (rule js)
    show "jwf (rec_limit sample_env - 1) (JObj ?hi)" by (rule jh)
  qed (use strs lv(2,3) sv jv(1,2) sj id jd hi len in \<open>simp_all add: keys_def jget_opt_def\<close>)
  have p: "public_projection sample_env sample_broker sample_store ''job-1'' = Inr \<lparr>pb_job_id = ''job-1'', pb_job_digest = job_digest sample_job,
      status_bytes = sb, history_bytes = hb, pb_digest = projection_digest art, projection_bytes = canonical_bytes art\<rparr>"
    using sample_stored(1) rec sample_read st b hi(1,2) sample_job_fields(1)
    by (simp add: public_projection_def canonical_status_bytes_def canonical_history_bytes_def jget_opt_def)
  have "json_loads sample_env dict_hook sb = Inr (JObj (sorted_dict ?st))" "decode_utf8 sb = Inr sb"
    using load_canonical_Inr(2) [OF embeddable_load [OF b(3)]] b(1) by (auto simp: canonical_json_def decode_utf8_def encode_utf8_Inr_iff)
  moreover have "index (JObj (sorted_dict ?st)) ''state'' = Inr (sort_keys (state_view sample_record))"
    using map_of_sort_keys [of ?st "''state''"] by (simp add: index_def jget_def keys_def)
  moreover have "index (sort_keys (state_view sample_record)) ''revision'' = Inr (JInt 0)"
    by (simp add: state_view_def sample_record_def opt_str_def index_def jget_def)
  ultimately show ?thesis unfolding publishable_def p by (simp add: bundle_revision_def)
qed

definition submitter :: BrokerPeerIdentity where
  "submitter = \<lparr>uid = 0, gid = 0, pid = 9\<rparr>"

theorem submit_retry_idempotent_witness:
  "submit sample_env sample_broker (\<lambda>s. s) sample_bytes stranger sample_world
     = (Inl (BrokerContractError ''conflicting job retry is blocked''), sample_world)
   \<and> (\<exists>x w'. submit sample_env sample_broker (\<lambda>s. s) sample_bytes submitter sample_world = (Inr x, w') \<and> sub_job_id x = ''job-1''
        \<and> status_of sample_env sample_broker sample_store ''job-1'' = Inr (sub_status x) \<and> w_store w' = sample_store)"
proof -
  have id: "job_id sample_job = ''job-1''" "w_store sample_world = sample_store" by (simp_all add: sample_job_def sample_world_def)
  obtain res w' where r: "submit sample_env sample_broker (\<lambda>s. s) sample_bytes stranger sample_world = (res, w')" by fastforce
  from submit_retry_idempotent [OF sample_seals _ _ r, of sample_job sample_submission] sample_stored r
  have "submit sample_env sample_broker (\<lambda>s. s) sample_bytes stranger sample_world
      = (Inl (BrokerContractError ''conflicting job retry is blocked''), sample_world)"
    by (simp add: sample_world_def stranger_def sample_submission_def)
  moreover obtain res w' where q: "submit sample_env sample_broker (\<lambda>s. s) sample_bytes submitter sample_world = (res, w')" by fastforce
  from submit_retry_idempotent [OF sample_seals _ _ q, of sample_job sample_submission] sample_stored sample_publishable
  have "w_store w' = sample_store" "\<exists>x. res = Inr x \<and> sub_job_id x = ''job-1'' \<and> status_of sample_env sample_broker sample_store ''job-1'' = Inr (sub_status x)"
    by (auto simp: id submitter_def sample_submission_def)
  ultimately show ?thesis using q by auto
qed

section \<open>Who sees a result\<close>

definition owns :: "store \<Rightarrow> BrokerPeerIdentity \<Rightarrow> string \<Rightarrow> bool" where
  "owns s peer jid \<longleftrightarrow> (case submission_metadata s jid of Inr m \<Rightarrow> peer_uid m = uid peer \<and> peer_gid m = gid peer | Inl _ \<Rightarrow> False)"

lemma submission_metadata_cases: "submission_metadata s jid = Inl (StorageNotFound jid) \<or> (\<exists>m. submission_metadata s jid = Inr m)"
  by (simp add: submission_metadata_def split: option.splits)

lemma publish_best_effort_result: "publish_best_effort env b x w = (Inr y, w') \<Longrightarrow> y = x"
  unfolding publish_best_effort_def by (auto simp: bindA_Inr_iff split: prod.splits sum.splits)

lemma repair_public_result:
  assumes "public_projection env b (w_store w) jid = Inr x" and "repair_public env b jid (Some x) w = (Inr y, w')"
  shows "y = x"
proof -
  from assms(2) obtain z n where z: "current_bundle env b jid (Some x) (w_store w) = Inr z"
    "(let published = (case map_of (w_published w) jid of None \<Rightarrow> - 1 | Some (_, m) \<Rightarrow> m) in
     if n < published then queryA (\<lambda>s. public_projection env b s jid) w
     else if n = published \<and> map_option fst (map_of (w_published w) jid) = Some (pb_digest z) then (Inr z, w)
     else publish_best_effort env b z w) = (Inr y, w')"
    by (auto simp: repair_public_def bindA_Inr_iff)
  have "z = x" using z(1) assms(1) by (auto simp: current_bundle_def result_simps split: if_splits)
  with z(2) assms(1) show ?thesis by (auto simp: Let_def split: if_splits dest: publish_best_effort_result)
qed

text \<open>
  C12. A result belongs to its submitter. To a peer whose user or group did not submit the job \<open>requester_projection\<close> answers exactly
  as if the job did not exist, and does nothing. A peer that gets an answer is the submitter, named the exact digest,
  request and reply target of the job, and gets its current public projection.
\<close>

theorem requester_projection_private:
  "(\<not> owns (w_store w) peer jid \<longrightarrow> requester_projection env b peer jid jd rid target w = (Inl (StorageNotFound jid), w))
   \<and> (\<forall>x w'. requester_projection env b peer jid jd rid target w = (Inr x, w') \<longrightarrow>
        owns (w_store w) peer jid \<and> public_projection env b (w_store w) jid = Inr x \<and> w_store w' = w_store w
        \<and> (\<exists>job. read_sealed env (w_store w) jid = Inr job \<and> job_digest job = jd \<and> request_id job = rid \<and> reply_target job = target))"
proof (intro conjI impI allI)
  assume n: "\<not> owns (w_store w) peer jid"
  show "requester_projection env b peer jid jd rid target w = (Inl (StorageNotFound jid), w)"
    using submission_metadata_cases [of "w_store w" jid] n
    by (auto simp: requester_projection_def bindA_queryA owns_def raise_if_def)
next
  fix x w'
  assume r: "requester_projection env b peer jid jd rid target w = (Inr x, w')"
  then obtain m job y where y: "submission_metadata (w_store w) jid = Inr m" "peer_uid m = uid peer" "peer_gid m = gid peer"
    "read_sealed env (w_store w) jid = Inr job" "job_digest job = jd" "request_id job = rid" "reply_target job = target"
    "public_projection env b (w_store w) jid = Inr y" "repair_public env b jid (Some y) w = (Inr x, w')"
    by (auto simp: requester_projection_def bindA_Inr_iff result_simps)
  then show "owns (w_store w) peer jid" by (simp add: owns_def)
  show "public_projection env b (w_store w) jid = Inr x" using repair_public_result [OF y(8,9)] y(8) by simp
  show "w_store w' = w_store w" using quiet_store [OF qt.requester_projection_keeps, of env b peer jid jd rid target w] r by simp
  show "\<exists>job. read_sealed env (w_store w) jid = Inr job \<and> job_digest job = jd \<and> request_id job = rid \<and> reply_target job = target"
    using y by blast
qed

theorem requester_projection_private_witness:
  "requester_projection sample_env sample_broker stranger ''job-1'' (job_digest sample_job) ''req-1'' ''ops'' sample_world
     = (Inl (StorageNotFound ''job-1''), sample_world)"
proof -
  have "\<not> owns (w_store sample_world) stranger ''job-1''"
    using sample_stored(2) by (simp add: owns_def sample_world_def stranger_def sample_submission_def sample_job_def)
  with requester_projection_private [of sample_world stranger "''job-1''" sample_env sample_broker] show ?thesis by blast
qed

section \<open>Disabled operations\<close>

lemma seal_rejected_outcome:
  assumes reach: "reachable env s" and res: "seal_rejected env s job eid at ev a sub lim = (Inr r, s')"
  shows "find_record s' (job_id job) = Some r \<and> state r = TERMINAL \<and> terminal_outcome r = Some REJECTED \<and> rec_reason r = ev_reason ev
    \<and> execution_count r = 0 \<and> retrieve env s' (job_id job) (job_digest job) = Inr a"
proof -
  from res obtain pending s1 s2 r' s3 where st: "verify_job env job = Inr ()" "verify_receipt env a = Inr ()" "initial_record job eid at = Inr pending"
    "ev_job_id ev = job_id job" "ev_kind ev = CLOSE_PENDING" "ev_outcome ev = Some REJECTED" "apply_transition pending ev = Inr r"
    "rc_job_id a = job_id job" "rc_job_digest a = job_digest job"
    "insert_job s job sub = Inr s1" "insert_record_and_initial_ledger s1 pending = Inr s2"
    "compare_and_append_tx s2 ev = Inr (r', s3)" "publish_tx env s3 a = Inr s'"
    by (auto simp: seal_rejected_def transaction_Inr bindE_Inr_iff result_simps)
  have inv: "ledger_inv s" "receipt_inv env s" using reachable_inv [OF reach] by (simp_all add: store_inv_def)
  have s2: "ledger_inv s2" "find_record s2 (job_id job) = Some pending" using sealed_store [OF inv(1) st(3,10,11,1)] by auto
  have r2: "receipt_inv env s2" using rc.R_seal [OF st(1,3,10,11)] inv by (simp add: keeps_receipts_def)
  have pend: "record_ok pending" "state pending = PENDING" using initial_record_Inr [OF st(3)] by auto
  note s3 = cas_after_seal [OF s2 st(4,12)]
  have r: "r' = r" "r = advance pending ev" using s3 st(7) by (simp_all add: apply_transition_Inr_iff)
  have "receipt_inv env s3" using rc.R_cas [OF st(12)] s2(1) r2 by (simp add: keeps_receipts_def)
  then have "retrieve env s' (job_id job) (job_digest job) = Inr a" using publish_retrieve [OF _ _ st(2,13)] s3 st(8,9) by simp
  moreover have "find_record s' (job_id job) = Some r" using s3 r publish_tx_core [OF st(13)] by (simp add: find_record_def)
  moreover have "execution_count pending = 0" using pend by (auto simp: record_ok_iff state_valid_def)
  ultimately show ?thesis using r st(5,6) by (auto simp: kind_defs)
qed

text \<open>The job was closed as rejected and never started.\<close>

definition closed_as_rejected :: "pyenv \<Rightarrow> store \<Rightarrow> SealedJob \<Rightarrow> string option \<Rightarrow> bool" where
  "closed_as_rejected env s job reason \<longleftrightarrow> (\<exists>r a. find_record s (job_id job) = Some r \<and> state r = TERMINAL \<and> terminal_outcome r = Some REJECTED
     \<and> rec_reason r = reason \<and> execution_count r = 0 \<and> retrieve env s (job_id job) (job_digest job) = Inr a)"

lemma recover_absent:
  "find_job (w_store w) (job_id job) = None \<Longrightarrow> recover_idempotent env b job peer w = (Inl (StorageNotFound (job_id job)), w)"
  by (simp add: recover_idempotent_def bindA_queryA read_sealed_def read_job_def)

lemma or_recover_cases:
  assumes "m w = (Inl e, w1)" and "find_job (w_store w1) (job_id job) = None"
  shows "or_recover env b job peer m w = (Inl e, w1)"
  using assms recover_absent [OF assms(2)] by (simp add: or_recover_def tryA_def bindA_def is_not_found_def)

lemma seal_disabled_result:
  assumes reach: "reachable env (meanwhile (w_store w))" and new: "find_job (w_store w) (job_id job) = None"
      "find_job (meanwhile (w_store w)) (job_id job) = None"
    and res: "seal_disabled env b meanwhile job peer pending sub reason w = (res, w1)"
  shows "(\<exists>e. res = Inl e \<and> find_job (w_store w1) (job_id job) = None)
    \<or> (\<exists>r. res = Inr (Sealed r None) \<and> closed_as_rejected env (w_store w1) job reason)"
proof -
  obtain eid at where e: "bk_events b (w_tick w) = (eid, at)" by fastforce
  let ?w = "w\<lparr>w_tick := Suc (w_tick w)\<rparr>" and ?ev = "close_event job eid at REJECTED reason"
  show ?thesis
  proof (cases "close_notice env job ''rejected'' reason")
    case (Inl x)
    then have "res = Inl x" "w1 = ?w" using res by (simp_all add: seal_disabled_def e)
    then show ?thesis using new by simp
  next
    case (Inr a)
    let ?g = "\<lambda>s. seal_rejected env (meanwhile s) job (fst pending) (snd pending) ?ev a sub (limits (bk_submission_policy b))"
    let ?m = "bindA (storeA ?g) (\<lambda>r. returnA (Sealed r None))"
    have m: "or_recover env b job peer ?m ?w = (res, w1)" using res Inr by (simp add: seal_disabled_def e)
    obtain y s' where g: "?g (w_store w) = (y, s')" by fastforce
    show ?thesis
    proof (cases y)
      case (Inl x)
      then have "s' = meanwhile (w_store w)" using g by (auto simp: seal_rejected_def transaction_def split: sum.splits)
      moreover have "?m ?w = (Inl x, ?w\<lparr>w_store := s'\<rparr>)" using g Inl by (simp add: bindA_storeA)
      ultimately show ?thesis using or_recover_cases [of ?m ?w x "?w\<lparr>w_store := s'\<rparr>"] m new(2) by auto
    next
      case (Inr r)
      have "or_recover env b job peer ?m ?w = (Inr (Sealed r None), ?w\<lparr>w_store := s'\<rparr>)"
        using g Inr by (simp add: or_recover_def tryA_def bindA_storeA)
      moreover have "closed_as_rejected env s' job reason"
        using seal_rejected_outcome [OF reach g [unfolded Inr]] by (auto simp: closed_as_rejected_def close_event_def)
      ultimately show ?thesis using m by auto
    qed
  qed
qed

text \<open>
  C13. A disabled operation never runs. A new submission of an operation that its policy does not enable either stores nothing
  and raises, or leaves the job terminal as rejected, with the reason of the policy, a notice, and not one execution.
\<close>

theorem disabled_operation_rejected:
  assumes sealed: "seal_typed_manifest env DEFAULT_REGISTRY raw = Inr job" and reach: "reachable env (meanwhile (w_store w))"
    and new: "find_job (w_store w) (job_id job) = None" "find_job (meanwhile (w_store w)) (job_id job) = None"
    and pol: "policy_of (bk_policies b) (operation_id job) = Inr policy" "availability policy \<noteq> ENABLED"
    and res: "submit env b meanwhile raw peer w = (res, w')"
  shows "(\<exists>e. res = Inl e \<and> find_job (w_store w') (job_id job) = None) \<or> closed_as_rejected env (w_store w') job (pol_reason policy)"
proof -
  let ?w = "w\<lparr>w_tick := Suc (w_tick w)\<rparr>" and ?pending = "bk_events b (w_tick w)"
  have r: "submit_new env b meanwhile job peer w = (res, w')"
    using res sealed new(1) by (simp add: submit_def bindA_queryA read_sealed_def read_job_def is_not_found_def)
  show ?thesis
  proof (cases "authorize (bk_submission_policy b) job peer (snd ?pending)")
    case (Inl e)
    then show ?thesis using r new by (auto simp: submit_new_def)
  next
    case (Inr sub)
    show ?thesis
    proof (cases "pol_operation_version policy = operation_version job")
      case False
      then show ?thesis using r new Inr pol by (auto simp: submit_new_def raise_if_def)
    next
      case True
      let ?m = "seal_disabled env b meanwhile job peer ?pending sub (pol_reason policy)"
      obtain x w1 where x: "?m ?w = (x, w1)" by fastforce
      have b: "bindA ?m (answer_submission env b job policy) ?w = (res, w')"
        using r Inr pol True by (simp add: submit_new_def raise_if_def)
      from seal_disabled_result [OF _ _ _ x] reach new consider (err) e where "x = Inl e" "find_job (w_store w1) (job_id job) = None"
        | (ok) y where "x = Inr (Sealed y None)" "closed_as_rejected env (w_store w1) job (pol_reason policy)" by auto
      then show ?thesis
      proof cases
        case err
        then show ?thesis using b x by (auto simp: bindA_def)
      next
        case ok
        have "keeps quiet (answer_submission env b job policy (Sealed y None))"
          by (simp add: answer_submission_def) (intro qt.keeps_intros qt.repair_public_keeps)
        from quiet_store [OF this, of w1] have "w_store w' = w_store w1" using b x ok(1) by (simp add: bindA_def)
        then show ?thesis using ok(2) by simp
      qed
    qed
  qed
qed

text \<open>The sample job with its operation disabled, submitted by an allowed peer.\<close>

lemma sample_seal_rejected:
  assumes "close_notice sample_env sample_job ''rejected'' (Some ''disabled_unverified_authority'') = Inr a"
  shows "\<exists>r s'. seal_rejected sample_env empty_store sample_job ''ev-0'' ''2026-07-01T00:00:00Z'' sample_close a sample_submission DEFAULT_LIMITS
     = (Inr r, s') \<and> jobs s' = jobs sample_store"
proof -
  from terminal_notice_Inr [OF sample_env_ok sample_job_ok sample_reason] obtain b v
    where t: "terminal_notice sample_env sample_job ''rejected'' ''disabled_unverified_authority'' = Inr (artifact_of sample_job ''terminal_notice'' b)"
      "seal_receipt sample_env b = Inr (artifact_of sample_job ''terminal_notice'' b)"
      "receipt_copy sample_env (artifact_of sample_job ''terminal_notice'' b) = Inr v"
      "jget v ''terminal_outcome'' = Inr (JStr ''rejected'')" "jget_opt v ''reason_code'' = JStr ''disabled_unverified_authority''"
    by metis
  have a: "a = artifact_of sample_job ''terminal_notice'' b" using assms t(1) by (simp add: close_notice_def)
  have ver: "verify_receipt sample_env a = Inr ()" using t(2) by (simp add: verify_receipt_Inr a artifact_of_def)
  from sample_publish [OF t(1)] obtain s' where p: "publish_tx sample_env sample_closed_store a = Inr s'"
    by (auto simp: publish_if_absent_def transaction_Inr bindE_Inr_iff a)
  have "insert_job empty_store sample_job sample_submission = Inr sample_sealed"
    by (simp add: insert_job_def empty_store_def job_ids_def sample_sealed_def)
  moreover have "not_sealed empty_store sample_job = Inr ()" by (simp add: not_sealed_def empty_store_def job_ids_def)
  moreover have "insert_record_and_initial_ledger sample_sealed sample_record = Inr sample_store"
    by (subst insert_record_Inr [OF sample_is_initial])
      (simp add: sample_sealed_def sample_store_def empty_store_def job_ids_def sample_ids)
  moreover have "ev_job_id sample_close = job_id sample_job" "ev_job_digest sample_close = job_digest sample_job"
    "expected_revision sample_close = 0" "ev_kind sample_close = CLOSE_PENDING" "ev_outcome sample_close = Some REJECTED"
    by (simp_all add: sample_close_def sample_job_def)
  moreover have "rec_reason (advance sample_record sample_close) = Some ''disabled_unverified_authority''"
    by (simp add: sample_close_def kind_defs)
  ultimately have "seal_rejected sample_env empty_store sample_job ''ev-0'' ''2026-07-01T00:00:00Z'' sample_close a sample_submission DEFAULT_LIMITS
     = (Inr (advance sample_record sample_close), s')"
    using t(3-5) p
    by (simp add: seal_rejected_def transaction_def sample_verify sample_initial sample_submission_ok sample_enforce ver sample_closed sample_close_tx
        a [symmetric] opt_str_def) (simp add: a artifact_of_def)
  moreover have "jobs s' = jobs sample_store" using publish_tx_core [OF p] by (simp add: sample_closed_store_def cas_result_def)
  ultimately show ?thesis by blast
qed

definition disabled_broker :: broker where
  "disabled_broker = sample_broker\<lparr>bk_events := (\<lambda>n. if n = 0 then (''ev-0'', ''2026-07-01T00:00:00Z'') else (''ev-1'', ''2026-07-01T00:00:01Z'')),
     bk_policies := [(''nas.observe_groupware_runtime'', disabled_policy ''nas.observe_groupware_runtime'')]\<rparr>"

definition root_peer :: BrokerPeerIdentity where
  "root_peer = \<lparr>uid = 0, gid = 0, pid = 0\<rparr>"

lemma sample_authorize:
  "authorize (bk_submission_policy disabled_broker) sample_job root_peer ''2026-07-01T00:00:00Z'' = Inr sample_submission"
proof -
  have "\<exists>t. parse_instant ''2026-07-01T00:00:00Z'' = Inr t" using sample_window by (auto simp: window_start_def bindE_Inr_iff sample_submission_def)
  then show ?thesis
    by (auto simp: authorize_Inr_iff disabled_broker_def sample_broker_def root_peer_def sample_job_def sample_submission_def)
qed

theorem disabled_operation_rejected_witness:
  "\<exists>res w'. submit sample_env disabled_broker (\<lambda>s. s) sample_bytes root_peer (sample_world\<lparr>w_store := empty_store\<rparr>) = (res, w')
    \<and> closed_as_rejected sample_env (w_store w') sample_job (Some ''disabled_unverified_authority'')"
proof -
  let ?b = disabled_broker and ?w = "sample_world\<lparr>w_store := empty_store\<rparr>" and ?p = "disabled_policy ''nas.observe_groupware_runtime''"
  obtain res w' where r: "submit sample_env ?b (\<lambda>s. s) sample_bytes root_peer ?w = (res, w')" by fastforce
  have p: "policy_of (bk_policies ?b) (operation_id sample_job) = Inr ?p" "pol_operation_version ?p = operation_version sample_job"
    "pol_reason ?p = Some ''disabled_unverified_authority''" "availability ?p \<noteq> ENABLED"
    by (simp_all add: policy_of_def sample_job_def disabled_broker_def disabled_policy_def)
  have n: "find_job (w_store ?w) (job_id sample_job) = None" by (simp add: find_job_def empty_store_def)
  obtain a where a: "close_notice sample_env sample_job ''rejected'' (Some ''disabled_unverified_authority'') = Inr a"
    using sample_notice by (auto simp: close_notice_def)
  from sample_seal_rejected [OF a] obtain x s' where s: "seal_rejected sample_env empty_store sample_job ''ev-0'' ''2026-07-01T00:00:00Z'' sample_close a
     sample_submission DEFAULT_LIMITS = (Inr x, s')" "jobs s' = jobs sample_store" by blast
  have ev: "close_event sample_job ''ev-1'' ''2026-07-01T00:00:01Z'' REJECTED (Some ''disabled_unverified_authority'') = sample_close"
    by (simp add: close_event_def sample_close_def sample_job_def)
  let ?w1 = "?w\<lparr>w_tick := 2, w_store := s'\<rparr>"
  have b: "bk_events ?b 0 = (''ev-0'', ''2026-07-01T00:00:00Z'')" "bk_events ?b (Suc 0) = (''ev-1'', ''2026-07-01T00:00:01Z'')"
    "limits (bk_submission_policy ?b) = DEFAULT_LIMITS" "w_tick ?w = 0" "w_store ?w = empty_store"
    by (simp_all add: disabled_broker_def sample_broker_def sample_world_def)
  have m: "seal_disabled sample_env ?b (\<lambda>s. s) sample_job root_peer (''ev-0'', ''2026-07-01T00:00:00Z'') sample_submission
      (Some ''disabled_unverified_authority'') (?w\<lparr>w_tick := Suc 0\<rparr>) = (Inr (Sealed x None), ?w1)"
    using a s(1) by (simp add: seal_disabled_def b ev or_recover_def tryA_def bindA_storeA numeral_2_eq_2)
  have sub: "submit sample_env ?b (\<lambda>s. s) sample_bytes root_peer ?w = answer_submission sample_env ?b sample_job ?p (Sealed x None) ?w1"
    using n p m sample_authorize
    by (simp add: submit_def sample_seals submit_new_def bindA_queryA read_sealed_def read_job_def is_not_found_def raise_if_def b bindA_simps)
  have ans: "answer_submission sample_env ?b sample_job ?p (Sealed x None) ?w1 = (res, w')" using sub r by (rule trans [OF sym])
  have "keeps quiet (answer_submission sample_env ?b sample_job ?p (Sealed x None))"
    by (simp add: answer_submission_def) (intro qt.keeps_intros qt.repair_public_keeps)
  from quiet_store [OF this, of ?w1] have "w_store w' = s'" unfolding ans by simp
  then have "jobs (w_store w') = jobs sample_store" using s(2) by simp
  then have f: "find_job (w_store w') (job_id sample_job) \<noteq> None" by (simp add: find_job_def sample_store_def sample_sealed_def)
  from disabled_operation_rejected [OF sample_seals _ n _ p(1,4) r] reachable.start n f p(3) r show ?thesis by simp
qed

end
