(* ===== verification/Auth_Service.thy ===== *)
theory Auth_Service
  imports Actions
begin

text \<open>
  The authorization service (\<open>root_actions/auth_service.py\<close>) and the option builders and tokens of
  \<open>authorization.py\<close> it calls: bootstrap sessions, the registration and the approval
  ceremonies, and the claim with an approval followed by its dispatch. The WebAuthn library is a
  parameter (\<open>webauthn_lib\<close> and the two option generators); so are the random bytes of
  \<open>secrets\<close>, as sequences indexed by the events drawn so far.
\<close>

section \<open>Tokens and options\<close>

text \<open>\<open>base64.urlsafe_b64encode(value).rstrip(b"=").decode("ascii")\<close>\<close>

definition b64_char :: "nat \<Rightarrow> char" where
  "b64_char n = ''ABCDEFGHIJKLMNOPQRSTUVWXYZabcdefghijklmnopqrstuvwxyz0123456789-_'' ! n"

fun b64url :: "string \<Rightarrow> string" where
  "b64url [] = []"
| "b64url [a] = (let n = of_char a * 16 in map b64_char [n div 64, n mod 64])"
| "b64url [a, b] = (let n = (of_char a * 256 + of_char b) * 4 in map b64_char [n div 4096, n div 64 mod 64, n mod 64])"
| "b64url (a # b # c # r) =
     (let n = (of_char a * 256 + of_char b) * 256 + of_char c in
      map b64_char [n div 262144, n div 4096 mod 64, n div 64 mod 64, n mod 64] @ b64url r)"

definition encoded_bootstrap_token :: "string \<Rightarrow> string result" where
  "encoded_bootstrap_token token = bindE (bounded_bytes token ''bootstrap_token'' 64) (\<lambda>_. Inr (b64url token))"

definition decoded_bootstrap_token :: "webauthn_lib \<Rightarrow> string \<Rightarrow> string result" where
  "decoded_bootstrap_token lib v =
     bindE (raise_from decode_error (WebAuthnAuthorizationError ''bootstrap token is malformed'')
              (base64url_to_bytes lib (JStr v))) (\<lambda>token.
     bindE (raise_if (length token \<noteq> 32) (WebAuthnAuthorizationError ''bootstrap token length is invalid'')) (\<lambda>_. Inr token))"

text \<open>
  \<open>generate_registration_options\<close> (policy, challenge, timeout, attachment, excluded credential ids) and
  \<open>generate_authentication_options\<close> (RP id, challenge, timeout, allowed credential ids), decoded from
  \<open>options_to_json\<close>.
\<close>

record options_lib =
  generate_registration_options :: "WebAuthnPolicy \<Rightarrow> string \<Rightarrow> int \<Rightarrow> string \<Rightarrow> string list \<Rightarrow> json result"
  generate_authentication_options :: "string \<Rightarrow> string \<Rightarrow> int \<Rightarrow> string list \<Rightarrow> json result"

definition registration_options :: "options_lib \<Rightarrow> WebAuthnPolicy \<Rightarrow> PendingCeremony \<Rightarrow> RegisteredCredential list \<Rightarrow> json result" where
  "registration_options opts policy ceremony exclude =
     bindE (raise_if (purpose ceremony \<noteq> PURPOSE_REGISTRATION)
              (WebAuthnAuthorizationError ''registration options require a registration ceremony'')) (\<lambda>_.
     generate_registration_options opts policy (challenge ceremony) (REGISTRATION_CHALLENGE_SECONDS * 1000)
       (if cer_role ceremony = Some ROLE_RECOVERY then ''cross-platform'' else ''platform'')
       (map credential_id (filter (\<lambda>c. revoked_at c = None) exclude)))"

definition authentication_options :: "options_lib \<Rightarrow> WebAuthnPolicy \<Rightarrow> PendingCeremony \<Rightarrow> RegisteredCredential list \<Rightarrow> json result" where
  "authentication_options opts policy ceremony creds =
     bindE (raise_if (purpose ceremony \<noteq> PURPOSE_APPROVAL \<and> purpose ceremony \<noteq> PURPOSE_RECOVERY)
              (WebAuthnAuthorizationError ''authentication options require an assertion ceremony'')) (\<lambda>_.
     let active = filter (\<lambda>c. revoked_at c = None) creds in
     bindE (raise_if (active = []) (WebAuthnAuthorizationError ''no active credential is available'')) (\<lambda>_.
     generate_authentication_options opts (rp_id policy) (challenge ceremony) (APPROVAL_CHALLENGE_SECONDS * 1000)
       (map credential_id active)))"

section \<open>The service\<close>

record CeremonyOptions =
  opt_ceremony_id :: string
  opt_purpose :: CeremonyPurpose
  opt_expires_at :: string
  opt_public_key :: json
  opt_job_id :: "string option"
  opt_job_digest :: "string option"

record RegistrationResult =
  rr_credential :: RegisteredCredential
  rr_remaining :: int

record auth_service =
  au_events :: event_source
  au_dispatch :: "string \<Rightarrow> string \<Rightarrow> unit action"
  au_lib :: webauthn_lib
  au_options :: options_lib
  au_policy :: WebAuthnPolicy
  token_bytes :: "nat \<Rightarrow> string"
  token_hex :: "nat \<Rightarrow> string"

definition draw :: "(nat \<Rightarrow> string) \<Rightarrow> string action" where
  "draw f w = (Inr (f (w_tick w)), w)"

definition after :: "string \<Rightarrow> int \<Rightarrow> string result" where
  "after at seconds = bindE (parse_instant at) (\<lambda>t. bindE (shift_instant t seconds) (\<lambda>u. Inr (format_instant u)))"

definition create_initial_bootstrap :: "auth_service \<Rightarrow> (BootstrapSession \<times> string) action" where
  "create_initial_bootstrap au =
     bindA (next_event (au_events au)) (\<lambda>(_, issued).
     bindA (draw (token_bytes au)) (\<lambda>token.
     bindA (draw (token_hex au)) (\<lambda>h.
     bindA (liftA (bootstrap_token_digest token)) (\<lambda>d.
     bindA (liftA (after issued BOOTSTRAP_SECONDS)) (\<lambda>expires.
     let session = \<lparr>bootstrap_id = ''bootstrap-'' @ h, token_digest = d, boot_issued_at = issued, boot_expires_at = expires,
                    remaining_registrations = 3, boot_state = BOOTSTRAP_ISSUED\<rparr> in
     bindA (liftA (bootstrap_post_init session)) (\<lambda>_.
     bindA (storeA (\<lambda>s. create_auth_bootstrap s session)) (\<lambda>_.
     bindA (liftA (encoded_bootstrap_token token)) (\<lambda>t. returnA (session, t)))))))))"

definition auth_status :: "store \<Rightarrow> dict result" where
  "auth_status s =
     bindE (active_credentials s ROLE_APPROVAL) (\<lambda>approval.
     bindE (active_credentials s ROLE_RECOVERY) (\<lambda>recovery.
     Inr [(''configured'', JBool (approval \<noteq> [] \<and> recovery \<noteq> [])), (''approval_ready'', JBool (approval \<noteq> [])),
          (''recovery_ready'', JBool (recovery \<noteq> [])),
          (''credentials'', JList (map public_credential_summary (approval @ recovery)))]))"

definition registration_ceremony ::
  "string \<Rightarrow> string \<Rightarrow> string \<Rightarrow> string \<Rightarrow> string \<Rightarrow> string \<Rightarrow> CredentialRole \<Rightarrow> string \<Rightarrow> PendingCeremony" where
  "registration_ceremony h chal nonce issued expires bid role label =
     \<lparr>ceremony_id = ''ceremony-'' @ h, purpose = PURPOSE_REGISTRATION, challenge = chal, binding_nonce = nonce,
      challenge_digest = sha256_tag chal, cer_issued_at = issued, cer_expires_at = expires, cer_job_id = None, cer_job_digest = None,
      cer_bootstrap_id = Some bid, cer_role = Some role, cer_label = Some label, cer_state = CEREMONY_ISSUED,
      consumed_at = None, cer_fingerprint = None\<rparr>"

definition begin_registration :: "auth_service \<Rightarrow> string \<Rightarrow> CredentialRole \<Rightarrow> string \<Rightarrow> CeremonyOptions action" where
  "begin_registration au token role label =
     bindA (liftA (bindE (decoded_bootstrap_token (au_lib au) token) bootstrap_token_digest)) (\<lambda>td.
     bindA (next_event (au_events au)) (\<lambda>(_, issued).
     bindA (liftA (after issued REGISTRATION_CHALLENGE_SECONDS)) (\<lambda>expires.
     bindA (draw (token_bytes au)) (\<lambda>nonce.
     bindA (queryA (\<lambda>s. bindE (read_auth_bootstrap_by_token s td) (\<lambda>b. Inr (bootstrap_id b)))) (\<lambda>bid.
     bindA (liftA (registration_challenge_bytes bid role label nonce expires)) (\<lambda>chal.
     bindA (draw (token_hex au)) (\<lambda>h.
     let c = registration_ceremony h chal nonce issued expires bid role label in
     bindA (liftA (ceremony_post_init c)) (\<lambda>_.
     bindA (storeA (\<lambda>s. issue_registration_ceremony s td c)) (\<lambda>_.
     bindA (queryA (\<lambda>s. bindE (active_credentials s ROLE_APPROVAL) (\<lambda>a.
              bindE (active_credentials s ROLE_RECOVERY) (\<lambda>r. Inr (a @ r))))) (\<lambda>creds.
     bindA (liftA (registration_options (au_options au) (au_policy au) c creds)) (\<lambda>pk.
     returnA \<lparr>opt_ceremony_id = ceremony_id c, opt_purpose = purpose c, opt_expires_at = cer_expires_at c, opt_public_key = pk,
              opt_job_id = None, opt_job_digest = None\<rparr>)))))))))))"

definition finish_registration :: "pyenv \<Rightarrow> auth_service \<Rightarrow> string \<Rightarrow> string \<Rightarrow> json \<Rightarrow> RegistrationResult action" where
  "finish_registration env au token cid browser =
     bindA (liftA (bindE (decoded_bootstrap_token (au_lib au) token) bootstrap_token_digest)) (\<lambda>td.
     bindA (queryA (\<lambda>s. read_ceremony s cid)) (\<lambda>c.
     bindA (next_event (au_events au)) (\<lambda>(_, at).
     bindA (liftA (verify_registration env (au_lib au) (au_policy au) c browser at)) (\<lambda>cred.
     bindA (storeA (\<lambda>s. complete_registration s td cid cred at)) (\<lambda>_.
     bindA (queryA (\<lambda>s. read_auth_bootstrap s (or_empty (cer_bootstrap_id c)))) (\<lambda>b.
     returnA \<lparr>rr_credential = cred, rr_remaining = remaining_registrations b\<rparr>))))))"

definition approval_ceremony :: "string \<Rightarrow> string \<Rightarrow> string \<Rightarrow> string \<Rightarrow> string \<Rightarrow> string \<Rightarrow> string \<Rightarrow> PendingCeremony" where
  "approval_ceremony h chal nonce issued expires jid jd =
     \<lparr>ceremony_id = ''ceremony-'' @ h, purpose = PURPOSE_APPROVAL, challenge = chal, binding_nonce = nonce,
      challenge_digest = sha256_tag chal, cer_issued_at = issued, cer_expires_at = expires, cer_job_id = Some jid, cer_job_digest = Some jd,
      cer_bootstrap_id = None, cer_role = None, cer_label = None, cer_state = CEREMONY_ISSUED,
      consumed_at = None, cer_fingerprint = None\<rparr>"

definition begin_approval :: "pyenv \<Rightarrow> auth_service \<Rightarrow> string \<Rightarrow> string \<Rightarrow> CeremonyOptions action" where
  "begin_approval env au jid jd =
     bindA (queryA (\<lambda>s. read_sealed env s jid)) (\<lambda>job.
     bindA (liftA (raise_if (job_digest job \<noteq> jd) (ValueError ''approval request job digest mismatch''))) (\<lambda>_.
     bindA (next_event (au_events au)) (\<lambda>(_, issued).
     bindA (liftA (after issued APPROVAL_CHALLENGE_SECONDS)) (\<lambda>expires.
     bindA (draw (token_bytes au)) (\<lambda>nonce.
     bindA (liftA (action_challenge_bytes jd nonce expires)) (\<lambda>chal.
     bindA (draw (token_hex au)) (\<lambda>h.
     let c = approval_ceremony h chal nonce issued expires jid jd in
     bindA (liftA (ceremony_post_init c)) (\<lambda>_.
     bindA (storeA (\<lambda>s. issue_approval_ceremony s c)) (\<lambda>_.
     bindA (queryA (\<lambda>s. active_credentials s ROLE_APPROVAL)) (\<lambda>creds.
     bindA (liftA (authentication_options (au_options au) (au_policy au) c creds)) (\<lambda>pk.
     returnA \<lparr>opt_ceremony_id = ceremony_id c, opt_purpose = purpose c, opt_expires_at = cer_expires_at c, opt_public_key = pk,
              opt_job_id = Some jid, opt_job_digest = Some jd\<rparr>)))))))))))"

definition approval_record :: "string \<Rightarrow> PendingCeremony \<Rightarrow> RegisteredCredential \<Rightarrow> VerifiedAssertion \<Rightarrow> string \<Rightarrow> ApprovalRecord" where
  "approval_record h c cred v at =
     \<lparr>approval_id = ''approval-'' @ h, ap_ceremony_id = ceremony_id c, ap_job_id = or_empty (cer_job_id c),
      ap_job_digest = or_empty (cer_job_digest c), ap_fingerprint = fingerprint cred, verified_at = at, ap_origin = va_origin v,
      ap_rp_id = va_rp_id v, ap_user_verified = va_user_verified v, ap_sign_count = new_sign_count v\<rparr>"

definition approved_claim :: "string \<Rightarrow> string \<Rightarrow> ApprovalRecord \<Rightarrow> TransitionEvent" where
  "approved_claim eid at a = \<lparr>event_id = eid, ev_job_id = ap_job_id a, ev_job_digest = ap_job_digest a, expected_revision = 0,
     ev_kind = CLAIM_EXECUTION, occurred_at = at, ev_outcome = None, ev_reason = None\<rparr>"

definition finish_approval :: "pyenv \<Rightarrow> auth_service \<Rightarrow> string \<Rightarrow> json \<Rightarrow> JobRecord action" where
  "finish_approval env au cid browser =
     bindA (queryA (\<lambda>s. read_ceremony s cid)) (\<lambda>c.
     bindA (liftA (bindE (canonical_browser_credential env browser) (browser_credential_id (au_lib au)))) (\<lambda>credential.
     bindA (queryA (\<lambda>s. read_credential s credential)) (\<lambda>cred.
     bindA (liftA (raise_if (cred_role cred \<noteq> ROLE_APPROVAL) (ValueError ''recovery credential cannot approve an action''))) (\<lambda>_.
     bindA (liftA (verify_assertion env (au_lib au) (au_policy au) c browser cred)) (\<lambda>v.
     bindA (next_event (au_events au)) (\<lambda>(eid, at).
     bindA (draw (token_hex au)) (\<lambda>h.
     let a = approval_record h c cred v at in
     bindA (liftA (approval_post_init a)) (\<lambda>_.
     bindA (storeA (\<lambda>s. claim_with_approval s c cred v a (approved_claim eid at a))) (\<lambda>r.
     bindA (au_dispatch au (rec_job_id r) (rec_job_digest r)) (\<lambda>_.
     returnA r))))))))))"

end
