(* ===== verification/Endpoint.thy ===== *)
theory Endpoint
  imports Broker_Properties Auth_Service
begin

text \<open>
  The broker endpoint and its serving loop (\<open>root_actions/endpoint.py\<close>, \<open>root_actions/listener.py\<close>): a frame of a
  connected peer is parsed and dispatched to the broker or to the authorization service, and the
  answer is framed. A connection is the identity the kernel reports for the peer and the bytes
  it sends before it closes its side; what the operating system does to a socket (timeouts, resets,
  the lock and the socket file) is not modelled.
\<close>

section \<open>The endpoint\<close>

definition response_value :: "pyenv \<Rightarrow> string \<Rightarrow> PublicProjectionBundle \<Rightarrow> dict result" where
  "response_value env m x =
     bindE (validate_public_projection env (projection_bytes x)) (\<lambda>verified.
     bindE (raise_if (projection_digest verified \<noteq> pb_digest x) (ValueError ''broker projection metadata mismatch'')) (\<lambda>_.
     bindE (bindE (decode_utf8 (projection_bytes x)) (json_loads env dict_hook)) (\<lambda>v.
     bindE (index v ''status'') (\<lambda>status.
     bindE (index status ''job'') (\<lambda>job.
     bindE (index status ''state'') (\<lambda>st.
     bindE (index job ''request_id'') (\<lambda>rid.
     bindE (index job ''reply_target'') (\<lambda>target.
     bindE (index st ''name'') (\<lambda>name.
     bindE (index st ''terminal_outcome'') (\<lambda>out.
     bindE (index st ''reason_code'') (\<lambda>reason.
     Inr [(''schema'', JStr BROKER_RESPONSE_SCHEMA), (''method'', JStr m), (''job_id'', JStr (pb_job_id x)),
          (''job_digest'', JStr (pb_job_digest x)), (''request_id'', rid), (''reply_target'', target),
          (''projection_digest'', JStr (pb_digest x)), (''state'', name), (''terminal_outcome'', out),
          (''reason_code'', reason), (''projection'', v)])))))))))))"

definition role_of :: "string \<Rightarrow> CredentialRole result" where
  "role_of v = (case List.find (\<lambda>r. role_value r = v) [ROLE_APPROVAL, ROLE_RECOVERY] of
     None \<Rightarrow> Inl (ValueError ''not a valid CredentialRole'') | Some r \<Rightarrow> Inr r)"

text \<open>The two fields are strings in every status the broker builds.\<close>

definition str_value :: "json \<Rightarrow> string" where
  "str_value v = (case v of JStr s \<Rightarrow> s | _ \<Rightarrow> [])"

definition auth_reply :: "string \<Rightarrow> dict \<Rightarrow> string action" where
  "auth_reply m response = liftA (encode_response ([(''schema'', JStr BROKER_RESPONSE_SCHEMA), (''method'', JStr m)] @ response))"

definition handle_authorization :: "pyenv \<Rightarrow> broker \<Rightarrow> auth_service option \<Rightarrow> BrokerPeerIdentity \<Rightarrow> request \<Rightarrow> string action" where
  "handle_authorization env b auth peer req =
     (case auth of
        None \<Rightarrow> liftA (Inl (ValueError ''root-action authorization is not configured''))
      | Some au \<Rightarrow>
     (case req of
        AuthStatus \<Rightarrow> bindA (queryA auth_status) (auth_reply ''auth_status'')
      | AuthBootstrapCreate \<Rightarrow>
          (if uid peer \<noteq> 0 then liftA (Inl (ValueError ''only a kernel-authenticated root peer can bootstrap''))
           else bindA (create_initial_bootstrap au) (\<lambda>(session, token).
             auth_reply ''auth_bootstrap_create'' [(''bootstrap_id'', JStr (bootstrap_id session)), (''bootstrap_token'', JStr token),
               (''expires_at'', JStr (boot_expires_at session)), (''remaining_registrations'', JInt (remaining_registrations session))]))
      | AuthRegistrationBegin token role label \<Rightarrow>
          bindA (liftA (role_of role)) (\<lambda>role.
          bindA (begin_registration au token role label) (\<lambda>opts.
          auth_reply ''auth_registration_begin'' [(''ceremony_id'', JStr (opt_ceremony_id opts)),
            (''expires_at'', JStr (opt_expires_at opts)), (''public_key'', opt_public_key opts)]))
      | AuthRegistrationFinish token cid browser \<Rightarrow>
          bindA (finish_registration env au token cid (JObj browser)) (\<lambda>res.
          auth_reply ''auth_registration_finish'' [(''credential'', public_credential_summary (rr_credential res)),
            (''remaining_registrations'', JInt (rr_remaining res))])
      | AuthApprovalBegin jid jd \<Rightarrow>
          bindA (begin_approval env au jid jd) (\<lambda>opts.
          auth_reply ''auth_approval_begin'' [(''ceremony_id'', JStr (opt_ceremony_id opts)), (''job_id'', opt_str (opt_job_id opts)),
            (''job_digest'', opt_str (opt_job_digest opts)), (''expires_at'', JStr (opt_expires_at opts)),
            (''public_key'', opt_public_key opts)])
      | AuthApprovalFinish cid browser \<Rightarrow>
          bindA (finish_approval env au cid (JObj browser)) (\<lambda>r.
          bindA (repair_public_best_effort env b (rec_job_id r)) (\<lambda>x.
          bindA (liftA (bindE (decode_utf8 (projection_bytes x)) (json_loads env dict_hook))) (\<lambda>v.
          auth_reply ''auth_approval_finish'' [(''job_id'', JStr (rec_job_id r)), (''job_digest'', JStr (rec_job_digest r)),
            (''state'', JStr (state_value (state r))), (''projection'', v), (''projection_digest'', JStr (pb_digest x))])))
      | _ \<Rightarrow> liftA (Inl (AssertionError ''unsupported parsed authorization method''))))"

definition handle :: "pyenv \<Rightarrow> broker \<Rightarrow> auth_service option \<Rightarrow> (store \<Rightarrow> store) \<Rightarrow> BrokerPeerIdentity \<Rightarrow> string \<Rightarrow> string action" where
  "handle env b auth meanwhile peer frame =
     bindA (liftA (parse_request_frame env frame)) (\<lambda>req.
     (case req of
        Submit raw \<Rightarrow>
          bindA (submit env b meanwhile raw peer) (\<lambda>submitted.
          bindA (liftA (bindE (jget (sub_status submitted) ''job'') (\<lambda>job.
                 bindE (index job ''request_id'') (\<lambda>rid. bindE (index job ''reply_target'') (\<lambda>target. Inr (str_value rid, str_value target)))))) (\<lambda>(rid, target).
          bindA (requester_projection env b peer (sub_job_id submitted) (sub_job_digest submitted) rid target) (\<lambda>x.
          liftA (bindE (response_value env ''submit'' x) encode_response))))
      | Retrieve jid jd rid target \<Rightarrow>
          bindA (requester_projection env b peer jid jd rid target) (\<lambda>x.
          liftA (bindE (response_value env ''retrieve'' x) encode_response))
      | _ \<Rightarrow> handle_authorization env b auth peer req))"

section \<open>The listener\<close>

definition read_one_frame :: "string \<Rightarrow> string result" where
  "read_one_frame bs =
     bindE (raise_if (length bs < 4) (BrokerProtocolError ''broker request is truncated'')) (\<lambda>_.
     let n = unpack_u32 (take 4 bs) in
     bindE (raise_if (n < 1 \<or> MAX_BROKER_REQUEST_BYTES < n) (BrokerProtocolError ''broker request length is invalid'')) (\<lambda>_.
     bindE (raise_if (length bs < 4 + n) (BrokerProtocolError ''broker request is truncated'')) (\<lambda>_.
     bindE (raise_if (4 + n < length bs) (BrokerProtocolError ''broker connection contains more than one frame'')) (\<lambda>_.
     Inr bs))))"

type_synonym connection = "BrokerPeerIdentity \<times> string"

definition serve_once :: "pyenv \<Rightarrow> broker \<Rightarrow> auth_service option \<Rightarrow> (store \<Rightarrow> store) \<Rightarrow> connection \<Rightarrow> string action" where
  "serve_once env b auth meanwhile c =
     bindA (liftA (bindE (peer_post_init (fst c)) (\<lambda>_. read_one_frame (snd c)))) (\<lambda>frame.
     handle env b auth meanwhile (fst c) frame)"

text \<open>The answer of each connection, until an exception that the loop does not catch.\<close>

fun serve_forever :: "pyenv \<Rightarrow> broker \<Rightarrow> auth_service option \<Rightarrow> (store \<Rightarrow> store) \<Rightarrow> connection list \<Rightarrow> string option list action" where
  "serve_forever env b auth meanwhile [] w = (Inr [], w)"
| "serve_forever env b auth meanwhile (c # cs) w =
     (case serve_once env b auth meanwhile c w of
        (Inr response, w1) \<Rightarrow> bindA (serve_forever env b auth meanwhile cs) (\<lambda>rs. returnA (Some response # rs)) w1
      | (Inl e, w1) \<Rightarrow>
          if serve_catches e then bindA (serve_forever env b auth meanwhile cs) (\<lambda>rs. returnA (None # rs)) w1
          else (Inl e, w1))"

section \<open>What a connection may change\<close>

context store_publication
begin

lemma keeps_lift: "(\<And>x. r = Inr x \<Longrightarrow> keeps R (f x)) \<Longrightarrow> keeps R (bindA (liftA r) f)"
  by (cases r) (auto simp: keeps_def R_refl)

lemma draw_keeps: "keeps R (draw f)"
  by (simp add: keeps_def draw_def R_refl)

lemma let_keeps: "(\<And>y. y = x \<Longrightarrow> keeps R (f y)) \<Longrightarrow> keeps R (let y = x in f y)"
  by simp

lemmas auth_intros = keeps_lift let_keeps keeps_intros next_event_keeps draw_keeps

lemma mark_unknown_keeps: "keeps R (mark_unknown env events jid jd reason failure)"
  unfolding mark_unknown_def by (intro auth_intros storeA_keeps r_into_rtranclp store_step.mark_claimed_execution_unknown)

lemma create_initial_bootstrap_keeps: "keeps R (create_initial_bootstrap au)"
  unfolding create_initial_bootstrap_def
  by (intro auth_intros storeA_keeps r_into_rtranclp store_step.create_auth_bootstrap) (simp add: bootstrap_ok_def)

lemma begin_registration_keeps: "keeps R (begin_registration au token role label)"
  unfolding begin_registration_def by (intro auth_intros storeA_keeps r_into_rtranclp store_step.issue_registration_ceremony)

lemma finish_registration_keeps: "keeps R (finish_registration env' au token cid browser)"
  unfolding finish_registration_def by (intro auth_intros storeA_keeps r_into_rtranclp store_step.complete_registration)

lemma begin_approval_keeps: "keeps R (begin_approval env' au jid jd)"
  unfolding begin_approval_def by (intro auth_intros storeA_keeps r_into_rtranclp store_step.issue_approval_ceremony)

lemma finish_approval_keeps: "(\<And>jid jd. keeps R (au_dispatch au jid jd)) \<Longrightarrow> keeps R (finish_approval env' au cid browser)"
  unfolding finish_approval_def by (intro auth_intros storeA_keeps r_into_rtranclp store_step.claim_with_approval)

lemma handle_authorization_keeps:
  assumes "\<And>au jid jd. auth = Some au \<Longrightarrow> keeps R (au_dispatch au jid jd)"
  shows "keeps R (handle_authorization env' b auth peer req)"
  using assms unfolding handle_authorization_def auth_reply_def
  by (cases auth; cases req)
    (auto intro!: auth_intros create_initial_bootstrap_keeps begin_registration_keeps finish_registration_keeps begin_approval_keeps
      finish_approval_keeps repair_public_best_effort_keeps)

lemma handle_keeps:
  assumes "\<And>s. (store_step env)\<^sup>*\<^sup>* s (meanwhile s)" and "\<And>d jid jd. bk_dispatch b = Some d \<Longrightarrow> keeps R (d jid jd)"
    and "\<And>au jid jd. auth = Some au \<Longrightarrow> keeps R (au_dispatch au jid jd)"
  shows "keeps R (handle env b auth meanwhile peer frame)"
proof -
  have ha: "keeps R (handle_authorization env b auth peer req)" for req by (rule handle_authorization_keeps [OF assms(3)])
  have sub: "keeps R (submit env b meanwhile raw peer)" for raw using assms(1,2) by (rule submit_keeps)
  have "keeps R (case req of
        Submit raw \<Rightarrow>
          bindA (submit env b meanwhile raw peer) (\<lambda>submitted.
          bindA (liftA (bindE (jget (sub_status submitted) ''job'') (\<lambda>job.
                 bindE (index job ''request_id'') (\<lambda>rid. bindE (index job ''reply_target'') (\<lambda>target. Inr (str_value rid, str_value target)))))) (\<lambda>(rid, target).
          bindA (requester_projection env b peer (sub_job_id submitted) (sub_job_digest submitted) rid target) (\<lambda>x.
          liftA (bindE (response_value env ''submit'' x) encode_response))))
      | Retrieve jid jd rid target \<Rightarrow>
          bindA (requester_projection env b peer jid jd rid target) (\<lambda>x.
          liftA (bindE (response_value env ''retrieve'' x) encode_response))
      | _ \<Rightarrow> handle_authorization env b auth peer req)" for req
    using ha sub by (cases req) (auto intro!: keeps_intros requester_projection_keeps)
  then show ?thesis unfolding handle_def by (intro keeps_bind keeps_prims)
qed

lemma serve_keeps:
  assumes "\<And>s. (store_step env)\<^sup>*\<^sup>* s (meanwhile s)" and "\<And>d jid jd. bk_dispatch b = Some d \<Longrightarrow> keeps R (d jid jd)"
    and "\<And>au jid jd. auth = Some au \<Longrightarrow> keeps R (au_dispatch au jid jd)"
  shows "keeps R (serve_forever env b auth meanwhile cs)"
proof (induction cs)
  case Nil
  then show ?case by (simp add: keeps_def R_refl)
next
  case (Cons c cs)
  have once: "keeps R (serve_once env b auth meanwhile c)"
    unfolding serve_once_def by (intro keeps_intros handle_keeps assms)
  have rest: "keeps R (bindA (serve_forever env b auth meanwhile cs) (\<lambda>rs. returnA (r # rs)))" for r
    by (intro keeps_intros Cons)
  show ?case unfolding keeps_def
  proof
    fix w
    obtain x w1 where x: "serve_once env b auth meanwhile c w = (x, w1)" by fastforce
    have "R w w1" using once x by (auto simp: keeps_def dest: spec [of _ w])
    moreover have "R w1 (snd (bindA (serve_forever env b auth meanwhile cs) (\<lambda>rs. returnA (r # rs)) w1))" for r
      using rest by (simp add: keeps_def)
    ultimately show "R w (snd (serve_forever env b auth meanwhile (c # cs) w))"
      using x R_trans by (auto split: sum.splits)
  qed
qed

end

section \<open>Properties\<close>

text \<open>
  C4. The broker process keeps its invariants. Whatever bytes any peers send, in any order, and wherever the loop
  stops, the store is in a state its own operations reach, nothing sealed, appended or final is lost, and the memory
  of publications holds at most 2048 entries, one per job. The dispatch callbacks and the other clients of the store
  have to be clients of the store that respect this memory, as the worker is.
\<close>

theorem serving_keeps_invariants:
  assumes "reachable env (w_store w)" and "memory_ok w"
    and "\<And>s. (store_step env)\<^sup>*\<^sup>* s (meanwhile s)"
    and "\<And>d jid jd. bk_dispatch b = Some d \<Longrightarrow> client env (d jid jd) \<and> keeps keeps_memory (d jid jd)"
    and "\<And>au jid jd. auth = Some au \<Longrightarrow> client env (au_dispatch au jid jd) \<and> keeps keeps_memory (au_dispatch au jid jd)"
  shows "\<exists>rs w'. serve_forever env b auth meanwhile cs w = (rs, w') \<and> reachable env (w_store w')
    \<and> forward (w_store w) (w_store w') \<and> distinct (map fst (w_published w')) \<and> length (w_published w') \<le> 2048"
proof -
  have c: "client env (serve_forever env b auth meanwhile cs)"
    unfolding client_by_steps using assms(3-5) by (intro st.serve_keeps) (auto simp: client_by_steps)
  have m: "keeps keeps_memory (serve_forever env b auth meanwhile cs)"
    using assms(3-5) by (intro me.serve_keeps [where env = env]) auto
  obtain rs w' where r: "serve_forever env b auth meanwhile cs w = (rs, w')" by fastforce
  have "memory_ok w'" using m r assms(2) by (auto simp: keeps_def keeps_memory_def dest: spec [of _ w])
  then show ?thesis using r client_reachable [OF c assms(1)] client_forward [OF c assms(1)]
    by (auto simp: memory_ok_def PUBLIC_CATALOG_JOB_LIMIT_def)
qed

text \<open>The dispatch of a process whose worker is gone: the claim becomes unknown and the caller is told.\<close>

definition no_worker :: "string \<Rightarrow> string \<Rightarrow> unit action" where
  "no_worker jid jd = give_up sample_env sample_events None jid jd ''worker_unavailable_after_claim'' ''WorkerUnavailable'' ''root-action worker is unavailable''"

lemma no_worker_ok: "client sample_env (no_worker jid jd)" "keeps keeps_memory (no_worker jid jd)"
  unfolding no_worker_def give_up_def repair_job_def client_by_steps
  by (simp_all, (intro st.keeps_intros st.mark_unknown_keeps)+, (intro me.keeps_intros me.mark_unknown_keeps)+)

theorem serving_keeps_invariants_witness:
  "\<exists>rs w'. serve_forever sample_env (sample_broker\<lparr>bk_dispatch := Some no_worker\<rparr>) None (\<lambda>s. s) [(stranger, ''junk''), (root_peer, [])] sample_world
      = (rs, w') \<and> reachable sample_env (w_store w') \<and> length (w_published w') \<le> 2048"
proof -
  have "reachable sample_env (w_store sample_world)" "memory_ok sample_world"
    using sample_reachable by (simp_all add: sample_world_def memory_ok_def)
  then have "\<exists>rs w'. serve_forever sample_env (sample_broker\<lparr>bk_dispatch := Some no_worker\<rparr>) None (\<lambda>s. s) [(stranger, ''junk''), (root_peer, [])] sample_world
      = (rs, w') \<and> reachable sample_env (w_store w') \<and> forward (w_store sample_world) (w_store w')
      \<and> distinct (map fst (w_published w')) \<and> length (w_published w') \<le> 2048"
    by (rule serving_keeps_invariants) (simp_all add: no_worker_ok)
  then show ?thesis by blast
qed

lemma read_one_encoded:
  assumes "encode_frame b MAX_BROKER_REQUEST_BYTES = Inr f"
  shows "read_one_frame f = Inr f"
proof -
  have "b \<noteq> []" "length b \<le> MAX_BROKER_REQUEST_BYTES" "f = pack_u32 (length b) @ b" using assms by (auto simp: encode_frame_def split: if_splits)
  moreover from this have "unpack_u32 (take 4 f) = length b" by (simp add: unpack_pack_u32 MAX_BROKER_REQUEST_BYTES_def)
  ultimately show ?thesis by (cases b) (auto simp: read_one_frame_def Let_def)
qed

lemma serve_append:
  "serve_forever env br auth meanwhile cs w = (Inr rs, w1) \<Longrightarrow>
   serve_forever env br auth meanwhile (cs @ ds) w = bindA (serve_forever env br auth meanwhile ds) (\<lambda>qs. returnA (rs @ qs)) w1"
proof (induction cs arbitrary: w rs)
  case Nil
  then show ?case by (auto simp: bindA_def returnA_def split: sum.splits prod.splits)
next
  case (Cons c cs)
  obtain x w2 where x: "serve_once env br auth meanwhile c w = (x, w2)" by fastforce
  with Cons.prems obtain r qs where q: "serve_forever env br auth meanwhile cs w2 = (Inr qs, w1)" "rs = r # qs"
    and r: "serve_forever env br auth meanwhile (c # es) w = bindA (serve_forever env br auth meanwhile es) (\<lambda>rs. returnA (r # rs)) w2" for es
    by (auto simp: bindA_def returnA_def split: sum.splits prod.splits if_splits)
  show ?case unfolding append_Cons r using Cons.IH [OF q(1)] by (simp add: q(2) bindA_def returnA_def split: sum.splits prod.splits)
qed

text \<open>What the loop does with a canonical request of which only the method is of no use: the set of the method names cannot
  test a list or an object, any other value is just not in it.\<close>

definition unhashable :: "json \<Rightarrow> bool" where
  "unhashable v \<longleftrightarrow> (case v of JList _ \<Rightarrow> True | JObj _ \<Rightarrow> True | _ \<Rightarrow> False)"

definition is_string :: "json \<Rightarrow> bool" where
  "is_string v \<longleftrightarrow> (case v of JStr _ \<Rightarrow> True | _ \<Rightarrow> False)"

lemma parse_useless_method:
  assumes "canonical_json (JObj kvs) = Inr b" "jwf (rec_limit env) (JObj kvs)"
    and "map_of kvs ''schema'' = Some (JStr BROKER_REQUEST_SCHEMA)" "encode_frame b MAX_BROKER_REQUEST_BYTES = Inr f"
    and m: "map_of kvs ''method'' = Some m" "\<not> is_string m"
  shows "parse_request_frame env f = Inl (if unhashable m then TypeError ''unhashable type''
      else BrokerProtocolError ''broker request method is unsupported'')"
proof -
  have "distinct (keys kvs)" using assms(2) by (cases "rec_limit env") auto
  then have "jget_opt (sorted_dict kvs) ''method'' = sort_keys m" using m(1) by (simp add: jget_opt_def map_of_sort_keys)
  then show ?thesis
    using parse_request_canonical [OF assms(1-4)] m(2) by (cases m) (simp_all add: parse_method_def unhashable_def is_string_def)
qed

text \<open>
  C37. One request of a local client stops the broker. Take any canonical request whose method is not a string, of any peer
  the kernel can report, and any connections served before it. When the method is a list or an object, the test whether
  it is in a set of names raises a \<open>TypeError\<close>, which \<open>serve_forever\<close> does not survive: none of the connections that
  wait is served. When it is null, a truth value or a number, that connection gets no answer and
  the loop goes on with the others.
\<close>

theorem unhashable_method_stops_serving:
  assumes "canonical_json (JObj kvs) = Inr b" and "jwf (rec_limit env) (JObj kvs)"
    and "map_of kvs ''schema'' = Some (JStr BROKER_REQUEST_SCHEMA)" and "encode_frame b MAX_BROKER_REQUEST_BYTES = Inr f"
    and "map_of kvs ''method'' = Some m" and "\<not> is_string m" and peer: "peer_post_init peer = Inr ()"
    and before: "serve_forever env br auth meanwhile served w = (Inr rs, w1)"
  shows "serve_forever env br auth meanwhile (served @ (peer, f) # waiting) w =
    (if unhashable m then (Inl (TypeError ''unhashable type''), w1)
     else bindA (serve_forever env br auth meanwhile waiting) (\<lambda>qs. returnA (rs @ None # qs)) w1)"
proof -
  let ?e = "if unhashable m then TypeError ''unhashable type'' else BrokerProtocolError ''broker request method is unsupported''"
  have "serve_once env br auth meanwhile (peer, f) w1 = (Inl ?e, w1)"
    using parse_useless_method [OF assms(1-6)] peer read_one_encoded [OF assms(4)]
    by (simp add: serve_once_def handle_def liftA_def bindA_def)
  then have "serve_forever env br auth meanwhile ((peer, f) # waiting) w1 =
    (if unhashable m then (Inl (TypeError ''unhashable type''), w1)
     else bindA (serve_forever env br auth meanwhile waiting) (\<lambda>qs. returnA (None # qs)) w1)"
    by (simp add: serve_catches_def)
  then show ?thesis
    by (auto simp: serve_append [OF before] bindA_def returnA_def split: sum.splits prod.splits)
qed

definition bare_request :: "json \<Rightarrow> (string \<times> json) list" where
  "bare_request m = [(''method'', m), (''schema'', JStr BROKER_REQUEST_SCHEMA)]"

lemma bare_request_framed:
  assumes "m \<in> {JList [], JObj [], JNull}"
  obtains b f where "canonical_json (JObj (bare_request m)) = Inr b" "jwf (rec_limit sample_env) (JObj (bare_request m))"
    "encode_frame b MAX_BROKER_REQUEST_BYTES = Inr f"
proof -
  have "list_all (\<lambda>m. case canonical_json (JObj (bare_request m)) of Inr b \<Rightarrow> b \<noteq> [] \<and> length b \<le> 2000 | Inl _ \<Rightarrow> False) [JList [], JObj [], JNull]"
    "list_all (\<lambda>m. jwf (rec_limit sample_env) (JObj (bare_request m))) [JList [], JObj [], JNull]" by code_simp+
  with assms obtain b where b: "canonical_json (JObj (bare_request m)) = Inr b" "b \<noteq> []" "length b \<le> 2000"
    and "jwf (rec_limit sample_env) (JObj (bare_request m))" by (auto split: sum.splits)
  with that show ?thesis by (simp add: encode_frame_def MAX_BROKER_REQUEST_BYTES_def)
qed

theorem unhashable_method_stops_serving_witness:
  "(\<exists>b f. canonical_json (JObj (bare_request (JList []))) = Inr b \<and> encode_frame b MAX_BROKER_REQUEST_BYTES = Inr f
      \<and> (\<forall>waiting. serve_forever sample_env sample_broker None (\<lambda>s. s) ([] @ (stranger, f) # waiting) sample_world
          = (Inl (TypeError ''unhashable type''), sample_world)))
   \<and> (\<exists>b f. canonical_json (JObj (bare_request (JObj []))) = Inr b \<and> encode_frame b MAX_BROKER_REQUEST_BYTES = Inr f
      \<and> (\<forall>waiting. serve_forever sample_env sample_broker None (\<lambda>s. s) ([] @ (stranger, f) # waiting) sample_world
          = (Inl (TypeError ''unhashable type''), sample_world)))
   \<and> (\<exists>b f. canonical_json (JObj (bare_request JNull)) = Inr b \<and> encode_frame b MAX_BROKER_REQUEST_BYTES = Inr f
      \<and> serve_forever sample_env sample_broker None (\<lambda>s. s) ([] @ (stranger, f) # []) sample_world = (Inr [None], sample_world))"
proof -
  have p: "peer_post_init stranger = Inr ()" by (simp add: peer_post_init_def stranger_def)
  have s: "serve_forever sample_env sample_broker None (\<lambda>s. s) [] sample_world = (Inr [], sample_world)" by simp
  have k: "map_of (bare_request m) ''schema'' = Some (JStr BROKER_REQUEST_SCHEMA)" "map_of (bare_request m) ''method'' = Some m" for m
    by (simp_all add: bare_request_def)
  have "\<exists>b f. canonical_json (JObj (bare_request m)) = Inr b \<and> encode_frame b MAX_BROKER_REQUEST_BYTES = Inr f
      \<and> (\<forall>waiting. serve_forever sample_env sample_broker None (\<lambda>s. s) ([] @ (stranger, f) # waiting) sample_world =
        (if unhashable m then (Inl (TypeError ''unhashable type''), sample_world)
         else bindA (serve_forever sample_env sample_broker None (\<lambda>s. s) waiting) (\<lambda>qs. returnA ([] @ None # qs)) sample_world))"
    if m: "m \<in> {JList [], JObj [], JNull}" for m
  proof -
    have n: "\<not> is_string m" using m by (auto simp: is_string_def)
    from m obtain b f where bf: "canonical_json (JObj (bare_request m)) = Inr b" "jwf (rec_limit sample_env) (JObj (bare_request m))"
      "encode_frame b MAX_BROKER_REQUEST_BYTES = Inr f" by (rule bare_request_framed)
    from unhashable_method_stops_serving [OF bf(1,2) k(1) bf(3) k(2) n p s] bf(1,3) show ?thesis by blast
  qed
  from this [of "JList []"] this [of "JObj []"] this [of JNull] show ?thesis
    by (auto simp: unhashable_def bindA_def returnA_def)
qed

end
