(* ===== verification/Auth_Service_Properties.thy ===== *)
theory Auth_Service_Properties
  imports Auth_Properties Endpoint
begin

text \<open>
  Properties of the authorization service: an approval that starts an execution, and the tokens of the
  bootstrap.
\<close>

section \<open>Approval\<close>

lemma storeA_Inr_iff: "storeA g w = (Inr x, w1) \<longleftrightarrow> (\<exists>s. g (w_store w) = (Inr x, s) \<and> w1 = w\<lparr>w_store := s\<rparr>)"
  by (auto simp: storeA_def prod_eq_iff)

lemma finish_approval_Inr:
  assumes "finish_approval env au cid browser w = (Inr r, w')"
  obtains c b cred v a ev s1 n where "read_ceremony (w_store w) cid = Inr c" "canonical_browser_credential env browser = Inr b"
    "browser_credential_id (au_lib au) b = Inr (credential_id cred)" "cred_role cred = ROLE_APPROVAL"
    "verify_assertion env (au_lib au) (au_policy au) c browser cred = Inr v" "claim_with_approval (w_store w) c cred v a ev = (Inr r, s1)"
    "au_dispatch au (rec_job_id r) (rec_job_digest r) (w\<lparr>w_tick := n, w_store := s1\<rparr>) = (Inr (), w')"
proof -
  obtain eid at where e: "au_events au (w_tick w) = (eid, at)" by fastforce
  from assms obtain c x cred v where s: "read_ceremony (w_store w) cid = Inr c"
    "bindE (canonical_browser_credential env browser) (browser_credential_id (au_lib au)) = Inr x" "read_credential (w_store w) x = Inr cred"
    "cred_role cred = ROLE_APPROVAL" "verify_assertion env (au_lib au) (au_policy au) c browser cred = Inr v"
    "(let a = approval_record (token_hex au (Suc (w_tick w))) c cred v at in
      bindA (liftA (approval_post_init a)) (\<lambda>_.
      bindA (storeA (\<lambda>s. claim_with_approval s c cred v a (approved_claim eid at a))) (\<lambda>r.
      bindA (au_dispatch au (rec_job_id r) (rec_job_digest r)) (\<lambda>_. returnA r)))) (w\<lparr>w_tick := Suc (w_tick w)\<rparr>) = (Inr r, w')"
    unfolding finish_approval_def by (auto simp: bindA_Inr_iff result_simps next_event_def draw_def e)
  from s(2) obtain b where b: "canonical_browser_credential env browser = Inr b" "browser_credential_id (au_lib au) b = Inr x"
    by (auto simp: bindE_Inr_iff)
  have "x = credential_id cred" using s(5) b by (auto dest!: verify_assertion_Inr)
  with s b show thesis by (auto simp: Let_def bindA_Inr_iff storeA_Inr_iff result_simps intro: that)
qed

text \<open>
  C3. An approval starts the execution of exactly one job, once. When \<open>finish_approval\<close> returns, its ceremony was issued and
  its challenge is the hash over the digest of the job that is now running; the WebAuthn library verified the answer of the browser to that
  challenge under the public key of a stored approval credential; the job has run zero times before and one time now; and no later
  approval, with whatever ceremony, returns the same job again.
\<close>

theorem approval_starts_one_execution:
  assumes inv: "store_inv env (w_store w)" and disp: "\<And>jid jd. client env (au_dispatch au jid jd)"
    and fin: "finish_approval env au cid browser w = (Inr r, w')"
  shows "(\<exists>c b cred v. read_ceremony (w_store w) cid = Inr c \<and> cer_state c = CEREMONY_ISSUED \<and> cer_job_id c = Some (rec_job_id r)
      \<and> action_challenge_bytes (rec_job_digest r) (binding_nonce c) (cer_expires_at c) = Inr (challenge c)
      \<and> canonical_browser_credential env browser = Inr b \<and> read_credential (w_store w) (credential_id cred) = Inr cred \<and> cred_role cred = ROLE_APPROVAL
      \<and> verify_authentication_response (au_lib au) b (challenge c) (rp_id (au_policy au)) (allowed_origins (au_policy au))
          (public_key cred) (sign_count cred) = Some v)
    \<and> (\<exists>r0. find_record (w_store w) (rec_job_id r) = Some r0 \<and> state r0 = PENDING) \<and> state r = RUNNING \<and> execution_count r = 1
    \<and> (\<forall>w2 cid2 browser2 r2 w3. (store_step env)\<^sup>*\<^sup>* (w_store w') (w_store w2) \<and> finish_approval env au cid2 browser2 w2 = (Inr r2, w3)
         \<longrightarrow> rec_job_id r2 \<noteq> rec_job_id r)"
proof -
  have linv: "ledger_inv (w_store w)" using inv by (simp add: store_inv_def)
  from fin obtain c b cred v a ev s1 n where f: "read_ceremony (w_store w) cid = Inr c" "canonical_browser_credential env browser = Inr b"
    "cred_role cred = ROLE_APPROVAL" "verify_assertion env (au_lib au) (au_policy au) c browser cred = Inr v"
    "claim_with_approval (w_store w) c cred v a ev = (Inr r, s1)"
    "au_dispatch au (rec_job_id r) (rec_job_digest r) (w\<lparr>w_tick := n, w_store := s1\<rparr>) = (Inr (), w')"
    by (rule finish_approval_Inr)
  from f(5) have con: "approval_contract c cred v a ev" and cr: "read_credential (w_store w) (credential_id cred) = Inr cred"
    by (rule claim_with_approval_Inr, simp)+
  note rec = claim_with_approval_record [OF linv f(5)]
  have ids: "rec_job_id r = ev_job_id ev" "rec_job_digest r = ev_job_digest ev" using rec by (auto simp: apply_transition_Inr_iff)
  have "ceremony_ok c" using f(1) by (auto simp: read_ceremony_def bindE_Inr_iff ceremony_ok_def split: option.splits)
  then have chal: "action_challenge_bytes (rec_job_digest r) (binding_nonce c) (cer_expires_at c) = Inr (challenge c)"
    using approval_ceremony_binding [of c] con ids by (auto simp: approval_contract_def)
  have s1: "store_inv env s1" using store_step_inv [OF store_step.claim_with_approval inv, of c cred v a ev] f(5) by simp
  have r1: "r \<in> set (records s1)" using f(5)
  proof (rule claim_with_approval_Inr)
    fix s3 assume same: "same_jobs (w_store w) s3" and cas: "compare_and_append_tx s3 ev = Inr (r, s1)"
    obtain r0 where r0: "find_record (w_store w) (ev_job_id ev) = Some r0" using rec by blast
    have "ledger_inv s3" using evolves_same_jobs [OF same] linv by (simp add: evolves_def)
    moreover have "find_record s3 (ev_job_id ev) = Some r0" using r0 same by (simp add: find_record_def same_jobs_def)
    ultimately have "find_record s1 (ev_job_id ev) = Some r" using cas_after_seal [OF _ _ refl cas] by blast
    then show ?thesis using ledger_inv_find_record s1 by (auto simp: store_inv_def)
  qed
  have once: "rec_job_id r2 \<noteq> rec_job_id r"
    if st: "(store_step env)\<^sup>*\<^sup>* (w_store w') (w_store w2)" and fin2: "finish_approval env au cid2 browser2 w2 = (Inr r2, w3)" for w2 cid2 browser2 r2 w3
  proof
    assume same: "rec_job_id r2 = rec_job_id r"
    have "(store_step env)\<^sup>*\<^sup>* s1 (w_store w')" using disp [of "rec_job_id r" "rec_job_digest r"] f(6) by (force simp: client_def dest!: spec [of _ "w\<lparr>w_tick := n, w_store := s1\<rparr>"])
    with st have "(store_step env)\<^sup>*\<^sup>* s1 (w_store w2)" by (rule rtranclp_trans [rotated])
    with s1 have g: "store_inv env (w_store w2)" "forward s1 (w_store w2)" using steps_grow by blast+
    then have linv2: "ledger_inv (w_store w2)" by (simp add: store_inv_def)
    from fin2 obtain c2 cred2 v2 a2 ev2 s2 where "claim_with_approval (w_store w2) c2 cred2 v2 a2 ev2 = (Inr r2, s2)" by (rule finish_approval_Inr)
    from claim_with_approval_record [OF linv2 this] obtain r0 where r0: "r0 \<in> set (records (w_store w2))" "state r0 = PENDING" "rec_job_id r0 = rec_job_id r2"
      by (auto simp: apply_transition_Inr_iff)
    obtain r' where r': "r' \<in> set (records (w_store w2))" "record_le r r'" using g(2) r1 by (auto simp: forward_def grows_def)
    have "r' = r0" using find_record_in [OF linv2 r'(1)] find_record_in [OF linv2 r0(1)] r'(2) r0(3) same by (simp add: record_le_def)
    then show False using r'(2) r0(2) rec by (auto simp: record_le_def)
  qed
  show ?thesis
  proof (intro conjI allI impI)
    show "\<exists>c b cred v. read_ceremony (w_store w) cid = Inr c \<and> cer_state c = CEREMONY_ISSUED \<and> cer_job_id c = Some (rec_job_id r)
      \<and> action_challenge_bytes (rec_job_digest r) (binding_nonce c) (cer_expires_at c) = Inr (challenge c)
      \<and> canonical_browser_credential env browser = Inr b \<and> read_credential (w_store w) (credential_id cred) = Inr cred \<and> cred_role cred = ROLE_APPROVAL
      \<and> verify_authentication_response (au_lib au) b (challenge c) (rp_id (au_policy au)) (allowed_origins (au_policy au))
          (public_key cred) (sign_count cred) = Some v"
      using f(1,2,3) verify_assertion_Inr [OF f(4)] con cr chal ids by (fastforce simp: approval_contract_def)
    show "\<exists>r0. find_record (w_store w) (rec_job_id r) = Some r0 \<and> state r0 = PENDING" using rec ids by auto
    show "state r = RUNNING" "execution_count r = 1" using rec by auto
    show "rec_job_id r2 \<noteq> rec_job_id r" if "(store_step env)\<^sup>*\<^sup>* (w_store w') (w_store w2) \<and> finish_approval env au cid2 browser2 w2 = (Inr r2, w3)"
      for w2 cid2 browser2 r2 w3 using once that by blast
  qed
qed

text \<open>
  A concrete approval. The stand-in for the library takes base64 text as it is and accepts every assertion of the sample
  credential.
\<close>

definition sample_lib :: webauthn_lib where
  "sample_lib = \<lparr>base64url_to_bytes = (\<lambda>v. case v of JStr s \<Rightarrow> Inr s | _ \<Rightarrow> Inl (TypeError ''bytes'')),
     verify_registration_response = (\<lambda>_ _ _ _. None),
     verify_authentication_response = (\<lambda>_ _ _ _ _ _. Some \<lparr>vt_credential_id = ''cred'', vt_new_sign_count = 1, vt_user_verified = True,
       vt_device_type = ''single_device'', vt_backed_up = False\<rparr>)\<rparr>"

definition sample_service :: auth_service where
  "sample_service = \<lparr>au_events = (\<lambda>_. (''ev-1'', ''2026-07-01T00:00:01Z'')), au_dispatch = (\<lambda>_ _. returnA ()), au_lib = sample_lib,
     au_options = \<lparr>generate_registration_options = (\<lambda>_ _ _ _ _. Inr JNull), generate_authentication_options = (\<lambda>_ _ _ _. Inr JNull)\<rparr>,
     au_policy = \<lparr>rp_id = ''ops'', rp_name = ''ops'', allowed_origins = [''https://ops''], user_id = ''owner'', user_name = ''root-action-owner''\<rparr>,
     token_bytes = (\<lambda>_. sample_nonce), token_hex = (\<lambda>_. ''1'')\<rparr>"

definition sample_client_data :: json where
  "sample_client_data = JObj [(''origin'', JStr ''https://ops'')]"

definition sample_browser :: json where
  "sample_browser = JObj [(''id'', JStr ''cred''), (''rawId'', JStr ''cred''),
     (''response'', JObj [(''clientDataJSON'', JStr (dumps '','' '':'' sample_client_data))])]"

lemma loads_dumps: "jwf (rec_limit env) v \<Longrightarrow> json_loads env dict_hook (dumps '','' '':'' v) = Inr v"
proof -
  assume w: "jwf (rec_limit env) v"
  let ?t = "dumps '','' '':'' v"
  from w obtain c cs where "?t = c # cs" "\<not> is_ws c" by (rule dumps_hd)
  then have "skip_ws ?t = ?t" by (simp add: skip_ws_nonws)
  moreover have "scan_value env dict_hook (rec_limit env) ?t = Inr (v, [])"
    using scan_value_dumps [OF good_hook_dict_hook _ _ w num_end_close(4), of "'',''" "'':''"] by simp
  moreover have "take 3 ?t \<noteq> BOM" using dumps_not_BOM [OF w, of "'',''" "'':''" "[]"] by simp
  ultimately show ?thesis by (simp add: json_loads_def)
qed

lemma sample_browser_checks:
  "\<exists>b. canonical_browser_credential sample_env sample_browser = Inr b \<and> client_data_json sample_env sample_lib b = Inr [(''origin'', JStr ''https://ops'')]
     \<and> verify_user_handle sample_lib b ''owner'' = Inr () \<and> browser_credential_id sample_lib b = Inr ''cred''"
proof -
  have d: "utf8_valid (dumps '','' '':'' (sort_keys sample_browser)) \<and> length (dumps '','' '':'' (sort_keys sample_browser)) \<le> 1000
      \<and> dumps '','' '':'' (sort_keys sample_browser) \<noteq> [] \<and> utf8_valid (dumps '','' '':'' sample_client_data)" by code_simp
  have w: "jwf (rec_limit sample_env) (sort_keys sample_browser)" "jwf (rec_limit sample_env) sample_client_data" by code_simp+
  obtain b where b: "sort_keys sample_browser = JObj b" "b = [(''id'', JStr ''cred''), (''rawId'', JStr ''cred''),
     (''response'', JObj [(''clientDataJSON'', JStr (dumps '','' '':'' sample_client_data))])]" by (simp add: sample_browser_def)
  obtain k where k: "sample_browser = JObj k" by (simp add: sample_browser_def)
  have "canonical_browser_credential sample_env sample_browser = Inr b"
    using d loads_dumps [OF w(1)] b(1) unfolding k
    by (simp add: canonical_browser_credential_def encode_utf8_def decode_utf8_def MAX_BROWSER_CREDENTIAL_BYTES_def jobj_def del: sort_keys.simps)
  moreover have "client_data_json sample_env sample_lib b = Inr [(''origin'', JStr ''https://ops'')]"
    using d loads_dumps [OF w(2)]
    by (simp add: client_data_json_def b(2) jget_def subscript_def sample_lib_def decode_utf8_def)
      (simp add: sample_client_data_def jget_opt_def keys_def)
  moreover have "verify_user_handle sample_lib b ''owner'' = Inr ()" "browser_credential_id sample_lib b = Inr ''cred''"
    by (simp_all add: b(2) verify_user_handle_def browser_credential_id_def jget_def jget_opt_def sample_lib_def bounded_bytes_def MAX_CREDENTIAL_BYTES_def)
  ultimately show ?thesis by blast
qed

lemma sample_verified: "verify_assertion sample_env sample_lib (au_policy sample_service) sample_ceremony sample_browser sample_credential = Inr sample_assertion"
proof -
  obtain b where b: "canonical_browser_credential sample_env sample_browser = Inr b"
    "client_data_json sample_env sample_lib b = Inr [(''origin'', JStr ''https://ops'')]" "verify_user_handle sample_lib b ''owner'' = Inr ()"
    "browser_credential_id sample_lib b = Inr ''cred''" using sample_browser_checks by blast
  have v: "verify_authentication_response sample_lib x y z u p n = Some \<lparr>vt_credential_id = ''cred'', vt_new_sign_count = 1, vt_user_verified = True,
       vt_device_type = ''single_device'', vt_backed_up = False\<rparr>" for x y z u p n by (simp add: sample_lib_def)
  have a: "assertion_post_init sample_assertion = Inr ()" by code_simp
  have c: "purpose sample_ceremony = PURPOSE_APPROVAL" "revoked_at sample_credential = None" "credential_id sample_credential = ''cred''"
    "user_id (au_policy sample_service) = ''owner''" "rp_id (au_policy sample_service) = ''ops''"
    by (simp_all add: sample_ceremony_def sample_credential_def sample_service_def)
  show ?thesis using a by (simp add: verify_assertion_def b c v Let_def jget_def) (simp add: sample_assertion_def)
qed

lemma sample_auth_inv: "store_inv sample_env sample_auth_store"
proof -
  have i: "store_inv sample_env sample_store" by (rule reachable_inv [OF sample_reachable])
  have "ledger_inv sample_auth_store"
    by (rule ledger_inv_cong [of sample_store]) (use i in \<open>auto simp: store_inv_def sample_auth_store_def\<close>)
  moreover have "auth_inv sample_auth_store"
    by (simp add: auth_inv_def enrollment_ok_def approvals_ok_def sample_auth_store_def sample_bootstrap_def sample_store_def sample_sealed_def empty_store_def)
  moreover have "receipt_inv sample_env sample_auth_store"
    by (simp add: receipt_inv_def sample_auth_store_def sample_store_def sample_sealed_def empty_store_def)
  ultimately show ?thesis by (simp add: store_inv_def)
qed

theorem approval_starts_one_execution_witness:
  "\<exists>r w'. finish_approval sample_env sample_service ''cer-1'' sample_browser (sample_world\<lparr>w_store := sample_auth_store\<rparr>) = (Inr r, w')
    \<and> rec_job_id r = ''job-1'' \<and> state r = RUNNING \<and> execution_count r = 1
    \<and> (\<forall>cid2 browser2 r2 w3. finish_approval sample_env sample_service cid2 browser2 w' = (Inr r2, w3) \<longrightarrow> rec_job_id r2 \<noteq> ''job-1'')"
proof -
  let ?w = "sample_world\<lparr>w_store := sample_auth_store\<rparr>" and ?r = "advance sample_record sample_claim"
  obtain b where b: "canonical_browser_credential sample_env sample_browser = Inr b" "browser_credential_id sample_lib b = Inr ''cred''"
    using sample_browser_checks by blast
  have rc: "read_ceremony sample_auth_store ''cer-1'' = Inr sample_ceremony"
    using sample_ceremony_ok by (simp add: read_ceremony_def sample_auth_store_def) (simp add: sample_ceremony_def)
  have cr: "read_credential sample_auth_store ''cred'' = Inr sample_credential"
    by (simp add: read_credential_def sample_auth_store_def credential_from_row_def sample_credential_ok) (simp add: sample_credential_def)
  have ap: "approval_record ''1'' sample_ceremony sample_credential sample_assertion ''2026-07-01T00:00:01Z'' = sample_approval"
    by (simp add: approval_record_def sample_ceremony_def sample_assertion_def sample_approval_def or_empty_def)
  have ev: "approved_claim ''ev-1'' ''2026-07-01T00:00:01Z'' sample_approval = sample_claim"
    by (simp add: approved_claim_def sample_approval_def sample_claim_def)
  have ok: "approval_post_init sample_approval = Inr ()"
  proof -
    have "auth_safe_id ''approval-1'' ''approval_id'' = Inr ()" "auth_safe_id ''cer-1'' ''ceremony_id'' = Inr ()" "auth_safe_id ''job-1'' ''job_id'' = Inr ()"
      "RP_ID_RE ''ops''" "py_len ''https://ops'' \<le> 512" by code_simp+
    moreover have "auth_timestamp ''2026-07-01T00:00:01Z'' f = Inr ()" "auth_digest (job_digest sample_job) f = Inr ()"
      "auth_digest (fingerprint sample_credential) f = Inr ()" for f
      using sample_auth_times(4) job_ok_digest [OF sample_job_ok] fingerprint_digest by (simp_all only: auth_check_Inr_iff)
    ultimately show ?thesis by (simp add: approval_post_init_def sample_approval_def)
  qed
  have role: "cred_role sample_credential = ROLE_APPROVAL" by (simp add: sample_credential_def)
  have sv: "au_lib sample_service = sample_lib" "au_events sample_service n = (''ev-1'', ''2026-07-01T00:00:01Z'')" "token_hex sample_service n = ''1''"
    "au_dispatch sample_service jid jd = returnA ()" for n jid jd by (simp_all add: sample_service_def)
  obtain s' where s': "claim_with_approval sample_auth_store sample_ceremony sample_credential sample_assertion sample_approval sample_claim = (Inr ?r, s')"
    using sample_claims by blast
  have f: "finish_approval sample_env sample_service ''cer-1'' sample_browser ?w = (Inr ?r, ?w\<lparr>w_tick := Suc (w_tick ?w), w_store := s'\<rparr>)"
    using rc cr b s' ok by (simp add: finish_approval_def bindA_queryA sv role sample_verified draw_def bindA_simps ap ev bindA_storeA)
  have "client sample_env (au_dispatch sample_service jid jd)" for jid jd by (simp add: sv client_intros)
  note main = approval_starts_one_execution [OF _ this f]
  have "store_inv sample_env (w_store ?w)" using sample_auth_inv by simp
  note main = main [OF this]
  have id: "rec_job_id ?r = ''job-1''" by (simp add: sample_record_def)
  let ?w1 = "?w\<lparr>w_tick := Suc (w_tick ?w), w_store := s'\<rparr>"
  have "rec_job_id r2 \<noteq> ''job-1''" if "finish_approval sample_env sample_service cid2 browser2 ?w1 = (Inr r2, w3)" for cid2 browser2 r2 w3
    using main [THEN conjunct2, THEN conjunct2, THEN conjunct2, THEN conjunct2, rule_format, of ?w1 cid2 browser2 r2 w3] that id by simp
  then show ?thesis using main f id by (intro exI [of _ ?r] exI [of _ ?w1]) blast
qed

section \<open>The bootstrap token\<close>

lemma b64_char_token: "n < 64 \<Longrightarrow> token_char (b64_char n)"
proof -
  let ?a = "''ABCDEFGHIJKLMNOPQRSTUVWXYZabcdefghijklmnopqrstuvwxyz0123456789-_''"
  assume "n < 64"
  then have "?a ! n \<in> set ?a" by (intro nth_mem) simp
  moreover have "list_all token_char ?a" by code_simp
  ultimately show ?thesis by (simp only: b64_char_def list_all_iff)
qed

lemma b64url_shape: "list_all token_char (b64url s) \<and> length (b64url s) = (4 * length s + 2) div 3"
proof (induction s rule: b64url.induct)
  case (2 a)
  have "of_char a < (256::nat)" by (rule nat_of_char_less_256)
  then show ?case by (auto simp: Let_def intro!: b64_char_token less_mult_imp_div_less)
next
  case (3 a b)
  have "of_char a < (256::nat)" "of_char b < (256::nat)" by (rule nat_of_char_less_256)+
  then have "1024 * of_char a + of_char b * 4 < (262144::nat)" by linarith
  then show ?case by (auto simp: Let_def intro!: b64_char_token less_mult_imp_div_less)
next
  case (4 a b c r)
  have "of_char a < (256::nat)" "of_char b < (256::nat)" "of_char c < (256::nat)" by (rule nat_of_char_less_256)+
  moreover have "(x * 256 + y) * 256 + z < (16777216::nat)" if "x < 256" "y < 256" "z < 256" for x y z using that by simp
  ultimately have "(of_char a * 256 + of_char b) * 256 + of_char c < (16777216::nat)" by blast
  then show ?case using 4 by (auto simp: Let_def intro!: b64_char_token less_mult_imp_div_less)
qed simp

lemma insert_bootstrap_by_token:
  assumes "insert_bootstrap s b = Inr s'" and "bootstrap_ok b"
  shows "read_auth_bootstrap_by_token s' (token_digest b) = Inr b"
proof -
  have n: "token_digest b \<notin> set (map token_digest (bootstraps s))" and s': "s' = s\<lparr>bootstraps := bootstraps s @ [b]\<rparr>"
    using assms(1) by (auto simp: insert_bootstrap_def split: if_splits)
  have "List.find (\<lambda>x. token_digest x = token_digest b) (xs @ [b]) = Some b" if "token_digest b \<notin> set (map token_digest xs)" for xs
    using that by (induction xs) auto
  then show ?thesis using n assms(2)
    by (simp add: read_auth_bootstrap_by_token_def bootstrap_by_token_def bootstrap_from_row_def s' bootstrap_ok_def)
qed

text \<open>
  The token of a bootstrap opens its session. The token \<open>create_initial_bootstrap\<close> returns passes the check of the wire protocol,
  and what \<open>begin_registration\<close> computes from it finds the session that was just stored, issued and with three
  registrations. The library has to decode the token to the bytes it encodes, which are 32 random bytes.
\<close>

theorem bootstrap_token_opens_session:
  assumes made: "create_initial_bootstrap au w = (Inr (session, token), w')"
    and dec: "base64url_to_bytes (au_lib au) (JStr token) = Inr (token_bytes au (Suc (w_tick w)))" and len: "length (token_bytes au (Suc (w_tick w))) = 32"
  shows "BOOTSTRAP_TOKEN_RE token
    \<and> (\<exists>d. bindE (decoded_bootstrap_token (au_lib au) token) bootstrap_token_digest = Inr d \<and> read_auth_bootstrap_by_token (w_store w') d = Inr session)
    \<and> boot_state session = BOOTSTRAP_ISSUED \<and> remaining_registrations session = 3"
proof -
  let ?t = "token_bytes au (Suc (w_tick w))"
  obtain eid issued where e: "au_events au (w_tick w) = (eid, issued)" by fastforce
  from made obtain d expires s1 where s: "bootstrap_token_digest ?t = Inr d"
    "session = \<lparr>bootstrap_id = ''bootstrap-'' @ token_hex au (Suc (w_tick w)), token_digest = d, boot_issued_at = issued, boot_expires_at = expires,
       remaining_registrations = 3, boot_state = BOOTSTRAP_ISSUED\<rparr>"
    "bootstrap_post_init session = Inr ()" "create_auth_bootstrap (w_store w) session = (Inr (), s1)" "w_store w' = s1" "token = b64url ?t"
    unfolding create_initial_bootstrap_def
    by (auto simp: bindA_Inr_iff next_event_def draw_def Let_def storeA_Inr_iff encoded_bootstrap_token_def result_simps e)
  have ok: "bootstrap_ok session" using s(3) by (simp add: bootstrap_ok_def)
  from s(4) obtain s0 where "insert_bootstrap s0 session = Inr s1"
    by (auto simp: create_auth_bootstrap_def transaction_Inr bindE_Inr_iff Let_def split: if_splits)
  from insert_bootstrap_by_token [OF this ok] have "read_auth_bootstrap_by_token (w_store w') d = Inr session" using s(2,5) by simp
  moreover have "bindE (decoded_bootstrap_token (au_lib au) token) bootstrap_token_digest = Inr d"
    using dec len s(1) by (simp add: decoded_bootstrap_token_def)
  moreover have "BOOTSTRAP_TOKEN_RE token" using b64url_shape [of ?t] len s(6) by (simp add: BOOTSTRAP_TOKEN_RE_def)
  ultimately show ?thesis using s(2) by auto
qed

definition bootstrap_service :: auth_service where
  "bootstrap_service = sample_service\<lparr>au_events := (\<lambda>_. (''ev-1'', ''2026-07-01T00:00:00Z'')),
     au_lib := sample_lib\<lparr>base64url_to_bytes := (\<lambda>_. Inr sample_nonce)\<rparr>\<rparr>"

lemma sample_bootstrap_created:
  "\<exists>session token w'. create_initial_bootstrap bootstrap_service sample_world = (Inr (session, token), w')"
proof -
  have t: "bootstrap_token_digest sample_nonce = Inr (sha256_tag (''agent-runtime-root-action-bootstrap/v1'' @ [CHR 0x00] @ sample_nonce))"
    by (simp only: bootstrap_token_digest_def bounded_bytes_def) (simp add: sample_nonce_def)
  have p: "strptime ''2026-07-01T00:00:00Z'' = Some (Civil 2026 7 1 0 0 0)" "strptime ''2026-07-01T00:10:00Z'' = Some (Civil 2026 7 1 0 10 0)" by code_simp+
  obtain i where i: "parse_instant ''2026-07-01T00:00:00Z'' = Inr i" "parse_instant ''2026-07-01T00:10:00Z'' = Inr (i + 600)"
    by (simp add: parse_instant_def p instant_def)
  have "min_instant \<le> instant_2000" "instant_2100 \<le> max_instant"
    by (simp_all add: instant_2000_def instant_2100_def min_instant_def max_instant_def instant_def toordinal_def days_before_year_def days_before_month_def)
  then have "min_instant \<le> i + 600" "i + 600 \<le> max_instant" using parse_instant_range [OF sample_auth_times(1) i(2)] by auto
  with i have i: "parse_instant ''2026-07-01T00:00:00Z'' = Inr i" "parse_instant ''2026-07-01T00:10:00Z'' = Inr (i + 600)"
    "min_instant \<le> i + 600" "i + 600 \<le> max_instant" by simp_all
  have x: "after ''2026-07-01T00:00:00Z'' BOOTSTRAP_SECONDS = Inr ''2026-07-01T00:10:00Z''"
    using i format_parse_instant [OF sample_auth_times(1) i(2)] by (simp add: after_def shift_instant_def BOOTSTRAP_SECONDS_def)
  let ?s = "\<lparr>bootstrap_id = ''bootstrap-1'', token_digest = sha256_tag (''agent-runtime-root-action-bootstrap/v1'' @ [CHR 0x00] @ sample_nonce),
     boot_issued_at = ''2026-07-01T00:00:00Z'', boot_expires_at = ''2026-07-01T00:10:00Z'', remaining_registrations = 3, boot_state = BOOTSTRAP_ISSUED\<rparr>"
  have "SAFE_ID_RE ''bootstrap-1''" "''2026-07-01T00:00:00Z'' < ''2026-07-01T00:10:00Z''" by code_simp+
  then have "bootstrap_ok ?s" using sample_auth_times by (simp add: bootstrap_ok_iff sha256_tag_digest)
  moreover have "\<exists>s'. create_auth_bootstrap sample_store ?s = (Inr (), s')"
    by (simp add: create_auth_bootstrap_def transaction_def insert_bootstrap_def Let_def sample_store_def sample_sealed_def empty_store_def)
  moreover have "bounded_bytes sample_nonce f 64 = Inr ()" for f by (simp add: bounded_bytes_def sample_nonce_def)
  ultimately show ?thesis
    by (auto simp: create_initial_bootstrap_def bootstrap_service_def sample_service_def sample_world_def draw_def bindA_def next_event_def t x
        bootstrap_ok_def storeA_def encoded_bootstrap_token_def Let_def)
qed

theorem bootstrap_token_opens_session_witness:
  "\<exists>session token w'. create_initial_bootstrap bootstrap_service sample_world = (Inr (session, token), w') \<and> BOOTSTRAP_TOKEN_RE token
    \<and> remaining_registrations session = 3"
proof -
  obtain session token w' where c: "create_initial_bootstrap bootstrap_service sample_world = (Inr (session, token), w')"
    using sample_bootstrap_created by blast
  have "base64url_to_bytes (au_lib bootstrap_service) (JStr token) = Inr (token_bytes bootstrap_service (Suc (w_tick sample_world)))"
    "length (token_bytes bootstrap_service (Suc (w_tick sample_world))) = 32"
    by (simp_all add: bootstrap_service_def sample_service_def sample_lib_def sample_nonce_def)
  from bootstrap_token_opens_session [OF c this] c show ?thesis by blast
qed

end
