(* ===== verification/Sha256_Evaluation.thy ===== *)
theory Sha256_Evaluation
  imports Sha256
begin

text \<open>
  SHA-256 evaluated inside the logic. A word is a list of 32 truth values, least significant
  first, on which each operation of the compression function is a rewrite per bit; the
  theory shows that these operations compute those of \<open>Sha256\<close>, and checks the definitions of
  that theory on the one-block message of FIPS 180-4. The digests of concrete
  ceremonies are evaluated the same way.
\<close>

section \<open>Words as lists of bits\<close>

type_synonym bits = "bool list"

definition word_of :: "bits \<Rightarrow> w32" where
  "word_of bs = horner_sum of_bool 2 bs"

definition bits_of :: "nat \<Rightarrow> bits" where
  "bits_of n = map (bit n) [0..<32]"

fun num_bits :: "nat \<Rightarrow> num \<Rightarrow> bits" where
  "num_bits 0 x = []"
| "num_bits (Suc n) num.One = True # replicate n False"
| "num_bits (Suc n) (num.Bit0 x) = False # num_bits n x"
| "num_bits (Suc n) (num.Bit1 x) = True # num_bits n x"

lemma num_bits_eq: "num_bits n x = map (bit (numeral x :: nat)) [0..<n]"
proof (induction n x rule: num_bits.induct)
  case (2 n)
  show ?case by (rule nth_equalityI) (auto simp: nth_Cons bit_1_iff simp del: upt_Suc One_nat_def split: nat.splits)
next
  case (3 n x)
  show ?case by (simp add: 3 upt_conv_Cons map_Suc_upt [symmetric] bit_numeral_simps del: upt_Suc)
next
  case (4 n x)
  show ?case by (simp add: 4 upt_conv_Cons map_Suc_upt [symmetric] bit_numeral_simps del: upt_Suc)
qed simp

definition word_bits :: "num \<Rightarrow> bits" where
  "word_bits x = num_bits 32 x"

lemma bits_of_numeral: "bits_of (numeral x) = word_bits x"
  by (simp add: bits_of_def word_bits_def num_bits_eq)

lemma bits_of_0: "bits_of 0 = replicate 32 False"
  by (rule nth_equalityI) (simp_all add: bits_of_def)

lemma length_bits_of [simp]: "length (bits_of n) = 32"
  by (simp add: bits_of_def)

lemma word_of_bits_of: "word_of (bits_of n) = of_nat n"
  by (rule bit_eqI) (simp add: word_of_def bits_of_def bit_horner_sum_bit_word_iff bit_of_nat_iff)

lemma bit_word_of: "length bs = 32 \<Longrightarrow> n < 32 \<Longrightarrow> bit (word_of bs) n = bs ! n"
  by (simp add: word_of_def bit_horner_sum_bit_word_iff)

section \<open>The operations on bits\<close>

fun xor3 :: "bool \<Rightarrow> bool \<Rightarrow> bool \<Rightarrow> bool" where
  "xor3 True True c = c"
| "xor3 True False c = (\<not> c)"
| "xor3 False True c = (\<not> c)"
| "xor3 False False c = c"

fun maj3 :: "bool \<Rightarrow> bool \<Rightarrow> bool \<Rightarrow> bool" where
  "maj3 True True c = True"
| "maj3 True False c = c"
| "maj3 False True c = c"
| "maj3 False False c = False"

fun xor_bits :: "bits \<Rightarrow> bits \<Rightarrow> bits \<Rightarrow> bits" where
  "xor_bits (a # as) (b # bs) (c # cs) = xor3 a b c # xor_bits as bs cs"
| "xor_bits _ _ _ = []"

fun maj_bits :: "bits \<Rightarrow> bits \<Rightarrow> bits \<Rightarrow> bits" where
  "maj_bits (a # as) (b # bs) (c # cs) = maj3 a b c # maj_bits as bs cs"
| "maj_bits _ _ _ = []"

fun ch_bits :: "bits \<Rightarrow> bits \<Rightarrow> bits \<Rightarrow> bits" where
  "ch_bits (True # as) (b # bs) (c # cs) = b # ch_bits as bs cs"
| "ch_bits (False # as) (b # bs) (c # cs) = c # ch_bits as bs cs"
| "ch_bits _ _ _ = []"

fun add_bits :: "bool \<Rightarrow> bits \<Rightarrow> bits \<Rightarrow> bits" where
  "add_bits c (a # as) (b # bs) = xor3 a b c # add_bits (maj3 a b c) as bs"
| "add_bits _ _ _ = []"

definition rot_bits :: "nat \<Rightarrow> bits \<Rightarrow> bits" where
  "rot_bits n bs = drop n bs @ take n bs"

definition shift_bits :: "nat \<Rightarrow> bits \<Rightarrow> bits" where
  "shift_bits n bs = drop n bs @ replicate n False"

lemma xor3_iff: "xor3 a b c \<longleftrightarrow> ((a \<noteq> b) \<noteq> c)"
  by (cases a; cases b; simp)

lemma maj3_iff: "maj3 a b c \<longleftrightarrow> (a \<and> b \<or> a \<and> c \<or> b \<and> c)"
  by (cases a; cases b; simp)

lemma xor_bits_nth: "length as = n \<Longrightarrow> length bs = n \<Longrightarrow> length cs = n \<Longrightarrow>
    length (xor_bits as bs cs) = n \<and> (\<forall>i<n. xor_bits as bs cs ! i = xor3 (as ! i) (bs ! i) (cs ! i))"
  by (induction as bs cs arbitrary: n rule: xor_bits.induct) (auto simp: nth_Cons split: nat.splits)

lemma maj_bits_nth: "length as = n \<Longrightarrow> length bs = n \<Longrightarrow> length cs = n \<Longrightarrow>
    length (maj_bits as bs cs) = n \<and> (\<forall>i<n. maj_bits as bs cs ! i = maj3 (as ! i) (bs ! i) (cs ! i))"
  by (induction as bs cs arbitrary: n rule: maj_bits.induct) (auto simp: nth_Cons split: nat.splits)

lemma ch_bits_nth: "length as = n \<Longrightarrow> length bs = n \<Longrightarrow> length cs = n \<Longrightarrow>
    length (ch_bits as bs cs) = n \<and> (\<forall>i<n. ch_bits as bs cs ! i = (if as ! i then bs ! i else cs ! i))"
  by (induction as bs cs arbitrary: n rule: ch_bits.induct) (auto simp: nth_Cons split: nat.splits)

lemma length_xor_bits [simp]: "length as = 32 \<Longrightarrow> length bs = 32 \<Longrightarrow> length cs = 32 \<Longrightarrow> length (xor_bits as bs cs) = 32"
  using xor_bits_nth by blast

lemma length_maj_bits [simp]: "length as = 32 \<Longrightarrow> length bs = 32 \<Longrightarrow> length cs = 32 \<Longrightarrow> length (maj_bits as bs cs) = 32"
  using maj_bits_nth by blast

lemma length_ch_bits [simp]: "length as = 32 \<Longrightarrow> length bs = 32 \<Longrightarrow> length cs = 32 \<Longrightarrow> length (ch_bits as bs cs) = 32"
  using ch_bits_nth by blast

lemma length_add_bits [simp]: "length as = length bs \<Longrightarrow> length (add_bits c as bs) = length bs"
  by (induction c as bs rule: add_bits.induct) simp_all

lemma length_rot_bits [simp]: "length bs = 32 \<Longrightarrow> n \<le> 32 \<Longrightarrow> length (rot_bits n bs) = 32"
  by (simp add: rot_bits_def)

lemma length_shift_bits [simp]: "length bs = 32 \<Longrightarrow> n \<le> 32 \<Longrightarrow> length (shift_bits n bs) = 32"
  by (simp add: shift_bits_def)

lemma word_of_xor:
  assumes "length as = 32" "length bs = 32" "length cs = 32"
  shows "word_of (xor_bits as bs cs) = word_of as XOR word_of bs XOR word_of cs"
  by (rule bit_word_eqI) (use xor_bits_nth [OF assms] assms in \<open>auto simp: bit_word_of bit_xor_iff xor3_iff\<close>)

lemma word_of_maj:
  assumes "length as = 32" "length bs = 32" "length cs = 32"
  shows "word_of (maj_bits as bs cs) = maj (word_of as) (word_of bs) (word_of cs)"
  by (rule bit_word_eqI) (use maj_bits_nth [OF assms] assms in
    \<open>auto simp: bit_word_of maj_def bit_xor_iff bit_and_iff maj3_iff\<close>)

lemma word_of_ch:
  assumes "length as = 32" "length bs = 32" "length cs = 32"
  shows "word_of (ch_bits as bs cs) = ch (word_of as) (word_of bs) (word_of cs)"
  by (rule bit_word_eqI) (use ch_bits_nth [OF assms] assms in
    \<open>auto simp: bit_word_of ch_def bit_xor_iff bit_and_iff bit_not_iff\<close>)

lemma word_of_rot:
  assumes "length bs = 32" "n < 32"
  shows "word_of (rot_bits n bs) = word_rotr n (word_of bs)"
proof (rule bit_word_eqI)
  fix i assume i: "i < LENGTH(32)"
  have "rot_bits n bs = rotate n bs" using assms by (simp add: rot_bits_def rotate_drop_take)
  then show "bit (word_of (rot_bits n bs)) i = bit (word_rotr n (word_of bs)) i"
    using i assms by (simp add: bit_word_of bit_word_rotr_iff nth_rotate add.commute)
qed

lemma word_of_shift:
  assumes "length bs = 32" "n < 32"
  shows "word_of (shift_bits n bs) = drop_bit n (word_of bs)"
proof (rule bit_word_eqI)
  fix i assume i: "i < LENGTH(32)"
  then show "bit (word_of (shift_bits n bs)) i = bit (drop_bit n (word_of bs)) i"
    using assms by (auto simp: word_of_def bit_horner_sum_bit_word_iff bit_drop_bit_eq shift_bits_def nth_append)
qed

lemma add_bits_sum:
  "length as = length bs \<Longrightarrow>
   \<exists>k. word_of as + word_of bs + of_bool c = word_of (add_bits c as bs) + 2 ^ length bs * k"
proof (induction c as bs rule: add_bits.induct)
  case (1 c a as b bs)
  then obtain k where k: "word_of as + word_of bs + of_bool (maj3 a b c) = word_of (add_bits (maj3 a b c) as bs) + 2 ^ length bs * k"
    by auto
  have "word_of (a # as) + word_of (b # bs) + of_bool c
      = of_bool (xor3 a b c) + 2 * (word_of as + word_of bs + of_bool (maj3 a b c))"
    by (simp add: word_of_def xor3_iff maj3_iff algebra_simps)
  also have "\<dots> = word_of (add_bits c (a # as) (b # bs)) + 2 ^ length (b # bs) * k"
    by (simp add: k) (simp add: word_of_def algebra_simps)
  finally show ?case by blast
qed (auto simp: word_of_def intro: exI [of _ "of_bool _"])

lemma word_of_add:
  assumes "length as = 32" "length bs = 32"
  shows "word_of (add_bits False as bs) = word_of as + word_of bs"
proof -
  obtain k where k: "word_of as + word_of bs + of_bool False = word_of (add_bits False as bs) + 2 ^ 32 * k"
    using add_bits_sum [of as bs False] assms by auto
  have "(2 :: w32) ^ 32 = 0" by simp
  with k show ?thesis by (simp only: mult_zero_left add_0_right of_bool_eq)
qed


section \<open>The compression function on bits\<close>

definition sigma0_bits :: "bits \<Rightarrow> bits" where
  "sigma0_bits x = xor_bits (rot_bits 7 x) (rot_bits 18 x) (shift_bits 3 x)"

definition sigma1_bits :: "bits \<Rightarrow> bits" where
  "sigma1_bits x = xor_bits (rot_bits 17 x) (rot_bits 19 x) (shift_bits 10 x)"

definition big_sigma0_bits :: "bits \<Rightarrow> bits" where
  "big_sigma0_bits x = xor_bits (rot_bits 2 x) (rot_bits 13 x) (rot_bits 22 x)"

definition big_sigma1_bits :: "bits \<Rightarrow> bits" where
  "big_sigma1_bits x = xor_bits (rot_bits 6 x) (rot_bits 11 x) (rot_bits 25 x)"

definition schedule_word :: "bits \<Rightarrow> bits \<Rightarrow> bits \<Rightarrow> bits \<Rightarrow> bits" where
  "schedule_word w1 w6 w14 w15 =
     add_bits False (add_bits False (add_bits False (sigma1_bits w1) w6) (sigma0_bits w14)) w15"

definition next_word :: "bits list \<Rightarrow> bits" where
  "next_word ws = schedule_word (ws ! 1) (ws ! 6) (ws ! 14) (ws ! 15)"

lemma next_word_Cons:
  "next_word (w0 # w1 # w2 # w3 # w4 # w5 # w6 # w7 # w8 # w9 # w10 # w11 # w12 # w13 # w14 # w15 # ws) =
     schedule_word w1 w6 w14 w15"
  by (simp add: next_word_def)

fun schedule_bits :: "nat \<Rightarrow> bits list \<Rightarrow> bits list" where
  "schedule_bits 0 ws = ws"
| "schedule_bits (Suc n) ws = schedule_bits n (next_word ws # ws)"

definition close_round :: "bits \<Rightarrow> bits \<Rightarrow> bits \<Rightarrow> bits \<Rightarrow> bits \<Rightarrow> bits \<Rightarrow> bits \<Rightarrow> bits \<Rightarrow> bits \<Rightarrow> bits list" where
  "close_round t1 t2 a b c d e f g = [add_bits False t1 t2, a, b, c, add_bits False d t1, e, f, g]"

fun round_bits :: "bits list \<Rightarrow> bits \<Rightarrow> bits \<Rightarrow> bits list" where
  "round_bits [a, b, c, d, e, f, g, h] k w = close_round
     (add_bits False (add_bits False (add_bits False (add_bits False h (big_sigma1_bits e)) (ch_bits e f g)) k) w)
     (add_bits False (big_sigma0_bits a) (maj_bits a b c)) a b c d e f g"
| "round_bits s k w = s"

fun rounds_bits :: "bits list \<Rightarrow> bits list \<Rightarrow> bits list \<Rightarrow> bits list" where
  "rounds_bits s (k # ks) (w # ws) = rounds_bits (round_bits s k w) ks ws"
| "rounds_bits s _ _ = s"

fun add_lists :: "bits list \<Rightarrow> bits list \<Rightarrow> bits list" where
  "add_lists (a # as) (b # bs) = add_bits False a b # add_lists as bs"
| "add_lists _ _ = []"

definition k_numbers :: "nat list" where
  "k_numbers = [
   1116352408, 1899447441, 3049323471, 3921009573, 961987163, 1508970993, 2453635748, 2870763221,
   3624381080, 310598401, 607225278, 1426881987, 1925078388, 2162078206, 2614888103, 3248222580,
   3835390401, 4022224774, 264347078, 604807628, 770255983, 1249150122, 1555081692, 1996064986,
   2554220882, 2821834349, 2952996808, 3210313671, 3336571891, 3584528711, 113926993, 338241895,
   666307205, 773529912, 1294757372, 1396182291, 1695183700, 1986661051, 2177026350, 2456956037,
   2730485921, 2820302411, 3259730800, 3345764771, 3516065817, 3600352804, 4094571909, 275423344,
   430227734, 506948616, 659060556, 883997877, 958139571, 1322822218, 1537002063, 1747873779,
   1955562222, 2024104815, 2227730452, 2361852424, 2428436474, 2756734187, 3204031479, 3329325298]"

definition block_bits :: "bits list \<Rightarrow> bits list \<Rightarrow> bits list" where
  "block_bits h m = add_lists h (rounds_bits h (map bits_of k_numbers) (rev (schedule_bits 48 (rev m))))"

text \<open>Lists of words of full length.\<close>

abbreviation full :: "bits list \<Rightarrow> bool" where
  "full ws \<equiv> list_all (\<lambda>w. length w = 32) ws"

abbreviation words :: "bits list \<Rightarrow> w32 list" where
  "words ws \<equiv> map word_of ws"

lemma word_of_sigmas:
  assumes "length x = 32"
  shows "word_of (sigma0_bits x) = sigma0 (word_of x)" "length (sigma0_bits x) = 32"
    "word_of (sigma1_bits x) = sigma1 (word_of x)" "length (sigma1_bits x) = 32"
    "word_of (big_sigma0_bits x) = big_sigma0 (word_of x)" "length (big_sigma0_bits x) = 32"
    "word_of (big_sigma1_bits x) = big_sigma1 (word_of x)" "length (big_sigma1_bits x) = 32"
  using assms
  by (simp_all add: sigma0_bits_def sigma1_bits_def big_sigma0_bits_def big_sigma1_bits_def
      sigma0_def sigma1_def big_sigma0_def big_sigma1_def word_of_xor word_of_rot word_of_shift)

lemma schedule_bits_words:
  "full ws \<Longrightarrow> 16 \<le> length ws \<Longrightarrow> full (schedule_bits n ws) \<and> words (schedule_bits n ws) = sha_schedule n (words ws)"
proof (induction n ws rule: schedule_bits.induct)
  case (2 n ws)
  then have l: "length (ws ! i) = 32" if "i < 16" for i using that by (simp add: list_all_length)
  then have "length (next_word ws) = 32" by (simp add: next_word_def schedule_word_def word_of_sigmas)
  moreover have "word_of (next_word ws)
      = sigma1 (words ws ! 1) + words ws ! 6 + sigma0 (words ws ! 14) + words ws ! 15"
    using 2(3) l by (simp add: next_word_def schedule_word_def word_of_add word_of_sigmas)
  ultimately show ?case using 2 by simp
qed simp

lemma round_bits_words:
  assumes "full [a, b, c, d, e, f, g, h]" "length k = 32" "length w = 32"
  shows "full (round_bits [a, b, c, d, e, f, g, h] k w)
    \<and> length (round_bits [a, b, c, d, e, f, g, h] k w) = 8
    \<and> words (round_bits [a, b, c, d, e, f, g, h] k w) = sha_round (words [a, b, c, d, e, f, g, h]) (word_of k, word_of w)"
  using assms by (simp add: close_round_def word_of_add word_of_ch word_of_maj word_of_sigmas Let_def)

lemma eight_words: "length s = 8 \<Longrightarrow> \<exists>a b c d e f g h. s = [a, b, c, d, e, f, g, h]"
  by (auto simp: numeral_eq_Suc length_Suc_conv)

lemma rounds_bits_words:
  "full s \<Longrightarrow> length s = 8 \<Longrightarrow> full ks \<Longrightarrow> full ws \<Longrightarrow>
   full (rounds_bits s ks ws) \<and> words (rounds_bits s ks ws) = foldl sha_round (words s) (zip (words ks) (words ws))"
proof (induction s ks ws rule: rounds_bits.induct)
  case (1 s k ks w ws)
  then obtain a b c d e f g h where s: "s = [a, b, c, d, e, f, g, h]" using eight_words by blast
  then show ?case using 1 round_bits_words [of a b c d e f g h k w] by simp
qed simp_all

lemma add_lists_words:
  "full s \<Longrightarrow> full t \<Longrightarrow> words (add_lists s t) = map2 (+) (words s) (words t)"
  by (induction s t rule: add_lists.induct) (simp_all add: word_of_add)

lemma k_numbers_words: "words (map bits_of k_numbers) = sha_k"
  by (simp add: k_numbers_def sha_k_def word_of_bits_of)

lemma block_bits_words:
  assumes "full h" "length h = 8" "full m" "length m = 16"
  shows "words (block_bits h m) = sha_block (words h) (words m)"
proof -
  have sch: "full (schedule_bits 48 (rev m))" "words (schedule_bits 48 (rev m)) = sha_schedule 48 (rev (words m))"
    using schedule_bits_words [of "rev m" 48] assms by (simp_all add: rev_map [symmetric])
  have "full (map bits_of k_numbers)" by (simp add: list_all_iff)
  then have "full (rounds_bits h (map bits_of k_numbers) (rev (schedule_bits 48 (rev m))))
    \<and> words (rounds_bits h (map bits_of k_numbers) (rev (schedule_bits 48 (rev m))))
      = foldl sha_round (words h) (zip sha_k (rev (sha_schedule 48 (rev (words m)))))"
    using rounds_bits_words [of h "map bits_of k_numbers" "rev (schedule_bits 48 (rev m))"] assms sch
    by (simp only: k_numbers_words rev_map [symmetric] list_all_rev)
  with assms show ?thesis by (simp only: block_bits_def add_lists_words sha_block_def)
qed



section \<open>Evaluation\<close>

text \<open>The rules that evaluate a block: numbers of rotations in unary, one rewrite for each bit.\<close>

lemma zero_bits: "bits_of 0 = [False, False, False, False, False, False, False, False,
    False, False, False, False, False, False, False, False, False, False, False, False, False, False, False, False,
    False, False, False, False, False, False, False, False]"
  by (simp add: bits_of_0 numeral_eq_Suc)

lemmas unary = numeral_eq_Suc pred_numeral_simps BitM.simps

lemmas number_bits = bits_of_numeral word_bits_def [unfolded unary] zero_bits num_bits.simps

lemmas sigma_rules = sigma0_bits_def [unfolded unary] sigma1_bits_def [unfolded unary] big_sigma0_bits_def [unfolded unary]
  big_sigma1_bits_def [unfolded unary] rot_bits_def shift_bits_def

lemmas bit_rules = xor3.simps maj3.simps xor_bits.simps maj_bits.simps ch_bits.simps add_bits.simps
  not_True_eq_False not_False_eq_True

lemmas list_rules = drop_Suc_Cons drop_0 take_Suc_Cons take_0 append.simps replicate.simps rev.simps list.map

lemmas block_rules = block_bits_def [unfolded unary] k_numbers_def schedule_bits.simps next_word_Cons schedule_word_def
  close_round_def round_bits.simps rounds_bits.simps add_lists.simps


lemmas evaluate_block = number_bits sigma_rules bit_rules list_rules block_rules


text \<open>A message as the numbers of its blocks.\<close>

definition word_numbers :: "nat list \<Rightarrow> nat list" where
  "word_numbers bs = map (foldl (\<lambda>n b. 256 * n + b) 0) (chunks 16 4 bs)"

definition message_numbers :: "nat list \<Rightarrow> nat list list" where
  "message_numbers bs = (let p = sha_pad bs in map word_numbers (chunks (length p div 64) 64 p))"

lemma sha256_words_numbers:
  "sha256_words bs = foldl (\<lambda>h m. sha_block h (map of_nat m)) (map of_nat
     [1779033703, 3144134277, 1013904242, 2773480762, 1359893119, 2600822924, 528734635, 1541459225]) (message_numbers bs)"
proof -
  have "sha_words b = map of_nat (word_numbers b)" for b
    by (simp add: sha_words_def word_numbers_def be_word_def)
  then show ?thesis by (simp add: sha256_words_def message_numbers_def Let_def foldl_map sha_init_def)
qed

lemma block_numbers:
  assumes "block_bits (map bits_of hs) (map bits_of ms) = map bits_of rs" "length hs = 8" "length ms = 16"
  shows "sha_block (map of_nat hs) (map of_nat ms) = map of_nat rs"
proof -
  have w: "words (map bits_of ns) = map of_nat ns" for ns by (simp add: word_of_bits_of)
  have "full (map bits_of ns)" for ns by (simp add: list_all_iff)
  then show ?thesis using block_bits_words [of "map bits_of hs" "map bits_of ms"] assms by (simp only: w length_map)
qed

lemma bytes_numbers:
  assumes "sha256_words (map of_char s) = map of_nat ns" "list_all (\<lambda>n. n < 4294967296) ns"
  shows "sha256_bytes s = concat (map (be_bytes 4) ns)"
proof -
  have "unat (of_nat n :: w32) = n" if "n < 4294967296" for n using that by (simp add: unat_of_nat)
  with assms show ?thesis by (auto simp: sha256_bytes_def list_all_iff intro!: arg_cong [where f = concat])
qed

lemma chunks_numeral: "chunks (numeral k) n xs = take n xs # chunks (pred_numeral k) n (drop n xs)"
  by (simp add: numeral_eq_Suc)

lemma replicate_numeral_Cons: "replicate (numeral k) x = x # replicate (pred_numeral k) x"
  by (simp add: numeral_eq_Suc)

lemma word_bytes: "be_bytes 4 n = [n div 16777216 mod 256, n div 65536 mod 256, n div 256 mod 256, n mod 256]"
proof -
  have "[0..<4] = [0, 1, 2, 3 :: nat]" by code_simp
  then show ?thesis by (simp add: be_bytes_def)
qed

lemma length_bytes: "be_bytes 8 n = be_bytes 4 (n div 4294967296) @ be_bytes 4 n"
proof -
  have "[0..<8] = [0, 1, 2, 3, 4, 5, 6, 7 :: nat]" by code_simp
  then have "be_bytes 8 n = [n div 72057594037927936 mod 256, n div 281474976710656 mod 256, n div 1099511627776 mod 256,
      n div 4294967296 mod 256, n div 16777216 mod 256, n div 65536 mod 256, n div 256 mod 256, n mod 256]"
    by (simp add: be_bytes_def)
  then show ?thesis by (simp add: word_bytes div_mult2_eq [symmetric])
qed

lemmas evaluate_bytes = word_bytes length_bytes

lemmas evaluate_message = message_numbers_def word_numbers_def sha_pad_def chunks_numeral replicate_numeral_Cons
  evaluate_bytes Let_def

text \<open>The one-block example of FIPS 180-4.\<close>

lemma fips_block: "block_bits (map bits_of [1779033703, 3144134277, 1013904242, 2773480762, 1359893119, 2600822924, 528734635, 1541459225])
    (map bits_of [1633837952, 0, 0, 0, 0, 0, 0, 0, 0, 0, 0, 0, 0, 0, 0, 24])
  = map bits_of [3128432319, 2399260650, 1094795486, 1571693091, 2953011619, 2518121116, 3021012833, 4060091821]"
  by (simp only: evaluate_block)

lemma fips_one_block:
  "sha256_hexdigest ''abc'' = ''ba7816bf8f01cfea414140de5dae2223b00361a396177a9cb410ff61f20015ad''"
proof -
  have "message_numbers (map of_char ''abc'') = [[1633837952, 0, 0, 0, 0, 0, 0, 0, 0, 0, 0, 0, 0, 0, 0, 24]]" by (simp add: evaluate_message)
  then have "sha256_words (map of_char ''abc'') = map of_nat [3128432319, 2399260650, 1094795486, 1571693091, 2953011619, 2518121116, 3021012833, 4060091821]"
    using block_numbers [OF fips_block] by (simp only: sha256_words_numbers foldl_Cons foldl_Nil) simp
  then have "sha256_bytes ''abc'' = concat (map (be_bytes 4) [3128432319, 2399260650, 1094795486, 1571693091, 2953011619, 2518121116, 3021012833, 4060091821])"
    by (rule bytes_numbers) simp
  then show ?thesis unfolding sha256_hexdigest_def by (simp add: evaluate_bytes hex_of_bytes_def hex_char_def char_of_def bit_Suc_0_iff)
qed

text \<open>Digests of digests, as the store keeps them of challenges.\<close>

lemma sha256_words_digest: "sha256_words (map of_char (sha256_digest s)) = sha256_words (sha256_bytes s)"
proof -
  have "map of_char (map char_of bs) = bs" if "\<And>b. b \<in> set bs \<Longrightarrow> b < 256" for bs :: "nat list"
    using that by (induction bs) simp_all
  then show ?thesis using sha256_bytes_bound by (simp add: sha256_digest_def del: map_map)
qed

end
