(* ===== verification/Auth_Samples.thy ===== *)
theory Auth_Samples
  imports Auth_Properties Sha256_Evaluation
begin

text \<open>
  A run of the store from the empty database to a claimed approval. The bootstrap session admits
  the registration of a credential, whose ceremony stays in the table; the approval ceremony
  needs a challenge digest no other ceremony has. The challenge of the approval
  depends on the digest of the whole job, which is left as it is; of two registrations that
  differ in their expiry alone the digests are evaluated and found different, so that at least one of
  them leaves the approval's digest free.
\<close>

section \<open>Two registration challenges\<close>

definition registration_message :: "string \<Rightarrow> string" where
  "registration_message expires = ''agent-runtime-root-action-registration/v1'' @ [CHR 0x00] @ ''boot-1'' @ [CHR 0x00]
     @ ''approval'' @ [CHR 0x00] @ ''office_windows_hello'' @ [CHR 0x00] @ sample_nonce @ [CHR 0x00] @ expires"

lemma first_block: "block_bits (map bits_of [1779033703, 3144134277, 1013904242, 2773480762, 1359893119, 2600822924, 528734635, 1541459225])
    (map bits_of [1634166126, 1949135477, 1853122925, 1697477231, 1869884769, 1668573551, 1848472165, 1734964084, 1918989417,
    1869492086, 822108783, 1869884721, 6385776, 1919907425, 1811967846, 1718182757])
    = map bits_of [958678587, 1219119606, 422718165, 1435342040, 1088011309, 749899666, 3943454496, 1274472708]"
  by (simp only: evaluate_block)

lemma second_block: "block_bits (map bits_of [958678587, 1219119606, 422718165, 1435342040, 1088011309, 749899666, 3943454496, 1274472708])
    (map bits_of [1601661294, 1685026675, 1600677228, 1819213934, 1852730990, 1852730990, 1852730990, 1852730990, 1852730990,
    1852730990, 1852730990, 1852730880, 842019382, 758134573, 808539184, 809119794])
    = map bits_of [3004062861, 3067567809, 4122115435, 2392923695, 336854141, 973812510, 2379517913, 2885259863]"
  by (simp only: evaluate_block)

lemma third_block: "block_bits (map bits_of [3004062861, 3067567809, 4122115435, 2392923695, 336854141, 973812510, 2379517913, 2885259863])
    (map bits_of [976236634, 2147483648, 0, 0, 0, 0, 0, 0, 0, 0, 0, 0, 0, 0, 0, 1056])
    = map bits_of [743678912, 742122001, 3167709018, 1337752474, 2535929158, 1167289748, 3697640456, 2678706362]"
  by (simp only: evaluate_block)

lemma third_block_later: "block_bits (map bits_of [3004062861, 3067567809, 4122115435, 2392923695, 336854141, 973812510, 2379517913, 2885259863])
    (map bits_of [976236890, 2147483648, 0, 0, 0, 0, 0, 0, 0, 0, 0, 0, 0, 0, 0, 1056])
    = map bits_of [1531872252, 3997508678, 23436960, 2553436566, 2133818840, 129514039, 2659614417, 869354943]"
  by (simp only: evaluate_block)

lemma digest_block: "block_bits (map bits_of [1779033703, 3144134277, 1013904242, 2773480762, 1359893119, 2600822924, 528734635, 1541459225])
    (map bits_of [743678912, 742122001, 3167709018, 1337752474, 2535929158, 1167289748, 3697640456, 2678706362, 2147483648, 0,
    0, 0, 0, 0, 0, 256])
    = map bits_of [2743582362, 2502466975, 2619190227, 3134269930, 1599893644, 694961762, 2809540753, 766742828]"
  by (simp only: evaluate_block)

lemma digest_block_later: "block_bits (map bits_of [1779033703, 3144134277, 1013904242, 2773480762, 1359893119, 2600822924, 528734635, 1541459225])
    (map bits_of [1531872252, 3997508678, 23436960, 2553436566, 2133818840, 129514039, 2659614417, 869354943, 2147483648, 0, 0,
    0, 0, 0, 0, 256])
    = map bits_of [3361934468, 2008049187, 1136593207, 3340107312, 4259073357, 2600006591, 1855119776, 152664783]"
  by (simp only: evaluate_block)

lemma registration_words:
  "sha256_words (map of_char (registration_message ''2026-07-01T00:02:00Z''))
    = map of_nat [743678912, 742122001, 3167709018, 1337752474, 2535929158, 1167289748, 3697640456, 2678706362]"
proof -
  have "message_numbers (map of_char (registration_message ''2026-07-01T00:02:00Z''))
    = [[1634166126, 1949135477, 1853122925, 1697477231, 1869884769, 1668573551, 1848472165, 1734964084, 1918989417,
      1869492086, 822108783, 1869884721, 6385776, 1919907425, 1811967846, 1718182757],
       [1601661294, 1685026675, 1600677228, 1819213934, 1852730990, 1852730990, 1852730990, 1852730990, 1852730990,
      1852730990, 1852730990, 1852730880, 842019382, 758134573, 808539184, 809119794],
       [976236634, 2147483648, 0, 0, 0, 0, 0, 0, 0, 0, 0, 0, 0, 0, 0, 1056]]"
    by (simp add: evaluate_message registration_message_def sample_nonce_def)
  then show ?thesis
    using block_numbers [OF first_block] block_numbers [OF second_block] block_numbers [OF third_block]
    by (simp only: sha256_words_numbers foldl_Cons foldl_Nil) simp
qed

lemma registration_digest:
  "sha256_bytes (sha256_digest (registration_message ''2026-07-01T00:02:00Z''))
    = concat (map (be_bytes 4) [2743582362, 2502466975, 2619190227, 3134269930, 1599893644, 694961762, 2809540753, 766742828])"
proof (rule bytes_numbers)
  have "sha256_bytes (registration_message ''2026-07-01T00:02:00Z'')
    = concat (map (be_bytes 4) [743678912, 742122001, 3167709018, 1337752474, 2535929158, 1167289748, 3697640456, 2678706362])"
    by (rule bytes_numbers [OF registration_words]) simp
  then have "message_numbers (sha256_bytes (registration_message ''2026-07-01T00:02:00Z''))
    = [[743678912, 742122001, 3167709018, 1337752474, 2535929158, 1167289748, 3697640456, 2678706362, 2147483648, 0,
    0, 0, 0, 0, 0, 256]]"
    by (simp add: evaluate_message)
  then show "sha256_words (map of_char (sha256_digest (registration_message ''2026-07-01T00:02:00Z'')))
    = map of_nat [2743582362, 2502466975, 2619190227, 3134269930, 1599893644, 694961762, 2809540753, 766742828]"
    using block_numbers [OF digest_block]
    by (simp only: sha256_words_digest) (simp only: sha256_words_numbers foldl_Cons foldl_Nil, simp)
qed simp

lemma registration_words_later:
  "sha256_words (map of_char (registration_message ''2026-07-01T00:02:01Z''))
    = map of_nat [1531872252, 3997508678, 23436960, 2553436566, 2133818840, 129514039, 2659614417, 869354943]"
proof -
  have "message_numbers (map of_char (registration_message ''2026-07-01T00:02:01Z''))
    = [[1634166126, 1949135477, 1853122925, 1697477231, 1869884769, 1668573551, 1848472165, 1734964084, 1918989417,
      1869492086, 822108783, 1869884721, 6385776, 1919907425, 1811967846, 1718182757],
       [1601661294, 1685026675, 1600677228, 1819213934, 1852730990, 1852730990, 1852730990, 1852730990, 1852730990,
      1852730990, 1852730990, 1852730880, 842019382, 758134573, 808539184, 809119794],
       [976236890, 2147483648, 0, 0, 0, 0, 0, 0, 0, 0, 0, 0, 0, 0, 0, 1056]]"
    by (simp add: evaluate_message registration_message_def sample_nonce_def)
  then show ?thesis
    using block_numbers [OF first_block] block_numbers [OF second_block] block_numbers [OF third_block_later]
    by (simp only: sha256_words_numbers foldl_Cons foldl_Nil) simp
qed

lemma registration_digest_later:
  "sha256_bytes (sha256_digest (registration_message ''2026-07-01T00:02:01Z''))
    = concat (map (be_bytes 4) [3361934468, 2008049187, 1136593207, 3340107312, 4259073357, 2600006591, 1855119776, 152664783])"
proof (rule bytes_numbers)
  have "sha256_bytes (registration_message ''2026-07-01T00:02:01Z'')
    = concat (map (be_bytes 4) [1531872252, 3997508678, 23436960, 2553436566, 2133818840, 129514039, 2659614417, 869354943])"
    by (rule bytes_numbers [OF registration_words_later]) simp
  then have "message_numbers (sha256_bytes (registration_message ''2026-07-01T00:02:01Z''))
    = [[1531872252, 3997508678, 23436960, 2553436566, 2133818840, 129514039, 2659614417, 869354943, 2147483648, 0, 0,
    0, 0, 0, 0, 256]]"
    by (simp add: evaluate_message)
  then show "sha256_words (map of_char (sha256_digest (registration_message ''2026-07-01T00:02:01Z'')))
    = map of_nat [3361934468, 2008049187, 1136593207, 3340107312, 4259073357, 2600006591, 1855119776, 152664783]"
    using block_numbers [OF digest_block_later]
    by (simp only: sha256_words_digest) (simp only: sha256_words_numbers foldl_Cons foldl_Nil, simp)
qed simp

lemma registration_digests_differ:
  "sha256_tag (sha256_digest (registration_message ''2026-07-01T00:02:00Z''))
    \<noteq> sha256_tag (sha256_digest (registration_message ''2026-07-01T00:02:01Z''))"
  by (simp add: sha256_tag_def sha256_hexdigest_def registration_digest registration_digest_later evaluate_bytes
      hex_of_bytes_def hex_char_def char_of_def bit_Suc_0_iff)


section \<open>The run\<close>

definition registration :: "string \<Rightarrow> PendingCeremony" where
  "registration expires = \<lparr>ceremony_id = ''cer-0'', purpose = PURPOSE_REGISTRATION,
     challenge = sha256_digest (registration_message expires), binding_nonce = sample_nonce,
     challenge_digest = sha256_tag (sha256_digest (registration_message expires)), cer_issued_at = ''2026-07-01T00:00:00Z'',
     cer_expires_at = expires, cer_job_id = None, cer_job_digest = None, cer_bootstrap_id = Some ''boot-1'',
     cer_role = Some ROLE_APPROVAL, cer_label = Some ''office_windows_hello'', cer_state = CEREMONY_ISSUED, consumed_at = None,
     cer_fingerprint = None\<rparr>"

definition registered :: "string \<Rightarrow> PendingCeremony" where
  "registered expires = (registration expires)\<lparr>cer_state := CEREMONY_CONSUMED, consumed_at := Some ''2026-07-01T00:00:00Z'',
     cer_fingerprint := Some (fingerprint sample_credential)\<rparr>"

definition enrolled_store :: "string \<Rightarrow> store" where
  "enrolled_store expires = sample_store\<lparr>
     credentials := [\<lparr>row_credential = sample_credential, row_fingerprint = fingerprint sample_credential\<rparr>],
     ceremonies := [registered expires], bootstraps := [sample_bootstrap\<lparr>remaining_registrations := 2\<rparr>]\<rparr>"

definition expiry :: "string \<Rightarrow> bool" where
  "expiry e \<longleftrightarrow> e \<in> {''2026-07-01T00:02:00Z'', ''2026-07-01T00:02:01Z''}"

lemma expiry_facts:
  assumes "expiry e"
  shows "timestamp_ok e" "\<not> e \<le> ''2026-07-01T00:00:00Z''" "\<not> ''2026-07-01T00:10:00Z'' < e"
proof -
  have "timestamp_ok ''2026-07-01T00:02:00Z''" "timestamp_ok ''2026-07-01T00:02:01Z''"
    "\<not> ''2026-07-01T00:02:00Z'' \<le> ''2026-07-01T00:00:00Z''" "\<not> ''2026-07-01T00:02:01Z'' \<le> ''2026-07-01T00:00:00Z''"
    "\<not> ''2026-07-01T00:10:00Z'' < ''2026-07-01T00:02:00Z''" "\<not> ''2026-07-01T00:10:00Z'' < ''2026-07-01T00:02:01Z''"
    by code_simp+
  then show "timestamp_ok e" "\<not> e \<le> ''2026-07-01T00:00:00Z''" "\<not> ''2026-07-01T00:10:00Z'' < e"
    using assms unfolding expiry_def by blast+
qed

lemma registration_ok:
  assumes e: "expiry e"
  shows "ceremony_post_init (registration e) = Inr ()"
proof -
  have n: "length sample_nonce = 32" by (simp add: sample_nonce_def)
  have lab: "label_role_ok ''office_windows_hello'' ROLE_APPROVAL" by code_simp
  have ids: "auth_safe_id ''cer-0'' ''ceremony_id'' = Inr ()" "auth_safe_id ''boot-1'' ''bootstrap_id'' = Inr ()" by code_simp+
  have t: "auth_timestamp e f = Inr ()" "auth_timestamp ''2026-07-01T00:00:00Z'' f = Inr ()" for f
    using expiry_facts(1) [OF e] sample_auth_times by (simp_all add: auth_check_Inr_iff)
  have c: "registration_challenge_bytes ''boot-1'' ROLE_APPROVAL ''office_windows_hello'' sample_nonce e
      = Inr (sha256_digest (registration_message e))"
    using n lab ids(2) t by (simp add: registration_challenge_bytes_def registration_message_def)
  have l: "sha256_digest m \<noteq> []" "length (sha256_digest m) \<le> 64" for m
    using sha256_digest_length [of m] by (auto simp del: sha256_digest_length)
  show ?thesis
    using n lab ids t c l expiry_facts(2) [OF e]
    by (simp add: ceremony_post_init_def ceremony_consumption_def ceremony_binding_def registration_def or_empty_def
        auth_digest_def bounded_bytes_def sha256_tag_digest)
qed

lemma enrolled_reachable:
  assumes e: "expiry e"
  shows "reachable sample_env (enrolled_store e)"
proof -
  let ?s = "sample_store\<lparr>bootstraps := [sample_bootstrap]\<rparr>"
  let ?s1 = "?s\<lparr>ceremonies := [registration e]\<rparr>"
  have f: "bootstrap_id sample_bootstrap = ''boot-1''" "boot_state sample_bootstrap = BOOTSTRAP_ISSUED"
    "remaining_registrations sample_bootstrap = 3" "boot_expires_at sample_bootstrap = ''2026-07-01T00:10:00Z''"
    by (simp_all add: sample_bootstrap_def)
  have r: "purpose (registration e) = PURPOSE_REGISTRATION" "cer_state (registration e) = CEREMONY_ISSUED"
    "cer_bootstrap_id (registration e) = Some ''boot-1''" "cer_issued_at (registration e) = ''2026-07-01T00:00:00Z''"
    "cer_expires_at (registration e) = e" "ceremony_id (registration e) = ''cer-0''" "cer_job_id (registration e) = None"
    "cer_fingerprint (registration e) = None" "cer_role (registration e) = Some ROLE_APPROVAL"
    "cer_label (registration e) = Some ''office_windows_hello''" by (simp_all add: registration_def)
  have empty: "credentials sample_store = []" "ceremonies sample_store = []" "approvals sample_store = []"
    by (simp_all add: sample_store_def sample_sealed_def empty_store_def)
  have lt: "\<not> ''2026-07-01T00:10:00Z'' \<le> ''2026-07-01T00:00:00Z''" by code_simp
  have cr: "cred_role sample_credential = ROLE_APPROVAL" "cred_label sample_credential = ''office_windows_hello''"
    by (simp_all add: sample_credential_def)
  have left: "sample_bootstrap\<lparr>remaining_registrations := 2, boot_state := BOOTSTRAP_ISSUED\<rparr>
      = sample_bootstrap\<lparr>remaining_registrations := 2\<rparr>" by (simp add: sample_bootstrap_def)
  have b: "bootstrap_post_init sample_bootstrap = Inr ()" using sample_bootstrap_ok by (simp add: bootstrap_ok_def)
  have "issue_registration_ceremony ?s (token_digest sample_bootstrap) (registration e) = (Inr (), ?s1)"
    using expiry_facts [OF e] f r empty lt b
    by (auto simp: issue_registration_ceremony_def transaction_def bootstrap_by_token_def bootstrap_from_row_def insert_ceremony_def refers_def)
  then have s1: "reachable sample_env ?s1"
    using reachable.step [OF sample_bootstrap_reachable store_step.issue_registration_ceremony
        [of sample_env ?s "token_digest sample_bootstrap" "registration e"]] by simp
  have "complete_registration ?s1 (token_digest sample_bootstrap) ''cer-0'' sample_credential ''2026-07-01T00:00:00Z''
      = (Inr sample_credential, enrolled_store e)"
    using expiry_facts [OF e] f r empty lt b cr left registration_ok [OF e]
    by (auto simp: complete_registration_def transaction_def bootstrap_by_token_def bootstrap_from_row_def read_ceremony_def
        insert_credential_def consume_ceremony_def count_registration_def Let_def enrolled_store_def registered_def)
  then show ?thesis
    using reachable.step [OF s1 store_step.complete_registration
        [of sample_env ?s1 "token_digest sample_bootstrap" "''cer-0''" sample_credential "''2026-07-01T00:00:00Z''"]] by simp
qed


text \<open>The approval ceremony is issued when its digest is not that of the registration, and then claimed.\<close>

lemma approval_reachable:
  assumes e: "expiry e" and d: "challenge_digest sample_ceremony \<noteq> challenge_digest (registration e)"
  shows "\<exists>s'. reachable sample_env s' \<and> approvals s' = [sample_approval]"
proof -
  let ?s = "(enrolled_store e)\<lparr>ceremonies := [registered e, sample_ceremony]\<rparr>"
  have rec: "read_record (enrolled_store e) ''job-1'' = Inr sample_record"
    using sample_read by (simp add: enrolled_store_def read_record_def find_record_def)
  have f: "rec_job_digest sample_record = job_digest sample_job" "state sample_record = PENDING" "execution_count sample_record = 0"
    by (simp_all add: sample_record_def)
  have c: "purpose sample_ceremony = PURPOSE_APPROVAL" "cer_state sample_ceremony = CEREMONY_ISSUED" "cer_job_id sample_ceremony = Some ''job-1''"
    "cer_job_digest sample_ceremony = Some (job_digest sample_job)" "ceremony_id sample_ceremony = ''cer-1''"
    "cer_bootstrap_id sample_ceremony = None" "cer_fingerprint sample_ceremony = None" by (simp_all add: sample_ceremony_def)
  have g: "purpose (registered e) = PURPOSE_REGISTRATION" "ceremony_id (registered e) = ''cer-0''"
    "challenge_digest (registered e) = challenge_digest (registration e)" by (simp_all add: registered_def registration_def)
  have cr: "cred_role sample_credential = ROLE_APPROVAL" "revoked_at sample_credential = None" by (simp_all add: sample_credential_def)
  have ids: "''job-1'' \<in> (\<lambda>x. job_id (row_job x)) ` set (jobs sample_store)" by (simp add: sample_store_def sample_sealed_def sample_job_def)
  have "issue_approval_ceremony (enrolled_store e) sample_ceremony = (Inr (), ?s)"
    using rec f c g cr d ids
    by (simp add: issue_approval_ceremony_def transaction_def insert_ceremony_def refers_def is_active_def enrolled_store_def Let_def job_ids_def)
  then have r: "reachable sample_env ?s"
    using reachable.step [OF enrolled_reachable [OF e] store_step.issue_approval_ceremony [of sample_env "enrolled_store e" sample_ceremony]] by simp
  have "same_jobs sample_store ?s" "approvals ?s = []"
    by (simp_all add: enrolled_store_def same_jobs_def) (simp add: sample_store_def sample_sealed_def empty_store_def)
  then obtain s' where s': "claim_with_approval ?s sample_ceremony sample_credential sample_assertion sample_approval sample_claim
      = (Inr (advance sample_record sample_claim), s')" "approvals s' = [sample_approval]"
    using claim_succeeds [of ?s "[registered e]"] g by (auto simp: enrolled_store_def)
  from reachable.step [OF r store_step.claim_with_approval [of sample_env ?s sample_ceremony sample_credential sample_assertion
      sample_approval sample_claim]] s' show ?thesis by auto
qed

lemma sample_approval_reachable: "\<exists>s'. reachable sample_env s' \<and> approvals s' = [sample_approval]"
proof -
  have "expiry ''2026-07-01T00:02:00Z''" "expiry ''2026-07-01T00:02:01Z''" by (simp_all add: expiry_def)
  moreover have "challenge_digest (registration ''2026-07-01T00:02:00Z'') \<noteq> challenge_digest (registration ''2026-07-01T00:02:01Z'')"
    using registration_digests_differ by (simp add: registration_def)
  ultimately show ?thesis using approval_reachable by metis
qed

theorem approvals_single_use_witness:
  "\<exists>s. reachable sample_env s \<and> approvals s = [sample_approval] \<and> distinct (map ap_job_id (approvals s))
    \<and> (\<exists>c\<in>set (ceremonies s). approved_by c sample_approval)
    \<and> (\<exists>r. find_record s ''job-1'' = Some r \<and> rec_job_digest r = job_digest sample_job \<and> execution_count r = 1)"
proof -
  obtain s where s: "reachable sample_env s" "approvals s = [sample_approval]" using sample_approval_reachable by blast
  have "ap_job_id sample_approval = ''job-1''" "ap_job_digest sample_approval = job_digest sample_job" by (simp_all add: sample_approval_def)
  with approvals_single_use [OF s(1)] s show ?thesis by auto
qed

end
