(* ===== verification/Py_Text.thy ===== *)
theory Py_Text
  imports Json
begin

text \<open>
  The string operations of Python that the host and usage modules apply to text they do not control:
  \<open>str.strip\<close>, \<open>str.split\<close>, \<open>str.splitlines\<close> and \<open>str.replace\<close>, and the parsers
  \<open>datetime.fromisoformat\<close> and \<open>date.fromisoformat\<close> of CPython 3.11 and 3.12. A string is its UTF-8
  bytes; \<open>py_chars\<close> cuts it into its characters.
\<close>

section \<open>Characters\<close>

definition char_width :: "char \<Rightarrow> nat" where
  "char_width a = (let n = (of_char a :: nat) in if n < 128 then 1 else if n < 224 then 2 else if n < 240 then 3 else 4)"

function py_chars :: "string \<Rightarrow> string list" where
  "py_chars [] = []"
| "py_chars (a # s) = take (char_width a) (a # s) # py_chars (drop (char_width a) (a # s))"
  by pat_completeness auto
termination
  by (relation "measure length") (auto simp: char_width_def Let_def)

definition code_point :: "string \<Rightarrow> nat" where
  "code_point ch = hd (codepoints ch)"

text \<open>\<open>str.isspace\<close> of one character, the white space of \<open>strip\<close> and \<open>split\<close>.\<close>

definition is_space :: "string \<Rightarrow> bool" where
  "is_space ch = (let n = code_point ch in
     (9 \<le> n \<and> n \<le> 13) \<or> (28 \<le> n \<and> n \<le> 32) \<or> n = 133 \<or> n = 160 \<or> n = 5760 \<or> (8192 \<le> n \<and> n \<le> 8202)
     \<or> n = 8232 \<or> n = 8233 \<or> n = 8239 \<or> n = 8287 \<or> n = 12288)"

text \<open>The line boundaries of \<open>str.splitlines\<close>.\<close>

definition is_line_break :: "string \<Rightarrow> bool" where
  "is_line_break ch = (let n = code_point ch in
     (10 \<le> n \<and> n \<le> 13) \<or> (28 \<le> n \<and> n \<le> 30) \<or> n = 133 \<or> n = 8232 \<or> n = 8233)"

definition blank :: "string \<Rightarrow> bool" where
  "blank s = list_all is_space (py_chars s)"

definition py_lstrip :: "string \<Rightarrow> string" where
  "py_lstrip s = concat (dropWhile is_space (py_chars s))"

definition py_strip :: "string \<Rightarrow> string" where
  "py_strip s = concat (rev (dropWhile is_space (rev (dropWhile is_space (py_chars s)))))"

text \<open>\<open>str.split()\<close>: the words between runs of white space.\<close>

fun words_from :: "string \<Rightarrow> string list \<Rightarrow> string list" where
  "words_from w [] = (if w = [] then [] else [w])"
| "words_from w (c # cs) =
     (if is_space c then (if w = [] then words_from [] cs else w # words_from [] cs)
      else words_from (w @ c) cs)"

definition py_split :: "string \<Rightarrow> string list" where
  "py_split s = words_from [] (py_chars s)"

text \<open>\<open>str.splitlines()\<close>: a carriage return and a following line feed are one boundary.\<close>

definition after_break :: "string \<Rightarrow> string list \<Rightarrow> string list" where
  "after_break c cs = (if c = [CHR 0x0D] \<and> cs \<noteq> [] \<and> hd cs = [CHR 0x0A] then tl cs else cs)"

function lines_from :: "string \<Rightarrow> string list \<Rightarrow> string list" where
  "lines_from w [] = (if w = [] then [] else [w])"
| "lines_from w (c # cs) =
     (if is_line_break c then w # lines_from [] (after_break c cs) else lines_from (w @ c) cs)"
  by pat_completeness auto
termination
  by (relation "measure (\<lambda>(w, cs). length cs)") (auto simp: after_break_def)

definition py_splitlines :: "string \<Rightarrow> string list" where
  "py_splitlines s = lines_from [] (py_chars s)"

text \<open>\<open>str.split(c)\<close> and \<open>str.replace(c, t)\<close> for an ASCII character \<open>c\<close>.\<close>

fun split_on :: "char \<Rightarrow> string \<Rightarrow> string list" where
  "split_on c [] = [[]]"
| "split_on c (x # xs) =
     (if x = c then [] # split_on c xs
      else (case split_on c xs of [] \<Rightarrow> [[x]] | w # ws \<Rightarrow> (x # w) # ws))"

definition replace_char :: "char \<Rightarrow> string \<Rightarrow> string \<Rightarrow> string" where
  "replace_char c t s = concat (map (\<lambda>x. if x = c then t else [x]) s)"

definition starts_with :: "string \<Rightarrow> string \<Rightarrow> bool" where
  "starts_with p s \<longleftrightarrow> take (length p) s = p"

section \<open>ISO 8601 parsing\<close>

text \<open>\<open>parse_digits\<close>: exactly \<open>n\<close> decimal digits and the rest.\<close>

definition digits :: "nat \<Rightarrow> string \<Rightarrow> (nat \<times> string) option" where
  "digits n s = (if n \<le> length s \<and> list_all is_digit (take n s) then Some (read_nat (take n s), drop n s) else None)"

text \<open>
  \<open>_find_isoformat_datetime_separator\<close>: where the date ends. The argument is the list of characters;
  a separator may be any character.
\<close>

definition separator_at :: "string list \<Rightarrow> nat option" where
  "separator_at cs =
     (let n = length cs; dig = (\<lambda>c. case c of [d] \<Rightarrow> is_digit d | _ \<Rightarrow> False) in
      if n = 7 then Some 7
      else if cs ! 4 = ''-'' then
        (if cs ! 5 = ''W'' then
           (if n < 8 then None
            else if 8 < n \<and> cs ! 8 = ''-'' then
              (if n = 9 then None else if 10 < n \<and> dig (cs ! 10) then Some 8 else Some 10)
            else Some 8)
         else Some 10)
      else if cs ! 4 = ''W'' then
        (let p = 7 + length (takeWhile dig (drop 7 cs)) in
         if p < 9 then Some p else if p mod 2 = 0 then Some 7 else Some 8)
      else Some 8)"

text \<open>\<open>_isoweek_to_gregorian\<close>\<close>

definition isoweek_to_gregorian :: "nat \<Rightarrow> nat \<Rightarrow> nat \<Rightarrow> (nat \<times> nat \<times> nat) option" where
  "isoweek_to_gregorian y w d =
     (let first = toordinal y 1 1;
          long_year = (first mod 7 = 4 \<or> (first mod 7 = 3 \<and> is_leap y));
          weekday = (first + 6) mod 7;
          day_1 = int first - int weekday + (if 3 < weekday then 7 else 0);
          n = day_1 + (int w - 1) * 7 + (int d - 1)
      in if 1 \<le> y \<and> y \<le> 9999 \<and> 1 \<le> w \<and> (w < 53 \<or> w = 53 \<and> long_year) \<and> 1 \<le> d \<and> d \<le> 7 \<and> 1 \<le> n \<and> n \<le> 3652059
         then Some (fromordinal (nat n)) else None)"

definition parse_isoformat_date :: "string \<Rightarrow> (nat \<times> nat \<times> nat) option" where
  "parse_isoformat_date s =
     (case digits 4 s of None \<Rightarrow> None | Some (y, r) \<Rightarrow>
      (let sep = starts_with ''-'' r; r' = (if sep then tl r else r) in
       if starts_with ''W'' r' then
         (case digits 2 (tl r') of None \<Rightarrow> None | Some (w, q) \<Rightarrow>
            if q = [] then isoweek_to_gregorian y w 1
            else if sep \<and> \<not> starts_with ''-'' q then None
            else (case digits 1 (if sep then tl q else q) of
                    Some (d, []) \<Rightarrow> isoweek_to_gregorian y w d
                  | _ \<Rightarrow> None))
       else
         (case digits 2 r' of None \<Rightarrow> None | Some (m, q) \<Rightarrow>
            if sep \<and> \<not> starts_with ''-'' q then None
            else (case digits 2 (if sep then tl q else q) of
                    Some (d, []) \<Rightarrow> Some (y, m, d)
                  | _ \<Rightarrow> None))))"

text \<open>The fraction of a second in microseconds, and whether text is left after its digits.\<close>

definition parse_fraction :: "string \<Rightarrow> (nat \<times> bool) option" where
  "parse_fraction s =
     (let n = min (length s) 6 in
      case digits n s of None \<Rightarrow> None | Some (v, r) \<Rightarrow> Some (v * 10 ^ (6 - n), dropWhile is_digit r \<noteq> []))"

text \<open>\<open>parse_hh_mm_ss_ff\<close>: the components, the microseconds, and whether text is left.\<close>

fun parse_clock :: "nat \<Rightarrow> bool option \<Rightarrow> string \<Rightarrow> (nat list \<times> nat \<times> bool) option" where
  "parse_clock 0 sep s = map_option (\<lambda>(us, left). ([], us, left)) (parse_fraction s)"
| "parse_clock (Suc k) sep s =
     (case digits 2 s of None \<Rightarrow> None | Some (v, r) \<Rightarrow>
      (let hs = (case sep of None \<Rightarrow> starts_with '':'' r | Some b \<Rightarrow> b) in
       if length r \<le> 1 then Some ([v], 0, r \<noteq> [])
       else map_option (\<lambda>(vs, us, left). (v # vs, us, left))
         (if hs \<and> hd r = CHR '':'' then parse_clock k (Some hs) (tl r)
          else if hd r = CHR ''.'' \<or> hd r = CHR '','' then map_option (\<lambda>(us, left). ([], us, left)) (parse_fraction (tl r))
          else if \<not> hs then parse_clock k (Some hs) r
          else None)))"

definition clock_seconds :: "nat list \<Rightarrow> nat" where
  "clock_seconds vs = (case vs @ [0, 0] of h # m # s # _ \<Rightarrow> h * 3600 + m * 60 + s | _ \<Rightarrow> 0)"

text \<open>
  \<open>parse_isoformat_time\<close>: the components and microseconds, and the offset from UTC in microseconds,
  \<open>None\<close> for a naive time. An offset of zero seconds is UTC whatever its fraction.
\<close>

definition parse_isoformat_time :: "string \<Rightarrow> (nat list \<times> nat \<times> int option) option" where
  "parse_isoformat_time s =
     (let zone = (\<lambda>c. c = CHR ''+'' \<or> c = CHR ''-'' \<or> c = CHR ''Z'');
          clock = takeWhile (\<lambda>c. \<not> zone c) s; rest = dropWhile (\<lambda>c. \<not> zone c) s in
      case parse_clock 3 None clock of None \<Rightarrow> None | Some (vs, us, left) \<Rightarrow>
      (case rest of
         [] \<Rightarrow> if left then None else Some (vs, us, None)
       | z # tz \<Rightarrow>
           (if z = CHR ''Z'' then (if tz = [] then Some (vs, us, Some 0) else None)
            else (case parse_clock 3 None tz of
                    Some (tvs, tus, False) \<Rightarrow>
                      (let secs = clock_seconds tvs; total = int (secs * 1000000 + tus) in
                       Some (vs, us, Some (if secs = 0 then 0 else if z = CHR ''-'' then - total else total)))
                  | _ \<Rightarrow> None))))"

definition DAY_US :: int where "DAY_US = 86400000000"

text \<open>
  \<open>datetime.fromisoformat\<close>: the local time in microseconds and its offset from UTC; \<open>None\<close> is a
  \<open>ValueError\<close>, also the one of the \<open>datetime\<close> and \<open>timezone\<close> constructors.
\<close>

definition fromisoformat :: "string \<Rightarrow> (int \<times> int option) option" where
  "fromisoformat s =
     (let cs = py_chars s in
      if length cs < 7 then None
      else case separator_at cs of None \<Rightarrow> None | Some k \<Rightarrow>
      (case parse_isoformat_date (concat (take k cs)) of None \<Rightarrow> None | Some (y, m, d) \<Rightarrow>
      (case (if length cs \<le> k then Some ([0, 0, 0], 0, None) else parse_isoformat_time (concat (drop (Suc k) cs))) of
         None \<Rightarrow> None
       | Some (vs, us, off) \<Rightarrow>
           (case vs @ [0, 0] of
              h # mi # sc # _ \<Rightarrow>
                (let c = Civil y m d h mi sc in
                 if civil_ok c \<and> (case off of None \<Rightarrow> True | Some z \<Rightarrow> \<bar>z\<bar> < DAY_US)
                 then Some (instant c * 1000000 + int us, off) else None)
            | _ \<Rightarrow> None))))"

text \<open>\<open>date.fromisoformat\<close>, as the ordinal of the day.\<close>

definition date_fromisoformat :: "string \<Rightarrow> nat option" where
  "date_fromisoformat s =
     (if py_len s \<in> {7, 8, 10} then
        (case parse_isoformat_date s of
           Some (y, m, d) \<Rightarrow> if civil_ok (Civil y m d 0 0 0) then Some (toordinal y m d) else None
         | None \<Rightarrow> None)
      else None)"

definition date_isoformat :: "nat \<Rightarrow> string" where
  "date_isoformat n =
     (let (y, m, d) = fromordinal n; ys = show_nat y in
      replicate (4 - length ys) CHR ''0'' @ ys @ ''-'' @ pad2 m @ ''-'' @ pad2 d)"

text \<open>\<open>parsed.astimezone(timezone.utc)\<close>: the instant must be a year from 1 to 9999.\<close>

definition to_utc :: "int \<Rightarrow> int \<Rightarrow> int result" where
  "to_utc local off =
     (let t = local - off in
      if min_instant * 1000000 \<le> t \<and> t \<le> max_instant * 1000000 + 999999 then Inr t else Inl OverflowError)"

section \<open>Lemmas\<close>

declare py_chars.simps(2) [simp del]

lemma concat_py_chars [simp]: "concat (py_chars s) = s"
  by (induction s rule: py_chars.induct) (simp_all add: py_chars.simps(2))

lemma char_width_ascii: "of_char a < (128::nat) \<Longrightarrow> char_width a = 1"
  by (simp add: char_width_def)

lemma py_chars_ascii: "of_char a < (128::nat) \<Longrightarrow> py_chars (a # s) = [a] # py_chars s"
  by (simp add: py_chars.simps(2) char_width_ascii)

lemma py_chars_append: "utf8_valid w \<Longrightarrow> py_chars (w @ r) = py_chars w @ py_chars r"
proof (induction w rule: utf8_valid.induct)
  case (2 a s)
  consider "between 0 127 a" | "between 194 223 a" | "between 224 239 a" | "between 240 244 a"
    using 2(5) by (auto simp: utf8_valid.simps(2) split: if_splits)
  then show ?case
  proof cases
    case 1
    then show ?thesis using 2 by (simp add: py_chars_ascii between_def utf8_valid.simps(2))
  next
    case c: 2
    then have nb: "\<not> between 0 127 a" "char_width a = 2" by (auto simp: between_def char_width_def Let_def)
    obtain b s' where s: "s = b # s'" "utf8_valid s'" using 2(5) c nb by (auto simp: utf8_valid.simps(2) split: list.splits)
    then show ?thesis using 2(2) nb c by (simp add: py_chars.simps(2) numeral_2_eq_2)
  next
    case c: 3
    then have nb: "\<not> between 0 127 a" "\<not> between 194 223 a" "char_width a = 3" by (auto simp: between_def char_width_def Let_def)
    obtain b b' s' where s: "s = b # b' # s'" "utf8_valid s'"
      using 2(5) c nb by (auto simp: utf8_valid.simps(2) split: list.splits)
    then show ?thesis using 2(3) nb c by (simp add: py_chars.simps(2) numeral_3_eq_3)
  next
    case c: 4
    then have nb: "\<not> between 0 127 a" "\<not> between 194 223 a" "\<not> between 224 239 a" "char_width a = Suc 3"
      by (auto simp: between_def char_width_def Let_def)
    obtain b b' b'' s' where s: "s = b # b' # b'' # s'" "utf8_valid s'"
      using 2(5) c nb by (auto simp: utf8_valid.simps(2) split: list.splits)
    then show ?thesis using 2(4) nb c by (simp add: py_chars.simps(2) numeral_3_eq_3)
  qed
qed simp

lemma code_point_ascii: "of_char a < (128::nat) \<Longrightarrow> code_point [a] = of_char a"
  by (simp add: code_point_def codepoints.simps(2))

text \<open>Text between two characters that are not white space is not stripped.\<close>

lemma py_strip_id:
  assumes "utf8_valid (a # s)" and "of_char a < (128::nat)" and "of_char z < (128::nat)"
    and "\<not> is_space [a]" and "\<not> is_space [z]"
  shows "py_strip (a # s @ [z]) = a # s @ [z]"
proof -
  have "py_chars (a # s @ [z]) = [a] # py_chars s @ [[z]]"
    using py_chars_append [OF assms(1), of "[z]"] assms(2,3) by (simp add: py_chars_ascii)
  then show ?thesis using assms(4,5) by (simp add: py_strip_def)
qed

lemma json_loads_dumps:
  assumes "jwf (rec_limit env) v" and "good_hook hk"
  shows "json_loads env hk (dumps '','' '':'' v) = Inr v"
proof -
  from assms(1) obtain c cs where "dumps '','' '':'' v = c # cs" "\<not> is_ws c" by (rule dumps_hd)
  then have "skip_ws (dumps '','' '':'' v) = dumps '','' '':'' v" by (simp add: skip_ws_nonws)
  moreover have "scan_value env hk (rec_limit env) (dumps '','' '':'' v @ []) = Inr (v, [])"
    using assms num_end_close(4) by (intro scan_value_dumps) simp_all
  moreover have "take 3 (dumps '','' '':'' v @ []) \<noteq> BOM" using assms(1) by (rule dumps_not_BOM)
  ultimately show ?thesis by (simp add: json_loads_def)
qed

section \<open>Characters of valid text\<close>

lemma utf8_valid_append: "utf8_valid w \<Longrightarrow> utf8_valid (w @ r) = utf8_valid r"
proof (induction w rule: utf8_valid.induct)
  case (2 a s)
  consider "between 0 127 a" | "between 194 223 a" | "between 224 239 a" | "between 240 244 a"
    using 2(5) by (auto simp: utf8_valid.simps(2) split: if_splits)
  then show ?case
  proof cases
    case 1
    then show ?thesis using 2 by (simp add: utf8_valid.simps(2))
  next
    case c: 2
    then have nb: "\<not> between 0 127 a" by (auto simp: between_def)
    obtain b s' where "s = b # s'" "utf8_valid s'" using 2(5) c nb by (auto simp: utf8_valid.simps(2) split: list.splits)
    then show ?thesis using 2(2,5) nb c by (simp add: utf8_valid.simps(2))
  next
    case c: 3
    then have nb: "\<not> between 0 127 a" "\<not> between 194 223 a" by (auto simp: between_def)
    obtain b b' s' where "s = b # b' # s'" "utf8_valid s'" using 2(5) c nb by (auto simp: utf8_valid.simps(2) split: list.splits)
    then show ?thesis using 2(3,5) nb c by (simp add: utf8_valid.simps(2))
  next
    case c: 4
    then have nb: "\<not> between 0 127 a" "\<not> between 194 223 a" "\<not> between 224 239 a" by (auto simp: between_def)
    obtain b b' b'' s' where "s = b # b' # b'' # s'" "utf8_valid s'"
      using 2(5) c nb by (auto simp: utf8_valid.simps(2) split: list.splits)
    then show ?thesis using 2(4,5) nb c by (simp add: utf8_valid.simps(2))
  qed
qed simp

text \<open>One character: a single ASCII byte, or bytes above 127.\<close>

definition one_char :: "string \<Rightarrow> bool" where
  "one_char c \<longleftrightarrow> utf8_valid c \<and> py_chars c = [c] \<and> ((\<exists>a. c = [a] \<and> of_char a < (128::nat)) \<or> (\<forall>a\<in>set c. 128 \<le> (of_char a :: nat)))"

lemma is_cont_high: "is_cont b \<Longrightarrow> 128 \<le> (of_char b :: nat)"
  by (simp add: is_cont_def)

lemma py_chars_one: "utf8_valid s \<Longrightarrow> list_all one_char (py_chars s)"
proof (induction s rule: utf8_valid.induct)
  case (2 a s)
  consider "between 0 127 a" | "between 194 223 a" | "between 224 239 a" | "between 240 244 a"
    using 2(5) by (auto simp: utf8_valid.simps(2) split: if_splits)
  then show ?case
  proof cases
    case 1
    then have a: "of_char a < (128::nat)" by (simp add: between_def)
    then have "one_char [a]" by (simp add: one_char_def py_chars_ascii utf8_valid_ascii_Cons)
    then show ?thesis using 2 a 1 by (simp add: py_chars_ascii utf8_valid.simps(2))
  next
    case c: 2
    then have nb: "\<not> between 0 127 a" "char_width a = 2" "128 \<le> (of_char a :: nat)" by (auto simp: between_def char_width_def Let_def)
    obtain b s' where s: "s = b # s'" "is_cont b" "utf8_valid s'" using 2(5) c nb by (auto simp: utf8_valid.simps(2) split: list.splits)
    then have "one_char [a, b]"
      using nb c by (simp add: one_char_def py_chars.simps(2) utf8_valid.simps(2) is_cont_high numeral_2_eq_2)
    then show ?thesis using 2(2) nb c s by (simp add: py_chars.simps(2) numeral_2_eq_2)
  next
    case c: 3
    then have nb: "\<not> between 0 127 a" "\<not> between 194 223 a" "char_width a = 3" "128 \<le> (of_char a :: nat)"
      by (auto simp: between_def char_width_def Let_def)
    obtain b b' s' where s: "s = b # b' # s'" "is_cont b" "is_cont b'" "utf8_valid s'" "utf8_valid [a, b, b']"
      using 2(5) c nb by (auto simp: utf8_valid.simps(2) split: list.splits)
    then have "one_char [a, b, b']" using nb by (simp add: one_char_def py_chars.simps(2) is_cont_high numeral_3_eq_3)
    then show ?thesis using 2(3) nb c s by (simp add: py_chars.simps(2) numeral_3_eq_3)
  next
    case c: 4
    then have nb: "\<not> between 0 127 a" "\<not> between 194 223 a" "\<not> between 224 239 a" "char_width a = Suc 3" "128 \<le> (of_char a :: nat)"
      by (auto simp: between_def char_width_def Let_def)
    obtain b b' b'' s' where s: "s = b # b' # b'' # s'" "is_cont b" "is_cont b'" "is_cont b''" "utf8_valid s'" "utf8_valid [a, b, b', b'']"
      using 2(5) c nb by (auto simp: utf8_valid.simps(2) split: list.splits)
    then have "one_char [a, b, b', b'']" using nb by (simp add: one_char_def py_chars.simps(2) is_cont_high numeral_3_eq_3)
    then show ?thesis using 2(4) nb c s by (simp add: py_chars.simps(2) numeral_3_eq_3)
  qed
qed simp

lemma concat_chars: "list_all one_char cs \<Longrightarrow> utf8_valid (concat cs) \<and> py_chars (concat cs) = cs"
  by (induction cs) (auto simp: utf8_valid_append py_chars_append one_char_def)

section \<open>Words and lines\<close>

definition no_space :: "string \<Rightarrow> bool" where
  "no_space s \<longleftrightarrow> utf8_valid s \<and> list_all (\<lambda>c. \<not> is_space c) (py_chars s)"

definition line_ok :: "string \<Rightarrow> bool" where
  "line_ok s \<longleftrightarrow> utf8_valid s \<and> list_all (\<lambda>c. \<not> is_line_break c) (py_chars s)"

lemma line_break_space: "is_line_break c \<Longrightarrow> is_space c"
  by (auto simp: is_line_break_def is_space_def Let_def)

lemma no_space_line: "no_space s \<Longrightarrow> line_ok s"
  by (auto simp: no_space_def line_ok_def list_all_iff dest: line_break_space)

lemma no_space_append [simp]: "no_space a \<Longrightarrow> no_space (a @ b) = no_space b"
  by (simp add: no_space_def py_chars_append utf8_valid_append)

lemma line_ok_append [simp]: "line_ok a \<Longrightarrow> line_ok (a @ b) = line_ok b"
  by (simp add: line_ok_def py_chars_append utf8_valid_append)

lemma words_from_word: "list_all (\<lambda>c. \<not> is_space c) cs \<Longrightarrow> words_from w (cs @ r) = words_from (w @ concat cs) r"
  by (induction cs arbitrary: w) auto

lemma space_char [simp]: "is_space '' ''"
  by (simp add: is_space_def code_point_ascii)

lemma py_split_word:
  assumes "no_space w" and "w \<noteq> []"
  shows "py_split (w @ '' '' @ r) = w # py_split r" and "py_split w = [w]"
proof -
  have "py_chars (w @ '' '' @ r) = py_chars w @ '' '' # py_chars r"
    using assms(1) by (simp add: no_space_def py_chars_append py_chars_ascii)
  then show "py_split (w @ '' '' @ r) = w # py_split r"
    using assms by (simp add: py_split_def no_space_def words_from_word)
  show "py_split w = [w]"
    using assms words_from_word [of "py_chars w" "[]" "[]"] by (simp add: py_split_def no_space_def)
qed

lemma lines_from_line: "list_all (\<lambda>c. \<not> is_line_break c) cs \<Longrightarrow> lines_from w (cs @ r) = lines_from (w @ concat cs) r"
  by (induction cs arbitrary: w) auto

lemma newline_break [simp]: "is_line_break [CHR 0x0A]"
  by (simp add: is_line_break_def code_point_ascii)

lemma py_splitlines_line:
  assumes "line_ok l"
  shows "py_splitlines (l @ CHR 0x0A # r) = l # py_splitlines r"
proof -
  have "py_chars (l @ CHR 0x0A # r) = py_chars l @ [CHR 0x0A] # py_chars r"
    using assms by (simp add: line_ok_def py_chars_append py_chars_ascii)
  then show ?thesis using assms by (simp add: py_splitlines_def line_ok_def lines_from_line after_break_def)
qed

lemma py_splitlines_text:
  assumes "list_all line_ok ls"
  shows "py_splitlines (concat (map (\<lambda>l. l @ [CHR 0x0A]) ls)) = ls"
  using assms
proof (induction ls)
  case Nil
  then show ?case by (simp add: py_splitlines_def)
next
  case (Cons l ls)
  then show ?case using py_splitlines_line [of l] by simp
qed

text \<open>The lines of valid text have no line break.\<close>

lemma lines_from_ok:
  assumes "list_all one_char cs" and "line_ok w"
  shows "list_all line_ok (lines_from w cs)"
  using assms
proof (induction w cs rule: lines_from.induct)
  case (2 w c cs)
  show ?case
  proof (cases "is_line_break c")
    case True
    have "list_all one_char (after_break c cs)" using 2(3) by (cases cs) (auto simp: after_break_def)
    with 2(1) [OF True] 2(4) True show ?thesis by (simp add: line_ok_def)
  next
    case False
    have "line_ok (w @ c)"
      using 2(3,4) False by (simp add: line_ok_def one_char_def utf8_valid_append py_chars_append)
    with 2(2) [OF False] 2(3) False show ?thesis by simp
  qed
qed simp

lemma py_splitlines_ok: "utf8_valid s \<Longrightarrow> list_all line_ok (py_splitlines s)"
  unfolding py_splitlines_def by (intro lines_from_ok py_chars_one) (simp_all add: line_ok_def)

end
