(* ===== verification/Routing.thy ===== *)
theory Routing
  imports Py_Text
begin

text \<open>
  Runtime bindings (\<open>routing.py\<close>): the declared identity, host, ports and family of a runtime.
\<close>

record RuntimeBinding =
  rb_instance_id :: string
  rb_linux_account :: string
  rb_public_host :: string
  rb_family :: string
  rb_runtime_class :: string
  rb_gateway_port :: int
  rb_bridge_port :: int
  rb_enabled :: bool
  rb_upstream_kind :: string
  rb_upstream_owner :: string
  rb_upstream_container :: string

definition binding_to_json :: "RuntimeBinding \<Rightarrow> json" where
  "binding_to_json b = JObj
     [(''instance_id'', JStr (rb_instance_id b)), (''linux_account'', JStr (rb_linux_account b)),
      (''public_host'', JStr (rb_public_host b)), (''family'', JStr (rb_family b)),
      (''runtime_class'', JStr (rb_runtime_class b)), (''gateway_port'', JInt (rb_gateway_port b)),
      (''bridge_port'', JInt (rb_bridge_port b)), (''enabled'', JBool (rb_enabled b)),
      (''upstream_kind'', JStr (rb_upstream_kind b)), (''upstream_owner'', JStr (rb_upstream_owner b)),
      (''upstream_container'', JStr (rb_upstream_container b))]"

end
