(* ===== verification/Usage_Ledger.thy ===== *)
theory Usage_Ledger
  imports Routing Sha256
begin

text \<open>
  The contract of the provider-usage ledger (\<open>domain/usage_ledger.py\<close>): the validation of call
  receipts, coverage manifests and export pages that a product container prints, and the stamp of the
  runtime they were collected from. A value is the Python object \<open>json.loads\<close> builds. The text of an
  error is its fixed part; a loop over a Python set is taken in a fixed order, so only which of several
  errors of one kind is raised first may differ.
\<close>

section \<open>Data\<close>

definition CALL_SCHEMA :: string where "CALL_SCHEMA = ''jitech-provider-usage-call/v1''"
definition EXPORT_SCHEMA :: string where "EXPORT_SCHEMA = ''jitech-provider-usage-export/v1''"
definition COVERAGE_SCHEMA :: string where "COVERAGE_SCHEMA = ''jitech-provider-usage-coverage/v1''"

definition CALL_KEYS :: "string list" where
  "CALL_KEYS = [''schema'', ''ledgerSeq'', ''receiptDigest'', ''producerCoverageDigest'', ''callId'', ''runId'',
     ''turnId'', ''requestId'', ''sessionId'', ''trigger'', ''attempt'', ''retryOf'', ''fallbackParent'',
     ''fallbackIndex'', ''startedAt'', ''completedAt'', ''status'', ''configured'', ''requested'', ''actual'',
     ''usage'', ''usageCoverage'', ''missingUsageFields'', ''receiptCoverage'', ''missingReceiptFields'',
     ''finishReason'', ''errorCategory'']"

definition EXPORT_KEYS :: "string list" where
  "EXPORT_KEYS = [''schema'', ''after'', ''nextCursor'', ''highWatermark'', ''count'', ''hasMore'', ''receipts'',
     ''coverageManifests'']"

definition COVERAGE_KEYS :: "string list" where
  "COVERAGE_KEYS = [''schema'', ''productFamily'', ''manifestDigest'', ''coverageStatus'', ''surfaces'']"

definition COVERAGE_SURFACE_KEYS :: "string list" where
  "COVERAGE_SURFACE_KEYS = [''surfaceCode'', ''observationKind'', ''meterFamily'', ''modelEvidence'',
     ''retryObservation'', ''usageObservation'', ''status'', ''gapCode'']"

definition MODEL_KEYS :: "string list" where "MODEL_KEYS = [''provider'', ''model'']"

definition ACTUAL_KEYS :: "string list" where
  "ACTUAL_KEYS = [''provider'', ''model'', ''responseId'', ''evidenceSource'']"

definition USAGE_FIELD_ORDER :: "string list" where
  "USAGE_FIELD_ORDER = [''inputTotal'', ''inputNonCached'', ''cacheRead'', ''cacheWrite'', ''outputCandidates'',
     ''reasoningThinking'', ''toolUsePrompt'', ''providerReportedTotal'', ''serviceTier'', ''rawProviderUsage'']"

definition COUNT_KEYS :: "string list" where
  "COUNT_KEYS = filter (\<lambda>k. k \<noteq> ''serviceTier'' \<and> k \<noteq> ''rawProviderUsage'') USAGE_FIELD_ORDER"

definition RECEIPT_IDENTITY_FIELDS :: "string list" where
  "RECEIPT_IDENTITY_FIELDS = [''runId'', ''turnId'', ''requestId'', ''sessionId'']"

definition SUCCEEDED_EVIDENCE_FIELDS :: "string list" where
  "SUCCEEDED_EVIDENCE_FIELDS = [''actual.provider'', ''actual.model'', ''actual.responseId'', ''actual.evidenceSource'',
     ''finishReason'']"

definition TRIGGERS :: "string list" where
  "TRIGGERS = [''user'', ''cron'', ''heartbeat'', ''manual'', ''memory'', ''overflow'', ''unknown'']"

definition STATUSES :: "string list" where "STATUSES = [''succeeded'', ''failed'', ''interrupted'', ''cancelled'']"

definition PRODUCT_FAMILIES :: "string list" where "PRODUCT_FAMILIES = [''hermes'', ''openclaw'']"

definition SURFACE_ENUMS :: "(string \<times> string list) list" where
  "SURFACE_ENUMS =
     [(''observationKind'', [''per_call'', ''turn_aggregate'', ''request_only'']),
      (''meterFamily'', [''tokens'', ''image'', ''audio'', ''characters'', ''search'', ''other'']),
      (''modelEvidence'', [''provider_response'', ''requested_only'', ''unavailable'']),
      (''retryObservation'', [''physical_attempt'', ''logical_call_only'', ''unavailable'']),
      (''usageObservation'', [''provider_reported'', ''request_observed'', ''unavailable'']),
      (''status'', [''implemented'', ''partial'', ''gap''])]"

definition MAX_RAW_USAGE_BYTES :: nat where "MAX_RAW_USAGE_BYTES = 65536"

definition RAW_USAGE_COUNT_KEYS :: "string list" where
  "RAW_USAGE_COUNT_KEYS = [''promptTokenCount'', ''cachedContentTokenCount'', ''candidatesTokenCount'',
     ''thoughtsTokenCount'', ''toolUsePromptTokenCount'', ''totalTokenCount'', ''prompt_tokens'', ''completion_tokens'',
     ''total_tokens'', ''input_tokens'', ''output_tokens'', ''cache_read_tokens'', ''cache_write_tokens'',
     ''reasoning_tokens'', ''cache_creation_input_tokens'', ''cache_read_input_tokens'', ''inputTokens'',
     ''outputTokens'', ''totalTokens'', ''cacheReadInputTokens'', ''cacheWriteInputTokens'']"

definition RAW_USAGE_ENUM_KEYS :: "string list" where
  "RAW_USAGE_ENUM_KEYS = [''serviceTier'', ''trafficType'', ''service_tier'']"

definition RAW_USAGE_DETAIL_KEYS :: "string list" where
  "RAW_USAGE_DETAIL_KEYS = [''promptTokensDetails'', ''cacheTokensDetails'', ''candidatesTokensDetails'',
     ''toolUsePromptTokensDetails'', ''prompt_tokens_details'', ''completion_tokens_details'', ''input_tokens_details'',
     ''output_tokens_details'']"

definition RAW_USAGE_DETAIL_COUNT_KEYS :: "string list" where
  "RAW_USAGE_DETAIL_COUNT_KEYS = [''tokenCount'', ''cached_tokens'', ''cache_creation_tokens'', ''cache_write_tokens'',
     ''audio_tokens'', ''reasoning_tokens'', ''accepted_prediction_tokens'', ''rejected_prediction_tokens'']"

record ValidatedCoverage =
  cov_family :: string
  cov_digest :: string
  cov_status :: string
  cov_surfaces :: "dict list"

record ValidatedExport =
  ex_after :: int
  ex_next_cursor :: int
  ex_high_watermark :: int
  ex_has_more :: bool
  ex_receipts :: "dict list"
  ex_coverage :: "ValidatedCoverage list"

record RuntimeUsageStamp =
  st_instance_id :: string
  st_linux_account :: string
  st_public_host :: string
  st_family :: string
  st_runtime_class :: string
  st_binding_digest :: string
  st_container_id :: string
  st_wrapper_image :: string
  st_product_image :: string
  st_ops_repo_commit :: string
  st_collected_at :: string

section \<open>Canonical bytes and digests\<close>

text \<open>\<open>allow_nan=False\<close> refuses the three floats JSON cannot write.\<close>

fun has_nan :: "json \<Rightarrow> bool" where
  "has_nan (JFloat r) = (r = ''nan'' \<or> r = ''inf'' \<or> r = ''-inf'')"
| "has_nan (JList vs) = list_ex has_nan vs"
| "has_nan (JObj kvs) = list_ex (\<lambda>kv. has_nan (snd kv)) kvs"
| "has_nan _ = False"

definition canonical_json_bytes :: "json \<Rightarrow> string result" where
  "canonical_json_bytes v =
     raise_from is_value_error (UsageContractError ''value is not canonical JSON'')
       (bindE (raise_if (has_nan v) (ValueError ''out of range float values'')) (\<lambda>_.
        encode_utf8 (dumps '','' '':'' (sort_keys v))))"

definition sha256_of :: "json \<Rightarrow> string result" where
  "sha256_of v = bindE (canonical_json_bytes v) (\<lambda>b. Inr (sha256_tag b))"

definition call_receipt_digest :: "dict \<Rightarrow> string result" where
  "call_receipt_digest r = sha256_of (JObj (filter (\<lambda>(k, v). k \<noteq> ''ledgerSeq'' \<and> k \<noteq> ''receiptDigest'') r))"

definition coverage_manifest_digest :: "dict \<Rightarrow> string result" where
  "coverage_manifest_digest v = sha256_of (JObj (filter (\<lambda>(k, i). k \<noteq> ''manifestDigest'') v))"

section \<open>Checks of one value\<close>

definition contract_error :: "string \<Rightarrow> string \<Rightarrow> exn" where
  "contract_error path what = UsageContractError (path @ '' '' @ what)"

definition exact_usage_keys :: "json \<Rightarrow> string list \<Rightarrow> string \<Rightarrow> dict result" where
  "exact_usage_keys v expected path =
     (case v of JObj kvs \<Rightarrow>
        if set (keys kvs) \<noteq> set expected then Inl (contract_error path ''keys mismatch'') else Inr kvs
      | _ \<Rightarrow> Inl (contract_error path ''must be an object''))"

definition integer :: "json \<Rightarrow> string \<Rightarrow> int \<Rightarrow> int result" where
  "integer v path minimum =
     (case v of JInt n \<Rightarrow> if n < minimum then Inl (contract_error path ''must be an integer'') else Inr n
      | _ \<Rightarrow> Inl (contract_error path ''must be an integer''))"

definition nullable_string :: "json \<Rightarrow> string \<Rightarrow> nat \<Rightarrow> string option result" where
  "nullable_string v path max_length =
     (case v of
        JNull \<Rightarrow> Inr None
      | JStr s \<Rightarrow>
          (if blank s then Inl (contract_error path ''must be null or a non-empty string'')
           else if max_length < py_len s then Inl (contract_error path ''exceeds characters'')
           else Inr (Some s))
      | _ \<Rightarrow> Inl (contract_error path ''must be null or a non-empty string''))"

definition required_string :: "json \<Rightarrow> string \<Rightarrow> nat \<Rightarrow> string result" where
  "required_string v path max_length =
     bindE (nullable_string v path max_length) (\<lambda>r. case r of
       None \<Rightarrow> Inl (contract_error path ''must be a non-empty string'')
     | Some s \<Rightarrow> Inr s)"

text \<open>An instant in microseconds. \<open>astimezone\<close> stands outside the \<open>try\<close>.\<close>

definition usage_timestamp :: "json \<Rightarrow> string \<Rightarrow> int result" where
  "usage_timestamp v path =
     bindE (required_string v path 512) (\<lambda>text.
     case fromisoformat (replace_char CHR ''Z'' ''+00:00'' text) of
       None \<Rightarrow> Inl (contract_error path ''must be RFC3339'')
     | Some (t, None) \<Rightarrow> Inl (contract_error path ''must include a timezone'')
     | Some (t, Some z) \<Rightarrow> to_utc t z)"

definition string_list :: "json \<Rightarrow> string \<Rightarrow> string list result" where
  "string_list v path =
     (case v of JList vs \<Rightarrow>
        bindE (mapE (\<lambda>x. required_string x path 512) vs) (\<lambda>xs.
        bindE (raise_if (\<not> distinct xs) (contract_error path ''must not contain duplicates'')) (\<lambda>_. Inr xs))
      | _ \<Rightarrow> Inl (contract_error path ''must be an array''))"

definition coverage_from_missing :: "string list \<Rightarrow> nat \<Rightarrow> string" where
  "coverage_from_missing missing expected =
     (if missing = [] then ''complete'' else if length missing = expected then ''unavailable'' else ''partial'')"

text \<open>\<open>value not in SET\<close>: a list or a dictionary cannot be hashed.\<close>

definition member :: "json \<Rightarrow> string list \<Rightarrow> bool result" where
  "member v xs = (case v of JStr s \<Rightarrow> Inr (s \<in> set xs) | JList _ \<Rightarrow> Inl (TypeError ''unhashable type'')
     | JObj _ \<Rightarrow> Inl (TypeError ''unhashable type'') | _ \<Rightarrow> Inr False)"

definition require_member :: "json \<Rightarrow> string list \<Rightarrow> string \<Rightarrow> unit result" where
  "require_member v xs path =
     bindE (member v xs) (\<lambda>b. raise_if (\<not> b) (contract_error path ''must be one of the known values''))"

definition check_if_set :: "dict \<Rightarrow> string \<Rightarrow> (json \<Rightarrow> unit result) \<Rightarrow> unit result" where
  "check_if_set d k f = (case map_of d k of None \<Rightarrow> Inr () | Some JNull \<Rightarrow> Inr () | Some v \<Rightarrow> f v)"

definition ignore :: "'a result \<Rightarrow> unit result" where
  "ignore m = bindE m (\<lambda>_. Inr ())"

definition check_detail_item :: "json \<Rightarrow> unit result" where
  "check_detail_item item =
     (case item of JObj d \<Rightarrow>
        bindE (raise_if (\<not> set (keys d) \<subseteq> insert ''modality'' (set RAW_USAGE_DETAIL_COUNT_KEYS))
          (contract_error ''usage.rawProviderUsage'' ''has non-accounting fields'')) (\<lambda>_.
        bindE (case map_of d ''modality'' of None \<Rightarrow> Inr () | Some v \<Rightarrow> ignore (required_string v ''modality'' 64)) (\<lambda>_.
        forE (\<lambda>k. case map_of d k of None \<Rightarrow> Inr () | Some v \<Rightarrow> ignore (integer v k 0)) RAW_USAGE_DETAIL_COUNT_KEYS))
      | _ \<Rightarrow> Inl (contract_error ''usage.rawProviderUsage'' ''must be an object''))"

definition validate_accounting_json :: "json \<Rightarrow> unit result" where
  "validate_accounting_json v =
     bindE (canonical_json_bytes v) (\<lambda>b.
     bindE (raise_if (MAX_RAW_USAGE_BYTES < length b) (contract_error ''usage.rawProviderUsage'' ''exceeds bytes'')) (\<lambda>_.
     case v of JObj d \<Rightarrow>
       bindE (raise_if (\<not> set (keys d) \<subseteq> set (RAW_USAGE_COUNT_KEYS @ RAW_USAGE_ENUM_KEYS @ RAW_USAGE_DETAIL_KEYS))
         (contract_error ''usage.rawProviderUsage'' ''has non-accounting fields'')) (\<lambda>_.
       bindE (forE (\<lambda>k. check_if_set d k (\<lambda>x. ignore (integer x k 0))) RAW_USAGE_COUNT_KEYS) (\<lambda>_.
       bindE (forE (\<lambda>k. check_if_set d k (\<lambda>x. ignore (required_string x k 64))) RAW_USAGE_ENUM_KEYS) (\<lambda>_.
       forE (\<lambda>k. check_if_set d k (\<lambda>x. case x of
           JList items \<Rightarrow> forE check_detail_item items
         | JObj _ \<Rightarrow> check_detail_item x
         | _ \<Rightarrow> Inl (contract_error k ''must be an object or array''))) RAW_USAGE_DETAIL_KEYS)))
     | _ \<Rightarrow> Inl (contract_error ''usage.rawProviderUsage'' ''must be an accounting object'')))"

section \<open>Call receipts\<close>

text \<open>
  After \<open>exact_usage_keys\<close> every expected key is present, so \<open>receipt[key]\<close> is \<open>jget_opt\<close>.
\<close>

definition is_null :: "json \<Rightarrow> bool" where "is_null v \<longleftrightarrow> v = JNull"

definition null_fields :: "dict \<Rightarrow> string list \<Rightarrow> string list" where
  "null_fields d ks = filter (\<lambda>k. is_null (jget_opt d k)) ks"

definition expected_missing_usage :: "dict \<Rightarrow> string list" where
  "expected_missing_usage usage = null_fields usage USAGE_FIELD_ORDER"

definition missing_evidence :: "dict \<Rightarrow> dict \<Rightarrow> string list" where
  "missing_evidence receipt actual =
     (if jget_opt receipt ''status'' = JStr ''succeeded'' then
        map ((@) ''actual.'') (null_fields actual ACTUAL_KEYS) @ null_fields receipt [''finishReason'']
      else null_fields receipt [''errorCategory''])"

definition expected_missing_receipt :: "dict \<Rightarrow> dict \<Rightarrow> dict \<Rightarrow> string list" where
  "expected_missing_receipt receipt actual usage =
     null_fields receipt RECEIPT_IDENTITY_FIELDS
     @ (if jget_opt receipt ''trigger'' = JStr ''unknown'' then [''trigger''] else [])
     @ missing_evidence receipt actual
     @ map ((@) ''usage.'') (expected_missing_usage usage)"

definition expected_field_count :: "dict \<Rightarrow> nat" where
  "expected_field_count receipt =
     length RECEIPT_IDENTITY_FIELDS + 1 + length USAGE_FIELD_ORDER
     + (if jget_opt receipt ''status'' = JStr ''succeeded'' then length SUCCEEDED_EVIDENCE_FIELDS else 1)"

definition check_digest_field :: "json \<Rightarrow> string \<Rightarrow> string result" where
  "check_digest_field v path =
     bindE (required_string v path 512) (\<lambda>d.
     bindE (raise_if (\<not> DIGEST_RE d) (contract_error path ''must be sha256:<64 lower-case hex>'')) (\<lambda>_. Inr d))"

definition check_identity :: "dict \<Rightarrow> unit result" where
  "check_identity receipt =
     bindE (raise_if (jget_opt receipt ''schema'' \<noteq> JStr CALL_SCHEMA) (contract_error ''receipt.schema'' ''is another'')) (\<lambda>_.
     bindE (integer (jget_opt receipt ''ledgerSeq'') ''receipt.ledgerSeq'' 1) (\<lambda>_.
     bindE (check_digest_field (jget_opt receipt ''receiptDigest'') ''receipt.receiptDigest'') (\<lambda>digest.
     bindE (call_receipt_digest receipt) (\<lambda>actual.
     bindE (raise_if (digest \<noteq> actual) (contract_error ''receipt.receiptDigest'' ''does not match canonical receipt bytes'')) (\<lambda>_.
     bindE (check_digest_field (jget_opt receipt ''producerCoverageDigest'') ''receipt.producerCoverageDigest'') (\<lambda>_.
     bindE (required_string (jget_opt receipt ''callId'') ''receipt.callId'' 128) (\<lambda>_.
     forE (\<lambda>k. ignore (nullable_string (jget_opt receipt k) k 128))
       [''runId'', ''turnId'', ''requestId'', ''sessionId'', ''retryOf'', ''fallbackParent'', ''finishReason'',
        ''errorCategory''])))))))"

definition check_call :: "dict \<Rightarrow> unit result" where
  "check_call receipt =
     bindE (require_member (jget_opt receipt ''trigger'') TRIGGERS ''receipt.trigger'') (\<lambda>_.
     bindE (integer (jget_opt receipt ''attempt'') ''receipt.attempt'' 1) (\<lambda>_.
     bindE (integer (jget_opt receipt ''fallbackIndex'') ''receipt.fallbackIndex'' 0) (\<lambda>fallback_index.
     bindE (raise_if (is_null (jget_opt receipt ''fallbackParent'') \<and> fallback_index \<noteq> 0)
       (contract_error ''receipt.fallbackIndex'' ''must be 0 when fallbackParent is null'')) (\<lambda>_.
     bindE (raise_if (\<not> is_null (jget_opt receipt ''fallbackParent'') \<and> fallback_index = 0)
       (contract_error ''receipt.fallbackIndex'' ''must be positive when fallbackParent is set'')) (\<lambda>_.
     bindE (usage_timestamp (jget_opt receipt ''startedAt'') ''receipt.startedAt'') (\<lambda>started.
     bindE (usage_timestamp (jget_opt receipt ''completedAt'') ''receipt.completedAt'') (\<lambda>completed.
     bindE (raise_if (completed < started) (contract_error ''receipt.completedAt'' ''precedes startedAt'')) (\<lambda>_.
     require_member (jget_opt receipt ''status'') STATUSES ''receipt.status''))))))))"

definition check_model :: "json \<Rightarrow> string \<Rightarrow> unit result" where
  "check_model v path =
     bindE (exact_usage_keys v MODEL_KEYS path) (\<lambda>model.
     bindE (required_string (jget_opt model ''provider'') path 64) (\<lambda>_.
     ignore (required_string (jget_opt model ''model'') path 191)))"

definition check_usage :: "dict \<Rightarrow> unit result" where
  "check_usage usage =
     bindE (forE (\<lambda>k. let v = jget_opt usage k in if is_null v then Inr () else ignore (integer v k 0)) COUNT_KEYS) (\<lambda>_.
     bindE (nullable_string (jget_opt usage ''serviceTier'') ''receipt.usage.serviceTier'' 64) (\<lambda>_.
     let raw = jget_opt usage ''rawProviderUsage'' in
     if is_null raw then Inr () else validate_accounting_json raw))"

definition check_coverage_fields :: "dict \<Rightarrow> dict \<Rightarrow> dict \<Rightarrow> unit result" where
  "check_coverage_fields receipt actual usage =
     bindE (string_list (jget_opt receipt ''missingUsageFields'') ''receipt.missingUsageFields'') (\<lambda>missing_usage.
     bindE (string_list (jget_opt receipt ''missingReceiptFields'') ''receipt.missingReceiptFields'') (\<lambda>missing_receipt.
     bindE (raise_if (missing_usage \<noteq> expected_missing_usage usage)
       (contract_error ''receipt.missingUsageFields'' ''must exactly name null usage fields'')) (\<lambda>_.
     bindE (raise_if (jget_opt receipt ''usageCoverage'' \<noteq> JStr (coverage_from_missing missing_usage (length USAGE_FIELD_ORDER)))
       (contract_error ''receipt.usageCoverage'' ''is another for missingUsageFields'')) (\<lambda>_.
     bindE (raise_if (missing_receipt \<noteq> expected_missing_receipt receipt actual usage)
       (contract_error ''receipt.missingReceiptFields'' ''is inconsistent with applicable null evidence'')) (\<lambda>_.
     raise_if (jget_opt receipt ''receiptCoverage''
         \<noteq> JStr (coverage_from_missing (expected_missing_receipt receipt actual usage) (expected_field_count receipt)))
       (contract_error ''receipt.receiptCoverage'' ''is another for missingReceiptFields''))))))"

definition validate_call_receipt :: "json \<Rightarrow> dict result" where
  "validate_call_receipt v =
     bindE (exact_usage_keys v CALL_KEYS ''receipt'') (\<lambda>receipt.
     bindE (check_identity receipt) (\<lambda>_.
     bindE (check_call receipt) (\<lambda>_.
     bindE (check_model (jget_opt receipt ''configured'') ''receipt.configured'') (\<lambda>_.
     bindE (check_model (jget_opt receipt ''requested'') ''receipt.requested'') (\<lambda>_.
     bindE (exact_usage_keys (jget_opt receipt ''actual'') ACTUAL_KEYS ''receipt.actual'') (\<lambda>actual.
     bindE (forE (\<lambda>k. ignore (nullable_string (jget_opt actual k) k 191)) ACTUAL_KEYS) (\<lambda>_.
     bindE (exact_usage_keys (jget_opt receipt ''usage'') USAGE_FIELD_ORDER ''receipt.usage'') (\<lambda>usage.
     bindE (check_usage usage) (\<lambda>_.
     bindE (check_coverage_fields receipt actual usage) (\<lambda>_.
     Inr receipt))))))))))"

section \<open>Coverage manifests\<close>

definition sorted_unique :: "'a::linorder list \<Rightarrow> 'a list" where
  "sorted_unique xs = sort (remdups xs)"

definition check_surface :: "json \<Rightarrow> (string \<times> dict) result" where
  "check_surface raw =
     bindE (exact_usage_keys raw COVERAGE_SURFACE_KEYS ''coverage.surfaces'') (\<lambda>surface.
     bindE (required_string (jget_opt surface ''surfaceCode'') ''coverage.surfaces.surfaceCode'' 128) (\<lambda>code.
     bindE (forE (\<lambda>(field, allowed).
         bindE (required_string (jget_opt surface field) field 32) (\<lambda>item.
         raise_if (item \<notin> set allowed) (contract_error field ''must be one of the known values''))) SURFACE_ENUMS) (\<lambda>_.
     bindE (nullable_string (jget_opt surface ''gapCode'') ''coverage.surfaces.gapCode'' 128) (\<lambda>gap_code.
     bindE (raise_if (jget_opt surface ''status'' = JStr ''implemented'' \<and> gap_code \<noteq> None)
       (contract_error ''coverage.surfaces.gapCode'' ''must be null when status=implemented'')) (\<lambda>_.
     bindE (raise_if (jget_opt surface ''status'' \<noteq> JStr ''implemented'' \<and> gap_code = None)
       (contract_error ''coverage.surfaces.gapCode'' ''is required when status is not implemented'')) (\<lambda>_.
     Inr (code, surface)))))))"

definition validate_coverage :: "json \<Rightarrow> string \<Rightarrow> ValidatedCoverage result" where
  "validate_coverage v expected_family =
     bindE (exact_usage_keys v COVERAGE_KEYS ''coverage'') (\<lambda>payload.
     bindE (raise_if (jget_opt payload ''schema'' \<noteq> JStr COVERAGE_SCHEMA) (contract_error ''coverage.schema'' ''is another'')) (\<lambda>_.
     bindE (required_string (jget_opt payload ''productFamily'') ''coverage.productFamily'' 32) (\<lambda>family.
     bindE (raise_if (family \<notin> set PRODUCT_FAMILIES) (contract_error ''coverage.productFamily'' ''must be one of the known values'')) (\<lambda>_.
     bindE (raise_if (family \<noteq> expected_family) (contract_error ''coverage.productFamily'' ''mismatch'')) (\<lambda>_.
     bindE (check_digest_field (jget_opt payload ''manifestDigest'') ''coverage.manifestDigest'') (\<lambda>manifest_digest.
     bindE (coverage_manifest_digest payload) (\<lambda>expected_digest.
     bindE (raise_if (manifest_digest \<noteq> expected_digest)
       (contract_error ''coverage.manifestDigest'' ''does not match canonical manifest bytes'')) (\<lambda>_.
     bindE (required_string (jget_opt payload ''coverageStatus'') ''coverage.coverageStatus'' 16) (\<lambda>status.
     bindE (raise_if (status \<notin> {''complete'', ''partial''}) (contract_error ''coverage.coverageStatus'' ''must be complete or partial'')) (\<lambda>_.
     bindE (case jget_opt payload ''surfaces'' of JList vs \<Rightarrow> if vs = [] then Inl (contract_error ''coverage.surfaces'' ''must be a non-empty array'') else Inr vs
              | _ \<Rightarrow> Inl (contract_error ''coverage.surfaces'' ''must be a non-empty array'')) (\<lambda>raw_surfaces.
     bindE (mapE check_surface raw_surfaces) (\<lambda>checked.
     bindE (raise_if (map fst checked \<noteq> sorted_unique (map fst checked))
       (contract_error ''coverage.surfaces'' ''surfaceCode must be unique and ascending'')) (\<lambda>_.
     bindE (raise_if (status \<noteq> (if list_all (\<lambda>s. jget_opt s ''status'' = JStr ''implemented'') (map snd checked)
                              then ''complete'' else ''partial''))
       (contract_error ''coverage.coverageStatus'' ''is another for surface statuses'')) (\<lambda>_.
     Inr \<lparr>cov_family = family, cov_digest = manifest_digest, cov_status = status, cov_surfaces = map snd checked\<rparr>))))))))))))))"

section \<open>Export pages\<close>

definition as_list :: "json \<Rightarrow> string \<Rightarrow> json list result" where
  "as_list v path = (case v of JList vs \<Rightarrow> Inr vs | _ \<Rightarrow> Inl (contract_error path ''must be an array''))"

definition as_bool :: "json \<Rightarrow> string \<Rightarrow> bool result" where
  "as_bool v path = (case v of JBool b \<Rightarrow> Inr b | _ \<Rightarrow> Inl (contract_error path ''must be boolean''))"

text \<open>Fields of a validated receipt: \<open>int(item["ledgerSeq"])\<close> and \<open>str(item[key])\<close>.\<close>

definition seq_of :: "dict \<Rightarrow> int" where
  "seq_of r = (case jget_opt r ''ledgerSeq'' of JInt n \<Rightarrow> n | _ \<Rightarrow> 0)"

definition str_of :: "dict \<Rightarrow> string \<Rightarrow> string" where
  "str_of r k = (case jget_opt r k of JStr s \<Rightarrow> s | _ \<Rightarrow> [])"

definition check_cursor :: "int \<Rightarrow> int \<Rightarrow> int \<Rightarrow> bool \<Rightarrow> int list \<Rightarrow> unit result" where
  "check_cursor after next_cursor high_watermark has_more sequences =
     bindE (raise_if (sequences \<noteq> sorted_unique sequences) (contract_error ''export.receipts'' ''ledgerSeq must be unique and ascending'')) (\<lambda>_.
     bindE (raise_if (sequences \<noteq> [] \<and> hd sequences \<le> after) (contract_error ''export.receipts'' ''contains a sequence at or before export.after'')) (\<lambda>_.
     bindE (raise_if (sequences \<noteq> [] \<and> high_watermark < last sequences) (contract_error ''export.receipts'' ''contains a sequence above highWatermark'')) (\<lambda>_.
     bindE (raise_if (next_cursor \<noteq> (if sequences \<noteq> [] then last sequences else after)) (contract_error ''export.nextCursor'' ''mismatch'')) (\<lambda>_.
     bindE (raise_if (has_more \<noteq> (next_cursor < high_watermark)) (contract_error ''export.hasMore'' ''mismatch'')) (\<lambda>_.
     raise_if (next_cursor < high_watermark \<and> sequences = []) (contract_error ''export'' ''made no cursor progress while hasMore=true''))))))"

definition validate_export :: "json \<Rightarrow> int \<Rightarrow> string \<Rightarrow> ValidatedExport result" where
  "validate_export v expected_after expected_family =
     bindE (exact_usage_keys v EXPORT_KEYS ''export'') (\<lambda>payload.
     bindE (raise_if (jget_opt payload ''schema'' \<noteq> JStr EXPORT_SCHEMA) (contract_error ''export.schema'' ''is another'')) (\<lambda>_.
     bindE (integer (jget_opt payload ''after'') ''export.after'' 0) (\<lambda>after.
     bindE (raise_if (after \<noteq> expected_after) (contract_error ''export.after'' ''mismatch'')) (\<lambda>_.
     bindE (integer (jget_opt payload ''nextCursor'') ''export.nextCursor'' 0) (\<lambda>next_cursor.
     bindE (integer (jget_opt payload ''highWatermark'') ''export.highWatermark'' 0) (\<lambda>high_watermark.
     bindE (integer (jget_opt payload ''count'') ''export.count'' 0) (\<lambda>count.
     bindE (as_bool (jget_opt payload ''hasMore'') ''export.hasMore'') (\<lambda>has_more.
     bindE (raise_if (high_watermark < after) (UsageContractError ''product ledger moved backwards'')) (\<lambda>_.
     bindE (as_list (jget_opt payload ''receipts'') ''export.receipts'') (\<lambda>raw_receipts.
     bindE (raise_if (count \<noteq> int (length raw_receipts)) (contract_error ''export.count'' ''mismatch'')) (\<lambda>_.
     bindE (mapE validate_call_receipt raw_receipts) (\<lambda>receipts.
     bindE (as_list (jget_opt payload ''coverageManifests'') ''export.coverageManifests'') (\<lambda>raw_manifests.
     bindE (mapE (\<lambda>m. validate_coverage m expected_family) raw_manifests) (\<lambda>manifests.
     bindE (raise_if (map cov_digest manifests \<noteq> sorted_unique (map cov_digest manifests))
       (contract_error ''export.coverageManifests'' ''manifestDigest must be unique and ascending'')) (\<lambda>_.
     bindE (raise_if (map cov_digest manifests \<noteq> sorted_unique (map (\<lambda>r. str_of r ''producerCoverageDigest'') receipts))
       (contract_error ''export.coverageManifests'' ''must exactly match receipt producerCoverageDigest values'')) (\<lambda>_.
     bindE (check_cursor after next_cursor high_watermark has_more (map seq_of receipts)) (\<lambda>_.
     Inr \<lparr>ex_after = after, ex_next_cursor = next_cursor, ex_high_watermark = high_watermark,
          ex_has_more = (next_cursor < high_watermark), ex_receipts = receipts, ex_coverage = manifests\<rparr>)))))))))))))))))"

section \<open>Product commands\<close>

definition export_command :: "string \<Rightarrow> int \<Rightarrow> int \<Rightarrow> string list result" where
  "export_command family after limit =
     bindE (integer (JInt after) ''after'' 0) (\<lambda>_.
     bindE (integer (JInt limit) ''limit'' 1) (\<lambda>_.
     bindE (raise_if (family \<noteq> ''hermes'' \<and> family \<noteq> ''openclaw'') (UsageContractError ''unsupported usage export family'')) (\<lambda>_.
     Inr [family, ''usage-receipts'', ''export'', ''--after'', show_int after, ''--limit'', show_int limit])))"

definition coverage_command :: "string \<Rightarrow> string list result" where
  "coverage_command family =
     bindE (raise_if (family \<notin> set PRODUCT_FAMILIES) (UsageContractError ''unsupported usage coverage family'')) (\<lambda>_.
     Inr [family, ''usage-receipts'', ''coverage'', ''--json''])"

definition parse_document :: "pyenv \<Rightarrow> string \<Rightarrow> string \<Rightarrow> json result" where
  "parse_document env what stdout =
     (let text = py_strip stdout in
      bindE (raise_if (text = []) (UsageContractError (what @ '' returned empty stdout''))) (\<lambda>_.
      raise_from (\<lambda>e. e = JSONDecodeError) (UsageContractError (what @ '' stdout is not exactly one JSON document''))
        (json_loads env dict_hook text)))"

definition parse_export_stdout :: "pyenv \<Rightarrow> string \<Rightarrow> int \<Rightarrow> string \<Rightarrow> ValidatedExport result" where
  "parse_export_stdout env stdout expected_after expected_family =
     bindE (parse_document env ''product usage export'' stdout) (\<lambda>payload.
     validate_export payload expected_after expected_family)"

definition parse_coverage_stdout :: "pyenv \<Rightarrow> string \<Rightarrow> string \<Rightarrow> ValidatedCoverage result" where
  "parse_coverage_stdout env stdout expected_family =
     bindE (parse_document env ''product usage coverage'' stdout) (\<lambda>payload. validate_coverage payload expected_family)"

section \<open>Redaction of error texts\<close>

text \<open>
  Characters as \<open>(?i)\<close> compares them with an ASCII letter, and the alternatives of the keyword group in
  the order the expression tries them.
\<close>

definition fold_case :: "string \<Rightarrow> nat" where
  "fold_case x = (let n = code_point x in
     if 65 \<le> n \<and> n \<le> 90 then n + 32 else if n = 8490 then 107 else if n = 383 then 115
     else if n = 304 \<or> n = 305 then 105 else n)"

definition REDACTED_KEYWORDS :: "string list" where
  "REDACTED_KEYWORDS = [''authorization'', ''bearer'', ''password'', ''api_key'', ''api-key'', ''apikey'', ''token'']"

definition keyword_length :: "string list \<Rightarrow> nat option" where
  "keyword_length cs =
     map_option length (List.find (\<lambda>w. map fold_case (take (length w) cs) = map of_char w) REDACTED_KEYWORDS)"

text \<open>The part after the keyword: \<open>\s*[:=]\s*[^\s,;]+\<close>; the result is what follows the match.\<close>

definition secret_tail :: "string list \<Rightarrow> string list option" where
  "secret_tail cs = (case dropWhile is_space cs of
       c # r \<Rightarrow>
         (if c = '':'' \<or> c = ''='' then
            (let v = dropWhile is_space r; stop = (\<lambda>x. is_space x \<or> x = '','' \<or> x = '';'') in
             if v \<noteq> [] \<and> \<not> stop (hd v) then Some (dropWhile (\<lambda>x. \<not> stop x) v) else None)
          else None)
     | [] \<Rightarrow> None)"

lemma secret_tail_length: "secret_tail cs = Some r \<Longrightarrow> length r \<le> length cs"
proof -
  assume a: "secret_tail cs = Some r"
  then obtain c q where q: "dropWhile is_space cs = c # q" by (auto simp: secret_tail_def split: list.splits)
  with a have "length r \<le> length q"
    by (auto simp: secret_tail_def Let_def split: if_splits intro: order_trans [OF length_dropWhile_le length_dropWhile_le])
  moreover have "length q < length cs" using length_dropWhile_le [of is_space cs] q by simp
  ultimately show ?thesis by simp
qed

function redact :: "string list \<Rightarrow> string list" where
  "redact cs = (case cs of [] \<Rightarrow> [] | c # r \<Rightarrow>
     (case keyword_length cs of
        None \<Rightarrow> c # redact r
      | Some n \<Rightarrow>
          (case secret_tail (drop n cs) of
             None \<Rightarrow> c # redact r
           | Some q \<Rightarrow> (if length q < length cs then take n cs @ [''=[REDACTED]''] @ redact q else []))))"
  by pat_completeness auto
termination
  by (relation "measure length") auto

definition redact_error :: "string \<Rightarrow> nat \<Rightarrow> string" where
  "redact_error text limit =
     concat (take limit (py_chars (concat (redact (py_chars (py_strip
       (replace_char CHR 0x0A '' '' (replace_char CHR 0x0D '' '' text))))))))"

section \<open>The stamp of the runtime\<close>

definition runtime_binding_digest :: "RuntimeBinding \<Rightarrow> string result" where
  "runtime_binding_digest b = sha256_of (binding_to_json b)"

text \<open>\<open>live_runtime_truth\<close> returns a dictionary of strings.\<close>

type_synonym truth = "(string \<times> string) list"

definition truth_text :: "truth \<Rightarrow> string \<Rightarrow> string" where
  "truth_text t k = (case map_of t k of None \<Rightarrow> [] | Some s \<Rightarrow> s)"

definition truth_json :: "truth \<Rightarrow> string \<Rightarrow> json" where
  "truth_json t k = (case map_of t k of None \<Rightarrow> JNull | Some s \<Rightarrow> JStr s)"

definition build_runtime_stamp :: "RuntimeBinding \<Rightarrow> string \<Rightarrow> truth \<Rightarrow> string \<Rightarrow> RuntimeUsageStamp result" where
  "build_runtime_stamp b container_id t now =
     bindE (raise_if (map_of t ''truth_status'' \<noteq> Some ''ok'') (UsageContractError ''live runtime truth is not ok'')) (\<lambda>_.
     bindE (raise_if (truth_text t ''instance_id'' \<noteq> rb_instance_id b) (UsageContractError ''live runtime instance_id does not match binding'')) (\<lambda>_.
     bindE (raise_if (truth_text t ''family'' \<noteq> rb_family b) (UsageContractError ''live runtime family does not match binding'')) (\<lambda>_.
     bindE (required_string (truth_json t ''wrapper_image'') ''truth.wrapper_image'' 512) (\<lambda>wrapper.
     bindE (required_string (truth_json t ''product_image'') ''truth.product_image'' 512) (\<lambda>product.
     bindE (runtime_binding_digest b) (\<lambda>digest.
     bindE (required_string (JStr container_id) ''container_id'' 512) (\<lambda>container.
     Inr \<lparr>st_instance_id = rb_instance_id b, st_linux_account = rb_linux_account b, st_public_host = rb_public_host b,
          st_family = rb_family b, st_runtime_class = rb_runtime_class b, st_binding_digest = digest,
          st_container_id = container, st_wrapper_image = wrapper, st_product_image = product,
          st_ops_repo_commit = truth_text t ''ops_repo_commit'', st_collected_at = now\<rparr>)))))))"

definition ensure_binding_unchanged :: "RuntimeBinding \<Rightarrow> RuntimeBinding \<Rightarrow> unit result" where
  "ensure_binding_unchanged before after =
     bindE (runtime_binding_digest before) (\<lambda>d.
     bindE (runtime_binding_digest after) (\<lambda>d'.
     raise_if (d \<noteq> d') (UsageContractError ''runtime binding changed during usage export'')))"

definition receipts_contain_no_content :: "dict list \<Rightarrow> unit result" where
  "receipts_contain_no_content receipts =
     forE (\<lambda>receipt. case jget_opt receipt ''usage'' of
       JObj raw \<Rightarrow> (let v = jget_opt raw ''rawProviderUsage'' in if is_null v then Inr () else validate_accounting_json v)
     | _ \<Rightarrow> Inr ()) receipts"

end
