(* ===== verification/Usage_Store.thy ===== *)
theory Usage_Store
  imports Usage_Ledger
begin

text \<open>
  The central usage database (\<open>domain/usage_store.py\<close>): the tables the collector writes, as lists of
  rows, and the statements of every operation. The definition of the tables is not in the repository:
  an \<open>INSERT\<close> appends a row, only the cursor table's key (the subject of \<open>INSERT IGNORE\<close> and
  \<open>ON DUPLICATE KEY UPDATE\<close>) is a rule of the model, and the uniqueness of the calls is proved. Columns
  compare exactly. The columns of a call that are copied from the receipt are kept as a list of named
  values. An instant is in microseconds.
\<close>

section \<open>Tables\<close>

record cursor_row =
  cu_instance :: string
  cu_account :: string
  cu_host :: string
  cu_family :: string
  cu_class :: string
  cu_binding :: string
  cu_last_seq :: int
  cu_status :: string
  cu_high :: "int option"
  cu_success_at :: "int option"
  cu_attempt_at :: "int option"
  cu_error_code :: "string option"
  cu_error_detail :: "string option"
  cu_coverage :: "(string \<times> string \<times> string) option"
  cu_images :: "(string \<times> string \<times> string) option"

record call_row =
  pc_id :: nat
  pc_stamp :: RuntimeUsageStamp
  pc_seq :: int
  pc_digest :: string
  pc_coverage_status :: string
  pc_coverage_digest :: string
  pc_call_id :: string
  pc_columns :: dict
  pc_started_at :: int
  pc_completed_at :: int
  pc_interval :: "int option"
  pc_assigned :: "string option"
  pc_assignment_status :: string
  pc_receipt_json :: string
  pc_collected_at :: int

record coverage_row =
  cv_digest :: string
  cv_family :: string
  cv_status :: string
  cv_manifest_json :: string
  cv_first :: int
  cv_last :: int

record conflict_row =
  cf_instance :: string
  cf_family :: string
  cf_call_id :: string
  cf_seq :: int
  cf_kind :: string
  cf_existing :: string
  cf_observed :: string
  cf_receipt_json :: string
  cf_detected_at :: int

record interval_row =
  iv_id :: int
  iv_agent :: string
  iv_mb :: string
  iv_from :: int
  iv_to :: "int option"

text \<open>
  \<open>db_tables\<close> are the names in \<open>information_schema.tables\<close>; \<open>db_locks\<close> are the named locks other
  connections hold.
\<close>

record usage_db =
  db_tables :: "string list"
  db_locks :: "string list"
  db_intervals :: "interval_row list"
  db_calls :: "call_row list"
  db_coverages :: "coverage_row list"
  db_cursors :: "cursor_row list"
  db_conflicts :: "conflict_row list"

section \<open>Helpers\<close>

definition sql_timestamp :: "string \<Rightarrow> int result" where
  "sql_timestamp s =
     (case fromisoformat (replace_char CHR ''Z'' ''+00:00'' s) of
        None \<Rightarrow> Inl (UsageContractError ''invalid receipt timestamp'')
      | Some (t, None) \<Rightarrow> Inl (UsageContractError ''receipt timestamp must include a timezone'')
      | Some (t, Some z) \<Rightarrow> to_utc t z)"

definition json_text :: "json \<Rightarrow> string result" where
  "json_text v = canonical_json_bytes v"

definition find_cursor :: "usage_db \<Rightarrow> string \<Rightarrow> cursor_row option" where
  "find_cursor db i = List.find (\<lambda>c. cu_instance c = i) (db_cursors db)"

definition update_cursor :: "string \<Rightarrow> (cursor_row \<Rightarrow> cursor_row) \<Rightarrow> usage_db \<Rightarrow> usage_db" where
  "update_cursor i f db = db\<lparr>db_cursors := map (\<lambda>c. if cu_instance c = i then f c else c) (db_cursors db)\<rparr>"

definition REQUIRED_TABLES :: "string list" where
  "REQUIRED_TABLES = [''provider_usage_call'', ''provider_usage_coverage_manifest'', ''usage_collection_cursor'',
     ''usage_collection_conflict'', ''slot_assignment_interval'']"

definition ensure_schema :: "usage_db \<Rightarrow> unit result" where
  "ensure_schema db =
     raise_if (set (filter (\<lambda>t. t \<in> set REQUIRED_TABLES) (db_tables db)) \<noteq> set REQUIRED_TABLES)
       (UsageContractError ''usage DB schema incomplete'')"

definition acquire_collection_lock :: "usage_db \<Rightarrow> string \<Rightarrow> unit result" where
  "acquire_collection_lock db instance_id =
     (let lock_name = ''jitech-usage:'' @ instance_id in
      bindE (encode_utf8 lock_name) (\<lambda>b.
      bindE (raise_if (64 < length b) (UsageContractError ''usage collection lock name exceeds MySQL limit'')) (\<lambda>_.
      raise_if (lock_name \<in> set (db_locks db)) (UsageCollectionBusy ''usage collection already running''))))"

definition read_cursor :: "usage_db \<Rightarrow> RuntimeUsageStamp \<Rightarrow> int result" where
  "read_cursor db stamp =
     (case find_cursor db (st_instance_id stamp) of
        None \<Rightarrow> Inr 0
      | Some c \<Rightarrow>
          bindE (raise_if (cu_family c \<noteq> st_family stamp) (UsageContractError ''usage cursor family mismatch'')) (\<lambda>_.
          bindE (raise_if (cu_status c = ''conflict'') (UsageLedgerConflict ''usage cursor is stopped on an unresolved conflict'')) (\<lambda>_.
          Inr (cu_last_seq c))))"

section \<open>Statements of a page\<close>

definition new_cursor :: "RuntimeUsageStamp \<Rightarrow> cursor_row" where
  "new_cursor stamp = \<lparr>cu_instance = st_instance_id stamp, cu_account = st_linux_account stamp,
     cu_host = st_public_host stamp, cu_family = st_family stamp, cu_class = st_runtime_class stamp,
     cu_binding = st_binding_digest stamp, cu_last_seq = 0, cu_status = ''never'', cu_high = None, cu_success_at = None,
     cu_attempt_at = None, cu_error_code = None, cu_error_detail = None, cu_coverage = None, cu_images = None\<rparr>"

definition ensure_cursor_locked :: "RuntimeUsageStamp \<Rightarrow> int \<Rightarrow> usage_db \<Rightarrow> usage_db result" where
  "ensure_cursor_locked stamp expected_after db =
     (let db' = (if find_cursor db (st_instance_id stamp) = None
                 then db\<lparr>db_cursors := db_cursors db @ [new_cursor stamp]\<rparr> else db) in
      case find_cursor db' (st_instance_id stamp) of
        None \<Rightarrow> Inl (UsageContractError ''usage cursor disappeared during collection'')
      | Some c \<Rightarrow>
          bindE (raise_if (cu_family c \<noteq> st_family stamp) (UsageContractError ''usage cursor product family changed'')) (\<lambda>_.
          bindE (raise_if (cu_last_seq c \<noteq> expected_after) (UsageContractError ''usage cursor raced'')) (\<lambda>_.
          Inr db')))"

text \<open>\<open>ORDER BY effective_from DESC LIMIT 2\<close>: only none, one or several rows matter.\<close>

definition assignment_for_call :: "usage_db \<Rightarrow> string \<Rightarrow> int \<Rightarrow> (int option \<times> string option \<times> string) result" where
  "assignment_for_call db account started =
     (case filter (\<lambda>v. iv_agent v = account \<and> iv_from v \<le> started \<and> (case iv_to v of None \<Rightarrow> True | Some t \<Rightarrow> started < t))
        (db_intervals db) of
        [] \<Rightarrow> Inr (None, None, ''unavailable'')
      | [v] \<Rightarrow> Inr (Some (iv_id v), Some (iv_mb v), ''matched'')
      | _ \<Rightarrow> Inl (UsageContractError ''overlapping assignment intervals''))"

definition record_conflict ::
  "RuntimeUsageStamp \<Rightarrow> dict \<Rightarrow> string \<Rightarrow> string \<Rightarrow> usage_db \<Rightarrow> usage_db result" where
  "record_conflict stamp receipt kind existing_digest db =
     bindE (json_text (JObj receipt)) (\<lambda>text.
     bindE (sql_timestamp (st_collected_at stamp)) (\<lambda>at.
     let row = \<lparr>cf_instance = st_instance_id stamp, cf_family = st_family stamp, cf_call_id = str_of receipt ''callId'',
           cf_seq = seq_of receipt, cf_kind = kind, cf_existing = existing_digest,
           cf_observed = str_of receipt ''receiptDigest'', cf_receipt_json = text, cf_detected_at = at\<rparr>
     in Inr (update_cursor (st_instance_id stamp)
          (\<lambda>c. c\<lparr>cu_status := ''conflict'', cu_attempt_at := Some at, cu_error_code := Some kind,
             cu_error_detail := Some (''call='' @ str_of receipt ''callId'' @ '' seq='' @ show_int (seq_of receipt))\<rparr>)
          (db\<lparr>db_conflicts := db_conflicts db @ [row]\<rparr>))))"

definition coverage_payload :: "ValidatedCoverage \<Rightarrow> json" where
  "coverage_payload c = JObj
     [(''schema'', JStr COVERAGE_SCHEMA), (''productFamily'', JStr (cov_family c)), (''manifestDigest'', JStr (cov_digest c)),
      (''coverageStatus'', JStr (cov_status c)), (''surfaces'', JList (map JObj (cov_surfaces c)))]"

definition stored_manifest_text :: "pyenv \<Rightarrow> string \<Rightarrow> string result" where
  "stored_manifest_text env raw =
     raise_from is_value_error (UsageContractError ''stored producer coverage manifest is invalid'')
       (bindE (json_loads env dict_hook raw) json_text)"

definition store_coverage_manifest :: "pyenv \<Rightarrow> RuntimeUsageStamp \<Rightarrow> ValidatedCoverage \<Rightarrow> usage_db \<Rightarrow> usage_db result" where
  "store_coverage_manifest env stamp coverage db =
     bindE (json_text (coverage_payload coverage)) (\<lambda>payload_text.
     case List.find (\<lambda>v. cv_digest v = cov_digest coverage) (db_coverages db) of
       None \<Rightarrow>
         bindE (sql_timestamp (st_collected_at stamp)) (\<lambda>at.
         Inr (db\<lparr>db_coverages := db_coverages db @ [\<lparr>cv_digest = cov_digest coverage, cv_family = cov_family coverage,
           cv_status = cov_status coverage, cv_manifest_json = payload_text, cv_first = at, cv_last = at\<rparr>]\<rparr>))
     | Some v \<Rightarrow>
         bindE (stored_manifest_text env (cv_manifest_json v)) (\<lambda>stored_text.
         bindE (raise_if (cv_family v \<noteq> cov_family coverage \<or> cv_status v \<noteq> cov_status coverage \<or> stored_text \<noteq> payload_text)
           (UsageContractError ''producer coverage digest is bound to different bytes'')) (\<lambda>_.
         bindE (sql_timestamp (st_collected_at stamp)) (\<lambda>at.
         Inr (db\<lparr>db_coverages := map (\<lambda>x. if cv_digest x = cov_digest coverage then x\<lparr>cv_last := at\<rparr> else x)
           (db_coverages db)\<rparr>)))))"

fun foldE :: "('a \<Rightarrow> 's \<Rightarrow> 's result) \<Rightarrow> 'a list \<Rightarrow> 's \<Rightarrow> 's result" where
  "foldE f [] s = Inr s"
| "foldE f (x # xs) s = bindE (f x s) (foldE f xs)"

text \<open>The columns \<open>_insert_receipt\<close> copies from the receipt.\<close>

definition RECEIPT_COLUMNS :: "(string \<times> string) list" where
  "RECEIPT_COLUMNS = [(''run_id'', ''runId''), (''turn_id'', ''turnId''), (''request_id'', ''requestId''),
     (''session_id'', ''sessionId''), (''trigger_kind'', ''trigger''), (''attempt'', ''attempt''), (''retry_of'', ''retryOf''),
     (''fallback_parent'', ''fallbackParent''), (''fallback_index'', ''fallbackIndex''), (''call_status'', ''status''),
     (''usage_coverage'', ''usageCoverage''), (''receipt_coverage'', ''receiptCoverage''),
     (''finish_reason'', ''finishReason''), (''error_category'', ''errorCategory'')]"

definition NESTED_COLUMNS :: "(string \<times> string \<times> string) list" where
  "NESTED_COLUMNS = [(''configured_provider'', ''configured'', ''provider''), (''configured_model'', ''configured'', ''model''),
     (''requested_provider'', ''requested'', ''provider''), (''requested_model'', ''requested'', ''model''),
     (''actual_provider'', ''actual'', ''provider''), (''actual_model'', ''actual'', ''model''),
     (''response_id'', ''actual'', ''responseId''), (''evidence_source'', ''actual'', ''evidenceSource''),
     (''input_total'', ''usage'', ''inputTotal''), (''input_non_cached'', ''usage'', ''inputNonCached''),
     (''cache_read'', ''usage'', ''cacheRead''), (''cache_write'', ''usage'', ''cacheWrite''),
     (''output_candidates'', ''usage'', ''outputCandidates''), (''reasoning_thinking'', ''usage'', ''reasoningThinking''),
     (''tool_use_prompt'', ''usage'', ''toolUsePrompt''), (''provider_reported_total'', ''usage'', ''providerReportedTotal''),
     (''service_tier'', ''usage'', ''serviceTier'')]"

definition sub_dict :: "dict \<Rightarrow> string \<Rightarrow> dict" where
  "sub_dict r k = (case jget_opt r k of JObj d \<Rightarrow> d | _ \<Rightarrow> [])"

definition receipt_columns :: "dict \<Rightarrow> dict" where
  "receipt_columns r =
     map (\<lambda>(c, k). (c, jget_opt r k)) RECEIPT_COLUMNS @ map (\<lambda>(c, k, f). (c, jget_opt (sub_dict r k) f)) NESTED_COLUMNS"

text \<open>\<open>isinstance(exc, UsageLedgerConflict)\<close>\<close>

fun is_usage_conflict :: "exn \<Rightarrow> bool" where
  "is_usage_conflict (UsageLedgerConflict _) = True"
| "is_usage_conflict _ = False"

datatype insertion = Inserted | Idempotent | Conflicted exn

definition find_call :: "usage_db \<Rightarrow> string \<Rightarrow> string \<Rightarrow> call_row option" where
  "find_call db i cid = List.find (\<lambda>c. st_instance_id (pc_stamp c) = i \<and> pc_call_id c = cid) (db_calls db)"

definition find_call_seq :: "usage_db \<Rightarrow> string \<Rightarrow> string \<Rightarrow> int \<Rightarrow> call_row option" where
  "find_call_seq db i fam n =
     List.find (\<lambda>c. st_instance_id (pc_stamp c) = i \<and> st_family (pc_stamp c) = fam \<and> pc_seq c = n) (db_calls db)"

text \<open>Auto-increment: one more than every key in use.\<close>

definition next_call_id :: "usage_db \<Rightarrow> nat" where
  "next_call_id db = Suc (foldr max (map pc_id (db_calls db)) 0)"

definition new_call ::
  "RuntimeUsageStamp \<Rightarrow> ValidatedCoverage \<Rightarrow> dict \<Rightarrow> usage_db \<Rightarrow> call_row result" where
  "new_call stamp coverage receipt db =
     bindE (sql_timestamp (str_of receipt ''startedAt'')) (\<lambda>started.
     bindE (sql_timestamp (str_of receipt ''completedAt'')) (\<lambda>completed.
     bindE (assignment_for_call db (st_linux_account stamp) started) (\<lambda>(interval_id, mb_id, assignment).
     bindE (json_text (JObj receipt)) (\<lambda>text.
     bindE (sql_timestamp (st_collected_at stamp)) (\<lambda>at.
     Inr \<lparr>pc_id = next_call_id db, pc_stamp = stamp, pc_seq = seq_of receipt, pc_digest = str_of receipt ''receiptDigest'',
       pc_coverage_status = cov_status coverage, pc_coverage_digest = cov_digest coverage,
       pc_call_id = str_of receipt ''callId'', pc_columns = receipt_columns receipt, pc_started_at = started,
       pc_completed_at = completed, pc_interval = interval_id, pc_assigned = mb_id, pc_assignment_status = assignment,
       pc_receipt_json = text, pc_collected_at = at\<rparr>)))))"

definition insert_receipt_row ::
  "RuntimeUsageStamp \<Rightarrow> ValidatedCoverage \<Rightarrow> dict \<Rightarrow> usage_db \<Rightarrow> (insertion \<times> usage_db) result" where
  "insert_receipt_row stamp coverage receipt db =
     (case find_call db (st_instance_id stamp) (str_of receipt ''callId'') of
        Some existing \<Rightarrow>
          (if pc_digest existing = str_of receipt ''receiptDigest'' \<and> pc_seq existing = seq_of receipt
           then Inr (Idempotent, db)
           else bindE (record_conflict stamp receipt
                  (if pc_digest existing = str_of receipt ''receiptDigest'' then ''call_id_sequence_mismatch''
                   else ''call_id_digest_mismatch'') (pc_digest existing) db) (\<lambda>db'.
                Inr (Conflicted (UsageLedgerConflict ''same callId has different digest''), db')))
      | None \<Rightarrow>
          (case find_call_seq db (st_instance_id stamp) (st_family stamp) (seq_of receipt) of
             Some existing \<Rightarrow>
               bindE (record_conflict stamp receipt ''ledger_sequence_reused'' (pc_digest existing) db) (\<lambda>db'.
               Inr (Conflicted (UsageLedgerConflict ''product ledger sequence reused''), db'))
           | None \<Rightarrow>
               bindE (new_call stamp coverage receipt db) (\<lambda>row.
               Inr (Inserted, db\<lparr>db_calls := db_calls db @ [row]\<rparr>))))"

text \<open>The loop over the receipts of a page, stopped by a conflict: counts of inserted and known receipts.\<close>

fun insert_receipts ::
  "RuntimeUsageStamp \<Rightarrow> ValidatedCoverage list \<Rightarrow> dict list \<Rightarrow> nat \<Rightarrow> nat \<Rightarrow> usage_db
     \<Rightarrow> ((nat \<times> nat \<times> exn option) \<times> usage_db) result" where
  "insert_receipts stamp covs [] i j db = Inr ((i, j, None), db)"
| "insert_receipts stamp covs (r # rs) i j db =
     (case List.find (\<lambda>c. cov_digest c = str_of r ''producerCoverageDigest'') (rev covs) of
        None \<Rightarrow> Inl (KeyError (str_of r ''producerCoverageDigest''))
      | Some c \<Rightarrow>
          bindE (insert_receipt_row stamp c r db) (\<lambda>(outcome, db'). case outcome of
            Conflicted e \<Rightarrow> Inr ((i, j, Some e), db')
          | Inserted \<Rightarrow> insert_receipts stamp covs rs (Suc i) j db'
          | Idempotent \<Rightarrow> insert_receipts stamp covs rs i (Suc j) db'))"

definition advance_cursor ::
  "RuntimeUsageStamp \<Rightarrow> ValidatedCoverage \<Rightarrow> ValidatedExport \<Rightarrow> usage_db \<Rightarrow> usage_db result" where
  "advance_cursor stamp coverage page db =
     bindE (sql_timestamp (st_collected_at stamp)) (\<lambda>at.
     bindE (json_text (coverage_payload coverage)) (\<lambda>manifest.
     Inr (update_cursor (st_instance_id stamp)
       (\<lambda>c. c\<lparr>cu_account := st_linux_account stamp, cu_host := st_public_host stamp, cu_class := st_runtime_class stamp,
          cu_binding := st_binding_digest stamp, cu_last_seq := ex_next_cursor page, cu_high := Some (ex_high_watermark page),
          cu_success_at := Some at, cu_attempt_at := Some at, cu_status := ''ok'', cu_error_code := None,
          cu_error_detail := None, cu_coverage := Some (cov_status coverage, cov_digest coverage, manifest),
          cu_images := Some (st_wrapper_image stamp, st_product_image stamp, st_container_id stamp)\<rparr>) db)))"

definition page_body ::
  "pyenv \<Rightarrow> RuntimeUsageStamp \<Rightarrow> ValidatedCoverage \<Rightarrow> ValidatedExport \<Rightarrow> usage_db
     \<Rightarrow> ((nat \<times> nat \<times> exn option) \<times> usage_db) result" where
  "page_body env stamp coverage page db =
     bindE (ensure_cursor_locked stamp (ex_after page) db) (\<lambda>db1.
     bindE (store_coverage_manifest env stamp coverage db1) (\<lambda>db2.
     bindE (foldE (store_coverage_manifest env stamp) (ex_coverage page) db2) (\<lambda>db3.
     bindE (insert_receipts stamp (ex_coverage page) (ex_receipts page) 0 0 db3) (\<lambda>((i, j, pending), db4).
     case pending of
       Some e \<Rightarrow> Inr ((i, j, pending), db4)
     | None \<Rightarrow> bindE (advance_cursor stamp coverage page db4) (\<lambda>db5. Inr ((i, j, None), db5))))))"

text \<open>Inserted, known and the next cursor. An exception rolls back; a conflict is committed and then raised.\<close>

definition store_export_page ::
  "pyenv \<Rightarrow> RuntimeUsageStamp \<Rightarrow> ValidatedCoverage \<Rightarrow> ValidatedExport \<Rightarrow> usage_db
     \<Rightarrow> (nat \<times> nat \<times> int) result \<times> usage_db" where
  "store_export_page env stamp coverage page db =
     (case page_body env stamp coverage page db of
        Inl e \<Rightarrow> (Inl e, db)
      | Inr ((i, j, Some e), db') \<Rightarrow> (Inl e, db')
      | Inr ((i, j, None), db') \<Rightarrow> (Inr (i, j, ex_next_cursor page), db'))"

section \<open>Failures and status\<close>

definition failed_cursor :: "RuntimeUsageStamp \<Rightarrow> int \<Rightarrow> string \<Rightarrow> string \<Rightarrow> cursor_row \<Rightarrow> cursor_row" where
  "failed_cursor stamp at code detail c =
     c\<lparr>cu_account := st_linux_account stamp, cu_host := st_public_host stamp, cu_class := st_runtime_class stamp,
       cu_binding := st_binding_digest stamp, cu_status := ''failed'', cu_attempt_at := Some at,
       cu_error_code := Some code, cu_error_detail := Some (redact_error detail 512),
       cu_images := Some (st_wrapper_image stamp, st_product_image stamp, st_container_id stamp)\<rparr>"

definition record_collection_failure ::
  "RuntimeUsageStamp \<Rightarrow> string \<Rightarrow> string \<Rightarrow> usage_db \<Rightarrow> unit result \<times> usage_db" where
  "record_collection_failure stamp code detail db =
     (case sql_timestamp (st_collected_at stamp) of
        Inl e \<Rightarrow> (Inl e, db)
      | Inr at \<Rightarrow>
          (Inr (),
           if find_cursor db (st_instance_id stamp) = None
           then db\<lparr>db_cursors := db_cursors db @ [failed_cursor stamp at code detail (new_cursor stamp)]\<rparr>
           else update_cursor (st_instance_id stamp) (failed_cursor stamp at code detail) db))"

definition list_collection_status :: "usage_db \<Rightarrow> string option \<Rightarrow> cursor_row list" where
  "list_collection_status db account =
     sort_key cu_account (filter (\<lambda>c. case account of None \<Rightarrow> True | Some a \<Rightarrow> a = [] \<or> cu_account c = a) (db_cursors db))"

end
