(* ===== verification/Usage_Collect.thy ===== *)
theory Usage_Collect
  imports Usage_Store
begin

text \<open>
  The collection command (\<open>commands/usage.py\<close>): the page loop of one runtime, its error handling, and the
  run over several runtimes. What the host answers (\<open>docker\<close>, the bindings file, the live truth, the
  clock) is the record \<open>host\<close>, indexed by the page and by the place in the loop that asks: 0 before
  the export, 1 after it, 2 the stamp of the page.
\<close>

record proc =
  returncode :: int
  stdout :: string
  stderr :: string

record host =
  get_runtime_binding :: "nat \<Rightarrow> nat \<Rightarrow> RuntimeBinding result"
  find_gateway_container :: "nat \<Rightarrow> nat \<Rightarrow> RuntimeBinding \<Rightarrow> string option"
  live_runtime_truth :: "nat \<Rightarrow> nat \<Rightarrow> RuntimeBinding \<Rightarrow> (truth \<times> (bool \<times> string) list) result"
  run_text :: "nat \<Rightarrow> string list \<Rightarrow> proc result"
  now_rfc3339 :: "nat \<Rightarrow> nat \<Rightarrow> string"
  exc_text :: "exn \<Rightarrow> string"

definition failure_stamp :: "RuntimeBinding \<Rightarrow> string \<Rightarrow> RuntimeUsageStamp result" where
  "failure_stamp b now =
     bindE (runtime_binding_digest b) (\<lambda>digest.
     Inr \<lparr>st_instance_id = rb_instance_id b, st_linux_account = rb_linux_account b, st_public_host = rb_public_host b,
       st_family = rb_family b, st_runtime_class = rb_runtime_class b, st_binding_digest = digest, st_container_id = [],
       st_wrapper_image = [], st_product_image = [], st_ops_repo_commit = [], st_collected_at = now\<rparr>)"

definition live_stamp :: "host \<Rightarrow> nat \<Rightarrow> nat \<Rightarrow> RuntimeBinding \<Rightarrow> RuntimeUsageStamp result" where
  "live_stamp h p k b =
     (case find_gateway_container h p k b of
        None \<Rightarrow> Inl (UsageContractError ''gateway container not found'')
      | Some container \<Rightarrow>
          bindE (raise_if (container = []) (UsageContractError ''gateway container not found'')) (\<lambda>_.
          bindE (live_runtime_truth h p k b) (\<lambda>(t, checks).
          bindE (raise_if (\<not> list_all fst checks) (UsageContractError ''live runtime truth checks failed'')) (\<lambda>_.
          build_runtime_stamp b container t (now_rfc3339 h p k)))))"

definition run_product :: "host \<Rightarrow> nat \<Rightarrow> string \<Rightarrow> string list \<Rightarrow> exn \<Rightarrow> string result" where
  "run_product h p container argv e =
     bindE (run_text h p ([''docker'', ''exec'', container] @ argv)) (\<lambda>r.
     bindE (raise_if (returncode r \<noteq> 0) e) (\<lambda>_. Inr (stdout r)))"

text \<open>One page from the cursor to the checks after the export.\<close>

definition fetch_page ::
  "pyenv \<Rightarrow> host \<Rightarrow> RuntimeBinding \<Rightarrow> int \<Rightarrow> nat \<Rightarrow> RuntimeBinding \<Rightarrow> RuntimeUsageStamp \<Rightarrow> usage_db
     \<Rightarrow> (ValidatedCoverage \<times> ValidatedExport) result" where
  "fetch_page env h binding limit p before stamp db =
     bindE (read_cursor db stamp) (\<lambda>cursor.
     bindE (coverage_command (rb_family binding)) (\<lambda>coverage_argv.
     bindE (run_product h p (st_container_id stamp) coverage_argv (UsageContractError ''product_coverage_failed'')) (\<lambda>coverage_out.
     bindE (parse_coverage_stdout env coverage_out (rb_family binding)) (\<lambda>coverage.
     bindE (export_command (rb_family binding) cursor limit) (\<lambda>argv.
     bindE (run_product h p (st_container_id stamp) argv (UsageContractError ''product_export_failed'')) (\<lambda>out.
     bindE (parse_export_stdout env out cursor (rb_family binding)) (\<lambda>page.
     bindE (get_runtime_binding h p 1) (\<lambda>after.
     bindE (ensure_binding_unchanged before after) (\<lambda>_.
     bindE (live_stamp h p 1 after) (\<lambda>after_stamp.
     bindE (raise_if (st_container_id after_stamp \<noteq> st_container_id stamp)
       (UsageContractError ''gateway container changed during usage export'')) (\<lambda>_.
     bindE (raise_if (st_wrapper_image after_stamp \<noteq> st_wrapper_image stamp
                      \<or> st_product_image after_stamp \<noteq> st_product_image stamp)
       (UsageContractError ''runtime image changed during usage export'')) (\<lambda>_.
     Inr (coverage, page)))))))))))))"

text \<open>The body of the loop: the outcome, the stamp a failure would be recorded with, and the database.\<close>

definition collect_page ::
  "pyenv \<Rightarrow> host \<Rightarrow> RuntimeBinding \<Rightarrow> int \<Rightarrow> nat \<Rightarrow> RuntimeUsageStamp \<Rightarrow> usage_db
     \<Rightarrow> (nat \<times> nat \<times> ValidatedCoverage \<times> ValidatedExport) result \<times> RuntimeUsageStamp \<times> usage_db" where
  "collect_page env h binding limit p stamp0 db =
     (case bindE (get_runtime_binding h p 0) (\<lambda>b. bindE (live_stamp h p 0 b) (\<lambda>s. Inr (b, s))) of
        Inl e \<Rightarrow> (Inl e, stamp0, db)
      | Inr (before, stamp) \<Rightarrow>
          (case fetch_page env h binding limit p before stamp db of
             Inl e \<Rightarrow> (Inl e, stamp, db)
           | Inr (coverage, page) \<Rightarrow>
               (let stamp' = stamp\<lparr>st_collected_at := now_rfc3339 h p 2\<rparr> in
                case store_export_page env stamp' coverage page db of
                  (Inl e, db') \<Rightarrow> (Inl e, stamp', db')
                | (Inr (i, j, _), db') \<Rightarrow> (Inr (i, j, coverage, page), stamp', db'))))"

record collection =
  co_pages :: nat
  co_inserted :: nat
  co_idempotent :: nat
  co_stamp :: RuntimeUsageStamp

text \<open>\<open>while pages < max_pages\<close>, with the number of pages left: the last page, or the exception.\<close>

fun collect_loop ::
  "pyenv \<Rightarrow> host \<Rightarrow> RuntimeBinding \<Rightarrow> int \<Rightarrow> nat \<Rightarrow> collection \<Rightarrow> usage_db
     \<Rightarrow> (ValidatedCoverage \<times> ValidatedExport) result \<times> collection \<times> usage_db" where
  "collect_loop env h binding limit 0 c db = (Inl (UsageContractError ''collection page limit reached''), c, db)"
| "collect_loop env h binding limit (Suc n) c db =
     (case collect_page env h binding limit (co_pages c) (co_stamp c) db of
        (Inl e, stamp, db') \<Rightarrow> (Inl e, c\<lparr>co_stamp := stamp\<rparr>, db')
      | (Inr (i, j, coverage, page), stamp, db') \<Rightarrow>
          (let c' = \<lparr>co_pages = Suc (co_pages c), co_inserted = co_inserted c + i,
                 co_idempotent = co_idempotent c + j, co_stamp = stamp\<rparr> in
           if \<not> ex_has_more page then (Inr (coverage, page), c', db')
           else collect_loop env h binding limit n c' db'))"

record report =
  rp_target :: string
  rp_instance_id :: string
  rp_family :: string
  rp_status :: string
  rp_pages :: nat
  rp_inserted :: nat
  rp_idempotent :: nat
  rp_cursor :: "(int \<times> int) option"
  rp_coverage :: "(string \<times> string) option"
  rp_reason :: "string option"

definition failure_report :: "host \<Rightarrow> RuntimeBinding \<Rightarrow> string \<Rightarrow> collection \<Rightarrow> exn \<Rightarrow> report" where
  "failure_report h b status c e = \<lparr>rp_target = rb_linux_account b, rp_instance_id = rb_instance_id b,
     rp_family = rb_family b, rp_status = status, rp_pages = co_pages c, rp_inserted = co_inserted c,
     rp_idempotent = co_idempotent c, rp_cursor = None, rp_coverage = None, rp_reason = Some (redact_error (exc_text h e) 512)\<rparr>"

definition ok_report :: "RuntimeBinding \<Rightarrow> collection \<Rightarrow> ValidatedCoverage \<Rightarrow> ValidatedExport \<Rightarrow> report" where
  "ok_report b c coverage page = \<lparr>rp_target = rb_linux_account b, rp_instance_id = rb_instance_id b,
     rp_family = rb_family b, rp_status = ''ok'', rp_pages = co_pages c, rp_inserted = co_inserted c,
     rp_idempotent = co_idempotent c, rp_cursor = Some (ex_next_cursor page, ex_high_watermark page),
     rp_coverage = Some (cov_status coverage, cov_digest coverage), rp_reason = None\<rparr>"

fun is_busy :: "exn \<Rightarrow> bool" where
  "is_busy (UsageCollectionBusy _) = True"
| "is_busy _ = False"

text \<open>The two \<open>except\<close> clauses; \<open>_record_failure_safely\<close> drops an exception of the recording itself.\<close>

definition handle_failure :: "host \<Rightarrow> RuntimeBinding \<Rightarrow> collection \<Rightarrow> exn \<Rightarrow> usage_db \<Rightarrow> report \<times> usage_db" where
  "handle_failure h b c e db =
     (if is_busy e then (failure_report h b ''busy'' c e, db)
      else (failure_report h b ''failed'' c e,
            if is_usage_conflict e then db else snd (record_collection_failure (co_stamp c) (exn_name e) (exc_text h e) db)))"

definition collect_target ::
  "pyenv \<Rightarrow> host \<Rightarrow> RuntimeBinding \<Rightarrow> int \<Rightarrow> int \<Rightarrow> usage_db \<Rightarrow> report result \<times> usage_db" where
  "collect_target env h binding limit max_pages db =
     (case failure_stamp binding (now_rfc3339 h 0 0) of
        Inl e \<Rightarrow> (Inl e, db)
      | Inr stamp \<Rightarrow>
          (let c0 = \<lparr>co_pages = 0, co_inserted = 0, co_idempotent = 0, co_stamp = stamp\<rparr> in
           case bindE (ensure_schema db) (\<lambda>_. acquire_collection_lock db (rb_instance_id binding)) of
             Inl e \<Rightarrow> (let (r, db') = handle_failure h binding c0 e db in (Inr r, db'))
           | Inr _ \<Rightarrow>
               (case collect_loop env h binding limit (nat max_pages) c0 db of
                  (Inl e, c, db') \<Rightarrow> (let (r, db'') = handle_failure h binding c e db' in (Inr r, db''))
                | (Inr (coverage, page), c, db') \<Rightarrow> (Inr (ok_report binding c coverage page), db'))))"

section \<open>The run over several runtimes\<close>

fun collect_all ::
  "pyenv \<Rightarrow> (RuntimeBinding \<Rightarrow> host) \<Rightarrow> int \<Rightarrow> int \<Rightarrow> RuntimeBinding list \<Rightarrow> usage_db \<Rightarrow> report list result \<times> usage_db" where
  "collect_all env h limit max_pages [] db = (Inr [], db)"
| "collect_all env h limit max_pages (b # bs) db =
     (case collect_target env (h b) b limit max_pages db of
        (Inl e, db') \<Rightarrow> (Inl e, db')
      | (Inr r, db') \<Rightarrow>
          (case collect_all env h limit max_pages bs db' of
             (Inl e, db'') \<Rightarrow> (Inl e, db'')
           | (Inr rs, db'') \<Rightarrow> (Inr (r # rs), db'')))"

definition run_status :: "report list \<Rightarrow> string \<times> int" where
  "run_status rs =
     (let statuses = set (map rp_status rs);
          status = (if statuses \<subseteq> {''ok''} then ''ok'' else if statuses \<subseteq> {''ok'', ''busy''} then ''busy'' else ''failed'')
      in (status, if status \<in> {''ok'', ''busy''} then 0 else 1))"

end
