(* ===== verification/Usage_Properties.thy ===== *)
theory Usage_Properties
  imports Usage_Collect
begin

text \<open>
  What the usage ledger guarantees: validated pages advance the cursor, the database keeps one row per
  call and per sequence number and never changes a row, and the collection loop stores a product's
  ledger completely.
\<close>

section \<open>Validated pages\<close>

lemma sorted_unique_iff: "xs = sorted_unique xs \<longleftrightarrow> sorted_wrt (<) xs"
proof
  assume "xs = sorted_unique xs"
  then have "sorted xs" "distinct xs"
    by (metis sorted_unique_def sorted_sort, metis sorted_unique_def distinct_remdups distinct_sort)
  then show "sorted_wrt (<) xs" by (simp add: strict_sorted_iff)
next
  assume "sorted_wrt (<) xs"
  then have "sorted xs" "distinct xs" by (simp_all add: strict_sorted_iff)
  then show "xs = sorted_unique xs" by (simp add: sorted_unique_def sorted_sort_id distinct_remdups_id)
qed

definition page_ok :: "ValidatedExport \<Rightarrow> bool" where
  "page_ok p \<longleftrightarrow>
     (let seqs = map seq_of (ex_receipts p) in
      0 \<le> ex_after p \<and> sorted_wrt (<) seqs \<and> (\<forall>n\<in>set seqs. ex_after p < n \<and> n \<le> ex_high_watermark p)
      \<and> ex_after p \<le> ex_high_watermark p
      \<and> ex_next_cursor p = (if seqs = [] then ex_after p else last seqs)
      \<and> ex_has_more p = (ex_next_cursor p < ex_high_watermark p)
      \<and> (ex_has_more p \<longrightarrow> ex_after p < ex_next_cursor p))"

lemma sorted_wrt_bounds:
  assumes "sorted_wrt (<) xs" and "x \<in> set xs"
  shows "hd xs \<le> (x :: 'a :: linorder) \<and> x \<le> last xs"
proof -
  have "sorted xs" using assms(1) by (simp add: strict_sorted_iff)
  then show ?thesis using assms(2)
    by (induction xs) (auto simp: last_ConsR intro: order_trans)
qed

lemma check_cursor_ok:
  assumes "check_cursor after nc hw hm seqs = Inr ()" and "0 \<le> after" and "after \<le> hw"
  shows "sorted_wrt (<) seqs \<and> (\<forall>n\<in>set seqs. after < n \<and> n \<le> hw) \<and> nc = (if seqs = [] then after else last seqs)
    \<and> (nc < hw \<longrightarrow> after < nc)"
proof -
  have c0: "seqs = sorted_unique seqs" "seqs \<noteq> [] \<longrightarrow> after < hd seqs \<and> last seqs \<le> hw"
      "nc = (if seqs = [] then after else last seqs)" "nc < hw \<longrightarrow> seqs \<noteq> []"
    using assms(1) unfolding check_cursor_def result_simps by (metis not_le, metis not_le, metis, metis)
  note c = c0(1) [unfolded sorted_unique_iff] c0(2-4)
  have "\<forall>n\<in>set seqs. after < n \<and> n \<le> hw"
  proof
    fix n assume n: "n \<in> set seqs"
    then have "after < hd seqs" "last seqs \<le> hw" using c(2) by auto
    then show "after < n \<and> n \<le> hw" using sorted_wrt_bounds [OF c(1) n] by auto
  qed
  moreover have "nc < hw \<longrightarrow> after < nc"
  proof
    assume "nc < hw"
    then have "seqs \<noteq> []" using c(4) by simp
    then show "after < nc" using c(3) calculation by simp
  qed
  ultimately show ?thesis using c by blast
qed

lemma mapE_Inr_in: "mapE f xs = Inr ys \<Longrightarrow> y \<in> set ys \<Longrightarrow> \<exists>x\<in>set xs. f x = Inr y"
  by (induction xs arbitrary: ys) (auto simp: result_simps)

lemma integer_Inr: "integer v path m = Inr n \<longleftrightarrow> v = JInt n \<and> m \<le> n"
  by (auto simp: integer_def split: json.splits)

lemma validate_export_Inr:
  assumes "validate_export v a fam = Inr p"
  shows "page_ok p \<and> ex_after p = a
    \<and> (\<forall>r\<in>set (ex_receipts p). \<exists>x. validate_call_receipt x = Inr r)
    \<and> (\<forall>c\<in>set (ex_coverage p). cov_family c = fam)
    \<and> set (map cov_digest (ex_coverage p)) = (\<lambda>r. str_of r ''producerCoverageDigest'') ` set (ex_receipts p)"
proof -
  from assms obtain nc hw hm rs ms raw raw2 where
      p: "p = \<lparr>ex_after = a, ex_next_cursor = nc, ex_high_watermark = hw, ex_has_more = (nc < hw), ex_receipts = rs, ex_coverage = ms\<rparr>"
    and c: "check_cursor a nc hw hm (map seq_of rs) = Inr ()" and a: "0 \<le> a" "a \<le> hw"
    and r: "mapE validate_call_receipt raw = Inr rs" and m: "mapE (\<lambda>m. validate_coverage m fam) raw2 = Inr ms"
    and d: "map cov_digest ms = sorted_unique (map (\<lambda>r. str_of r ''producerCoverageDigest'') rs)"
    by (auto simp: validate_export_def result_simps integer_Inr not_less)
  have "page_ok p" using check_cursor_ok [OF c a] a by (cases "rs = []") (auto simp: p page_ok_def Let_def)
  moreover have "\<forall>r\<in>set rs. \<exists>x. validate_call_receipt x = Inr r"
    using mapE_Inr_in [OF r] by blast
  moreover have "\<forall>c\<in>set ms. cov_family c = fam"
  proof
    fix c assume "c \<in> set ms"
    from mapE_Inr_in [OF m this] obtain x where "validate_coverage x fam = Inr c" by blast
    then show "cov_family c = fam" by (auto simp: validate_coverage_def result_simps)
  qed
  moreover have "set (map cov_digest ms) = (\<lambda>r. str_of r ''producerCoverageDigest'') ` set rs"
    unfolding d by (simp add: sorted_unique_def)
  ultimately show ?thesis by (simp add: p)
qed

section \<open>Rows are unique and never change\<close>

abbreviation call_key :: "call_row \<Rightarrow> string \<times> string" where
  "call_key c \<equiv> (st_instance_id (pc_stamp c), pc_call_id c)"

abbreviation seq_key :: "call_row \<Rightarrow> string \<times> string \<times> int" where
  "seq_key c \<equiv> (st_instance_id (pc_stamp c), st_family (pc_stamp c), pc_seq c)"

definition usage_inv :: "usage_db \<Rightarrow> bool" where
  "usage_inv db \<longleftrightarrow> distinct (map pc_id (db_calls db)) \<and> distinct (map call_key (db_calls db))
     \<and> distinct (map seq_key (db_calls db)) \<and> distinct (map cu_instance (db_cursors db))
     \<and> distinct (map cv_digest (db_coverages db))"

text \<open>What no operation of the store undoes.\<close>

definition ledger_grows :: "usage_db \<Rightarrow> usage_db \<Rightarrow> bool" where
  "ledger_grows db db' \<longleftrightarrow> (\<exists>rows. db_calls db' = db_calls db @ rows)
     \<and> (\<exists>rows. db_conflicts db' = db_conflicts db @ rows)
     \<and> (\<forall>v\<in>set (db_coverages db). \<exists>at. v\<lparr>cv_last := at\<rparr> \<in> set (db_coverages db'))
     \<and> (\<forall>c\<in>set (db_cursors db). \<exists>c'\<in>set (db_cursors db'). cu_instance c' = cu_instance c \<and> cu_family c' = cu_family c)"

lemma same_coverage: "(v :: coverage_row) \<in> A \<Longrightarrow> \<exists>at. v\<lparr>cv_last := at\<rparr> \<in> A"
  by (rule exI [of _ "cv_last v"]) simp

lemma same_coverage': "(v :: coverage_row) \<in> A \<Longrightarrow> \<exists>at. v\<lparr>cv_last := at\<rparr> = w \<or> v\<lparr>cv_last := at\<rparr> \<in> A"
  by (rule exI [of _ "cv_last v"]) simp

lemma ledger_grows_refl [simp]: "ledger_grows db db"
  by (auto simp: ledger_grows_def intro: same_coverage)

lemma ledger_grows_trans: "ledger_grows a b \<Longrightarrow> ledger_grows b c \<Longrightarrow> ledger_grows a c"
proof -
  assume ab: "ledger_grows a b" and bc: "ledger_grows b c"
  have "\<exists>at. v\<lparr>cv_last := at\<rparr> \<in> set (db_coverages c)" if v: "v \<in> set (db_coverages a)" for v
  proof -
    from ab v obtain at where "v\<lparr>cv_last := at\<rparr> \<in> set (db_coverages b)" by (auto simp: ledger_grows_def)
    with bc obtain at' where "v\<lparr>cv_last := at\<rparr>\<lparr>cv_last := at'\<rparr> \<in> set (db_coverages c)" by (auto simp: ledger_grows_def)
    then show ?thesis by auto
  qed
  with ab bc show ?thesis unfolding ledger_grows_def by (metis append_assoc)
qed

lemma find_cursor_None: "find_cursor db i = None \<longleftrightarrow> i \<notin> cu_instance ` set (db_cursors db)"
  by (auto simp: find_cursor_def find_None_iff')

lemma find_cursor_Some: "find_cursor db i = Some c \<Longrightarrow> c \<in> set (db_cursors db) \<and> cu_instance c = i"
  by (auto simp: find_cursor_def dest: find_SomeD)

lemma update_cursor_simps [simp]:
  "db_calls (update_cursor i f db) = db_calls db" "db_conflicts (update_cursor i f db) = db_conflicts db"
  "db_coverages (update_cursor i f db) = db_coverages db" "db_intervals (update_cursor i f db) = db_intervals db"
  by (simp_all add: update_cursor_def)

lemma find_map:
  "(\<And>x. P (f x) = P x) \<Longrightarrow> List.find P (map f xs) = map_option f (List.find P xs)"
  by (induction xs) auto

lemma find_update_cursor:
  assumes "\<And>c. cu_instance (f c) = cu_instance c"
  shows "find_cursor (update_cursor i f db) j
    = map_option (\<lambda>c. if j = i then f c else c) (find_cursor db j)"
proof -
  have "find_cursor (update_cursor i f db) j
      = map_option (\<lambda>c. if cu_instance c = i then f c else c) (find_cursor db j)"
    unfolding find_cursor_def update_cursor_def using assms by (subst find_map [symmetric]) auto
  then show ?thesis using find_cursor_Some by (cases "find_cursor db j") fastforce+
qed

lemma update_cursor_inv:
  assumes "\<And>c. cu_instance (f c) = cu_instance c" and "\<And>c. cu_family (f c) = cu_family c"
  shows "usage_inv db \<Longrightarrow> usage_inv (update_cursor i f db)" and "ledger_grows db (update_cursor i f db)"
proof -
  have "map cu_instance (db_cursors (update_cursor i f db)) = map cu_instance (db_cursors db)"
    using assms(1) by (auto simp: update_cursor_def)
  then show "usage_inv db \<Longrightarrow> usage_inv (update_cursor i f db)" by (simp add: usage_inv_def)
  have "\<exists>c'\<in>set (db_cursors (update_cursor i f db)). cu_instance c' = cu_instance c \<and> cu_family c' = cu_family c"
    if "c \<in> set (db_cursors db)" for c
  proof (rule bexI)
    let ?g = "\<lambda>c. if cu_instance c = i then f c else c"
    show "cu_instance (?g c) = cu_instance c \<and> cu_family (?g c) = cu_family c" using assms by simp
    show "?g c \<in> set (db_cursors (update_cursor i f db))" using that unfolding update_cursor_def by simp
  qed
  then show "ledger_grows db (update_cursor i f db)"
    by (auto simp: ledger_grows_def intro: same_coverage)
qed

text \<open>\<open>keeps f\<close>: a statement that keeps the invariant and only grows the ledger.\<close>

definition keeps_ledger :: "usage_db \<Rightarrow> usage_db \<Rightarrow> bool" where
  "keeps_ledger db db' \<longleftrightarrow> (usage_inv db \<longrightarrow> usage_inv db') \<and> ledger_grows db db'"

lemma keeps_refl [simp]: "keeps_ledger db db"
  by (simp add: keeps_ledger_def)

lemma keeps_trans: "keeps_ledger a b \<Longrightarrow> keeps_ledger b c \<Longrightarrow> keeps_ledger a c"
  by (auto simp: keeps_ledger_def intro: ledger_grows_trans)

lemma keeps_append_cursor:
  "find_cursor db (cu_instance c) = None \<Longrightarrow> keeps_ledger db (db\<lparr>db_cursors := db_cursors db @ [c]\<rparr>)"
  using ledger_grows_refl [of db] by (auto simp: keeps_ledger_def usage_inv_def ledger_grows_def find_cursor_None intro: same_coverage)

lemma ensure_cursor_locked_keeps: "ensure_cursor_locked stamp a db = Inr db' \<Longrightarrow> keeps_ledger db db'"
  using keeps_append_cursor [of db "new_cursor stamp"]
  by (auto simp: ensure_cursor_locked_def Let_def result_simps new_cursor_def split: if_splits option.splits)

lemma record_conflict_keeps: "record_conflict stamp r k d db = Inr db' \<Longrightarrow> keeps_ledger db db'"
proof -
  assume a: "record_conflict stamp r k d db = Inr db'"
  then obtain row f where db': "db' = update_cursor (st_instance_id stamp) f (db\<lparr>db_conflicts := db_conflicts db @ [row]\<rparr>)"
    and f: "\<And>c. cu_instance (f c) = cu_instance c" "\<And>c. cu_family (f c) = cu_family c"
    by (fastforce simp: record_conflict_def Let_def result_simps)
  have "keeps_ledger db (db\<lparr>db_conflicts := db_conflicts db @ [row]\<rparr>)"
    by (auto simp: keeps_ledger_def usage_inv_def ledger_grows_def intro: same_coverage)
  moreover have "keeps_ledger (db\<lparr>db_conflicts := db_conflicts db @ [row]\<rparr>) db'"
    unfolding db' keeps_ledger_def using update_cursor_inv [of f, OF f] by blast
  ultimately show ?thesis by (rule keeps_trans)
qed

lemma store_coverage_manifest_keeps: "store_coverage_manifest env stamp cov db = Inr db' \<Longrightarrow> keeps_ledger db db'"
proof -
  assume a: "store_coverage_manifest env stamp cov db = Inr db'"
  show ?thesis
  proof (cases "List.find (\<lambda>v. cv_digest v = cov_digest cov) (db_coverages db)")
    case None
    with a obtain row where "db' = db\<lparr>db_coverages := db_coverages db @ [row]\<rparr>" "cv_digest row = cov_digest cov"
      by (auto simp: store_coverage_manifest_def result_simps)
    with None show ?thesis
      by (auto simp: keeps_ledger_def usage_inv_def ledger_grows_def find_None_iff' intro: same_coverage')
  next
    case (Some v)
    with a obtain at where db': "db' = db\<lparr>db_coverages := map (\<lambda>x. if cv_digest x = cov_digest cov then x\<lparr>cv_last := at\<rparr> else x)
        (db_coverages db)\<rparr>" by (auto simp: store_coverage_manifest_def result_simps)
    have "map cv_digest (db_coverages db') = map cv_digest (db_coverages db)" by (auto simp: db')
    moreover have "\<exists>at. x\<lparr>cv_last := at\<rparr> \<in> set (db_coverages db')" if x: "x \<in> set (db_coverages db)" for x
    proof (cases "cv_digest x = cov_digest cov")
      case True
      then have "x\<lparr>cv_last := at\<rparr> \<in> set (db_coverages db')" using x by (auto simp: db' intro!: image_eqI [of _ _ x])
      then show ?thesis ..
    next
      case False
      then have "x\<lparr>cv_last := cv_last x\<rparr> \<in> set (db_coverages db')" using x by (auto simp: db' intro!: image_eqI [of _ _ x])
      then show ?thesis ..
    qed
    moreover have "db_calls db' = db_calls db" "db_conflicts db' = db_conflicts db" "db_cursors db' = db_cursors db"
      by (simp_all add: db')
    ultimately show ?thesis
      by (auto simp only: keeps_ledger_def usage_inv_def ledger_grows_def append_Nil2 intro: exI [of _ "[]"])
  qed
qed

lemma foldE_keeps:
  assumes "\<And>x s s'. f x s = Inr s' \<Longrightarrow> keeps_ledger s s'"
  shows "foldE f xs s = Inr s' \<Longrightarrow> keeps_ledger s s'"
  by (induction xs arbitrary: s) (auto simp: result_simps intro: keeps_trans assms)

section \<open>One receipt\<close>

text \<open>A row of the ledger holds this receipt for this runtime.\<close>

definition stored :: "usage_db \<Rightarrow> string \<Rightarrow> dict \<Rightarrow> bool" where
  "stored db i r \<longleftrightarrow> (\<exists>c\<in>set (db_calls db). st_instance_id (pc_stamp c) = i
     \<and> pc_call_id c = str_of r ''callId'' \<and> pc_digest c = str_of r ''receiptDigest'' \<and> pc_seq c = seq_of r)"

text \<open>A row of the ledger contradicts this receipt: same call or same sequence number, other content.\<close>

definition contradicted :: "usage_db \<Rightarrow> RuntimeUsageStamp \<Rightarrow> dict \<Rightarrow> bool" where
  "contradicted db stamp r \<longleftrightarrow> (\<exists>c\<in>set (db_calls db). st_instance_id (pc_stamp c) = st_instance_id stamp
     \<and> (pc_call_id c = str_of r ''callId'' \<and> (pc_digest c \<noteq> str_of r ''receiptDigest'' \<or> pc_seq c \<noteq> seq_of r)
        \<or> st_family (pc_stamp c) = st_family stamp \<and> pc_seq c = seq_of r \<and> pc_call_id c \<noteq> str_of r ''callId''))"

lemma foldr_max_ge: "x \<in> set xs \<Longrightarrow> x \<le> foldr max xs (n :: nat)"
  by (induction xs) auto

lemma next_call_id_fresh: "next_call_id db \<notin> pc_id ` set (db_calls db)"
proof
  assume "next_call_id db \<in> pc_id ` set (db_calls db)"
  then have "next_call_id db \<le> foldr max (map pc_id (db_calls db)) 0" by (intro foldr_max_ge) auto
  then show False by (simp add: next_call_id_def)
qed

lemma new_call_Inr:
  "new_call stamp cov r db = Inr row \<Longrightarrow> pc_id row = next_call_id db \<and> pc_stamp row = stamp \<and> pc_seq row = seq_of r
     \<and> pc_digest row = str_of r ''receiptDigest'' \<and> pc_call_id row = str_of r ''callId''
     \<and> pc_coverage_digest row = cov_digest cov \<and> json_text (JObj r) = Inr (pc_receipt_json row)
     \<and> pc_columns row = receipt_columns r"
  by (auto simp: new_call_def result_simps)

lemma insert_receiptE:
  assumes "insert_receipt_row stamp cov r db = Inr (out, db')"
  obtains (known) "out = Idempotent" "db' = db" "stored db (st_instance_id stamp) r"
    | (fresh) row where "out = Inserted" "new_call stamp cov r db = Inr row" "db' = db\<lparr>db_calls := db_calls db @ [row]\<rparr>"
        "\<forall>c\<in>set (db_calls db). call_key c \<noteq> (st_instance_id stamp, str_of r ''callId'')"
        "\<forall>c\<in>set (db_calls db). seq_key c \<noteq> (st_instance_id stamp, st_family stamp, seq_of r)"
    | (conflict) e k d where "out = Conflicted e" "is_usage_conflict e" "record_conflict stamp r k d db = Inr db'"
        "contradicted db stamp r"
proof (cases "find_call db (st_instance_id stamp) (str_of r ''callId'')")
  case (Some c)
  then have c: "c \<in> set (db_calls db)" "st_instance_id (pc_stamp c) = st_instance_id stamp" "pc_call_id c = str_of r ''callId''"
    by (auto simp: find_call_def dest!: find_SomeD)
  show thesis
  proof (cases "pc_digest c = str_of r ''receiptDigest'' \<and> pc_seq c = seq_of r")
    case True
    with Some assms c show thesis by (intro known) (auto simp: insert_receipt_row_def stored_def)
  next
    case False
    then have "contradicted db stamp r" using c by (auto simp: contradicted_def)
    with False Some assms show thesis by (auto simp: insert_receipt_row_def bindE_Inr_iff intro!: conflict)
  qed
next
  case None
  then have n: "\<forall>c\<in>set (db_calls db). call_key c \<noteq> (st_instance_id stamp, str_of r ''callId'')"
    by (auto simp: find_call_def find_None_iff')
  show thesis
  proof (cases "find_call_seq db (st_instance_id stamp) (st_family stamp) (seq_of r)")
    case (Some c)
    then have "contradicted db stamp r"
      using n by (auto simp: find_call_seq_def contradicted_def dest!: find_SomeD)
    with None Some assms show thesis by (auto simp: insert_receipt_row_def bindE_Inr_iff intro!: conflict)
  next
    case seq: None
    then have "\<forall>c\<in>set (db_calls db). seq_key c \<noteq> (st_instance_id stamp, st_family stamp, seq_of r)"
      by (auto simp: find_call_seq_def find_None_iff')
    with None seq assms n show thesis by (auto simp: insert_receipt_row_def bindE_Inr_iff intro!: fresh)
  qed
qed

lemma append_call_keeps:
  assumes "pc_id row \<notin> pc_id ` set (db_calls db)" and "call_key row \<notin> call_key ` set (db_calls db)"
    and "seq_key row \<notin> seq_key ` set (db_calls db)"
  shows "keeps_ledger db (db\<lparr>db_calls := db_calls db @ [row]\<rparr>)"
  using assms by (simp add: keeps_ledger_def usage_inv_def ledger_grows_def) (auto intro: same_coverage)

lemma insert_receipt_keeps:
  assumes "insert_receipt_row stamp cov r db = Inr (out, db')"
  shows "keeps_ledger db db'"
  using assms
proof (cases rule: insert_receiptE)
  case (fresh row)
  note row = new_call_Inr [OF fresh(2)]
  have "pc_id row \<notin> pc_id ` set (db_calls db)" using row next_call_id_fresh by simp
  moreover have "call_key row \<notin> call_key ` set (db_calls db)" "seq_key row \<notin> seq_key ` set (db_calls db)"
    using row fresh(4,5) by auto
  ultimately have "keeps_ledger db (db\<lparr>db_calls := db_calls db @ [row]\<rparr>)" by (rule append_call_keeps)
  then show ?thesis by (simp add: fresh)
qed (auto intro: record_conflict_keeps)

lemma stored_mono: "ledger_grows db db' \<Longrightarrow> stored db i r \<Longrightarrow> stored db' i r"
  by (auto simp: ledger_grows_def stored_def)

section \<open>Exceptions other than a conflict\<close>

lemma scan_string_error: "scan_string s = Inl e \<Longrightarrow> e = JSONDecodeError"
  by (induction s rule: scan_string.induct)
    (auto simp: bindE_Inl_iff split: if_splits list.splits option.splits prod.splits)

lemma scan_atom_error: "scan_atom env s = Inl e \<Longrightarrow> \<not> is_usage_conflict e"
  by (auto simp: scan_atom_def json_number_def split: option.splits if_splits prod.splits)

lemma scan_error:
  "scan_value env hk d s = Inl e \<Longrightarrow> \<forall>kvs x. hk kvs \<noteq> Inl x \<Longrightarrow> \<not> is_usage_conflict e"
  "scan_items env hk d s = Inl e \<Longrightarrow> \<forall>kvs x. hk kvs \<noteq> Inl x \<Longrightarrow> \<not> is_usage_conflict e"
  "scan_members env hk d s = Inl e \<Longrightarrow> \<forall>kvs x. hk kvs \<noteq> Inl x \<Longrightarrow> \<not> is_usage_conflict e"
proof (induction env hk d s and env hk d s and env hk d s rule: scan_value_scan_items_scan_members.induct)
  case (2 env hk d c s)
  from "2.prems" show ?case
    by (auto simp: scan_value.simps(2) [of env hk d c s] bindE_Inl_iff dest: scan_string_error scan_atom_error
        split: if_splits list.splits nat.splits prod.splits) (use "2.IH"(1) in fastforce, use "2.IH"(2) in fastforce)
next
  case (3 env hk d s)
  note u = "3.prems"(1) [unfolded scan_items.simps [of env hk d s] bindE_Inl_iff]
  show ?case
  proof (cases "scan_value env hk d s")
    case (Inl x)
    with u "3.IH"(1) "3.prems"(2) show ?thesis by auto
  next
    case (Inr y)
    obtain v r where y: "y = (v, r)" by (cases y)
    show ?thesis
    proof (cases "e = JSONDecodeError")
      case False
      with u Inr y obtain q where "skip_ws r = CHR '','' # q" "length (skip_ws q) < length s" "scan_items env hk d (skip_ws q) = Inl e"
        by (auto simp: bindE_Inl_iff split: list.splits if_splits)
      with "3.IH"(2) [OF Inr [unfolded y] refl this(1)] "3.prems"(2) show ?thesis by simp
    qed simp
  qed
next
  case (4 env hk d s)
  show ?case
  proof (cases "e = JSONDecodeError")
    case False
    note u = "4.prems"(1) [unfolded scan_members.simps [of env hk d s]]
    from u False obtain s' where s: "s = CHR 0x22 # s'" by (auto split: list.splits if_splits)
    with u False obtain k r where k: "scan_string s' = Inr (k, r)" by (auto simp: bindE_Inl_iff dest: scan_string_error)
    with u s False obtain q where q: "skip_ws r = CHR '':'' # q" "length (skip_ws q) < length s"
      by (auto split: list.splits if_splits)
    note m = s k q
    have v: "scan_value env hk d (skip_ws q) = Inl e \<or> (\<exists>v t u. scan_value env hk d (skip_ws q) = Inr (v, t) \<and> skip_ws t = CHR '','' # u
          \<and> length (skip_ws u) < length s \<and> scan_members env hk d (skip_ws u) = Inl e)"
    proof (cases "scan_value env hk d (skip_ws q)")
      case (Inr y)
      with u s k q False show ?thesis by (cases y) (auto simp: bindE_Inl_iff split: list.splits if_splits)
    qed (use u s k q in auto)
    note ih = "4.IH" [OF m(1) refl m(2) refl m(3)]
    from v show ?thesis
    proof
      assume "scan_value env hk d (skip_ws q) = Inl e"
      with ih(1) m(4) "4.prems"(2) show ?thesis by blast
    next
      assume "\<exists>v t u. scan_value env hk d (skip_ws q) = Inr (v, t) \<and> skip_ws t = CHR '','' # u
          \<and> length (skip_ws u) < length s \<and> scan_members env hk d (skip_ws u) = Inl e"
      then obtain v t u where w: "scan_value env hk d (skip_ws q) = Inr (v, t)" "skip_ws t = CHR '','' # u"
          "length (skip_ws u) < length s" "scan_members env hk d (skip_ws u) = Inl e" by blast
      show ?thesis using ih(2) [OF _ w(1) refl w(2)] w(3,4) m(4) "4.prems"(2) by simp
    qed
  qed simp
qed (simp add: scan_value.simps(1))

lemma json_text_error: "json_text v = Inl e \<Longrightarrow> \<not> is_usage_conflict e"
  by (auto simp: json_text_def canonical_json_bytes_def raise_from_def raise_if_def bindE_def encode_utf8_def split: sum.splits if_splits)

lemma sql_timestamp_error: "sql_timestamp s = Inl e \<Longrightarrow> \<not> is_usage_conflict e"
  by (auto simp: sql_timestamp_def to_utc_def Let_def split: option.splits prod.splits if_splits)

lemma stored_manifest_error: "stored_manifest_text env raw = Inl e \<Longrightarrow> \<not> is_usage_conflict e"
  by (auto simp: stored_manifest_text_def raise_from_def json_loads_def bindE_Inl_iff dict_hook_def dest: scan_error(1) json_text_error
      split: sum.splits if_splits prod.splits)

lemma ensure_cursor_error: "ensure_cursor_locked stamp a db = Inl e \<Longrightarrow> \<not> is_usage_conflict e"
  by (auto simp: ensure_cursor_locked_def Let_def bindE_Inl_iff raise_if_def split: option.splits if_splits)

lemma store_coverage_error: "store_coverage_manifest env stamp cov db = Inl e \<Longrightarrow> \<not> is_usage_conflict e"
  by (auto simp: store_coverage_manifest_def bindE_Inl_iff raise_if_def
      dest: json_text_error sql_timestamp_error stored_manifest_error split: option.splits if_splits)

lemma foldE_coverage_error: "foldE (store_coverage_manifest env stamp) covs db = Inl e \<Longrightarrow> \<not> is_usage_conflict e"
  by (induction covs arbitrary: db) (auto simp: bindE_Inl_iff dest: store_coverage_error)

lemma record_conflict_error: "record_conflict stamp r k d db = Inl e \<Longrightarrow> \<not> is_usage_conflict e"
  by (auto simp: record_conflict_def Let_def bindE_Inl_iff dest: json_text_error sql_timestamp_error)

lemma assignment_error: "assignment_for_call db account started = Inl e \<Longrightarrow> \<not> is_usage_conflict e"
  by (auto simp: assignment_for_call_def split: list.splits)

lemma new_call_error: "new_call stamp cov r db = Inl e \<Longrightarrow> \<not> is_usage_conflict e"
  by (auto simp: new_call_def bindE_Inl_iff dest: json_text_error sql_timestamp_error assignment_error)

lemma insert_receipt_error: "insert_receipt_row stamp cov r db = Inl e \<Longrightarrow> \<not> is_usage_conflict e"
  by (auto simp: insert_receipt_row_def bindE_Inl_iff dest: record_conflict_error new_call_error split: option.splits if_splits)

lemma insert_receipts_error: "insert_receipts stamp covs rs i j db = Inl e \<Longrightarrow> \<not> is_usage_conflict e"
proof (induction rs arbitrary: i j db)
  case (Cons r rs)
  from Cons.prems show ?case
    by (auto simp: bindE_Inl_iff dest: insert_receipt_error Cons.IH split: option.splits insertion.splits)
      (metis insertion.exhaust)
qed simp

lemma advance_cursor_error: "advance_cursor stamp cov page db = Inl e \<Longrightarrow> \<not> is_usage_conflict e"
  by (auto simp: advance_cursor_def bindE_Inl_iff dest: json_text_error sql_timestamp_error)

text \<open>The transaction is rolled back only for an exception that is not a conflict.\<close>

lemma page_body_error: "page_body env stamp cov page db = Inl e \<Longrightarrow> \<not> is_usage_conflict e"
  by (auto simp: page_body_def bindE_Inl_iff dest: ensure_cursor_error store_coverage_error foldE_coverage_error
      insert_receipts_error advance_cursor_error split: prod.splits option.splits)

section \<open>One page\<close>

text \<open>The receipts of a page without a conflict.\<close>

lemma insert_receipts_all:
  assumes "insert_receipts stamp covs rs i j db = Inr ((i', j', None), db')"
  shows "i' + j' = i + j + length rs \<and> (\<forall>r\<in>set rs. stored db' (st_instance_id stamp) r)
    \<and> (\<exists>rows. db' = db\<lparr>db_calls := db_calls db @ rows\<rparr> \<and> length rows = i' - i \<and> i \<le> i' \<and> (\<forall>c\<in>set rows. pc_stamp c = stamp)) \<and> keeps_ledger db db'"
  using assms
proof (induction rs arbitrary: i j db)
  case Nil
  then show ?case by (auto intro: exI [of _ "[]"])
next
  case (Cons r rs)
  from Cons.prems obtain cov out db1 where
      ins: "insert_receipt_row stamp cov r db = Inr (out, db1)"
    and rest: "(case out of Conflicted e \<Rightarrow> Inr ((i, j, Some e), db1) | Inserted \<Rightarrow> insert_receipts stamp covs rs (Suc i) j db1
        | Idempotent \<Rightarrow> insert_receipts stamp covs rs i (Suc j) db1) = Inr ((i', j', None), db')"
    by (auto simp: bindE_Inr_iff split: option.splits)
  note k = insert_receipt_keeps [OF ins]
  from ins show ?case
  proof (cases rule: insert_receiptE)
    case known
    with rest have "insert_receipts stamp covs rs i (Suc j) db = Inr ((i', j', None), db')" by simp
    note ih = Cons.IH [OF this]
    then have "ledger_grows db db'" by (auto simp: keeps_ledger_def)
    with known(3) have "stored db' (st_instance_id stamp) r" by (rule stored_mono [rotated])
    with ih show ?thesis by auto
  next
    case (fresh row)
    with rest have "insert_receipts stamp covs rs (Suc i) j db1 = Inr ((i', j', None), db')" by simp
    note ih = Cons.IH [OF this]
    have "stored db1 (st_instance_id stamp) r" using new_call_Inr [OF fresh(2)] by (simp add: fresh(3) stored_def)
    with ih have "stored db' (st_instance_id stamp) r" by (auto simp: keeps_ledger_def intro: stored_mono)
    moreover from ih obtain rows where "db' = db1\<lparr>db_calls := db_calls db1 @ rows\<rparr>" "length rows = i' - Suc i" "Suc i \<le> i'"
        "\<forall>c\<in>set rows. pc_stamp c = stamp" by blast
    then have "db' = db\<lparr>db_calls := db_calls db @ row # rows\<rparr> \<and> length (row # rows) = i' - i \<and> i \<le> i'
        \<and> (\<forall>c\<in>set (row # rows). pc_stamp c = stamp)"
      using new_call_Inr [OF fresh(2)] by (simp add: fresh(3))
    then have "\<exists>rows. db' = db\<lparr>db_calls := db_calls db @ rows\<rparr> \<and> length rows = i' - i \<and> i \<le> i' \<and> (\<forall>c\<in>set rows. pc_stamp c = stamp)"
      by blast
    ultimately show ?thesis using ih k by (auto intro: keeps_trans)
  next
    case (conflict e kd d)
    with rest show ?thesis by simp
  qed
qed

text \<open>A conflict stops the cursor of the runtime where it stands and leaves one row of evidence.\<close>

definition stopped_at :: "usage_db \<Rightarrow> usage_db \<Rightarrow> RuntimeUsageStamp \<Rightarrow> dict \<Rightarrow> bool" where
  "stopped_at db db' stamp r \<longleftrightarrow> contradicted db' stamp r
     \<and> (\<exists>row. db_conflicts db' = db_conflicts db @ [row] \<and> cf_instance row = st_instance_id stamp
          \<and> cf_call_id row = str_of r ''callId'' \<and> cf_seq row = seq_of r \<and> cf_observed row = str_of r ''receiptDigest''
          \<and> json_text (JObj r) = Inr (cf_receipt_json row))
     \<and> (\<forall>c. find_cursor db (st_instance_id stamp) = Some c \<longrightarrow>
          (\<exists>c'. find_cursor db' (st_instance_id stamp) = Some c' \<and> cu_status c' = ''conflict'' \<and> cu_last_seq c' = cu_last_seq c))
     \<and> (\<forall>j. j \<noteq> st_instance_id stamp \<longrightarrow> find_cursor db' j = find_cursor db j)"

lemma record_conflict_stops:
  assumes "record_conflict stamp r k d db = Inr db'" and "contradicted db stamp r"
  shows "stopped_at db db' stamp r"
proof -
  from assms(1) obtain row f where db': "db' = update_cursor (st_instance_id stamp) f (db\<lparr>db_conflicts := db_conflicts db @ [row]\<rparr>)"
    and row: "cf_instance row = st_instance_id stamp" "cf_call_id row = str_of r ''callId''" "cf_seq row = seq_of r"
        "cf_observed row = str_of r ''receiptDigest''" "json_text (JObj r) = Inr (cf_receipt_json row)"
    and f: "\<And>c. cu_instance (f c) = cu_instance c" "\<And>c. cu_status (f c) = ''conflict''" "\<And>c. cu_last_seq (f c) = cu_last_seq c"
    by (fastforce simp: record_conflict_def Let_def result_simps)
  have "find_cursor (db\<lparr>db_conflicts := x\<rparr>) j = find_cursor db j" for x j by (simp add: find_cursor_def)
  then have "find_cursor db' j = map_option (\<lambda>c. if j = st_instance_id stamp then f c else c) (find_cursor db j)" for j
    unfolding db' using find_update_cursor [of f, OF f(1)] by simp
  moreover have "contradicted db' stamp r" using assms(2) by (simp add: contradicted_def db')
  ultimately show ?thesis
    using row f by (auto simp: stopped_at_def db' option.map_ident)
qed

lemma insert_receipts_conflict:
  assumes "insert_receipts stamp covs rs i j db = Inr ((i', j', Some e), db')"
  shows "is_usage_conflict e \<and> keeps_ledger db db' \<and> (\<exists>r\<in>set rs. stopped_at db db' stamp r)"
  using assms
proof (induction rs arbitrary: i j db)
  case (Cons r rs)
  from Cons.prems obtain cov out db1 where
      ins: "insert_receipt_row stamp cov r db = Inr (out, db1)"
    and rest: "(case out of Conflicted e \<Rightarrow> Inr ((i, j, Some e), db1) | Inserted \<Rightarrow> insert_receipts stamp covs rs (Suc i) j db1
        | Idempotent \<Rightarrow> insert_receipts stamp covs rs i (Suc j) db1) = Inr ((i', j', Some e), db')"
    by (auto simp: bindE_Inr_iff split: option.splits)
  note k = insert_receipt_keeps [OF ins]
  from ins show ?case
  proof (cases rule: insert_receiptE)
    case known
    with rest Cons.IH [of i "Suc j" db] show ?thesis by auto
  next
    case (fresh row)
    with rest Cons.IH [of "Suc i" j db1] have ih: "is_usage_conflict e" "keeps_ledger db1 db'" "\<exists>r\<in>set rs. stopped_at db1 db' stamp r" by auto
    have "stopped_at db1 db' stamp x = stopped_at db db' stamp x" for x
      by (simp add: stopped_at_def fresh(3) find_cursor_def)
    with ih k show ?thesis by (auto intro: keeps_trans)
  next
    case (conflict e' kd d)
    with rest have "e = e'" "db' = db1" by auto
    with conflict k record_conflict_stops [OF conflict(3,4)] show ?thesis by auto
  qed
qed simp

lemma foldE_store_coverage_cursors:
  "foldE (store_coverage_manifest env stamp) covs db = Inr db'
     \<Longrightarrow> db_cursors db' = db_cursors db \<and> db_calls db' = db_calls db \<and> db_conflicts db' = db_conflicts db"
proof (induction covs arbitrary: db)
  case (Cons c covs)
  then obtain db1 where "store_coverage_manifest env stamp c db = Inr db1"
      "foldE (store_coverage_manifest env stamp) covs db1 = Inr db'" by (auto simp: result_simps)
  moreover have "db_cursors db1 = db_cursors db \<and> db_calls db1 = db_calls db \<and> db_conflicts db1 = db_conflicts db"
    using calculation(1) by (auto simp: store_coverage_manifest_def result_simps split: option.splits)
  ultimately show ?case using Cons.IH [of db1] by simp
qed simp

lemma ensure_cursor_locked_Inr:
  assumes "ensure_cursor_locked stamp a db = Inr db'"
  shows "(\<exists>c. find_cursor db' (st_instance_id stamp) = Some c \<and> cu_last_seq c = a \<and> cu_family c = st_family stamp)
    \<and> (\<forall>j. j \<noteq> st_instance_id stamp \<longrightarrow> find_cursor db' j = find_cursor db j)
    \<and> db_calls db' = db_calls db \<and> db_conflicts db' = db_conflicts db"
proof -
  have "find_cursor (db\<lparr>db_cursors := db_cursors db @ [new_cursor stamp]\<rparr>) j = find_cursor db j" if "j \<noteq> st_instance_id stamp" for j
    using that by (auto simp: find_cursor_def find_append new_cursor_def split: option.splits)
  with assms show ?thesis
    by (auto simp: ensure_cursor_locked_def Let_def result_simps split: if_splits option.splits)
qed

lemma page_body_Inr:
  assumes "page_body env stamp cov page db = Inr (res, db')"
  obtains db1 db3 db4 where "ensure_cursor_locked stamp (ex_after page) db = Inr db1" "keeps_ledger db db3"
    "db_cursors db3 = db_cursors db1" "db_calls db3 = db_calls db" "db_conflicts db3 = db_conflicts db"
    "insert_receipts stamp (ex_coverage page) (ex_receipts page) 0 0 db3 = Inr (res, db4)"
    "case snd (snd res) of Some e \<Rightarrow> db' = db4 | None \<Rightarrow> advance_cursor stamp cov page db4 = Inr db'"
proof -
  from assms obtain db1 db2 db3 i j pending db4 where
      1: "ensure_cursor_locked stamp (ex_after page) db = Inr db1" and 2: "store_coverage_manifest env stamp cov db1 = Inr db2"
    and 3: "foldE (store_coverage_manifest env stamp) (ex_coverage page) db2 = Inr db3"
    and 4: "insert_receipts stamp (ex_coverage page) (ex_receipts page) 0 0 db3 = Inr ((i, j, pending), db4)"
    and 5: "(case pending of Some e \<Rightarrow> Inr ((i, j, pending), db4)
        | None \<Rightarrow> bindE (advance_cursor stamp cov page db4) (\<lambda>db5. Inr ((i, j, None), db5))) = Inr (res, db')"
    unfolding page_body_def bindE_Inr_iff by auto
  have all: "foldE (store_coverage_manifest env stamp) (cov # ex_coverage page) db1 = Inr db3" using 2 3 by simp
  have s: "keeps_ledger db1 db3" by (rule foldE_keeps [OF _ all]) (rule store_coverage_manifest_keeps)
  note same = foldE_store_coverage_cursors [OF all]
  have r: "res = (i, j, pending)" using 5 by (auto simp: bindE_Inr_iff split: option.splits)
  show thesis
  proof (rule that [OF 1])
    show "keeps_ledger db db3" using ensure_cursor_locked_keeps [OF 1] s by (rule keeps_trans)
    show "insert_receipts stamp (ex_coverage page) (ex_receipts page) 0 0 db3 = Inr (res, db4)" using 4 r by simp
    show "case snd (snd res) of Some e \<Rightarrow> db' = db4 | None \<Rightarrow> advance_cursor stamp cov page db4 = Inr db'"
      using 5 r by (auto simp: bindE_Inr_iff split: option.splits)
  qed (use same ensure_cursor_locked_Inr [OF 1] in auto)
qed

lemma advance_cursor_Inr:
  assumes "advance_cursor stamp cov page db = Inr db'"
  shows "keeps_ledger db db' \<and> db_calls db' = db_calls db \<and> db_conflicts db' = db_conflicts db
    \<and> (\<forall>c. find_cursor db (st_instance_id stamp) = Some c \<longrightarrow> (\<exists>c'. find_cursor db' (st_instance_id stamp) = Some c'
         \<and> cu_last_seq c' = ex_next_cursor page \<and> cu_status c' = ''ok'' \<and> cu_high c' = Some (ex_high_watermark page)
         \<and> cu_family c' = cu_family c))
    \<and> (\<forall>j. j \<noteq> st_instance_id stamp \<longrightarrow> find_cursor db' j = find_cursor db j)"
proof -
  from assms obtain f where db': "db' = update_cursor (st_instance_id stamp) f db"
    and f: "\<And>c. cu_instance (f c) = cu_instance c" "\<And>c. cu_family (f c) = cu_family c" "\<And>c. cu_status (f c) = ''ok''"
      "\<And>c. cu_last_seq (f c) = ex_next_cursor page" "\<And>c. cu_high (f c) = Some (ex_high_watermark page)"
    by (fastforce simp: advance_cursor_def result_simps)
  have "keeps_ledger db db'" unfolding db' keeps_ledger_def using update_cursor_inv [of f, OF f(1,2)] by blast
  moreover have "find_cursor db' j = map_option (\<lambda>c. if j = st_instance_id stamp then f c else c) (find_cursor db j)" for j
    unfolding db' by (rule find_update_cursor [of f, OF f(1)])
  ultimately show ?thesis using f by (auto simp: db' option.map_ident)
qed

text \<open>The outcome of a stored page, for every branch of \<open>store_export_page\<close>.\<close>

definition page_outcome ::
  "RuntimeUsageStamp \<Rightarrow> ValidatedExport \<Rightarrow> usage_db \<Rightarrow> (nat \<times> nat \<times> int) result \<Rightarrow> usage_db \<Rightarrow> bool" where
  "page_outcome stamp page db res db' \<longleftrightarrow>
     (\<forall>j. j \<noteq> st_instance_id stamp \<longrightarrow> find_cursor db' j = find_cursor db j) \<and>
     (case res of
        Inr (i, j, n) \<Rightarrow>
          n = ex_next_cursor page \<and> i + j = length (ex_receipts page)
          \<and> (\<forall>r\<in>set (ex_receipts page). stored db' (st_instance_id stamp) r)
          \<and> (\<exists>rows. db_calls db' = db_calls db @ rows \<and> length rows = i) \<and> db_conflicts db' = db_conflicts db
          \<and> (\<exists>c. find_cursor db' (st_instance_id stamp) = Some c \<and> cu_last_seq c = n \<and> cu_status c = ''ok''
               \<and> cu_high c = Some (ex_high_watermark page) \<and> cu_family c = st_family stamp)
      | Inl e \<Rightarrow>
          if is_usage_conflict e
          then (\<exists>r\<in>set (ex_receipts page). contradicted db' stamp r \<and>
                  (\<exists>row. db_conflicts db' = db_conflicts db @ [row] \<and> cf_instance row = st_instance_id stamp
                     \<and> cf_call_id row = str_of r ''callId'' \<and> cf_seq row = seq_of r \<and> cf_observed row = str_of r ''receiptDigest''
                     \<and> json_text (JObj r) = Inr (cf_receipt_json row)))
            \<and> (\<exists>c. find_cursor db' (st_instance_id stamp) = Some c \<and> cu_last_seq c = ex_after page \<and> cu_status c = ''conflict'')
          else db' = db)"

text \<open>
  Nothing but the rows of the ledger stands in the way of a page: the statements before the receipts
  succeed, and every receipt has its coverage, readable instants and at most one assignment.
\<close>

definition storable :: "pyenv \<Rightarrow> RuntimeUsageStamp \<Rightarrow> ValidatedCoverage \<Rightarrow> ValidatedExport \<Rightarrow> usage_db \<Rightarrow> bool" where
  "storable env stamp coverage page db \<longleftrightarrow>
     (\<exists>db1 db2. ensure_cursor_locked stamp (ex_after page) db = Inr db1
        \<and> foldE (store_coverage_manifest env stamp) (coverage # ex_coverage page) db1 = Inr db2
        \<and> (\<forall>r\<in>set (ex_receipts page). \<exists>c row. new_call stamp c r db2 = Inr row
             \<and> List.find (\<lambda>c. cov_digest c = str_of r ''producerCoverageDigest'') (rev (ex_coverage page)) = Some c))"

lemma find_cursor_cong: "db_cursors a = db_cursors b \<Longrightarrow> find_cursor a = find_cursor b"
  by (simp add: find_cursor_def fun_eq_iff)

lemma store_export_page_outcome:
  assumes "store_export_page env stamp cov page db = (res, db')"
  shows "keeps_ledger db db' \<and> page_outcome stamp page db res db'"
proof (cases "page_body env stamp cov page db")
  case (Inl e)
  with assms page_body_error [OF Inl] show ?thesis by (auto simp: store_export_page_def page_outcome_def)
next
  case (Inr body)
  obtain i j pending db'' where b: "body = ((i, j, pending), db'')" by (cases body) auto
  from Inr b obtain db1 db3 db4 where
      1: "ensure_cursor_locked stamp (ex_after page) db = Inr db1" and k3: "keeps_ledger db db3"
    and c3: "db_cursors db3 = db_cursors db1" and same: "db_calls db3 = db_calls db" "db_conflicts db3 = db_conflicts db"
    and ins: "insert_receipts stamp (ex_coverage page) (ex_receipts page) 0 0 db3 = Inr ((i, j, pending), db4)"
    and fin: "case pending of Some e \<Rightarrow> db'' = db4 | None \<Rightarrow> advance_cursor stamp cov page db4 = Inr db''"
    by (auto elim: page_body_Inr)
  note cur = ensure_cursor_locked_Inr [OF 1, folded find_cursor_cong [OF c3]]
  show ?thesis
  proof (cases pending)
    case (Some e)
    then have r: "res = Inl e" "db' = db4" using assms Inr b fin by (auto simp: store_export_page_def)
    from insert_receipts_conflict [OF ins [unfolded Some]] obtain r where
        "is_usage_conflict e" "keeps_ledger db3 db'" "r \<in> set (ex_receipts page)" "stopped_at db3 db' stamp r" by (auto simp: r)
    with cur same k3 show ?thesis
      by (auto simp: page_outcome_def r(1) stopped_at_def find_cursor_cong [OF c3] intro: keeps_trans)
  next
    case None
    then have r: "res = Inr (i, j, ex_next_cursor page)" "db' = db''" and adv: "advance_cursor stamp cov page db4 = Inr db'"
      using assms Inr b fin by (auto simp: store_export_page_def)
    note all = insert_receipts_all [OF ins [unfolded None]] and adv = advance_cursor_Inr [OF adv]
    from all obtain rows where rows: "db4 = db3\<lparr>db_calls := db_calls db3 @ rows\<rparr>" "length rows = i" by auto
    have c4: "find_cursor db4 = find_cursor db1" using c3 by (intro find_cursor_cong) (simp add: rows)
    have "stored db' (st_instance_id stamp) r" if "r \<in> set (ex_receipts page)" for r
      using all adv that by (auto simp: keeps_ledger_def intro: stored_mono)
    moreover have "keeps_ledger db db'" using k3 all adv by (blast intro: keeps_trans)
    moreover obtain c where "find_cursor db' (st_instance_id stamp) = Some c" "cu_last_seq c = ex_next_cursor page"
        "cu_status c = ''ok''" "cu_high c = Some (ex_high_watermark page)" "cu_family c = st_family stamp"
      using adv cur by (auto simp: c4 find_cursor_cong [OF c3])
    moreover have "\<forall>j. j \<noteq> st_instance_id stamp \<longrightarrow> find_cursor db' j = find_cursor db j"
      using adv cur by (simp add: c4 find_cursor_cong [OF c3])
    moreover have "db_calls db' = db_calls db @ rows" "db_conflicts db' = db_conflicts db" using adv same by (simp_all add: rows)
    ultimately show ?thesis
      using all rows(2) by (simp add: page_outcome_def r(1))
  qed
qed

text \<open>A receipt that a stored row contradicts stops the page; nothing else stops a storable one.\<close>

lemma contradicted_not_all:
  assumes ins: "insert_receipts stamp covs rs i j db = Inr ((i', j', None), db')" and inv: "usage_inv db"
    and r: "r \<in> set rs" "contradicted db stamp r" "\<not> stored db (st_instance_id stamp) r"
  shows False
proof -
  note all = insert_receipts_all [OF ins]
  then have inv': "usage_inv db'" using inv by (auto simp: keeps_ledger_def)
  from all obtain rows where rows: "db_calls db' = db_calls db @ rows" "\<forall>c\<in>set rows. pc_stamp c = stamp" by auto
  have "stored db' (st_instance_id stamp) r" using all r(1) by blast
  then obtain c where c: "c \<in> set rows" "pc_call_id c = str_of r ''callId''" "pc_seq c = seq_of r"
    using r(3) by (auto simp: stored_def rows(1))
  from r(2) obtain d where d: "d \<in> set (db_calls db)" "call_key d = call_key c \<or> seq_key d = seq_key c"
    using c rows(2) by (auto simp: contradicted_def)
  from inv' have "call_key x \<noteq> call_key y \<and> seq_key x \<noteq> seq_key y" if "x \<in> set (db_calls db)" "y \<in> set rows" for x y
    using that by (fastforce simp: usage_inv_def rows(1))
  with c(1) d show False by blast
qed

lemma new_call_other:
  "db_intervals db = db_intervals db0 \<Longrightarrow> new_call stamp c r db0 = Inr row \<Longrightarrow> \<exists>row. new_call stamp c r db = Inr row"
  by (auto simp: new_call_def result_simps assignment_for_call_def)

lemma insert_receipt_storable:
  assumes "new_call stamp c r db0 = Inr row" and "db_intervals db = db_intervals db0"
  shows "\<exists>out db'. insert_receipt_row stamp c r db = Inr (out, db') \<and> db_intervals db' = db_intervals db0"
proof -
  obtain row' where n: "new_call stamp c r db = Inr row'" using new_call_other assms by blast
  from assms(1) obtain t at where "json_text (JObj r) = Inr t" "sql_timestamp (st_collected_at stamp) = Inr at"
    by (auto simp: new_call_def result_simps)
  then have "\<exists>db'. record_conflict stamp r k d db = Inr db' \<and> db_intervals db' = db_intervals db0" for k d
    using assms(2) by (simp add: record_conflict_def Let_def update_cursor_def)
  then obtain f where f: "\<And>k d. record_conflict stamp r k d db = Inr (f k d) \<and> db_intervals (f k d) = db_intervals db0" by metis
  show ?thesis using n f assms(2) by (simp add: insert_receipt_row_def split: option.splits)
qed

lemma insert_receipts_storable:
  assumes "\<forall>r\<in>set rs. \<exists>c row. new_call stamp c r db0 = Inr row
      \<and> List.find (\<lambda>c. cov_digest c = str_of r ''producerCoverageDigest'') (rev covs) = Some c"
    and "db_intervals db = db_intervals db0"
  shows "\<exists>x. insert_receipts stamp covs rs i j db = Inr x"
  using assms
proof (induction rs arbitrary: i j db)
  case (Cons r rs)
  from Cons.prems obtain c row where c: "new_call stamp c r db0 = Inr row"
      "List.find (\<lambda>c. cov_digest c = str_of r ''producerCoverageDigest'') (rev covs) = Some c" by auto
  from insert_receipt_storable [OF c(1) Cons.prems(2)] obtain out db' where
    "insert_receipt_row stamp c r db = Inr (out, db')" "db_intervals db' = db_intervals db0" by blast
  with Cons c(2) show ?case by (cases out) auto
qed simp

lemma store_coverage_intervals:
  assumes "store_coverage_manifest env stamp cov db = Inr db'"
  shows "db_intervals db' = db_intervals db \<and> (\<exists>t at. json_text (coverage_payload cov) = Inr t \<and> sql_timestamp (st_collected_at stamp) = Inr at)"
  using assms by (auto simp: store_coverage_manifest_def result_simps split: option.splits)

lemma storable_page_body:
  assumes "storable env stamp coverage page db"
  shows "\<exists>x. page_body env stamp coverage page db = Inr x"
proof -
  from assms obtain db1 db2 db3 where
      1: "ensure_cursor_locked stamp (ex_after page) db = Inr db1" "store_coverage_manifest env stamp coverage db1 = Inr db3"
        "foldE (store_coverage_manifest env stamp) (ex_coverage page) db3 = Inr db2"
    and r: "\<forall>r\<in>set (ex_receipts page). \<exists>c row. new_call stamp c r db2 = Inr row
        \<and> List.find (\<lambda>c. cov_digest c = str_of r ''producerCoverageDigest'') (rev (ex_coverage page)) = Some c"
    unfolding storable_def by (auto simp: bindE_Inr_iff)
  obtain i j pending db4 where i: "insert_receipts stamp (ex_coverage page) (ex_receipts page) 0 0 db2 = Inr ((i, j, pending), db4)"
    using insert_receipts_storable [OF r refl] by (metis prod.exhaust)
  show ?thesis using 1 i store_coverage_intervals [OF 1(2)]
    by (cases pending) (auto simp: page_body_def advance_cursor_def)
qed

lemma store_export_page_contradicted:
  assumes "usage_inv db" and "store_export_page env stamp cov page db = (res, db')"
  shows "r \<in> set (ex_receipts page) \<Longrightarrow> contradicted db stamp r \<Longrightarrow> \<not> stored db (st_instance_id stamp) r \<Longrightarrow> res \<noteq> Inr x"
    and "storable env stamp cov page db \<Longrightarrow> res = Inl e \<Longrightarrow> is_usage_conflict e"
proof -
  assume r: "r \<in> set (ex_receipts page)" "contradicted db stamp r" "\<not> stored db (st_instance_id stamp) r"
  show "res \<noteq> Inr x"
  proof
    assume "res = Inr x"
    with assms(2) obtain i j db'' where "page_body env stamp cov page db = Inr ((i, j, None), db'')"
      by (auto simp: store_export_page_def split: sum.splits prod.splits option.splits)
    then obtain db3 db4 where "keeps_ledger db db3" "db_calls db3 = db_calls db"
        "insert_receipts stamp (ex_coverage page) (ex_receipts page) 0 0 db3 = Inr ((i, j, None), db4)"
      by (auto elim: page_body_Inr)
    moreover then have "usage_inv db3" "contradicted db3 stamp r" "\<not> stored db3 (st_instance_id stamp) r"
      using assms(1) r(2,3) by (simp_all add: keeps_ledger_def contradicted_def stored_def)
    ultimately show False using contradicted_not_all r(1) by blast
  qed
next
  assume "storable env stamp cov page db" "res = Inl e"
  with assms(2) obtain i j db'' where "page_body env stamp cov page db = Inr ((i, j, Some e), db'')"
    by (auto simp: store_export_page_def dest!: storable_page_body split: prod.splits option.splits)
  then obtain db3 db4 where "insert_receipts stamp (ex_coverage page) (ex_receipts page) 0 0 db3 = Inr ((i, j, Some e), db4)"
    by (auto elim: page_body_Inr)
  then show "is_usage_conflict e" using insert_receipts_conflict by blast
qed

section \<open>The collection loop\<close>

definition cursor_of :: "usage_db \<Rightarrow> string \<Rightarrow> int" where
  "cursor_of db i = (case find_cursor db i of None \<Rightarrow> 0 | Some c \<Rightarrow> cu_last_seq c)"

text \<open>
  A page the product printed: what its export command after the page's cursor answered. The weaker form
  forgets which command was run.
\<close>

definition exported :: "pyenv \<Rightarrow> host \<Rightarrow> string \<Rightarrow> int \<Rightarrow> ValidatedExport \<Rightarrow> bool" where
  "exported env h fam limit page \<longleftrightarrow>
     (\<exists>p container argv out. export_command fam (ex_after page) limit = Inr argv
        \<and> run_text h p ([''docker'', ''exec'', container] @ argv) = Inr out \<and> returncode out = 0
        \<and> parse_export_stdout env (stdout out) (ex_after page) fam = Inr page)"

definition from_product :: "pyenv \<Rightarrow> host \<Rightarrow> string \<Rightarrow> ValidatedExport \<Rightarrow> bool" where
  "from_product env h fam page \<longleftrightarrow>
     (\<exists>p argv out. run_text h p argv = Inr out \<and> parse_export_stdout env (stdout out) (ex_after page) fam = Inr page)"

lemma exported_from_product: "exported env h fam limit page \<Longrightarrow> from_product env h fam page"
  by (auto simp: exported_def from_product_def)

text \<open>Pages that follow each other from cursor \<open>a\<close> to cursor \<open>z\<close>.\<close>

fun chained :: "int \<Rightarrow> ValidatedExport list \<Rightarrow> int \<Rightarrow> bool" where
  "chained a [] z \<longleftrightarrow> z = a"
| "chained a (page # pages) z \<longleftrightarrow> ex_after page = a \<and> chained (ex_next_cursor page) pages z"

lemma live_stamp_instance: "live_stamp h p k b = Inr s \<Longrightarrow> st_instance_id s = rb_instance_id b"
  by (auto simp: live_stamp_def build_runtime_stamp_def result_simps)

lemma read_cursor_Inr: "read_cursor db stamp = Inr a \<Longrightarrow> a = cursor_of db (st_instance_id stamp)"
  by (auto simp: read_cursor_def cursor_of_def result_simps split: option.splits)

lemma fetch_page_Inr:
  assumes "fetch_page env h binding limit p before stamp db = Inr (coverage, page)"
  shows "page_ok page \<and> ex_after page = cursor_of db (st_instance_id stamp) \<and> cov_family coverage = rb_family binding
    \<and> exported env h (rb_family binding) limit page"
proof -
  from assms obtain cursor cout argv out where
      c: "read_cursor db stamp = Inr cursor" and cov: "parse_coverage_stdout env cout (rb_family binding) = Inr coverage"
    and ex: "export_command (rb_family binding) cursor limit = Inr argv"
    and o: "run_product h p (st_container_id stamp) argv (UsageContractError ''product_export_failed'') = Inr out"
    and e: "parse_export_stdout env out cursor (rb_family binding) = Inr page"
    by (auto simp: fetch_page_def result_simps)
  from e obtain v where "validate_export v cursor (rb_family binding) = Inr page"
    by (auto simp: parse_export_stdout_def bindE_Inr_iff)
  note page = validate_export_Inr [OF this]
  moreover from o obtain q where "run_text h p ([''docker'', ''exec'', st_container_id stamp] @ argv) = Inr q" "stdout q = out" "returncode q = 0"
    by (auto simp: run_product_def result_simps)
  moreover have "cov_family coverage = rb_family binding"
    using cov by (auto simp: parse_coverage_stdout_def validate_coverage_def result_simps)
  ultimately show ?thesis using e ex page read_cursor_Inr [OF c] unfolding exported_def by metis
qed

text \<open>
  One turn of the loop, for a host whose bindings name the runtime \<open>i\<close>: the page it stored, or the
  exception, which leaves every cursor where it was.
\<close>

definition names_runtime :: "host \<Rightarrow> string \<Rightarrow> bool" where
  "names_runtime h i \<longleftrightarrow> (\<forall>p k b. get_runtime_binding h p k = Inr b \<longrightarrow> rb_instance_id b = i)"

definition turn_outcome :: "string \<Rightarrow> usage_db \<Rightarrow> (nat \<times> nat \<times> ValidatedCoverage \<times> ValidatedExport) result \<Rightarrow> usage_db \<Rightarrow> bool" where
  "turn_outcome i db res db' \<longleftrightarrow> keeps_ledger db db' \<and> (\<forall>j. j \<noteq> i \<longrightarrow> find_cursor db' j = find_cursor db j) \<and>
     (case res of
        Inl e \<Rightarrow> cursor_of db' i = cursor_of db i
      | Inr (n, m, coverage, page) \<Rightarrow> page_ok page \<and> ex_after page = cursor_of db i \<and> cursor_of db' i = ex_next_cursor page
          \<and> n + m = length (ex_receipts page) \<and> (\<exists>rows. db_calls db' = db_calls db @ rows \<and> length rows = n)
          \<and> (\<forall>r\<in>set (ex_receipts page). stored db' i r)
          \<and> (\<exists>c. find_cursor db' i = Some c \<and> cu_status c = ''ok''))"

lemma cursor_of_Some: "find_cursor db i = Some c \<Longrightarrow> cursor_of db i = cu_last_seq c"
  by (simp add: cursor_of_def)

lemma collect_page_outcome:
  assumes "names_runtime h i" and "collect_page env h binding limit p stamp0 db = (res, stamp, db')"
  shows "turn_outcome i db res db' \<and> (stamp = stamp0 \<or> st_instance_id stamp = i)
    \<and> (\<forall>n m coverage page. res = Inr (n, m, coverage, page) \<longrightarrow> exported env h (rb_family binding) limit page)"
proof (cases "bindE (get_runtime_binding h p 0) (\<lambda>b. bindE (live_stamp h p 0 b) (\<lambda>s. Inr (b, s)))")
  case (Inl e)
  with assms(2) show ?thesis by (auto simp: collect_page_def turn_outcome_def)
next
  case (Inr bs)
  then obtain before s where bs: "bs = (before, s)" and b: "get_runtime_binding h p 0 = Inr before" "live_stamp h p 0 before = Inr s"
    by (auto simp: result_simps)
  have i: "st_instance_id s = i" using live_stamp_instance [OF b(2)] assms(1) b(1) by (auto simp: names_runtime_def)
  show ?thesis
  proof (cases "fetch_page env h binding limit p before s db")
    case (Inl e)
    with assms(2) Inr bs i show ?thesis by (auto simp: collect_page_def turn_outcome_def)
  next
    case f: (Inr cp)
    obtain coverage page where cp: "cp = (coverage, page)" by (cases cp)
    note pg = fetch_page_Inr [OF f [unfolded cp]]
    let ?s = "s\<lparr>st_collected_at := now_rfc3339 h p 2\<rparr>"
    obtain out db'' where st: "store_export_page env ?s coverage page db = (out, db'')" by (cases "store_export_page env ?s coverage page db")
    from store_export_page_outcome [OF st] have o: "keeps_ledger db db''" "page_outcome ?s page db out db''" by auto
    have r: "stamp = ?s" "db' = db''"
      and res: "res = (case out of Inl e \<Rightarrow> Inl e | Inr (a, c, _) \<Rightarrow> Inr (a, c, coverage, page))"
      using assms(2) Inr bs f cp st by (auto simp: collect_page_def Let_def split: sum.splits prod.splits)
    show ?thesis
    proof (cases out)
      case (Inl e)
      with o pg i show ?thesis
        by (auto simp: turn_outcome_def page_outcome_def r res cursor_of_Some split: if_splits)
    next
      case (Inr x)
      with o pg i show ?thesis
        by (cases x) (auto simp: turn_outcome_def page_outcome_def r res cursor_of_Some)
    qed
  qed
qed

lemma page_ok_bounds:
  "page_ok p \<Longrightarrow> ex_after p \<le> ex_next_cursor p \<and> ex_next_cursor p \<le> ex_high_watermark p
     \<and> ex_has_more p = (ex_next_cursor p < ex_high_watermark p) \<and> (ex_has_more p \<longrightarrow> ex_after p < ex_next_cursor p)"
proof -
  assume p: "page_ok p"
  show ?thesis
  proof (cases "ex_receipts p = []")
    case True
    with p show ?thesis by (auto simp: page_ok_def)
  next
    case False
    then have "last (map seq_of (ex_receipts p)) \<in> set (map seq_of (ex_receipts p))" by (intro last_in_set) simp
    with p False show ?thesis by (fastforce simp: page_ok_def Let_def)
  qed
qed

text \<open>What holds when the loop ends, however it ends.\<close>

definition loop_outcome :: "pyenv \<Rightarrow> host \<Rightarrow> RuntimeBinding \<Rightarrow> int \<Rightarrow> string \<Rightarrow> collection \<Rightarrow> usage_db
    \<Rightarrow> (ValidatedCoverage \<times> ValidatedExport) result \<Rightarrow> collection \<Rightarrow> usage_db \<Rightarrow> bool" where
  "loop_outcome env h b limit i c db res c' db' \<longleftrightarrow>
     keeps_ledger db db' \<and> (\<forall>j. j \<noteq> i \<longrightarrow> find_cursor db' j = find_cursor db j) \<and> cursor_of db i \<le> cursor_of db' i
     \<and> (\<exists>pages. chained (cursor_of db i) pages (cursor_of db' i) \<and> co_pages c' = co_pages c + length pages
          \<and> (\<forall>page\<in>set pages. exported env h (rb_family b) limit page \<and> (\<forall>r\<in>set (ex_receipts page). stored db' i r))
          \<and> (case res of Inl e \<Rightarrow> True
             | Inr (coverage, page) \<Rightarrow> pages \<noteq> [] \<and> last pages = page
                 \<and> cursor_of db' i = ex_next_cursor page \<and> ex_next_cursor page = ex_high_watermark page
                 \<and> (\<exists>row. find_cursor db' i = Some row \<and> cu_status row = ''ok'')
                 \<and> co_inserted c' + length (db_calls db) = co_inserted c + length (db_calls db')))
     \<and> (st_instance_id (co_stamp c) = i \<longrightarrow> st_instance_id (co_stamp c') = i)"

lemma loop_outcome_turn:
  assumes turn: "turn_outcome i db (Inr (n, m, coverage, page)) db1" and ex: "exported env h (rb_family b) limit page"
    and rest: "loop_outcome env h b limit i c1 db1 res c' db'"
    and c1: "co_pages c1 = Suc (co_pages c)" "co_inserted c1 = co_inserted c + n"
      "st_instance_id (co_stamp c) = i \<longrightarrow> st_instance_id (co_stamp c1) = i"
  shows "loop_outcome env h b limit i c db res c' db'"
proof -
  from turn have t: "keeps_ledger db db1" "page_ok page" "ex_after page = cursor_of db i" "cursor_of db1 i = ex_next_cursor page"
      "\<forall>r\<in>set (ex_receipts page). stored db1 i r" "\<forall>j. j \<noteq> i \<longrightarrow> find_cursor db1 j = find_cursor db j"
      "length (db_calls db1) = length (db_calls db) + n" by (auto simp: turn_outcome_def)
  from rest obtain pages where k: "keeps_ledger db1 db'" and l: "chained (cursor_of db1 i) pages (cursor_of db' i)"
      "co_pages c' = co_pages c1 + length pages"
      "\<forall>page\<in>set pages. exported env h (rb_family b) limit page \<and> (\<forall>r\<in>set (ex_receipts page). stored db' i r)"
      "case res of Inl e \<Rightarrow> True
             | Inr (coverage, page) \<Rightarrow> pages \<noteq> [] \<and> last pages = page
                 \<and> cursor_of db' i = ex_next_cursor page \<and> ex_next_cursor page = ex_high_watermark page
                 \<and> (\<exists>row. find_cursor db' i = Some row \<and> cu_status row = ''ok'')
                 \<and> co_inserted c' + length (db_calls db1) = co_inserted c1 + length (db_calls db')"
    by (auto simp: loop_outcome_def)
  have st: "\<forall>r\<in>set (ex_receipts page). stored db' i r" using t(5) k by (auto simp: keeps_ledger_def intro: stored_mono)
  have "keeps_ledger db db'" using t(1) k by (rule keeps_trans)
  moreover have "cursor_of db i \<le> cursor_of db' i" using page_ok_bounds [OF t(2)] t(3,4) rest by (auto simp: loop_outcome_def)
  moreover have "chained (cursor_of db i) (page # pages) (cursor_of db' i)" "co_pages c' = co_pages c + length (page # pages)"
    using t l c1 by auto
  moreover have "\<forall>p\<in>set (page # pages). exported env h (rb_family b) limit p \<and> (\<forall>r\<in>set (ex_receipts p). stored db' i r)"
    using ex st l by auto
  moreover have "case res of Inl e \<Rightarrow> True
             | Inr (coverage, p) \<Rightarrow> page # pages \<noteq> [] \<and> last (page # pages) = p
                 \<and> cursor_of db' i = ex_next_cursor p \<and> ex_next_cursor p = ex_high_watermark p
                 \<and> (\<exists>row. find_cursor db' i = Some row \<and> cu_status row = ''ok'')
                 \<and> co_inserted c' + length (db_calls db) = co_inserted c + length (db_calls db')"
    using l(4) t(7) c1(2) by (auto split: sum.splits)
  moreover have "\<forall>j. j \<noteq> i \<longrightarrow> find_cursor db' j = find_cursor db j"
      "st_instance_id (co_stamp c) = i \<longrightarrow> st_instance_id (co_stamp c') = i" using rest t(6) c1(3) by (auto simp: loop_outcome_def)
  ultimately show ?thesis unfolding loop_outcome_def by blast
qed

lemma collect_loop_outcome:
  assumes "names_runtime h i" and "collect_loop env h binding limit n c db = (res, c', db')"
  shows "loop_outcome env h binding limit i c db res c' db'"
  using assms(2)
proof (induction n arbitrary: c db)
  case 0
  then show ?case by (auto simp: loop_outcome_def intro!: exI [of _ "[]"])
next
  case (Suc n)
  obtain out stamp db1 where pg: "collect_page env h binding limit (co_pages c) (co_stamp c) db = (out, stamp, db1)"
    by (metis prod_cases3)
  note t = collect_page_outcome [OF assms(1) pg]
  show ?case
  proof (cases out)
    case (Inl e)
    with Suc.prems pg have r: "res = Inl e" "c' = c\<lparr>co_stamp := stamp\<rparr>" "db' = db1" by auto
    have "turn_outcome i db (Inl e) db1" using t Inl by simp
    then show ?thesis using t by (auto simp: loop_outcome_def r turn_outcome_def intro!: exI [of _ "[]"])
  next
    case (Inr x)
    obtain a b coverage page where x: "x = (a, b, coverage, page)" by (cases x)
    have to: "turn_outcome i db (Inr (a, b, coverage, page)) db1" and ex: "exported env h (rb_family binding) limit page"
      using t Inr x by auto
    let ?c = "\<lparr>co_pages = Suc (co_pages c), co_inserted = co_inserted c + a, co_idempotent = co_idempotent c + b, co_stamp = stamp\<rparr>"
    have st: "st_instance_id (co_stamp c) = i \<longrightarrow> st_instance_id (co_stamp ?c) = i" using t by auto
    show ?thesis
    proof (cases "ex_has_more page")
      case False
      with Suc.prems pg Inr x have r: "res = Inr (coverage, page)" "c' = ?c" "db' = db1" by (auto simp: Let_def)
      from to have pk: "page_ok page" "ex_after page = cursor_of db i" "cursor_of db1 i = ex_next_cursor page"
        by (auto simp: turn_outcome_def)
      from False page_ok_bounds [OF pk(1)] have "ex_next_cursor page = ex_high_watermark page" "ex_after page \<le> ex_next_cursor page" by auto
      then show ?thesis using to ex st pk by (auto simp: loop_outcome_def r turn_outcome_def intro!: exI [of _ "[page]"])
    next
      case True
      with Suc.prems pg Inr x have "collect_loop env h binding limit n ?c db1 = (res, c', db')" by (simp add: Let_def)
      from loop_outcome_turn [OF to ex Suc.IH [OF this] _ _ st] show ?thesis by simp
    qed
  qed
qed

text \<open>No page the product prints reports a higher watermark than \<open>W\<close>.\<close>

definition watermark_bounded :: "pyenv \<Rightarrow> host \<Rightarrow> string \<Rightarrow> int \<Rightarrow> bool" where
  "watermark_bounded env h fam W \<longleftrightarrow> (\<forall>page. from_product env h fam page \<longrightarrow> ex_high_watermark page \<le> W)"

lemma collect_loop_bounded:
  assumes "names_runtime h i" and "watermark_bounded env h (rb_family binding) W"
    and "max 0 (W - cursor_of db i) < int n"
  shows "collect_loop env h binding limit (n + k) c db = collect_loop env h binding limit n c db
    \<and> co_pages (fst (snd (collect_loop env h binding limit n c db))) \<le> co_pages c + nat (W - cursor_of db i) + 1"
  using assms(3)
proof (induction n arbitrary: c db)
  case (Suc n)
  obtain out stamp db1 where pg: "collect_page env h binding limit (co_pages c) (co_stamp c) db = (out, stamp, db1)"
    by (metis prod_cases3)
  note t = collect_page_outcome [OF assms(1) pg]
  show ?case
  proof (cases out)
    case (Inl e)
    with pg show ?thesis by simp
  next
    case (Inr x)
    obtain a b coverage page where x: "x = (a, b, coverage, page)" by (cases x)
    let ?c = "\<lparr>co_pages = Suc (co_pages c), co_inserted = co_inserted c + a, co_idempotent = co_idempotent c + b, co_stamp = stamp\<rparr>"
    show ?thesis
    proof (cases "ex_has_more page")
      case False
      with pg Inr x show ?thesis by (simp add: Let_def)
    next
      case True
      have "page_ok page" "ex_after page = cursor_of db i" "cursor_of db1 i = ex_next_cursor page" "ex_high_watermark page \<le> W"
        using t Inr x assms(2) exported_from_product by (auto simp: turn_outcome_def watermark_bounded_def)
      with True page_ok_bounds [of page] have adv: "cursor_of db i < cursor_of db1 i" "cursor_of db1 i < W" by auto
      then have "max 0 (W - cursor_of db1 i) < int n" using Suc.prems by auto
      from Suc.IH [OF this, of ?c] adv show ?thesis using pg Inr x True by (auto simp: Let_def)
    qed
  qed
qed simp

section \<open>The collection of one runtime\<close>

lemma record_failure_outcome:
  assumes "record_collection_failure stamp code detail db = (res, db')"
  shows "keeps_ledger db db' \<and> (\<forall>j. cursor_of db' j = cursor_of db j) \<and> db_calls db' = db_calls db \<and> db_conflicts db' = db_conflicts db
    \<and> (\<forall>at. sql_timestamp (st_collected_at stamp) = Inr at \<longrightarrow>
         (\<exists>c. find_cursor db' (st_instance_id stamp) = Some c \<and> cu_status c = ''failed''))
    \<and> (\<forall>c c'. find_cursor db (st_instance_id stamp) = Some c \<longrightarrow> find_cursor db' (st_instance_id stamp) = Some c'
         \<longrightarrow> cu_family c' = cu_family c)"
proof (cases "sql_timestamp (st_collected_at stamp)")
  case (Inl e)
  with assms show ?thesis by (auto simp: record_collection_failure_def)
next
  case (Inr at)
  let ?f = "failed_cursor stamp at code detail"
  have f: "cu_instance (?f c) = cu_instance c" "cu_family (?f c) = cu_family c" "cu_last_seq (?f c) = cu_last_seq c"
      "cu_status (?f c) = ''failed''" for c by (simp_all add: failed_cursor_def)
  show ?thesis
  proof (cases "find_cursor db (st_instance_id stamp)")
    case None
    let ?c = "?f (new_cursor stamp)"
    have db': "db' = db\<lparr>db_cursors := db_cursors db @ [?c]\<rparr>" using assms Inr None by (simp add: record_collection_failure_def)
    have ci: "cu_instance ?c = st_instance_id stamp" "cu_last_seq ?c = 0" "cu_status ?c = ''failed''"
      by (simp_all add: f new_cursor_def)
    have "find_cursor db' j = (case find_cursor db j of None \<Rightarrow> if j = st_instance_id stamp then Some ?c else None | Some x \<Rightarrow> Some x)" for j
      using ci(1) by (auto simp: find_cursor_def find_append db' split: option.splits)
    moreover have "keeps_ledger db db'" unfolding db' by (rule keeps_append_cursor) (simp add: ci(1) None)
    ultimately show ?thesis using None ci by (auto simp: cursor_of_def db' split: option.splits)
  next
    case (Some c)
    have db': "db' = update_cursor (st_instance_id stamp) ?f db" using assms Inr Some by (simp add: record_collection_failure_def)
    have "find_cursor db' j = map_option (\<lambda>c. if j = st_instance_id stamp then ?f c else c) (find_cursor db j)" for j
      unfolding db' by (rule find_update_cursor) (rule f)
    moreover have "keeps_ledger db db'" unfolding db' keeps_ledger_def using update_cursor_inv [of ?f, OF f(1,2)] by blast
    ultimately show ?thesis using f Some by (auto simp: cursor_of_def db' split: option.splits)
  qed
qed

lemma handle_failure_outcome:
  assumes "handle_failure h b c e db = (rep, db')"
  shows "keeps_ledger db db' \<and> (\<forall>j. cursor_of db' j = cursor_of db j) \<and> db_calls db' = db_calls db
    \<and> rp_status rep \<noteq> ''ok'' \<and> rp_pages rep = co_pages c"
proof -
  obtain u db1 where r: "record_collection_failure (co_stamp c) (exn_name e) (exc_text h e) db = (u, db1)"
    by (cases "record_collection_failure (co_stamp c) (exn_name e) (exc_text h e) db")
  from record_failure_outcome [OF r] assms r show ?thesis
    by (auto simp: handle_failure_def failure_report_def split: if_splits)
qed

lemma collect_target_cases:
  assumes "collect_target env h b limit mp db = (Inr rep, db')"
  obtains (early) c e where "handle_failure h b c e db = (rep, db')" "co_pages c = 0"
    | (failed) c0 c e db1 where "collect_loop env h b limit (nat mp) c0 db = (Inl e, c, db1)" "co_pages c0 = 0"
        "handle_failure h b c e db1 = (rep, db')"
    | (finished) c0 c coverage page where "collect_loop env h b limit (nat mp) c0 db = (Inr (coverage, page), c, db')"
        "co_pages c0 = 0" "co_inserted c0 = 0" "rep = ok_report b c coverage page"
  using assms unfolding collect_target_def
  by (auto simp: Let_def split: sum.splits prod.splits)

section \<open>Properties\<close>

text \<open>
  C7. A page is stored exactly once. The database keeps one row per call and per sequence number, no
  row is changed or removed and no other runtime's cursor moves. A page that is accepted stores every
  receipt and moves the cursor of its runtime to the next cursor. A page with a receipt that contradicts
  a stored one is never accepted, and if nothing but the stored rows stands in its way it ends with a
  conflict. A conflict is committed before it is raised: one row of evidence holds the contradicted
  receipt, and the cursor stays where it was, marked as a conflict. Any other exception leaves the
  database as it was.
\<close>

theorem usage_page_stored_once:
  assumes "usage_inv db" and "store_export_page env stamp coverage page db = (res, db')"
  shows "usage_inv db' \<and> ledger_grows db db' \<and> page_outcome stamp page db res db'
    \<and> (\<forall>r\<in>set (ex_receipts page). contradicted db stamp r \<and> \<not> stored db (st_instance_id stamp) r \<longrightarrow> (\<forall>x. res \<noteq> Inr x))
    \<and> (storable env stamp coverage page db \<longrightarrow> (\<forall>e. res = Inl e \<longrightarrow> is_usage_conflict e))"
  using assms(1) store_export_page_outcome [OF assms(2)] store_export_page_contradicted [OF assms]
  by (auto simp: keeps_ledger_def)

text \<open>
  C8. Collecting a runtime leaves no gap, whatever the outcome. There are pages, one for each page the
  report counts, that the product's export command printed, the first after the cursor the database had,
  each next one after the cursor the page before it ended at, and the last ending at the cursor the
  database has now; every receipt of each of them is stored. No stored row changes. A collection that
  reports success has reached the high watermark of the last page and counts the rows it added. The
  bindings the host reads are those of this runtime.
\<close>

theorem usage_collection_gap_free:
  assumes "usage_inv db" and "names_runtime h (rb_instance_id b)" and "collect_target env h b limit mp db = (Inr rep, db')"
  shows "usage_inv db' \<and> ledger_grows db db'
    \<and> (\<exists>pages. chained (cursor_of db (rb_instance_id b)) pages (cursor_of db' (rb_instance_id b)) \<and> length pages = rp_pages rep
         \<and> (\<forall>page\<in>set pages. exported env h (rb_family b) limit page \<and> (\<forall>r\<in>set (ex_receipts page). stored db' (rb_instance_id b) r))
         \<and> (rp_status rep = ''ok'' \<longrightarrow> pages \<noteq> [] \<and> ex_high_watermark (last pages) = cursor_of db' (rb_instance_id b)
              \<and> rp_cursor rep = Some (cursor_of db' (rb_instance_id b), cursor_of db' (rb_instance_id b))
              \<and> rp_inserted rep + length (db_calls db) = length (db_calls db')))"
  using assms(3)
proof (cases rule: collect_target_cases)
  case (early c e)
  from handle_failure_outcome [OF early(1)] assms(1) early(2) show ?thesis
    by (auto simp: keeps_ledger_def intro!: exI [of _ "[]"])
next
  case (failed c0 c e db1)
  from collect_loop_outcome [OF assms(2) failed(1)] obtain pages where l: "keeps_ledger db db1"
      "chained (cursor_of db (rb_instance_id b)) pages (cursor_of db1 (rb_instance_id b))" "co_pages c = length pages"
      "\<forall>page\<in>set pages. exported env h (rb_family b) limit page \<and> (\<forall>r\<in>set (ex_receipts page). stored db1 (rb_instance_id b) r)"
    using failed(2) by (auto simp: loop_outcome_def)
  note f = handle_failure_outcome [OF failed(3)]
  have k: "keeps_ledger db db'" using l(1) f by (blast intro: keeps_trans)
  have "ledger_grows db1 db'" "cursor_of db' (rb_instance_id b) = cursor_of db1 (rb_instance_id b)"
    using f by (auto simp: keeps_ledger_def)
  then show ?thesis using l f k assms(1)
    by (auto simp: keeps_ledger_def intro!: exI [of _ pages] intro: stored_mono)
next
  case (finished c0 c coverage page)
  from collect_loop_outcome [OF assms(2) finished(1)] assms(1) finished(2-4) show ?thesis
    by (fastforce simp: loop_outcome_def keeps_ledger_def ok_report_def)
qed

text \<open>
  C28. The page loop ends: if the product never reports a watermark above \<open>W\<close>, then once the page limit
  exceeds the distance from the cursor to \<open>W\<close>, a higher limit changes nothing, and at most that distance
  and one more pages are stored.
\<close>

theorem usage_collection_terminates:
  assumes "names_runtime h (rb_instance_id b)" and "watermark_bounded env h (rb_family b) W"
    and "max 0 (W - cursor_of db (rb_instance_id b)) < mp" and "collect_target env h b limit mp db = (Inr rep, db')"
  shows "collect_target env h b limit (mp + int k) db = (Inr rep, db')
    \<and> rp_pages rep \<le> nat (W - cursor_of db (rb_instance_id b)) + 1"
proof -
  have n: "max 0 (W - cursor_of db (rb_instance_id b)) < int (nat mp)" "nat (mp + int k) = nat mp + k" using assms(3) by auto
  note l = collect_loop_bounded [OF assms(1,2) n(1), where limit = limit and k = k]
  have "collect_target env h b limit (mp + int k) db = collect_target env h b limit mp db"
    unfolding collect_target_def n(2) by (simp only: conjunct1 [OF l])
  moreover from assms(4) have "rp_pages rep \<le> nat (W - cursor_of db (rb_instance_id b)) + 1"
  proof (cases rule: collect_target_cases)
    case (early c e)
    then show ?thesis using handle_failure_outcome [OF early(1)] by simp
  next
    case (failed c0 c e db1)
    then show ?thesis using handle_failure_outcome [OF failed(3)] l [of c0] by simp
  next
    case (finished c0 c coverage page)
    then show ?thesis using l [of c0] by (simp add: ok_report_def)
  qed
  ultimately show ?thesis using assms(4) by simp
qed

text \<open>
  C40. A conflict stops the cursor only until the next failure: while the runtime answers, the collection
  is refused with the conflict, but one collection that fails for another reason, here a container that
  is not found, replaces the mark, and the next one reads the cursor as if the conflict were resolved.
\<close>

theorem usage_conflict_mark_lost:
  assumes "find_cursor db (rb_instance_id b) = Some c" and "cu_status c = ''conflict''" and "cu_family c = st_family stamp"
    and "st_instance_id stamp = rb_instance_id b" and "ensure_schema db = Inr ()"
    and "acquire_collection_lock db (rb_instance_id b) = Inr ()" and "failure_stamp b (now_rfc3339 h 0 0) = Inr fs"
    and "sql_timestamp (now_rfc3339 h 0 0) = Inr at" and "get_runtime_binding h 0 0 = Inr b"
    and "find_gateway_container h 0 0 b = None" and "0 < mp" and "collect_target env h b limit mp db = (Inr rep, db')"
  shows "read_cursor db stamp = Inl (UsageLedgerConflict ''usage cursor is stopped on an unresolved conflict'')
    \<and> rp_status rep = ''failed'' \<and> db_conflicts db' = db_conflicts db \<and> read_cursor db' stamp = Inr (cu_last_seq c)"
proof -
  obtain n where n: "nat mp = Suc n" using assms(11) by (cases "nat mp") auto
  have fs: "st_instance_id fs = rb_instance_id b" "st_collected_at fs = now_rfc3339 h 0 0"
    using assms(7) by (auto simp: failure_stamp_def result_simps)
  let ?e = "UsageContractError ''gateway container not found''"
  obtain u db1 where r: "record_collection_failure fs (exn_name ?e) (exc_text h ?e) db = (u, db1)"
    by (cases "record_collection_failure fs (exn_name ?e) (exc_text h ?e) db")
  note f = record_failure_outcome [OF r, unfolded fs]
  have pg: "collect_page env h b limit 0 fs db = (Inl ?e, fs, db)"
    using assms(9,10) by (simp add: collect_page_def live_stamp_def)
  let ?c = "\<lparr>co_pages = 0, co_inserted = 0, co_idempotent = 0, co_stamp = fs\<rparr>"
  have "collect_loop env h b limit (nat mp) ?c db = (Inl ?e, ?c, db)" by (simp add: n pg)
  moreover have "handle_failure h b ?c ?e db = (failure_report h b ''failed'' ?c ?e, db1)"
    using r by (simp add: handle_failure_def)
  ultimately have "collect_target env h b limit mp db = (Inr (failure_report h b ''failed'' ?c ?e), db1)"
    using assms(5-7) by (simp add: collect_target_def)
  then have "db' = db1 \<and> rp_status rep = ''failed''" using assms(12) by (auto simp: failure_report_def)
  moreover obtain c' where "find_cursor db1 (rb_instance_id b) = Some c'" "cu_status c' = ''failed''" "cu_family c' = cu_family c"
      "cu_last_seq c' = cu_last_seq c"
  proof -
    from f assms(8) obtain c' where c': "find_cursor db1 (rb_instance_id b) = Some c'" "cu_status c' = ''failed''" by blast
    moreover have "cu_family c' = cu_family c" using f assms(1) c'(1) by blast
    moreover have "cu_last_seq c' = cu_last_seq c" using f cursor_of_Some [OF assms(1)] cursor_of_Some [OF c'(1)] by simp
    ultimately show thesis by (rule that)
  qed
  moreover have "db_conflicts db1 = db_conflicts db" using f by blast
  ultimately show ?thesis using assms(1-4) by (simp add: read_cursor_def)
qed

end
