(* ===== verification/Json_Indent.thy ===== *)
theory Json_Indent
  imports Py_Text
begin

text \<open>
  The indented and the ASCII forms of \<open>json.dumps\<close>: \<open>indent=2\<close> puts every item on a line of its own;
  \<open>ensure_ascii\<close> escapes what lies outside the ASCII range. An indented document is read back like a compact
  one.
\<close>

section \<open>Definitions\<close>

definition new_line :: "nat \<Rightarrow> string" where
  "new_line level = CHR 0x0A # replicate (2 * level) CHR '' ''"

text \<open>\<open>json.dumps(v, indent=2, ensure_ascii=False)\<close> at a level of nesting.\<close>

fun dumps_indent :: "nat \<Rightarrow> json \<Rightarrow> string" where
  "dumps_indent level (JList vs) =
     (if vs = [] then ''[]''
      else ''['' @ new_line (Suc level) @ join ('','' @ new_line (Suc level)) (map (dumps_indent (Suc level)) vs) @ new_line level @ '']'')"
| "dumps_indent level (JObj kvs) =
     (if kvs = [] then ''{}''
      else ''{'' @ new_line (Suc level)
        @ join ('','' @ new_line (Suc level)) (map (\<lambda>kv. encode_string (fst kv) @ '': '' @ dumps_indent (Suc level) (snd kv)) kvs)
        @ new_line level @ ''}'')"
| "dumps_indent level v = dumps '','' '':'' v"

text \<open>
  \<open>ensure_ascii\<close>: characters outside the ASCII range stand only inside strings, where they are written as escapes of
  four hexadecimal digits, above the basic plane as two.
\<close>

definition hex4_of :: "nat \<Rightarrow> string" where
  "hex4_of n = [CHR 0x5C, CHR ''u'', hex_char (n div 4096 mod 16), hex_char (n div 256 mod 16), hex_char (n div 16 mod 16), hex_char (n mod 16)]"

definition ascii_char :: "string \<Rightarrow> string" where
  "ascii_char c =
     (let n = code_point c in
      if n < 127 then c
      else if n < 65536 then hex4_of n
      else hex4_of (55296 + (n - 65536) div 1024) @ hex4_of (56320 + (n - 65536) mod 1024))"

definition ascii_text :: "string \<Rightarrow> string" where
  "ascii_text s = concat (map ascii_char (py_chars s))"

definition dumps_ascii :: "json \<Rightarrow> string" where
  "dumps_ascii v = ascii_text (dumps '','' '':'' (sort_keys v))"

section \<open>ASCII text\<close>

definition ascii_only :: "string \<Rightarrow> bool" where
  "ascii_only s \<longleftrightarrow> list_all (\<lambda>c. of_char c < (127::nat)) s"

lemma ascii_only_simps [simp]:
  "ascii_only []" "ascii_only (c # s) \<longleftrightarrow> of_char c < (127::nat) \<and> ascii_only s" "ascii_only (a @ b) \<longleftrightarrow> ascii_only a \<and> ascii_only b"
  by (simp_all add: ascii_only_def)

lemma ascii_text_plain: "ascii_only s \<Longrightarrow> ascii_text s = s"
  unfolding ascii_text_def by (induction s) (simp_all add: py_chars_ascii ascii_char_def code_point_ascii py_chars.simps(1))

lemma ascii_only_utf8: "ascii_only s \<Longrightarrow> utf8_valid (s @ r) = utf8_valid r"
  by (induction s) (simp_all add: utf8_valid_ascii_Cons)

lemma ascii_only_utf8_valid: "ascii_only s \<Longrightarrow> utf8_valid s"
  using ascii_only_utf8 [of s "[]"] by simp

lemma escape_plain: "ascii_only s \<Longrightarrow> ascii_only (concat (map escape_char s))"
proof (induction s)
  case (Cons c s)
  have "of_char (hex_char k) < (127::nat)" if "k < 16" for k
    using is_hex_hex_char [OF that] by (auto simp: is_hex_def is_digit_def less_eq_char_def)
  then show ?case using Cons by (auto simp: escape_char_def)
qed simp

lemma encode_plain: "ascii_only s \<Longrightarrow> ascii_only (encode_string s)"
  by (simp add: encode_string_def escape_plain)

lemma join_plain: "ascii_only sep \<Longrightarrow> list_all ascii_only xs \<Longrightarrow> ascii_only (join sep xs)"
  by (induction sep xs rule: join.induct) auto

lemma new_line_plain [simp]: "ascii_only (new_line k)"
  by (simp add: new_line_def ascii_only_def list_all_iff)

lemma digits_ascii_only: "list_all is_digit s \<Longrightarrow> ascii_only s"
  by (induction s) (auto simp: is_digit_def less_eq_char_def)

lemma show_int_ascii_only: "ascii_only (show_int n)"
  using digits_ascii_only [OF conjunct1 [OF show_nat_digits]] by (simp add: show_int_def)

lemma hex_ascii: "list_all is_hex s \<Longrightarrow> ascii_only s"
  by (induction s) (auto simp: is_hex_def is_digit_def less_eq_char_def)

lemma digest_plain: "DIGEST_RE s \<Longrightarrow> ascii_only s"
proof -
  assume d: "DIGEST_RE s"
  have "ascii_only (take 7 s)" "ascii_only (drop 7 s)" using d by (auto simp: DIGEST_RE_def hex_ascii)
  then have "ascii_only (take 7 s @ drop 7 s)" by (simp only: ascii_only_simps)
  then show "ascii_only s" by simp
qed

text \<open>Values whose strings are ASCII print as ASCII text.\<close>

fun ascii_json :: "json \<Rightarrow> bool" where
  "ascii_json (JStr s) = ascii_only s"
| "ascii_json (JFloat r) = False"
| "ascii_json (JList vs) = list_all ascii_json vs"
| "ascii_json (JObj kvs) = list_all (\<lambda>kv. ascii_only (fst kv) \<and> ascii_json (snd kv)) kvs"
| "ascii_json _ = True"

lemma dumps_plain: "ascii_json v \<Longrightarrow> ascii_only (dumps '','' '':'' v)"
proof (induction v rule: ascii_json.induct)
  case (3 vs)
  then have "ascii_only (join '','' (map (dumps '','' '':'') vs))" by (intro join_plain) (auto simp: list_all_iff)
  then show ?case by simp
next
  case (4 kvs)
  then have "ascii_only (join '','' (map (\<lambda>kv. encode_string (fst kv) @ '':'' @ dumps '','' '':'' (snd kv)) kvs))"
    by (intro join_plain) (auto simp: list_all_iff encode_plain)
  then show ?case by simp
qed (auto simp: encode_plain show_int_ascii_only)

lemma dumps_indent_plain: "ascii_json v \<Longrightarrow> ascii_only (dumps_indent level v)"
proof (induction v arbitrary: level rule: ascii_json.induct)
  case (3 vs)
  then have "ascii_only (join ('','' @ new_line (Suc level)) (map (dumps_indent (Suc level)) vs))"
    by (intro join_plain) (auto simp: list_all_iff)
  then show ?case by simp
next
  case (4 kvs)
  then have "ascii_only (join ('','' @ new_line (Suc level)) (map (\<lambda>kv. encode_string (fst kv) @ '': '' @ dumps_indent (Suc level) (snd kv)) kvs))"
    by (intro join_plain) (auto simp: list_all_iff encode_plain)
  then show ?case by simp
qed (auto simp: encode_plain show_int_ascii_only)


section \<open>Reading texts with white space\<close>

text \<open>A text that starts with a mark and is read as a value, whatever may follow a value.\<close>

definition reads :: "pyenv \<Rightarrow> hook \<Rightarrow> nat \<Rightarrow> string \<Rightarrow> json \<Rightarrow> bool" where
  "reads env hk d t v \<longleftrightarrow> t \<noteq> [] \<and> \<not> is_ws (hd t) \<and> hd t \<noteq> CHR '']'' \<and> hd t \<noteq> CHR ''}''
     \<and> (\<forall>r. num_end r \<longrightarrow> scan_value env hk d (t @ r) = Inr (v, r))"

lemma reads_scan: "reads env hk d t v \<Longrightarrow> num_end r \<Longrightarrow> scan_value env hk d (t @ r) = Inr (v, r)"
  by (simp add: reads_def)

lemma skip_ws_text: "list_all is_ws w \<Longrightarrow> t \<noteq> [] \<Longrightarrow> \<not> is_ws (hd t) \<Longrightarrow> skip_ws (w @ t @ r) = t @ r"
  by (cases t) (auto simp: skip_ws_append skip_ws_nonws)

lemma num_end_ws: "list_all is_ws w \<Longrightarrow> num_end (CHR '']'' # r) \<Longrightarrow> num_end (w @ CHR '']'' # r)"
  "list_all is_ws w \<Longrightarrow> num_end (CHR ''}'' # r) \<Longrightarrow> num_end (w @ CHR ''}'' # r)"
  by (cases w; auto simp: num_end_def is_ws_def is_digit_def less_eq_char_def)+

lemma ws_close: "list_all is_ws w \<Longrightarrow> skip_ws (w @ CHR '']'' # r) = CHR '']'' # r" "list_all is_ws w \<Longrightarrow> skip_ws (w @ CHR ''}'' # r) = CHR ''}'' # r"
  by (simp_all add: skip_ws_append skip_ws_nonws is_ws_def)

lemma join_hd: "xs \<noteq> [] \<Longrightarrow> hd xs \<noteq> [] \<Longrightarrow> join sep xs \<noteq> [] \<and> hd (join sep xs) = hd (hd xs)"
  by (cases xs; cases "tl xs") (auto simp: neq_Nil_conv)

lemma scan_items_texts:
  assumes "list_all is_ws w" and "list_all is_ws e"
  shows "tvs \<noteq> [] \<Longrightarrow> list_all (\<lambda>tv. reads env hk d (fst tv) (snd tv)) tvs \<Longrightarrow>
    scan_items env hk d (join (CHR '','' # w) (map fst tvs) @ e @ CHR '']'' # r) = Inr (map snd tvs, r)"
proof (induction tvs)
  case (Cons tv tvs)
  have rd: "reads env hk d (fst tv) (snd tv)" using Cons.prems by simp
  show ?case
  proof (cases tvs)
    case Nil
    then show ?thesis
      using reads_scan [OF rd num_end_ws(1) [OF assms(2) num_end_close(1)]] ws_close(1) [OF assms(2)]
      by (simp add: scan_items.simps)
  next
    case (Cons u us)
    let ?rest = "join (CHR '','' # w) (map fst tvs) @ e @ CHR '']'' # r"
    have IH: "scan_items env hk d ?rest = Inr (map snd tvs, r)" using Cons.IH Cons.prems local.Cons by simp
    have "reads env hk d (fst u) (snd u)" using Cons.prems local.Cons by simp
    then have "join (CHR '','' # w) (map fst tvs) \<noteq> [] \<and> \<not> is_ws (hd (join (CHR '','' # w) (map fst tvs)))"
      using join_hd [of "map fst tvs" "CHR '','' # w"] local.Cons by (simp add: reads_def)
    then have sk: "skip_ws (w @ ?rest) = ?rest" using skip_ws_text [OF assms(1)] by blast
    have "num_end ((CHR '','' # w) @ ?rest)" by (rule num_end_sep) (use assms(1) in \<open>simp add: ws_sep_def\<close>)
    from reads_scan [OF rd this] show ?thesis
      using IH sk local.Cons by (simp add: scan_items.simps [of _ _ _ "fst tv @ _"] skip_ws_nonws is_ws_def)
  qed
qed simp

lemma scan_member_text:
  assumes "list_all is_ws w" and rd: "reads env hk d t v" and "num_end q"
  shows "scan_members env hk d (encode_string k @ CHR '':'' # w @ t @ q) =
    (case skip_ws q of
       y # u \<Rightarrow>
         (if y = CHR ''}'' then Inr ([(k, v)], u)
          else if y = CHR '','' \<and> length (skip_ws u) < length (encode_string k @ CHR '':'' # w @ t @ q) then
            bindE (scan_members env hk d (skip_ws u)) (\<lambda>(kvs, z). Inr ((k, v) # kvs, z))
          else Inl JSONDecodeError)
     | [] \<Rightarrow> Inl JSONDecodeError)"
proof -
  define S where "S = encode_string k @ CHR '':'' # w @ t @ q"
  have S: "S = CHR 0x22 # tl (encode_string k) @ CHR '':'' # w @ t @ q" by (simp add: S_def encode_string_def)
  have sk: "skip_ws (w @ t @ q) = t @ q" using rd by (intro skip_ws_text [OF assms(1)]) (simp_all add: reads_def)
  have colon: "skip_ws (CHR '':'' # w @ t @ q) = CHR '':'' # w @ t @ q" by (simp add: skip_ws_nonws is_ws_def)
  have len: "length (t @ q) < length S" by (simp add: S_def encode_string_def)
  show ?thesis
    unfolding S_def [symmetric] scan_members.simps [of env hk d S]
    using len reads_scan [OF rd assms(3)] by (subst S) (simp add: encode_string_scan colon sk cong: list.case_cong)
qed

lemma scan_members_texts:
  assumes "list_all is_ws w" and "list_all is_ws k" and "list_all is_ws e"
  shows "ktvs \<noteq> [] \<Longrightarrow> list_all (\<lambda>(n, t, v). reads env hk d t v) ktvs \<Longrightarrow>
    scan_members env hk d (join (CHR '','' # w) (map (\<lambda>(n, t, v). encode_string n @ CHR '':'' # k @ t) ktvs) @ e @ CHR ''}'' # r) =
      Inr (map (\<lambda>(n, t, v). (n, v)) ktvs, r)"
proof (induction ktvs)
  case (Cons ktv ktvs)
  obtain n t v where x: "ktv = (n, t, v)" by (cases ktv)
  have rd: "reads env hk d t v" using Cons.prems x by simp
  let ?f = "\<lambda>(n, t, v). encode_string n @ CHR '':'' # k @ t"
  show ?case
  proof (cases ktvs)
    case Nil
    then show ?thesis
      using scan_member_text [OF assms(2) rd num_end_ws(2) [OF assms(3) num_end_close(2)], of n] ws_close(2) [OF assms(3)] x
      by simp
  next
    case (Cons u us)
    let ?rest = "join (CHR '','' # w) (map ?f ktvs) @ e @ CHR ''}'' # r"
    have IH: "scan_members env hk d ?rest = Inr (map (\<lambda>(n, t, v). (n, v)) ktvs, r)" using Cons.IH Cons.prems local.Cons by simp
    have "join (CHR '','' # w) (map ?f ktvs) \<noteq> [] \<and> hd (join (CHR '','' # w) (map ?f ktvs)) = CHR 0x22"
      using join_hd [of "map ?f ktvs" "CHR '','' # w"] local.Cons by (auto simp: encode_string_def split: prod.splits)
    then have sk: "skip_ws (w @ ?rest) = ?rest" by (intro skip_ws_text [OF assms(1)]) (auto simp: is_ws_def)
    have "num_end ((CHR '','' # w) @ ?rest)" by (rule num_end_sep) (use assms(1) in \<open>simp add: ws_sep_def\<close>)
    from scan_member_text [OF assms(2) rd this, of n] show ?thesis
      using IH sk local.Cons x by (simp add: skip_ws_nonws is_ws_def encode_string_def)
  qed
qed simp


section \<open>Indented documents are read back\<close>

lemma new_line_ws [simp]: "list_all is_ws (new_line k)"
  by (simp add: new_line_def is_ws_def list_all_iff)

lemma reads_atom:
  assumes "good_hook hk" and "jwf d v"
  shows "reads env hk d (dumps '','' '':'' v) v"
proof -
  obtain c cs where "dumps '','' '':'' v = c # cs" "\<not> is_ws c" "c \<noteq> CHR '']''" "c \<noteq> CHR ''}''" using assms(2) by (rule dumps_hd)
  moreover have "scan_value env hk d (dumps '','' '':'' v @ r) = Inr (v, r)" if "num_end r" for r
    using that assms by (intro scan_value_dumps) simp_all
  ultimately show ?thesis by (simp add: reads_def)
qed

lemma reads_indent:
  assumes "good_hook hk"
  shows "jwf d v \<Longrightarrow> reads env hk d (dumps_indent level v) v"
proof (induction d v arbitrary: level rule: jwf.induct)
  case (7 d vs)
  show ?case
  proof (cases "vs = []")
    case True
    then show ?thesis by (simp add: reads_def scan_value.simps skip_ws_nonws is_ws_def)
  next
    case False
    let ?tvs = "map (\<lambda>v. (dumps_indent (Suc level) v, v)) vs"
    let ?j = "join (CHR '','' # new_line (Suc level)) (map (dumps_indent (Suc level)) vs)"
    have all: "list_all (\<lambda>tv. reads env hk d (fst tv) (snd tv)) ?tvs" using 7 by (auto simp: list_all_iff)
    have items: "scan_items env hk d (?j @ new_line level @ CHR '']'' # r) = Inr (vs, r)" for r
      using scan_items_texts [OF new_line_ws new_line_ws _ all] False by (simp add: comp_def)
    have "reads env hk d (dumps_indent (Suc level) (hd vs)) (hd vs)" using 7 False by (cases vs) (auto simp: list_all_iff)
    then have "?j \<noteq> [] \<and> \<not> is_ws (hd ?j) \<and> hd ?j \<noteq> CHR '']''"
      using join_hd [of "map (dumps_indent (Suc level)) vs" "CHR '','' # new_line (Suc level)"] False by (cases vs) (auto simp: reads_def)
    then obtain c cs where "?j = c # cs" "\<not> is_ws c" "c \<noteq> CHR '']''" by (cases ?j) auto
    then have "scan_value env hk (Suc d) (CHR ''['' # new_line (Suc level) @ ?j @ new_line level @ CHR '']'' # r) = Inr (JList vs, r)" for r
      using items [of r] by (simp add: scan_value.simps skip_ws_append skip_ws_nonws)
    then show ?thesis using False by (simp add: reads_def is_ws_def)
  qed
next
  case (9 d kvs)
  then have hk: "hk kvs = Inr kvs" using assms by (simp add: good_hook_def)
  show ?case
  proof (cases "kvs = []")
    case True
    with hk show ?thesis by (simp add: reads_def scan_value.simps skip_ws_nonws is_ws_def)
  next
    case False
    let ?f = "\<lambda>kv. encode_string (fst kv) @ '': '' @ dumps_indent (Suc level) (snd kv)"
    let ?ktvs = "map (\<lambda>kv. (fst kv, dumps_indent (Suc level) (snd kv), snd kv)) kvs"
    let ?j = "join (CHR '','' # new_line (Suc level)) (map ?f kvs)"
    have all: "list_all (\<lambda>(n, t, v). reads env hk d t v) ?ktvs" using 9 by (auto simp: list_all_iff)
    have "list_all is_ws '' ''" by (simp add: is_ws_def)
    from scan_members_texts [OF new_line_ws this new_line_ws _ all]
    have members: "scan_members env hk d (?j @ new_line level @ CHR ''}'' # r) = Inr (kvs, r)" for r
      using False by (simp add: comp_def)
    have "?j \<noteq> [] \<and> hd ?j = CHR 0x22"
      using join_hd [of "map ?f kvs" "CHR '','' # new_line (Suc level)"] False by (cases kvs) (auto simp: encode_string_def)
    then obtain cs where "?j = CHR 0x22 # cs" by (cases ?j) auto
    then have "scan_value env hk (Suc d) (CHR ''{'' # new_line (Suc level) @ ?j @ new_line level @ CHR ''}'' # r) = Inr (JObj kvs, r)" for r
      using members [of r] hk by (simp add: scan_value.simps skip_ws_append skip_ws_nonws is_ws_def)
    then show ?thesis using False by (simp add: reads_def is_ws_def)
  qed
qed (use reads_atom [OF assms] in \<open>simp_all only: dumps_indent.simps jwf.simps\<close>)

lemma json_loads_text:
  assumes "reads env hk (rec_limit env) t v" and "ascii_only t"
  shows "json_loads env hk (t @ [CHR 0x0A]) = Inr v"
proof -
  obtain c cs where t: "t = c # cs" "\<not> is_ws c" using assms(1) by (cases t) (auto simp: reads_def)
  have "c \<noteq> CHR 0xEF" using assms(2) t(1) by auto
  then have "take 3 (t @ [CHR 0x0A]) \<noteq> BOM" using t(1) by (simp add: BOM_def)
  then show ?thesis
    using reads_scan [OF assms(1) num_end_close(3)] t by (simp add: json_loads_def skip_ws_nonws) (simp add: skip_ws_def is_ws_def)
qed

lemma json_loads_compact:
  assumes "good_hook hk" and "jwf (rec_limit env) v" and "ascii_json v"
  shows "json_loads env hk (dumps '','' '':'' v @ [CHR 0x0A]) = Inr v"
  using assms by (intro json_loads_text reads_atom dumps_plain)

lemma json_loads_indent:
  assumes "good_hook hk" and "jwf (rec_limit env) v" and "ascii_json v"
  shows "json_loads env hk (dumps_indent 0 v @ [CHR 0x0A]) = Inr v"
  using assms by (intro json_loads_text reads_indent dumps_indent_plain)

end
