(* ===== verification/Usage_Samples.thy ===== *)
theory Usage_Samples
  imports Usage_Properties Json_Indent "HOL-Library.Code_Target_Nat"
begin

text \<open>
  A concrete runtime, its product and its database, and the usage properties applied to them.
\<close>

text \<open>Once the binding has a digest the collection reports, whatever happens.\<close>

lemma collect_target_reports:
  assumes "failure_stamp b (now_rfc3339 h 0 0) = Inr s"
  obtains rep db' where "collect_target env h b limit mp db = (Inr rep, db')"
proof -
  have "\<exists>rep db'. collect_target env h b limit mp db = (Inr rep, db')"
    unfolding collect_target_def assms by (auto simp: Let_def split: sum.splits prod.splits)
  then show thesis using that by blast
qed

section \<open>A concrete runtime\<close>

definition sample_binding :: RuntimeBinding where
  "sample_binding = \<lparr>rb_instance_id = ''i-1'', rb_linux_account = ''oc1'', rb_public_host = ''oc1.test.kr'', rb_family = ''hermes'',
     rb_runtime_class = ''customer'', rb_gateway_port = 18001, rb_bridge_port = 18002, rb_enabled = True,
     rb_upstream_kind = ''managed-rootful'', rb_upstream_owner = [], rb_upstream_container = []\<rparr>"

definition sample_stamp :: RuntimeUsageStamp where
  "sample_stamp = \<lparr>st_instance_id = ''i-1'', st_linux_account = ''oc1'', st_public_host = ''oc1.test.kr'', st_family = ''hermes'',
     st_runtime_class = ''customer'', st_binding_digest = ''sha256:b'', st_container_id = ''c0ffee'', st_wrapper_image = ''w'',
     st_product_image = ''p'', st_ops_repo_commit = [], st_collected_at = ''2026-07-01T00:10:00Z''\<rparr>"

definition sample_db :: usage_db where
  "sample_db = \<lparr>db_tables = REQUIRED_TABLES, db_locks = [], db_intervals = [], db_calls = [], db_coverages = [], db_cursors = [],
     db_conflicts = []\<rparr>"

definition sample_coverage :: ValidatedCoverage where
  "sample_coverage = \<lparr>cov_family = ''hermes'', cov_digest = ''sha256:m'', cov_status = ''complete'', cov_surfaces = []\<rparr>"

definition sample_receipt :: "string \<Rightarrow> int \<Rightarrow> dict" where
  "sample_receipt call n = [(''callId'', JStr call), (''ledgerSeq'', JInt n), (''receiptDigest'', JStr ''sha256:r''),
     (''producerCoverageDigest'', JStr ''sha256:m''), (''startedAt'', JStr ''2026-07-01T00:00:00Z''),
     (''completedAt'', JStr ''2026-07-01T09:00:01+09:00'')]"

definition sample_page :: ValidatedExport where
  "sample_page = \<lparr>ex_after = 0, ex_next_cursor = 2, ex_high_watermark = 5, ex_has_more = True,
     ex_receipts = [sample_receipt ''call-1'' 1, sample_receipt ''call-2'' 2], ex_coverage = [sample_coverage]\<rparr>"

lemma sample_db_inv [simp]: "usage_inv sample_db"
  by (simp add: usage_inv_def sample_db_def)

text \<open>The database after that page, and a page that gives the first call another sequence number.\<close>

definition stored_db :: usage_db where
  "stored_db = snd (store_export_page sample_env sample_stamp sample_coverage sample_page sample_db)"

definition clash_page :: ValidatedExport where
  "clash_page = \<lparr>ex_after = 2, ex_next_cursor = 3, ex_high_watermark = 5, ex_has_more = True,
     ex_receipts = [sample_receipt ''call-1'' 3], ex_coverage = [sample_coverage]\<rparr>"

theorem usage_page_stored_once_witness:
  "store_export_page sample_env sample_stamp sample_coverage sample_page sample_db = (Inr (2, 0, 2), stored_db)
   \<and> usage_inv stored_db \<and> page_outcome sample_stamp sample_page sample_db (Inr (2, 0, 2)) stored_db
   \<and> contradicted stored_db sample_stamp (sample_receipt ''call-1'' 3)
   \<and> (\<exists>m db'. store_export_page sample_env sample_stamp sample_coverage clash_page stored_db = (Inl (UsageLedgerConflict m), db')
        \<and> db_calls db' = db_calls stored_db \<and> length (db_conflicts db') = 1 \<and> usage_inv db'
        \<and> page_outcome sample_stamp clash_page stored_db (Inl (UsageLedgerConflict m)) db')"
proof -
  let ?m = "''same callId has different digest''"
  have "fst (store_export_page sample_env sample_stamp sample_coverage sample_page sample_db) = Inr (2, 0, 2)" by code_simp
  then have r: "store_export_page sample_env sample_stamp sample_coverage sample_page sample_db = (Inr (2, 0, 2), stored_db)"
    by (metis prod.collapse stored_db_def)
  from usage_page_stored_once [OF sample_db_inv this]
  have i: "usage_inv stored_db" "page_outcome sample_stamp sample_page sample_db (Inr (2, 0, 2)) stored_db" by blast+
  obtain db' where c: "store_export_page sample_env sample_stamp sample_coverage clash_page stored_db = (Inl (UsageLedgerConflict ?m), db')"
  proof -
    have "fst (store_export_page sample_env sample_stamp sample_coverage clash_page stored_db) = Inl (UsageLedgerConflict ?m)" by code_simp
    then show thesis using that by (metis prod.collapse)
  qed
  have "contradicted stored_db sample_stamp (sample_receipt ''call-1'' 3)" by code_simp
  moreover have "db_calls (snd (store_export_page sample_env sample_stamp sample_coverage clash_page stored_db)) = db_calls stored_db"
      "length (db_conflicts (snd (store_export_page sample_env sample_stamp sample_coverage clash_page stored_db))) = 1" by code_simp+
  moreover from usage_page_stored_once [OF i(1) c]
  have "usage_inv db'" "page_outcome sample_stamp clash_page stored_db (Inl (UsageLedgerConflict ?m)) db'" by blast+
  ultimately show ?thesis using r i c by (intro conjI exI [of _ ?m] exI [of _ db']) simp_all
qed

text \<open>A product that prints a valid manifest of its coverage and an empty ledger.\<close>

definition sample_surface :: dict where
  "sample_surface = [(''surfaceCode'', JStr ''chat''), (''observationKind'', JStr ''per_call''), (''meterFamily'', JStr ''tokens''),
     (''modelEvidence'', JStr ''provider_response''), (''retryObservation'', JStr ''physical_attempt''),
     (''usageObservation'', JStr ''provider_reported''), (''status'', JStr ''implemented''), (''gapCode'', JNull)]"

definition sample_coverage_manifest :: "string \<Rightarrow> dict" where
  "sample_coverage_manifest d = [(''manifestDigest'', JStr d), (''schema'', JStr COVERAGE_SCHEMA), (''productFamily'', JStr ''hermes''),
     (''coverageStatus'', JStr ''complete''), (''surfaces'', JList [JObj sample_surface])]"

definition sample_digest :: string where
  "sample_digest = sha256_tag (dumps '','' '':'' (sort_keys (JObj (tl (sample_coverage_manifest [])))))"

definition sample_export :: json where
  "sample_export = JObj [(''schema'', JStr EXPORT_SCHEMA), (''after'', JInt 0), (''nextCursor'', JInt 0), (''highWatermark'', JInt 0),
     (''count'', JInt 0), (''hasMore'', JBool False), (''receipts'', JList []), (''coverageManifests'', JList [])]"

definition sample_truth :: truth where
  "sample_truth = [(''truth_status'', ''ok''), (''instance_id'', ''i-1''), (''family'', ''hermes''), (''wrapper_image'', ''w''),
     (''product_image'', ''p'')]"

definition sample_host :: host where
  "sample_host = \<lparr>get_runtime_binding = (\<lambda>p k. Inr sample_binding), find_gateway_container = (\<lambda>p k b. Some ''c0ffee''),
     live_runtime_truth = (\<lambda>p k b. Inr (sample_truth, [(True, ''truth_image_labeled'')])),
     run_text = (\<lambda>p argv. Inr \<lparr>returncode = 0,
        stdout = (if ''coverage'' \<in> set argv then dumps '','' '':'' (JObj (sample_coverage_manifest sample_digest)) else dumps '','' '':'' sample_export),
        stderr = []\<rparr>),
     now_rfc3339 = (\<lambda>p k. ''2026-07-01T00:10:00Z''), exc_text = (\<lambda>e. exn_name e)\<rparr>"

lemma escape_hex: "is_hex c \<Longrightarrow> escape_char c = [c]"
proof -
  assume h: "is_hex c"
  then have "48 \<le> (of_char c :: nat)" by (auto simp: char_class_defs less_eq_char_def)
  moreover from h have "c \<notin> {CHR 0x22, CHR 0x5C, CHR 0x08, CHR 0x0C, CHR 0x0A, CHR 0x0D, CHR 0x09}"
    by (auto simp: char_class_defs less_eq_char_def)
  ultimately show ?thesis by (simp add: escape_char_def)
qed

lemma escape_digest:
  assumes "DIGEST_RE d"
  shows "concat (map escape_char d) = d"
proof -
  have d: "d = ''sha256:'' @ drop 7 d" using assms by (metis DIGEST_RE_def append_take_drop_id)
  have "concat (map escape_char xs) = xs" if "list_all is_hex xs" for xs using that by (induction xs) (simp_all add: escape_hex)
  then have "concat (map escape_char (drop 7 d)) = drop 7 d" using assms by (simp add: DIGEST_RE_def)
  moreover have "concat (map escape_char ''sha256:'') = ''sha256:''" by code_simp
  ultimately show ?thesis by (metis d concat_append map_append)
qed

lemma required_digest:
  assumes "DIGEST_RE d"
  shows "required_string (JStr d) path 512 = Inr d"
proof -
  have l: "length d = 71" "py_len d \<le> 512" using assms DIGEST_RE_ascii [OF assms] by (auto simp: DIGEST_RE_def py_len_def codepoints_ascii)
  have "d = CHR ''s'' # tl d" using assms by (cases d) (auto simp: DIGEST_RE_def)
  then have "py_chars d = ''s'' # py_chars (tl d)" using py_chars_ascii [of "CHR ''s''" "tl d"] by simp
  moreover have "\<not> is_space ''s''" by code_simp
  ultimately show ?thesis using l by (simp add: required_string_def nullable_string_def blank_def)
qed

lemma sample_digest_ok: "DIGEST_RE sample_digest"
  by (simp add: sample_digest_def sha256_tag_digest)

lemma sample_manifest_valid:
  "validate_coverage (JObj (sample_coverage_manifest sample_digest)) ''hermes''
     = Inr \<lparr>cov_family = ''hermes'', cov_digest = sample_digest, cov_status = ''complete'', cov_surfaces = [sample_surface]\<rparr>"
proof -
  have k: "exact_usage_keys (JObj (sample_coverage_manifest d)) COVERAGE_KEYS ''coverage'' = Inr (sample_coverage_manifest d)" for d
    by (auto simp: exact_usage_keys_def sample_coverage_manifest_def COVERAGE_KEYS_def keys_def)
  have s: "check_surface (JObj sample_surface) = Inr (''chat'', sample_surface)" by code_simp
  have f: "jget_opt (sample_coverage_manifest d) ''schema'' = JStr COVERAGE_SCHEMA" "jget_opt (sample_coverage_manifest d) ''productFamily'' = JStr ''hermes''"
      "jget_opt (sample_coverage_manifest d) ''manifestDigest'' = JStr d" "jget_opt (sample_coverage_manifest d) ''coverageStatus'' = JStr ''complete''"
      "jget_opt (sample_coverage_manifest d) ''surfaces'' = JList [JObj sample_surface]" for d
    by (simp_all add: jget_opt_def sample_coverage_manifest_def)
  have r: "required_string (JStr ''hermes'') ''coverage.productFamily'' 32 = Inr ''hermes''"
      "required_string (JStr ''complete'') ''coverage.coverageStatus'' 16 = Inr ''complete''" by code_simp+
  have "filter (\<lambda>(k, i). k \<noteq> ''manifestDigest'') (sample_coverage_manifest d) = tl (sample_coverage_manifest [])" for d
    by (simp add: sample_coverage_manifest_def)
  moreover have "\<not> has_nan (JObj (tl (sample_coverage_manifest [])))" "utf8_valid (dumps '','' '':'' (sort_keys (JObj (tl (sample_coverage_manifest [])))))"
    by code_simp+
  ultimately have g: "coverage_manifest_digest (sample_coverage_manifest d) = Inr sample_digest" for d
    by (simp add: coverage_manifest_digest_def sha256_of_def canonical_json_bytes_def encode_utf8_def sample_digest_def)
  have st: "jget_opt sample_surface ''status'' = JStr ''implemented''" by (simp add: jget_opt_def sample_surface_def)
  show ?thesis
    using required_digest [OF sample_digest_ok] sample_digest_ok
    by (simp add: validate_coverage_def k f r g s st check_digest_field_def PRODUCT_FAMILIES_def sorted_unique_def)
qed

lemma document_parses:
  assumes "jwf (rec_limit env) (JObj kvs)" and "list_all (\<lambda>c. of_char c < (128::nat)) (dumps '','' '':'' (JObj kvs))"
  shows "parse_document env what (dumps '','' '':'' (JObj kvs)) = Inr (JObj kvs)"
proof -
  let ?m = "join '','' (map (\<lambda>kv. encode_string (fst kv) @ '':'' @ dumps '','' '':'' (snd kv)) kvs)"
  have t: "dumps '','' '':'' (JObj kvs) = CHR ''{'' # ?m @ ''}''" by simp
  have "utf8_valid (CHR ''{'' # ?m)" using assms(2) unfolding t by (intro utf8_valid_ascii) simp
  then have "py_strip (dumps '','' '':'' (JObj kvs)) = dumps '','' '':'' (JObj kvs)"
    unfolding t by (rule py_strip_id) (simp_all add: is_space_def code_point_ascii)
  then show ?thesis
    using json_loads_dumps [OF assms(1) good_hook_dict_hook] by (simp add: parse_document_def)
qed

lemma sample_manifest_document:
  "parse_document sample_env what (dumps '','' '':'' (JObj (sample_coverage_manifest sample_digest))) = Inr (JObj (sample_coverage_manifest sample_digest))"
proof -
  have "jwf (rec_limit sample_env) (JObj (sample_coverage_manifest d))" for d
    by (simp add: sample_env_def sample_coverage_manifest_def sample_surface_def keys_def numeral_eq_Suc)
  moreover have "list_all (\<lambda>c. of_char c < (128::nat)) (dumps '','' '':'' (JObj (sample_coverage_manifest sample_digest)))"
  proof -
    have "dumps '','' '':'' (JObj (sample_coverage_manifest d)) = ''{\"manifestDigest\":\"'' @ concat (map escape_char d) @ ''\",'' @
        tl (dumps '','' '':'' (JObj (tl (sample_coverage_manifest []))))" for d
      by (simp add: sample_coverage_manifest_def encode_string_def escape_char_def)
    moreover have "list_all (\<lambda>c. of_char c < (128::nat)) (tl (dumps '','' '':'' (JObj (tl (sample_coverage_manifest [])))))" by code_simp
    ultimately show ?thesis using escape_digest [OF sample_digest_ok] DIGEST_RE_ascii [OF sample_digest_ok] by simp
  qed
  ultimately show ?thesis by (rule document_parses)
qed

lemma sample_export_valid:
  "validate_export sample_export a ''hermes'' = (if a = 0 then Inr \<lparr>ex_after = 0, ex_next_cursor = 0, ex_high_watermark = 0,
     ex_has_more = False, ex_receipts = [], ex_coverage = []\<rparr> else Inl (contract_error ''export.after'' ''mismatch''))"
  by (simp add: validate_export_def sample_export_def exact_usage_keys_def keys_def EXPORT_KEYS_def jget_opt_def integer_def as_bool_def
      as_list_def sorted_unique_def check_cursor_def insert_commute)

lemma sample_document:
  "parse_document sample_env what (dumps '','' '':'' sample_export) = Inr sample_export"
proof -
  have "jwf (rec_limit sample_env) sample_export" by code_simp
  moreover have "list_all (\<lambda>c. of_char c < (128::nat)) (dumps '','' '':'' sample_export)" by code_simp
  ultimately show ?thesis unfolding sample_export_def by (rule document_parses)
qed

lemma sample_pages:
  assumes "from_product sample_env sample_host ''hermes'' page"
  shows "page = \<lparr>ex_after = 0, ex_next_cursor = 0, ex_high_watermark = 0, ex_has_more = False, ex_receipts = [], ex_coverage = []\<rparr>"
proof -
  from assms obtain p argv out where r: "run_text sample_host p argv = Inr out"
    and e: "parse_export_stdout sample_env (stdout out) (ex_after page) ''hermes'' = Inr page" by (auto simp: from_product_def)
  show ?thesis
  proof (cases "''coverage'' \<in> set argv")
    case False
    with r have "stdout out = dumps '','' '':'' sample_export" by (auto simp: sample_host_def)
    with e show ?thesis by (simp add: parse_export_stdout_def sample_document sample_export_valid split: if_splits)
  next
    case True
    with r have "stdout out = dumps '','' '':'' (JObj (sample_coverage_manifest sample_digest))" by (auto simp: sample_host_def)
    with e have "\<exists>kvs. exact_usage_keys (JObj (sample_coverage_manifest sample_digest)) EXPORT_KEYS ''export'' = Inr kvs"
      using sample_manifest_document unfolding parse_export_stdout_def validate_export_def by (auto simp: bindE_Inr_iff)
    moreover have "''after'' \<notin> set (keys (sample_coverage_manifest d))" "''after'' \<in> set EXPORT_KEYS" for d
      by (simp_all add: sample_coverage_manifest_def keys_def EXPORT_KEYS_def)
    ultimately show ?thesis by (auto simp: exact_usage_keys_def split: if_splits)
  qed
qed

lemma sample_names: "names_runtime sample_host (rb_instance_id sample_binding)"
  by (simp add: names_runtime_def sample_host_def)

lemma sample_collect: "\<exists>rep db'. collect_target sample_env sample_host sample_binding 100 5 sample_db = (Inr rep, db')"
proof -
  have "\<not> has_nan (binding_to_json sample_binding)" "utf8_valid (dumps '','' '':'' (sort_keys (binding_to_json sample_binding)))"
    by code_simp+
  then have "\<exists>d. failure_stamp sample_binding t = Inr d" for t
    by (simp add: failure_stamp_def runtime_binding_digest_def sha256_of_def canonical_json_bytes_def encode_utf8_def)
  then obtain s where "failure_stamp sample_binding (now_rfc3339 sample_host 0 0) = Inr s" by blast
  then show ?thesis by (rule collect_target_reports) blast
qed

theorem usage_collection_terminates_witness:
  "\<exists>rep db'. collect_target sample_env sample_host sample_binding 100 5 sample_db = (Inr rep, db')
     \<and> collect_target sample_env sample_host sample_binding 100 105 sample_db = (Inr rep, db') \<and> rp_pages rep \<le> 1"
proof -
  obtain rep db' where c: "collect_target sample_env sample_host sample_binding 100 5 sample_db = (Inr rep, db')"
    using sample_collect by blast
  have "watermark_bounded sample_env sample_host (rb_family sample_binding) 0"
    unfolding watermark_bounded_def sample_binding_def by (auto dest!: sample_pages)
  moreover have "cursor_of sample_db (rb_instance_id sample_binding) = 0" by (simp add: cursor_of_def find_cursor_def sample_db_def)
  ultimately show ?thesis
    using usage_collection_terminates [OF sample_names _ _ c, of 0 100] c by auto
qed

section \<open>A product with one receipt\<close>

lemma ascii_sort_keys [simp]: "ascii_json (sort_keys v) = ascii_json v"
  by (induction v rule: ascii_json.induct) (auto simp: list_all_iff)

lemma ascii_no_nan: "ascii_json v \<Longrightarrow> \<not> has_nan v"
  by (induction v rule: ascii_json.induct) (auto simp: list_all_iff list_ex_iff)

lemma canonical_bytes_plain: "ascii_json v \<Longrightarrow> canonical_json_bytes v = Inr (dumps '','' '':'' (sort_keys v))"
  using ascii_only_utf8_valid [OF dumps_plain, of "sort_keys v"]
  by (simp add: canonical_json_bytes_def ascii_no_nan encode_utf8_def)

lemma sample_manifest_plain: "ascii_json (JObj (sample_coverage_manifest sample_digest))"
  using digest_plain [OF sample_digest_ok]
  by (simp add: sample_coverage_manifest_def sample_surface_def COVERAGE_SCHEMA_def)

definition filled_body :: "string \<Rightarrow> dict" where
  "filled_body c = [(''schema'', JStr CALL_SCHEMA), (''producerCoverageDigest'', JStr c), (''callId'', JStr ''call-1''),
     (''runId'', JStr ''run-1''), (''turnId'', JStr ''turn-1''), (''requestId'', JStr ''req-1''), (''sessionId'', JStr ''ses-1''),
     (''trigger'', JStr ''user''), (''attempt'', JInt 1), (''retryOf'', JNull), (''fallbackParent'', JNull), (''fallbackIndex'', JInt 0),
     (''startedAt'', JStr ''2026-07-01T00:00:00Z''), (''completedAt'', JStr ''2026-07-01T09:00:01+09:00''), (''status'', JStr ''succeeded''),
     (''configured'', JObj [(''provider'', JStr ''p''), (''model'', JStr ''m'')]),
     (''requested'', JObj [(''provider'', JStr ''p''), (''model'', JStr ''m'')]),
     (''actual'', JObj [(''provider'', JStr ''p''), (''model'', JStr ''m''), (''responseId'', JStr ''r-1''), (''evidenceSource'', JStr ''response'')]),
     (''usage'', JObj [(''inputTotal'', JInt 10), (''inputNonCached'', JInt 10), (''cacheRead'', JInt 0), (''cacheWrite'', JInt 0),
        (''outputCandidates'', JInt 5), (''reasoningThinking'', JInt 0), (''toolUsePrompt'', JInt 0), (''providerReportedTotal'', JInt 15),
        (''serviceTier'', JStr ''standard''), (''rawProviderUsage'', JObj [(''total_tokens'', JInt 15)])]),
     (''usageCoverage'', JStr ''complete''), (''missingUsageFields'', JList []), (''receiptCoverage'', JStr ''complete''),
     (''missingReceiptFields'', JList []), (''finishReason'', JStr ''stop''), (''errorCategory'', JNull)]"

definition numbered :: "string \<Rightarrow> dict \<Rightarrow> dict" where
  "numbered d body = (''ledgerSeq'', JInt 1) # (''receiptDigest'', JStr d) # body"

definition filled_digest :: string where
  "filled_digest = sha256_tag (dumps '','' '':'' (sort_keys (JObj (filled_body sample_digest))))"

definition filled_receipt :: dict where
  "filled_receipt = numbered filled_digest (filled_body sample_digest)"

definition filled_coverage :: ValidatedCoverage where
  "filled_coverage = \<lparr>cov_family = ''hermes'', cov_digest = sample_digest, cov_status = ''complete'', cov_surfaces = [sample_surface]\<rparr>"

definition filled_export :: dict where
  "filled_export = [(''schema'', JStr EXPORT_SCHEMA), (''after'', JInt 0), (''nextCursor'', JInt 1), (''highWatermark'', JInt 1),
     (''count'', JInt 1), (''hasMore'', JBool False), (''receipts'', JList [JObj filled_receipt]),
     (''coverageManifests'', JList [JObj (sample_coverage_manifest sample_digest)])]"

definition filled_page :: ValidatedExport where
  "filled_page = \<lparr>ex_after = 0, ex_next_cursor = 1, ex_high_watermark = 1, ex_has_more = False, ex_receipts = [filled_receipt],
     ex_coverage = [filled_coverage]\<rparr>"

definition filled_host :: host where
  "filled_host = sample_host\<lparr>run_text := (\<lambda>p argv. Inr \<lparr>returncode = 0,
     stdout = dumps '','' '':'' (JObj (if ''coverage'' \<in> set argv then sample_coverage_manifest sample_digest else filled_export)),
     stderr = []\<rparr>)\<rparr>"

lemma filled_body_plain: "ascii_json (JObj (filled_body sample_digest))"
  using digest_plain [OF sample_digest_ok] by (simp add: filled_body_def CALL_SCHEMA_def)

lemma filled_digest_ok: "DIGEST_RE filled_digest"
  by (simp add: filled_digest_def sha256_tag_digest)

lemma filled_receipt_plain: "ascii_json (JObj filled_receipt)"
  using filled_body_plain digest_plain [OF filled_digest_ok] by (simp add: filled_receipt_def numbered_def)

lemma filled_fields:
  "k \<noteq> ''receiptDigest'' \<Longrightarrow> k \<noteq> ''producerCoverageDigest'' \<Longrightarrow> jget_opt filled_receipt k = jget_opt (numbered [] (filled_body [])) k"
  "jget_opt filled_receipt ''receiptDigest'' = JStr filled_digest" "jget_opt filled_receipt ''producerCoverageDigest'' = JStr sample_digest"
  by (simp_all add: jget_opt_def filled_receipt_def numbered_def filled_body_def)

lemma filled_identity: "check_identity filled_receipt = Inr ()"
proof -
  have g: "call_receipt_digest filled_receipt = Inr filled_digest"
    using canonical_bytes_plain [OF filled_body_plain]
    by (simp add: call_receipt_digest_def filled_receipt_def numbered_def filled_digest_def sha256_of_def) (simp add: filled_body_def)
  have "check_digest_field (JStr d) path = Inr d" if "DIGEST_RE d" for d path
    using that required_digest [OF that] by (simp add: check_digest_field_def)
  note d = this [OF filled_digest_ok] this [OF sample_digest_ok]
  have "required_string (jget_opt (numbered [] (filled_body [])) ''callId'') ''receipt.callId'' 128 = Inr ''call-1''"
    "forE (\<lambda>k. ignore (nullable_string (jget_opt (numbered [] (filled_body [])) k) k 128))
       [''runId'', ''turnId'', ''requestId'', ''sessionId'', ''retryOf'', ''fallbackParent'', ''finishReason'', ''errorCategory''] = Inr ()"
    "integer (jget_opt (numbered [] (filled_body [])) ''ledgerSeq'') ''receipt.ledgerSeq'' 1 = Inr 1"
    "jget_opt (numbered [] (filled_body [])) ''schema'' = JStr CALL_SCHEMA" by code_simp+
  then show ?thesis by (simp add: check_identity_def filled_fields d g)
qed

lemma filled_valid: "validate_call_receipt (JObj filled_receipt) = Inr filled_receipt"
proof -
  let ?r = "numbered [] (filled_body [])"
  have k: "exact_usage_keys (JObj filled_receipt) CALL_KEYS ''receipt'' = Inr filled_receipt"
    by (simp add: exact_usage_keys_def filled_receipt_def numbered_def filled_body_def keys_def CALL_KEYS_def insert_commute)
  have c: "check_call filled_receipt = check_call ?r" by (simp add: check_call_def filled_fields(1))
  have v: "check_coverage_fields filled_receipt actual usage = check_coverage_fields ?r actual usage" for actual usage
    by (simp add: check_coverage_fields_def expected_missing_receipt_def missing_evidence_def expected_field_count_def null_fields_def
        RECEIPT_IDENTITY_FIELDS_def filled_fields(1))
  have e: "validate_call_receipt (JObj filled_receipt) = bindE (check_identity filled_receipt) (\<lambda>_. bindE (check_call ?r) (\<lambda>_.
      bindE (check_model (jget_opt ?r ''configured'') ''receipt.configured'') (\<lambda>_.
      bindE (check_model (jget_opt ?r ''requested'') ''receipt.requested'') (\<lambda>_.
      bindE (exact_usage_keys (jget_opt ?r ''actual'') ACTUAL_KEYS ''receipt.actual'') (\<lambda>actual.
      bindE (forE (\<lambda>k. ignore (nullable_string (jget_opt actual k) k 191)) ACTUAL_KEYS) (\<lambda>_.
      bindE (exact_usage_keys (jget_opt ?r ''usage'') USAGE_FIELD_ORDER ''receipt.usage'') (\<lambda>usage.
      bindE (check_usage usage) (\<lambda>_. bindE (check_coverage_fields ?r actual usage) (\<lambda>_. Inr filled_receipt)))))))))"
    by (simp add: validate_call_receipt_def k c v filled_fields(1))
  have "check_call ?r = Inr ()" "check_model (jget_opt ?r ''configured'') ''receipt.configured'' = Inr ()"
      "check_model (jget_opt ?r ''requested'') ''receipt.requested'' = Inr ()" by code_simp+
  moreover have "bindE (exact_usage_keys (jget_opt ?r ''actual'') ACTUAL_KEYS ''receipt.actual'') (\<lambda>actual.
      bindE (forE (\<lambda>k. ignore (nullable_string (jget_opt actual k) k 191)) ACTUAL_KEYS) (\<lambda>_.
      bindE (exact_usage_keys (jget_opt ?r ''usage'') USAGE_FIELD_ORDER ''receipt.usage'') (\<lambda>usage.
      bindE (check_usage usage) (\<lambda>_. bindE (check_coverage_fields ?r actual usage) (\<lambda>_. Inr ()))))) = Inr ()" by code_simp
  ultimately show ?thesis by (auto simp: e filled_identity bindE_Inr_iff)
qed

lemma filled_seq [simp]: "seq_of filled_receipt = 1" "str_of filled_receipt ''producerCoverageDigest'' = sample_digest"
    "str_of filled_receipt ''callId'' = ''call-1''" "str_of filled_receipt ''startedAt'' = ''2026-07-01T00:00:00Z''"
    "str_of filled_receipt ''completedAt'' = ''2026-07-01T09:00:01+09:00''"
  by (simp_all add: seq_of_def str_of_def jget_opt_def filled_receipt_def numbered_def filled_body_def)

lemma filled_export_valid: "validate_export (JObj filled_export) 0 ''hermes'' = Inr filled_page"
  using sample_manifest_valid
  by (simp add: validate_export_def filled_export_def exact_usage_keys_def keys_def EXPORT_KEYS_def jget_opt_def integer_def as_bool_def
      as_list_def sorted_unique_def check_cursor_def insert_commute filled_valid filled_page_def filled_coverage_def)

lemma filled_document: "parse_document sample_env what (dumps '','' '':'' (JObj filled_export)) = Inr (JObj filled_export)"
proof (rule document_parses)
  have "ascii_json (JObj filled_export)"
    using filled_receipt_plain sample_manifest_plain by (simp add: filled_export_def EXPORT_SCHEMA_def)
  then have "ascii_only (dumps '','' '':'' (JObj filled_export))" by (rule dumps_plain)
  then show "list_all (\<lambda>c. of_char c < (128::nat)) (dumps '','' '':'' (JObj filled_export))"
    by (auto simp: ascii_only_def list_all_iff)
  have j: "jwf 18 (JObj filled_receipt)" "jwf 18 (JObj (sample_coverage_manifest sample_digest))"
    by (simp add: filled_receipt_def numbered_def filled_body_def keys_def numeral_eq_Suc, code_simp)
      (simp add: sample_coverage_manifest_def sample_surface_def keys_def numeral_eq_Suc)
  have n: "jwf d (JInt 0)" "jwf d (JInt 1)" for d by (simp, code_simp) (simp, code_simp)
  have "jwf d (JObj filled_receipt) \<Longrightarrow> jwf d (JObj (sample_coverage_manifest sample_digest)) \<Longrightarrow> jwf (Suc (Suc d)) (JObj filled_export)" for d
    using n by (simp add: filled_export_def keys_def del: jwf.simps(3))
  from this [OF j] show "jwf (rec_limit sample_env) (JObj filled_export)" by (simp add: sample_env_def)
qed
text \<open>The page is stored, whatever the digest of the binding.\<close>

lemma filled_payload: "sort_keys (coverage_payload filled_coverage) = sort_keys (JObj (sample_coverage_manifest sample_digest))"
  by (simp add: coverage_payload_def filled_coverage_def sample_coverage_manifest_def)

lemma filled_texts:
  "json_text (coverage_payload filled_coverage) = Inr (dumps '','' '':'' (sort_keys (coverage_payload filled_coverage)))"
  "json_text (JObj filled_receipt) = Inr (dumps '','' '':'' (sort_keys (JObj filled_receipt)))"
  "stored_manifest_text sample_env (dumps '','' '':'' (sort_keys (coverage_payload filled_coverage)))
     = Inr (dumps '','' '':'' (sort_keys (coverage_payload filled_coverage)))"
proof -
  have p: "ascii_json (coverage_payload filled_coverage)"
    using sample_manifest_plain by (simp add: coverage_payload_def filled_coverage_def sample_coverage_manifest_def)
  then show t: "json_text (coverage_payload filled_coverage) = Inr (dumps '','' '':'' (sort_keys (coverage_payload filled_coverage)))"
    by (simp add: json_text_def canonical_bytes_plain)
  show "json_text (JObj filled_receipt) = Inr (dumps '','' '':'' (sort_keys (JObj filled_receipt)))"
    using canonical_bytes_plain [OF filled_receipt_plain] by (simp add: json_text_def)
  have "jwf (rec_limit sample_env) (JObj (sample_coverage_manifest sample_digest))"
    by (simp add: sample_env_def sample_coverage_manifest_def sample_surface_def keys_def numeral_eq_Suc)
  then have "jwf (rec_limit sample_env) (sort_keys (coverage_payload filled_coverage))"
    unfolding filled_payload jwf_sort_keys .
  from json_loads_dumps [OF this good_hook_dict_hook] p
  show "stored_manifest_text sample_env (dumps '','' '':'' (sort_keys (coverage_payload filled_coverage)))
     = Inr (dumps '','' '':'' (sort_keys (coverage_payload filled_coverage)))"
    by (simp add: stored_manifest_text_def json_text_def canonical_bytes_plain raise_from_def)
qed

lemma filled_stored:
  assumes "st_instance_id s = ''i-1''" and "st_family s = ''hermes''" and "st_collected_at s = ''2026-07-01T00:10:00Z''"
  shows "\<exists>db'. store_export_page sample_env s filled_coverage filled_page sample_db = (Inr (1, 0, 1), db')"
proof -
  obtain at where at: "sql_timestamp ''2026-07-01T00:10:00Z'' = Inr at"
  proof -
    have "\<not> isl (sql_timestamp ''2026-07-01T00:10:00Z'')" by code_simp
    then show thesis using that by (cases "sql_timestamp ''2026-07-01T00:10:00Z''") auto
  qed
  obtain st where st: "sql_timestamp ''2026-07-01T00:00:00Z'' = Inr st"
  proof -
    have "\<not> isl (sql_timestamp ''2026-07-01T00:00:00Z'')" by code_simp
    then show thesis using that by (cases "sql_timestamp ''2026-07-01T00:00:00Z''") auto
  qed
  obtain ct where ct: "sql_timestamp ''2026-07-01T09:00:01+09:00'' = Inr ct"
  proof -
    have "\<not> isl (sql_timestamp ''2026-07-01T09:00:01+09:00'')" by code_simp
    then show thesis using that by (cases "sql_timestamp ''2026-07-01T09:00:01+09:00''") auto
  qed
  note t = at st ct filled_texts assms
  have 1: "ensure_cursor_locked s 0 sample_db = Inr (sample_db\<lparr>db_cursors := [new_cursor s]\<rparr>)"
    by (simp add: ensure_cursor_locked_def sample_db_def find_cursor_def new_cursor_def)
  obtain v where 2: "store_coverage_manifest sample_env s filled_coverage (sample_db\<lparr>db_cursors := [new_cursor s]\<rparr>)
      = Inr (sample_db\<lparr>db_cursors := [new_cursor s], db_coverages := [v]\<rparr>)"
    and v: "cv_digest v = sample_digest" "cv_family v = ''hermes''" "cv_status v = ''complete''"
      "cv_manifest_json v = dumps '','' '':'' (sort_keys (coverage_payload filled_coverage))"
    by (simp add: store_coverage_manifest_def t sample_db_def) (simp add: filled_coverage_def)
  have 3: "\<exists>v'. store_coverage_manifest sample_env s filled_coverage (sample_db\<lparr>db_cursors := [new_cursor s], db_coverages := [v]\<rparr>)
      = Inr (sample_db\<lparr>db_cursors := [new_cursor s], db_coverages := [v']\<rparr>)"
    using v by (simp add: store_coverage_manifest_def t sample_db_def) (simp add: filled_coverage_def)
  then obtain v' where 3: "store_coverage_manifest sample_env s filled_coverage (sample_db\<lparr>db_cursors := [new_cursor s], db_coverages := [v]\<rparr>)
      = Inr (sample_db\<lparr>db_cursors := [new_cursor s], db_coverages := [v']\<rparr>)" by blast
  have "find_call db i x = None" "find_call_seq db i y z = None"
      "assignment_for_call db a b = Inr (None, None, ''unavailable'')"
    if "db = sample_db\<lparr>db_cursors := [new_cursor s], db_coverages := [v']\<rparr>" for db i x y z a b
    using that by (simp_all add: find_call_def find_call_seq_def assignment_for_call_def sample_db_def)
  note n = this [OF refl]
  have c: "cov_digest filled_coverage = sample_digest" by (simp add: filled_coverage_def)
  obtain row where 4: "insert_receipts s [filled_coverage] [filled_receipt] 0 0 (sample_db\<lparr>db_cursors := [new_cursor s], db_coverages := [v']\<rparr>)
      = Inr ((1, 0, None), sample_db\<lparr>db_cursors := [new_cursor s], db_coverages := [v'], db_calls := [row]\<rparr>)"
    by (simp add: c insert_receipt_row_def n new_call_def t) (simp add: sample_db_def)
  obtain db' where 5: "advance_cursor s filled_coverage filled_page
      (sample_db\<lparr>db_cursors := [new_cursor s], db_coverages := [v'], db_calls := [row]\<rparr>) = Inr db'"
    by (simp add: advance_cursor_def t)
  have "page_body sample_env s filled_coverage filled_page sample_db = Inr ((1, 0, None), db')"
    using 1 2 3 4 5 by (simp add: page_body_def filled_page_def)
  then show ?thesis by (simp add: store_export_page_def filled_page_def)
qed

lemma sample_binding_digest: "\<exists>d. runtime_binding_digest sample_binding = Inr d"
proof -
  have "\<not> has_nan (binding_to_json sample_binding)" "utf8_valid (dumps '','' '':'' (sort_keys (binding_to_json sample_binding)))"
    by code_simp+
  then show ?thesis by (simp add: runtime_binding_digest_def sha256_of_def canonical_json_bytes_def encode_utf8_def)
qed

lemma filled_collect:
  "\<exists>rep db'. collect_target sample_env filled_host sample_binding 100 5 sample_db = (Inr rep, db') \<and> rp_status rep = ''ok'' \<and> rp_pages rep = 1
     \<and> rp_inserted rep = 1"
proof -
  obtain d where d: "runtime_binding_digest sample_binding = Inr d" using sample_binding_digest by blast
  let ?s = "\<lparr>st_instance_id = ''i-1'', st_linux_account = ''oc1'', st_public_host = ''oc1.test.kr'', st_family = ''hermes'',
     st_runtime_class = ''customer'', st_binding_digest = d, st_container_id = ''c0ffee'', st_wrapper_image = ''w'',
     st_product_image = ''p'', st_ops_repo_commit = [], st_collected_at = ''2026-07-01T00:10:00Z''\<rparr>"
  have r: "required_string (JStr ''w'') ''truth.wrapper_image'' 512 = Inr ''w''" "required_string (JStr ''p'') ''truth.product_image'' 512 = Inr ''p''"
      "required_string (JStr ''c0ffee'') ''container_id'' 512 = Inr ''c0ffee''" by code_simp+
  have "build_runtime_stamp sample_binding ''c0ffee'' sample_truth ''2026-07-01T00:10:00Z'' = Inr ?s"
    using r d by (simp add: build_runtime_stamp_def sample_truth_def truth_text_def truth_json_def) (simp add: sample_binding_def)
  then have ls: "live_stamp filled_host p k sample_binding = Inr ?s" for p k
    by (simp add: live_stamp_def filled_host_def sample_host_def)
  have b: "get_runtime_binding filled_host p k = Inr sample_binding" "now_rfc3339 filled_host p k = ''2026-07-01T00:10:00Z''" for p k
    by (simp_all add: filled_host_def sample_host_def)
  have cmd: "coverage_command ''hermes'' = Inr [''hermes'', ''usage-receipts'', ''coverage'', ''--json'']"
      "export_command ''hermes'' 0 100 = Inr [''hermes'', ''usage-receipts'', ''export'', ''--after'', ''0'', ''--limit'', ''100'']" by code_simp+
  have cur: "read_cursor sample_db ?s = Inr 0" by (simp add: read_cursor_def find_cursor_def sample_db_def)
  have cov: "parse_coverage_stdout sample_env (dumps '','' '':'' (JObj (sample_coverage_manifest sample_digest))) ''hermes'' = Inr filled_coverage"
    using sample_manifest_document sample_manifest_valid by (simp add: parse_coverage_stdout_def filled_coverage_def)
  have pg: "parse_export_stdout sample_env (dumps '','' '':'' (JObj filled_export)) 0 ''hermes'' = Inr filled_page"
    using filled_document filled_export_valid by (simp add: parse_export_stdout_def)
  have run: "run_product filled_host p ''c0ffee'' xs e
      = Inr (dumps '','' '':'' (JObj (if ''coverage'' \<in> set xs then sample_coverage_manifest sample_digest else filled_export)))" for p xs e
    by (simp add: run_product_def filled_host_def)
  have fam: "rb_family sample_binding = ''hermes''" "rb_instance_id sample_binding = ''i-1''" by (simp_all add: sample_binding_def)
  have f: "fetch_page sample_env filled_host sample_binding 100 p sample_binding ?s sample_db = Inr (filled_coverage, filled_page)" for p
    by (simp add: fetch_page_def cur fam cmd run cov pg b ls ensure_binding_unchanged_def d del: dumps.simps)
  obtain db' where st: "store_export_page sample_env ?s filled_coverage filled_page sample_db = (Inr (1, 0, 1), db')"
    using filled_stored [of ?s] by auto
  have pgs: "collect_page sample_env filled_host sample_binding 100 p s0 sample_db = (Inr (1, 0, filled_coverage, filled_page), ?s, db')" for p s0
    by (simp add: collect_page_def b ls f st)
  have l: "ensure_schema sample_db = Inr ()" "acquire_collection_lock sample_db ''i-1'' = Inr ()" by code_simp+
  obtain s0 where s0: "failure_stamp sample_binding ''2026-07-01T00:10:00Z'' = Inr s0" by (simp add: failure_stamp_def d)
  have "nat 5 = Suc 4" "\<not> ex_has_more filled_page" by (simp_all add: filled_page_def)
  then have lp: "collect_loop sample_env filled_host sample_binding 100 (nat 5) \<lparr>co_pages = 0, co_inserted = 0, co_idempotent = 0, co_stamp = s0\<rparr> sample_db
      = (Inr (filled_coverage, filled_page), \<lparr>co_pages = 1, co_inserted = 1, co_idempotent = 0, co_stamp = ?s\<rparr>, db')"
    by (simp only: collect_loop.simps) (simp add: pgs)
  have "collect_target sample_env filled_host sample_binding 100 5 sample_db
      = (Inr (ok_report sample_binding \<lparr>co_pages = 1, co_inserted = 1, co_idempotent = 0, co_stamp = ?s\<rparr> filled_coverage filled_page), db')"
    unfolding collect_target_def fam b s0 Let_def using l lp by (simp del: collect_loop.simps)
  then show ?thesis by (simp add: ok_report_def)
qed

theorem usage_collection_gap_free_witness:
  "\<exists>rep db' page. collect_target sample_env filled_host sample_binding 100 5 sample_db = (Inr rep, db') \<and> rp_status rep = ''ok''
     \<and> usage_inv db' \<and> ledger_grows sample_db db' \<and> exported sample_env filled_host ''hermes'' 100 page \<and> ex_after page = 0
     \<and> ex_next_cursor page = cursor_of db' ''i-1'' \<and> (\<forall>r\<in>set (ex_receipts page). stored db' ''i-1'' r) \<and> length (db_calls db') = 1"
proof -
  obtain rep db' where c: "collect_target sample_env filled_host sample_binding 100 5 sample_db = (Inr rep, db')"
    and ok: "rp_status rep = ''ok''" "rp_pages rep = 1" "rp_inserted rep = 1" using filled_collect by blast
  have fam: "rb_family sample_binding = ''hermes''" "rb_instance_id sample_binding = ''i-1''" by (simp_all add: sample_binding_def)
  have "names_runtime filled_host (rb_instance_id sample_binding)" by (simp add: names_runtime_def filled_host_def sample_host_def)
  from usage_collection_gap_free [OF sample_db_inv this c] ok obtain pages where p: "usage_inv db'" "ledger_grows sample_db db'"
      "chained (cursor_of sample_db ''i-1'') pages (cursor_of db' ''i-1'')" "length pages = 1"
      "\<forall>page\<in>set pages. exported sample_env filled_host ''hermes'' 100 page \<and> (\<forall>r\<in>set (ex_receipts page). stored db' ''i-1'' r)"
      "1 + length (db_calls sample_db) = length (db_calls db')" by (auto simp: fam)
  from p(4) obtain page where pg: "pages = [page]" by (auto simp: length_Suc_conv)
  have "cursor_of sample_db ''i-1'' = 0" "db_calls sample_db = []" by (simp_all add: cursor_of_def find_cursor_def sample_db_def)
  with p pg ok c show ?thesis by (intro exI [of _ rep] exI [of _ db'] exI [of _ page]) simp
qed

definition stopped_db :: usage_db where
  "stopped_db = sample_db\<lparr>db_cursors := [(new_cursor sample_stamp)\<lparr>cu_last_seq := 7, cu_status := ''conflict''\<rparr>]\<rparr>"

definition empty_host :: host where
  "empty_host = sample_host\<lparr>find_gateway_container := (\<lambda>p k b. None)\<rparr>"

theorem usage_conflict_mark_lost_witness:
  "\<exists>rep db'. collect_target sample_env empty_host sample_binding 100 5 stopped_db = (Inr rep, db')
     \<and> read_cursor stopped_db sample_stamp = Inl (UsageLedgerConflict ''usage cursor is stopped on an unresolved conflict'')
     \<and> rp_status rep = ''failed'' \<and> read_cursor db' sample_stamp = Inr 7"
proof -
  have "\<not> has_nan (binding_to_json sample_binding)" "utf8_valid (dumps '','' '':'' (sort_keys (binding_to_json sample_binding)))"
    by code_simp+
  then have "\<exists>d. failure_stamp sample_binding t = Inr d" for t
    by (simp add: failure_stamp_def runtime_binding_digest_def sha256_of_def canonical_json_bytes_def encode_utf8_def)
  then obtain s where s: "failure_stamp sample_binding (now_rfc3339 empty_host 0 0) = Inr s" by blast
  then obtain rep db' where c: "collect_target sample_env empty_host sample_binding 100 5 stopped_db = (Inr rep, db')"
    by (rule collect_target_reports)
  let ?c = "(new_cursor sample_stamp)\<lparr>cu_last_seq := 7, cu_status := ''conflict''\<rparr>"
  have "find_cursor stopped_db (rb_instance_id sample_binding) = Some ?c" "cu_family ?c = st_family sample_stamp"
      "st_instance_id sample_stamp = rb_instance_id sample_binding" "get_runtime_binding empty_host 0 0 = Inr sample_binding"
      "find_gateway_container empty_host 0 0 sample_binding = None"
    by (simp_all add: stopped_db_def find_cursor_def new_cursor_def sample_stamp_def sample_binding_def empty_host_def sample_host_def)
  moreover have "ensure_schema stopped_db = Inr ()" "acquire_collection_lock stopped_db (rb_instance_id sample_binding) = Inr ()"
    by code_simp+
  moreover obtain at where "sql_timestamp (now_rfc3339 empty_host 0 0) = Inr at"
  proof -
    have "\<not> isl (sql_timestamp ''2026-07-01T00:10:00Z'')" by code_simp
    then show thesis using that by (cases "sql_timestamp ''2026-07-01T00:10:00Z''") (auto simp: empty_host_def sample_host_def)
  qed
  ultimately show ?thesis
    using usage_conflict_mark_lost [OF _ _ _ _ _ _ s _ _ _ _ c, of ?c sample_stamp at] c by auto
qed

end
