(* ===== verification/Files.thy ===== *)
theory Files
  imports Py_Text
begin

text \<open>
  A directory as a list of named contents, and the atomic replacement of a file (\<open>host/files.py\<close>). The text
  is written to a temporary name next to the file and renamed; an exception removes the temporary file.
  Permissions and the synchronisation of the disk are not part of the model.
\<close>

type_synonym dir = "(string \<times> string) list"

definition write_file :: "string \<Rightarrow> 'a \<Rightarrow> (string \<times> 'a) list \<Rightarrow> (string \<times> 'a) list" where
  "write_file name x d = (name, x) # filter (\<lambda>f. fst f \<noteq> name) d"

definition remove_file :: "string \<Rightarrow> (string \<times> 'a) list \<Rightarrow> (string \<times> 'a) list" where
  "remove_file name d = filter (\<lambda>f. fst f \<noteq> name) d"

text \<open>A path holds a regular file or a symbolic link, of which only its being one matters here.\<close>

datatype node = Regular string | Link

definition tmp_name :: "string \<Rightarrow> string \<Rightarrow> string \<Rightarrow> string" where
  "tmp_name parent base pid = parent @ ''/.'' @ base @ ''.tmp.'' @ pid"

definition atomic_write_text ::
  "string \<Rightarrow> string \<Rightarrow> string \<Rightarrow> string \<Rightarrow> (string \<times> node) list \<Rightarrow> unit result \<times> (string \<times> node) list" where
  "atomic_write_text pid parent base text d =
     (let tmp = tmp_name parent base pid in
      case encode_utf8 text of
        Inl e \<Rightarrow> (Inl e, remove_file tmp d)
      | Inr b \<Rightarrow> (Inr (), write_file (parent @ ''/'' @ base) (Regular b) (remove_file tmp d)))"

lemma write_file_map_of: "map_of (write_file n t d) m = (if m = n then Some t else map_of d m)"
  by (induction d) (auto simp: write_file_def)

lemma remove_file_map_of: "map_of (remove_file n d) m = (if m = n then None else map_of d m)"
  by (induction d) (auto simp: remove_file_def)

lemma finite_suffixes: "finite {m. n \<le> m \<and> base @ ''.'' @ show_nat m \<in> fst ` set d}"
proof -
  have "inj_on (\<lambda>m. base @ ''.'' @ show_nat m) {m. n \<le> m \<and> base @ ''.'' @ show_nat m \<in> fst ` set d}"
    by (rule inj_onI) (metis append_same_eq same_append_eq read_show_nat)
  then show ?thesis by (rule inj_on_finite [of _ _ "fst ` set d"]) auto
qed

text \<open>The first number from \<open>n\<close> on such that the name with that suffix is not in the directory.\<close>

function free_suffix :: "(string \<times> 'a) list \<Rightarrow> string \<Rightarrow> nat \<Rightarrow> nat" where
  "free_suffix d base n = (if map_of d (base @ ''.'' @ show_nat n) \<noteq> None then free_suffix d base (Suc n) else n)"
  by pat_completeness auto
termination
proof (relation "measure (\<lambda>(d, base, n). card {m. n \<le> m \<and> base @ ''.'' @ show_nat m \<in> fst ` set d})")
  fix d :: "(string \<times> 'a) list" and base n
  assume "map_of d (base @ ''.'' @ show_nat n) \<noteq> None"
  then have "base @ ''.'' @ show_nat n \<in> fst ` set d" by (simp add: map_of_eq_None_iff)
  then have "{m. Suc n \<le> m \<and> base @ ''.'' @ show_nat m \<in> fst ` set d} \<subset> {m. n \<le> m \<and> base @ ''.'' @ show_nat m \<in> fst ` set d}"
    by (auto simp: Suc_le_eq)
  from psubset_card_mono [OF finite_suffixes this]
  show "((d, base, Suc n), d, base, n) \<in> measure (\<lambda>(d, base, n). card {m. n \<le> m \<and> base @ ''.'' @ show_nat m \<in> fst ` set d})" by simp
qed simp

declare free_suffix.simps [simp del]

lemma free_suffix_free: "map_of d (base @ ''.'' @ show_nat (free_suffix d base n)) = None"
  by (induction d base n rule: free_suffix.induct) (subst free_suffix.simps, simp)

end
