(* ===== verification/Fstab.thy ===== *)
theory Fstab
  imports Files
begin

text \<open>
  The managed entries of \<open>/etc/fstab\<close> (\<open>host/fstab.py\<close>): escaping, the parser of the marker and entry
  pairs, and the four operations that rewrite the file. The directory of the file is a list of named
  texts; the lock file serialises the writers, so an operation is one step on the directory. Reading a
  file decodes UTF-8; the universal newlines of text mode do not change what \<open>splitlines\<close> returns.
\<close>

section \<open>Escaping\<close>

definition fstab_escape :: "string \<Rightarrow> string" where
  "fstab_escape v =
     replace_char CHR 0x0A [] (replace_char CHR 0x09 [CHR 0x5C, CHR ''0'', CHR ''1'', CHR ''1'']
       (replace_char CHR '' '' [CHR 0x5C, CHR ''0'', CHR ''4'', CHR ''0''] (replace_char CHR 0x5C [CHR 0x5C, CHR 0x5C] v)))"

text \<open>The test \<open>i + 3 < len(value) + 1\<close> is that at least three characters remain.\<close>

function fstab_unescape :: "string \<Rightarrow> string" where
  "fstab_unescape [] = []"
| "fstab_unescape (c # s) =
     (if c = CHR 0x5C \<and> 2 \<le> length s \<and> take 3 s = ''040'' then CHR '' '' # fstab_unescape (drop 3 s)
      else if c = CHR 0x5C \<and> 2 \<le> length s \<and> take 3 s = ''011'' then CHR 0x09 # fstab_unescape (drop 3 s)
      else if c = CHR 0x5C \<and> 2 \<le> length s \<and> hd s = CHR 0x5C then CHR 0x5C # fstab_unescape (tl s)
      else c # fstab_unescape s)"
  by pat_completeness auto
termination
  by (relation "measure length") auto

section \<open>Markers and entries\<close>

definition NAS_PREFIX :: string where "NAS_PREFIX = ''# agent-runtime-ops nas slot=''"

definition WORKSPACE_PREFIX :: string where "WORKSPACE_PREFIX = ''# agent-runtime-ops nas-workspace slot=''"

definition SOURCE_SEP :: string where "SOURCE_SEP = '' source=''"

definition managed_fstab_marker :: "string \<Rightarrow> string \<Rightarrow> string" where
  "managed_fstab_marker slot share = NAS_PREFIX @ slot @ SOURCE_SEP @ share"

definition managed_workspace_bind_marker :: "string \<Rightarrow> string" where
  "managed_workspace_bind_marker slot = WORKSPACE_PREFIX @ slot"

text \<open>
  \<open>_MARKER_RE\<close>: the slot is the run of characters that are not white space, which must end at
  \<open> source=\<close>; the source is the rest of the line. A line has no line break.
\<close>

definition take_word :: "string \<Rightarrow> string \<times> string" where
  "take_word s = (let cs = py_chars s in (concat (takeWhile (\<lambda>c. \<not> is_space c) cs), concat (dropWhile (\<lambda>c. \<not> is_space c) cs)))"

definition match_marker :: "string \<Rightarrow> (string \<times> string) option" where
  "match_marker line =
     (if starts_with NAS_PREFIX line then
        (let (slot, r) = take_word (drop (length NAS_PREFIX) line) in
         if slot \<noteq> [] \<and> starts_with SOURCE_SEP r \<and> drop (length SOURCE_SEP) r \<noteq> []
         then Some (slot, drop (length SOURCE_SEP) r) else None)
      else None)"

definition match_workspace_marker :: "string \<Rightarrow> string option" where
  "match_workspace_marker line =
     (if starts_with WORKSPACE_PREFIX line then
        (let (slot, r) = take_word (drop (length WORKSPACE_PREFIX) line) in
         if slot \<noteq> [] \<and> r = [] then Some slot else None)
      else None)"

record managed_entry =
  me_slot :: string
  me_source :: string
  me_mountpoint :: string
  me_access :: string
  me_credentials :: string

record managed_bind =
  mb_slot :: string
  mb_source :: string
  mb_target :: string

definition CREDENTIALS :: string where "CREDENTIALS = ''credentials=''"

definition option_credentials :: "string list \<Rightarrow> string" where
  "option_credentials options =
     (case filter (starts_with CREDENTIALS) options of
        [] \<Rightarrow> [] | ps \<Rightarrow> fstab_unescape (drop (length CREDENTIALS) (last ps)))"

definition read_entry :: "string \<Rightarrow> string \<Rightarrow> managed_entry option" where
  "read_entry line next =
     (case match_marker line of None \<Rightarrow> None | Some (slot, source) \<Rightarrow>
      (let columns = py_split next in
       if length columns < 4 then None
       else (let options = split_on CHR '','' (columns ! 3) in
         Some \<lparr>me_slot = slot, me_source = source, me_mountpoint = fstab_unescape (columns ! 1),
               me_access = (if ''rw'' \<in> set options then ''rw'' else ''ro''), me_credentials = option_credentials options\<rparr>)))"

definition read_bind :: "string \<Rightarrow> string \<Rightarrow> managed_bind option" where
  "read_bind line next =
     (case match_workspace_marker line of None \<Rightarrow> None | Some slot \<Rightarrow>
      (let columns = py_split next in
       if length columns < 4 then None
       else Some \<lparr>mb_slot = slot, mb_source = fstab_unescape (columns ! 0), mb_target = fstab_unescape (columns ! 1)\<rparr>))"

text \<open>The readers look at every line but the last, with the line that follows it.\<close>

definition scan_pairs :: "(string \<Rightarrow> string \<Rightarrow> 'a option) \<Rightarrow> string list \<Rightarrow> 'a list" where
  "scan_pairs f ls = List.map_filter (\<lambda>(l, n). f l n) (zip ls (tl ls))"

definition entries_of :: "string list \<Rightarrow> managed_entry list" where
  "entries_of ls = scan_pairs read_entry ls"

definition binds_of :: "string list \<Rightarrow> managed_bind list" where
  "binds_of ls = scan_pairs read_bind ls"

section \<open>Rewriting the lines\<close>

text \<open>The loop of \<open>write_managed_workspace_bind_entry\<close>: the flags are \<open>skip_next\<close> and \<open>replaced\<close>.\<close>

fun replace_pair :: "string \<Rightarrow> string \<Rightarrow> bool \<Rightarrow> bool \<Rightarrow> string list \<Rightarrow> string list \<times> bool" where
  "replace_pair marker entry skip replaced [] = ([], replaced)"
| "replace_pair marker entry skip replaced (l # ls) =
     (if skip then replace_pair marker entry False replaced ls
      else if l = marker then
        (let (ls', r) = replace_pair marker entry True True ls in ((if replaced then [] else [marker, entry]) @ ls', r))
      else (let (ls', r) = replace_pair marker entry False replaced ls in (l # ls', r)))"

text \<open>The loop of \<open>write_managed_fstab_entry\<close>, which also watches for another owner of the mount point.\<close>

definition owns_target :: "string \<Rightarrow> string \<Rightarrow> bool" where
  "owns_target target line =
     (let columns = py_split line in
      columns \<noteq> [] \<and> \<not> starts_with ''#'' (py_lstrip line) \<and> 2 \<le> length columns \<and> columns ! 1 = target)"

definition claimable :: "string \<Rightarrow> string \<Rightarrow> bool" where
  "claimable source line =
     (let columns = py_split line in 3 \<le> length columns \<and> columns ! 0 = source \<and> columns ! 2 = ''cifs'')"

definition CLAIM_PREFIX :: string where "CLAIM_PREFIX = ''# disabled by agent-runtime-ops nas claim: ''"

fun replace_mount ::
  "string \<Rightarrow> string \<Rightarrow> string \<Rightarrow> string \<Rightarrow> bool \<Rightarrow> bool \<Rightarrow> bool \<Rightarrow> string list \<Rightarrow> (string list \<times> bool) result" where
  "replace_mount marker entry source target claim skip replaced [] = Inr ([], replaced)"
| "replace_mount marker entry source target claim skip replaced (l # ls) =
     (if skip then replace_mount marker entry source target claim False replaced ls
      else if l = marker then
        bindE (replace_mount marker entry source target claim True True ls) (\<lambda>(ls', r).
        Inr ((if replaced then [] else [marker, entry]) @ ls', r))
      else if owns_target target l then
        (if claim \<and> claimable source l then
           bindE (replace_mount marker entry source target claim False replaced ls) (\<lambda>(ls', r). Inr ((CLAIM_PREFIX @ l) # ls', r))
         else Inl (ValueError ''non-managed fstab entry already owns mountpoint''))
      else bindE (replace_mount marker entry source target claim False replaced ls) (\<lambda>(ls', r). Inr (l # ls', r)))"

text \<open>An entry that was not there is appended after a blank line.\<close>

definition append_pair :: "string \<Rightarrow> string \<Rightarrow> string list \<times> bool \<Rightarrow> string list" where
  "append_pair marker entry x =
     (let (ls, replaced) = x in
      if replaced then ls
      else (if ls \<noteq> [] \<and> last ls \<noteq> [] then ls @ [[]] else ls) @ [marker, entry])"

text \<open>The loop of the two removals.\<close>

fun remove_pairs :: "string \<Rightarrow> bool \<Rightarrow> string list \<Rightarrow> string list" where
  "remove_pairs marker skip [] = []"
| "remove_pairs marker skip (l # ls) =
     (if skip then remove_pairs marker False ls
      else if l = marker then remove_pairs marker True ls
      else l # remove_pairs marker False ls)"

text \<open>The loop of \<open>update_managed_fstab_credentials\<close>: every \<open>credentials=\<close> option of the first pair.\<close>

definition set_credentials :: "string \<Rightarrow> string \<Rightarrow> string option" where
  "set_credentials escaped line =
     (let columns = py_split line; options = split_on CHR '','' (columns ! 3) in
      if list_ex (starts_with CREDENTIALS) options
      then Some (join '' '' (columns[3 := join '','' (map (\<lambda>p. if starts_with CREDENTIALS p then CREDENTIALS @ escaped else p) options)]))
      else None)"

fun update_credentials :: "string \<Rightarrow> string \<Rightarrow> string list \<Rightarrow> string list option" where
  "update_credentials marker escaped (l # n # ls) =
     (if l = marker \<and> 4 \<le> length (py_split n)
      then map_option (\<lambda>n'. l # n' # ls) (set_credentials escaped n)
      else map_option ((#) l) (update_credentials marker escaped (n # ls)))"
| "update_credentials marker escaped ls = None"

section \<open>The file\<close>

definition read_lines :: "string \<Rightarrow> dir \<Rightarrow> string list result" where
  "read_lines name d = (case map_of d name of None \<Rightarrow> Inr [] | Some b \<Rightarrow> bindE (decode_utf8 b) (\<lambda>t. Inr (py_splitlines t)))"

definition backup_base :: "string \<Rightarrow> string \<Rightarrow> string" where
  "backup_base name stamp = name @ ''.agent-runtime-ops.bak.'' @ stamp"

text \<open>\<open>while backup.exists(): suffix += 1\<close>\<close>

definition backup_suffix :: "dir \<Rightarrow> string \<Rightarrow> nat \<Rightarrow> nat" where
  "backup_suffix d base n = free_suffix d base n"

definition backup_name :: "dir \<Rightarrow> string \<Rightarrow> string \<Rightarrow> string" where
  "backup_name d name stamp =
     (let base = backup_base name stamp in
      if map_of d base = None then base else base @ ''.'' @ show_nat (backup_suffix d base 2))"

definition backup_fstab :: "string \<Rightarrow> string \<Rightarrow> dir \<Rightarrow> dir" where
  "backup_fstab name stamp d = (case map_of d name of None \<Rightarrow> d | Some b \<Rightarrow> write_file (backup_name d name stamp) b d)"

definition replace_fstab :: "string \<Rightarrow> string \<Rightarrow> dir \<Rightarrow> unit result \<times> dir" where
  "replace_fstab name text d =
     (let tmp = name @ ''.agent-runtime-ops.tmp'' in
      case encode_utf8 text of
        Inl e \<Rightarrow> (Inl e, write_file tmp [] d)
      | Inr b \<Rightarrow> (Inr (), write_file name b (remove_file tmp d)))"

definition lines_text :: "string list \<Rightarrow> string" where
  "lines_text ls = join [CHR 0x0A] ls @ [CHR 0x0A]"

definition save_lines :: "string \<Rightarrow> string \<Rightarrow> string list \<Rightarrow> dir \<Rightarrow> unit result \<times> dir" where
  "save_lines name stamp ls d = replace_fstab name (lines_text ls) (backup_fstab name stamp d)"

section \<open>Operations\<close>

definition nas_options :: "string \<Rightarrow> bool \<Rightarrow> int \<Rightarrow> int \<Rightarrow> string list" where
  "nas_options credential read_write slot_uid data_gid =
     [CREDENTIALS @ fstab_escape credential, if read_write then ''rw'' else ''ro'', ''nosuid'', ''nodev'', ''vers=3.1.1'',
      ''iocharset=utf8'', ''noserverino'', ''uid='' @ show_int slot_uid, ''forceuid'', ''gid='' @ show_int data_gid, ''forcegid'',
      ''file_mode='' @ (if read_write then ''0660'' else ''0440''), ''dir_mode='' @ (if read_write then ''0770'' else ''0550''),
      ''soft'', ''nofail'', ''_netdev'']"

definition nas_entry :: "string \<Rightarrow> string \<Rightarrow> string list \<Rightarrow> string" where
  "nas_entry share mountpoint options =
     fstab_escape share @ '' '' @ fstab_escape mountpoint @ '' cifs '' @ join '','' options @ '' 0 0''"

definition write_managed_fstab_entry ::
  "string \<Rightarrow> string \<Rightarrow> string \<Rightarrow> string \<Rightarrow> int \<Rightarrow> int \<Rightarrow> bool \<Rightarrow> bool \<Rightarrow> string \<Rightarrow> string \<Rightarrow> dir \<Rightarrow> unit result \<times> dir" where
  "write_managed_fstab_entry slot share mountpoint credential slot_uid data_gid claim read_write name stamp d =
     (let marker = managed_fstab_marker slot share;
          entry = nas_entry share mountpoint (nas_options credential read_write slot_uid data_gid) in
      case bindE (read_lines name d) (\<lambda>ls.
             replace_mount marker entry (fstab_escape share) (fstab_escape mountpoint) claim False False ls) of
        Inl e \<Rightarrow> (Inl e, d)
      | Inr x \<Rightarrow> save_lines name stamp (append_pair marker entry x) d)"

definition bind_entry :: "string \<Rightarrow> string \<Rightarrow> string" where
  "bind_entry source target = fstab_escape source @ '' '' @ fstab_escape target @ '' none bind,nofail 0 0''"

definition write_managed_workspace_bind_entry ::
  "string \<Rightarrow> string \<Rightarrow> string \<Rightarrow> string \<Rightarrow> string \<Rightarrow> dir \<Rightarrow> unit result \<times> dir" where
  "write_managed_workspace_bind_entry slot source target name stamp d =
     (let marker = managed_workspace_bind_marker slot; entry = bind_entry source target in
      case read_lines name d of
        Inl e \<Rightarrow> (Inl e, d)
      | Inr ls \<Rightarrow> save_lines name stamp (append_pair marker entry (replace_pair marker entry False False ls)) d)"

definition remove_managed :: "string \<Rightarrow> string \<Rightarrow> string \<Rightarrow> dir \<Rightarrow> bool result \<times> dir" where
  "remove_managed marker name stamp d =
     (case read_lines name d of
        Inl e \<Rightarrow> (Inl e, d)
      | Inr ls \<Rightarrow>
          (if marker \<notin> set ls then (Inr False, d)
           else (case save_lines name stamp (remove_pairs marker False ls) d of
                   (Inl e, d') \<Rightarrow> (Inl e, d') | (Inr _, d') \<Rightarrow> (Inr True, d'))))"

definition remove_managed_fstab_entry :: "string \<Rightarrow> string \<Rightarrow> string \<Rightarrow> string \<Rightarrow> dir \<Rightarrow> bool result \<times> dir" where
  "remove_managed_fstab_entry slot share name stamp d = remove_managed (managed_fstab_marker slot share) name stamp d"

definition remove_managed_workspace_bind_entry :: "string \<Rightarrow> string \<Rightarrow> string \<Rightarrow> dir \<Rightarrow> bool result \<times> dir" where
  "remove_managed_workspace_bind_entry slot name stamp d = remove_managed (managed_workspace_bind_marker slot) name stamp d"

definition update_managed_fstab_credentials ::
  "string \<Rightarrow> string \<Rightarrow> string \<Rightarrow> string \<Rightarrow> string \<Rightarrow> dir \<Rightarrow> bool result \<times> dir" where
  "update_managed_fstab_credentials slot share credential name stamp d =
     (case read_lines name d of
        Inl e \<Rightarrow> (Inl e, d)
      | Inr ls \<Rightarrow>
          (case update_credentials (managed_fstab_marker slot share) (fstab_escape credential) ls of
             None \<Rightarrow> (Inr False, d)
           | Some ls' \<Rightarrow>
               (case save_lines name stamp ls' d of (Inl e, d') \<Rightarrow> (Inl e, d') | (Inr _, d') \<Rightarrow> (Inr True, d'))))"

definition read_managed_fstab_entries :: "string \<Rightarrow> dir \<Rightarrow> managed_entry list result" where
  "read_managed_fstab_entries name d = bindE (read_lines name d) (\<lambda>ls. Inr (entries_of ls))"

definition read_managed_workspace_binds :: "string \<Rightarrow> dir \<Rightarrow> managed_bind list result" where
  "read_managed_workspace_binds name d = bindE (read_lines name d) (\<lambda>ls. Inr (binds_of ls))"

end
