(* ===== verification/Fstab_Properties.thy ===== *)
theory Fstab_Properties
  imports Fstab
begin

text \<open>
  What the managed entries guarantee: when the escaping is inverted, that a written entry is read back,
  that rewriting touches only its own pair, and that the previous file is kept.
\<close>

section \<open>Escaping\<close>

definition esc_char :: "char \<Rightarrow> string" where
  "esc_char c = (if c = CHR 0x5C then [CHR 0x5C, CHR 0x5C] else if c = CHR '' '' then [CHR 0x5C, CHR ''0'', CHR ''4'', CHR ''0'']
     else if c = CHR 0x09 then [CHR 0x5C, CHR ''0'', CHR ''1'', CHR ''1''] else if c = CHR 0x0A then [] else [c])"

lemma replace_char_simps [simp]:
  "replace_char c t [] = []" "replace_char c t (x # s) = (if x = c then t else [x]) @ replace_char c t s"
  "replace_char c t (a @ b) = replace_char c t a @ replace_char c t b"
  by (simp_all add: replace_char_def)

lemma fstab_escape_map: "fstab_escape v = concat (map esc_char v)"
  unfolding fstab_escape_def by (induction v) (auto simp: esc_char_def)

lemma fstab_escape_simps [simp]:
  "fstab_escape [] = []" "fstab_escape (c # s) = esc_char c @ fstab_escape s" "fstab_escape (a @ b) = fstab_escape a @ fstab_escape b"
  by (simp_all add: fstab_escape_map)

declare fstab_unescape.simps(2) [simp del]

lemma unescape_plain: "c \<noteq> CHR 0x5C \<Longrightarrow> fstab_unescape (c # s) = c # fstab_unescape s"
  by (simp add: fstab_unescape.simps(2))

lemma unescape_esc_char:
  assumes "c \<noteq> CHR 0x0A" and "c = CHR 0x5C \<longrightarrow> r \<noteq> []"
  shows "fstab_unescape (esc_char c @ r) = c # fstab_unescape r"
proof (cases "c = CHR 0x5C")
  case True
  then have "2 \<le> length (CHR 0x5C # r)" using assms(2) by (cases r) auto
  then show ?thesis using True by (simp add: esc_char_def fstab_unescape.simps(2) [of "CHR 0x5C" "CHR 0x5C # r"] take_Cons')
next
  case False
  then show ?thesis using assms(1) by (simp add: esc_char_def fstab_unescape.simps(2) unescape_plain)
qed

lemma unescape_append:
  "CHR 0x0A \<notin> set v \<Longrightarrow> v = [] \<or> last v \<noteq> CHR 0x5C \<or> r \<noteq> [] \<Longrightarrow> fstab_unescape (fstab_escape v @ r) = v @ fstab_unescape r"
proof (induction v)
  case (Cons c v)
  have "c = CHR 0x5C \<longrightarrow> fstab_escape v @ r \<noteq> []"
  proof (cases v)
    case Nil
    then show ?thesis using Cons.prems by simp
  next
    case (Cons a b)
    then have "a \<noteq> CHR 0x0A" using Cons.prems by auto
    then show ?thesis using Cons by (simp add: esc_char_def)
  qed
  then show ?case using unescape_esc_char [of c "fstab_escape v @ r"] Cons by (cases v) auto
qed simp

lemma escape_no_newline: "CHR 0x0A \<notin> set (fstab_escape v)"
  by (induction v) (auto simp: esc_char_def)

lemma unescape_no_newline: "CHR 0x0A \<notin> set s \<Longrightarrow> CHR 0x0A \<notin> set (fstab_unescape s)"
proof (induction s rule: fstab_unescape.induct)
  case (2 c s)
  have "CHR 0x0A \<notin> set (drop 3 s)" "CHR 0x0A \<notin> set (tl s)" using 2(5) by (auto dest: in_set_dropD) (cases s, auto)
  then show ?case using 2 by (auto simp: fstab_unescape.simps(2))
qed simp

lemma fstab_escape_inverse_iff: "fstab_unescape (fstab_escape v) = v \<longleftrightarrow> CHR 0x0A \<notin> set v \<and> (v = [] \<or> last v \<noteq> CHR 0x5C)"
proof (cases "CHR 0x0A \<in> set v")
  case True
  then show ?thesis using unescape_no_newline [OF escape_no_newline, of v] by auto
next
  case no_newline: False
  show ?thesis
  proof (cases "v = [] \<or> last v \<noteq> CHR 0x5C")
    case True
    then show ?thesis using unescape_append [OF no_newline, of "[]"] no_newline by simp
  next
    case False
    then obtain u where v: "v = u @ [CHR 0x5C]" by (metis append_butlast_last_id)
    have "fstab_unescape (fstab_escape v) = u @ fstab_unescape [CHR 0x5C, CHR 0x5C]"
      using unescape_append [of u "[CHR 0x5C, CHR 0x5C]"] no_newline by (simp add: v esc_char_def)
    also have "\<dots> = v @ [CHR 0x5C]" by (simp add: v fstab_unescape.simps(2))
    finally show ?thesis using False by simp
  qed
qed


section \<open>Fields without separators\<close>

text \<open>A value that survives the columns of a line: its only white space is the blank and the tab.\<close>

definition field_ok :: "string \<Rightarrow> bool" where
  "field_ok v \<longleftrightarrow> utf8_valid v \<and> v \<noteq> [] \<and> list_all (\<lambda>c. is_space c \<longrightarrow> c = '' '' \<or> c = [CHR 0x09]) (py_chars v)"

lemma escape_high: "\<forall>a\<in>set c. 128 \<le> (of_char a :: nat) \<Longrightarrow> fstab_escape c = c"
  by (induction c) (auto simp: esc_char_def)

lemma no_space_ascii: "no_space (c # s) \<longleftrightarrow> \<not> is_space [c] \<and> no_space s" if "of_char c < (128::nat)"
  using that by (auto simp: no_space_def py_chars_ascii utf8_valid_ascii_Cons)

lemma no_space_Nil [simp]: "no_space []"
  by (simp add: no_space_def)

lemma plain_not_space: "\<not> is_space [CHR 0x5C]" "\<not> is_space ''0''" "\<not> is_space ''1''" "\<not> is_space ''4''"
  by (simp_all add: is_space_def code_point_ascii)

lemma newline_space: "is_space [CHR 0x0A]"
  by (simp add: is_space_def code_point_ascii)

lemma escape_one_char:
  assumes "one_char c" and "is_space c \<longrightarrow> c = '' '' \<or> c = [CHR 0x09]"
  shows "no_space (fstab_escape c)" and "fstab_escape c \<noteq> []"
proof -
  have "no_space (fstab_escape c) \<and> fstab_escape c \<noteq> []"
  proof (cases "\<exists>a. c = [a] \<and> of_char a < (128::nat)")
    case True
    then obtain a where a: "c = [a]" "of_char a < (128::nat)" by blast
    have "a \<noteq> CHR 0x0A" using assms(2) newline_space a(1) by auto
    then show ?thesis
      using assms(2) a by (auto simp: esc_char_def no_space_ascii plain_not_space)
  next
    case False
    then have high: "\<forall>a\<in>set c. 128 \<le> (of_char a :: nat)" using assms(1) by (auto simp: one_char_def)
    have "\<not> is_space c" using assms(2) high by auto
    moreover have "c \<noteq> []" using assms(1) by (auto simp: one_char_def)
    ultimately show ?thesis using assms(1) by (simp add: escape_high [OF high] no_space_def one_char_def)
  qed
  then show "no_space (fstab_escape c)" and "fstab_escape c \<noteq> []" by simp_all
qed

lemma escape_chars:
  "list_all one_char cs \<Longrightarrow> list_all (\<lambda>c. is_space c \<longrightarrow> c = '' '' \<or> c = [CHR 0x09]) cs \<Longrightarrow> no_space (fstab_escape (concat cs))"
  by (induction cs) (auto simp: escape_one_char)

lemma field_escape_no_space:
  assumes "field_ok v"
  shows "no_space (fstab_escape v)"
  using escape_chars [of "py_chars v"] assms py_chars_one [of v] by (simp add: field_ok_def concat_py_chars)

lemma field_escape_nonempty:
  assumes "field_ok v"
  shows "fstab_escape v \<noteq> []"
proof -
  obtain c cs where v: "py_chars v = c # cs" using assms by (metis field_ok_def concat_py_chars concat.simps(1) neq_Nil_conv)
  then have "v = c @ concat cs" by (metis concat_py_chars concat.simps(2))
  then show ?thesis using assms escape_one_char(2) [of c] py_chars_one [of v] v by (auto simp: field_ok_def)
qed

lemma field_no_newline:
  assumes "field_ok v"
  shows "CHR 0x0A \<notin> set v" and "line_ok v"
proof -
  have "\<not> is_line_break '' ''" "\<not> is_line_break [CHR 0x09]" by (simp_all add: is_line_break_def code_point_ascii)
  then show "line_ok v" using assms by (auto simp: field_ok_def line_ok_def list_all_iff dest: line_break_space)
  show "CHR 0x0A \<notin> set v"
  proof
    assume "CHR 0x0A \<in> set v"
    then obtain c where c: "c \<in> set (py_chars v)" "CHR 0x0A \<in> set c" by (metis UN_E set_concat concat_py_chars)
    have "one_char c" using assms py_chars_one [of v] c(1) by (auto simp: field_ok_def list_all_iff)
    then have "c = [CHR 0x0A]" using c(2) by (auto simp: one_char_def)
    then show False using c(1) assms newline_space by (auto simp: field_ok_def list_all_iff)
  qed
qed

lemma field_round_trip: "field_ok v \<Longrightarrow> last v \<noteq> CHR 0x5C \<Longrightarrow> fstab_unescape (fstab_escape v) = v"
  using unescape_append [of v "[]"] field_no_newline(1) by auto


section \<open>Markers\<close>

lemma take_word_word:
  assumes "no_space w" and "r = [] \<or> hd r = CHR '' ''"
  shows "take_word (w @ r) = (w, r)"
proof -
  have "py_chars r = [] \<or> hd (py_chars r) = '' ''" using assms(2) by (cases r) (auto simp: py_chars_ascii)
  then have "takeWhile (\<lambda>c. \<not> is_space c) (py_chars r) = []" "dropWhile (\<lambda>c. \<not> is_space c) (py_chars r) = py_chars r"
    by (cases "py_chars r"; auto)+
  with assms(1) show ?thesis
    by (simp add: take_word_def no_space_def py_chars_append list_all_iff takeWhile_append dropWhile_append concat_py_chars)
qed

lemma take_word_split: "take_word s = (w, r) \<Longrightarrow> s = w @ r"
  by (auto simp: take_word_def Let_def concat_append [symmetric] concat_py_chars simp del: concat_append)

lemma starts_with_append [simp]: "starts_with p (p @ s)"
  by (simp add: starts_with_def)

lemma starts_with_drop: "starts_with p s \<Longrightarrow> p @ drop (length p) s = s"
  by (auto simp: starts_with_def) (metis append_take_drop_id)

lemma match_marker_marker:
  assumes "no_space slot" and "slot \<noteq> []" and "share \<noteq> []"
  shows "match_marker (managed_fstab_marker slot share) = Some (slot, share)"
proof -
  have "take_word (slot @ SOURCE_SEP @ share) = (slot, SOURCE_SEP @ share)"
    by (rule take_word_word [OF assms(1)]) (simp add: SOURCE_SEP_def)
  then show ?thesis using assms by (simp add: match_marker_def managed_fstab_marker_def)
qed

lemma match_marker_line:
  assumes "match_marker line = Some (slot, share)"
  shows "line = managed_fstab_marker slot share"
  using assms
  by (auto simp: match_marker_def managed_fstab_marker_def split: if_splits prod.splits dest!: take_word_split starts_with_drop)


section \<open>The rewritten lines\<close>

lemma py_split_marker: "\<exists>r. py_split (managed_fstab_marker slot share) = ''#'' # ''agent-runtime-ops'' # ''nas'' # r"
proof -
  have w: "no_space ''#''" "no_space ''agent-runtime-ops''" "no_space ''nas''"
    by (simp_all add: no_space_ascii is_space_def code_point_ascii)
  have "managed_fstab_marker slot share = ''#'' @ '' '' @ ''agent-runtime-ops'' @ '' '' @ ''nas'' @ '' '' @ ''slot='' @ slot @ SOURCE_SEP @ share"
    by (simp add: managed_fstab_marker_def NAS_PREFIX_def)
  then show ?thesis using py_split_word(1) [OF w(1)] py_split_word(1) [OF w(2)] py_split_word(1) [OF w(3)] by auto
qed

lemma py_split_entry:
  assumes "field_ok share" and "field_ok mountpoint" and "no_space (join '','' options)" and "join '','' options \<noteq> []"
  shows "py_split (nas_entry share mountpoint options) =
    [fstab_escape share, fstab_escape mountpoint, ''cifs'', join '','' options, ''0'', ''0'']"
proof -
  have w: "no_space ''cifs''" "no_space ''0''" by (simp_all add: no_space_ascii is_space_def code_point_ascii)
  have "nas_entry share mountpoint options =
      fstab_escape share @ '' '' @ fstab_escape mountpoint @ '' '' @ ''cifs'' @ '' '' @ join '','' options @ '' '' @ ''0'' @ '' '' @ ''0''"
    by (simp add: nas_entry_def)
  moreover have "py_split (''cifs'' @ '' '' @ r) = ''cifs'' # py_split r" "py_split (''0'' @ '' '' @ r) = ''0'' # py_split r" for r
    by (rule py_split_word(1); use w in simp)+
  moreover have "py_split ''0'' = [''0'']" by (rule py_split_word(2)) (use w in simp_all)
  ultimately show ?thesis
    by (simp only: py_split_word(1) [OF assms(3,4)] py_split_word(1) [OF field_escape_no_space field_escape_nonempty] assms(1,2))
qed

lemma claim_not_marker: "CLAIM_PREFIX @ l \<noteq> managed_fstab_marker slot share"
  by (simp add: CLAIM_PREFIX_def managed_fstab_marker_def NAS_PREFIX_def)

text \<open>The pair stands exactly once in the lines.\<close>

definition sole_pair :: "string \<Rightarrow> string \<Rightarrow> string list \<Rightarrow> bool" where
  "sole_pair marker entry ls \<longleftrightarrow> (\<exists>a b. ls = a @ marker # entry # b \<and> marker \<notin> set a \<and> marker \<notin> set b)"

lemma sole_pair_Cons: "sole_pair marker entry ls \<Longrightarrow> l \<noteq> marker \<Longrightarrow> sole_pair marker entry (l # ls)"
  unfolding sole_pair_def by (metis append_Cons set_ConsD)

lemma sole_pair_start: "marker \<notin> set ls \<Longrightarrow> sole_pair marker entry (marker # entry # ls)"
  unfolding sole_pair_def by (metis append_Nil empty_iff list.set(1))

lemma replace_mount_sole:
  assumes "replace_mount marker entry source target claim skip replaced ls = Inr (ls', r)"
    and "\<And>l. CLAIM_PREFIX @ l \<noteq> marker"
  shows "(replaced \<longrightarrow> r) \<and> (if r \<and> \<not> replaced then sole_pair marker entry ls' else marker \<notin> set ls')"
  using assms(1)
proof (induction ls arbitrary: skip replaced ls' r)
  case (Cons l ls)
  then show ?case
    by (auto simp: bindE_Inr_iff assms(2) assms(2) [symmetric] sole_pair_Cons sole_pair_start split: if_splits)
qed simp

lemma replace_mount_rest:
  assumes "replace_mount marker entry source target claim skip replaced ls = Inr (ls', r)"
    and "\<And>l. CLAIM_PREFIX @ l \<noteq> marker"
  shows "remove_pairs marker False ls' =
    map (\<lambda>l. if owns_target target l then CLAIM_PREFIX @ l else l) (remove_pairs marker skip ls)"
  using assms(1)
proof (induction ls arbitrary: skip replaced ls' r)
  case (Cons l ls)
  then show ?case by (auto simp: bindE_Inr_iff assms(2) split: if_splits)
qed simp


section \<open>Reading the entry back\<close>

lemma sole_pair_end: "marker \<notin> set ls \<Longrightarrow> sole_pair marker entry (ls @ [marker, entry])"
  unfolding sole_pair_def by (metis empty_iff list.set(1))

lemma append_pair_sole:
  assumes "replace_mount marker entry source target claim False False ls = Inr x"
    and "\<And>l. CLAIM_PREFIX @ l \<noteq> marker" and "marker \<noteq> []"
  shows "sole_pair marker entry (append_pair marker entry x)"
proof -
  obtain ls' r where x: "x = (ls', r)" by force
  note sole = replace_mount_sole [OF assms(1) [unfolded x] assms(2)]
  show ?thesis
  proof (cases r)
    case True
    then show ?thesis using sole by (simp add: x append_pair_def)
  next
    case False
    then have "marker \<notin> set (if ls' \<noteq> [] \<and> last ls' \<noteq> [] then ls' @ [[]] else ls')" using sole assms(3) by simp
    from sole_pair_end [OF this, of entry] show ?thesis using False by (simp only: x append_pair_def Let_def prod.case if_False)
  qed
qed

lemma filter_zip_sole:
  assumes "marker \<notin> set a" and "marker \<notin> set b" and "entry \<noteq> marker"
  shows "filter (\<lambda>p. fst p = marker) (zip (a @ marker # entry # b) (tl (a @ marker # entry # b))) = [(marker, entry)]"
  using assms(1)
proof (induction a)
  case Nil
  have "filter (\<lambda>p. fst p = marker) (zip b c) = []" for c using assms(2) by (auto simp: filter_empty_conv dest: set_zip_leftD)
  then show ?case using assms(3) by (cases b) auto
next
  case (Cons l a)
  then show ?case by (cases a) auto
qed

lemma filter_map_filter:
  assumes "\<And>x y. f x = Some y \<Longrightarrow> P y \<longleftrightarrow> Q x"
  shows "filter P (List.map_filter f xs) = List.map_filter f (filter Q xs)"
  using assms by (induction xs) (auto simp: map_filter_simps split: option.splits)

lemma filter_scan_pairs:
  assumes "\<And>l n e. f l n = Some e \<Longrightarrow> P e \<longleftrightarrow> l = marker"
  shows "filter P (scan_pairs f ls) = List.map_filter (\<lambda>(l, n). f l n) (filter (\<lambda>p. fst p = marker) (zip ls (tl ls)))"
  unfolding scan_pairs_def by (rule filter_map_filter) (auto simp: assms)

lemma split_on_plain: "c \<notin> set s \<Longrightarrow> split_on c s = [s]" "c \<notin> set s \<Longrightarrow> split_on c (s @ c # r) = s # split_on c r"
  by (induction s) auto

lemma split_on_join:
  "list_all (\<lambda>s. CHR '','' \<notin> set s) (x # xs) \<Longrightarrow> split_on CHR '','' (join '','' (x # xs)) = x # xs"
  by (induction xs arbitrary: x) (auto simp: split_on_plain)

lemma digit_plain: "is_digit c \<Longrightarrow> of_char c < (128::nat) \<and> \<not> is_space [c] \<and> c \<noteq> CHR '',''"
  by (auto simp: is_digit_def less_eq_char_def is_space_def code_point_ascii)

lemma digits_unspaced: "list_all is_digit s \<Longrightarrow> CHR '','' \<notin> set s \<and> no_space s"
  by (induction s) (auto simp: no_space_ascii dest: digit_plain)

lemma show_int_unspaced: "CHR '','' \<notin> set (show_int i)" "no_space (show_int i)"
  using digits_unspaced [OF conjunct1 [OF show_nat_digits]]
  by (auto simp: show_int_def no_space_ascii is_space_def code_point_ascii)

lemma escape_comma: "CHR '','' \<notin> set v \<Longrightarrow> CHR '','' \<notin> set (fstab_escape v)"
  by (induction v) (auto simp: esc_char_def)

lemma no_space_join: "list_all no_space xs \<Longrightarrow> no_space (join '','' xs)"
  by (induction "'',''" xs rule: join.induct) (auto simp: no_space_ascii is_space_def code_point_ascii)

lemma options_plain:
  assumes "field_ok credential" and "CHR '','' \<notin> set credential"
  shows "list_all (\<lambda>s. CHR '','' \<notin> set s) (nas_options credential rw uid gid)"
    and "no_space (join '','' (nas_options credential rw uid gid))"
proof -
  show "list_all (\<lambda>s. CHR '','' \<notin> set s) (nas_options credential rw uid gid)"
    by (simp add: nas_options_def CREDENTIALS_def show_int_unspaced escape_comma [OF assms(2)])
  have "list_all no_space (nas_options credential rw uid gid)"
    by (simp add: nas_options_def CREDENTIALS_def show_int_unspaced field_escape_no_space [OF assms(1)] no_space_ascii is_space_def code_point_ascii)
  then show "no_space (join '','' (nas_options credential rw uid gid))" by (rule no_space_join)
qed

lemma read_entry_written:
  assumes "no_space slot" and "slot \<noteq> []" and "field_ok share" and "field_ok mountpoint" and "field_ok credential"
    and "CHR '','' \<notin> set credential" and "last mountpoint \<noteq> CHR 0x5C" and "last credential \<noteq> CHR 0x5C"
  shows "read_entry (managed_fstab_marker slot share) (nas_entry share mountpoint (nas_options credential rw uid gid)) =
    Some \<lparr>me_slot = slot, me_source = share, me_mountpoint = mountpoint, me_access = (if rw then ''rw'' else ''ro''), me_credentials = credential\<rparr>"
proof -
  let ?o = "nas_options credential rw uid gid"
  have "join '','' ?o \<noteq> []" by (simp add: nas_options_def CREDENTIALS_def)
  note columns = py_split_entry [OF assms(3,4) options_plain(2) [OF assms(5,6)] this]
  have options: "split_on CHR '','' (join '','' ?o) = ?o"
    using options_plain(1) [OF assms(5,6), of rw uid gid] by (simp only: nas_options_def split_on_join)
  have "option_credentials ?o = credential"
    using field_round_trip [OF assms(5,8)] by (simp add: option_credentials_def nas_options_def CREDENTIALS_def starts_with_def)
  moreover have "''rw'' \<in> set ?o \<longleftrightarrow> rw" by (auto simp: nas_options_def CREDENTIALS_def)
  ultimately show ?thesis
    using assms(3) field_round_trip [OF assms(4,7)] match_marker_marker [OF assms(1,2), of share]
    by (simp add: read_entry_def columns options field_ok_def)
qed


section \<open>The file\<close>

lemma lines_text_concat: "ls \<noteq> [] \<Longrightarrow> lines_text ls = concat (map (\<lambda>l. l @ [CHR 0x0A]) ls)"
  unfolding lines_text_def by (induction "[CHR 0x0A]" ls rule: join.induct) auto

lemma lines_text_valid: "list_all line_ok ls \<Longrightarrow> utf8_valid (lines_text ls)"
  unfolding lines_text_def
  by (induction "[CHR 0x0A]" ls rule: join.induct) (auto simp: line_ok_def utf8_valid_append utf8_valid_ascii_Cons)

text \<open>An empty list of lines is written as one empty line.\<close>

lemma save_lines_read:
  assumes "list_all line_ok ls" and "ls \<noteq> []"
  shows "fst (save_lines name stamp ls d) = Inr ()"
    and "read_lines name (snd (save_lines name stamp ls d)) = Inr ls"
  using assms lines_text_valid [OF assms(1)] py_splitlines_text [OF assms(1)]
  by (simp_all add: save_lines_def replace_fstab_def encode_utf8_def decode_utf8_def read_lines_def write_file_map_of lines_text_concat)

lemma read_lines_ok: "read_lines name d = Inr ls \<Longrightarrow> list_all line_ok ls"
  by (auto simp: read_lines_def bindE_Inr_iff decode_utf8_def split: option.splits if_splits intro: py_splitlines_ok)

lemma claim_line_ok: "line_ok l \<Longrightarrow> line_ok (CLAIM_PREFIX @ l)"
proof -
  have "line_ok CLAIM_PREFIX"
    by (simp add: line_ok_def CLAIM_PREFIX_def py_chars_ascii utf8_valid_ascii_Cons is_line_break_def code_point_ascii)
  then show "line_ok l \<Longrightarrow> line_ok (CLAIM_PREFIX @ l)" by simp
qed

lemma replace_mount_line_ok:
  assumes "replace_mount marker entry source target claim skip replaced ls = Inr (ls', r)"
    and "list_all line_ok ls" and "line_ok marker" and "line_ok entry"
  shows "list_all line_ok ls'"
  using assms(1,2)
proof (induction ls arbitrary: skip replaced ls' r)
  case (Cons l ls)
  then show ?case using assms(3,4) by (auto simp: bindE_Inr_iff claim_line_ok split: if_splits)
qed simp

lemma append_pair_line_ok:
  assumes "list_all line_ok (fst x)" and "line_ok marker" and "line_ok entry"
  shows "list_all line_ok (append_pair marker entry x)"
  using assms by (auto simp: append_pair_def line_ok_def split: prod.splits)

lemma marker_line_ok:
  assumes "no_space slot" and "field_ok share"
  shows "line_ok (managed_fstab_marker slot share)"
proof -
  have "line_ok NAS_PREFIX" "line_ok SOURCE_SEP"
    by (simp_all add: line_ok_def NAS_PREFIX_def SOURCE_SEP_def py_chars_ascii utf8_valid_ascii_Cons is_line_break_def code_point_ascii)
  then show ?thesis using no_space_line [OF assms(1)] field_no_newline(2) [OF assms(2)] by (simp add: managed_fstab_marker_def)
qed

lemma entry_line_ok:
  assumes "field_ok share" and "field_ok mountpoint" and "no_space (join '','' options)"
  shows "line_ok (nas_entry share mountpoint options)"
proof -
  have "line_ok '' ''" "line_ok '' cifs ''" "line_ok '' 0 0''"
    by (simp_all add: line_ok_def py_chars_ascii utf8_valid_ascii_Cons is_line_break_def code_point_ascii)
  then show ?thesis
    using no_space_line [OF assms(3)] no_space_line [OF field_escape_no_space [OF assms(1)]] no_space_line [OF field_escape_no_space [OF assms(2)]]
    unfolding nas_entry_def by (simp only: line_ok_append)
qed

lemma entry_not_marker:
  assumes "field_ok share" and "field_ok mountpoint" and "no_space (join '','' options)" and "join '','' options \<noteq> []"
  shows "nas_entry share mountpoint options \<noteq> managed_fstab_marker slot share'"
  using py_split_entry [OF assms] py_split_marker [of slot share'] by auto

lemma replace_mount_error:
  "case replace_mount marker entry source target claim skip replaced ls of
     Inl e \<Rightarrow> e = ValueError ''non-managed fstab entry already owns mountpoint''
       \<and> list_ex (\<lambda>l. owns_target target l \<and> \<not> (claim \<and> claimable source l)) (remove_pairs marker skip ls)
   | Inr x \<Rightarrow> \<not> list_ex (\<lambda>l. owns_target target l \<and> \<not> (claim \<and> claimable source l)) (remove_pairs marker skip ls)"
proof (induction ls arbitrary: skip replaced)
  case (Cons l ls)
  from Cons [of False replaced] Cons [of True True] show ?case
    by (cases claim; cases "replace_mount marker entry source target claim False replaced ls";
        cases "replace_mount marker entry source target claim True True ls") (simp_all add: case_prod_beta')
qed simp

lemma replace_mount_flag:
  assumes "replace_mount marker entry source target claim False False ls = Inr (ls', r)" and "\<And>l. CLAIM_PREFIX @ l \<noteq> marker"
  shows "r \<longleftrightarrow> marker \<in> set ls"
  using assms(1)
proof (induction ls arbitrary: ls' r)
  case (Cons l ls)
  show ?case
  proof (cases "l = marker")
    case True
    then show ?thesis using Cons.prems by (auto simp: bindE_Inr_iff dest: replace_mount_sole [OF _ assms(2)])
  next
    case False
    then show ?thesis using Cons by (auto simp: bindE_Inr_iff split: if_splits)
  qed
qed simp

lemma remove_pairs_absent: "marker \<notin> set ls \<Longrightarrow> remove_pairs marker False ls = ls"
  by (induction ls) auto

lemma append_pair_rest:
  assumes "replace_mount marker entry source target claim False False ls = Inr x"
    and "\<And>l. CLAIM_PREFIX @ l \<noteq> marker" and "marker \<noteq> []"
    and "rest = map (\<lambda>l. if owns_target target l then CLAIM_PREFIX @ l else l) (remove_pairs marker False ls)"
  shows "remove_pairs marker False (append_pair marker entry x) =
    rest @ (if marker \<in> set ls \<or> rest = [] \<or> last rest = [] then [] else [[]])"
proof -
  obtain ls' r where x: "x = (ls', r)" by force
  note e = assms(1) [unfolded x]
  have rest: "remove_pairs marker False ls' = rest" using replace_mount_rest [OF e assms(2)] assms(4) by simp
  show ?thesis
  proof (cases r)
    case True
    then show ?thesis using replace_mount_flag [OF e assms(2)] rest by (simp add: x append_pair_def)
  next
    case False
    then have "marker \<notin> set ls'" using replace_mount_sole [OF e assms(2)] by simp
    then have "ls' = rest" using rest remove_pairs_absent by simp
    moreover have "remove_pairs marker False (ws @ [marker, entry]) = ws" if "marker \<notin> set ws" for ws
      using that by (induction ws) auto
    from this [of rest] this [of "rest @ [[]]"] \<open>marker \<notin> set ls'\<close> \<open>ls' = rest\<close> assms(3)
    have "remove_pairs marker False (rest @ [marker, entry]) = rest"
      "remove_pairs marker False (rest @ [[], marker, entry]) = rest @ [[]]" by simp_all
    ultimately show ?thesis
      using False replace_mount_flag [OF e assms(2)] by (simp add: x append_pair_def)
  qed
qed


section \<open>What an operation leaves\<close>

text \<open>Any number of the five rewriting operations on the file \<open>name\<close>, whatever they return.\<close>

inductive fstab_step :: "string \<Rightarrow> dir \<Rightarrow> dir \<Rightarrow> bool" for name where
  write_mount: "fstab_step name d (snd (write_managed_fstab_entry slot share mountpoint credential uid gid claim rw name stamp d))"
| write_bind: "fstab_step name d (snd (write_managed_workspace_bind_entry slot source target name stamp d))"
| remove_mount: "fstab_step name d (snd (remove_managed_fstab_entry slot share name stamp d))"
| remove_bind: "fstab_step name d (snd (remove_managed_workspace_bind_entry slot name stamp d))"
| update_mount: "fstab_step name d (snd (update_managed_fstab_credentials slot share credential name stamp d))"

lemma snd_save_result: "snd (case x of (Inl e, d) \<Rightarrow> (Inl e, d) | (Inr u, d) \<Rightarrow> (Inr True, d)) = snd x"
  by (cases x; cases "fst x") auto

lemma remove_managed_cases:
  "snd (remove_managed marker name stamp d) = d \<or> (\<exists>stamp' ls. snd (remove_managed marker name stamp d) = snd (save_lines name stamp' ls d))"
  by (auto simp: remove_managed_def snd_save_result split: sum.splits)

lemma fstab_step_cases:
  assumes "fstab_step name d d'"
  shows "d' = d \<or> (\<exists>stamp ls. d' = snd (save_lines name stamp ls d))"
  using assms
proof cases
  case write_mount
  then show ?thesis by (auto simp: write_managed_fstab_entry_def Let_def split: sum.splits)
next
  case write_bind
  then show ?thesis by (auto simp: write_managed_workspace_bind_entry_def Let_def split: sum.splits)
next
  case remove_mount
  then show ?thesis by (simp add: remove_managed_fstab_entry_def remove_managed_cases)
next
  case remove_bind
  then show ?thesis by (simp add: remove_managed_workspace_bind_entry_def remove_managed_cases)
next
  case update_mount
  then show ?thesis
    by (auto simp: update_managed_fstab_credentials_def snd_save_result split: sum.splits option.splits)
qed

lemma backup_name_free: "map_of d (backup_name d name stamp) = None"
  using free_suffix_free [of d] by (simp add: backup_name_def backup_suffix_def Let_def)

lemma backup_name_shape: "\<exists>s. backup_name d name stamp = name @ ''.agent-runtime-ops.bak.'' @ s"
  by (auto simp: backup_name_def backup_base_def Let_def)

lemma backup_name_distinct:
  "backup_name d name stamp \<noteq> name" "backup_name d name stamp \<noteq> name @ ''.agent-runtime-ops.tmp''"
  using backup_name_shape [of d name stamp] by auto

lemma save_lines_files:
  assumes "map_of d n = Some b" and "n \<noteq> name @ ''.agent-runtime-ops.tmp''"
  shows "map_of (snd (save_lines name stamp ls d)) (if n = name \<and> fst (save_lines name stamp ls d) = Inr () then backup_name d name stamp else n) = Some b"
  using assms backup_name_free [of d name stamp] backup_name_distinct [of d name stamp]
  by (cases "encode_utf8 (lines_text ls)")
    (auto simp: save_lines_def replace_fstab_def backup_fstab_def Let_def write_file_map_of remove_file_map_of split: option.splits)


lemma fstab_step_files:
  assumes "fstab_step name d d'" and "map_of d n = Some b" and "n \<noteq> name @ ''.agent-runtime-ops.tmp''"
  shows "if n = name then \<exists>k. k \<noteq> name @ ''.agent-runtime-ops.tmp'' \<and> map_of d' k = Some b else map_of d' n = Some b"
  using fstab_step_cases [OF assms(1)]
proof (elim disjE exE)
  fix stamp ls
  assume "d' = snd (save_lines name stamp ls d)"
  then show ?thesis
    using save_lines_files [OF assms(2,3), of stamp ls] assms(3) backup_name_distinct [of d name stamp] by (auto split: if_splits)
qed (use assms in auto)

lemma write_mount_outcome:
  assumes "no_space slot" and "field_ok share" and "field_ok mountpoint" and "field_ok credential"
    and "CHR '','' \<notin> set credential" and "read_lines name d = Inr ls"
    and "marker = managed_fstab_marker slot share" and "others = remove_pairs marker False ls"
    and "rest = map (\<lambda>l. if owns_target (fstab_escape mountpoint) l then CLAIM_PREFIX @ l else l) others"
  shows "if list_ex (\<lambda>l. owns_target (fstab_escape mountpoint) l \<and> \<not> (claim \<and> claimable (fstab_escape share) l)) others
    then write_managed_fstab_entry slot share mountpoint credential uid gid claim rw name stamp d =
      (Inl (ValueError ''non-managed fstab entry already owns mountpoint''), d)
    else \<exists>d' ls'. write_managed_fstab_entry slot share mountpoint credential uid gid claim rw name stamp d = (Inr (), d')
      \<and> read_lines name d' = Inr ls'
      \<and> sole_pair marker (nas_entry share mountpoint (nas_options credential rw uid gid)) ls'
      \<and> remove_pairs marker False ls' = rest @ (if marker \<in> set ls \<or> rest = [] \<or> last rest = [] then [] else [[]])"
proof -
  let ?entry = "nas_entry share mountpoint (nas_options credential rw uid gid)"
  let ?w = "replace_mount marker ?entry (fstab_escape share) (fstab_escape mountpoint) claim False False ls"
  have claim: "\<And>l. CLAIM_PREFIX @ l \<noteq> marker" unfolding assms(7) by (rule claim_not_marker)
  have "marker \<noteq> []" by (simp add: assms(7) managed_fstab_marker_def NAS_PREFIX_def)
  have ok: "line_ok marker" "line_ok ?entry"
    unfolding assms(7) by (rule marker_line_ok entry_line_ok options_plain assms)+
  note e = replace_mount_error [of "fstab_escape mountpoint" claim "fstab_escape share" marker False ls ?entry False, folded assms(8)]
  show ?thesis
  proof (cases ?w)
    case (Inl x)
    then show ?thesis using e by (simp add: write_managed_fstab_entry_def assms(6) assms(7) [symmetric])
  next
    case (Inr x)
    let ?ls = "append_pair marker ?entry x"
    have "list_all line_ok (fst x)"
      using replace_mount_line_ok [OF _ read_lines_ok [OF assms(6)] ok] Inr by (metis prod.collapse)
    from append_pair_line_ok [OF this ok] have "list_all line_ok ?ls" .
    moreover have sole: "sole_pair marker ?entry ?ls" by (rule append_pair_sole [OF Inr claim \<open>marker \<noteq> []\<close>])
    then have "?ls \<noteq> []" by (auto simp: sole_pair_def)
    ultimately have "fst (save_lines name stamp ?ls d) = Inr ()" "read_lines name (snd (save_lines name stamp ?ls d)) = Inr ?ls"
      by (rule save_lines_read)+
    moreover have "write_managed_fstab_entry slot share mountpoint credential uid gid claim rw name stamp d = save_lines name stamp ?ls d"
      using Inr by (simp add: write_managed_fstab_entry_def assms(6) assms(7) [symmetric])
    ultimately show ?thesis
      using e Inr sole append_pair_rest [OF Inr claim \<open>marker \<noteq> []\<close> assms(9) [unfolded assms(8)]] by (auto simp: prod_eq_iff)
  qed
qed

section \<open>Properties\<close>

text \<open>
  Escaping a value of an fstab line and unescaping it gives the value back exactly when the value has
  no line feed and does not end in a backslash: a trailing escaped backslash is read as two.
\<close>

theorem fstab_escape_round_trip:
  "fstab_unescape (fstab_escape v) = v \<longleftrightarrow> CHR 0x0A \<notin> set v \<and> (v = [] \<or> last v \<noteq> CHR 0x5C)"
  by (rule fstab_escape_inverse_iff)

text \<open>
  C20. Writing a managed NAS mount. With well-formed fields and a readable file, either some line outside the
  managed pair already owns the mount point and may not be claimed, the error is reported and the directory is
  unchanged; or the write succeeds, the file then holds the marker with its entry exactly once, and the other lines are the
  previous ones in order, the claimed ones commented out, with one blank line before an appended pair.
\<close>

theorem fstab_write_outcome:
  assumes "no_space slot" and "field_ok share" and "field_ok mountpoint" and "field_ok credential"
    and "CHR '','' \<notin> set credential" and "read_lines name d = Inr ls"
    and "marker = managed_fstab_marker slot share" and "others = remove_pairs marker False ls"
    and "rest = map (\<lambda>l. if owns_target (fstab_escape mountpoint) l then CLAIM_PREFIX @ l else l) others"
  shows "if list_ex (\<lambda>l. owns_target (fstab_escape mountpoint) l \<and> \<not> (claim \<and> claimable (fstab_escape share) l)) others
    then write_managed_fstab_entry slot share mountpoint credential uid gid claim rw name stamp d =
      (Inl (ValueError ''non-managed fstab entry already owns mountpoint''), d)
    else \<exists>d' ls'. write_managed_fstab_entry slot share mountpoint credential uid gid claim rw name stamp d = (Inr (), d')
      \<and> read_lines name d' = Inr ls'
      \<and> sole_pair marker (nas_entry share mountpoint (nas_options credential rw uid gid)) ls'
      \<and> remove_pairs marker False ls' = rest @ (if marker \<in> set ls \<or> rest = [] \<or> last rest = [] then [] else [[]])"
  using assms by (rule write_mount_outcome)

lemma read_written_mount:
  assumes "no_space slot" and "slot \<noteq> []" and "field_ok share" and "field_ok mountpoint" and "field_ok credential"
    and "CHR '','' \<notin> set credential" and "last mountpoint \<noteq> CHR 0x5C" and "last credential \<noteq> CHR 0x5C"
    and "sole_pair (managed_fstab_marker slot share) (nas_entry share mountpoint (nas_options credential rw uid gid)) ls"
  shows "filter (\<lambda>e. me_slot e = slot \<and> me_source e = share) (entries_of ls) =
    [\<lparr>me_slot = slot, me_source = share, me_mountpoint = mountpoint, me_access = (if rw then ''rw'' else ''ro''), me_credentials = credential\<rparr>]"
proof -
  let ?m = "managed_fstab_marker slot share" and ?e = "nas_entry share mountpoint (nas_options credential rw uid gid)"
  have "join '','' (nas_options credential rw uid gid) \<noteq> []" by (simp add: nas_options_def CREDENTIALS_def)
  note ne = entry_not_marker [OF assms(3,4) options_plain(2) [OF assms(5,6)] this]
  have "me_slot e = slot \<and> me_source e = share \<longleftrightarrow> l = ?m" if re: "read_entry l n = Some e" for l n e
  proof -
    obtain s' t' where m: "match_marker l = Some (s', t')" "me_slot e = s'" "me_source e = t'"
      using re by (cases "match_marker l") (auto simp: read_entry_def Let_def split: prod.splits if_splits)
    have "match_marker ?m = Some (slot, share)" using match_marker_marker [OF assms(1,2)] assms(3) by (simp add: field_ok_def)
    then show ?thesis using m match_marker_line [OF m(1)] by (metis option.inject prod.inject)
  qed
  moreover obtain a b where "ls = a @ ?m # ?e # b" "?m \<notin> set a" "?m \<notin> set b" using assms(9) by (auto simp: sole_pair_def)
  ultimately show ?thesis
    using filter_zip_sole [of ?m a b ?e] ne read_entry_written [OF assms(1-8)]
    by (simp add: entries_of_def filter_scan_pairs [of read_entry _ ?m] map_filter_simps)
qed

text \<open>
  C22. A managed NAS mount that was written is read back: the entries parsed from the new file that carry
  its slot and source are exactly one, with the mount point, the access and the credentials path that were written,
  whatever else the file holds. The slot has no white space, the fields are not empty and have no white space but spaces and tabs, the path of the
  credentials has no comma, and neither it nor the mount point ends in a backslash: there the code does not read back what it wrote.
\<close>

theorem fstab_entry_read_back:
  assumes "no_space slot" and "slot \<noteq> []" and "field_ok share" and "field_ok mountpoint" and "field_ok credential"
    and "CHR '','' \<notin> set credential" and "last mountpoint \<noteq> CHR 0x5C" and "last credential \<noteq> CHR 0x5C"
    and "write_managed_fstab_entry slot share mountpoint credential uid gid claim rw name stamp d = (Inr (), d')"
  shows "\<exists>es. read_managed_fstab_entries name d' = Inr es
    \<and> filter (\<lambda>e. me_slot e = slot \<and> me_source e = share) es =
      [\<lparr>me_slot = slot, me_source = share, me_mountpoint = mountpoint, me_access = (if rw then ''rw'' else ''ro''), me_credentials = credential\<rparr>]"
proof -
  obtain ls where ls: "read_lines name d = Inr ls"
    using assms(9) by (cases "read_lines name d") (auto simp: write_managed_fstab_entry_def Let_def)
  from write_mount_outcome [OF assms(1,3-6) ls refl refl refl, of claim uid gid rw stamp] assms(9)
  obtain ls' where "read_lines name d' = Inr ls'"
    "sole_pair (managed_fstab_marker slot share) (nas_entry share mountpoint (nas_options credential rw uid gid)) ls'"
    by (auto split: if_splits)
  then show ?thesis using read_written_mount [OF assms(1-8)] by (simp add: read_managed_fstab_entries_def)
qed

text \<open>
  C23. No sequence of rewriting operations loses a version of the file: whatever the operations return, every
  file of the directory other than the temporary one keeps its content, and the content that the managed file itself had at
  any point stays available under some name, so a backup is never overwritten.
\<close>

theorem fstab_versions_kept:
  assumes "(fstab_step name)\<^sup>*\<^sup>* d d'" and "map_of d n = Some b" and "n \<noteq> name @ ''.agent-runtime-ops.tmp''"
  shows "if n = name then \<exists>k. k \<noteq> name @ ''.agent-runtime-ops.tmp'' \<and> map_of d' k = Some b else map_of d' n = Some b"
  using assms(1)
proof induction
  case base
  then show ?case using assms(2,3) by auto
next
  case (step d1 d2)
  show ?case
  proof (cases "n = name")
    case True
    then obtain k where "k \<noteq> name @ ''.agent-runtime-ops.tmp''" "map_of d1 k = Some b" using step(3) by auto
    from fstab_step_files [OF step(2) this(2,1)] this(1) True show ?thesis by (auto split: if_splits)
  next
    case False
    then show ?thesis using fstab_step_files [OF step(2) _ assms(3)] step(3) by simp
  qed
qed

end
