(* ===== verification/Fstab_Samples.thy ===== *)
theory Fstab_Samples
  imports Fstab_Properties "HOL-Library.Code_Target_Nat"
begin

text \<open>
  The properties of the managed mount entries at concrete files.
\<close>

theorem fstab_write_outcome_witness:
  "\<exists>d' ls'. write_managed_fstab_entry ''oc1'' ''//nas/x'' ''/mnt/a b'' ''/v/c'' 1000 2000 True True ''fstab'' ''S''
      [(''fstab'', ''/dev/sda / ext4'' @ [CHR 0x0A] @ ''//nas/x /mnt/a'' @ [CHR 0x5C] @ ''040b cifs ro'' @ [CHR 0x0A])] = (Inr (), d')
    \<and> read_lines ''fstab'' d' = Inr ls'
    \<and> sole_pair (managed_fstab_marker ''oc1'' ''//nas/x'') (nas_entry ''//nas/x'' ''/mnt/a b'' (nas_options ''/v/c'' True 1000 2000)) ls'
    \<and> remove_pairs (managed_fstab_marker ''oc1'' ''//nas/x'') False ls' =
        [''/dev/sda / ext4'', CLAIM_PREFIX @ ''//nas/x /mnt/a'' @ [CHR 0x5C] @ ''040b cifs ro'', []]"
proof -
  let ?l = "''//nas/x /mnt/a'' @ [CHR 0x5C] @ ''040b cifs ro''"
  let ?d = "[(''fstab'', ''/dev/sda / ext4'' @ [CHR 0x0A] @ ?l @ [CHR 0x0A])]"
  let ?m = "managed_fstab_marker ''oc1'' ''//nas/x''"
  let ?rest = "[''/dev/sda / ext4'', CLAIM_PREFIX @ ?l]"
  have h: "no_space ''oc1''" "field_ok ''//nas/x''" "field_ok ''/mnt/a b''" "field_ok ''/v/c''" "CHR '','' \<notin> set ''/v/c''"
    "read_lines ''fstab'' ?d = Inr [''/dev/sda / ext4'', ?l]"
    "[''/dev/sda / ext4'', ?l] = remove_pairs ?m False [''/dev/sda / ext4'', ?l]"
    "?rest = map (\<lambda>l. if owns_target (fstab_escape ''/mnt/a b'') l then CLAIM_PREFIX @ l else l) [''/dev/sda / ext4'', ?l]"
    by code_simp+
  have "\<not> list_ex (\<lambda>l. owns_target (fstab_escape ''/mnt/a b'') l \<and> \<not> (True \<and> claimable (fstab_escape ''//nas/x'') l)) [''/dev/sda / ext4'', ?l]"
    by code_simp
  moreover have "\<not> (?m \<in> set [''/dev/sda / ext4'', ?l] \<or> ?rest = [] \<or> last ?rest = [])" by code_simp
  ultimately show ?thesis
    using fstab_write_outcome [OF h(1-6) refl h(7,8), of True 1000 2000 True "''S''"] by (simp only: if_False append.simps)
qed

theorem fstab_entry_read_back_witness:
  "\<exists>es. read_managed_fstab_entries ''fstab'' (snd (write_managed_fstab_entry ''oc1'' ''//nas/x'' ''/mnt/a b'' ''/v/c'' 1000 2000 True True ''fstab'' ''S'' [])) = Inr es
    \<and> filter (\<lambda>e. me_slot e = ''oc1'' \<and> me_source e = ''//nas/x'') es =
      [\<lparr>me_slot = ''oc1'', me_source = ''//nas/x'', me_mountpoint = ''/mnt/a b'', me_access = ''rw'', me_credentials = ''/v/c''\<rparr>]"
proof -
  have h: "no_space ''oc1''" "''oc1'' \<noteq> []" "field_ok ''//nas/x''" "field_ok ''/mnt/a b''" "field_ok ''/v/c''" "CHR '','' \<notin> set ''/v/c''"
    "last ''/mnt/a b'' \<noteq> CHR 0x5C" "last ''/v/c'' \<noteq> CHR 0x5C"
    "fst (write_managed_fstab_entry ''oc1'' ''//nas/x'' ''/mnt/a b'' ''/v/c'' 1000 2000 True True ''fstab'' ''S'' []) = Inr ()"
    by code_simp+
  have "write_managed_fstab_entry ''oc1'' ''//nas/x'' ''/mnt/a b'' ''/v/c'' 1000 2000 True True ''fstab'' ''S'' [] =
    (Inr (), snd (write_managed_fstab_entry ''oc1'' ''//nas/x'' ''/mnt/a b'' ''/v/c'' 1000 2000 True True ''fstab'' ''S'' []))"
    using h(9) by (rule prod_eqI [OF trans [OF _ fst_conv [symmetric]] snd_conv [symmetric]])
  from fstab_entry_read_back [OF h(1-8) this] show ?thesis by simp
qed

theorem fstab_versions_kept_witness:
  "\<exists>k. k \<noteq> ''fstab.agent-runtime-ops.tmp'' \<and> map_of (snd (remove_managed_workspace_bind_entry ''oc1'' ''fstab'' ''S''
     (snd (write_managed_workspace_bind_entry ''oc1'' ''/a'' ''/b'' ''fstab'' ''S'' [(''fstab'', ''x'')])))) k = Some ''x''"
proof -
  have "(fstab_step ''fstab'')\<^sup>*\<^sup>* [(''fstab'', ''x'')] (snd (remove_managed_workspace_bind_entry ''oc1'' ''fstab'' ''S''
     (snd (write_managed_workspace_bind_entry ''oc1'' ''/a'' ''/b'' ''fstab'' ''S'' [(''fstab'', ''x'')]))))"
    by (meson r_into_rtranclp rtranclp_trans fstab_step.write_bind fstab_step.remove_bind)
  from fstab_versions_kept [OF this, of "''fstab''" "''x''"] show ?thesis by simp
qed

end
