(* ===== verification/Canary.thy ===== *)
theory Canary
  imports Files Json_Indent Sha256
begin

text \<open>
  The canary transaction of a slot (\<open>domain/canary_transaction.py\<close>): one sealed pair of a candidate and its
  pre-state, admitted once and consumed by a receipt. The files are those below \<open>canary-transactions\<close>; the
  clock, the random identifier and the process number are arguments.
\<close>

type_synonym tree = "(string \<times> node) list"

type_synonym digest_text = string

definition CANARY_SCHEMA :: string where "CANARY_SCHEMA = ''agent-runtime-canary-transaction/v1''"

definition CANARY_RECEIPT_SCHEMA :: string where "CANARY_RECEIPT_SCHEMA = ''agent-runtime-canary-receipt/v1''"

definition TX_ID :: "string \<Rightarrow> bool" where
  "TX_ID s \<longleftrightarrow> length s = 64 \<and> list_all is_hex s"

definition safe_tail :: "char \<Rightarrow> bool" where
  "safe_tail c \<longleftrightarrow> is_lower c \<or> is_digit c \<or> c = CHR ''_'' \<or> c = CHR ''.'' \<or> c = CHR ''-''"

definition SAFE :: "string \<Rightarrow> bool" where
  "SAFE s \<longleftrightarrow> s \<noteq> [] \<and> (is_lower (hd s) \<or> is_digit (hd s)) \<and> list_all safe_tail (tl s) \<and> length s \<le> 64"

section \<open>Paths\<close>

definition tx_dir :: "string \<Rightarrow> string result" where
  "tx_dir slot = (if SAFE slot then Inr slot else Inl (ValueError ''invalid canary slot''))"

definition tx_path :: "string \<Rightarrow> string" where
  "tx_path slot = slot @ ''/transaction.json''"

definition receipt_base :: "string \<Rightarrow> string result" where
  "receipt_base transaction_id =
     (if TX_ID transaction_id then Inr (transaction_id @ ''.receipt.json'') else Inl (ValueError ''invalid canary transaction id''))"

definition require_digest :: "json \<Rightarrow> string \<Rightarrow> string result" where
  "require_digest v field =
     (case v of JStr s \<Rightarrow> if DIGEST_RE s then Inr s else Inl (ValueError (field @ '' must be a canonical sha256 digest''))
      | _ \<Rightarrow> Inl (ValueError (field @ '' must be a canonical sha256 digest'')))"

section \<open>Reading a transaction\<close>

definition TX_KEYS :: "string list" where
  "TX_KEYS = [''backup_metadata_sha256'', ''backup_name'', ''candidate_product_digest'', ''candidate_wrapper_digest'',
     ''created_at'', ''family'', ''prestate_product_digest'', ''prestate_wrapper_digest'', ''schema'', ''slot'', ''transaction_id'']"

definition TX_DIGESTS :: "string list" where
  "TX_DIGESTS = [''candidate_product_digest'', ''candidate_wrapper_digest'', ''prestate_product_digest'', ''prestate_wrapper_digest'']"

text \<open>\<open>isinstance(value.get(key), str) and P(value[key])\<close>\<close>

definition text_with :: "(string \<Rightarrow> bool) \<Rightarrow> json \<Rightarrow> bool" where
  "text_with P v = (case v of JStr s \<Rightarrow> P s | _ \<Rightarrow> False)"

definition check_tx :: "dict \<Rightarrow> dict result" where
  "check_tx d =
     bindE (raise_if (set (keys d) \<noteq> set TX_KEYS \<or> jget_opt d ''schema'' \<noteq> JStr CANARY_SCHEMA)
       (ValueError ''canary transaction schema mismatch'')) (\<lambda>_.
     bindE (raise_if (\<not> text_with SAFE (jget_opt d ''slot'')) (ValueError ''canary transaction slot invalid'')) (\<lambda>_.
     bindE (raise_if (\<not> text_with (\<lambda>s. s \<in> {''hermes'', ''openclaw''}) (jget_opt d ''family''))
       (ValueError ''canary transaction family invalid'')) (\<lambda>_.
     bindE (raise_if (\<not> text_with TX_ID (jget_opt d ''transaction_id'')) (ValueError ''canary transaction id invalid'')) (\<lambda>_.
     bindE (forE (\<lambda>k. bindE (require_digest (jget_opt d k) k) (\<lambda>_. Inr ())) TX_DIGESTS) (\<lambda>_.
     bindE (raise_if (\<not> text_with (\<lambda>s. s \<noteq> []) (jget_opt d ''backup_name''))
       (ValueError ''canary transaction backup identity invalid'')) (\<lambda>_.
     bindE (raise_if (\<not> text_with DIGEST_RE (jget_opt d ''backup_metadata_sha256''))
       (ValueError ''canary transaction backup digest invalid'')) (\<lambda>_.
     bindE (raise_if (\<not> text_with (\<lambda>s. s \<noteq> []) (jget_opt d ''created_at''))
       (ValueError ''canary transaction timestamp invalid'')) (\<lambda>_. Inr d))))))))"

definition load_tx :: "pyenv \<Rightarrow> string \<Rightarrow> dict result" where
  "load_tx env b =
     bindE (raise_from (\<lambda>_. True) (ValueError ''canary transaction is unreadable'')
       (bindE (decode_utf8 b) (json_loads env dict_hook))) (\<lambda>v.
     case v of JObj d \<Rightarrow> check_tx d | _ \<Rightarrow> Inl (ValueError ''canary transaction must be an object''))"

section \<open>Operations\<close>

definition tx_payload ::
  "string \<Rightarrow> string \<Rightarrow> digest_text \<Rightarrow> digest_text \<Rightarrow> digest_text \<Rightarrow> digest_text \<Rightarrow> string \<Rightarrow> digest_text \<Rightarrow> string \<Rightarrow> string \<Rightarrow> dict" where
  "tx_payload slot family cand_product cand_wrapper pre_product pre_wrapper backup_name backup_sha now token =
     [(''backup_metadata_sha256'', JStr backup_sha), (''backup_name'', JStr backup_name),
      (''candidate_product_digest'', JStr cand_product), (''candidate_wrapper_digest'', JStr cand_wrapper),
      (''created_at'', JStr now), (''family'', JStr family), (''prestate_product_digest'', JStr pre_product),
      (''prestate_wrapper_digest'', JStr pre_wrapper), (''schema'', JStr CANARY_SCHEMA), (''slot'', JStr slot),
      (''transaction_id'', JStr token)]"

definition begin_checks ::
  "string \<Rightarrow> string \<Rightarrow> digest_text \<Rightarrow> digest_text \<Rightarrow> digest_text \<Rightarrow> digest_text \<Rightarrow> digest_text \<Rightarrow> tree \<Rightarrow> string result" where
  "begin_checks slot family cand_product cand_wrapper pre_product pre_wrapper backup_sha d =
     bindE (raise_if (family \<notin> {''hermes'', ''openclaw''}) (ValueError ''canary family invalid'')) (\<lambda>_.
     bindE (forE (\<lambda>(k, v). bindE (require_digest (JStr v) k) (\<lambda>_. Inr ()))
       [(''candidate_product_digest'', cand_product), (''candidate_wrapper_digest'', cand_wrapper),
        (''prestate_product_digest'', pre_product), (''prestate_wrapper_digest'', pre_wrapper),
        (''backup_metadata_sha256'', backup_sha)]) (\<lambda>_.
     bindE (tx_dir slot) (\<lambda>parent.
     bindE (raise_if (map_of d (tx_path slot) \<noteq> None) (ValueError ''canary transaction already exists'')) (\<lambda>_.
     Inr parent))))"

definition begin_tx ::
  "string \<Rightarrow> string \<Rightarrow> string \<Rightarrow> digest_text \<Rightarrow> digest_text \<Rightarrow> digest_text \<Rightarrow> digest_text \<Rightarrow> string \<Rightarrow> digest_text \<Rightarrow> string \<Rightarrow> string \<Rightarrow> tree
     \<Rightarrow> dict result \<times> tree" where
  "begin_tx pid slot family cand_product cand_wrapper pre_product pre_wrapper backup_name backup_sha now token d =
     (case begin_checks slot family cand_product cand_wrapper pre_product pre_wrapper backup_sha d of
        Inl e \<Rightarrow> (Inl e, d)
      | Inr parent \<Rightarrow>
          (let payload = tx_payload slot family cand_product cand_wrapper pre_product pre_wrapper backup_name backup_sha now token in
           case atomic_write_text pid parent ''transaction.json'' (dumps_ascii (JObj payload) @ [CHR 0x0A]) d of
             (Inl e, d') \<Rightarrow> (Inl e, d') | (Inr _, d') \<Rightarrow> (Inr payload, d')))"

definition load :: "pyenv \<Rightarrow> string \<Rightarrow> tree \<Rightarrow> dict result" where
  "load env slot d =
     bindE (tx_dir slot) (\<lambda>_.
     case map_of d (tx_path slot) of
       Some (Regular b) \<Rightarrow> load_tx env b
     | _ \<Rightarrow> Inl (ValueError ''canary transaction absent''))"

text \<open>\<open>require_candidate\<close> and \<open>require_prestate\<close>: the argument is checked when it is compared.\<close>

definition require_pair :: "pyenv \<Rightarrow> string \<Rightarrow> string \<Rightarrow> string \<Rightarrow> digest_text \<Rightarrow> digest_text \<Rightarrow> tree \<Rightarrow> dict result" where
  "require_pair env kind label slot product_digest wrapper_digest d =
     bindE (load env slot d) (\<lambda>tx.
     bindE (require_digest (JStr product_digest) ''product_digest'') (\<lambda>p.
     bindE (raise_if (jget_opt tx (kind @ ''_product_digest'') \<noteq> JStr p) (ValueError (label @ '' product digest mismatch''))) (\<lambda>_.
     bindE (require_digest (JStr wrapper_digest) ''wrapper_digest'') (\<lambda>w.
     bindE (raise_if (jget_opt tx (kind @ ''_wrapper_digest'') \<noteq> JStr w) (ValueError (label @ '' wrapper digest mismatch''))) (\<lambda>_.
     Inr tx)))))"

definition require_candidate :: "pyenv \<Rightarrow> string \<Rightarrow> string \<Rightarrow> string \<Rightarrow> tree \<Rightarrow> dict result" where
  "require_candidate env slot p w d = require_pair env ''candidate'' ''candidate'' slot p w d"

definition require_prestate :: "pyenv \<Rightarrow> string \<Rightarrow> string \<Rightarrow> string \<Rightarrow> tree \<Rightarrow> dict result" where
  "require_prestate env slot p w d = require_pair env ''prestate'' ''rollback'' slot p w d"

definition canary_receipt :: "string \<Rightarrow> string \<Rightarrow> dict \<Rightarrow> dict" where
  "canary_receipt slot outcome tx =
     [(''candidate_product_digest'', jget_opt tx ''candidate_product_digest''),
      (''candidate_wrapper_digest'', jget_opt tx ''candidate_wrapper_digest''), (''outcome'', JStr outcome),
      (''prestate_product_digest'', jget_opt tx ''prestate_product_digest''),
      (''prestate_wrapper_digest'', jget_opt tx ''prestate_wrapper_digest''),
      (''receipt_digest'', JStr (sha256_tag (dumps_ascii (JObj [(''id'', jget_opt tx ''transaction_id''), (''outcome'', JStr outcome)])))),
      (''schema'', JStr CANARY_RECEIPT_SCHEMA), (''slot'', JStr slot), (''transaction_id'', jget_opt tx ''transaction_id'')]"

definition finish_checks :: "pyenv \<Rightarrow> string \<Rightarrow> string \<Rightarrow> digest_text \<Rightarrow> digest_text \<Rightarrow> tree \<Rightarrow> (dict \<times> string) result" where
  "finish_checks env slot outcome product_digest wrapper_digest d =
     bindE (raise_if (outcome \<notin> {''candidate_succeeded'', ''rollback_succeeded''}) (ValueError ''invalid canary terminal outcome'')) (\<lambda>_.
     bindE (load env slot d) (\<lambda>tx.
     bindE (require_digest (JStr product_digest) ''result_product_digest'') (\<lambda>_.
     bindE (require_digest (JStr wrapper_digest) ''result_wrapper_digest'') (\<lambda>_.
     bindE (if outcome = ''candidate_succeeded'' then require_candidate env slot product_digest wrapper_digest d
            else require_prestate env slot product_digest wrapper_digest d) (\<lambda>_.
     bindE (receipt_base (case jget_opt tx ''transaction_id'' of JStr s \<Rightarrow> s | _ \<Rightarrow> [])) (\<lambda>base. Inr (tx, base)))))))"

definition finish :: "pyenv \<Rightarrow> string \<Rightarrow> string \<Rightarrow> string \<Rightarrow> digest_text \<Rightarrow> digest_text \<Rightarrow> tree \<Rightarrow> string result \<times> tree" where
  "finish env pid slot outcome product_digest wrapper_digest d =
     (case finish_checks env slot outcome product_digest wrapper_digest d of
        Inl e \<Rightarrow> (Inl e, d)
      | Inr (tx, base) \<Rightarrow>
          (case atomic_write_text pid slot base (dumps_ascii (JObj (canary_receipt slot outcome tx)) @ [CHR 0x0A]) d of
             (Inl e, d') \<Rightarrow> (Inl e, d')
           | (Inr _, d') \<Rightarrow> (Inr (slot @ ''/'' @ base), remove_file (tx_path slot) d')))"

end
