(* ===== verification/Canary_Properties.thy ===== *)
theory Canary_Properties
  imports Canary
begin

text \<open>
  The life of the canary transactions of a slot: what is sealed is what is loaded, a sealed pair is used once,
  and only the digests it names are accepted.
\<close>

section \<open>Sealed transactions are read back\<close>

lemma safe_plain:
  assumes "SAFE s"
  shows "ascii_only s" and "CHR ''/'' \<notin> set s"
proof -
  have *: "list_all safe_tail s" using assms by (cases s) (auto simp: SAFE_def safe_tail_def)
  then show "ascii_only s" by (induction s) (auto simp: safe_tail_def is_lower_def is_digit_def less_eq_char_def)
  show "CHR ''/'' \<notin> set s" using * by (induction s) (auto simp: safe_tail_def is_lower_def is_digit_def less_eq_char_def)
qed

lemma texts_plain: "list_all (\<lambda>kv. ascii_only (fst kv) \<and> (\<exists>s. snd kv = JStr s \<and> ascii_only s)) d \<Longrightarrow> ascii_json (JObj d)"
  by (auto simp: list_all_iff)

lemma sorted_tx_payload:
  "sort_keys (JObj (tx_payload slot family cp cw pp pw bn bs now token)) = JObj (tx_payload slot family cp cw pp pw bn bs now token)"
  by (simp add: tx_payload_def sort_key_def)


text \<open>The conditions under which a sealed transaction is valid when it is read.\<close>

definition sealed :: "string \<Rightarrow> dict \<Rightarrow> bool" where
  "sealed slot tx \<longleftrightarrow> (\<exists>family cp cw pp pw bn bs now token.
     tx = tx_payload slot family cp cw pp pw bn bs now token \<and> SAFE slot \<and> family \<in> {''hermes'', ''openclaw''}
     \<and> list_all DIGEST_RE [cp, cw, pp, pw, bs] \<and> bn \<noteq> [] \<and> ascii_only bn \<and> now \<noteq> [] \<and> ascii_only now \<and> TX_ID token)"

definition tx_text :: "dict \<Rightarrow> string" where
  "tx_text tx = dumps '','' '':'' (JObj tx) @ [CHR 0x0A]"

lemma payload_text:
  assumes "tx = tx_payload slot family cp cw pp pw bn bs now token" and "SAFE slot" and "family \<in> {''hermes'', ''openclaw''}"
    and "list_all DIGEST_RE [cp, cw, pp, pw, bs]" and "ascii_only bn" and "ascii_only now" and "TX_ID token" and "rec_limit env \<noteq> 0"
  shows "dumps_ascii (JObj tx) @ [CHR 0x0A] = tx_text tx" and "load_tx env (tx_text tx) = check_tx tx" and "utf8_valid (tx_text tx)"
proof -
  have pl: "ascii_json (JObj tx)"
    using assms by (intro texts_plain) (auto simp: tx_payload_def CANARY_SCHEMA_def digest_plain safe_plain hex_ascii TX_ID_def)
  note pr = dumps_plain [OF this]
  have sorted: "sort_keys (JObj tx) = JObj tx" unfolding assms(1) by (rule sorted_tx_payload)
  show "dumps_ascii (JObj tx) @ [CHR 0x0A] = tx_text tx"
    unfolding dumps_ascii_def sorted tx_text_def by (simp only: ascii_text_plain [OF pr])
  show v: "utf8_valid (tx_text tx)"
    unfolding tx_text_def by (simp only: ascii_only_utf8 [OF pr]) (simp add: utf8_valid_ascii_Cons)
  obtain n where n: "rec_limit env = Suc n" using assms(8) by (cases "rec_limit env") auto
  have "jwf (rec_limit env) (JObj tx)" unfolding n assms(1) by (simp add: tx_payload_def keys_def)
  from json_loads_compact [OF good_hook_dict_hook this pl]
  have "json_loads env dict_hook (tx_text tx) = Inr (JObj tx)" by (simp only: tx_text_def)
  then show "load_tx env (tx_text tx) = check_tx tx" using v by (simp add: load_tx_def decode_utf8_def raise_from_def)
qed

lemma check_tx_payload:
  assumes "SAFE slot" and "family \<in> {''hermes'', ''openclaw''}" and "list_all DIGEST_RE [cp, cw, pp, pw, bs]" and "now \<noteq> []" and "TX_ID token"
  shows "check_tx (tx_payload slot family cp cw pp pw bn bs now token) =
    (if bn = [] then Inl (ValueError ''canary transaction backup identity invalid'') else Inr (tx_payload slot family cp cw pp pw bn bs now token))"
  using assms by (auto simp: check_tx_def tx_payload_def keys_def TX_KEYS_def jget_opt_def text_with_def TX_DIGESTS_def require_digest_def)

lemma sealed_text:
  assumes "sealed slot tx" and "rec_limit env \<noteq> 0"
  shows "dumps_ascii (JObj tx) @ [CHR 0x0A] = tx_text tx" and "load_tx env (tx_text tx) = Inr tx"
proof -
  obtain family cp cw pp pw bn bs now token where tx: "tx = tx_payload slot family cp cw pp pw bn bs now token" "SAFE slot"
    "family \<in> {''hermes'', ''openclaw''}" "list_all DIGEST_RE [cp, cw, pp, pw, bs]" "bn \<noteq> []" "ascii_only bn" "now \<noteq> []"
    "ascii_only now" "TX_ID token"
    using assms(1) by (auto simp: sealed_def)
  note t = payload_text [OF tx(1-4,6,8,9) assms(2)]
  show "dumps_ascii (JObj tx) @ [CHR 0x0A] = tx_text tx" by (rule t(1))
  show "load_tx env (tx_text tx) = Inr tx" using t(2) check_tx_payload [OF tx(2,3,4,7,9), of bn] tx(1,5) by simp
qed

section \<open>What the operations leave\<close>

lemma slash_split:
  "CHR ''/'' \<notin> set a \<Longrightarrow> CHR ''/'' \<notin> set b \<Longrightarrow> a @ CHR ''/'' # x = b @ CHR ''/'' # y \<Longrightarrow> a = b \<and> x = y"
proof (induction a arbitrary: b)
  case (Cons c a)
  then show ?case by (cases b) auto
qed (auto simp: Cons_eq_append_conv)

lemma atomic_write_files:
  assumes "atomic_write_text pid parent base text d = (r, d')" and "n \<noteq> tmp_name parent base pid"
  shows "map_of d' n = (if r = Inr () \<and> n = parent @ ''/'' @ base then Some (Regular text) else map_of d n)"
  using assms by (auto simp: atomic_write_text_def Let_def encode_utf8_def write_file_map_of remove_file_map_of split: if_splits)

lemma tx_path_not_tmp: "tx_path slot \<noteq> tmp_name slot base pid"
  by (simp add: tx_path_def tmp_name_def)

lemma begin_checks_Inr:
  "begin_checks slot family cp cw pp pw bs d = Inr parent \<longleftrightarrow>
     family \<in> {''hermes'', ''openclaw''} \<and> list_all DIGEST_RE [cp, cw, pp, pw, bs] \<and> SAFE slot \<and> map_of d (tx_path slot) = None \<and> parent = slot"
  by (auto simp: begin_checks_def bindE_Inr_iff raise_if_Inr_iff require_digest_def tx_dir_def split: if_splits)

lemma begin_cases:
  assumes "begin_tx pid slot family cp cw pp pw bn bs now token d = (r, d')"
  obtains (refused) e where "r = Inl e" "d' = d"
  | (written) u where "begin_checks slot family cp cw pp pw bs d = Inr slot"
      "atomic_write_text pid slot ''transaction.json'' (dumps_ascii (JObj (tx_payload slot family cp cw pp pw bn bs now token)) @ [CHR 0x0A]) d = (u, d')"
      "case u of Inl e \<Rightarrow> r = Inl e | Inr _ \<Rightarrow> r = Inr (tx_payload slot family cp cw pp pw bn bs now token)"
proof (cases "begin_checks slot family cp cw pp pw bs d")
  case (Inl e)
  then show ?thesis using assms by (intro refused [of e]) (auto simp: begin_tx_def)
next
  case (Inr parent)
  then have p: "parent = slot" by (simp add: begin_checks_Inr)
  obtain u t where w: "atomic_write_text pid slot ''transaction.json'' (dumps_ascii (JObj (tx_payload slot family cp cw pp pw bn bs now token)) @ [CHR 0x0A]) d = (u, t)"
    by force
  show ?thesis by (rule written [of u]) (use assms Inr w p in \<open>auto simp: begin_tx_def Let_def split: sum.splits\<close>)
qed

lemma begin_ok:
  assumes "begin_tx pid slot family cp cw pp pw bn bs now token d = (Inr tx, d')"
  shows "map_of d (tx_path slot) = None" and "SAFE slot" and "family \<in> {''hermes'', ''openclaw''}" and "list_all DIGEST_RE [cp, cw, pp, pw, bs]"
    and "tx = tx_payload slot family cp cw pp pw bn bs now token"
    and "map_of d' (tx_path slot) = Some (Regular (dumps_ascii (JObj tx) @ [CHR 0x0A]))"
  using assms
  by (cases rule: begin_cases; auto simp: begin_checks_Inr tx_path_def split: sum.splits dest: atomic_write_files [OF _ tx_path_not_tmp [unfolded tx_path_def]])+

lemma foreign_path:
  assumes "SAFE slot" and "SAFE slot'" and "slot' \<noteq> slot"
  shows "tx_path slot \<noteq> slot' @ CHR ''/'' # x"
  using slash_split [OF safe_plain(2) [OF assms(1)] safe_plain(2) [OF assms(2)]] assms(3) by (auto simp: tx_path_def)

lemma begin_frame:
  assumes "begin_tx pid slot' family cp cw pp pw bn bs now token d = (r, d')" and "slot' \<noteq> slot \<or> (\<exists>e. r = Inl e)" and "SAFE slot"
  shows "map_of d' (tx_path slot) = map_of d (tx_path slot)"
  using assms(1)
proof (cases rule: begin_cases)
  case (written u)
  have "tx_path slot \<noteq> tmp_name slot' ''transaction.json'' pid"
    using foreign_path [OF assms(3), of slot'] written(1) tx_path_not_tmp by (cases "slot' = slot") (auto simp: begin_checks_Inr tx_path_def tmp_name_def)
  moreover have "u \<noteq> Inr () \<or> tx_path slot \<noteq> slot' @ ''/transaction.json''"
    using foreign_path [OF assms(3), of slot'] written(1,3) assms(2) by (auto simp: begin_checks_Inr split: sum.splits)
  ultimately show ?thesis using atomic_write_files [OF written(2), of "tx_path slot"] by auto
qed simp


text \<open>The digests an outcome may report for a sealed pair.\<close>

definition matches :: "dict \<Rightarrow> string \<Rightarrow> string \<Rightarrow> string \<Rightarrow> bool" where
  "matches tx outcome product_digest wrapper_digest \<longleftrightarrow>
     list_ex (\<lambda>(reported, kind). outcome = reported \<and> jget_opt tx (kind @ ''_product_digest'') = JStr product_digest
       \<and> jget_opt tx (kind @ ''_wrapper_digest'') = JStr wrapper_digest)
     [(''candidate_succeeded'', ''candidate''), (''rollback_succeeded'', ''prestate'')]"

lemma require_pair_Inr:
  "require_pair env kind label slot p w d = Inr tx \<Longrightarrow>
     load env slot d = Inr tx \<and> jget_opt tx (kind @ ''_product_digest'') = JStr p \<and> jget_opt tx (kind @ ''_wrapper_digest'') = JStr w"
  by (auto simp: require_pair_def bindE_Inr_iff raise_if_Inr_iff require_digest_def split: if_splits)

lemma finish_checks_Inr:
  assumes "finish_checks env slot outcome p w d = Inr (tx, base)"
  shows "load env slot d = Inr tx" and "matches tx outcome p w" and "SAFE slot"
proof -
  from assms show tx: "load env slot d = Inr tx" and "matches tx outcome p w"
    by (auto simp: finish_checks_def bindE_Inr_iff raise_if_Inr_iff matches_def require_candidate_def require_prestate_def
      split: if_splits dest!: require_pair_Inr)
  show "SAFE slot" using tx by (auto simp: load_def bindE_Inr_iff tx_dir_def split: if_splits)
qed

lemma finish_cases:
  assumes "finish env pid slot outcome p w d = (r, d')"
  obtains (refused) e where "r = Inl e" "d' = d"
  | (unwritten) tx base e where "finish_checks env slot outcome p w d = Inr (tx, base)" "r = Inl e"
      "atomic_write_text pid slot base (dumps_ascii (JObj (canary_receipt slot outcome tx)) @ [CHR 0x0A]) d = (Inl e, d')"
  | (consumed) tx base t where "finish_checks env slot outcome p w d = Inr (tx, base)" "r = Inr (slot @ ''/'' @ base)"
      "atomic_write_text pid slot base (dumps_ascii (JObj (canary_receipt slot outcome tx)) @ [CHR 0x0A]) d = (Inr (), t)"
      "d' = remove_file (tx_path slot) t"
proof (cases "finish_checks env slot outcome p w d")
  case (Inl e)
  then show ?thesis using assms by (intro refused [of e]) (auto simp: finish_def)
next
  case (Inr x)
  obtain tx base where x: "x = (tx, base)" by force
  obtain u t where wr: "atomic_write_text pid slot base (dumps_ascii (JObj (canary_receipt slot outcome tx)) @ [CHR 0x0A]) d = (u, t)" by force
  show ?thesis
  proof (cases u)
    case (Inl e)
    then show ?thesis using assms Inr x wr by (intro unwritten [of tx base e]) (auto simp: finish_def)
  next
    case (Inr v)
    then show ?thesis using assms \<open>finish_checks env slot outcome p w d = Inr x\<close> x wr
      by (intro consumed [of tx base t]) (auto simp: finish_def)
  qed
qed

lemma finish_frame:
  assumes "finish env pid slot' outcome p w d = (r, d')" and "slot' \<noteq> slot \<or> (\<exists>e. r = Inl e)" and "SAFE slot"
  shows "map_of d' (tx_path slot) = map_of d (tx_path slot)"
  using assms(1)
proof (cases rule: finish_cases)
  case (unwritten tx base e)
  have "tx_path slot \<noteq> tmp_name slot' base pid"
    using foreign_path [OF assms(3) finish_checks_Inr(3) [OF unwritten(1)]] tx_path_not_tmp
    by (cases "slot' = slot") (auto simp: tx_path_def tmp_name_def)
  then show ?thesis using atomic_write_files [OF unwritten(3), of "tx_path slot"] by simp
next
  case (consumed tx base t)
  then have "slot' \<noteq> slot" using assms(2) by auto
  note foreign = foreign_path [OF assms(3) finish_checks_Inr(3) [OF consumed(1)] this]
  have "tx_path slot \<noteq> tmp_name slot' base pid" "tx_path slot \<noteq> slot' @ ''/'' @ base" "tx_path slot \<noteq> tx_path slot'"
    using foreign by (simp_all add: tmp_name_def) (simp add: tx_path_def [of slot'])
  then show ?thesis using atomic_write_files [OF consumed(3), of "tx_path slot"] consumed(4) by (simp add: remove_file_map_of)
qed simp

section \<open>The life of a slot\<close>

datatype canary_event = Begun dict | Finished string string string

text \<open>A run over the files, seen from one slot: its own successful operations leave events.\<close>

inductive canary_run :: "pyenv \<Rightarrow> string \<Rightarrow> tree \<Rightarrow> canary_event list \<Rightarrow> tree \<Rightarrow> bool" for env slot d where
  start: "canary_run env slot d [] d"
| begun: "canary_run env slot d es d1 \<Longrightarrow> begin_tx pid slot family cp cw pp pw bn bs now token d1 = (Inr tx, d2)
    \<Longrightarrow> ascii_only bn \<Longrightarrow> bn \<noteq> [] \<Longrightarrow> ascii_only now \<Longrightarrow> now \<noteq> [] \<Longrightarrow> TX_ID token \<Longrightarrow> canary_run env slot d (es @ [Begun tx]) d2"
| finished: "canary_run env slot d es d1 \<Longrightarrow> finish env pid slot outcome p w d1 = (Inr path, d2)
    \<Longrightarrow> canary_run env slot d (es @ [Finished outcome p w]) d2"
| begin_failed: "canary_run env slot d es d1 \<Longrightarrow> begin_tx pid slot family cp cw pp pw bn bs now token d1 = (Inl e, d2)
    \<Longrightarrow> canary_run env slot d es d2"
| finish_failed: "canary_run env slot d es d1 \<Longrightarrow> finish env pid slot outcome p w d1 = (Inl e, d2) \<Longrightarrow> canary_run env slot d es d2"
| begin_other: "canary_run env slot d es d1 \<Longrightarrow> slot' \<noteq> slot \<Longrightarrow> begin_tx pid slot' family cp cw pp pw bn bs now token d1 = (r, d2)
    \<Longrightarrow> canary_run env slot d es d2"
| finish_other: "canary_run env slot d es d1 \<Longrightarrow> slot' \<noteq> slot \<Longrightarrow> finish env pid slot' outcome p w d1 = (r', d2)
    \<Longrightarrow> canary_run env slot d es d2"

text \<open>The open transaction after the events, or none if the events are not a legal life.\<close>

fun next_open :: "dict option option \<Rightarrow> canary_event \<Rightarrow> dict option option" where
  "next_open (Some None) (Begun tx) = Some (Some tx)"
| "next_open (Some (Some tx)) (Finished outcome p w) = (if matches tx outcome p w then Some None else None)"
| "next_open _ _ = None"

definition open_after :: "canary_event list \<Rightarrow> dict option option" where
  "open_after es = foldl next_open (Some None) es"


lemma open_after_snoc [simp]: "open_after (es @ [e]) = next_open (open_after es) e"
  by (simp add: open_after_def)

lemma open_after_Nil [simp]: "open_after [] = Some None"
  by (simp add: open_after_def)

lemma load_sealed:
  assumes "sealed slot tx" and "rec_limit env \<noteq> 0" and "map_of d (tx_path slot) = Some (Regular (tx_text tx))"
  shows "load env slot d = Inr tx"
proof -
  have "SAFE slot" using assms(1) by (auto simp: sealed_def)
  then show ?thesis using assms(3) sealed_text(2) [OF assms(1,2)] by (simp add: load_def tx_dir_def)
qed

definition slot_state :: "string \<Rightarrow> dict option \<Rightarrow> tree \<Rightarrow> bool" where
  "slot_state slot opened d = (case opened of None \<Rightarrow> map_of d (tx_path slot) = None
     | Some tx \<Rightarrow> sealed slot tx \<and> map_of d (tx_path slot) = Some (Regular (tx_text tx)))"

lemma slot_state_cong: "map_of d (tx_path slot) = map_of d' (tx_path slot) \<Longrightarrow> slot_state slot opened d = slot_state slot opened d'"
  by (simp add: slot_state_def split: option.splits)

lemma begun_state:
  assumes "begin_tx pid slot family cp cw pp pw bn bs now token d = (Inr tx, d')" and "rec_limit (env :: pyenv) \<noteq> 0"
    and "ascii_only bn" and "bn \<noteq> []" and "ascii_only now" and "now \<noteq> []" and "TX_ID token"
  shows "slot_state slot (Some tx) d'"
proof -
  note ok = begin_ok [OF assms(1)]
  have "sealed slot tx" unfolding sealed_def using ok(2-5) assms(3-7) by blast
  then show ?thesis using ok(6) sealed_text(1) [OF _ assms(2)] by (simp add: slot_state_def)
qed

lemma canary_run_state:
  assumes "canary_run env slot d es d'" and "map_of d (tx_path slot) = None" and "SAFE slot" and "rec_limit env \<noteq> 0"
  shows "\<exists>opened. open_after es = Some opened \<and> slot_state slot opened d'"
  using assms(1)
proof induction
  case start
  then show ?case using assms(2) by (simp add: slot_state_def)
next
  case (begun es d1 pid family cp cw pp pw bn bs now token tx d2)
  then obtain opened where o: "open_after es = Some opened" "slot_state slot opened d1" by blast
  have "opened = None" using o(2) begin_ok(1) [OF begun(2)] by (cases opened) (auto simp: slot_state_def)
  then show ?case using o(1) begun_state [OF begun(2) assms(4) begun(3-7)] by simp
next
  case (finished es d1 pid outcome p w path d2)
  then obtain opened where o: "open_after es = Some opened" "slot_state slot opened d1" by blast
  from finished(2) show ?case
  proof (cases rule: finish_cases)
    case (consumed tx base t)
    note c = finish_checks_Inr [OF consumed(1)]
    have "opened = Some tx"
    proof (cases opened)
      case None
      then show ?thesis using o(2) c(1,3) by (simp add: slot_state_def load_def tx_dir_def)
    next
      case (Some tx')
      then show ?thesis using o(2) c(1) load_sealed [OF _ assms(4), of slot tx' d1] by (simp add: slot_state_def)
    qed
    then show ?thesis using o(1) c(2) consumed(4) by (simp add: slot_state_def remove_file_map_of)
  qed auto
next
  case (begin_failed es d1 pid family cp cw pp pw bn bs now token e d2)
  then show ?case using begin_frame [OF begin_failed(2) _ assms(3)] slot_state_cong by (metis)
next
  case (finish_failed es d1 pid outcome p w e d2)
  then show ?case using finish_frame [OF finish_failed(2) _ assms(3)] slot_state_cong by (metis)
next
  case (begin_other es d1 slot' pid family cp cw pp pw bn bs now token r d2)
  then show ?case using begin_frame [OF begin_other(3) _ assms(3)] slot_state_cong by (metis)
next
  case (finish_other es d1 slot' pid outcome p w r' d2)
  then show ?case using finish_frame [OF finish_other(3) _ assms(3)] slot_state_cong by (metis)
qed

section \<open>A sealed transaction can be finished\<close>

lemma sorted_receipt:
  "sort_keys (JObj (canary_receipt slot outcome (tx_payload slot family cp cw pp pw bn bs now token))) =
     JObj (canary_receipt slot outcome (tx_payload slot family cp cw pp pw bn bs now token))"
  by (simp add: canary_receipt_def tx_payload_def jget_opt_def sort_key_def)

lemma receipt_text_valid:
  assumes "sealed slot tx" and "ascii_only outcome"
  shows "utf8_valid (dumps_ascii (JObj (canary_receipt slot outcome tx)) @ [CHR 0x0A])"
proof -
  obtain family cp cw pp pw bn bs now token where tx: "tx = tx_payload slot family cp cw pp pw bn bs now token" "SAFE slot"
    "list_all DIGEST_RE [cp, cw, pp, pw, bs]" "TX_ID token"
    using assms(1) by (auto simp: sealed_def)
  have "ascii_json (JObj (canary_receipt slot outcome tx))"
    using tx assms(2) by (intro texts_plain) (auto simp: canary_receipt_def tx_payload_def jget_opt_def CANARY_RECEIPT_SCHEMA_def digest_plain
      sha256_tag_digest safe_plain hex_ascii TX_ID_def)
  note pr = dumps_plain [OF this]
  show ?thesis
    unfolding dumps_ascii_def tx(1) sorted_receipt
    by (simp only: ascii_text_plain [OF pr [unfolded tx(1)]] ascii_only_utf8 [OF pr [unfolded tx(1)]]) (simp add: utf8_valid_ascii_Cons)
qed

lemma finish_checks_sealed:
  assumes "sealed slot tx" and "load env slot d = Inr tx" and "matches tx outcome p w"
  shows "\<exists>base. finish_checks env slot outcome p w d = Inr (tx, base)"
proof -
  obtain family cp cw pp pw bn bs now token where tx: "tx = tx_payload slot family cp cw pp pw bn bs now token"
    "list_all DIGEST_RE [cp, cw, pp, pw, bs]" "TX_ID token"
    using assms(1) by (auto simp: sealed_def)
  then have get: "jget_opt tx ''candidate_product_digest'' = JStr cp" "jget_opt tx ''candidate_wrapper_digest'' = JStr cw"
    "jget_opt tx ''prestate_product_digest'' = JStr pp" "jget_opt tx ''prestate_wrapper_digest'' = JStr pw" "jget_opt tx ''transaction_id'' = JStr token"
    by (simp_all add: tx_payload_def jget_opt_def)
  consider "outcome = ''candidate_succeeded''" "p = cp" "w = cw" | "outcome = ''rollback_succeeded''" "p = pp" "w = pw"
    using assms(3) get by (auto simp: matches_def)
  then show ?thesis
    using tx(2,3) by cases (simp_all add: finish_checks_def require_candidate_def require_prestate_def require_pair_def assms(2) get
      require_digest_def receipt_base_def)
qed

lemma finish_sealed:
  assumes "sealed slot tx" and "load env slot d = Inr tx" and "matches tx outcome p w"
  shows "\<exists>path d'. finish env pid slot outcome p w d = (Inr path, d') \<and> map_of d' (tx_path slot) = None"
proof -
  obtain base where "finish_checks env slot outcome p w d = Inr (tx, base)" using finish_checks_sealed [OF assms] by blast
  moreover have "ascii_only outcome" using assms(3) by (auto simp: matches_def)
  ultimately show ?thesis
    using receipt_text_valid [OF assms(1), of outcome] by (simp add: finish_def atomic_write_text_def Let_def encode_utf8_def remove_file_map_of)
qed

section \<open>Properties\<close>

text \<open>
  C15. A canary admission is used once. Whatever operations run on the transaction files, of this slot or of others, the successful ones of
  a slot that starts without a transaction alternate: a transaction is opened only when none is open, it is finished at
  most once, and only with the product and wrapper digests it sealed for that outcome (the candidate's after success, the
  pre-state's after a rollback). While it is open, loading returns exactly what was sealed; afterwards there is none.
  The transactions of the slot are opened with a backup name that is not empty and is ASCII text, as the names of backups are;
  with an empty name the claim is false.
\<close>

theorem canary_single_use:
  assumes "canary_run env slot d es d'" and "map_of d (tx_path slot) = None" and "SAFE slot" and "rec_limit env \<noteq> 0"
  shows "\<exists>opened. open_after es = Some opened
    \<and> load env slot d' = (case opened of None \<Rightarrow> Inl (ValueError ''canary transaction absent'') | Some tx \<Rightarrow> Inr tx)"
proof -
  obtain opened where o: "open_after es = Some opened" "slot_state slot opened d'" using canary_run_state [OF assms] by blast
  have "load env slot d' = (case opened of None \<Rightarrow> Inl (ValueError ''canary transaction absent'') | Some tx \<Rightarrow> Inr tx)"
    using o(2) assms(3) load_sealed [OF _ assms(4), of slot _ d'] by (cases opened) (auto simp: slot_state_def load_def tx_dir_def)
  with o(1) show ?thesis by blast
qed

text \<open>
  C39. A transaction opened with an empty backup name is sealed but never valid: every later load and every finish of the
  slot raises and changes no file, and no other transaction can be opened.
\<close>

theorem canary_empty_backup_wedges:
  assumes "begin_tx pid slot family cp cw pp pw [] bs now token d = (Inr tx, d')"
    and "ascii_only now" and "now \<noteq> []" and "TX_ID token" and "rec_limit env \<noteq> 0"
  shows "load env slot d' = Inl (ValueError ''canary transaction backup identity invalid'')
    \<and> (\<exists>e. finish env pid' slot outcome p w d' = (Inl e, d'))
    \<and> (\<exists>e. begin_tx pid' slot family' cp' cw' pp' pw' bn bs' now' token' d' = (Inl e, d'))"
proof -
  note ok = begin_ok [OF assms(1)]
  note t = payload_text [OF ok(5,2,3,4) _ assms(2,4,5)]
  have l: "load env slot d' = Inl (ValueError ''canary transaction backup identity invalid'')"
    using ok(2,6) t check_tx_payload [OF ok(2,3,4) assms(3,4), of "[]"] ok(5) by (simp add: load_def tx_dir_def)
  obtain e where "finish_checks env slot outcome p w d' = Inl e"
    using l by (cases "finish_checks env slot outcome p w d'") (auto dest: finish_checks_Inr)
  then have "\<exists>e. finish env pid' slot outcome p w d' = (Inl e, d')" by (simp add: finish_def)
  moreover obtain e where "begin_checks slot family' cp' cw' pp' pw' bs' d' = Inl e"
    using ok(6) by (cases "begin_checks slot family' cp' cw' pp' pw' bs' d'") (auto simp: begin_checks_Inr)
  then have "\<exists>e. begin_tx pid' slot family' cp' cw' pp' pw' bn bs' now' token' d' = (Inl e, d')" by (simp add: begin_tx_def)
  ultimately show ?thesis using l by blast
qed

end
