(* ===== verification/Canary_Samples.thy ===== *)
theory Canary_Samples
  imports Canary_Properties "HOL-Library.Code_Target_Nat"
begin

text \<open>
  The properties of the canary transactions at a concrete slot.
\<close>

definition digest_a :: string where "digest_a = ''sha256:'' @ replicate 64 CHR ''a''"

definition digest_b :: string where "digest_b = ''sha256:'' @ replicate 64 CHR ''b''"

definition sample_tx :: "string \<Rightarrow> dict" where
  "sample_tx bn = tx_payload ''oc2'' ''hermes'' digest_a digest_b digest_b digest_a bn digest_a ''now'' (replicate 64 CHR ''0'')"

definition sample_begin :: "string \<Rightarrow> dict result \<times> tree" where
  "sample_begin bn = begin_tx ''7'' ''oc2'' ''hermes'' digest_a digest_b digest_b digest_a bn digest_a ''now'' (replicate 64 CHR ''0'') []"

definition sample_finish :: "string result \<times> tree" where
  "sample_finish = finish sample_env ''7'' ''oc2'' ''candidate_succeeded'' digest_a digest_b (snd (sample_begin ''b1''))"

lemma sample_begin_ok:
  assumes "ascii_only bn"
  shows "sample_begin bn = (Inr (sample_tx bn), snd (sample_begin bn))"
proof -
  have ok: "SAFE ''oc2''" "''hermes'' \<in> {''hermes'', ''openclaw''}" "list_all DIGEST_RE [digest_a, digest_b, digest_b, digest_a, digest_a]"
    "ascii_only ''now''" "TX_ID (replicate 64 CHR ''0'')" "rec_limit sample_env \<noteq> 0" by code_simp+
  have "utf8_valid (dumps_ascii (JObj (sample_tx bn)) @ [CHR 0x0A])"
    using payload_text(1,3) [OF _ ok(1-3) assms ok(4-6)] by (simp add: sample_tx_def)
  then have "fst (sample_begin bn) = Inr (sample_tx bn)"
    using begin_checks_Inr [of "''oc2''" "''hermes''" digest_a digest_b digest_b digest_a digest_a "[]" "''oc2''"] ok
    by (simp add: sample_begin_def begin_tx_def sample_tx_def atomic_write_text_def encode_utf8_def Let_def)
  then show ?thesis by (simp add: prod_eq_iff)
qed

lemma sample_sealed: "sealed ''oc2'' (sample_tx ''b1'')"
proof -
  have "SAFE ''oc2'' \<and> ''hermes'' \<in> {''hermes'', ''openclaw''} \<and> list_all DIGEST_RE [digest_a, digest_b, digest_b, digest_a, digest_a]
    \<and> ''b1'' \<noteq> [] \<and> ascii_only ''b1'' \<and> ''now'' \<noteq> [] \<and> ascii_only ''now'' \<and> TX_ID (replicate 64 CHR ''0'')" by code_simp
  then show ?thesis unfolding sealed_def sample_tx_def by blast
qed

lemma sample_finish_ok: "\<exists>path. sample_finish = (Inr path, snd sample_finish)"
proof -
  have env: "rec_limit sample_env \<noteq> 0" "ascii_only ''b1''" by code_simp+
  have "map_of (snd (sample_begin ''b1'')) (tx_path ''oc2'') = Some (Regular (tx_text (sample_tx ''b1'')))"
    using begin_ok(6) [OF sample_begin_ok [OF env(2), unfolded sample_begin_def]] sealed_text(1) [OF sample_sealed env(1)]
    by (simp add: sample_begin_def)
  from load_sealed [OF sample_sealed env(1) this] have "load sample_env ''oc2'' (snd (sample_begin ''b1'')) = Inr (sample_tx ''b1'')" .
  moreover have "matches (sample_tx ''b1'') ''candidate_succeeded'' digest_a digest_b" by code_simp
  ultimately show ?thesis using finish_sealed [OF sample_sealed, of sample_env _ _ _ _ "''7''"] unfolding sample_finish_def by fastforce
qed

theorem canary_single_use_witness:
  "load sample_env ''oc2'' (snd sample_finish) = Inl (ValueError ''canary transaction absent'')"
proof -
  have b: "begin_tx ''7'' ''oc2'' ''hermes'' digest_a digest_b digest_b digest_a ''b1'' digest_a ''now'' (replicate 64 CHR ''0'') [] =
      (Inr (sample_tx ''b1''), snd (sample_begin ''b1''))"
    using sample_begin_ok [of "''b1''"] by (simp add: sample_begin_def)
  obtain path where f: "finish sample_env ''7'' ''oc2'' ''candidate_succeeded'' digest_a digest_b (snd (sample_begin ''b1'')) =
      (Inr path, snd sample_finish)"
    using sample_finish_ok unfolding sample_finish_def by auto
  have "canary_run sample_env ''oc2'' [] ([] @ [Begun (sample_tx ''b1'')]) (snd (sample_begin ''b1''))"
    by (rule canary_run.begun [OF canary_run.start b]) code_simp+
  from canary_run.finished [OF this f]
  have "canary_run sample_env ''oc2'' [] ([Begun (sample_tx ''b1''), Finished ''candidate_succeeded'' digest_a digest_b]) (snd sample_finish)" by simp
  from canary_single_use [OF this] have "SAFE ''oc2'' \<Longrightarrow> rec_limit sample_env \<noteq> 0 \<Longrightarrow> \<exists>opened.
      open_after [Begun (sample_tx ''b1''), Finished ''candidate_succeeded'' digest_a digest_b] = Some opened
      \<and> load sample_env ''oc2'' (snd sample_finish) = (case opened of None \<Rightarrow> Inl (ValueError ''canary transaction absent'') | Some tx \<Rightarrow> Inr tx)"
    by simp
  moreover have "SAFE ''oc2''" "rec_limit sample_env \<noteq> 0" by code_simp+
  ultimately show ?thesis by (auto simp: open_after_def split: if_splits)
qed

theorem canary_empty_backup_wedges_witness:
  "load sample_env ''oc2'' (snd (sample_begin [])) = Inl (ValueError ''canary transaction backup identity invalid'')
    \<and> (\<exists>e. finish sample_env ''7'' ''oc2'' ''candidate_succeeded'' digest_a digest_b (snd (sample_begin [])) = (Inl e, snd (sample_begin [])))
    \<and> (\<exists>e. begin_tx ''7'' ''oc2'' ''hermes'' digest_a digest_b digest_b digest_a ''b1'' digest_a ''now'' (replicate 64 CHR ''1'') (snd (sample_begin [])) =
        (Inl e, snd (sample_begin [])))"
proof -
  have b: "begin_tx ''7'' ''oc2'' ''hermes'' digest_a digest_b digest_b digest_a [] digest_a ''now'' (replicate 64 CHR ''0'') [] =
      (Inr (sample_tx []), snd (sample_begin []))"
    using sample_begin_ok [of "[]"] by (simp add: sample_begin_def)
  have "ascii_only ''now''" "''now'' \<noteq> []" "TX_ID (replicate 64 CHR ''0'')" "rec_limit sample_env \<noteq> 0" by code_simp+
  from canary_empty_backup_wedges [OF b this] show ?thesis by blast
qed

end
