(* ===== verification/Runtime_Backup.thy ===== *)
theory Runtime_Backup
  imports Files Json_Indent Sha256 "HOL-Library.Product_Lexorder"
begin

text \<open>
  Recovery of a runtime (\<open>domain/runtime_backup.py\<close>): the backup of the four managed files, the rollback
  transaction that binds one backup, and the restoration. The state is what the operations read and write for one
  slot; the directories above it are controlled by root and the two runtime locks serialise the operations, so an
  operation is one step. A path below the backup root is its name, so where the code compares full paths of one root the
  names are compared. The creation of the directory of the state manifest and the caller's \<open>on_mutation_started\<close> callback
  are not modelled. What the host answers is the record \<open>rb_host\<close>; names
  whose digits are not ASCII are outside the model.
\<close>

section \<open>State\<close>

record file_node =
  fl_bytes :: string
  fl_mode :: int
  fl_uid :: int
  fl_gid :: int
  fl_links :: nat

datatype entry = File file_node | SymbolicLink | OtherEntry

type_synonym folder = "(string \<times> entry) list"

text \<open>
  \<open>rs_runtime\<close> is the runtime directory, \<open>rs_state_manifest\<close> the manifest below the state root, \<open>rs_backups\<close>
  the entries of the backup root, \<open>None\<close> for one that is not a directory, \<open>rs_recovery\<close> the recovery
  directory of the slot.
\<close>

record slot_files =
  rs_runtime :: folder
  rs_state_manifest :: "entry option"
  rs_backups :: "(string \<times> folder option) list"
  rs_recovery :: folder

text \<open>
  \<open>rh_run\<close> is \<open>run_text\<close> (return code, output and error output), \<open>rh_yaml\<close> is PyYAML's \<open>safe_load\<close>.
\<close>

record rb_host =
  rh_env :: pyenv
  rh_euid :: int
  rh_egid :: int
  rh_mode :: int
  rh_run :: "string list \<Rightarrow> int \<times> string \<times> string"
  rh_yaml :: "string \<Rightarrow> json result"

definition COMPOSE_FILE :: string where "COMPOSE_FILE = ''docker-compose.agent-runtime.yml''"

definition MANIFEST_FILE :: string where "MANIFEST_FILE = ''.agent-runtime-manifest''"

definition ENV_FILE :: string where "ENV_FILE = ''.env''"

definition STATE_MANIFEST_FILE :: string where "STATE_MANIFEST_FILE = ''manifest.yaml''"

definition METADATA_FILE :: string where "METADATA_FILE = ''backup.json''"

definition BACKUP_SCHEMA :: string where "BACKUP_SCHEMA = ''agent-runtime-backup/v2''"

definition LEGACY_BACKUP_IMPORT_SCHEMA :: string where
  "LEGACY_BACKUP_IMPORT_SCHEMA = ''agent-runtime-legacy-backup-import/v1''"

definition ROLLBACK_TRANSACTION_SCHEMA :: string where
  "ROLLBACK_TRANSACTION_SCHEMA = ''agent-runtime-rollback-transaction/v2''"

definition ROLLBACK_TRANSACTION_NAME :: string where
  "ROLLBACK_TRANSACTION_NAME = ''.agent-runtime-rollback-transaction.json''"

definition ROLLBACK_TRANSACTION_KEYS :: "string list" where
  "ROLLBACK_TRANSACTION_KEYS = [''backup_metadata_sha256'', ''backup_name'', ''schema'', ''slot'', ''transaction_id'']"

definition BACKUP_ARTIFACTS :: "(string \<times> string) list" where
  "BACKUP_ARTIFACTS = [(MANIFEST_FILE, ''had_manifest''), (ENV_FILE, ''had_env''), (COMPOSE_FILE, ''had_compose''),
     (STATE_MANIFEST_FILE, ''had_state_manifest'')]"

definition MAX_FILE_BYTES :: nat where "MAX_FILE_BYTES = 8388608"

section \<open>Names of backups\<close>

definition digit_run :: "nat \<Rightarrow> string \<Rightarrow> bool" where
  "digit_run n s \<longleftrightarrow> n \<le> length s \<and> list_all is_digit (take n s)"

text \<open>\<open>_BACKUP_NAME\<close>: the timestamp of twenty characters and the suffix, 1 when there is none.\<close>

definition backup_name_parts :: "string \<Rightarrow> (string \<times> nat) option" where
  "backup_name_parts s =
     (let t = take 20 s; r = drop 20 s in
      if digit_run 8 t \<and> take 1 (drop 8 t) = ''T'' \<and> digit_run 6 (drop 9 t)
         \<and> (take 1 (drop 15 t) = ''+'' \<or> take 1 (drop 15 t) = ''-'') \<and> digit_run 4 (drop 16 t)
      then (if r = [] then Some (t, 1)
            else if hd r = CHR ''.'' \<and> tl r \<noteq> [] \<and> list_all is_digit (tl r) \<and> hd (tl r) \<noteq> CHR ''0'' \<and> tl r \<noteq> ''1''
            then Some (t, read_nat (tl r)) else None)
      else None)"

text \<open>\<open>datetime.strptime(timestamp, "%Y%m%dT%H%M%S%z")\<close> as seconds.\<close>

definition stamp_instant :: "string \<Rightarrow> int result" where
  "stamp_instant t =
     (let num = (\<lambda>a n. read_nat (take n (drop a t)));
          c = Civil (num 0 4) (num 4 2) (num 6 2) (num 9 2) (num 11 2) (num 13 2);
          off = int (num 16 2 * 3600 + num 18 2 * 60) in
      if civil_ok c \<and> num 16 2 < 24 \<and> num 18 2 < 60
      then Inr (instant c - (if t ! 15 = CHR ''-'' then - off else off))
      else Inl (ValueError ''time data does not match format''))"

definition backup_sort_key :: "string \<Rightarrow> (int \<times> nat) option result" where
  "backup_sort_key name =
     (case backup_name_parts name of
        None \<Rightarrow> Inr None
      | Some (t, n) \<Rightarrow> bindE (stamp_instant t) (\<lambda>i. Inr (Some (i, n))))"

definition backup_path_for_suffix :: "string \<Rightarrow> nat \<Rightarrow> string result" where
  "backup_path_for_suffix original suffix =
     (case backup_name_parts original of
        None \<Rightarrow> Inl (ValueError ''invalid generated backup name'')
      | Some (t, _) \<Rightarrow>
          (if suffix < 1 then Inl (ValueError ''invalid generated backup name'')
           else Inr (if suffix = 1 then t else t @ ''.'' @ show_nat suffix)))"

text \<open>A loop over the entries of the backup root; the order is that of the directory.\<close>

definition entry_key :: "string \<times> folder option \<Rightarrow> (int \<times> nat) result" where
  "entry_key e =
     bindE (backup_sort_key (fst e)) (\<lambda>k. case k of
       None \<Rightarrow> Inl (ValueError ''unexpected managed backup entry'')
     | Some key \<Rightarrow> (if snd e = None then Inl (ValueError ''managed backup entry must be a directory'') else Inr key))"

definition next_backup_path :: "slot_files \<Rightarrow> string \<Rightarrow> string result" where
  "next_backup_path s original =
     bindE (backup_sort_key original) (\<lambda>k. case k of
       None \<Rightarrow> Inl (ValueError ''invalid generated backup name'')
     | Some key \<Rightarrow>
         bindE (mapE entry_key (rs_backups s)) (\<lambda>ks.
         let same = map snd (filter (\<lambda>x. fst x = fst key) ks) in
         if same = [] then Inr original else backup_path_for_suffix original (foldr max same 0 + 1)))"

section \<open>Reading files\<close>

text \<open>\<open>_read_stable_regular_file\<close>, without a change of the file while it is read.\<close>

definition read_stable :: "rb_host \<Rightarrow> nat \<Rightarrow> entry option \<Rightarrow> string result" where
  "read_stable h maximum e =
     (case e of
        Some (File f) \<Rightarrow>
          bindE (raise_if (fl_links f \<noteq> 1) (ValueError ''managed artifact must have one link'')) (\<lambda>_.
          bindE (raise_if (fl_uid f \<noteq> rh_euid h) (ValueError ''managed artifact owner mismatch'')) (\<lambda>_.
          bindE (raise_if (maximum < length (fl_bytes f)) (ValueError ''managed artifact is too large'')) (\<lambda>_.
          Inr (fl_bytes f))))
      | Some OtherEntry \<Rightarrow> Inl (ValueError ''managed artifact must be a regular file'')
      | _ \<Rightarrow> Inl (ValueError ''managed artifact could not be opened safely''))"

definition sha256_file :: "rb_host \<Rightarrow> entry option \<Rightarrow> string result" where
  "sha256_file h e = bindE (read_stable h MAX_FILE_BYTES e) (\<lambda>b. Inr (sha256_tag b))"

definition is_file :: "entry option \<Rightarrow> bool" where
  "is_file e = (case e of Some (File _) \<Rightarrow> True | _ \<Rightarrow> False)"

text \<open>A dictionary from strict JSON text; the error of a repeated key is a plain \<open>ValueError\<close>.\<close>

definition strict_object :: "rb_host \<Rightarrow> string \<Rightarrow> string \<Rightarrow> json result" where
  "strict_object h what raw =
     raise_from (\<lambda>e. e = JSONDecodeError \<or> e = UnicodeDecodeError) (ValueError (''invalid '' @ what))
       (bindE (decode_utf8 raw) (json_loads (rh_env h) (unique_object (ValueError (''duplicate key of '' @ what)))))"

text \<open>\<open>_strict_json_object_with_digest\<close>, the text in at most 4096 bytes of a file with mode 0600.\<close>

definition strict_json_object :: "rb_host \<Rightarrow> entry option \<Rightarrow> (dict \<times> string) result" where
  "strict_json_object h e =
     (case e of
        Some (File f) \<Rightarrow>
          bindE (raise_if (fl_links f \<noteq> 1) (ValueError ''rollback transaction must have one link'')) (\<lambda>_.
          bindE (raise_if (fl_mode f \<noteq> 384) (ValueError ''rollback transaction mode must be 0600'')) (\<lambda>_.
          bindE (raise_if (fl_uid f \<noteq> rh_euid h) (ValueError ''rollback transaction owner mismatch'')) (\<lambda>_.
          bindE (raise_if (4096 < length (fl_bytes f)) (ValueError ''rollback transaction is too large'')) (\<lambda>_.
          bindE (strict_object h ''rollback transaction'' (fl_bytes f)) (\<lambda>v.
          case v of JObj d \<Rightarrow> Inr (d, sha256_tag (fl_bytes f)) | _ \<Rightarrow> Inl (ValueError ''rollback transaction must be an object''))))))
      | Some OtherEntry \<Rightarrow> Inl (ValueError ''rollback transaction must be a regular file'')
      | _ \<Rightarrow> Inl (ValueError ''rollback transaction could not be opened safely''))"

section \<open>Validation of a backup\<close>

definition validate_backup_dir :: "rb_host \<Rightarrow> slot_files \<Rightarrow> string \<Rightarrow> folder result" where
  "validate_backup_dir h s name =
     bindE (backup_sort_key name) (\<lambda>k.
     bindE (raise_if (k = None) (ValueError ''rollback backup is outside the managed backup root'')) (\<lambda>_.
     case map_of (rs_backups s) name of
       Some (Some folder) \<Rightarrow>
         (case map_of folder METADATA_FILE of
            Some (File f) \<Rightarrow>
              bindE (raise_if (fl_links f \<noteq> 1) (ValueError ''rollback backup metadata must have one link'')) (\<lambda>_.
              bindE (raise_if (fl_uid f \<noteq> rh_euid h) (ValueError ''rollback backup metadata owner mismatch'')) (\<lambda>_.
              Inr folder))
          | _ \<Rightarrow> Inl (ValueError ''rollback backup metadata must be a regular file''))
     | _ \<Rightarrow> Inl (ValueError ''rollback backup must be a regular directory'')))"

definition load_validated_backup_metadata :: "rb_host \<Rightarrow> folder \<Rightarrow> (dict \<times> string) result" where
  "load_validated_backup_metadata h folder =
     bindE (read_stable h 1048576 (map_of folder METADATA_FILE)) (\<lambda>raw.
     bindE (strict_object h ''rollback backup metadata'' raw) (\<lambda>v.
     case v of
       JObj d \<Rightarrow>
         bindE (raise_if (jget_opt d ''schema'' \<noteq> JStr BACKUP_SCHEMA) (ValueError ''rollback backup metadata schema is invalid'')) (\<lambda>_.
         Inr (d, sha256_tag raw))
     | _ \<Rightarrow> Inl (ValueError ''rollback backup metadata schema is invalid'')))"

definition metadata_boolean :: "dict \<Rightarrow> string \<Rightarrow> bool \<Rightarrow> bool option result" where
  "metadata_boolean d key required =
     (case map_of d key of
        None \<Rightarrow> (if required then Inl (ValueError ''backup marker is required'') else Inr None)
      | Some (JBool b) \<Rightarrow> Inr (Some b)
      | Some _ \<Rightarrow> Inl (ValueError ''backup marker must be boolean''))"

definition is_text :: "(string \<Rightarrow> bool) \<Rightarrow> json \<Rightarrow> bool" where
  "is_text P v = (case v of JStr s \<Rightarrow> P s | _ \<Rightarrow> False)"

definition legacy_import_metadata :: "dict \<Rightarrow> dict option result" where
  "legacy_import_metadata d =
     (case jget_opt d ''legacy_source'' of
        JNull \<Rightarrow> Inr None
      | JObj v \<Rightarrow>
          bindE (raise_if (set (keys v) \<noteq> {''backup_json_sha256'', ''backup_name'', ''schema'', ''source_identity''})
            (ValueError ''legacy backup import metadata keys are invalid'')) (\<lambda>_.
          bindE (raise_if (jget_opt v ''schema'' \<noteq> JStr LEGACY_BACKUP_IMPORT_SCHEMA)
            (ValueError ''legacy backup import metadata schema is invalid'')) (\<lambda>_.
          bindE (raise_if (\<not> is_text (\<lambda>s. backup_name_parts s \<noteq> None) (jget_opt v ''backup_name''))
            (ValueError ''legacy backup import name is invalid'')) (\<lambda>_.
          bindE (raise_if (\<not> is_text DIGEST_RE (jget_opt v ''backup_json_sha256'')) (ValueError ''legacy backup import digest is invalid'')) (\<lambda>_.
          bindE (raise_if (\<not> is_text DIGEST_RE (jget_opt v ''source_identity'')) (ValueError ''legacy backup import digest is invalid'')) (\<lambda>_.
          Inr (Some v))))))
      | _ \<Rightarrow> Inl (ValueError ''legacy backup import metadata keys are invalid''))"

definition check_artifact :: "rb_host \<Rightarrow> folder \<Rightarrow> dict \<Rightarrow> bool \<Rightarrow> dict \<Rightarrow> string \<times> string \<Rightarrow> unit result" where
  "check_artifact h folder metadata legacy digests a =
     bindE (metadata_boolean metadata (snd a) (\<not> (legacy \<and> snd a = ''had_env''))) (\<lambda>present.
     if present = Some True then
       (case map_of folder (fst a) of
          Some (File f) \<Rightarrow>
            bindE (raise_if (fl_links f \<noteq> 1) (ValueError ''rollback backup artifact must have one link'')) (\<lambda>_.
            bindE (raise_if (fl_uid f \<noteq> rh_euid h) (ValueError ''rollback backup artifact owner mismatch'')) (\<lambda>_.
            case jget_opt digests (fst a) of
              JStr expected \<Rightarrow>
                bindE (sha256_file h (Some (File f))) (\<lambda>actual.
                raise_if (actual \<noteq> expected) (ValueError ''rollback backup artifact digest mismatch''))
            | _ \<Rightarrow> Inl (ValueError ''rollback backup artifact digest mismatch'')))
        | _ \<Rightarrow> Inl (ValueError ''rollback backup artifact must be a regular file''))
     else raise_if (jget_opt digests (fst a) \<noteq> JNull \<or> map_of folder (fst a) \<noteq> None)
       (ValueError ''rollback backup absent artifact state mismatch''))"

definition validate_backup_integrity :: "rb_host \<Rightarrow> slot_files \<Rightarrow> string \<Rightarrow> (dict \<times> string) result" where
  "validate_backup_integrity h s name =
     bindE (validate_backup_dir h s name) (\<lambda>folder.
     bindE (load_validated_backup_metadata h folder) (\<lambda>(metadata, digest).
     bindE (legacy_import_metadata metadata) (\<lambda>legacy.
     case jget_opt metadata ''artifact_sha256'' of
       JObj digests \<Rightarrow>
         bindE (raise_if (set (keys digests) \<noteq> set (map fst BACKUP_ARTIFACTS)) (ValueError ''rollback backup artifact digest set is invalid'')) (\<lambda>_.
         bindE (forE (check_artifact h folder metadata (legacy \<noteq> None) digests) BACKUP_ARTIFACTS) (\<lambda>_.
         Inr (metadata, digest)))
     | _ \<Rightarrow> Inl (ValueError ''rollback backup artifact digest set is invalid''))))"


section \<open>The rollback transaction\<close>

definition HEX64 :: "string \<Rightarrow> bool" where
  "HEX64 s \<longleftrightarrow> length s = 64 \<and> list_all is_hex s"

definition load_rollback_transaction :: "rb_host \<Rightarrow> string \<Rightarrow> slot_files \<Rightarrow> (dict \<times> string) option result" where
  "load_rollback_transaction h slot s =
     (case map_of (rs_recovery s) ROLLBACK_TRANSACTION_NAME of
        None \<Rightarrow> Inr None
      | Some e \<Rightarrow>
          bindE (strict_json_object h (Some e)) (\<lambda>(d, marker_digest).
          bindE (raise_if (set (keys d) \<noteq> set ROLLBACK_TRANSACTION_KEYS) (ValueError ''rollback transaction keys do not match the exact schema'')) (\<lambda>_.
          bindE (raise_if (jget_opt d ''schema'' \<noteq> JStr ROLLBACK_TRANSACTION_SCHEMA) (ValueError ''unsupported rollback transaction schema'')) (\<lambda>_.
          bindE (raise_if (jget_opt d ''slot'' \<noteq> JStr slot) (ValueError ''rollback transaction slot does not match the requested slot'')) (\<lambda>_.
          bindE (raise_if (\<not> is_text HEX64 (jget_opt d ''transaction_id'')) (ValueError ''rollback transaction id is invalid'')) (\<lambda>_.
          case jget_opt d ''backup_name'' of
            JStr name \<Rightarrow>
              bindE (raise_if (backup_name_parts name = None) (ValueError ''rollback transaction backup name is invalid'')) (\<lambda>_.
              bindE (validate_backup_integrity h s name) (\<lambda>(_, digest).
              bindE (raise_if (jget_opt d ''backup_metadata_sha256'' \<noteq> JStr digest) (ValueError ''rollback transaction backup metadata digest mismatch'')) (\<lambda>_.
              Inr (Some (d, marker_digest)))))
          | _ \<Rightarrow> Inl (ValueError ''rollback transaction backup name is invalid'')))))))"

definition str_field :: "dict \<Rightarrow> string \<Rightarrow> string" where
  "str_field d k = (case jget_opt d k of JStr s \<Rightarrow> s | _ \<Rightarrow> [])"

record rollback_identity =
  ri_backup_metadata_sha256 :: string
  ri_backup_name :: string
  ri_marker_sha256 :: string
  ri_transaction_id :: string

definition pending_rollback_identity :: "rb_host \<Rightarrow> string \<Rightarrow> slot_files \<Rightarrow> rollback_identity option result" where
  "pending_rollback_identity h slot s =
     bindE (load_rollback_transaction h slot s) (\<lambda>t. Inr (map_option (\<lambda>(d, marker).
       \<lparr>ri_backup_metadata_sha256 = str_field d ''backup_metadata_sha256'', ri_backup_name = str_field d ''backup_name'',
        ri_marker_sha256 = marker, ri_transaction_id = str_field d ''transaction_id''\<rparr>) t))"

definition pending_rollback_backup :: "rb_host \<Rightarrow> string \<Rightarrow> slot_files \<Rightarrow> string option result" where
  "pending_rollback_backup h slot s =
     bindE (load_rollback_transaction h slot s) (\<lambda>t. case t of
       None \<Rightarrow> Inr None
     | Some (d, _) \<Rightarrow> bindE (validate_backup_dir h s (str_field d ''backup_name'')) (\<lambda>_. Inr (Some (str_field d ''backup_name''))))"

definition validate_expected_rollback_identity :: "rollback_identity \<Rightarrow> unit result" where
  "validate_expected_rollback_identity x =
     bindE (raise_if (\<not> HEX64 (ri_transaction_id x)) (MarkerBoundRecoveryError ''expected_transaction_id_invalid'')) (\<lambda>_.
     bindE (raise_if (backup_name_parts (ri_backup_name x) = None) (MarkerBoundRecoveryError ''expected_backup_name_invalid'')) (\<lambda>_.
     bindE (raise_if (\<not> DIGEST_RE (ri_marker_sha256 x)) (MarkerBoundRecoveryError ''expected_marker_sha256_invalid'')) (\<lambda>_.
     raise_if (\<not> DIGEST_RE (ri_backup_metadata_sha256 x)) (MarkerBoundRecoveryError ''expected_backup_metadata_sha256_invalid''))))"

definition require_exact_pending_rollback :: "rb_host \<Rightarrow> string \<Rightarrow> rollback_identity \<Rightarrow> slot_files \<Rightarrow> (string \<times> rollback_identity) result" where
  "require_exact_pending_rollback h slot expected s =
     bindE (validate_expected_rollback_identity expected) (\<lambda>_.
     bindE (raise_from (\<lambda>_. True) (MarkerBoundRecoveryError ''pending_transaction_invalid'') (pending_rollback_identity h slot s)) (\<lambda>observed.
     case observed of
       None \<Rightarrow> Inl (MarkerBoundRecoveryError ''pending_transaction_absent'')
     | Some x \<Rightarrow>
         bindE (raise_if (ri_transaction_id x \<noteq> ri_transaction_id expected) (MarkerBoundRecoveryError ''transaction_id_mismatch'')) (\<lambda>_.
         bindE (raise_if (ri_backup_name x \<noteq> ri_backup_name expected) (MarkerBoundRecoveryError ''backup_name_mismatch'')) (\<lambda>_.
         bindE (raise_if (ri_backup_metadata_sha256 x \<noteq> ri_backup_metadata_sha256 expected) (MarkerBoundRecoveryError ''backup_metadata_sha256_mismatch'')) (\<lambda>_.
         bindE (raise_if (ri_marker_sha256 x \<noteq> ri_marker_sha256 expected) (MarkerBoundRecoveryError ''marker_sha256_mismatch'')) (\<lambda>_.
         bindE (validate_backup_integrity h s (ri_backup_name x)) (\<lambda>_.
         Inr (ri_backup_name x, x))))))))"

definition drop_marker :: "slot_files \<Rightarrow> slot_files" where
  "drop_marker s = s\<lparr>rs_recovery := remove_file ROLLBACK_TRANSACTION_NAME (rs_recovery s)\<rparr>"

definition finish_exact_rollback_transaction ::
  "rb_host \<Rightarrow> string \<Rightarrow> string \<Rightarrow> rollback_identity \<Rightarrow> slot_files \<Rightarrow> unit result \<times> slot_files" where
  "finish_exact_rollback_transaction h slot name expected s =
     (case bindE (require_exact_pending_rollback h slot expected s) (\<lambda>(observed, _).
           raise_if (observed \<noteq> name) (MarkerBoundRecoveryError ''backup_identity_changed_before_completion'')) of
        Inl e \<Rightarrow> (Inl e, s) | Inr _ \<Rightarrow> (Inr (), drop_marker s))"

text \<open>\<open>atomic_write_text\<close> in the recovery directory, with mode 0600.\<close>

definition write_recovery :: "rb_host \<Rightarrow> string \<Rightarrow> string \<Rightarrow> slot_files \<Rightarrow> unit result \<times> slot_files" where
  "write_recovery h name text s =
     (case encode_utf8 text of
        Inl e \<Rightarrow> (Inl e, s)
      | Inr b \<Rightarrow> (Inr (), s\<lparr>rs_recovery := write_file name
          (File \<lparr>fl_bytes = b, fl_mode = 384, fl_uid = rh_euid h, fl_gid = rh_egid h, fl_links = 1\<rparr>) (rs_recovery s)\<rparr>))"

definition transaction_payload :: "string \<Rightarrow> string \<Rightarrow> string \<Rightarrow> string \<Rightarrow> dict" where
  "transaction_payload slot name digest token =
     [(''backup_metadata_sha256'', JStr digest), (''backup_name'', JStr name), (''schema'', JStr ROLLBACK_TRANSACTION_SCHEMA),
      (''slot'', JStr slot), (''transaction_id'', JStr token)]"

definition begin_rollback_transaction ::
  "rb_host \<Rightarrow> string \<Rightarrow> string \<Rightarrow> string \<Rightarrow> slot_files \<Rightarrow> unit result \<times> slot_files" where
  "begin_rollback_transaction h slot name token s =
     (case bindE (validate_backup_integrity h s name) (\<lambda>(_, digest).
           bindE (pending_rollback_backup h slot s) (\<lambda>existing. Inr (digest, existing))) of
        Inl e \<Rightarrow> (Inl e, s)
      | Inr (digest, Some existing) \<Rightarrow>
          (if existing \<noteq> name then (Inl (RuntimeError ''another rollback transaction is pending''), s) else (Inr (), s))
      | Inr (digest, None) \<Rightarrow>
          write_recovery h ROLLBACK_TRANSACTION_NAME (dumps_ascii (JObj (transaction_payload slot name digest token)) @ [CHR 0x0A]) s)"

definition finish_rollback_transaction :: "rb_host \<Rightarrow> string \<Rightarrow> string \<Rightarrow> slot_files \<Rightarrow> unit result \<times> slot_files" where
  "finish_rollback_transaction h slot name s =
     (case pending_rollback_backup h slot s of
        Inl e \<Rightarrow> (Inl e, s)
      | Inr pending \<Rightarrow>
          (if pending \<noteq> Some name then (Inl (RuntimeError ''rollback transaction identity changed before completion''), s)
           else (Inr (), drop_marker s)))"

section \<open>Making a backup\<close>

text \<open>\<open>shutil.copy2\<close>: the bytes and the mode, owned by the caller.\<close>

definition copy_of :: "rb_host \<Rightarrow> file_node \<Rightarrow> file_node" where
  "copy_of h f = \<lparr>fl_bytes = fl_bytes f, fl_mode = fl_mode f, fl_uid = rh_euid h, fl_gid = rh_egid h, fl_links = 1\<rparr>"

definition opt_int :: "(file_node \<Rightarrow> int) \<Rightarrow> entry option \<Rightarrow> json" where
  "opt_int g e = (case e of Some (File f) \<Rightarrow> JInt (g f) | _ \<Rightarrow> JNull)"

definition backup_metadata :: "slot_files \<Rightarrow> string \<Rightarrow> string \<Rightarrow> dict \<Rightarrow> dict" where
  "backup_metadata s created_at manifest_path digests =
     (let env = map_of (rs_runtime s) ENV_FILE in
      [(''schema'', JStr BACKUP_SCHEMA), (''created_at'', JStr created_at),
       (''had_compose'', JBool (is_file (map_of (rs_runtime s) COMPOSE_FILE))), (''had_env'', JBool (is_file env)),
       (''env_gid'', opt_int fl_gid env), (''env_mode'', opt_int fl_mode env), (''env_uid'', opt_int fl_uid env),
       (''had_manifest'', JBool (is_file (map_of (rs_runtime s) MANIFEST_FILE))),
       (''had_state_manifest'', JBool (is_file (rs_state_manifest s))), (''state_manifest_path'', JStr manifest_path),
       (''artifact_sha256'', JObj digests)])"

definition staged_copy :: "rb_host \<Rightarrow> string \<Rightarrow> entry option \<Rightarrow> folder" where
  "staged_copy h name e = (case e of Some (File f) \<Rightarrow> [(name, File (copy_of h f))] | _ \<Rightarrow> [])"

definition staged_env :: "rb_host \<Rightarrow> entry option \<Rightarrow> folder" where
  "staged_env h e = (case e of Some (File f) \<Rightarrow> [(ENV_FILE, File ((copy_of h f)\<lparr>fl_mode := 384\<rparr>))] | _ \<Rightarrow> [])"

definition staged_artifacts :: "rb_host \<Rightarrow> slot_files \<Rightarrow> folder" where
  "staged_artifacts h s =
     staged_copy h COMPOSE_FILE (map_of (rs_runtime s) COMPOSE_FILE) @ staged_env h (map_of (rs_runtime s) ENV_FILE)
     @ staged_copy h MANIFEST_FILE (map_of (rs_runtime s) MANIFEST_FILE) @ staged_copy h STATE_MANIFEST_FILE (rs_state_manifest s)"

definition artifact_digest :: "rb_host \<Rightarrow> folder \<Rightarrow> string \<Rightarrow> (string \<times> json) result" where
  "artifact_digest h folder name =
     (if map_of folder name = None then Inr (name, JNull)
      else bindE (sha256_file h (map_of folder name)) (\<lambda>d. Inr (name, JStr d)))"

text \<open>The text of \<open>backup.json\<close>.\<close>

definition metadata_text :: "dict \<Rightarrow> string" where
  "metadata_text d = ascii_text (dumps_indent 0 (sort_keys (JObj d))) @ [CHR 0x0A]"

definition stage_backup :: "rb_host \<Rightarrow> slot_files \<Rightarrow> string \<Rightarrow> string \<Rightarrow> folder result" where
  "stage_backup h s created_at manifest_path =
     (let staged = staged_artifacts h s in
      bindE (mapE (artifact_digest h staged) (map fst BACKUP_ARTIFACTS)) (\<lambda>digests.
      bindE (encode_utf8 (metadata_text (backup_metadata s created_at manifest_path digests))) (\<lambda>b.
      Inr (staged @ [(METADATA_FILE, File \<lparr>fl_bytes = b, fl_mode = rh_mode h, fl_uid = rh_euid h, fl_gid = rh_egid h, fl_links = 1\<rparr>)]))))"

text \<open>The loop that renames the staged directory: a name that is taken advances the suffix.\<close>

definition publish_name :: "slot_files \<Rightarrow> string \<Rightarrow> string \<Rightarrow> string result" where
  "publish_name s original name =
     bindE (backup_sort_key name) (\<lambda>k. case k of
       None \<Rightarrow> Inl (ValueError ''invalid backup path'')
     | Some (_, suffix) \<Rightarrow>
         (if map_of (rs_backups s) name = None then Inr name
          else (case backup_name_parts original of
                  None \<Rightarrow> Inl (ValueError ''invalid generated backup name'')
                | Some (t, _) \<Rightarrow> Inr (t @ ''.'' @ show_nat (free_suffix (rs_backups s) t (Suc suffix))))))"

definition backup_agent_runtime_state ::
  "rb_host \<Rightarrow> string \<Rightarrow> string \<Rightarrow> string \<Rightarrow> string \<Rightarrow> slot_files \<Rightarrow> string result \<times> slot_files" where
  "backup_agent_runtime_state h slot stamp created_at manifest_path s =
     (case bindE (pending_rollback_backup h slot s) (\<lambda>pending.
           bindE (raise_if (pending \<noteq> None) (RuntimeError ''rollback transaction must be completed before a new apply'')) (\<lambda>_.
           bindE (next_backup_path s stamp) (\<lambda>name.
           bindE (raise_if (map_of (rs_runtime s) ENV_FILE \<noteq> None \<and> \<not> is_file (map_of (rs_runtime s) ENV_FILE))
             (ValueError ''runtime env must be a regular file'')) (\<lambda>_.
           bindE (stage_backup h s created_at manifest_path) (\<lambda>folder.
           bindE (publish_name s stamp name) (\<lambda>published. Inr (published, folder))))))) of
        Inl e \<Rightarrow> (Inl e, s)
      | Inr (name, folder) \<Rightarrow> (Inr name, s\<lparr>rs_backups := rs_backups s @ [(name, Some folder)]\<rparr>))"

definition latest_backup :: "slot_files \<Rightarrow> string option result" where
  "latest_backup s =
     bindE (mapE (\<lambda>e.
       bindE (entry_key e) (\<lambda>key.
       bindE (raise_if (\<not> is_file (map_of (case snd e of Some folder \<Rightarrow> folder | None \<Rightarrow> []) METADATA_FILE))
         (ValueError ''managed backup entry must contain regular backup metadata'')) (\<lambda>_.
       Inr (fst e, key)))) (rs_backups s)) (\<lambda>ks.
     Inr (if ks = [] then None else Some (fst (last (sort_key snd ks)))))"


section \<open>Restoring a backup\<close>

datatype managed = Compose | Manifest | StateManifest | Env

definition target :: "managed \<Rightarrow> slot_files \<Rightarrow> entry option" where
  "target m s = (case m of
       Compose \<Rightarrow> map_of (rs_runtime s) COMPOSE_FILE | Manifest \<Rightarrow> map_of (rs_runtime s) MANIFEST_FILE
     | Env \<Rightarrow> map_of (rs_runtime s) ENV_FILE | StateManifest \<Rightarrow> rs_state_manifest s)"

definition target_name :: "managed \<Rightarrow> string" where
  "target_name m = (case m of Compose \<Rightarrow> COMPOSE_FILE | Manifest \<Rightarrow> MANIFEST_FILE | Env \<Rightarrow> ENV_FILE | StateManifest \<Rightarrow> STATE_MANIFEST_FILE)"

definition put :: "managed \<Rightarrow> entry \<Rightarrow> slot_files \<Rightarrow> slot_files" where
  "put m e s = (if m = StateManifest then s\<lparr>rs_state_manifest := Some e\<rparr> else s\<lparr>rs_runtime := write_file (target_name m) e (rs_runtime s)\<rparr>)"

definition unlink :: "managed \<Rightarrow> slot_files \<Rightarrow> slot_files" where
  "unlink m s = (if m = StateManifest then s\<lparr>rs_state_manifest := None\<rparr> else s\<lparr>rs_runtime := remove_file (target_name m) (rs_runtime s)\<rparr>)"

definition validate_managed_target :: "managed \<Rightarrow> slot_files \<Rightarrow> unit result" where
  "validate_managed_target m s =
     raise_if (target m s \<noteq> None \<and> \<not> is_file (target m s)) (ValueError ''managed restore target must be a regular file'')"

definition restore_regular_file :: "rb_host \<Rightarrow> folder \<Rightarrow> managed \<Rightarrow> (int \<times> int \<times> int) option \<Rightarrow> slot_files \<Rightarrow> unit result \<times> slot_files" where
  "restore_regular_file h folder m owner s =
     (case map_of folder (target_name m) of
        Some (File f) \<Rightarrow>
          (case validate_managed_target m s of
             Inl e \<Rightarrow> (Inl e, s)
           | Inr _ \<Rightarrow>
               (Inr (), put m (File (case owner of None \<Rightarrow> copy_of h f
                  | Some (mode, uid, gid) \<Rightarrow> (copy_of h f)\<lparr>fl_mode := mode, fl_uid := uid, fl_gid := gid\<rparr>)) s))
      | _ \<Rightarrow> (Inl (ValueError ''backup restore source must be a regular file''), s))"

definition remove_regular_file :: "managed \<Rightarrow> slot_files \<Rightarrow> unit result \<times> slot_files" where
  "remove_regular_file m s =
     (case validate_managed_target m s of Inl e \<Rightarrow> (Inl e, s) | Inr _ \<Rightarrow> (Inr (), unlink m s))"

definition as_int :: "json \<Rightarrow> int result" where
  "as_int v = (case v of JInt n \<Rightarrow> Inr n | _ \<Rightarrow> Inl (ValueError ''backup value must be an integer''))"

definition validate_env_restore_inputs :: "folder \<Rightarrow> dict \<Rightarrow> slot_files \<Rightarrow> bool option result" where
  "validate_env_restore_inputs folder metadata s =
     bindE (metadata_boolean metadata ''had_env'' False) (\<lambda>had_env.
     bindE (validate_managed_target Env s) (\<lambda>_.
     bindE (if had_env = Some True then
         bindE (raise_if (\<not> is_file (map_of folder ENV_FILE)) (ValueError ''backup runtime env must be a regular file'')) (\<lambda>_.
         forE (\<lambda>k. bindE (as_int (jget_opt metadata k)) (\<lambda>_. Inr ())) [''env_mode'', ''env_uid'', ''env_gid''])
       else Inr ()) (\<lambda>_. Inr had_env)))"

definition load_yaml :: "rb_host \<Rightarrow> entry option \<Rightarrow> json result" where
  "load_yaml h e =
     (case e of
        Some (File f) \<Rightarrow>
          bindE (decode_utf8 (fl_bytes f)) (\<lambda>t. bindE (rh_yaml h t) (\<lambda>v. Inr (if v = JNull then JObj [] else v)))
      | _ \<Rightarrow> Inl (OSError ''file not found''))"

definition restore_backup_env :: "rb_host \<Rightarrow> folder \<Rightarrow> slot_files \<Rightarrow> unit result \<times> slot_files" where
  "restore_backup_env h folder s =
     (case bindE (load_yaml h (map_of folder METADATA_FILE)) (\<lambda>v. case v of
             JObj metadata \<Rightarrow> bindE (validate_env_restore_inputs folder metadata s) (\<lambda>had_env. Inr (metadata, had_env))
           | _ \<Rightarrow> Inl (ValueError ''backup metadata must be an object'')) of
        Inl e \<Rightarrow> (Inl e, s)
      | Inr (metadata, None) \<Rightarrow> (Inr (), s)
      | Inr (metadata, Some False) \<Rightarrow> remove_regular_file Env s
      | Inr (metadata, Some True) \<Rightarrow>
          (case bindE (as_int (jget_opt metadata ''env_mode'')) (\<lambda>mode.
                bindE (as_int (jget_opt metadata ''env_uid'')) (\<lambda>uid.
                bindE (as_int (jget_opt metadata ''env_gid'')) (\<lambda>gid. Inr (mode, uid, gid)))) of
             Inl e \<Rightarrow> (Inl e, s)
           | Inr owner \<Rightarrow> restore_regular_file h folder Env (Some owner) s))"

definition compose_command :: "string \<Rightarrow> string \<Rightarrow> string list \<Rightarrow> string list" where
  "compose_command slot path args = [''docker'', ''compose'', ''-p'', ''openclaw-'' @ slot, ''-f'', path] @ args"

text \<open>The first text that is not empty, stripped; the default when nothing is left.\<close>

definition detail :: "int \<times> string \<times> string \<Rightarrow> string \<Rightarrow> string" where
  "detail r other = (let t = py_strip (if snd (snd r) \<noteq> [] then snd (snd r) else fst (snd r)) in if t \<noteq> [] then t else other)"

definition residue_queries :: "string \<Rightarrow> (string \<times> string list) list" where
  "residue_queries slot =
     (let label = ''label=com.docker.compose.project=openclaw-'' @ slot in
      [(''containers'', [''docker'', ''ps'', ''-a'', ''--filter'', label, ''--format'', ''{{.ID}}'']),
       (''networks'', [''docker'', ''network'', ''ls'', ''--filter'', label, ''--format'', ''{{.ID}}'']),
       (''volumes'', [''docker'', ''volume'', ''ls'', ''--filter'', label, ''--format'', ''{{.Name}}''])])"

fun project_residue :: "rb_host \<Rightarrow> (string \<times> string list) list \<Rightarrow> bool \<times> string" where
  "project_residue h [] = (True, ''empty_baseline_project_absent'')"
| "project_residue h ((kind, argv) # qs) =
     (let r = rh_run h argv in
      if fst r \<noteq> 0 then (False, detail r (''empty_baseline_'' @ kind @ ''_query_failed''))
      else (let count = length (filter (\<lambda>l. py_strip l \<noteq> []) (py_splitlines (fst (snd r)))) in
            if count \<noteq> 0 then (False, ''empty_baseline_'' @ kind @ ''_remain:'' @ show_nat count) else project_residue h qs))"

text \<open>The three files of the plan: what is checked before the first write, and the restoration of one.\<close>

definition check_plan :: "folder \<Rightarrow> slot_files \<Rightarrow> (bool \<times> managed) list \<Rightarrow> unit result" where
  "check_plan folder s plan =
     forE (\<lambda>(had, m).
       bindE (validate_managed_target m s) (\<lambda>_.
       raise_if (had \<and> \<not> is_file (map_of folder (target_name m))) (ValueError ''backup restore source must be a regular file''))) plan"

fun restore_plan :: "rb_host \<Rightarrow> folder \<Rightarrow> (bool \<times> managed) list \<Rightarrow> slot_files \<Rightarrow> unit result \<times> slot_files" where
  "restore_plan h folder [] s = (Inr (), s)"
| "restore_plan h folder ((had, m) # plan) s =
     (case (if had then restore_regular_file h folder m None s else remove_regular_file m s) of
        (Inl e, s') \<Rightarrow> (Inl e, s')
      | (Inr _, s') \<Rightarrow> restore_plan h folder plan s')"

text \<open>The checks before the first write: the folder, the plan and whether an environment file was saved.\<close>

definition restore_inputs :: "rb_host \<Rightarrow> string \<Rightarrow> slot_files \<Rightarrow> (folder \<times> (bool \<times> managed) list \<times> bool option) result" where
  "restore_inputs h name s =
     bindE (validate_backup_dir h s name) (\<lambda>folder.
     bindE (validate_backup_integrity h s name) (\<lambda>(metadata, _).
     bindE (metadata_boolean metadata ''had_compose'' True) (\<lambda>had_compose.
     bindE (metadata_boolean metadata ''had_manifest'' True) (\<lambda>had_manifest.
     bindE (metadata_boolean metadata ''had_state_manifest'' True) (\<lambda>had_state_manifest.
     bindE (validate_env_restore_inputs folder metadata s) (\<lambda>had_env.
     let plan = [(had_compose = Some True, Compose), (had_manifest = Some True, Manifest), (had_state_manifest = Some True, StateManifest)] in
     bindE (check_plan folder s plan) (\<lambda>_. Inr (folder, plan, had_env))))))))"

text \<open>Admission: the transaction is begun, or the pending one must be exactly the expected one.\<close>

definition admit_restore :: "rb_host \<Rightarrow> string \<Rightarrow> string \<Rightarrow> string \<Rightarrow> rollback_identity option \<Rightarrow> slot_files \<Rightarrow> unit result \<times> slot_files" where
  "admit_restore h slot name token expected s =
     (case expected of
        None \<Rightarrow> begin_rollback_transaction h slot name token s
      | Some x \<Rightarrow>
          (bindE (require_exact_pending_rollback h slot x s) (\<lambda>(exact, _).
           bindE (raise_if (exact \<noteq> name) (MarkerBoundRecoveryError ''backup_identity_changed_before_restore'')) (\<lambda>_.
           validate_managed_target StateManifest s)), s))"

text \<open>The end of the restoration: the empty baseline is checked, or the compose project is started.\<close>

definition settle_restore :: "rb_host \<Rightarrow> string \<Rightarrow> string \<Rightarrow> (bool \<times> managed) list \<Rightarrow> bool option \<Rightarrow> slot_files \<Rightarrow> bool \<times> string" where
  "settle_restore h slot path plan had_env s =
     (if (False, Compose) \<in> set plan then
        (let active = [Compose, Manifest] @ (if (False, StateManifest) \<in> set plan then [StateManifest] else [])
               @ (if had_env = Some False then [Env] else []) in
         if list_ex (\<lambda>m. target m s \<noteq> None) active then (False, ''empty_baseline_active_files_remain'')
         else (let (clean, reason) = project_residue h (residue_queries slot) in
               if \<not> clean then (False, reason) else (True, ''rollback_empty_baseline_restored'')))
      else (let config = rh_run h (compose_command slot path [''config'']) in
        if fst config \<noteq> 0 then (False, detail config ''rollback_compose_config_failed'')
        else (let up = rh_run h (compose_command slot path [''up'', ''-d'', ''--force-recreate'', ''--remove-orphans'']) in
          if fst up \<noteq> 0 then (False, detail up ''rollback_compose_up_failed'') else (True, ''rollback_applied''))))"

definition restore_backup ::
  "rb_host \<Rightarrow> string \<Rightarrow> string \<Rightarrow> string \<Rightarrow> string \<Rightarrow> rollback_identity option \<Rightarrow> slot_files \<Rightarrow> (bool \<times> string) result \<times> slot_files" where
  "restore_backup h slot path name token expected s =
     (case restore_inputs h name s of
        Inl e \<Rightarrow> (Inl e, s)
      | Inr (folder, plan, had_env) \<Rightarrow>
          (case admit_restore h slot name token expected s of
             (Inl e, s1) \<Rightarrow> (Inl e, s1)
           | (Inr _, s1) \<Rightarrow>
               (let down = rh_run h (compose_command slot path [''down'', ''--remove-orphans'']) in
                if (False, Compose) \<in> set plan \<and> is_file (target Compose s1) \<and> fst down \<noteq> 0
                then (Inr (False, detail down ''empty_baseline_compose_down_failed''), s1)
                else (case restore_backup_env h folder s1 of
                        (Inl e, s2) \<Rightarrow> (Inl e, s2)
                      | (Inr _, s2) \<Rightarrow>
                          (case restore_plan h folder plan s2 of
                             (Inl e, s3) \<Rightarrow> (Inl e, s3)
                           | (Inr _, s3) \<Rightarrow> (Inr (settle_restore h slot path plan had_env s3), s3))))))"


section \<open>The exemption of a legacy backup\<close>

definition MIGRATION_SCHEMA :: string where "MIGRATION_SCHEMA = ''agent-runtime-legacy-retrieval-migration/v2''"

definition MIGRATION_NAME :: string where "MIGRATION_NAME = ''.agent-runtime-legacy-retrieval-migration.json''"

definition MIGRATION_KEYS :: "string list" where
  "MIGRATION_KEYS = [''backup_metadata_sha256'', ''backup_name'', ''consumed_at'', ''rollback_transaction_id'', ''schema'', ''slot'']"

definition migration_transaction_name :: "string \<Rightarrow> string result" where
  "migration_transaction_name transaction_id =
     (if HEX64 transaction_id then Inr (''.agent-runtime-legacy-retrieval-migration.'' @ transaction_id @ ''.json'')
      else Inl (ValueError ''legacy retrieval migration transaction id is invalid''))"

definition migration_identity :: "rb_host \<Rightarrow> string \<Rightarrow> slot_files \<Rightarrow> string \<Rightarrow> string \<Rightarrow> dict result" where
  "migration_identity h slot s name transaction_id =
     bindE (validate_backup_integrity h s name) (\<lambda>(_, digest).
     Inr [(''backup_metadata_sha256'', JStr digest), (''backup_name'', JStr name), (''rollback_transaction_id'', JStr transaction_id),
          (''schema'', JStr MIGRATION_SCHEMA), (''slot'', JStr slot)])"

definition load_migration_file :: "rb_host \<Rightarrow> string \<Rightarrow> slot_files \<Rightarrow> string \<Rightarrow> dict option result" where
  "load_migration_file h slot s name =
     (case map_of (rs_recovery s) name of
        None \<Rightarrow> Inr None
      | Some e \<Rightarrow>
          bindE (strict_json_object h (Some e)) (\<lambda>(d, _).
          bindE (raise_if (set (keys d) \<noteq> set MIGRATION_KEYS) (ValueError ''legacy retrieval migration receipt keys do not match the exact schema'')) (\<lambda>_.
          bindE (raise_if (jget_opt d ''schema'' \<noteq> JStr MIGRATION_SCHEMA) (ValueError ''unsupported legacy retrieval migration receipt schema'')) (\<lambda>_.
          bindE (raise_if (jget_opt d ''slot'' \<noteq> JStr slot) (ValueError ''legacy retrieval migration receipt slot mismatch'')) (\<lambda>_.
          bindE (raise_if (\<not> is_text (\<lambda>n. backup_name_parts n \<noteq> None) (jget_opt d ''backup_name''))
            (ValueError ''legacy retrieval migration receipt backup name is invalid'')) (\<lambda>_.
          bindE (raise_if (\<not> is_text DIGEST_RE (jget_opt d ''backup_metadata_sha256'')) (ValueError ''legacy retrieval migration receipt digest is invalid'')) (\<lambda>_.
          bindE (raise_if (\<not> is_text (\<lambda>t. t \<noteq> []) (jget_opt d ''consumed_at'')) (ValueError ''legacy retrieval migration receipt timestamp is invalid'')) (\<lambda>_.
          Inr (Some d)))))))))"

definition load_migration :: "rb_host \<Rightarrow> string \<Rightarrow> slot_files \<Rightarrow> (dict \<times> string) option result" where
  "load_migration h slot s =
     bindE (load_rollback_transaction h slot s) (\<lambda>t. case t of
       None \<Rightarrow> Inr None
     | Some (d, _) \<Rightarrow>
         (let transaction_id = str_field d ''transaction_id'' in
          bindE (migration_transaction_name transaction_id) (\<lambda>path.
          bindE (load_migration_file h slot s path) (\<lambda>r. case r of
            Some receipt \<Rightarrow> Inr (Some (receipt, path))
          | None \<Rightarrow>
              bindE (load_migration_file h slot s MIGRATION_NAME) (\<lambda>r'. case r' of
                None \<Rightarrow> Inr None
              | Some receipt \<Rightarrow>
                  Inr (if jget_opt receipt ''rollback_transaction_id'' \<noteq> JStr transaction_id then None else Some (receipt, MIGRATION_NAME)))))))"

definition differs :: "dict \<Rightarrow> dict \<Rightarrow> bool" where
  "differs receipt identity \<longleftrightarrow> list_ex (\<lambda>(k, v). jget_opt receipt k \<noteq> v) identity"

definition migration_is_available :: "rb_host \<Rightarrow> string \<Rightarrow> slot_files \<Rightarrow> string \<Rightarrow> bool result" where
  "migration_is_available h slot s name =
     bindE (load_rollback_transaction h slot s) (\<lambda>t. case t of
       None \<Rightarrow> Inr False
     | Some (d, _) \<Rightarrow>
         (if jget_opt d ''backup_name'' \<noteq> JStr name then Inr False
          else bindE (migration_identity h slot s name (str_field d ''transaction_id'')) (\<lambda>identity.
               bindE (load_migration h slot s) (\<lambda>r. Inr (case r of None \<Rightarrow> True | Some (receipt, _) \<Rightarrow> \<not> differs receipt identity)))))"

definition consume_exemption :: "rb_host \<Rightarrow> string \<Rightarrow> string \<Rightarrow> string \<Rightarrow> slot_files \<Rightarrow> string result \<times> slot_files" where
  "consume_exemption h slot name now s =
     (case bindE (load_rollback_transaction h slot s) (\<lambda>t. case t of
             None \<Rightarrow> Inl (RuntimeError ''legacy retrieval migration requires the exact pending rollback backup'')
           | Some (d, _) \<Rightarrow>
               bindE (raise_if (jget_opt d ''backup_name'' \<noteq> JStr name)
                 (RuntimeError ''legacy retrieval migration requires the exact pending rollback backup'')) (\<lambda>_.
               bindE (migration_identity h slot s name (str_field d ''transaction_id'')) (\<lambda>identity.
               bindE (load_migration h slot s) (\<lambda>r. Inr (str_field d ''transaction_id'', identity, r))))) of
        Inl e \<Rightarrow> (Inl e, s)
      | Inr (transaction_id, identity, Some (receipt, path)) \<Rightarrow>
          (if differs receipt identity then (Inl (RuntimeError ''legacy retrieval migration exemption was already consumed''), s)
           else (Inr path, s))
      | Inr (transaction_id, identity, None) \<Rightarrow>
          (case (if map_of (rs_recovery s) MIGRATION_NAME \<noteq> None then migration_transaction_name transaction_id else Inr MIGRATION_NAME) of
             Inl e \<Rightarrow> (Inl e, s)
           | Inr path \<Rightarrow>
               (case write_recovery h path (dumps_ascii (JObj (identity @ [(''consumed_at'', JStr now)])) @ [CHR 0x0A]) s of
                  (Inl e, s') \<Rightarrow> (Inl e, s')
                | (Inr _, s') \<Rightarrow>
                    (case load_migration h slot s' of
                       Inl e \<Rightarrow> (Inl e, s')
                     | Inr (Some (persisted, _)) \<Rightarrow>
                         (if differs persisted identity then (Inl (RuntimeError ''legacy retrieval migration receipt persistence failed''), s') else (Inr path, s'))
                     | Inr None \<Rightarrow> (Inl (RuntimeError ''legacy retrieval migration receipt persistence failed''), s')))))"

end
