(* ===== verification/Backup_Properties.thy ===== *)
theory Backup_Properties
  imports Runtime_Backup
begin

text \<open>
  What the recovery of a runtime guarantees: names of backups are not reused, a backup that was just made is valid and restores
  the managed files, a changed backup is refused, and one pending transaction binds one backup.
\<close>

section \<open>Names\<close>

lemma read_nat_zero: "s \<noteq> [] \<Longrightarrow> list_all is_digit s \<Longrightarrow> hd s \<noteq> CHR ''0'' \<Longrightarrow> 1 \<le> read_nat s"
proof (induction s rule: rev_induct)
  case (snoc c s)
  show ?case
  proof (cases "s = []")
    case True
    then have "digit_char (digit_val c) \<noteq> digit_char 0" using snoc.prems digit_char_digit_val [of c] by (simp add: digit_char_lits)
    then have "digit_val c \<noteq> 0" by metis
    then show ?thesis using True by (simp add: read_nat_def)
  qed (use snoc in \<open>auto simp: read_nat_snoc\<close>)
qed simp

lemma backup_name_partsE:
  assumes "backup_name_parts name = Some (t, n)"
  shows "t = take 20 name" and "length t = 20" and "ascii_only name" and "1 \<le> n"
proof -
  let ?r = "drop 20 name"
  from assms show t: "t = take 20 name" by (auto simp: backup_name_parts_def Let_def split: if_splits)
  have d: "digit_run 8 t" "take 1 (drop 8 t) = ''T''" "digit_run 6 (drop 9 t)"
      "take 1 (drop 15 t) = ''+'' \<or> take 1 (drop 15 t) = ''-''" "digit_run 4 (drop 16 t)"
    using assms t by (auto simp: backup_name_parts_def Let_def split: if_splits)
  have tail: "?r = [] \<or> (\<exists>q. ?r = CHR ''.'' # q \<and> q \<noteq> [] \<and> list_all is_digit q \<and> hd q \<noteq> CHR ''0'' \<and> n = read_nat q)"
    and one: "?r = [] \<Longrightarrow> n = 1"
    using assms by (cases "?r"; auto simp: backup_name_parts_def Let_def split: if_splits)+
  show l: "length t = 20" using d(5) t by (auto simp: digit_run_def)
  have "take 8 t @ take 1 (drop 8 t) @ take 6 (drop 9 t) @ take 1 (drop 15 t) @ take 4 (drop 16 t) = take (8 + (1 + (6 + (1 + 4)))) t"
    by (simp only: take_add drop_drop) simp
  then have "t = take 8 t @ take 1 (drop 8 t) @ take 6 (drop 9 t) @ take 1 (drop 15 t) @ take 4 (drop 16 t)" using l by simp
  moreover have "ascii_only (take 8 t)" "ascii_only (take 6 (drop 9 t))" "ascii_only (take 4 (drop 16 t))" "ascii_only (take 1 (drop 8 t))" "ascii_only (take 1 (drop 15 t))"
    using d by (auto simp: digit_run_def intro: digits_ascii_only)
  ultimately have "ascii_only t" by (metis ascii_only_simps(3))
  moreover have "ascii_only ?r" using tail digits_ascii_only by auto
  ultimately show "ascii_only name" by (metis t append_take_drop_id ascii_only_simps(3))
  show "1 \<le> n" using tail one read_nat_zero by auto
qed

lemma backup_name_parts_suffix:
  assumes "backup_name_parts x = Some (t, m)" and "2 \<le> n"
  shows "backup_name_parts (t @ ''.'' @ show_nat n) = Some (t, n)"
proof -
  note t = backup_name_partsE(1,2) [OF assms(1)]
  have "show_nat n \<noteq> ''1''" using assms(2) read_show_nat [of n] by (auto simp: read_nat_def digit_val_def)
  then show ?thesis
    using assms t show_nat_digits [of n] show_nat_hd [of n] by (auto simp: backup_name_parts_def Let_def read_show_nat split: if_splits)
qed

lemma mem_foldr_max: "x \<in> set xs \<Longrightarrow> x \<le> foldr max xs (0::nat)"
  by (induction xs) auto

lemma mapE_forward: "mapE f xs = Inr ys \<Longrightarrow> x \<in> set xs \<Longrightarrow> \<exists>y\<in>set ys. f x = Inr y"
  by (induction xs arbitrary: ys) (auto simp: bindE_Inr_iff)

lemma mapE_backward: "mapE f xs = Inr ys \<Longrightarrow> y \<in> set ys \<Longrightarrow> \<exists>x\<in>set xs. f x = Inr y"
  by (induction xs arbitrary: ys) (auto simp: bindE_Inr_iff)

lemma entry_key_suffix: "entry_key e = Inr z \<Longrightarrow> 1 \<le> snd z"
proof -
  assume a: "entry_key e = Inr z"
  then obtain k where k: "backup_sort_key (fst e) = Inr (Some k)" "z = k"
    by (cases "backup_sort_key (fst e)") (auto simp: entry_key_def split: option.splits if_splits)
  then obtain t where "backup_name_parts (fst e) = Some (t, snd k)"
    by (cases "backup_name_parts (fst e)") (auto simp: backup_sort_key_def bindE_Inr_iff)
  from backup_name_partsE(4) [OF this] k(2) show ?thesis by simp
qed

lemma next_backup_path_fresh:
  assumes "next_backup_path s original = Inr name"
  shows "map_of (rs_backups s) name = None" and "backup_name_parts name \<noteq> None" and "\<exists>key. backup_sort_key name = Inr (Some key)"
proof -
  obtain key ks where k: "backup_sort_key original = Inr (Some key)" "mapE entry_key (rs_backups s) = Inr ks"
    and name: "let same = map snd (filter (\<lambda>x. fst x = fst key) ks) in
      (if same = [] then Inr original else backup_path_for_suffix original (foldr max same 0 + 1)) = Inr name"
    using assms by (auto simp: next_backup_path_def bindE_Inr_iff Let_def split: option.splits)
  let ?same = "map snd (filter (\<lambda>x. fst x = fst key) ks)"
  obtain t m i where p: "backup_name_parts original = Some (t, m)" "stamp_instant t = Inr i" "key = (i, m)"
    using k(1) by (auto simp: backup_sort_key_def bindE_Inr_iff split: option.splits)
  have taken: "n \<in> set ?same" if "map_of (rs_backups s) x \<noteq> None" and x: "backup_sort_key x = Inr (Some (i, n))" for x n
  proof -
    obtain v where e: "(x, v) \<in> set (rs_backups s)" using \<open>map_of (rs_backups s) x \<noteq> None\<close> by (auto dest: map_of_SomeD)
    from mapE_forward [OF k(2) e] obtain y where y: "y \<in> set ks" "entry_key (x, v) = Inr y" by auto
    have "y = (i, n)" using y(2) x by (auto simp: entry_key_def split: if_splits)
    with y(1) p(3) show ?thesis by force
  qed
  have "map_of (rs_backups s) name = None \<and> backup_name_parts name \<noteq> None \<and> (\<exists>key. backup_sort_key name = Inr (Some key))"
  proof (cases "?same = []")
    case True
    then have "name = original" using name by (simp add: Let_def)
    moreover have "map_of (rs_backups s) original = None" using taken [of original m, unfolded True] k(1) p(3)
      by (cases "map_of (rs_backups s) original") auto
    ultimately show ?thesis using k(1) p(1) by simp
  next
    case False
    let ?n = "foldr max ?same 0 + 1"
    obtain z where z: "z \<in> set ks" "fst z = i" using False p(3) by (auto simp: filter_empty_conv)
    from mapE_backward [OF k(2) z(1)] obtain e where "entry_key e = Inr z" by auto
    then have "1 \<le> snd z" by (rule entry_key_suffix)
    moreover have "snd z \<in> set ?same" using z p(3) by auto
    ultimately have n2: "2 \<le> ?n" using mem_foldr_max [of "snd z" ?same] by simp
    then have nm: "name = t @ ''.'' @ show_nat ?n" using name False p(1) by (simp add: Let_def backup_path_for_suffix_def split: if_splits)
    note parts = backup_name_parts_suffix [OF p(1) n2, folded nm]
    then have key: "backup_sort_key name = Inr (Some (i, ?n))" using p(2) by (simp add: backup_sort_key_def)
    have "?n \<notin> set ?same" using mem_foldr_max [of ?n ?same] by auto
    with taken [OF _ key] parts key show ?thesis by auto
  qed
  then show "map_of (rs_backups s) name = None" "backup_name_parts name \<noteq> None" "\<exists>key. backup_sort_key name = Inr (Some key)" by auto
qed

lemma publish_next: "next_backup_path s original = Inr name \<Longrightarrow> publish_name s original name = Inr name"
  using next_backup_path_fresh [of s original name] by (auto simp: publish_name_def)

section \<open>A backup that was just made\<close>

text \<open>What is staged for one managed file, and the digest that is recorded for it.\<close>

definition staged_file :: "rb_host \<Rightarrow> managed \<Rightarrow> file_node \<Rightarrow> file_node" where
  "staged_file h m f = (if m = Env then (copy_of h f)\<lparr>fl_mode := 384\<rparr> else copy_of h f)"

definition staged_entry :: "rb_host \<Rightarrow> managed \<Rightarrow> slot_files \<Rightarrow> entry option" where
  "staged_entry h m s = (case target m s of Some (File f) \<Rightarrow> Some (File (staged_file h m f)) | _ \<Rightarrow> None)"

definition digest_value :: "entry option \<Rightarrow> json" where
  "digest_value e = (case e of Some (File f) \<Rightarrow> JStr (sha256_tag (fl_bytes f)) | _ \<Rightarrow> JNull)"

lemmas file_names = COMPOSE_FILE_def MANIFEST_FILE_def ENV_FILE_def STATE_MANIFEST_FILE_def METADATA_FILE_def

lemma staged_map_of:
  "map_of (staged_copy h n e) k = (if k = n then (case e of Some (File f) \<Rightarrow> Some (File (copy_of h f)) | _ \<Rightarrow> None) else None)"
  "map_of (staged_env h e) k = (if k = ENV_FILE then (case e of Some (File f) \<Rightarrow> Some (File ((copy_of h f)\<lparr>fl_mode := 384\<rparr>)) | _ \<Rightarrow> None) else None)"
  by (auto simp: staged_copy_def staged_env_def split: option.splits entry.splits)

lemma map_of_append_cases: "map_of (xs @ ys) k = (case map_of xs k of None \<Rightarrow> map_of ys k | Some v \<Rightarrow> Some v)"
  by (simp add: map_add_def split: option.splits)

lemma staged_artifacts_metadata: "map_of (staged_artifacts h s) METADATA_FILE = None"
  unfolding staged_artifacts_def map_of_append_cases staged_map_of by (simp add: file_names)

lemma staged_artifacts_map_of: "map_of (staged_artifacts h s) (target_name m) = staged_entry h m s"
proof (cases m)
  case Env
  then show ?thesis
    unfolding staged_artifacts_def map_of_append_cases staged_map_of staged_entry_def staged_file_def target_def target_name_def
    by (simp add: file_names split: option.splits entry.splits)
qed (unfold staged_artifacts_def map_of_append_cases staged_map_of staged_entry_def staged_file_def target_def target_name_def,
    simp_all add: file_names split: option.splits entry.splits)

lemma copy_of_simps [simp]:
  "fl_bytes (copy_of h f) = fl_bytes f" "fl_mode (copy_of h f) = fl_mode f" "fl_uid (copy_of h f) = rh_euid h" "fl_gid (copy_of h f) = rh_egid h"
  "fl_links (copy_of h f) = 1"
  by (simp_all add: copy_of_def)

lemma staged_file_simps [simp]:
  "fl_bytes (staged_file h m f) = fl_bytes f" "fl_uid (staged_file h m f) = rh_euid h" "fl_links (staged_file h m f) = 1"
  by (simp_all add: staged_file_def)

text \<open>The digests in the order of \<open>_BACKUP_ARTIFACTS\<close>.\<close>

definition ARTIFACTS :: "managed list" where "ARTIFACTS = [Manifest, Env, Compose, StateManifest]"

lemma artifact_names: "map fst BACKUP_ARTIFACTS = map target_name ARTIFACTS"
  by (simp add: BACKUP_ARTIFACTS_def ARTIFACTS_def target_name_def)

definition digests_of :: "rb_host \<Rightarrow> slot_files \<Rightarrow> dict" where
  "digests_of h s = map (\<lambda>m. (target_name m, digest_value (staged_entry h m s))) ARTIFACTS"

definition small_files :: "slot_files \<Rightarrow> bool" where
  "small_files s \<longleftrightarrow> list_all (\<lambda>m. case target m s of Some (File f) \<Rightarrow> length (fl_bytes f) \<le> MAX_FILE_BYTES | _ \<Rightarrow> True) ARTIFACTS"

lemma artifact_digest_target:
  "artifact_digest h (staged_artifacts h s) (target_name m) = Inr v \<longleftrightarrow>
     (case target m s of Some (File f) \<Rightarrow> length (fl_bytes f) \<le> MAX_FILE_BYTES | _ \<Rightarrow> True) \<and> v = (target_name m, digest_value (staged_entry h m s))"
  by (auto simp: artifact_digest_def staged_artifacts_map_of staged_entry_def sha256_file_def read_stable_def digest_value_def result_simps
    split: option.splits entry.splits)

lemma staged_digests:
  "mapE (artifact_digest h (staged_artifacts h s)) (map fst BACKUP_ARTIFACTS) = Inr ds \<longleftrightarrow> small_files s \<and> ds = digests_of h s"
  unfolding artifact_names mapE_map small_files_def digests_of_def mapE_Inr_iff artifact_digest_target ARTIFACTS_def
  by (auto simp: list_all2_Cons1)

definition saved_dict :: "rb_host \<Rightarrow> slot_files \<Rightarrow> string \<Rightarrow> string \<Rightarrow> dict" where
  "saved_dict h s created_at path = backup_metadata s created_at path (digests_of h s)"

definition metadata_file :: "rb_host \<Rightarrow> slot_files \<Rightarrow> string \<Rightarrow> string \<Rightarrow> file_node" where
  "metadata_file h s created_at path =
     \<lparr>fl_bytes = metadata_text (saved_dict h s created_at path), fl_mode = rh_mode h, fl_uid = rh_euid h, fl_gid = rh_egid h, fl_links = 1\<rparr>"

lemma stage_backup_Inr:
  assumes "stage_backup h s created_at path = Inr folder"
  shows "small_files s" and "map_of folder (target_name m) = staged_entry h m s"
    and "map_of folder METADATA_FILE = Some (File (metadata_file h s created_at path))"
proof -
  have ok: "small_files s" and f: "folder = staged_artifacts h s @ [(METADATA_FILE, File (metadata_file h s created_at path))]"
    using assms by (auto simp: stage_backup_def Let_def bindE_Inr_iff staged_digests encode_utf8_def metadata_file_def saved_dict_def split: if_splits)
  show "small_files s" by (rule ok)
  have "target_name m \<noteq> METADATA_FILE" by (cases m) (simp_all add: target_name_def file_names)
  then show "map_of folder (target_name m) = staged_entry h m s" "map_of folder METADATA_FILE = Some (File (metadata_file h s created_at path))"
    by (simp_all add: f map_add_def staged_artifacts_map_of staged_artifacts_metadata split: option.splits)
qed


text \<open>The metadata as they are read back, with the keys in order.\<close>

definition sorted_saved :: "rb_host \<Rightarrow> slot_files \<Rightarrow> string \<Rightarrow> string \<Rightarrow> dict" where
  "sorted_saved h s created_at path =
     [(''artifact_sha256'', JObj (digests_of h s)), (''created_at'', JStr created_at),
      (''env_gid'', opt_int fl_gid (target Env s)), (''env_mode'', opt_int fl_mode (target Env s)), (''env_uid'', opt_int fl_uid (target Env s)),
      (''had_compose'', JBool (is_file (target Compose s))), (''had_env'', JBool (is_file (target Env s))),
      (''had_manifest'', JBool (is_file (target Manifest s))), (''had_state_manifest'', JBool (is_file (target StateManifest s))),
      (''schema'', JStr BACKUP_SCHEMA), (''state_manifest_path'', JStr path)]"

lemma sort_atoms [simp]: "sort_keys (digest_value e) = digest_value e" "sort_keys (opt_int g e) = opt_int g e"
  by (auto simp: digest_value_def opt_int_def split: option.splits entry.splits)

lemma digests_sorted: "sort_keys (JObj (digests_of h s)) = JObj (digests_of h s)"
  by (simp add: digests_of_def ARTIFACTS_def target_name_def file_names sort_key_def)

lemma saved_sorted: "sort_keys (JObj (saved_dict h s created_at path)) = JObj (sorted_saved h s created_at path)"
  using digests_sorted [of h s]
  by (simp add: saved_dict_def backup_metadata_def sorted_saved_def target_def Let_def sort_key_def)

text \<open>The owner and the mode of the environment file fit in 32 bits.\<close>

definition word_sized :: "int \<Rightarrow> bool" where
  "word_sized n \<longleftrightarrow> 0 \<le> n \<and> n < 2 ^ 32"

definition env_sized :: "slot_files \<Rightarrow> bool" where
  "env_sized s = (case target Env s of Some (File f) \<Rightarrow> word_sized (fl_gid f) \<and> word_sized (fl_mode f) \<and> word_sized (fl_uid f) | _ \<Rightarrow> True)"

lemma show_nat_bound: "n < 10 ^ Suc k \<Longrightarrow> length (show_nat n) \<le> Suc k"
proof (induction k arbitrary: n)
  case (Suc k)
  then have "n div 10 < 10 ^ Suc k" by (simp add: less_mult_imp_div_less mult.commute)
  from Suc.IH [OF this] show ?case by (subst show_nat.simps) simp
qed (simp add: show_nat.simps)

lemma word_sized_jwf: "word_sized n \<Longrightarrow> jwf d (JInt n)"
proof -
  assume "word_sized n"
  then have "nat \<bar>n\<bar> < 10 ^ Suc 9" by (simp add: word_sized_def nat_less_iff)
  from show_nat_bound [OF this] show ?thesis by (simp add: MAX_STR_DIGITS_def)
qed

lemma env_jwf: "env_sized s \<Longrightarrow> list_all (\<lambda>g. jwf d (opt_int g (target Env s)) \<and> ascii_json (opt_int g (target Env s))) [fl_gid, fl_mode, fl_uid]"
  unfolding opt_int_def env_sized_def by (cases "target Env s") (auto split: entry.splits simp del: jwf.simps(3) simp: word_sized_jwf)

lemma digest_value_ok: "jwf d (digest_value e)" "ascii_json (digest_value e)"
  by (auto simp: digest_value_def sha256_tag_digest digest_plain split: option.splits entry.splits)

lemma saved_ok:
  assumes "env_sized s" and "ascii_only created_at" and "ascii_only path"
  shows "ascii_json (JObj (sorted_saved h s created_at path))" and "jwf (Suc (Suc d)) (JObj (sorted_saved h s created_at path))"
proof -
  show "ascii_json (JObj (sorted_saved h s created_at path))"
    using env_jwf [OF assms(1)] assms(2,3) digest_value_ok
    by (simp add: sorted_saved_def digests_of_def ARTIFACTS_def target_name_def file_names BACKUP_SCHEMA_def)
  show "jwf (Suc (Suc d)) (JObj (sorted_saved h s created_at path))"
    using env_jwf [OF assms(1)] digest_value_ok
    by (simp add: sorted_saved_def digests_of_def ARTIFACTS_def target_name_def file_names keys_def)
qed


text \<open>The conditions of a saved folder: what was saved is small and its texts are ASCII.\<close>

definition readable :: "rb_host \<Rightarrow> slot_files \<Rightarrow> string \<Rightarrow> string \<Rightarrow> bool" where
  "readable h s created_at path \<longleftrightarrow> env_sized s \<and> ascii_only created_at \<and> ascii_only path \<and> 2 \<le> rec_limit (rh_env h)
     \<and> length (metadata_text (saved_dict h s created_at path)) \<le> 1048576"

lemma saved_shown:
  assumes "env_sized s" and "ascii_only created_at" and "ascii_only path"
  shows "metadata_text (saved_dict h s created_at path) = dumps_indent 0 (JObj (sorted_saved h s created_at path)) @ [CHR 0x0A]"
  unfolding metadata_text_def saved_sorted by (simp only: ascii_text_plain [OF dumps_indent_plain [OF saved_ok(1) [OF assms]]])

lemma saved_text:
  assumes "readable h s created_at path" and "good_hook hk"
  shows "utf8_valid (metadata_text (saved_dict h s created_at path))"
    and "json_loads (rh_env h) hk (metadata_text (saved_dict h s created_at path)) = Inr (JObj (sorted_saved h s created_at path))"
proof -
  let ?v = "JObj (sorted_saved h s created_at path)"
  obtain d where d: "rec_limit (rh_env h) = Suc (Suc d)"
    using assms(1) by (cases "rec_limit (rh_env h)"; cases "rec_limit (rh_env h) - 1") (auto simp: readable_def)
  have conds: "env_sized s" "ascii_only created_at" "ascii_only path" using assms(1) by (auto simp: readable_def)
  note ok = saved_ok(1) [OF conds, of h] saved_ok(2) [OF conds, of d h]
  note pr = dumps_indent_plain [OF ok(1), of 0]
  note shown = saved_shown [OF conds, of h]
  show "utf8_valid (metadata_text (saved_dict h s created_at path))"
    unfolding shown by (simp only: ascii_only_utf8 [OF pr]) (simp add: utf8_valid_ascii_Cons)
  show "json_loads (rh_env h) hk (metadata_text (saved_dict h s created_at path)) = Inr ?v"
    unfolding shown by (rule json_loads_indent [OF assms(2)]) (use ok d in \<open>simp_all only:\<close>)
qed

lemma strict_object_saved:
  "readable h s created_at path \<Longrightarrow> strict_object h what (metadata_text (saved_dict h s created_at path)) = Inr (JObj (sorted_saved h s created_at path))"
  using saved_text [OF _ good_hook_unique_object] by (simp add: strict_object_def decode_utf8_def)

lemma load_saved:
  assumes "stage_backup h s created_at path = Inr folder" and "readable h s created_at path"
  shows "load_validated_backup_metadata h folder =
    Inr (sorted_saved h s created_at path, sha256_tag (metadata_text (saved_dict h s created_at path)))"
  using assms(2) strict_object_saved [OF assms(2)] stage_backup_Inr(3) [OF assms(1)]
  by (simp add: load_validated_backup_metadata_def read_stable_def metadata_file_def readable_def) (simp add: sorted_saved_def jget_opt_def)

lemma sorted_saved_fields:
  "jget_opt (sorted_saved h s c p) ''legacy_source'' = JNull" "jget_opt (sorted_saved h s c p) ''artifact_sha256'' = JObj (digests_of h s)"
  "jget_opt (sorted_saved h s c p) ''env_mode'' = opt_int fl_mode (target Env s)" "jget_opt (sorted_saved h s c p) ''env_uid'' = opt_int fl_uid (target Env s)"
  "jget_opt (sorted_saved h s c p) ''env_gid'' = opt_int fl_gid (target Env s)"
  "metadata_boolean (sorted_saved h s c p) ''had_compose'' r = Inr (Some (is_file (target Compose s)))"
  "metadata_boolean (sorted_saved h s c p) ''had_env'' r = Inr (Some (is_file (target Env s)))"
  "metadata_boolean (sorted_saved h s c p) ''had_manifest'' r = Inr (Some (is_file (target Manifest s)))"
  "metadata_boolean (sorted_saved h s c p) ''had_state_manifest'' r = Inr (Some (is_file (target StateManifest s)))"
  by (simp_all add: sorted_saved_def jget_opt_def metadata_boolean_def)

lemma legacy_saved: "legacy_import_metadata (sorted_saved h s c p) = Inr None"
  by (simp add: legacy_import_metadata_def sorted_saved_fields)

definition marker_key :: "managed \<Rightarrow> string" where
  "marker_key m = (case m of Compose \<Rightarrow> ''had_compose'' | Manifest \<Rightarrow> ''had_manifest'' | Env \<Rightarrow> ''had_env'' | StateManifest \<Rightarrow> ''had_state_manifest'')"

lemma artifacts_eq: "BACKUP_ARTIFACTS = map (\<lambda>m. (target_name m, marker_key m)) ARTIFACTS"
  by (simp add: BACKUP_ARTIFACTS_def ARTIFACTS_def target_name_def marker_key_def)

lemma saved_marker: "metadata_boolean (sorted_saved h s c p) (marker_key m) r = Inr (Some (is_file (target m s)))"
  by (cases m) (simp_all add: marker_key_def sorted_saved_fields)

lemma digests_of_get: "jget_opt (digests_of h s) (target_name m) = digest_value (staged_entry h m s)"
  by (cases m) (simp_all add: digests_of_def ARTIFACTS_def target_name_def jget_opt_def file_names)

lemma check_saved:
  assumes "stage_backup h s c p = Inr folder"
  shows "check_artifact h folder (sorted_saved h s c p) legacy (digests_of h s) (target_name m, marker_key m) = Inr ()"
proof -
  have small: "(case target m s of Some (File f) \<Rightarrow> length (fl_bytes f) \<le> MAX_FILE_BYTES | _ \<Rightarrow> True)"
    using stage_backup_Inr(1) [OF assms] by (cases m) (simp_all add: small_files_def ARTIFACTS_def)
  show ?thesis
  proof (cases "is_file (target m s)")
    case True
    then obtain f where "target m s = Some (File f)" by (auto simp: is_file_def split: option.splits entry.splits)
    then show ?thesis
      using small True stage_backup_Inr(2) [OF assms, of m]
      by (simp add: check_artifact_def saved_marker digests_of_get staged_entry_def digest_value_def sha256_file_def read_stable_def)
  next
    case False
    then have "staged_entry h m s = None" by (auto simp: is_file_def staged_entry_def split: option.splits entry.splits)
    then show ?thesis
      using False stage_backup_Inr(2) [OF assms, of m] by (simp add: check_artifact_def saved_marker digests_of_get digest_value_def)
  qed
qed

lemma digests_keys: "set (keys (digests_of h s)) = set (map fst BACKUP_ARTIFACTS)"
  by (simp add: digests_of_def artifact_names keys_def image_image)

lemma validate_saved_dir:
  assumes "stage_backup h s c p = Inr folder" and "backup_sort_key name = Inr (Some key)" and "map_of (rs_backups s2) name = Some (Some folder)"
  shows "validate_backup_dir h s2 name = Inr folder"
  using stage_backup_Inr(3) [OF assms(1)] assms(2,3) by (simp add: validate_backup_dir_def metadata_file_def)

lemma validate_saved:
  assumes "stage_backup h s c p = Inr folder" and "readable h s c p" and "backup_sort_key name = Inr (Some key)"
    and "map_of (rs_backups s2) name = Some (Some folder)"
  shows "validate_backup_integrity h s2 name = Inr (sorted_saved h s c p, sha256_tag (metadata_text (saved_dict h s c p)))"
proof -
  have "forE (check_artifact h folder (sorted_saved h s c p) False (digests_of h s)) BACKUP_ARTIFACTS = Inr ()"
    using check_saved [OF assms(1)] by (auto simp: forE_Inr_iff artifacts_eq)
  then show ?thesis
    unfolding validate_backup_integrity_def validate_saved_dir [OF assms(1,3,4)] bindE_simps load_saved [OF assms(1,2)] prod.case legacy_saved
      sorted_saved_fields
    by (simp add: digests_keys)
qed


section \<open>The restoration\<close>

definition put_back :: "managed \<Rightarrow> entry option \<Rightarrow> slot_files \<Rightarrow> slot_files" where
  "put_back m e s = (case e of None \<Rightarrow> unlink m s | Some x \<Rightarrow> put m x s)"

lemma target_put_back: "target m (put_back m' e s) = (if m = m' then e else target m s)"
  by (cases m; cases m'; cases e)
    (simp_all add: put_back_def target_def put_def unlink_def target_name_def write_file_map_of remove_file_map_of file_names)

lemma put_back_frame [simp]: "rs_backups (put_back m e s) = rs_backups s" "rs_recovery (put_back m e s) = rs_recovery s"
  by (cases e; simp add: put_back_def put_def unlink_def)+

text \<open>What a saved file is after its restoration: the caller owns it, the environment file keeps its owner.\<close>

definition restored_entry :: "rb_host \<Rightarrow> managed \<Rightarrow> slot_files \<Rightarrow> entry option" where
  "restored_entry h m s = (case target m s of Some (File f) \<Rightarrow> Some (File (if m = Env then f\<lparr>fl_links := 1\<rparr> else copy_of h f)) | _ \<Rightarrow> None)"

definition regular_targets :: "slot_files \<Rightarrow> bool" where
  "regular_targets s \<longleftrightarrow> list_all (\<lambda>m. target m s = None \<or> is_file (target m s)) ARTIFACTS"

lemma regular_target: "regular_targets s \<Longrightarrow> validate_managed_target m s = Inr ()"
  by (cases m) (auto simp: regular_targets_def ARTIFACTS_def validate_managed_target_def)

lemma restored_cases:
  "is_file (target m s) \<Longrightarrow> \<exists>f. target m s = Some (File f)" "\<not> is_file (target m s) \<Longrightarrow> restored_entry h m s = None"
  by (auto simp: is_file_def restored_entry_def split: option.splits entry.splits)

lemma regular_put_back:
  assumes "regular_targets s2"
  shows "regular_targets (put_back m (restored_entry h m s) s2)"
  using assms by (auto simp: regular_targets_def list_all_iff target_put_back restored_entry_def is_file_def split: option.splits entry.splits)

lemma restore_one:
  assumes "stage_backup h s c p = Inr folder" and "regular_targets s2" and "m \<noteq> Env"
  shows "(if is_file (target m s) then restore_regular_file h folder m None s2 else remove_regular_file m s2) =
    (Inr (), put_back m (restored_entry h m s) s2)"
proof (cases "is_file (target m s)")
  case True
  then obtain f where "target m s = Some (File f)" using restored_cases(1) by blast
  then show ?thesis
    using True assms(3) stage_backup_Inr(2) [OF assms(1), of m] regular_target [OF assms(2), of m]
    by (simp add: restore_regular_file_def staged_entry_def staged_file_def restored_entry_def put_back_def copy_of_def)
next
  case False
  then show ?thesis
    using regular_target [OF assms(2), of m] restored_cases(2) [of m s h] by (simp add: remove_regular_file_def put_back_def)
qed

lemma restore_one_step:
  assumes "stage_backup h s c p = Inr folder" and "regular_targets s2" and "m \<noteq> Env"
  shows "restore_plan h folder ((is_file (target m s), m) # plan) s2 = restore_plan h folder plan (put_back m (restored_entry h m s) s2)"
  using restore_one [OF assms] by simp

text \<open>The YAML reader agrees with the JSON reader on the saved text.\<close>

definition yaml_reads :: "rb_host \<Rightarrow> string \<Rightarrow> bool" where
  "yaml_reads h t \<longleftrightarrow> rh_yaml h t = json_loads (rh_env h) dict_hook t"

lemma env_inputs_saved:
  assumes "stage_backup h s c p = Inr folder" and "regular_targets s2"
  shows "validate_env_restore_inputs folder (sorted_saved h s c p) s2 = Inr (Some (is_file (target Env s)))"
proof (cases "is_file (target Env s)")
  case True
  then obtain f where "target Env s = Some (File f)" using restored_cases(1) by blast
  then show ?thesis
    using True stage_backup_Inr(2) [OF assms(1), of Env] regular_target [OF assms(2), of Env]
    by (simp add: validate_env_restore_inputs_def sorted_saved_fields opt_int_def as_int_def staged_entry_def target_name_def is_file_def)
next
  case False
  then show ?thesis
    using regular_target [OF assms(2), of Env] by (simp add: validate_env_restore_inputs_def sorted_saved_fields)
qed

lemma restore_env_saved:
  assumes "stage_backup h s c p = Inr folder" and "readable h s c p" and "yaml_reads h (metadata_text (saved_dict h s c p))" and "regular_targets s2"
  shows "restore_backup_env h folder s2 = (Inr (), put_back Env (restored_entry h Env s) s2)"
proof -
  have "load_yaml h (map_of folder METADATA_FILE) = Inr (JObj (sorted_saved h s c p))"
    using saved_text [OF assms(2) good_hook_dict_hook] assms(3) stage_backup_Inr(3) [OF assms(1)]
    by (simp add: load_yaml_def metadata_file_def decode_utf8_def yaml_reads_def)
  note load = this env_inputs_saved [OF assms(1,4)]
  show ?thesis
  proof (cases "is_file (target Env s)")
    case True
    then obtain f where f: "target Env s = Some (File f)" using restored_cases(1) by blast
    show ?thesis
      using True f load stage_backup_Inr(2) [OF assms(1), of Env] regular_target [OF assms(4), of Env]
      by (simp add: restore_backup_env_def sorted_saved_fields opt_int_def as_int_def restore_regular_file_def staged_entry_def
        restored_entry_def put_back_def) (cases f, simp add: staged_file_def copy_of_def)
  next
    case False
    then show ?thesis
      using load regular_target [OF assms(4), of Env] restored_cases(2) [of Env s h]
      by (simp add: restore_backup_env_def remove_regular_file_def put_back_def)
  qed
qed


section \<open>The marker of the transaction\<close>

lemma escape_length: "length (concat (map escape_char s)) \<le> 6 * length s"
proof (induction s)
  case (Cons c s)
  have "length (escape_char c) \<le> 6" by (simp add: escape_char_def Let_def)
  then show ?case using Cons by simp
qed simp

lemma encode_length: "length (encode_string s) \<le> 6 * length s + 2"
  using escape_length [of s] by (simp add: encode_string_def)

definition marker_text :: "string \<Rightarrow> string \<Rightarrow> string \<Rightarrow> string \<Rightarrow> string" where
  "marker_text slot name digest token = dumps '','' '':'' (JObj (transaction_payload slot name digest token)) @ [CHR 0x0A]"

lemma payload_sorted:
  "sort_keys (JObj (transaction_payload slot name digest token)) = JObj (transaction_payload slot name digest token)"
  by (simp add: transaction_payload_def sort_key_def)

lemma digest_length: "DIGEST_RE d \<Longrightarrow> length d = 71"
  by (auto simp: DIGEST_RE_def)

lemma marker_text_length:
  assumes "length slot \<le> 100" and "length name \<le> 100" and "DIGEST_RE digest" and "HEX64 token"
  shows "length (marker_text slot name digest token) \<le> 4096"
proof -
  have "length (encode_string slot) \<le> 602" "length (encode_string name) \<le> 602" "length (encode_string digest) \<le> 428" "length (encode_string token) \<le> 386"
    "length (encode_string ROLLBACK_TRANSACTION_SCHEMA) \<le> 300"
    using encode_length [of slot] encode_length [of name] encode_length [of digest] encode_length [of token]
      encode_length [of ROLLBACK_TRANSACTION_SCHEMA] assms digest_length
    by (simp_all add: HEX64_def ROLLBACK_TRANSACTION_SCHEMA_def)
  then show ?thesis
    unfolding marker_text_def transaction_payload_def
    by (simp add: encode_string_def [of "''schema''"] encode_string_def [of "''slot''"] encode_string_def [of "''transaction_id''"] encode_string_def [of "''backup_name''"]
      encode_string_def [of "''backup_metadata_sha256''"] escape_char_def)
qed

text \<open>The slot and the token of a transaction, and the name of its backup.\<close>

definition markable :: "rb_host \<Rightarrow> string \<Rightarrow> string \<Rightarrow> string \<Rightarrow> bool" where
  "markable h slot name token \<longleftrightarrow> ascii_only slot \<and> length slot \<le> 100 \<and> length name \<le> 100 \<and> HEX64 token \<and> 2 \<le> rec_limit (rh_env h)"

definition marker_file :: "rb_host \<Rightarrow> string \<Rightarrow> string \<Rightarrow> string \<Rightarrow> string \<Rightarrow> file_node" where
  "marker_file h slot name digest token =
     \<lparr>fl_bytes = marker_text slot name digest token, fl_mode = 384, fl_uid = rh_euid h, fl_gid = rh_egid h, fl_links = 1\<rparr>"

definition marked :: "rb_host \<Rightarrow> string \<Rightarrow> string \<Rightarrow> string \<Rightarrow> string \<Rightarrow> slot_files \<Rightarrow> slot_files" where
  "marked h slot name digest token s =
     s\<lparr>rs_recovery := write_file ROLLBACK_TRANSACTION_NAME (File (marker_file h slot name digest token)) (rs_recovery s)\<rparr>"

lemma marker_written:
  assumes "markable h slot name token" and "backup_name_parts name \<noteq> None" and "DIGEST_RE digest"
  shows "write_recovery h ROLLBACK_TRANSACTION_NAME (dumps_ascii (JObj (transaction_payload slot name digest token)) @ [CHR 0x0A]) s =
      (Inr (), marked h slot name digest token s)"
    and "strict_json_object h (Some (File (marker_file h slot name digest token))) =
      Inr (transaction_payload slot name digest token, sha256_tag (marker_text slot name digest token))"
proof -
  let ?d = "transaction_payload slot name digest token"
  have c: "ascii_only slot" "length slot \<le> 100" "length name \<le> 100" "HEX64 token" "2 \<le> rec_limit (rh_env h)" using assms(1) by (auto simp: markable_def)
  have "ascii_only name" using assms(2) backup_name_partsE(3) by auto
  moreover have "ascii_only token" using c(4) hex_ascii by (simp add: HEX64_def)
  ultimately have pl: "ascii_json (JObj ?d)"
    using c(1) digest_plain [OF assms(3)] by (simp add: transaction_payload_def ROLLBACK_TRANSACTION_SCHEMA_def)
  note pr = dumps_plain [OF this]
  have shown: "dumps_ascii (JObj ?d) @ [CHR 0x0A] = marker_text slot name digest token"
    unfolding dumps_ascii_def payload_sorted marker_text_def by (simp only: ascii_text_plain [OF pr])
  have v: "utf8_valid (marker_text slot name digest token)"
    unfolding marker_text_def by (simp only: ascii_only_utf8 [OF pr]) (simp add: utf8_valid_ascii_Cons)
  show "write_recovery h ROLLBACK_TRANSACTION_NAME (dumps_ascii (JObj ?d) @ [CHR 0x0A]) s = (Inr (), marked h slot name digest token s)"
    unfolding shown using v by (simp add: write_recovery_def encode_utf8_def marked_def marker_file_def)
  obtain n where n: "rec_limit (rh_env h) = Suc n" using c(5) by (cases "rec_limit (rh_env h)") auto
  have "jwf (rec_limit (rh_env h)) (JObj ?d)" unfolding n by (simp add: transaction_payload_def keys_def)
  from json_loads_compact [OF good_hook_unique_object this pl]
  have "strict_object h what (marker_text slot name digest token) = Inr (JObj ?d)" for what
    using v by (simp add: strict_object_def decode_utf8_def marker_text_def)
  then show "strict_json_object h (Some (File (marker_file h slot name digest token))) = Inr (?d, sha256_tag (marker_text slot name digest token))"
    using marker_text_length [OF c(2,3) assms(3) c(4)] by (simp add: strict_json_object_def marker_file_def)
qed

lemma marked_frame [simp]:
  "rs_backups (marked h slot name digest token s) = rs_backups s" "target m (marked h slot name digest token s) = target m s"
  by (cases m; simp add: marked_def target_def)+

lemma marked_recovery: "map_of (rs_recovery (marked h slot name digest token s)) ROLLBACK_TRANSACTION_NAME = Some (File (marker_file h slot name digest token))"
  by (simp add: marked_def write_file_map_of)

lemma validate_backup_cong:
  assumes "rs_backups s2 = rs_backups s"
  shows "validate_backup_dir h s2 name = validate_backup_dir h s name" "validate_backup_integrity h s2 name = validate_backup_integrity h s name"
  using assms by (simp_all add: validate_backup_dir_def validate_backup_integrity_def)

lemma case_obj_Inr:
  "(case v of JObj d \<Rightarrow> f d | _ \<Rightarrow> Inl e) = Inr y \<longleftrightarrow> (\<exists>d. v = JObj d \<and> f d = Inr y)"
  by (cases v) auto

lemma integrity_Inr:
  assumes "validate_backup_integrity h s name = Inr (d, digest)"
  shows "DIGEST_RE digest" and "backup_name_parts name \<noteq> None" and "\<exists>folder. validate_backup_dir h s name = Inr folder"
proof -
  obtain folder m where f: "validate_backup_dir h s name = Inr folder" "load_validated_backup_metadata h folder = Inr (m, digest)"
    using assms by (auto simp: validate_backup_integrity_def bindE_Inr_iff case_obj_Inr)
  show "\<exists>folder. validate_backup_dir h s name = Inr folder" using f(1) by blast
  show "DIGEST_RE digest"
    using f(2) by (auto simp: load_validated_backup_metadata_def bindE_Inr_iff case_obj_Inr sha256_tag_digest)
  show "backup_name_parts name \<noteq> None"
    using f(1) by (cases "backup_name_parts name") (auto simp: validate_backup_dir_def backup_sort_key_def)
qed

text \<open>A recorded transaction is the pending one as long as its backup is intact.\<close>

lemma pending_marked:
  assumes "markable h slot name token" and "validate_backup_integrity h s name = Inr (d, digest)"
    and "map_of (rs_recovery s) ROLLBACK_TRANSACTION_NAME = Some (File (marker_file h slot name digest token))"
  shows "load_rollback_transaction h slot s = Inr (Some (transaction_payload slot name digest token, sha256_tag (marker_text slot name digest token)))"
    and "pending_rollback_backup h slot s = Inr (Some name)"
proof -
  note i = integrity_Inr [OF assms(2)]
  obtain t n where "backup_name_parts name = Some (t, n)" using i(2) by auto
  moreover have "HEX64 token" using assms(1) by (simp add: markable_def)
  ultimately show l: "load_rollback_transaction h slot s = Inr (Some (transaction_payload slot name digest token, sha256_tag (marker_text slot name digest token)))"
    unfolding load_rollback_transaction_def assms(3) option.case marker_written(2) [OF assms(1) i(2,1)] bindE_simps prod.case
    using assms(2) by (simp add: transaction_payload_def keys_def ROLLBACK_TRANSACTION_KEYS_def jget_opt_def is_text_def insert_commute)
  obtain folder where "validate_backup_dir h s name = Inr folder" using i(3) by blast
  then show "pending_rollback_backup h slot s = Inr (Some name)"
    by (simp add: pending_rollback_backup_def l transaction_payload_def str_field_def jget_opt_def)
qed

lemma no_pending: "map_of (rs_recovery s) ROLLBACK_TRANSACTION_NAME = None \<Longrightarrow> pending_rollback_backup h slot s = Inr None"
  by (simp add: pending_rollback_backup_def load_rollback_transaction_def)

lemma begin_unmarked:
  assumes "markable h slot name token" and "validate_backup_integrity h s name = Inr (d, digest)"
    and "map_of (rs_recovery s) ROLLBACK_TRANSACTION_NAME = None"
  shows "begin_rollback_transaction h slot name token s = (Inr (), marked h slot name digest token s)"
  unfolding begin_rollback_transaction_def
  using assms(2) no_pending [OF assms(3)] marker_written(1) [OF assms(1) integrity_Inr(2,1) [OF assms(2)]] by simp


section \<open>Making a backup\<close>

lemma backup_Inr:
  assumes "backup_agent_runtime_state h slot stamp created_at path s = (Inr name, s')"
  obtains folder where "pending_rollback_backup h slot s = Inr None" and "next_backup_path s stamp = Inr name"
    and "stage_backup h s created_at path = Inr folder" and "s' = s\<lparr>rs_backups := rs_backups s @ [(name, Some folder)]\<rparr>"
proof -
  obtain n folder where b: "pending_rollback_backup h slot s = Inr None" "next_backup_path s stamp = Inr n" "publish_name s stamp n = Inr name"
      "stage_backup h s created_at path = Inr folder" "s' = s\<lparr>rs_backups := rs_backups s @ [(name, Some folder)]\<rparr>"
    using assms by (auto simp: backup_agent_runtime_state_def bindE_Inr_iff raise_if_Inr_iff split: sum.splits)
  then have "n = name" using publish_next [of s stamp n] by simp
  then show ?thesis using that b by blast
qed

lemma backup_made:
  assumes "map_of (rs_recovery s) ROLLBACK_TRANSACTION_NAME = None" and "next_backup_path s stamp = Inr name" and "regular_targets s"
    and "stage_backup h s created_at path = Inr folder"
  shows "backup_agent_runtime_state h slot stamp created_at path s = (Inr name, s\<lparr>rs_backups := rs_backups s @ [(name, Some folder)]\<rparr>)"
proof -
  have "map_of (rs_runtime s) ENV_FILE = None \<or> is_file (map_of (rs_runtime s) ENV_FILE)"
    using assms(3) by (auto simp: regular_targets_def ARTIFACTS_def target_def)
  then show ?thesis using assms publish_next by (auto simp: backup_agent_runtime_state_def no_pending)
qed

lemma stage_backup_ok:
  assumes "small_files s" and "readable h s created_at path"
  shows "\<exists>folder. stage_backup h s created_at path = Inr folder"
  using staged_digests [of h s "digests_of h s"] assms(1) saved_text(1) [OF assms(2) good_hook_dict_hook]
  by (simp add: stage_backup_def Let_def encode_utf8_def saved_dict_def)

lemma plan_checked:
  assumes "stage_backup h s c p = Inr folder" and "regular_targets s2"
  shows "check_plan folder s2 (map (\<lambda>m. (is_file (target m s), m)) ms) = Inr ()"
proof -
  have "is_file (target m s) \<Longrightarrow> is_file (map_of folder (target_name m))" for m
    using stage_backup_Inr(2) [OF assms(1), of m] by (auto simp: is_file_def staged_entry_def split: option.splits entry.splits)
  then show ?thesis by (auto simp: check_plan_def forE_Inr_iff raise_if_Inr_iff regular_target [OF assms(2)])
qed

definition saved_plan :: "slot_files \<Rightarrow> (bool \<times> managed) list" where
  "saved_plan s = map (\<lambda>m. (is_file (target m s), m)) [Compose, Manifest, StateManifest]"

lemma restore_inputs_saved:
  assumes "stage_backup h s c p = Inr folder" and "readable h s c p" and "backup_sort_key name = Inr (Some key)"
    and "map_of (rs_backups s2) name = Some (Some folder)" and "regular_targets s2"
  shows "restore_inputs h name s2 = Inr (folder, saved_plan s, Some (is_file (target Env s)))"
  unfolding restore_inputs_def validate_saved_dir [OF assms(1,3,4)] validate_saved [OF assms(1-4)] bindE_simps prod.case sorted_saved_fields
    env_inputs_saved [OF assms(1,5)] Let_def
  using plan_checked [OF assms(1,5), of "[Compose, Manifest, StateManifest]"] by (simp add: saved_plan_def)

lemma restore_plan_saved:
  assumes "stage_backup h s c p = Inr folder" and "regular_targets s2"
  shows "restore_plan h folder (saved_plan s) s2 =
    (Inr (), put_back StateManifest (restored_entry h StateManifest s) (put_back Manifest (restored_entry h Manifest s) (put_back Compose (restored_entry h Compose s) s2)))"
  unfolding saved_plan_def list.map
  by (subst restore_one_step [OF assms(1)], intro assms regular_put_back, simp)+ simp

text \<open>
  When the restoration answers positively: with a saved compose file, both compose commands return 0; without one, there is no saved
  runtime manifest either, and the three queries return 0 and list nothing.
\<close>

definition restore_positive :: "rb_host \<Rightarrow> string \<Rightarrow> string \<Rightarrow> slot_files \<Rightarrow> bool" where
  "restore_positive h slot path s \<longleftrightarrow>
     (if is_file (target Compose s)
      then list_all (\<lambda>args. fst (rh_run h (compose_command slot path args)) = 0)
             [[''config''], [''up'', ''-d'', ''--force-recreate'', ''--remove-orphans'']]
      else \<not> is_file (target Manifest s)
           \<and> list_all (\<lambda>(_, argv). fst (rh_run h argv) = 0 \<and> list_all (\<lambda>l. py_strip l = []) (py_splitlines (fst (snd (rh_run h argv)))))
               (residue_queries slot))"

text \<open>A running project that the backup does not have cannot be taken down.\<close>

definition down_fails :: "rb_host \<Rightarrow> string \<Rightarrow> string \<Rightarrow> slot_files \<Rightarrow> slot_files \<Rightarrow> bool" where
  "down_fails h slot path s s2 \<longleftrightarrow> \<not> is_file (target Compose s) \<and> is_file (target Compose s2)
     \<and> fst (rh_run h (compose_command slot path [''down'', ''--remove-orphans''])) \<noteq> 0"

lemma project_residue_clean:
  "fst (project_residue h qs) \<longleftrightarrow>
     list_all (\<lambda>(_, argv). fst (rh_run h argv) = 0 \<and> list_all (\<lambda>l. py_strip l = []) (py_splitlines (fst (snd (rh_run h argv))))) qs"
  by (induction h qs rule: project_residue.induct) (auto simp: Let_def filter_empty_conv list_all_iff)

lemma settle_positive:
  assumes "\<And>m. target m s3 = restored_entry h m s"
  shows "fst (settle_restore h slot path (saved_plan s) (Some (is_file (target Env s))) s3) \<longleftrightarrow> restore_positive h slot path s"
proof -
  have none: "restored_entry h m s = None \<longleftrightarrow> \<not> is_file (target m s)" for m
    by (auto simp: restored_entry_def is_file_def split: option.splits entry.splits)
  obtain clean reason where q: "project_residue h (residue_queries slot) = (clean, reason)" by force
  then have "clean \<longleftrightarrow> list_all (\<lambda>(_, argv). fst (rh_run h argv) = 0 \<and> list_all (\<lambda>l. py_strip l = []) (py_splitlines (fst (snd (rh_run h argv)))))
      (residue_queries slot)" using project_residue_clean [of h "residue_queries slot"] by simp
  then show ?thesis by (auto simp: settle_restore_def restore_positive_def saved_plan_def assms none q Let_def)
qed

lemma last_sort_key:
  fixes x :: "'a" and f :: "'a \<Rightarrow> 'b::linorder"
  assumes "\<And>y. y \<in> set xs \<Longrightarrow> f y < f x"
  shows "last (sort_key f (xs @ [x])) = x"
proof -
  let ?z = "sort_key f (xs @ [x])"
  have ne: "?z \<noteq> []" and mem: "set ?z = insert x (set xs)" by (simp_all flip: length_0_conv)
  then obtain i where i: "i < length ?z" "?z ! i = x" by (metis in_set_conv_nth insertI1)
  have "map f ?z ! i \<le> map f ?z ! (length ?z - 1)" using i(1) ne by (intro sorted_nth_mono [OF sorted_sort_key]) auto
  then have "f x \<le> f (last ?z)" using i ne by (simp add: last_conv_nth)
  moreover have "last ?z \<in> insert x (set xs)" using last_in_set [OF ne] mem by simp
  ultimately show ?thesis using assms by (auto simp: not_le [symmetric])
qed

lemma mapE_append: "mapE f (xs @ ys) = bindE (mapE f xs) (\<lambda>a. bindE (mapE f ys) (\<lambda>b. Inr (a @ b)))"
  by (induction xs) (auto simp: bindE_def split: sum.splits)

text \<open>The key of a new name is above every key of the same instant.\<close>

lemma next_backup_path_above:
  assumes "next_backup_path s original = Inr name" and "backup_sort_key original = Inr (Some (i, m))"
    and "e \<in> set (rs_backups s)" and "entry_key e = Inr (i, n)"
  shows "\<exists>k. backup_sort_key name = Inr (Some (i, k)) \<and> n < k"
proof -
  obtain ks where ks: "mapE entry_key (rs_backups s) = Inr ks"
    and name: "let same = map snd (filter (\<lambda>x. fst x = i) ks) in
      (if same = [] then Inr original else backup_path_for_suffix original (foldr max same 0 + 1)) = Inr name"
    using assms(1,2) by (auto simp: next_backup_path_def bindE_Inr_iff Let_def)
  let ?same = "map snd (filter (\<lambda>x. fst x = i) ks)"
  let ?n = "foldr max ?same 0 + 1"
  obtain t where p: "backup_name_parts original = Some (t, m)" "stamp_instant t = Inr i"
    using assms(2) by (auto simp: backup_sort_key_def bindE_Inr_iff split: option.splits)
  have n: "n \<in> set ?same" using mapE_forward [OF ks assms(3)] assms(4) by force
  then have "n < ?n" using mem_foldr_max [of n ?same] by simp
  moreover have n2: "2 \<le> ?n" using calculation entry_key_suffix [OF assms(4)] by simp
  moreover have "?same \<noteq> []" using n by (cases ?same) simp_all
  with name p(1) n2 have nm: "name = t @ ''.'' @ show_nat ?n" by (simp add: Let_def backup_path_for_suffix_def split: if_splits)
  have "backup_sort_key name = Inr (Some (i, ?n))"
    unfolding backup_sort_key_def nm backup_name_parts_suffix [OF p(1) n2] using p(2) by simp
  ultimately show ?thesis by blast
qed

lemma next_backup_path_instant:
  assumes "next_backup_path s original = Inr name" and "backup_sort_key original = Inr (Some (i, m))"
  shows "\<exists>k. backup_sort_key name = Inr (Some (i, k))"
proof -
  obtain ks where ks: "mapE entry_key (rs_backups s) = Inr ks"
    and name: "let same = map snd (filter (\<lambda>x. fst x = i) ks) in
      (if same = [] then Inr original else backup_path_for_suffix original (foldr max same 0 + 1)) = Inr name"
    using assms by (auto simp: next_backup_path_def bindE_Inr_iff Let_def)
  show ?thesis
  proof (cases "filter (\<lambda>x. fst x = i) ks")
    case Nil
    then show ?thesis using name assms(2) by (simp add: Let_def)
  next
    case (Cons z zs)
    then have "z \<in> set (filter (\<lambda>x. fst x = i) ks)" by simp
    then have z: "z \<in> set ks" "fst z = i" by simp_all
    from mapE_backward [OF ks z(1)] obtain e where "e \<in> set (rs_backups s)" "entry_key e = Inr (i, snd z)" using z(2) by (cases z) auto
    from next_backup_path_above [OF assms this] show ?thesis by blast
  qed
qed

section \<open>The properties\<close>

text \<open>
  C6. A backup brings back what it saved. Take a backup of a slot, let the managed files change into any regular files (or vanish), and restore:
  the compose file, the two manifests and the environment file hold the bytes and the mode they had, one that did not exist is gone,
  the environment file has its owner back, the backups are untouched and the transaction of this backup is pending. Only when
  the backup has no compose file and the project that is running cannot be taken down, the managed files stay as they are. The
  answer is positive exactly if the project was taken down where needed and, with a saved compose file, \<open>config\<close> and \<open>up\<close> return 0, without one, no
  runtime manifest was saved and the queries find no container, network or volume; nothing else is assumed of the commands.
  The metadata have to fit their size limit and be ASCII text that the YAML reader reads as the JSON reader does.
\<close>

theorem backup_restores_files:
  assumes made: "backup_agent_runtime_state h slot stamp created_at path s = (Inr name, s')"
    and "readable h s created_at path" and "yaml_reads h (metadata_text (saved_dict h s created_at path))"
    and later: "rs_backups s2 = rs_backups s'" "regular_targets s2" "map_of (rs_recovery s2) ROLLBACK_TRANSACTION_NAME = None"
    and "markable h slot name token"
  shows "\<exists>reason s3. restore_backup h slot compose_path name token None s2 =
      (Inr (\<not> down_fails h slot compose_path s s2 \<and> restore_positive h slot compose_path s, reason), s3)
    \<and> (\<forall>m. target m s3 = (if down_fails h slot compose_path s s2 then target m s2 else restored_entry h m s))
    \<and> rs_backups s3 = rs_backups s2 \<and> pending_rollback_backup h slot s3 = Inr (Some name)"
proof -
  obtain folder where b: "next_backup_path s stamp = Inr name" "stage_backup h s created_at path = Inr folder"
      "s' = s\<lparr>rs_backups := rs_backups s @ [(name, Some folder)]\<rparr>"
    using backup_Inr [OF made] by metis
  note fresh = next_backup_path_fresh [OF b(1)]
  obtain key where key: "backup_sort_key name = Inr (Some key)" using fresh(3) by blast
  have found: "map_of (rs_backups s2) name = Some (Some folder)" using fresh(1) later(1) b(3) by (simp add: map_add_def)
  let ?digest = "sha256_tag (metadata_text (saved_dict h s created_at path))"
  note valid = validate_saved [OF b(2) assms(2) key found]
  let ?s1 = "marked h slot name ?digest token s2"
  have r1: "regular_targets ?s1" using later(2) by (simp add: regular_targets_def)
  let ?s2 = "put_back Env (restored_entry h Env s) ?s1"
  let ?s3 = "put_back StateManifest (restored_entry h StateManifest s) (put_back Manifest (restored_entry h Manifest s) (put_back Compose (restored_entry h Compose s) ?s2))"
  have targets: "target m ?s3 = restored_entry h m s" for m by (cases m) (simp_all add: target_put_back)
  have admit: "admit_restore h slot name token None s2 = (Inr (), ?s1)"
    by (simp add: admit_restore_def begin_unmarked [OF assms(7) valid later(3)])
  have pending: "pending_rollback_backup h slot s3 = Inr (Some name)" if "rs_backups s3 = rs_backups s2" "rs_recovery s3 = rs_recovery ?s1" for s3
    by (rule pending_marked(2) [OF assms(7), of s3]) (simp_all add: that marked_recovery valid validate_backup_cong(2) [OF that(1)])
  note restore = restore_backup_def restore_inputs_saved [OF b(2) assms(2) key found later(2)] admit Let_def
  have plan: "(False, Compose) \<in> set (saved_plan s) \<longleftrightarrow> \<not> is_file (target Compose s)" by (auto simp: saved_plan_def)
  show ?thesis
  proof (cases "down_fails h slot compose_path s s2")
    case True
    then have "\<exists>reason. restore_backup h slot compose_path name token None s2 = (Inr (False, reason), ?s1)"
      by (simp add: restore plan down_fails_def)
    then show ?thesis using True pending [of ?s1] by auto
  next
    case False
    obtain ok reason where st: "settle_restore h slot compose_path (saved_plan s) (Some (is_file (target Env s))) ?s3 = (ok, reason)" by force
    then have "ok \<longleftrightarrow> restore_positive h slot compose_path s" using settle_positive [OF targets, of slot compose_path] by simp
    moreover have "restore_backup h slot compose_path name token None s2 = (Inr (ok, reason), ?s3)"
      using False st
      by (auto simp: restore plan down_fails_def restore_env_saved [OF b(2) assms(2,3) r1] restore_plan_saved [OF b(2) regular_put_back [OF r1]])
    ultimately show ?thesis using False targets pending [of ?s3] by auto
  qed
qed

text \<open>
  C29. A new backup is the latest one. If the clock does not run backwards (no backup in the root has a later timestamp than the
  new one), the name is new, the other backups stay as they are, and \<open>latest_backup\<close> finds the new one, also among
  several backups of the same second, whose suffixes are compared as numbers.
\<close>

theorem new_backup_is_latest:
  assumes made: "backup_agent_runtime_state h slot stamp created_at path s = (Inr name, s')"
    and whole: "latest_backup s = Inr latest" and stamp: "backup_sort_key stamp = Inr (Some (i, suffix))"
    and clock: "\<And>entry j n. entry \<in> set (rs_backups s) \<Longrightarrow> entry_key entry = Inr (j, n) \<Longrightarrow> j \<le> i"
  shows "map_of (rs_backups s) name = None \<and> (\<exists>folder. rs_backups s' = rs_backups s @ [(name, Some folder)])
    \<and> latest_backup s' = Inr (Some name)"
proof -
  obtain folder where b: "next_backup_path s stamp = Inr name" "stage_backup h s created_at path = Inr folder"
      "rs_backups s' = rs_backups s @ [(name, Some folder)]"
    using backup_Inr [OF made] by (metis slot_files.select_convs(3) slot_files.surjective slot_files.update_convs(3))
  obtain k where k: "backup_sort_key name = Inr (Some (i, k))" using next_backup_path_instant [OF b(1) stamp] by blast
  have below: "key < (i, k)" if e: "e \<in> set (rs_backups s)" "entry_key e = Inr key" for e key
  proof -
    obtain j n where jn: "key = (j, n)" by force
    have "j \<le> i" using clock e jn by blast
    moreover have "j = i \<Longrightarrow> n < k" using next_backup_path_above [OF b(1) stamp e(1)] e(2) jn k by auto
    ultimately show ?thesis using jn by (auto simp: less_prod_def')
  qed
  let ?g = "\<lambda>e. bindE (entry_key e) (\<lambda>key.
       bindE (raise_if (\<not> is_file (map_of (case snd e of Some folder \<Rightarrow> folder | None \<Rightarrow> []) METADATA_FILE))
         (ValueError ''managed backup entry must contain regular backup metadata'')) (\<lambda>_.
       Inr (fst e, key)))"
  obtain ks where ks: "mapE ?g (rs_backups s) = Inr ks" using whole by (auto simp: latest_backup_def bindE_Inr_iff)
  have all: "snd y < (i, k)" if "y \<in> set ks" for y
    using mapE_backward [OF ks that] below by (auto simp: bindE_Inr_iff)
  have "?g (name, Some folder) = Inr (name, (i, k))"
    using k stage_backup_Inr(3) [OF b(2)] by (simp add: entry_key_def is_file_def)
  then have "mapE ?g (rs_backups s') = Inr (ks @ [(name, (i, k))])" unfolding b(3) mapE_append ks by simp
  then have "latest_backup s' = Inr (Some name)"
    unfolding latest_backup_def using last_sort_key [of ks snd "(name, (i, k))"] all by simp
  then show ?thesis using next_backup_path_fresh(1) [OF b(1)] b(3) by blast
qed

text \<open>
  C14. One transaction at a time. After a rollback has begun for a backup, that backup is pending: no new backup is taken, no other backup can
  be begun and no other can be finished, all of this without any change; beginning the same one again is harmless; finishing it
  is possible and leaves nothing pending.
\<close>

theorem rollback_is_exclusive:
  assumes "begin_rollback_transaction h slot name token s = (Inr (), s')" and "markable h slot name token"
  shows "pending_rollback_backup h slot s' = Inr (Some name)
    \<and> (\<forall>stamp created_at path. backup_agent_runtime_state h slot stamp created_at path s' =
         (Inl (RuntimeError ''rollback transaction must be completed before a new apply''), s'))
    \<and> (\<forall>other token'. (if other = name then begin_rollback_transaction h slot other token' s' = (Inr (), s')
         else \<exists>e. begin_rollback_transaction h slot other token' s' = (Inl e, s')))
    \<and> (\<forall>other. finish_rollback_transaction h slot other s' =
         (if other = name then (Inr (), drop_marker s') else (Inl (RuntimeError ''rollback transaction identity changed before completion''), s')))
    \<and> pending_rollback_backup h slot (drop_marker s') = Inr None"
proof -
  obtain d digest where valid: "validate_backup_integrity h s name = Inr (d, digest)"
    using assms(1) by (cases "validate_backup_integrity h s name") (auto simp: begin_rollback_transaction_def)
  have "pending_rollback_backup h slot s' = Inr (Some name) \<and> validate_backup_integrity h s' name = Inr (d, digest)"
  proof (cases "pending_rollback_backup h slot s")
    case (Inl e)
    then show ?thesis using assms(1) valid by (simp add: begin_rollback_transaction_def)
  next
    case (Inr pending)
    show ?thesis
    proof (cases pending)
      case None
      then have s': "s' = marked h slot name digest token s"
        using assms(1) Inr valid marker_written(1) [OF assms(2) integrity_Inr(2,1) [OF valid], of s] by (simp add: begin_rollback_transaction_def)
      then have v: "validate_backup_integrity h s' name = Inr (d, digest)" using valid validate_backup_cong(2) [of s' s] by simp
      then show ?thesis using pending_marked(2) [OF assms(2) v] marked_recovery [of h slot name digest token s] s' by simp
    next
      case (Some existing)
      then show ?thesis using assms(1) Inr valid by (auto simp: begin_rollback_transaction_def split: if_splits)
    qed
  qed
  then have p: "pending_rollback_backup h slot s' = Inr (Some name)" and v: "validate_backup_integrity h s' name = Inr (d, digest)" by auto
  have "\<exists>e. begin_rollback_transaction h slot other token' s' = (Inl e, s')" if "other \<noteq> name" for other token'
    using that p by (cases "validate_backup_integrity h s' other") (auto simp: begin_rollback_transaction_def)
  moreover have "begin_rollback_transaction h slot name token' s' = (Inr (), s')" for token' using p v by (simp add: begin_rollback_transaction_def)
  moreover have "pending_rollback_backup h slot (drop_marker s') = Inr None"
    by (rule no_pending) (simp add: drop_marker_def remove_file_map_of)
  ultimately show ?thesis using p by (simp add: backup_agent_runtime_state_def finish_rollback_transaction_def)
qed

text \<open>
  C21. A changed artifact of a backup is refused. If, under the metadata that were saved, one of the four artifacts (the compose file, the two manifests, the
  environment file) is replaced by a file with another digest, or one of them that was not saved appears, the restoration raises and
  leaves everything as it is: the managed files, the backups and the recovery directory. Other files in the folder, and a \<open>backup.json\<close> that was
  rewritten together with the artifacts, are outside the claim, as they are outside the check.
\<close>

theorem changed_backup_is_refused:
  assumes made: "backup_agent_runtime_state h slot stamp created_at path s = (Inr name, s')" and "readable h s created_at path"
    and found: "map_of (rs_backups s') name = Some (Some folder)"
    and changed: "map_of (rs_backups s2) name = Some (Some (write_file (target_name m) (File f) folder))"
    and other: "case target m s of Some (File g) \<Rightarrow> sha256_tag (fl_bytes f) \<noteq> sha256_tag (fl_bytes g) | _ \<Rightarrow> True"
  shows "\<exists>e. restore_backup h slot compose_path name token expected s2 = (Inl e, s2)"
proof -
  let ?folder = "write_file (target_name m) (File f) folder"
  obtain folder' where b: "next_backup_path s stamp = Inr name" "stage_backup h s created_at path = Inr folder'"
      "s' = s\<lparr>rs_backups := rs_backups s @ [(name, Some folder')]\<rparr>"
    using backup_Inr [OF made] by metis
  have [simp]: "folder' = folder" using found b(3) next_backup_path_fresh(1) [OF b(1)] by (simp add: map_add_def)
  have n: "target_name m \<noteq> METADATA_FILE" by (cases m) (simp_all add: target_name_def file_names)
  then have meta: "load_validated_backup_metadata h ?folder = Inr (sorted_saved h s created_at path, sha256_tag (metadata_text (saved_dict h s created_at path)))"
    using load_saved [OF b(2) assms(2)] by (simp add: load_validated_backup_metadata_def write_file_map_of)
  have bad: "check_artifact h ?folder (sorted_saved h s created_at path) False (digests_of h s) (target_name m, marker_key m) \<noteq> Inr ()"
  proof (cases "is_file (target m s)")
    case True
    then obtain g where "target m s = Some (File g)" using restored_cases(1) by blast
    then show ?thesis
      using True other
      by (auto simp: check_artifact_def saved_marker write_file_map_of digests_of_get staged_entry_def digest_value_def sha256_file_def read_stable_def
        bindE_Inr_iff raise_if_Inr_iff)
  qed (simp add: check_artifact_def saved_marker write_file_map_of raise_if_Inr_iff)
  have "m \<in> set ARTIFACTS" by (cases m) (simp_all add: ARTIFACTS_def)
  with bad have "forE (check_artifact h ?folder (sorted_saved h s created_at path) False (digests_of h s)) BACKUP_ARTIFACTS \<noteq> Inr ()"
    by (auto simp: forE_Inr_iff artifacts_eq)
  moreover have "validate_backup_dir h s2 name = Inr x \<Longrightarrow> x = ?folder" for x
    using changed by (auto simp: validate_backup_dir_def bindE_Inr_iff split: option.splits entry.splits)
  ultimately have "restore_inputs h name s2 \<noteq> Inr y" for y
    by (auto simp: restore_inputs_def validate_backup_integrity_def bindE_Inr_iff meta legacy_saved sorted_saved_fields case_obj_Inr)
  then obtain e where "restore_inputs h name s2 = Inl e" by (cases "restore_inputs h name s2") auto
  then show ?thesis by (simp add: restore_backup_def)
qed

end
