(* ===== verification/Backup_Samples.thy ===== *)
theory Backup_Samples
  imports Backup_Properties "HOL-Library.Code_Target_Nat"
begin

text \<open>
  The properties of the recovery at a concrete slot: a compose file and an environment file, no manifests.
\<close>

definition sample_rb_host :: rb_host where
  "sample_rb_host = \<lparr>rh_env = sample_env, rh_euid = 0, rh_egid = 0, rh_mode = 420, rh_run = (\<lambda>argv. (0, if ''config'' \<in> set argv then ''name: oc2'' else [], [])),
     rh_yaml = json_loads sample_env dict_hook\<rparr>"

definition sample_file :: "string \<Rightarrow> int \<Rightarrow> entry" where
  "sample_file b uid = File \<lparr>fl_bytes = b, fl_mode = 416, fl_uid = uid, fl_gid = uid, fl_links = 1\<rparr>"

definition sample_slot :: slot_files where
  "sample_slot = \<lparr>rs_runtime = [(COMPOSE_FILE, sample_file ''services'' 0), (ENV_FILE, sample_file ''A=1'' 1000)],
     rs_state_manifest = None, rs_backups = [], rs_recovery = []\<rparr>"

definition sample_name :: string where "sample_name = ''20260301T101500+0900''"

lemma sample_targets:
  "target Compose sample_slot = Some (sample_file ''services'' 0)" "target Env sample_slot = Some (sample_file ''A=1'' 1000)"
  "target Manifest sample_slot = None" "target StateManifest sample_slot = None"
  by (simp_all add: target_def sample_slot_def file_names)

lemma sample_env_sized: "env_sized sample_slot"
  by (simp add: env_sized_def sample_targets sample_file_def word_sized_def)

lemma sample_small: "small_files sample_slot" "regular_targets sample_slot"
  by (simp_all add: small_files_def regular_targets_def ARTIFACTS_def sample_targets sample_file_def MAX_FILE_BYTES_def is_file_def)

lemma sample_readable: "readable sample_rb_host sample_slot ''now'' ''/m''"
proof -
  have pl: "ascii_only ''now''" "ascii_only ''/m''" by code_simp+
  have n: "length (show_int 1000) = 4" "length (show_int 416) = 3" by code_simp+
  have e: "length (encode_string (sha256_tag b)) \<le> 428" for b
    using encode_length [of "sha256_tag b"] digest_length [OF sha256_tag_digest, of b] by simp
  have "length (metadata_text (saved_dict sample_rb_host sample_slot ''now'' ''/m'')) \<le> 1048576"
    unfolding saved_shown [OF sample_env_sized pl] sorted_saved_def digests_of_def ARTIFACTS_def
    using e [of "''services''"] e [of "''A=1''"]
    by (simp add: sample_targets opt_int_def sample_file_def staged_entry_def digest_value_def new_line_def is_file_def target_name_def file_names
      BACKUP_SCHEMA_def n) (simp add: encode_string_def escape_char_def)
  then show ?thesis using pl sample_env_sized by (simp add: readable_def sample_rb_host_def sample_env_def)
qed

definition sample_folder :: folder where
  "sample_folder = projr (stage_backup sample_rb_host sample_slot ''now'' ''/m'')"

lemma sample_staged: "stage_backup sample_rb_host sample_slot ''now'' ''/m'' = Inr sample_folder"
  using stage_backup_ok [OF sample_small(1) sample_readable] by (auto simp: sample_folder_def)

definition sample_saved :: slot_files where
  "sample_saved = sample_slot\<lparr>rs_backups := [(sample_name, Some sample_folder)]\<rparr>"

lemma sample_name_key: "backup_sort_key sample_name = Inr (Some (63908010900, 1))"
  by code_simp

lemma sample_next: "next_backup_path sample_slot sample_name = Inr sample_name"
  by (simp add: next_backup_path_def sample_name_key sample_slot_def)

lemma sample_backup: "backup_agent_runtime_state sample_rb_host ''oc2'' sample_name ''now'' ''/m'' sample_slot = (Inr sample_name, sample_saved)"
  using backup_made [OF _ sample_next sample_small(2) sample_staged, of "''oc2''"] by (simp add: sample_slot_def sample_saved_def)

lemma sample_markable: "markable sample_rb_host ''oc2'' sample_name (replicate 64 CHR ''0'')"
proof -
  have "ascii_only ''oc2'' \<and> length ''oc2'' \<le> 100 \<and> length sample_name \<le> 100 \<and> HEX64 (replicate 64 CHR ''0'') \<and> 2 \<le> rec_limit sample_env" by code_simp
  then show ?thesis by (simp add: markable_def sample_rb_host_def)
qed

lemma sample_yaml: "yaml_reads sample_rb_host t"
  by (simp add: yaml_reads_def sample_rb_host_def)

text \<open>Every managed file was lost after the backup.\<close>

definition sample_lost :: slot_files where
  "sample_lost = sample_saved\<lparr>rs_runtime := []\<rparr>"

lemma sample_lost_facts: "rs_backups sample_lost = rs_backups sample_saved" "regular_targets sample_lost"
  "map_of (rs_recovery sample_lost) ROLLBACK_TRANSACTION_NAME = None"
  by (simp_all add: sample_lost_def sample_saved_def sample_slot_def regular_targets_def ARTIFACTS_def target_def)

theorem backup_restores_files_witness:
  "\<exists>reason s3. restore_backup sample_rb_host ''oc2'' ''/c'' sample_name (replicate 64 CHR ''0'') None sample_lost = (Inr (True, reason), s3)
    \<and> target Compose s3 = Some (sample_file ''services'' 0) \<and> target Env s3 = Some (sample_file ''A=1'' 1000) \<and> target Manifest s3 = None
    \<and> pending_rollback_backup sample_rb_host ''oc2'' s3 = Inr (Some sample_name)"
proof -
  have "restore_positive sample_rb_host ''oc2'' ''/c'' sample_slot" "\<not> down_fails sample_rb_host ''oc2'' ''/c'' sample_slot sample_lost"
    by (simp_all add: restore_positive_def down_fails_def sample_targets is_file_def sample_file_def) (simp_all add: sample_rb_host_def)
  moreover have "restored_entry sample_rb_host Compose sample_slot = Some (sample_file ''services'' 0)"
      "restored_entry sample_rb_host Env sample_slot = Some (sample_file ''A=1'' 1000)" "restored_entry sample_rb_host Manifest sample_slot = None"
    by (simp_all add: restored_entry_def sample_targets sample_file_def copy_of_def sample_rb_host_def)
  ultimately show ?thesis
    using backup_restores_files [OF sample_backup sample_readable sample_yaml sample_lost_facts sample_markable, of "''/c''"]
    by (auto simp: exI [where x = True])
qed

lemma sample_next_again: "next_backup_path sample_saved sample_name = Inr (sample_name @ ''.2'')"
proof -
  have "backup_path_for_suffix sample_name 2 = Inr (sample_name @ ''.2'')" by code_simp
  then show ?thesis
    by (simp add: next_backup_path_def sample_name_key sample_saved_def entry_key_def sample_slot_def numeral_2_eq_2)
qed

theorem new_backup_is_latest_witness:
  "\<exists>s'. backup_agent_runtime_state sample_rb_host ''oc2'' sample_name ''now'' ''/m'' sample_saved = (Inr (sample_name @ ''.2''), s')
    \<and> latest_backup s' = Inr (Some (sample_name @ ''.2''))"
proof -
  have same: "target m sample_saved = target m sample_slot" for m by (cases m) (simp_all add: target_def sample_saved_def)
  have "small_files sample_saved" "regular_targets sample_saved" using sample_small by (simp_all add: small_files_def regular_targets_def same)
  moreover have "digests_of sample_rb_host sample_saved = digests_of sample_rb_host sample_slot" by (simp add: digests_of_def staged_entry_def same)
  then have "saved_dict sample_rb_host sample_saved ''now'' ''/m'' = saved_dict sample_rb_host sample_slot ''now'' ''/m''"
    by (simp add: saved_dict_def backup_metadata_def sample_saved_def)
  then have "readable sample_rb_host sample_saved ''now'' ''/m''" using sample_readable by (simp add: readable_def env_sized_def same)
  ultimately obtain folder where "stage_backup sample_rb_host sample_saved ''now'' ''/m'' = Inr folder" "regular_targets sample_saved"
    using stage_backup_ok by blast
  note made = backup_made [OF _ sample_next_again this(2,1), of "''oc2''"]
  let ?s = "sample_saved\<lparr>rs_backups := rs_backups sample_saved @ [(sample_name @ ''.2'', Some folder)]\<rparr>"
  have b: "backup_agent_runtime_state sample_rb_host ''oc2'' sample_name ''now'' ''/m'' sample_saved = (Inr (sample_name @ ''.2''), ?s)"
    by (rule made) (simp add: sample_saved_def sample_slot_def)
  have "latest_backup sample_saved = Inr (Some sample_name)"
    using stage_backup_Inr(3) [OF sample_staged]
    by (simp add: latest_backup_def sample_saved_def entry_key_def sample_name_key is_file_def sample_slot_def)
  from new_backup_is_latest [OF b this sample_name_key]
  have "latest_backup ?s = Inr (Some (sample_name @ ''.2''))" by (simp add: sample_saved_def entry_key_def sample_name_key)
  then show ?thesis using b by blast
qed

lemma sample_valid: "\<exists>d digest. validate_backup_integrity sample_rb_host sample_saved sample_name = Inr (d, digest)"
  using validate_saved [OF sample_staged sample_readable sample_name_key, of sample_saved] by (simp add: sample_saved_def)

theorem rollback_is_exclusive_witness:
  "\<exists>s'. begin_rollback_transaction sample_rb_host ''oc2'' sample_name (replicate 64 CHR ''0'') sample_saved = (Inr (), s')
    \<and> backup_agent_runtime_state sample_rb_host ''oc2'' sample_name ''later'' ''/m'' s' =
        (Inl (RuntimeError ''rollback transaction must be completed before a new apply''), s')"
proof -
  obtain d digest where "validate_backup_integrity sample_rb_host sample_saved sample_name = Inr (d, digest)" using sample_valid by blast
  from begin_unmarked [OF sample_markable this]
  have b: "begin_rollback_transaction sample_rb_host ''oc2'' sample_name (replicate 64 CHR ''0'') sample_saved =
      (Inr (), marked sample_rb_host ''oc2'' sample_name digest (replicate 64 CHR ''0'') sample_saved)"
    by (simp add: sample_saved_def sample_slot_def)
  from rollback_is_exclusive [OF this sample_markable] b show ?thesis by blast
qed

theorem changed_backup_is_refused_witness:
  "\<exists>e. restore_backup sample_rb_host ''oc2'' ''/c'' sample_name (replicate 64 CHR ''0'') None
      (sample_slot\<lparr>rs_backups := [(sample_name, Some (write_file (target_name Manifest) (sample_file ''x'' 0) sample_folder))]\<rparr>) =
    (Inl e, sample_slot\<lparr>rs_backups := [(sample_name, Some (write_file (target_name Manifest) (sample_file ''x'' 0) sample_folder))]\<rparr>)"
  unfolding sample_file_def
  by (rule changed_backup_is_refused [where m = Manifest, OF sample_backup sample_readable, of sample_folder])
    (simp_all add: sample_saved_def sample_targets)

end
