(* ===== verification/Spec2Isabelle.thy ===== *)
theory Spec2Isabelle
  imports Auth_Service_Properties Auth_Samples Usage_Samples Fstab_Samples Canary_Samples Backup_Samples
begin

text \<open>
  Verification of \<open>agent-runtime-ops\<close> (\<open>opsctl/agent_runtime_ops/\<close>): first of the root-action control plane
  (\<open>root_actions/\<close>), the root-owned broker process that accepts typed jobs from local peers, decides which of them may run,
  runs each at most once, and answers with sealed receipts; then of four parts of the host tool with a
  state of their own: the usage ledger, the managed lines of \<open>fstab\<close>, the canary transactions and the backup and rollback of a
  runtime.

  \<^bold>\<open>The program.\<close> A peer connects to a Unix socket and sends one length-prefixed canonical JSON frame
  (\<open>protocol.py\<close>). The listener (\<open>listener.py\<close>) reads it and the endpoint (\<open>endpoint.py\<close>) hands it to the broker
  (\<open>broker.py\<close>) or to the WebAuthn authorization service (\<open>auth_service.py\<close>, \<open>authorization.py\<close>). A submission is a typed
  manifest (\<open>contracts.py\<close>, \<open>registry.py\<close>) that is sealed to canonical bytes and a digest; \<open>submission.py\<close> admits the peer,
  \<open>execution.py\<close> says whether the operation is enabled, \<open>admission.py\<close> whether its lineage failed too often. The
  SQLite store (\<open>posix_store.py\<close>, \<open>storage.py\<close>) keeps jobs, one record per job that follows the state machine of
  \<open>state.py\<close>, an append-only ledger, receipts (\<open>receipts.py\<close>, \<open>observation.py\<close>) and the authorization tables. A claimed job goes
  to the worker (\<open>worker.py\<close>), which runs its handler and commits the outcome, or marks it unknown. Peers
  see the status, the history and the receipt through \<open>projection.py\<close> and \<open>public_projection.py\<close>.

  \<^bold>\<open>The host tool.\<close> \<open>commands/usage.py\<close> pulls pages of usage receipts from the product in a container, checks them against the contract
  of \<open>domain/usage_ledger.py\<close> and stores them through \<open>domain/usage_store.py\<close>, with one cursor per runtime. \<open>host/fstab.py\<close> keeps pairs
  of a marker and an entry in \<open>/etc/fstab\<close> and a backup of every version. \<open>domain/canary_transaction.py\<close> admits one pair of
  digests per slot, for one canary and its rollback. \<open>domain/runtime_backup.py\<close> saves the four managed files of a
  slot before a change, binds the backup in a transaction, and restores it.

  \<^bold>\<open>Conventions.\<close> Python text and bytes are \<open>string\<close> (bytes of UTF-8); integers are \<open>int\<close>; a raised exception is the left side
  of \<open>exn + 'a\<close>, sequenced by \<open>bindE\<close>, \<open>raise_if\<close> and \<open>raise_from\<close> (the \<open>except\<close> clause with the classes it catches).
  A table is a list of rows in the record \<open>store\<close>; a \<open>transaction\<close> returns the new store or leaves the old one.
  Components that call the store are actions on a \<open>world\<close> (store, events drawn, publications remembered), in which
  an exception does not undo what was committed. What the interpreter decides (recursion limit, Unicode tables,
  the text of a float) is the record \<open>pyenv\<close>. SHA-256 is computed by the model, and no lemma assumes that it has no collisions:
  where two digests must differ, the store tests it. The WebAuthn library, the handlers, the public
  sink, the event source and random bytes are parameters.

  \<^bold>\<open>Theories.\<close>
  \<^item> \<open>Prelude\<close>, \<open>Text_Formats\<close>, \<open>Timestamps\<close>, \<open>Sha256\<close>, \<open>Json\<close>, \<open>Safe_Text\<close>: exceptions, UTF-8, \<open>strptime\<close> and \<open>strftime\<close> of the one
    format in use, SHA-256, \<open>json.loads\<close> and \<open>json.dumps\<close> with their limits, the text checks all modules share. JSON is read back
    from what is written, and timestamps are ordered as texts as they are in time. \<open>Sha256_Evaluation\<close> evaluates SHA-256 on lists of bits, shows that this is the function of
    \<open>Sha256\<close> and checks it on the example of FIPS 180-4.
  \<^item> \<open>Registry\<close>, \<open>Contracts\<close>: the typed operations and the sealing of manifests, which is idempotent.
  \<^item> \<open>Job_State\<close>: the record and \<open>apply_transition\<close> with all its checks, refined to \<open>accepts\<close> and \<open>advance\<close>; at most
    one claim in every history, six possible life cycles.
  \<^item> \<open>Observation\<close>, \<open>Receipts\<close>, \<open>Notices\<close>: sanitized results and the four kinds of receipts; the notices the broker and the worker
    write themselves always seal.
  \<^item> \<open>Policies\<close>: execution policies, handlers, lineage failure policy, submission limits.
  \<^item> \<open>Authorization\<close>, \<open>Auth_Service\<close>, \<open>Auth_Service_Properties\<close>: records, challenges, the strict adapter around the library,
    the ceremonies; an approval starts exactly the job its challenge names, once.
  \<^item> \<open>Store\<close>, \<open>Auth_Store\<close>: every operation of the store. \<open>Store_Invariant\<close>, \<open>Store_Receipts\<close>, \<open>Store_Runs\<close>: the invariants of the
    ledger, the receipts and the approvals, the relation \<open>store_step\<close> with one rule per operation, and \<open>reachable\<close>.
    \<open>Store_Properties\<close>, \<open>Auth_Properties\<close>: records are replays of the ledger, nothing final changes, limits hold,
    ceremonies and approvals are used once.
  \<^item> \<open>Actions\<close>, \<open>Worker\<close>, \<open>Worker_Properties\<close>: clients of the store, the queue, the execution of a claim and the recovery at
    start-up; a claim is settled or unknown, never dropped.
  \<^item> \<open>Protocol\<close>, \<open>Projection\<close>, \<open>Public_Projection\<close>: frames and requests, the status and history views, the sealed public document and
    its validation; the history accepts exactly the traces of the state machine.
  \<^item> \<open>Submission\<close>, \<open>Broker\<close>, \<open>Broker_Properties\<close>, \<open>Endpoint\<close>: admission of a peer, submission and retry, dispatch, publication,
    the dispatch of requests and the serving loop; the loop keeps the invariants of all components whatever the peers send,
    and a request whose method cannot be hashed ends it.
  \<^item> \<open>Py_Text\<close>, \<open>Json_Indent\<close>, \<open>Files\<close>: the string methods and dates of the host tool, the indented and the ASCII form of
    \<open>json.dumps\<close>, which are read back, and the atomic replacement of a file (\<open>host/files.py\<close>).
  \<^item> \<open>Routing\<close>, \<open>Usage_Ledger\<close>, \<open>Usage_Store\<close>, \<open>Usage_Collect\<close>, \<open>Usage_Properties\<close>: the binding of a runtime, the contract of receipts,
    exports and coverage, the tables, and the collection; pages are stored once, a conflict leaves its
    evidence, the cursor moves only along exported pages of which every receipt is stored, and the page loop ends.
  \<^item> \<open>Fstab\<close>, \<open>Fstab_Properties\<close>: a managed mount is written once and read back, foreign lines stay, versions are kept.
  \<^item> \<open>Canary\<close>, \<open>Canary_Properties\<close>: a sealed pair is used once.
  \<^item> \<open>Runtime_Backup\<close>, \<open>Backup_Properties\<close>: a backup restores what it saved, a changed one is refused, one
    rollback is pending at a time, and the latest backup is the newest.
  \<^item> \<open>Auth_Samples\<close>: a run of the store from the empty database to a claimed approval.
  \<^item> \<open>Usage_Samples\<close>, \<open>Fstab_Samples\<close>, \<open>Canary_Samples\<close>, \<open>Backup_Samples\<close>: these properties at concrete inputs.

  \<^bold>\<open>Interfaces.\<close> \<open>store_preorder\<close> (\<open>Store_Invariant\<close>) is what a relation has to satisfy on the primitive writes to be kept by
  every operation on jobs, and \<open>step_preorder\<close> (\<open>Actions\<close>) extends it to the authorization tables; they are interpreted
  for the growth of the store, the ledger and receipt invariants, verified jobs and positive sequence numbers. \<open>length_framed\<close> (\<open>Protocol\<close>) is the contract of a
  framing, interpreted for requests, responses and submissions. \<open>publication\<close> and \<open>store_publication\<close> (\<open>Broker\<close>) are what a relation on worlds has to allow to be kept by
  reads and repairs, and by submissions, ceremonies and the serving loop; they are interpreted for
  worlds with the same store, for the bound on remembered publications and for runs of the store.

  \<^bold>\<open>Bounds and recursion.\<close> The JSON scanner recurses on a nesting budget, the recursion limit of the interpreter, and
  running out of it is the \<open>RecursionError\<close> of the code. All other recursions are structural or have a measure; no fuel is used
  and no function is partial. The page loop of the usage collection recurses on the page limit of its caller; with a
  bounded watermark a higher limit changes nothing. Waiting of threads is not modelled: a turn of the worker or a
  connection of the listener is one step, and the commits of other clients meanwhile are a parameter
  (\<open>meanwhile\<close>) at the points where the code handles a race.

  \<^bold>\<open>Not modelled.\<close> The operating system: sockets, locks, file ownership and modes, the atomic replacement of published files and catalog generations,
  opening and migrating the database, the start-up of the process (\<open>service.py\<close>). The parsing of the WebAuthn policy from the
  environment. \<open>local_fixture.py\<close>, an in-memory double of the store. The read-only tools over published files
  (\<open>catalog.py\<close>, \<open>inventory.py\<close>, \<open>client.py\<close>) and the handlers that call host commands (\<open>groupware_reobservation.py\<close>). In the host tool:
  the cost projection of the usage ledger (\<open>usage_cost.py\<close>, decimal arithmetic and exchange rates) and the defaults file of its database; the import of
  legacy backups, the locks, the checks and the creation of directories and the callback before the first write in \<open>runtime_backup.py\<close>, which assume that root alone writes there and
  that the locks serialise the operations; the validators and the file of the bindings (\<open>routing.py\<close>). The rest of the
  repository is command-line orchestration of host tools, Docker, templates and files, whose effects are those of the
  commands it calls.
\<close>

end
